(* ===== verification/Storage_Model.thy ===== *)
theory Storage_Model
  imports Pit_Prelude
begin

text \<open>
  The generic storage of \<open>crates/openpit/src/storage/storage.rs\<close>: a map with closure-based
  access. A mutator is a function from the slot to the new slot and its output; where the code
  passes \<open>is_new\<close>, it takes that flag as its second argument. The operations with a fast path
  under the shared index lock and a slow path under the exclusive one are modelled as these two
  stages: the slow stage is a function of the state at the moment the exclusive lock is taken, and
  the theorem \<open>slow_paths_linearize\<close> shows that the operation has its specified effect
  whatever other threads did between the stages.

  The re-entry detector of debug builds is modelled too, with \<open>None\<close> for the panic.

  The interface that the components over a storage rely on is the locale \<open>keyed_storage\<close>.
\<close>

section \<open>Storage\<close>

type_synonym ('k, 'v) storage = "('k, 'v) hash_map"

definition storage_with :: "('k, 'v) storage \<Rightarrow> 'k \<Rightarrow> ('v \<Rightarrow> 'o) \<Rightarrow> 'o option" where
  "storage_with data key reader = map_option reader (hm_get data key)"

definition with_mut_if_present ::
  "('k, 'v) storage \<Rightarrow> 'k \<Rightarrow> ('v \<Rightarrow> 'v \<times> 'o) \<Rightarrow> ('k, 'v) storage \<times> 'o option" where
  "with_mut_if_present data key mutator =
     (case hm_get data key of
        None \<Rightarrow> (data, None)
      | Some v \<Rightarrow> (case mutator v of (v', out) \<Rightarrow> (hm_insert data key v', Some out)))"

definition with_mut_if_present_exclusive_index ::
  "('k, 'v) storage \<Rightarrow> 'k \<Rightarrow> ('v \<Rightarrow> 'v \<times> 'o) \<Rightarrow> ('k, 'v) storage \<times> 'o option" where
  "with_mut_if_present_exclusive_index data key mutator =
     (case hm_get data key of
        None \<Rightarrow> (data, None)
      | Some v \<Rightarrow> (case mutator v of (v', out) \<Rightarrow> (hm_insert data key v', Some out)))"

definition with_mut_exclusive_index ::
  "('k, 'v) storage \<Rightarrow> 'k \<Rightarrow> 'v \<Rightarrow> ('v \<Rightarrow> bool \<Rightarrow> 'v \<times> 'o) \<Rightarrow> ('k, 'v) storage \<times> 'o" where
  "with_mut_exclusive_index data key init mutator =
     (let (value, inserted) =
        (case hm_get data key of Some v \<Rightarrow> (v, False) | None \<Rightarrow> (init, True))
      in case mutator value inserted of (v', out) \<Rightarrow> (hm_insert data key v', out))"

definition insert_if_absent_slow ::
  "('k, 'v) storage \<Rightarrow> 'k \<Rightarrow> 'v \<Rightarrow> ('k, 'v) storage \<times> bool" where
  "insert_if_absent_slow data key init =
     (case hm_get data key of
        Some _ \<Rightarrow> (data, False)
      | None \<Rightarrow> (hm_insert data key init, True))"

definition insert_if_absent ::
  "('k, 'v) storage \<Rightarrow> 'k \<Rightarrow> 'v \<Rightarrow> ('k, 'v) storage \<times> bool" where
  "insert_if_absent data key init =
     (if hm_get data key \<noteq> None then (data, False) else insert_if_absent_slow data key init)"

definition with_mut_slow ::
  "('k, 'v) storage \<Rightarrow> 'k \<Rightarrow> 'v \<Rightarrow> ('v \<Rightarrow> bool \<Rightarrow> 'v \<times> 'o) \<Rightarrow> ('k, 'v) storage \<times> 'o" where
  "with_mut_slow data key init mutator =
     (let (value, already_present) =
        (case hm_get data key of Some v \<Rightarrow> (v, True) | None \<Rightarrow> (init, False))
      in case mutator value (\<not> already_present) of (v', out) \<Rightarrow> (hm_insert data key v', out))"

definition with_mut ::
  "('k, 'v) storage \<Rightarrow> 'k \<Rightarrow> 'v \<Rightarrow> ('v \<Rightarrow> bool \<Rightarrow> 'v \<times> 'o) \<Rightarrow> ('k, 'v) storage \<times> 'o" where
  "with_mut data key init mutator =
     (case hm_get data key of
        Some v \<Rightarrow> (case mutator v False of (v', out) \<Rightarrow> (hm_insert data key v', out))
      | None \<Rightarrow> with_mut_slow data key init mutator)"

definition with_mut_or_insert_prune_new_if_slow ::
  "('k, 'v) storage \<Rightarrow> 'k \<Rightarrow> 'v \<Rightarrow> ('v \<Rightarrow> bool) \<Rightarrow> ('v \<Rightarrow> bool \<Rightarrow> 'v \<times> ('e + 'o)) \<Rightarrow>
   ('k, 'v) storage \<times> ('e + 'o)" where
  "with_mut_or_insert_prune_new_if_slow data key init prune_if mutator =
     (let (value, already_present) =
        (case hm_get data key of Some v \<Rightarrow> (v, True) | None \<Rightarrow> (init, False));
        (v', result) = mutator value (\<not> already_present);
        data = hm_insert data key v'
      in if \<not> already_present
         then (let should_remove = (case result of Inl _ \<Rightarrow> True | Inr _ \<Rightarrow> prune_if v')
               in if should_remove then (hm_remove data key, result) else (data, result))
         else (data, result))"

definition with_mut_or_insert_prune_new_if ::
  "('k, 'v) storage \<Rightarrow> 'k \<Rightarrow> 'v \<Rightarrow> ('v \<Rightarrow> bool) \<Rightarrow> ('v \<Rightarrow> bool \<Rightarrow> 'v \<times> ('e + 'o)) \<Rightarrow>
   ('k, 'v) storage \<times> ('e + 'o)" where
  "with_mut_or_insert_prune_new_if data key init prune_if mutator =
     (case hm_get data key of
        Some v \<Rightarrow> (case mutator v False of (v', result) \<Rightarrow> (hm_insert data key v', result))
      | None \<Rightarrow> with_mut_or_insert_prune_new_if_slow data key init prune_if mutator)"

definition with_mut_or_insert ::
  "('k, 'v) storage \<Rightarrow> 'k \<Rightarrow> 'v \<Rightarrow> ('v \<Rightarrow> bool \<Rightarrow> 'v \<times> ('e + 'o)) \<Rightarrow>
   ('k, 'v) storage \<times> ('e + 'o)" where
  "with_mut_or_insert data key init mutator =
     with_mut_or_insert_prune_new_if data key init (\<lambda>_. False) mutator"

definition storage_remove :: "('k, 'v) storage \<Rightarrow> 'k \<Rightarrow> ('k, 'v) storage \<times> bool" where
  "storage_remove data key = (hm_remove data key, hm_get data key \<noteq> None)"

definition storage_remove_if ::
  "('k, 'v) storage \<Rightarrow> 'k \<Rightarrow> ('v \<Rightarrow> bool) \<Rightarrow> ('k, 'v) storage \<times> bool" where
  "storage_remove_if data key predicate =
     (case hm_get data key of
        Some v \<Rightarrow> if predicate v then (hm_remove data key, True) else (data, False)
      | None \<Rightarrow> (data, False))"

definition storage_len :: "('k, 'v) storage \<Rightarrow> nat" where
  "storage_len data = length data"

definition storage_is_empty :: "('k, 'v) storage \<Rightarrow> bool" where
  "storage_is_empty data \<longleftrightarrow> storage_len data = 0"

definition storage_keys :: "('k, 'v) storage \<Rightarrow> 'k list" where
  "storage_keys data = hm_keys data"

section \<open>The re-entry detector\<close>

record local_values_state =
  read_depth :: nat
  write_held :: bool

definition local_values_default :: local_values_state where
  "local_values_default = \<lparr>read_depth = 0, write_held = False\<rparr>"

type_synonym values_holds = "(nat, local_values_state) hash_map"

definition holds_entry :: "values_holds \<Rightarrow> nat \<Rightarrow> local_values_state" where
  "holds_entry holds key =
     (case hm_get holds key of Some state \<Rightarrow> state | None \<Rightarrow> local_values_default)"

definition acquire_values_read :: "values_holds \<Rightarrow> nat \<Rightarrow> values_holds option" where
  "acquire_values_read holds key =
     (let state = holds_entry holds key
      in if write_held state then None
         else Some (hm_insert holds key (state\<lparr>read_depth := read_depth state + 1\<rparr>)))"

definition acquire_values_write :: "values_holds \<Rightarrow> nat \<Rightarrow> values_holds option" where
  "acquire_values_write holds key =
     (let state = holds_entry holds key
      in if read_depth state \<noteq> 0 then None
         else if write_held state then None
         else Some (hm_insert holds key (state\<lparr>write_held := True\<rparr>)))"

definition drop_values_read :: "values_holds \<Rightarrow> nat \<Rightarrow> values_holds" where
  "drop_values_read holds key =
     (case hm_get holds key of
        None \<Rightarrow> holds
      | Some state \<Rightarrow>
          (let state = state\<lparr>read_depth := read_depth state - 1\<rparr>
           in if read_depth state = 0 \<and> \<not> write_held state then hm_remove holds key
              else hm_insert holds key state))"

definition drop_values_write :: "values_holds \<Rightarrow> nat \<Rightarrow> values_holds" where
  "drop_values_write holds key =
     (case hm_get holds key of
        None \<Rightarrow> holds
      | Some state \<Rightarrow>
          (let state = state\<lparr>write_held := False\<rparr>
           in if read_depth state = 0 then hm_remove holds key
              else hm_insert holds key state))"

section \<open>What an operation does to one key\<close>

text \<open>The value of the slot after a mutation that inserts on demand.\<close>

definition slot_after ::
  "'v option \<Rightarrow> 'v \<Rightarrow> ('v \<Rightarrow> bool) \<Rightarrow> ('v \<Rightarrow> bool \<Rightarrow> 'v \<times> ('e + 'o)) \<Rightarrow> 'v option" where
  "slot_after slot init prune_if mutator =
     (case slot of
        Some v \<Rightarrow> Some (fst (mutator v False))
      | None \<Rightarrow>
          (case mutator init True of
             (_, Inl _) \<Rightarrow> None
           | (v', Inr _) \<Rightarrow> if prune_if v' then None else Some v'))"

definition slot_output ::
  "'v option \<Rightarrow> 'v \<Rightarrow> ('v \<Rightarrow> bool \<Rightarrow> 'v \<times> 'r) \<Rightarrow> 'r" where
  "slot_output slot init mutator =
     (case slot of Some v \<Rightarrow> snd (mutator v False) | None \<Rightarrow> snd (mutator init True))"

section \<open>The interface of a storage\<close>

locale keyed_storage =
  fixes lookup :: "'s \<Rightarrow> 'k \<Rightarrow> 'v option"
    and mutate :: "'s \<Rightarrow> 'k \<Rightarrow> 'v \<Rightarrow> ('v \<Rightarrow> bool) \<Rightarrow> ('v \<Rightarrow> bool \<Rightarrow> 'v \<times> ('e + 'o)) \<Rightarrow> 's \<times> ('e + 'o)"
    and discard :: "'s \<Rightarrow> 'k \<Rightarrow> ('v \<Rightarrow> bool) \<Rightarrow> 's \<times> bool"
  assumes lookup_mutate:
      "lookup (fst (mutate s k d p m)) j =
         (if j = k then slot_after (lookup s k) d p m else lookup s j)"
    and mutate_output: "snd (mutate s k d p m) = slot_output (lookup s k) d m"
    and lookup_discard:
      "lookup (fst (discard s k q)) j =
         (if j = k \<and> (\<exists>v. lookup s k = Some v \<and> q v) then None else lookup s j)"
    and discard_output: "snd (discard s k q) \<longleftrightarrow> (\<exists>v. lookup s k = Some v \<and> q v)"
begin

lemma mutate_error_on_absent:
  assumes "lookup s k = None" and "snd (mutate s k d p m) = Inl e"
  shows "lookup (fst (mutate s k d p m)) = lookup s"
  using assms by (auto simp: lookup_mutate mutate_output slot_after_def slot_output_def fun_eq_iff
      split: prod.splits sum.splits)

lemma mutate_never_keeps_pruned:
  assumes "lookup s k = None" and "lookup (fst (mutate s k d p m)) k = Some v"
  shows "\<not> p v \<and> (\<exists>r. m d True = (v, Inr r))"
  using assms by (auto simp: lookup_mutate slot_after_def split: prod.splits sum.splits if_splits)

lemma mutate_grows_domain:
  "lookup s j \<noteq> None \<Longrightarrow> lookup (fst (mutate s k d p m)) j \<noteq> None"
  by (auto simp: lookup_mutate slot_after_def)

lemma discard_keeps_others:
  "lookup (fst (discard s k q)) j = Some v \<Longrightarrow> lookup s j = Some v"
  by (auto simp: lookup_discard split: if_splits)

end

section \<open>The model satisfies the interface\<close>

lemma prune_slow_lookup:
  "hm_get (fst (with_mut_or_insert_prune_new_if_slow data key d p m)) j =
     (if j = key then slot_after (hm_get data key) d p m else hm_get data j)"
  by (auto simp: with_mut_or_insert_prune_new_if_slow_def slot_after_def Let_def
      split: option.splits prod.splits sum.splits)

lemma prune_slow_output:
  "snd (with_mut_or_insert_prune_new_if_slow data key d p m) = slot_output (hm_get data key) d m"
  by (auto simp: with_mut_or_insert_prune_new_if_slow_def slot_output_def Let_def
      split: option.splits prod.splits sum.splits)

lemma prune_fast_eq_slow:
  "with_mut_or_insert_prune_new_if data key d p m =
   with_mut_or_insert_prune_new_if_slow data key d p m"
  by (auto simp: with_mut_or_insert_prune_new_if_def with_mut_or_insert_prune_new_if_slow_def
      split: option.splits prod.splits)

interpretation st: keyed_storage
  "map_of" "with_mut_or_insert_prune_new_if" "storage_remove_if"
proof (unfold_locales, goal_cases)
  case (3 s k q j)
  then show ?case by (auto simp: storage_remove_if_def split: option.splits)
next
  case (4 s k q)
  then show ?case by (auto simp: storage_remove_if_def split: option.splits)
qed (simp_all add: prune_fast_eq_slow prune_slow_lookup prune_slow_output)

lemma with_mut_lookup:
  "hm_get (fst (with_mut data key d m)) j =
     (if j = key
      then Some (case hm_get data key of Some v \<Rightarrow> fst (m v False) | None \<Rightarrow> fst (m d True))
      else hm_get data j)"
  by (auto simp: with_mut_def with_mut_slow_def split: option.splits prod.splits)

lemma with_mut_output: "snd (with_mut data key d m) = slot_output (hm_get data key) d m"
  by (auto simp: with_mut_def with_mut_slow_def slot_output_def split: option.splits prod.splits)

lemma with_mut_if_present_lookup:
  "hm_get (fst (with_mut_if_present data key m)) j =
     (if j = key then map_option (\<lambda>v. fst (m v)) (hm_get data key) else hm_get data j)"
  by (auto simp: with_mut_if_present_def split: option.splits prod.splits)

lemma storage_ops_hm_ok:
  assumes "hm_ok data"
  shows "hm_ok (fst (with_mut data key d m))" and "hm_ok (fst (with_mut_if_present data key m1))"
    and "hm_ok (fst (with_mut_or_insert_prune_new_if data key d p m2))"
    and "hm_ok (fst (storage_remove_if data key q))" and "hm_ok (fst (storage_remove data key))"
  using assms
  by (auto simp: with_mut_def with_mut_slow_def with_mut_if_present_def storage_remove_if_def
      with_mut_or_insert_prune_new_if_def with_mut_or_insert_prune_new_if_slow_def
      storage_remove_def Let_def split: option.splits prod.splits sum.splits)

section \<open>Holds of the re-entry detector\<close>

definition holds_ok :: "values_holds \<Rightarrow> bool" where
  "holds_ok holds \<longleftrightarrow> hm_ok holds \<and>
     (\<forall>key state. hm_get holds key = Some state \<longrightarrow>
        (read_depth state > 0) \<noteq> write_held state)"

lemma holds_ok_read:
  "holds_ok holds \<Longrightarrow> acquire_values_read holds key = Some holds' \<Longrightarrow> holds_ok holds'"
  by (auto simp: holds_ok_def acquire_values_read_def holds_entry_def local_values_default_def
      Let_def split: if_splits option.splits)

lemma holds_ok_write:
  "holds_ok holds \<Longrightarrow> acquire_values_write holds key = Some holds' \<Longrightarrow> holds_ok holds'"
  by (auto simp: holds_ok_def acquire_values_write_def holds_entry_def local_values_default_def
      Let_def split: if_splits option.splits)

lemma holds_okD:
  "holds_ok holds \<Longrightarrow> hm_get holds key = Some state \<Longrightarrow>
   write_held state = (read_depth state = 0)"
  unfolding holds_ok_def by (metis gr0I less_numeral_extra(3))

lemma drop_read_restores:
  "holds_ok holds \<Longrightarrow> acquire_values_read holds key = Some holds' \<Longrightarrow>
   hm_get (drop_values_read holds' key) = hm_get holds"
  by (auto dest!: holds_okD simp: acquire_values_read_def drop_values_read_def holds_entry_def
      local_values_default_def Let_def fun_eq_iff split: if_splits option.splits)

lemma drop_write_restores:
  "holds_ok holds \<Longrightarrow> acquire_values_write holds key = Some holds' \<Longrightarrow>
   hm_get (drop_values_write holds' key) = hm_get holds"
  by (auto dest!: holds_okD simp: acquire_values_write_def drop_values_write_def holds_entry_def
      local_values_default_def Let_def fun_eq_iff split: if_splits option.splits)

section \<open>Properties\<close>

text \<open>
  The double-checked operations of a storage are linearizable at the moment the exclusive
  lock is taken: whatever state the other threads leave between the shared-lock lookup that missed
  and the exclusive-lock stage, that stage has exactly the effect and output of the whole operation
  run atomically on that state. In particular a slot that appeared in between is mutated in place,
  with \<open>is_new\<close> false, and never overwritten by the default.
\<close>

lemma slow_paths_linearize:
  "with_mut_slow data key d m = with_mut data key d m \<and>
   with_mut_or_insert_prune_new_if_slow data key d p m2 =
     with_mut_or_insert_prune_new_if data key d p m2 \<and>
   insert_if_absent_slow data key d = insert_if_absent data key d"
  by (auto simp: prune_fast_eq_slow with_mut_def with_mut_slow_def insert_if_absent_def
      insert_if_absent_slow_def split: option.splits)

text \<open>
  A fallible insert-or-mutate is transactional on an absent key: when the mutator fails the
  storage reads exactly as before at every key, and when it succeeds on a slot that the prune
  predicate accepts the new slot is not left behind; on a present key the mutator's write stays
  even when it reports an error.
\<close>

lemma insert_or_mutate_transactional:
  "with_mut_or_insert_prune_new_if data key d p m = (data', result) \<longrightarrow>
   (case hm_get data key of
      None \<Rightarrow> (case result of
                 Inl _ \<Rightarrow> hm_get data' = hm_get data
               | Inr _ \<Rightarrow> hm_get data' =
                   (if p (fst (m d True)) then hm_get data
                    else (hm_get data)(key \<mapsto> fst (m d True))))
    | Some v \<Rightarrow> hm_get data' = (hm_get data)(key \<mapsto> fst (m v False)))"
  using st.lookup_mutate [of data key d p m] st.mutate_output [of data key d p m]
  by (auto simp: slot_after_def slot_output_def fun_eq_iff split: option.splits sum.splits
      prod.splits)

text \<open>
  The re-entry detector never lets a read hold and a write hold of one storage coexist on a
  thread, write holds never stack, and dropping a hold restores the table of holds.
\<close>

lemma reentry_holds_exclusive:
  assumes "holds_ok holds"
  shows "(case acquire_values_read holds key of
      None \<Rightarrow> write_held (holds_entry holds key)
    | Some holds' \<Rightarrow> holds_ok holds' \<and> hm_get (drop_values_read holds' key) = hm_get holds) \<and>
   (case acquire_values_write holds key of
      None \<Rightarrow> write_held (holds_entry holds key) \<or> 0 < read_depth (holds_entry holds key)
    | Some holds' \<Rightarrow> holds_ok holds' \<and> hm_get (drop_values_write holds' key) = hm_get holds \<and>
        acquire_values_write holds' key = None \<and> acquire_values_read holds' key = None)"
proof -
  have r: "acquire_values_read holds key = None \<Longrightarrow> write_held (holds_entry holds key)"
    by (simp add: acquire_values_read_def Let_def split: if_splits)
  have w: "acquire_values_write holds key = None \<Longrightarrow>
      write_held (holds_entry holds key) \<or> 0 < read_depth (holds_entry holds key)"
    by (auto simp: acquire_values_write_def Let_def split: if_splits)
  have ww: "acquire_values_write holds key = Some holds' \<Longrightarrow>
      acquire_values_write holds' key = None \<and> acquire_values_read holds' key = None" for holds'
    by (auto simp: acquire_values_write_def acquire_values_read_def holds_entry_def Let_def
        split: if_splits)
  show ?thesis
  proof (intro conjI)
    show "case acquire_values_read holds key of
        None \<Rightarrow> write_held (holds_entry holds key)
      | Some holds' \<Rightarrow> holds_ok holds' \<and> hm_get (drop_values_read holds' key) = hm_get holds"
      using r holds_ok_read [OF assms] drop_read_restores [OF assms]
      by (cases "acquire_values_read holds key") simp_all
    show "case acquire_values_write holds key of
        None \<Rightarrow> write_held (holds_entry holds key) \<or> 0 < read_depth (holds_entry holds key)
      | Some holds' \<Rightarrow> holds_ok holds' \<and> hm_get (drop_values_write holds' key) = hm_get holds \<and>
          acquire_values_write holds' key = None \<and> acquire_values_read holds' key = None"
      using w ww holds_ok_write [OF assms] drop_write_restores [OF assms]
      by (cases "acquire_values_write holds key") simp_all
  qed
qed

end
