(* ===== verification/Identifiers.thy ===== *)
theory Identifiers
  imports Pit_Prelude "HOL-Library.Char_ord"
begin

text \<open>
  The identifiers of \<open>crates/openpit/src/param\<close>: \<open>Asset\<close> (any text that is not
  blank), \<open>AccountId\<close> (a 64-bit number, or the FNV-1a hash of a text) and
  \<open>AccountGroupId\<close> (a 32-bit number, zero being the reserved default group).
\<close>

unbundle bit_operations_syntax

section \<open>Blank texts\<close>

text \<open>
  \<open>str::trim\<close> removes the characters with the Unicode property White\_Space; a text is
  blank when nothing is left. The scan below reads the UTF-8 encodings of those characters.
\<close>

definition ascii_space :: "nat \<Rightarrow> bool" where
  "ascii_space b \<longleftrightarrow> 9 \<le> b \<and> b \<le> 13 \<or> b = 32"

fun blank_bytes :: "nat list \<Rightarrow> bool" where
  "blank_bytes [] = True"
| "blank_bytes (b # bs) =
     (if ascii_space b then blank_bytes bs
      else case bs of
        [] \<Rightarrow> False
      | c # cs \<Rightarrow>
          if b = 0xC2 \<and> (c = 0x85 \<or> c = 0xA0) then blank_bytes cs
          else case cs of
            [] \<Rightarrow> False
          | d # ds \<Rightarrow>
              if b = 0xE1 \<and> c = 0x9A \<and> d = 0x80 \<or>
                 b = 0xE2 \<and> c = 0x80 \<and>
                   (0x80 \<le> d \<and> d \<le> 0x8A \<or> d = 0xA8 \<or> d = 0xA9 \<or> d = 0xAF) \<or>
                 b = 0xE2 \<and> c = 0x81 \<and> d = 0x9F \<or>
                 b = 0xE3 \<and> c = 0x80 \<and> d = 0x80
              then blank_bytes ds else False)"

definition trim_is_empty :: "string \<Rightarrow> bool" where
  "trim_is_empty s = blank_bytes (map of_char s)"

section \<open>Assets\<close>

type_synonym asset = string

datatype asset_error = AssetError_Empty

definition asset_new :: "string \<Rightarrow> asset_error + asset" where
  "asset_new value = (if trim_is_empty value then Inl AssetError_Empty else Inr value)"

section \<open>Account identifiers\<close>

type_synonym account_id = u64

datatype account_id_error = AccountIdError_Empty

fun fnv1a_64_loop :: "u64 \<Rightarrow> string \<Rightarrow> u64" where
  "fnv1a_64_loop hash [] = hash"
| "fnv1a_64_loop hash (byte # rest) =
     fnv1a_64_loop ((hash XOR of_char byte) * 1099511628211) rest"

definition fnv1a_64 :: "string \<Rightarrow> u64" where
  "fnv1a_64 s = fnv1a_64_loop 14695981039346656037 s"

definition account_id_from_u64 :: "u64 \<Rightarrow> account_id" where
  "account_id_from_u64 value = value"

definition account_id_from_str :: "string \<Rightarrow> account_id_error + account_id" where
  "account_id_from_str value =
     (if trim_is_empty value then Inl AccountIdError_Empty else Inr (fnv1a_64 value))"

section \<open>Account-group identifiers\<close>

type_synonym account_group_id = u32

definition DEFAULT_ACCOUNT_GROUP :: account_group_id where
  "DEFAULT_ACCOUNT_GROUP = 0"

datatype account_group_id_error = AccountGroupIdError_Empty | AccountGroupIdError_Reserved

fun fnv1a_32_loop :: "u32 \<Rightarrow> string \<Rightarrow> u32" where
  "fnv1a_32_loop hash [] = hash"
| "fnv1a_32_loop hash (byte # rest) =
     fnv1a_32_loop ((hash XOR of_char byte) * 16777619) rest"

definition fnv1a_32 :: "string \<Rightarrow> u32" where
  "fnv1a_32 s = fnv1a_32_loop 2166136261 s"

definition non_default_hash :: "u32 \<Rightarrow> u32" where
  "non_default_hash hash = (if hash = DEFAULT_ACCOUNT_GROUP then 1 else hash)"

definition account_group_id_from_u32 ::
  "u32 \<Rightarrow> account_group_id_error + account_group_id" where
  "account_group_id_from_u32 value =
     (if value = DEFAULT_ACCOUNT_GROUP then Inl AccountGroupIdError_Reserved else Inr value)"

definition account_group_id_from_str ::
  "string \<Rightarrow> account_group_id_error + account_group_id" where
  "account_group_id_from_str value =
     (if trim_is_empty value then Inl AccountGroupIdError_Empty
      else Inr (non_default_hash (fnv1a_32 value)))"

section \<open>Lemmas\<close>

lemma fnv1a_64_loop_append:
  "fnv1a_64_loop h (s @ t) = fnv1a_64_loop (fnv1a_64_loop h s) t"
  by (induction s arbitrary: h) simp_all

lemma fnv1a_32_loop_append:
  "fnv1a_32_loop h (s @ t) = fnv1a_32_loop (fnv1a_32_loop h s) t"
  by (induction s arbitrary: h) simp_all

lemma non_default_hash_nonzero [simp]: "non_default_hash h \<noteq> DEFAULT_ACCOUNT_GROUP"
  by (simp add: non_default_hash_def DEFAULT_ACCOUNT_GROUP_def)

section \<open>Properties\<close>

text \<open>
  No constructor of an account-group identifier can produce the reserved default group: a
  number is refused exactly when it is the reserved value, and a text that is not blank is always
  accepted and hashed to another value.
\<close>

lemma default_group_unreachable:
  "(account_group_id_from_u32 n = Inl AccountGroupIdError_Reserved \<longleftrightarrow> n = DEFAULT_ACCOUNT_GROUP) \<and>
   account_group_id_from_u32 n \<noteq> Inr DEFAULT_ACCOUNT_GROUP \<and>
   account_group_id_from_str s \<noteq> Inr DEFAULT_ACCOUNT_GROUP \<and>
   (account_group_id_from_str s = Inl AccountGroupIdError_Empty \<longleftrightarrow> trim_is_empty s)"
  by (auto simp: account_group_id_from_u32_def account_group_id_from_str_def)

end
