(* ===== verification/Account_Groups.thy ===== *)
theory Account_Groups
  imports Storage_Model Identifiers
begin

text \<open>
  The membership registry of \<open>crates/openpit/src/core/account_groups.rs\<close>: each account belongs
  to at most one non-default group. Registration and removal of several accounts run in one
  exclusive section, so each is one function of the registry.
\<close>

section \<open>The registry\<close>

datatype account_group_error = GroupErr_ReservedGroup
  | AlreadyRegistered account_id account_group_id
  | NotInGroup account_id account_group_id "account_group_id option"

type_synonym memberships = "(account_id, account_group_id) storage"

definition group_of :: "memberships \<Rightarrow> account_id \<Rightarrow> account_group_id option" where
  "group_of m account = storage_with m account (\<lambda>grp. grp)"

text \<open>The checking loop returns the first offending account.\<close>

fun register_check :: "memberships \<Rightarrow> account_id list \<Rightarrow> account_group_error option" where
  "register_check m [] = None"
| "register_check m (account # rest) =
     (case storage_with m account (\<lambda>grp. grp) of
        Some current_group \<Rightarrow> Some (AlreadyRegistered account current_group)
      | None \<Rightarrow> register_check m rest)"

fun register_insert :: "memberships \<Rightarrow> account_id list \<Rightarrow> account_group_id \<Rightarrow> memberships" where
  "register_insert m [] grp = m"
| "register_insert m (account # rest) grp =
     register_insert (fst (with_mut m account grp (\<lambda>slot _. (grp, ())))) rest grp"

definition register_group ::
  "memberships \<Rightarrow> account_id list \<Rightarrow> account_group_id \<Rightarrow>
   memberships \<times> (account_group_error + unit)" where
  "register_group m accounts grp =
     (if grp = DEFAULT_ACCOUNT_GROUP then (m, Inl GroupErr_ReservedGroup)
      else case register_check m accounts of
             Some e \<Rightarrow> (m, Inl e)
           | None \<Rightarrow> (register_insert m accounts grp, Inr ()))"

fun unregister_check ::
  "memberships \<Rightarrow> account_id list \<Rightarrow> account_group_id \<Rightarrow> account_group_error option" where
  "unregister_check m [] grp = None"
| "unregister_check m (account # rest) grp =
     (let current_group = storage_with m account (\<lambda>grp. grp)
      in if current_group \<noteq> Some grp then Some (NotInGroup account grp current_group)
         else unregister_check m rest grp)"

fun unregister_remove :: "memberships \<Rightarrow> account_id list \<Rightarrow> memberships" where
  "unregister_remove m [] = m"
| "unregister_remove m (account # rest) = unregister_remove (fst (storage_remove m account)) rest"

definition unregister_group ::
  "memberships \<Rightarrow> account_id list \<Rightarrow> account_group_id \<Rightarrow>
   memberships \<times> (account_group_error + unit)" where
  "unregister_group m accounts grp =
     (if grp = DEFAULT_ACCOUNT_GROUP then (m, Inl GroupErr_ReservedGroup)
      else case unregister_check m accounts grp of
             Some e \<Rightarrow> (m, Inl e)
           | None \<Rightarrow> (unregister_remove m accounts, Inr ()))"

definition groups_retire_account :: "memberships \<Rightarrow> account_id \<Rightarrow> memberships" where
  "groups_retire_account m account = fst (storage_remove m account)"

definition membership_list :: "memberships \<Rightarrow> (account_id \<times> account_group_id) list" where
  "membership_list m =
     List.map_filter (\<lambda>account. storage_with m account (\<lambda>grp. (account, grp)))
       (storage_keys m)"

section \<open>The cached lookup of a context\<close>

text \<open>
  \<open>GroupLookup\<close> reads the registry on first use and keeps the answer, so that one pipeline
  run sees one group.
\<close>

record group_lookup =
  gl_account :: "account_id option"
  gl_cached_group :: "account_group_id option option"

definition group_lookup_new :: "account_id option \<Rightarrow> group_lookup" where
  "group_lookup_new account = \<lparr>gl_account = account, gl_cached_group = None\<rparr>"

definition lookup_group ::
  "memberships \<Rightarrow> group_lookup \<Rightarrow> group_lookup \<times> account_group_id option" where
  "lookup_group m self =
     (case gl_cached_group self of
        Some grp \<Rightarrow> (self, grp)
      | None \<Rightarrow>
          (let grp = Option.bind (gl_account self) (group_of m)
           in (self\<lparr>gl_cached_group := Some grp\<rparr>, grp)))"

section \<open>Lemmas\<close>

lemma group_of_alt: "group_of m a = hm_get m a"
  by (simp add: group_of_def storage_with_def option.map_ident)

lemma storage_with_id [simp]: "storage_with m a (\<lambda>g. g) = hm_get m a"
  by (simp add: storage_with_def option.map_ident)

lemma register_check_None: "register_check m as = None \<longleftrightarrow> (\<forall>a \<in> set as. hm_get m a = None)"
  by (induction m as rule: register_check.induct) (auto split: option.splits)

lemma register_check_Some:
  "register_check m as = Some e \<Longrightarrow>
   \<exists>a \<in> set as. \<exists>g. hm_get m a = Some g \<and> e = AlreadyRegistered a g"
  by (induction m as rule: register_check.induct) (auto split: option.splits)

lemma register_insert_lookup:
  "hm_get (register_insert m as g) b = (if b \<in> set as then Some g else hm_get m b)"
  by (induction m as g rule: register_insert.induct)
    (auto simp: with_mut_lookup split: option.splits)

lemma unregister_check_None:
  "unregister_check m as g = None \<longleftrightarrow> (\<forall>a \<in> set as. hm_get m a = Some g)"
  by (induction m as g rule: unregister_check.induct) (auto simp: Let_def)

lemma unregister_remove_lookup:
  "hm_get (unregister_remove m as) b = (if b \<in> set as then None else hm_get m b)"
  by (induction m as rule: unregister_remove.induct) (auto simp: storage_remove_def)

section \<open>Properties\<close>

text \<open>
  Registering a list of accounts in a group is all or nothing: it succeeds exactly when the
  group is not the reserved default and none of the accounts is in a group, and then puts exactly
  these accounts in it; otherwise the registry is unchanged and the error names an account of the
  list with its current group. Removal succeeds exactly when all the accounts are in the group, and
  undoes the registration.
\<close>

lemma group_registration_all_or_nothing:
  "register_group m as g = (m', r) \<longrightarrow>
   (is_ok r \<longleftrightarrow> g \<noteq> DEFAULT_ACCOUNT_GROUP \<and> (\<forall>a \<in> set as. group_of m a = None)) \<and>
   (if is_ok r
    then (\<forall>b. group_of m' b = (if b \<in> set as then Some g else group_of m b)) \<and>
      (\<exists>m''. unregister_group m' as g = (m'', Inr ()) \<and> group_of m'' = group_of m)
    else m' = m \<and>
      (r = Inl GroupErr_ReservedGroup \<or>
       (\<exists>a \<in> set as. \<exists>h. group_of m a = Some h \<and> r = Inl (AlreadyRegistered a h))))"
proof (intro impI)
  assume reg: "register_group m as g = (m', r)"
  show "(is_ok r \<longleftrightarrow> g \<noteq> DEFAULT_ACCOUNT_GROUP \<and> (\<forall>a \<in> set as. group_of m a = None)) \<and>
   (if is_ok r
    then (\<forall>b. group_of m' b = (if b \<in> set as then Some g else group_of m b)) \<and>
      (\<exists>m''. unregister_group m' as g = (m'', Inr ()) \<and> group_of m'' = group_of m)
    else m' = m \<and>
      (r = Inl GroupErr_ReservedGroup \<or>
       (\<exists>a \<in> set as. \<exists>h. group_of m a = Some h \<and> r = Inl (AlreadyRegistered a h))))"
  proof (cases "g = DEFAULT_ACCOUNT_GROUP \<or> register_check m as \<noteq> None")
    case True
    then show ?thesis using reg register_check_Some [of m as] register_check_None [of m as]
      by (auto simp: register_group_def group_of_alt split: option.splits if_splits)
  next
    case False
    then have g: "g \<noteq> DEFAULT_ACCOUNT_GROUP" and none: "\<forall>a \<in> set as. hm_get m a = None"
      and m': "m' = register_insert m as g" and r: "r = Inr ()"
      using reg register_check_None [of m as] by (auto simp: register_group_def)
    have "unregister_group m' as g = (unregister_remove m' as, Inr ())"
      using g unregister_check_None [of m' as g]
      by (simp add: unregister_group_def m' register_insert_lookup)
    moreover have "group_of (unregister_remove m' as) = group_of m"
      using none by (auto simp: group_of_alt unregister_remove_lookup m' register_insert_lookup
          fun_eq_iff)
    ultimately show ?thesis using g none r by (simp add: m' group_of_alt register_insert_lookup)
  qed
qed

end
