(* ===== verification/Decimal_Ops.thy ===== *)
theory Decimal_Ops
  imports Pit_Prelude
begin

text \<open>
  The arithmetic of the \<open>rust_decimal\<close> package, which is not part of the repository. A
  \<open>Decimal\<close> is represented by its numeric value, a rational number: the package's equality and
  order are those of the value, negation and absolute value are exact, and the conversions from
  integers are exact. What may fail or round is a parameter of the model, the record
  \<open>dec_ops\<close>: every definition that computes with decimals takes it as its first argument.

  The locale \<open>decimal_arith\<close> states what the code relies on, as the package documents it: a
  result that is representable is returned exactly, division by zero returns \<open>None\<close>, and a
  rounded result keeps the sign of the exact one. \<open>exact96_ops\<close> is a concrete instance:
  exact arithmetic that fails outside the range of a 96-bit coefficient.
\<close>

section \<open>The parameter\<close>

type_synonym decimal = rat

datatype dec_rounding = DecMidpointNearestEven | DecMidpointAwayFromZero
  | DecToPositiveInfinity | DecToNegativeInfinity

record dec_ops =
  dec_checked_add :: "decimal \<Rightarrow> decimal \<Rightarrow> decimal option"
  dec_checked_sub :: "decimal \<Rightarrow> decimal \<Rightarrow> decimal option"
  dec_checked_mul :: "decimal \<Rightarrow> decimal \<Rightarrow> decimal option"
  dec_checked_div :: "decimal \<Rightarrow> decimal \<Rightarrow> decimal option"
  dec_checked_rem :: "decimal \<Rightarrow> decimal \<Rightarrow> decimal option"
  dec_round_dp :: "decimal \<Rightarrow> u32 \<Rightarrow> dec_rounding \<Rightarrow> decimal"
  dec_from_str_exact :: "string \<Rightarrow> decimal option"
  dec_parse :: "string \<Rightarrow> decimal option"
  dec_try_from_f64 :: "rat \<Rightarrow> decimal option"

section \<open>The values a decimal can hold\<close>

text \<open>A coefficient of at most 96 bits and a scale from 0 to 28.\<close>

definition representable :: "decimal \<Rightarrow> bool" where
  "representable v \<longleftrightarrow> (\<exists>m::int. \<exists>e::nat. e \<le> 28 \<and> \<bar>m\<bar> < 2 ^ 96 \<and> v * 10 ^ e = of_int m)"

definition scaled :: "u32 \<Rightarrow> rat" where
  "scaled dp = 10 ^ unat dp"

definition round_even :: "rat \<Rightarrow> int" where
  "round_even x =
     (let f = \<lfloor>x\<rfloor>; d = x - of_int f
      in if d < 1 / 2 then f else if 1 / 2 < d then f + 1
         else if even f then f else f + 1)"

definition round_away :: "rat \<Rightarrow> int" where
  "round_away x = (if 0 \<le> x then \<lfloor>x + 1 / 2\<rfloor> else \<lceil>x - 1 / 2\<rceil>)"

fun round_exact :: "rat \<Rightarrow> u32 \<Rightarrow> dec_rounding \<Rightarrow> rat" where
  "round_exact v dp DecMidpointNearestEven = of_int (round_even (v * scaled dp)) / scaled dp"
| "round_exact v dp DecMidpointAwayFromZero = of_int (round_away (v * scaled dp)) / scaled dp"
| "round_exact v dp DecToPositiveInfinity = of_int \<lceil>v * scaled dp\<rceil> / scaled dp"
| "round_exact v dp DecToNegativeInfinity = of_int \<lfloor>v * scaled dp\<rfloor> / scaled dp"

definition in_range :: "rat \<Rightarrow> rat option" where
  "in_range v = (if \<bar>v\<bar> < 2 ^ 96 then Some v else None)"

definition trunc_rem :: "rat \<Rightarrow> rat \<Rightarrow> rat" where
  "trunc_rem a b = a - b * of_int (if 0 \<le> a / b then \<lfloor>a / b\<rfloor> else \<lceil>a / b\<rceil>)"

definition exact96_ops :: dec_ops where
  "exact96_ops =
     \<lparr>dec_checked_add = \<lambda>a b. in_range (a + b),
      dec_checked_sub = \<lambda>a b. in_range (a - b),
      dec_checked_mul = \<lambda>a b. in_range (a * b),
      dec_checked_div = \<lambda>a b. if b = 0 then None else in_range (a / b),
      dec_checked_rem = \<lambda>a b. if b = 0 then None else Some (trunc_rem a b),
      dec_round_dp = round_exact,
      dec_from_str_exact = \<lambda>s. None,
      dec_parse = \<lambda>s. None,
      dec_try_from_f64 = in_range\<rparr>"

text \<open>\<open>Decimal::from\<close> on machine integers.\<close>

definition dec_from_i64 :: "i64 \<Rightarrow> decimal" where
  "dec_from_i64 i = of_int (sint i)"

definition dec_from_u64 :: "u64 \<Rightarrow> decimal" where
  "dec_from_u64 u = of_nat (unat u)"

section \<open>The laws the code relies on\<close>

locale decimal_arith =
  fixes D :: dec_ops
  assumes add_exact: "representable (a + b) \<Longrightarrow> dec_checked_add D a b = Some (a + b)"
    and sub_exact: "representable (a - b) \<Longrightarrow> dec_checked_sub D a b = Some (a - b)"
    and mul_exact: "representable (a * b) \<Longrightarrow> dec_checked_mul D a b = Some (a * b)"
    and div_exact:
      "b \<noteq> 0 \<Longrightarrow> representable (a / b) \<Longrightarrow> dec_checked_div D a b = Some (a / b)"
    and div_zero: "dec_checked_div D a 0 = None"
    and add_nonneg:
      "dec_checked_add D a b = Some c \<Longrightarrow> 0 \<le> a \<Longrightarrow> 0 \<le> b \<Longrightarrow> 0 \<le> c"
    and sub_nonneg: "dec_checked_sub D a b = Some c \<Longrightarrow> b \<le> a \<Longrightarrow> 0 \<le> c"
    and sub_neg: "dec_checked_sub D a b = Some c \<Longrightarrow> a \<le> b \<Longrightarrow> c \<le> 0"
    and mul_nonneg:
      "dec_checked_mul D a b = Some c \<Longrightarrow> 0 \<le> a \<Longrightarrow> 0 \<le> b \<Longrightarrow> 0 \<le> c"
    and mul_nonpos:
      "dec_checked_mul D a b = Some c \<Longrightarrow> a \<le> 0 \<Longrightarrow> 0 \<le> b \<Longrightarrow> c \<le> 0"
    and div_nonneg:
      "dec_checked_div D a b = Some c \<Longrightarrow> 0 \<le> a \<Longrightarrow> 0 < b \<Longrightarrow> 0 \<le> c"
    and rem_nonneg:
      "dec_checked_rem D a b = Some c \<Longrightarrow> 0 \<le> a \<Longrightarrow> 0 < b \<Longrightarrow> 0 \<le> c"
    and round_down_le: "dec_round_dp D v dp DecToNegativeInfinity \<le> v"
begin

lemma add_zero_right: "representable a \<Longrightarrow> dec_checked_add D a 0 = Some a"
  using add_exact [of a 0] by simp

lemma sub_self_zero: "representable 0 \<Longrightarrow> dec_checked_sub D a a = Some 0"
  using sub_exact [of a a] by simp

lemma add_Some_exact:
  "dec_checked_add D a b = Some c \<Longrightarrow> representable (a + b) \<Longrightarrow> c = a + b"
  using add_exact by simp

lemma sub_Some_exact:
  "dec_checked_sub D a b = Some c \<Longrightarrow> representable (a - b) \<Longrightarrow> c = a - b"
  using sub_exact by simp

lemma mul_Some_exact:
  "dec_checked_mul D a b = Some c \<Longrightarrow> representable (a * b) \<Longrightarrow> c = a * b"
  using mul_exact by simp

lemma div_Some_exact:
  "dec_checked_div D a b = Some c \<Longrightarrow> representable (a / b) \<Longrightarrow> c = a / b \<and> b \<noteq> 0"
  using div_exact [of b a] div_zero by (cases "b = 0") auto

end

section \<open>Representable numerals\<close>

lemma dec_from_i64_sign [simp]:
  "0 \<le> dec_from_i64 i \<longleftrightarrow> 0 \<le> sint i" "0 < dec_from_i64 i \<longleftrightarrow> 0 < sint i"
  unfolding dec_from_i64_def by (simp_all del: of_int_sint)

lemma dec_from_u64_sign [simp]:
  "0 \<le> dec_from_u64 u" "0 < dec_from_u64 u \<longleftrightarrow> u \<noteq> 0"
  unfolding dec_from_u64_def by (simp_all add: unat_gt_0 del: of_nat_unat)

lemma representable_of_int: "\<bar>m\<bar> < 2 ^ 96 \<Longrightarrow> representable (of_int m)"
  unfolding representable_def by (intro exI [of _ m] exI [of _ "0::nat"]) simp

lemma representable_scaled:
  "e \<le> 28 \<Longrightarrow> \<bar>m\<bar> < 2 ^ 96 \<Longrightarrow> representable (of_int m / 10 ^ e)"
  unfolding representable_def by (intro exI [of _ m] exI [of _ e]) simp

lemma representable_0 [simp]: "representable 0"
  using representable_of_int [of 0] by simp

lemma representable_1 [simp]: "representable 1"
  using representable_of_int [of 1] by simp

lemma representable_numeral [simp]:
  "(numeral n :: int) < 2 ^ 96 \<Longrightarrow> representable (numeral n)"
  using representable_of_int [of "numeral n"] by simp

lemma representable_minus [simp]: "representable (- v) = representable v"
proof -
  have "representable v \<Longrightarrow> representable (- v)" for v
    unfolding representable_def by (metis abs_minus_cancel minus_mult_left of_int_minus)
  then show ?thesis using minus_minus [of v] by metis
qed

lemma representable_bound: "representable v \<Longrightarrow> \<bar>v\<bar> < 2 ^ 96"
proof -
  assume "representable v"
  then obtain m :: int and e :: nat where m: "\<bar>m\<bar> < 2 ^ 96" and v: "v * 10 ^ e = of_int m"
    unfolding representable_def by blast
  have "\<bar>v\<bar> * 1 \<le> \<bar>v\<bar> * 10 ^ e" by (intro mult_left_mono) auto
  also have "\<dots> = \<bar>of_int m\<bar>" using v by (metis abs_mult abs_of_nonneg zero_le_power zero_le_numeral)
  also have "\<dots> < 2 ^ 96" using m by (metis of_int_abs of_int_less_iff of_int_numeral of_int_power)
  finally show ?thesis by simp
qed

section \<open>The concrete instance satisfies the laws\<close>

lemma in_range_Some: "in_range v = Some c \<longleftrightarrow> \<bar>v\<bar> < 2 ^ 96 \<and> c = v"
  by (auto simp: in_range_def)

lemma in_range_representable: "representable v \<Longrightarrow> in_range v = Some v"
  using representable_bound [of v] by (simp add: in_range_Some)

lemma trunc_rem_nonneg: "0 \<le> a \<Longrightarrow> 0 < b \<Longrightarrow> 0 \<le> trunc_rem a b"
proof -
  assume a: "0 \<le> a" and b: "0 < b"
  have "b * of_int \<lfloor>a / b\<rfloor> \<le> b * (a / b)"
    using b by (intro mult_left_mono) auto
  then show ?thesis using a b by (simp add: trunc_rem_def)
qed

lemma round_exact_down_le: "round_exact v dp DecToNegativeInfinity \<le> v"
proof -
  have "of_int \<lfloor>v * scaled dp\<rfloor> \<le> v * scaled dp" by simp
  then show ?thesis by (simp add: divide_le_eq scaled_def)
qed

interpretation exact96: decimal_arith exact96_ops
proof (unfold_locales, goal_cases)
  case (12 a b c)
  then show ?case using trunc_rem_nonneg [of a b] by (auto simp: exact96_ops_def)
next
  case (13 v dp)
  show ?case using round_exact_down_le [of v dp] by (simp add: exact96_ops_def)
qed (auto simp: exact96_ops_def in_range_representable in_range_Some mult_nonpos_nonneg
       split: if_splits)

lemma exact96_ops_simps [simp]:
  "dec_checked_add exact96_ops a b = in_range (a + b)"
  "dec_checked_sub exact96_ops a b = in_range (a - b)"
  "dec_checked_mul exact96_ops a b = in_range (a * b)"
  "dec_checked_div exact96_ops a b = (if b = 0 then None else in_range (a / b))"
  by (simp_all add: exact96_ops_def)

end
