(* ===== verification/Params.thy ===== *)
theory Params
  imports Decimal_Ops
begin

text \<open>
  The value types of \<open>crates/openpit/src/param\<close>: error kinds, the two macro-generated
  families of decimal types (non-negative and signed). The conversions between the types are in
  \<open>Param_Types\<close>, the identifiers in \<open>Identifiers\<close>.

  Each macro is one group of definitions that take the parameter kind as an argument, as the macro
  takes \<open>$kind\<close>; the generated types are all represented by their decimal value. The
  assertion of \<open>new_unchecked\<close> exists in debug builds only; the theorem
  \<open>nn_ops_stay_non_negative\<close> shows that it can never fail.
\<close>

section \<open>Kinds, errors and rounding\<close>

datatype param_kind = PK_Quantity | PK_Volume | PK_Notional | PK_Price | PK_Pnl | PK_CashFlow
  | PK_PositionSize | PK_Fee | PK_Leverage

datatype param_error = Negative param_kind | DivisionByZero param_kind | Overflow param_kind
  | Underflow param_kind | InvalidFloat | InvalidFormat param_kind string | InvalidPrice
  | InvalidLeverage | AssetEmpty | AccountIdEmpty | OtherError

datatype error_code = EC_Unspecified | EC_Negative | EC_DivisionByZero | EC_Overflow
  | EC_Underflow | EC_InvalidFloat | EC_InvalidFormat | EC_InvalidPrice | EC_InvalidLeverage
  | EC_AssetEmpty | EC_AccountIdEmpty | EC_Other

fun error_code_of :: "param_error \<Rightarrow> error_code" where
  "error_code_of (Negative _) = EC_Negative"
| "error_code_of (DivisionByZero _) = EC_DivisionByZero"
| "error_code_of (Overflow _) = EC_Overflow"
| "error_code_of (Underflow _) = EC_Underflow"
| "error_code_of InvalidFloat = EC_InvalidFloat"
| "error_code_of (InvalidFormat _ _) = EC_InvalidFormat"
| "error_code_of InvalidPrice = EC_InvalidPrice"
| "error_code_of InvalidLeverage = EC_InvalidLeverage"
| "error_code_of AssetEmpty = EC_AssetEmpty"
| "error_code_of AccountIdEmpty = EC_AccountIdEmpty"
| "error_code_of OtherError = EC_Other"

fun error_code_value :: "error_code \<Rightarrow> u32" where
  "error_code_value EC_Unspecified = 0"
| "error_code_value EC_Negative = 1"
| "error_code_value EC_DivisionByZero = 2"
| "error_code_value EC_Overflow = 3"
| "error_code_value EC_Underflow = 4"
| "error_code_value EC_InvalidFloat = 5"
| "error_code_value EC_InvalidFormat = 6"
| "error_code_value EC_InvalidPrice = 7"
| "error_code_value EC_InvalidLeverage = 8"
| "error_code_value EC_AssetEmpty = 9"
| "error_code_value EC_AccountIdEmpty = 10"
| "error_code_value EC_Other = - 1"

datatype rounding_strategy = MidpointNearestEven | MidpointAwayFromZero | Up | Down

definition rounding_DEFAULT :: rounding_strategy where
  "rounding_DEFAULT = MidpointNearestEven"

definition rounding_BANKER :: rounding_strategy where
  "rounding_BANKER = MidpointNearestEven"

definition rounding_CONSERVATIVE_PROFIT :: rounding_strategy where
  "rounding_CONSERVATIVE_PROFIT = Down"

definition rounding_CONSERVATIVE_LOSS :: rounding_strategy where
  "rounding_CONSERVATIVE_LOSS = Down"

fun dec_rounding_of :: "rounding_strategy \<Rightarrow> dec_rounding" where
  "dec_rounding_of MidpointNearestEven = DecMidpointNearestEven"
| "dec_rounding_of MidpointAwayFromZero = DecMidpointAwayFromZero"
| "dec_rounding_of Up = DecToPositiveInfinity"
| "dec_rounding_of Down = DecToNegativeInfinity"

text \<open>A double is NaN, an infinity or a finite value.\<close>

datatype f64 = F64_NaN | F64_Infinite bool | F64_Finite rat

definition decimal_from_f64 :: "dec_ops \<Rightarrow> f64 \<Rightarrow> param_error + decimal" where
  "decimal_from_f64 D value =
     (case value of
        F64_NaN \<Rightarrow> Inl InvalidFloat
      | F64_Infinite _ \<Rightarrow> Inl InvalidFloat
      | F64_Finite x \<Rightarrow> ok_or (dec_try_from_f64 D x) InvalidFloat)"

definition ensure_non_negative :: "decimal \<Rightarrow> param_kind \<Rightarrow> param_error + decimal" where
  "ensure_non_negative value param = (if value < 0 then Inl (Negative param) else Inr value)"

section \<open>The non-negative value types\<close>

definition nn_new :: "param_kind \<Rightarrow> decimal \<Rightarrow> param_error + decimal" where
  "nn_new k value = ensure_non_negative value k"

definition nn_from_f64 :: "dec_ops \<Rightarrow> param_kind \<Rightarrow> f64 \<Rightarrow> param_error + decimal" where
  "nn_from_f64 D k value = bind_res (decimal_from_f64 D value) (nn_new k)"

definition nn_from_str :: "dec_ops \<Rightarrow> param_kind \<Rightarrow> string \<Rightarrow> param_error + decimal" where
  "nn_from_str D k s = bind_res (ok_or (dec_from_str_exact D s) (InvalidFormat k s)) (nn_new k)"

definition nn_from_str_rounded ::
  "dec_ops \<Rightarrow> param_kind \<Rightarrow> string \<Rightarrow> u32 \<Rightarrow> rounding_strategy \<Rightarrow> param_error + decimal" where
  "nn_from_str_rounded D k s scale rounding =
     bind_res (ok_or (dec_parse D s) (InvalidFormat k s))
       (\<lambda>decimal. nn_new k (dec_round_dp D decimal scale (dec_rounding_of rounding)))"

definition nn_from_f64_rounded ::
  "dec_ops \<Rightarrow> param_kind \<Rightarrow> f64 \<Rightarrow> u32 \<Rightarrow> rounding_strategy \<Rightarrow> param_error + decimal" where
  "nn_from_f64_rounded D k value scale rounding =
     bind_res (decimal_from_f64 D value)
       (\<lambda>decimal. nn_new k (dec_round_dp D decimal scale (dec_rounding_of rounding)))"

definition nn_from_decimal_rounded ::
  "dec_ops \<Rightarrow> param_kind \<Rightarrow> decimal \<Rightarrow> u32 \<Rightarrow> rounding_strategy \<Rightarrow> param_error + decimal" where
  "nn_from_decimal_rounded D k decimal scale rounding =
     nn_new k (dec_round_dp D decimal scale (dec_rounding_of rounding))"

definition nn_new_unchecked :: "decimal \<Rightarrow> decimal" where
  "nn_new_unchecked value = value"

definition is_zero :: "decimal \<Rightarrow> bool" where
  "is_zero v \<longleftrightarrow> v = 0"

definition nn_checked_add ::
  "dec_ops \<Rightarrow> param_kind \<Rightarrow> decimal \<Rightarrow> decimal \<Rightarrow> param_error + decimal" where
  "nn_checked_add D k self other =
     ok_or (map_option nn_new_unchecked (dec_checked_add D self other)) (Overflow k)"

definition nn_checked_sub ::
  "dec_ops \<Rightarrow> param_kind \<Rightarrow> decimal \<Rightarrow> decimal \<Rightarrow> param_error + decimal" where
  "nn_checked_sub D k self other =
     bind_res (ok_or (dec_checked_sub D self other) (Overflow k))
       (\<lambda>result. map_err (\<lambda>_. Underflow k) (nn_new k result))"

definition nn_checked_mul_i64 ::
  "dec_ops \<Rightarrow> param_kind \<Rightarrow> decimal \<Rightarrow> i64 \<Rightarrow> param_error + decimal" where
  "nn_checked_mul_i64 D k self scalar =
     (if sint scalar < 0 then Inl (Negative k)
      else ok_or (map_option nn_new_unchecked (dec_checked_mul D self (dec_from_i64 scalar)))
             (Overflow k))"

definition nn_checked_mul_u64 ::
  "dec_ops \<Rightarrow> param_kind \<Rightarrow> decimal \<Rightarrow> u64 \<Rightarrow> param_error + decimal" where
  "nn_checked_mul_u64 D k self scalar =
     ok_or (map_option nn_new_unchecked (dec_checked_mul D self (dec_from_u64 scalar)))
       (Overflow k)"

definition nn_checked_mul_f64 ::
  "dec_ops \<Rightarrow> param_kind \<Rightarrow> decimal \<Rightarrow> f64 \<Rightarrow> param_error + decimal" where
  "nn_checked_mul_f64 D k self factor =
     bind_res (decimal_from_f64 D factor)
       (\<lambda>factor. if factor < 0 then Inl (Negative k)
          else ok_or (map_option nn_new_unchecked (dec_checked_mul D self factor)) (Overflow k))"

definition nn_checked_div_i64 ::
  "dec_ops \<Rightarrow> param_kind \<Rightarrow> decimal \<Rightarrow> i64 \<Rightarrow> param_error + decimal" where
  "nn_checked_div_i64 D k self divisor =
     (if sint divisor = 0 then Inl (DivisionByZero k)
      else if sint divisor < 0 then Inl (Negative k)
      else ok_or (map_option nn_new_unchecked (dec_checked_div D self (dec_from_i64 divisor)))
             (Overflow k))"

definition nn_checked_div_u64 ::
  "dec_ops \<Rightarrow> param_kind \<Rightarrow> decimal \<Rightarrow> u64 \<Rightarrow> param_error + decimal" where
  "nn_checked_div_u64 D k self divisor =
     (if divisor = 0 then Inl (DivisionByZero k)
      else ok_or (map_option nn_new_unchecked (dec_checked_div D self (dec_from_u64 divisor)))
             (Overflow k))"

definition nn_checked_div_f64 ::
  "dec_ops \<Rightarrow> param_kind \<Rightarrow> decimal \<Rightarrow> f64 \<Rightarrow> param_error + decimal" where
  "nn_checked_div_f64 D k self divisor =
     bind_res (decimal_from_f64 D divisor)
       (\<lambda>divisor. if divisor = 0 then Inl (DivisionByZero k)
          else if divisor < 0 then Inl (Negative k)
          else ok_or (map_option nn_new_unchecked (dec_checked_div D self divisor)) (Overflow k))"

definition nn_checked_rem_i64 ::
  "dec_ops \<Rightarrow> param_kind \<Rightarrow> decimal \<Rightarrow> i64 \<Rightarrow> param_error + decimal" where
  "nn_checked_rem_i64 D k self divisor =
     (if sint divisor = 0 then Inl (DivisionByZero k)
      else if sint divisor < 0 then Inl (Negative k)
      else ok_or (map_option nn_new_unchecked (dec_checked_rem D self (dec_from_i64 divisor)))
             (Overflow k))"

definition nn_checked_rem_u64 ::
  "dec_ops \<Rightarrow> param_kind \<Rightarrow> decimal \<Rightarrow> u64 \<Rightarrow> param_error + decimal" where
  "nn_checked_rem_u64 D k self divisor =
     (if divisor = 0 then Inl (DivisionByZero k)
      else ok_or (map_option nn_new_unchecked (dec_checked_rem D self (dec_from_u64 divisor)))
             (Overflow k))"

definition nn_checked_rem_f64 ::
  "dec_ops \<Rightarrow> param_kind \<Rightarrow> decimal \<Rightarrow> f64 \<Rightarrow> param_error + decimal" where
  "nn_checked_rem_f64 D k self divisor =
     bind_res (decimal_from_f64 D divisor)
       (\<lambda>divisor. if divisor = 0 then Inl (DivisionByZero k)
          else if divisor < 0 then Inl (Negative k)
          else ok_or (map_option nn_new_unchecked (dec_checked_rem D self divisor)) (Overflow k))"

section \<open>The signed value types\<close>

definition sg_new :: "decimal \<Rightarrow> decimal" where
  "sg_new value = value"

definition sg_from_f64 :: "dec_ops \<Rightarrow> f64 \<Rightarrow> param_error + decimal" where
  "sg_from_f64 D value = map_res sg_new (decimal_from_f64 D value)"

definition sg_from_str :: "dec_ops \<Rightarrow> param_kind \<Rightarrow> string \<Rightarrow> param_error + decimal" where
  "sg_from_str D k s = map_res sg_new (ok_or (dec_from_str_exact D s) (InvalidFormat k s))"

definition sg_from_str_rounded ::
  "dec_ops \<Rightarrow> param_kind \<Rightarrow> string \<Rightarrow> u32 \<Rightarrow> rounding_strategy \<Rightarrow> param_error + decimal" where
  "sg_from_str_rounded D k s scale rounding =
     map_res (\<lambda>decimal. sg_new (dec_round_dp D decimal scale (dec_rounding_of rounding)))
       (ok_or (dec_parse D s) (InvalidFormat k s))"

definition sg_from_f64_rounded ::
  "dec_ops \<Rightarrow> f64 \<Rightarrow> u32 \<Rightarrow> rounding_strategy \<Rightarrow> param_error + decimal" where
  "sg_from_f64_rounded D value scale rounding =
     map_res (\<lambda>decimal. sg_new (dec_round_dp D decimal scale (dec_rounding_of rounding)))
       (decimal_from_f64 D value)"

definition sg_from_decimal_rounded ::
  "dec_ops \<Rightarrow> decimal \<Rightarrow> u32 \<Rightarrow> rounding_strategy \<Rightarrow> param_error + decimal" where
  "sg_from_decimal_rounded D decimal scale rounding =
     Inr (sg_new (dec_round_dp D decimal scale (dec_rounding_of rounding)))"

definition sg_checked_add ::
  "dec_ops \<Rightarrow> param_kind \<Rightarrow> decimal \<Rightarrow> decimal \<Rightarrow> param_error + decimal" where
  "sg_checked_add D k self other = ok_or (dec_checked_add D self other) (Overflow k)"

definition sg_checked_sub ::
  "dec_ops \<Rightarrow> param_kind \<Rightarrow> decimal \<Rightarrow> decimal \<Rightarrow> param_error + decimal" where
  "sg_checked_sub D k self other = ok_or (dec_checked_sub D self other) (Overflow k)"

definition sg_checked_neg :: "dec_ops \<Rightarrow> param_kind \<Rightarrow> decimal \<Rightarrow> param_error + decimal" where
  "sg_checked_neg D k self = ok_or (dec_checked_sub D 0 self) (Overflow k)"

definition sg_checked_mul_i64 ::
  "dec_ops \<Rightarrow> param_kind \<Rightarrow> decimal \<Rightarrow> i64 \<Rightarrow> param_error + decimal" where
  "sg_checked_mul_i64 D k self scalar =
     ok_or (dec_checked_mul D self (dec_from_i64 scalar)) (Overflow k)"

definition sg_checked_mul_u64 ::
  "dec_ops \<Rightarrow> param_kind \<Rightarrow> decimal \<Rightarrow> u64 \<Rightarrow> param_error + decimal" where
  "sg_checked_mul_u64 D k self scalar =
     ok_or (dec_checked_mul D self (dec_from_u64 scalar)) (Overflow k)"

definition sg_checked_mul_f64 ::
  "dec_ops \<Rightarrow> param_kind \<Rightarrow> decimal \<Rightarrow> f64 \<Rightarrow> param_error + decimal" where
  "sg_checked_mul_f64 D k self factor =
     bind_res (decimal_from_f64 D factor)
       (\<lambda>factor. ok_or (dec_checked_mul D self factor) (Overflow k))"

definition sg_checked_div_i64 ::
  "dec_ops \<Rightarrow> param_kind \<Rightarrow> decimal \<Rightarrow> i64 \<Rightarrow> param_error + decimal" where
  "sg_checked_div_i64 D k self divisor =
     (if divisor = 0 then Inl (DivisionByZero k)
      else ok_or (dec_checked_div D self (dec_from_i64 divisor)) (Overflow k))"

definition sg_checked_div_u64 ::
  "dec_ops \<Rightarrow> param_kind \<Rightarrow> decimal \<Rightarrow> u64 \<Rightarrow> param_error + decimal" where
  "sg_checked_div_u64 D k self divisor =
     (if divisor = 0 then Inl (DivisionByZero k)
      else ok_or (dec_checked_div D self (dec_from_u64 divisor)) (Overflow k))"

definition sg_checked_div_f64 ::
  "dec_ops \<Rightarrow> param_kind \<Rightarrow> decimal \<Rightarrow> f64 \<Rightarrow> param_error + decimal" where
  "sg_checked_div_f64 D k self divisor =
     bind_res (decimal_from_f64 D divisor)
       (\<lambda>divisor. if divisor = 0 then Inl (DivisionByZero k)
          else ok_or (dec_checked_div D self divisor) (Overflow k))"

definition sg_checked_rem_i64 ::
  "dec_ops \<Rightarrow> param_kind \<Rightarrow> decimal \<Rightarrow> i64 \<Rightarrow> param_error + decimal" where
  "sg_checked_rem_i64 D k self divisor =
     (if divisor = 0 then Inl (DivisionByZero k)
      else ok_or (dec_checked_rem D self (dec_from_i64 divisor)) (Overflow k))"

definition sg_checked_rem_u64 ::
  "dec_ops \<Rightarrow> param_kind \<Rightarrow> decimal \<Rightarrow> u64 \<Rightarrow> param_error + decimal" where
  "sg_checked_rem_u64 D k self divisor =
     (if divisor = 0 then Inl (DivisionByZero k)
      else ok_or (dec_checked_rem D self (dec_from_u64 divisor)) (Overflow k))"

definition sg_checked_rem_f64 ::
  "dec_ops \<Rightarrow> param_kind \<Rightarrow> decimal \<Rightarrow> f64 \<Rightarrow> param_error + decimal" where
  "sg_checked_rem_f64 D k self divisor =
     bind_res (decimal_from_f64 D divisor)
       (\<lambda>divisor. if divisor = 0 then Inl (DivisionByZero k)
          else ok_or (dec_checked_rem D self divisor) (Overflow k))"

section \<open>Results that keep the non-negativity invariant\<close>

definition nn_result :: "param_error + decimal \<Rightarrow> bool" where
  "nn_result r = (case r of Inl _ \<Rightarrow> True | Inr c \<Rightarrow> 0 \<le> c)"

lemma nn_result_simps [simp]: "nn_result (Inl e)" "nn_result (Inr c) \<longleftrightarrow> 0 \<le> c"
  by (simp_all add: nn_result_def)

lemma nn_result_ok_or: "(\<And>c. m = Some c \<Longrightarrow> 0 \<le> c) \<Longrightarrow> nn_result (ok_or m e)"
  by (cases m) auto

lemma nn_result_new [simp]: "nn_result (nn_new k v)"
  by (simp add: nn_new_def ensure_non_negative_def)

lemma nn_result_bind: "(\<And>x. m = Inr x \<Longrightarrow> nn_result (f x)) \<Longrightarrow> nn_result (bind_res m f)"
  by (cases m) auto

lemma nn_result_map_err [simp]: "nn_result (map_err f m) = nn_result m"
  by (cases m) auto

lemma nn_constructors_non_negative:
  "nn_result (nn_from_f64 D k x)" "nn_result (nn_from_str D k s)"
  "nn_result (nn_from_str_rounded D k s sc r)" "nn_result (nn_from_f64_rounded D k x sc r)"
  "nn_result (nn_from_decimal_rounded D k v sc r)"
  by (auto simp: nn_from_f64_def nn_from_str_def nn_from_str_rounded_def nn_from_f64_rounded_def
       nn_from_decimal_rounded_def intro!: nn_result_bind)

context decimal_arith
begin

lemma nn_mul_div_rem_non_negative:
  assumes "0 \<le> a" "0 \<le> b"
  shows "nn_result (ok_or (map_option nn_new_unchecked (dec_checked_mul D a b)) e)"
    and "0 < b \<Longrightarrow> nn_result (ok_or (map_option nn_new_unchecked (dec_checked_div D a b)) e)"
    and "0 < b \<Longrightarrow> nn_result (ok_or (map_option nn_new_unchecked (dec_checked_rem D a b)) e)"
  using assms mul_nonneg div_nonneg rem_nonneg
  by (auto simp: nn_new_unchecked_def intro!: nn_result_ok_or)

lemma nn_add_non_negative: "0 \<le> a \<Longrightarrow> 0 \<le> b \<Longrightarrow> nn_result (nn_checked_add D k a b)"
  using add_nonneg by (auto simp: nn_checked_add_def nn_new_unchecked_def intro!: nn_result_ok_or)

lemma nn_sub_exact:
  "representable (a - b) \<Longrightarrow>
   nn_checked_sub D k a b = (if a < b then Inl (Underflow k) else Inr (a - b))"
  by (simp add: nn_checked_sub_def sub_exact nn_new_def ensure_non_negative_def)

lemma sg_add_exact: "representable (a + b) \<Longrightarrow> sg_checked_add D k a b = Inr (a + b)"
  by (simp add: sg_checked_add_def add_exact)

lemma sg_sub_exact: "representable (a - b) \<Longrightarrow> sg_checked_sub D k a b = Inr (a - b)"
  by (simp add: sg_checked_sub_def sub_exact)

lemma sg_neg_exact: "representable a \<Longrightarrow> sg_checked_neg D k a = Inr (- a)"
  using sub_exact [of 0 a] by (simp add: sg_checked_neg_def)

lemma nn_scalar_non_negative:
  assumes "0 \<le> a"
  shows "nn_result (nn_checked_mul_i64 D k a i)" and "nn_result (nn_checked_mul_u64 D k a u)"
    and "nn_result (nn_checked_mul_f64 D k a x)" and "nn_result (nn_checked_div_i64 D k a i)"
    and "nn_result (nn_checked_div_u64 D k a u)" and "nn_result (nn_checked_div_f64 D k a x)"
    and "nn_result (nn_checked_rem_i64 D k a i)" and "nn_result (nn_checked_rem_u64 D k a u)"
    and "nn_result (nn_checked_rem_f64 D k a x)"
  using assms
  by (auto simp: nn_checked_mul_i64_def nn_checked_mul_u64_def nn_checked_mul_f64_def
       nn_checked_div_i64_def nn_checked_div_u64_def nn_checked_div_f64_def
       nn_checked_rem_i64_def nn_checked_rem_u64_def nn_checked_rem_f64_def
       intro!: nn_result_bind nn_mul_div_rem_non_negative)

end

section \<open>Properties\<close>

text \<open>
  Every arithmetic operation of a non-negative value type (price and order sizes, volumes,
  notionals) applied to non-negative operands either fails or returns a non-negative value, and so
  does every fallible constructor: the assertion in \<open>new_unchecked\<close> can never fire.
\<close>

lemma nn_ops_stay_non_negative:
  assumes "decimal_arith D" and "0 \<le> a" and "0 \<le> b"
  shows "nn_result (nn_checked_add D k a b) \<and> nn_result (nn_checked_sub D k a b) \<and>
    nn_result (nn_checked_mul_i64 D k a i) \<and> nn_result (nn_checked_mul_u64 D k a u) \<and>
    nn_result (nn_checked_mul_f64 D k a x) \<and> nn_result (nn_checked_div_i64 D k a i) \<and>
    nn_result (nn_checked_div_u64 D k a u) \<and> nn_result (nn_checked_div_f64 D k a x) \<and>
    nn_result (nn_checked_rem_i64 D k a i) \<and> nn_result (nn_checked_rem_u64 D k a u) \<and>
    nn_result (nn_checked_rem_f64 D k a x) \<and> nn_result (nn_from_f64 D k x) \<and>
    nn_result (nn_from_str D k s) \<and> nn_result (nn_from_str_rounded D k s sc r) \<and>
    nn_result (nn_from_f64_rounded D k x sc r) \<and> nn_result (nn_from_decimal_rounded D k v sc r)"
  using decimal_arith.nn_add_non_negative [OF assms] nn_constructors_non_negative
    decimal_arith.nn_scalar_non_negative [OF assms(1,2)]
  by (auto simp: nn_checked_sub_def intro!: nn_result_bind)

text \<open>
  Subtraction of a non-negative type returns the difference when the subtrahend is not
  larger, and otherwise the error \<open>Underflow\<close> of that type, never a negative value.
\<close>

lemma nn_checked_sub_underflow_iff:
  assumes "decimal_arith D" and "representable (a - b)"
  shows "nn_checked_sub D k a b = (if a < b then Inl (Underflow k) else Inr (a - b))"
  using decimal_arith.nn_sub_exact [OF assms] .

end
