(* ===== verification/Param_Types.thy ===== *)
theory Param_Types
  imports Params
begin

text \<open>
  The domain types of \<open>crates/openpit/src/param\<close>: sides and position attributes, trades and
  amounts, and the conversions between price, quantity, volume, notional, position size, P\&L, fee
  and cash flow, and fixed-point leverage. Each value type is its decimal; quantities, volumes and
  notionals are the non-negative ones.
\<close>

section \<open>Enumerations\<close>

datatype side = Buy | Sell

fun side_text :: "side \<Rightarrow> string" where
  "side_text Buy = ''BUY''"
| "side_text Sell = ''SELL''"

fun is_buy :: "side \<Rightarrow> bool" where
  "is_buy Buy = True"
| "is_buy Sell = False"

fun is_sell :: "side \<Rightarrow> bool" where
  "is_sell Buy = False"
| "is_sell Sell = True"

fun opposite :: "side \<Rightarrow> side" where
  "opposite Buy = Sell"
| "opposite Sell = Buy"

fun side_sign :: "side \<Rightarrow> int" where
  "side_sign Buy = 1"
| "side_sign Sell = - 1"

datatype position_side = Long | Short

fun position_side_text :: "position_side \<Rightarrow> string" where
  "position_side_text Long = ''LONG''"
| "position_side_text Short = ''SHORT''"

fun is_long :: "position_side \<Rightarrow> bool" where
  "is_long Long = True"
| "is_long Short = False"

fun is_short :: "position_side \<Rightarrow> bool" where
  "is_short Long = False"
| "is_short Short = True"

fun position_side_opposite :: "position_side \<Rightarrow> position_side" where
  "position_side_opposite Long = Short"
| "position_side_opposite Short = Long"

datatype position_effect = PE_Open | PE_Close

datatype position_mode = Netting | Hedged

fun position_mode_text :: "position_mode \<Rightarrow> string" where
  "position_mode_text Netting = ''netting''"
| "position_mode_text Hedged = ''hedged''"

section \<open>Value types\<close>

type_synonym price = decimal
type_synonym quantity = decimal
type_synonym volume = decimal
type_synonym notional = decimal
type_synonym position_size = decimal
type_synonym pnl = decimal
type_synonym fee = decimal
type_synonym cash_flow = decimal

record trade =
  trade_price :: price
  trade_quantity :: quantity

datatype trade_amount = TA_Quantity quantity | TA_Volume volume

fun trade_amount_text :: "trade_amount \<Rightarrow> text_pieces" where
  "trade_amount_text (TA_Quantity qty) = [Lit ''qty: '', Num qty]"
| "trade_amount_text (TA_Volume vol) = [Lit ''vol: '', Num vol]"

datatype adjustment_amount = Delta position_size | Absolute position_size

fun adjustment_amount_text :: "adjustment_amount \<Rightarrow> text_pieces" where
  "adjustment_amount_text (Delta delta) = [Lit ''delta: '', Num delta]"
| "adjustment_amount_text (Absolute sz) = [Lit ''sz: '', Num sz]"

section \<open>Price, quantity, volume and notional\<close>

definition price_calculate_position_size ::
  "dec_ops \<Rightarrow> price \<Rightarrow> quantity \<Rightarrow> param_error + position_size" where
  "price_calculate_position_size D self quantity =
     map_res sg_new (ok_or (dec_checked_mul D self quantity) (Overflow PK_Price))"

definition price_calculate_volume ::
  "dec_ops \<Rightarrow> price \<Rightarrow> quantity \<Rightarrow> param_error + volume" where
  "price_calculate_volume D self quantity =
     bind_res (ok_or (dec_checked_mul D \<bar>self\<bar> \<bar>quantity\<bar>) (Overflow PK_Price))
       (nn_new PK_Volume)"

definition quantity_calculate_volume ::
  "dec_ops \<Rightarrow> quantity \<Rightarrow> price \<Rightarrow> param_error + volume" where
  "quantity_calculate_volume D self price = price_calculate_volume D price self"

definition quantity_to_position_size :: "quantity \<Rightarrow> position_size" where
  "quantity_to_position_size self = sg_new self"

definition volume_from_notional :: "notional \<Rightarrow> volume" where
  "volume_from_notional notional = nn_new_unchecked notional"

definition volume_to_cash_flow_inflow :: "volume \<Rightarrow> cash_flow" where
  "volume_to_cash_flow_inflow self = sg_new self"

definition volume_to_cash_flow_outflow :: "volume \<Rightarrow> cash_flow" where
  "volume_to_cash_flow_outflow self = sg_new (- self)"

definition volume_to_position_size :: "volume \<Rightarrow> position_size" where
  "volume_to_position_size self = sg_new self"

definition volume_calculate_quantity ::
  "dec_ops \<Rightarrow> volume \<Rightarrow> price \<Rightarrow> param_error + quantity" where
  "volume_calculate_quantity D self price =
     (if is_zero price then Inr 0
      else bind_res (ok_or (dec_checked_div D self \<bar>price\<bar>) (Overflow PK_Volume))
             (\<lambda>quantity_decimal. map_err (\<lambda>_. Underflow PK_Quantity)
                (nn_new PK_Quantity quantity_decimal)))"

definition notional_from_price_quantity ::
  "dec_ops \<Rightarrow> price \<Rightarrow> quantity \<Rightarrow> param_error + notional" where
  "notional_from_price_quantity D price quantity =
     map_res nn_new_unchecked (ok_or (dec_checked_mul D \<bar>price\<bar> quantity) (Overflow PK_Price))"

definition notional_from_volume :: "volume \<Rightarrow> notional" where
  "notional_from_volume volume = nn_new_unchecked volume"

definition notional_to_volume :: "notional \<Rightarrow> volume" where
  "notional_to_volume self = nn_new_unchecked self"

section \<open>P\&L, fee and cash flow\<close>

definition cash_flow_from_pnl :: "pnl \<Rightarrow> cash_flow" where
  "cash_flow_from_pnl pnl = sg_new pnl"

definition cash_flow_from_fee :: "fee \<Rightarrow> cash_flow" where
  "cash_flow_from_fee fee = sg_new (- fee)"

definition cash_flow_from_volume_inflow :: "volume \<Rightarrow> cash_flow" where
  "cash_flow_from_volume_inflow volume = sg_new volume"

definition cash_flow_from_volume_outflow :: "volume \<Rightarrow> cash_flow" where
  "cash_flow_from_volume_outflow volume = sg_new (- volume)"

definition pnl_to_cash_flow :: "pnl \<Rightarrow> cash_flow" where
  "pnl_to_cash_flow self = cash_flow_from_pnl self"

definition pnl_to_position_size :: "pnl \<Rightarrow> position_size" where
  "pnl_to_position_size self = sg_new self"

definition pnl_from_fee :: "fee \<Rightarrow> pnl" where
  "pnl_from_fee fee = sg_new (- fee)"

definition fee_to_pnl :: "fee \<Rightarrow> pnl" where
  "fee_to_pnl self = sg_new (- self)"

definition fee_to_position_size :: "fee \<Rightarrow> position_size" where
  "fee_to_position_size self = sg_new (- self)"

definition fee_to_cash_flow :: "fee \<Rightarrow> cash_flow" where
  "fee_to_cash_flow self = cash_flow_from_fee self"

section \<open>Position size\<close>

definition from_quantity_and_side :: "quantity \<Rightarrow> side \<Rightarrow> position_size" where
  "from_quantity_and_side quantity side =
     sg_new (case side of Buy \<Rightarrow> quantity | Sell \<Rightarrow> - quantity)"

definition position_size_from_pnl :: "pnl \<Rightarrow> position_size" where
  "position_size_from_pnl pnl = sg_new pnl"

definition position_size_from_fee :: "fee \<Rightarrow> position_size" where
  "position_size_from_fee fee = sg_new (- fee)"

definition to_open_quantity :: "position_size \<Rightarrow> quantity \<times> side" where
  "to_open_quantity self =
     (if self = 0 then (0, Buy)
      else (nn_new_unchecked \<bar>self\<bar>, if self > 0 then Buy else Sell))"

definition to_close_quantity :: "position_size \<Rightarrow> quantity \<times> side option" where
  "to_close_quantity self =
     (if self = 0 then (0, None)
      else (nn_new_unchecked \<bar>self\<bar>, Some (if self < 0 then Buy else Sell)))"

definition checked_add_quantity ::
  "dec_ops \<Rightarrow> position_size \<Rightarrow> quantity \<Rightarrow> side \<Rightarrow> param_error + position_size" where
  "checked_add_quantity D self qty side =
     (let delta = (case side of Buy \<Rightarrow> qty | Sell \<Rightarrow> - qty)
      in map_res sg_new (ok_or (dec_checked_add D self delta) (Overflow PK_PositionSize)))"

definition position_size_neg :: "position_size \<Rightarrow> position_size" where
  "position_size_neg self = sg_new (- self)"

section \<open>Leverage\<close>

text \<open>The raw field is fixed-point with scale 10. The operations on doubles are not modelled.\<close>

type_synonym leverage = u16

definition leverage_SCALE :: u16 where
  "leverage_SCALE = 10"

definition leverage_MIN :: u16 where
  "leverage_MIN = 1"

definition leverage_MAX :: u16 where
  "leverage_MAX = 3000"

definition leverage_MIN_RAW :: u16 where
  "leverage_MIN_RAW = leverage_MIN * leverage_SCALE"

definition leverage_MAX_RAW :: u16 where
  "leverage_MAX_RAW = leverage_MAX * leverage_SCALE"

definition u16_checked_mul :: "u16 \<Rightarrow> u16 \<Rightarrow> u16 option" where
  "u16_checked_mul a b = (if unat a * unat b < 2 ^ 16 then Some (a * b) else None)"

definition leverage_from_raw :: "u16 \<Rightarrow> param_error + leverage" where
  "leverage_from_raw raw =
     (if \<not> (leverage_MIN_RAW \<le> raw \<and> raw \<le> leverage_MAX_RAW) then Inl InvalidLeverage else Inr raw)"

definition leverage_from_u16 :: "u16 \<Rightarrow> param_error + leverage" where
  "leverage_from_u16 multiplier =
     bind_res (ok_or (u16_checked_mul multiplier leverage_SCALE) (Overflow PK_Leverage))
       leverage_from_raw"

definition leverage_calculate_margin_required ::
  "dec_ops \<Rightarrow> leverage \<Rightarrow> notional \<Rightarrow> param_error + notional" where
  "leverage_calculate_margin_required D self notional =
     (let raw = of_nat (unat self); scale = of_nat (unat leverage_SCALE)
      in bind_res (ok_or (dec_checked_mul D notional scale) (Overflow PK_Notional))
        (\<lambda>numerator. bind_res (ok_or (dec_checked_div D numerator raw) (Overflow PK_Notional))
          (\<lambda>margin. Inr (nn_new_unchecked margin))))"

definition notional_calculate_margin_required ::
  "dec_ops \<Rightarrow> notional \<Rightarrow> leverage \<Rightarrow> param_error + notional" where
  "notional_calculate_margin_required D self leverage =
     leverage_calculate_margin_required D leverage self"

text \<open>\<open>Display\<close>: the integer part, and the tenth after a dot when there is one.\<close>

definition leverage_text :: "leverage \<Rightarrow> text_pieces" where
  "leverage_text self =
     (let integer = self div leverage_SCALE; fractional = self mod leverage_SCALE
      in if fractional = 0 then [Cnt (unat integer)]
         else [Cnt (unat integer), Lit ''.'', Cnt (unat fractional)])"

section \<open>Lemmas\<close>

lemmas param_type_defs =
  sg_new_def nn_new_unchecked_def nn_new_def ensure_non_negative_def is_zero_def

lemma opposite_opposite [simp]: "opposite (opposite s) = s"
  by (cases s) simp_all

lemma leverage_raw_bounds [simp]:
  "unat leverage_MIN_RAW = 10" "unat leverage_MAX_RAW = 30000" "unat leverage_SCALE = 10"
  by (simp_all add: leverage_MIN_RAW_def leverage_MAX_RAW_def leverage_MIN_def leverage_MAX_def
      leverage_SCALE_def)

lemma leverage_from_raw_iff:
  "leverage_from_raw raw =
     (if 10 \<le> unat raw \<and> unat raw \<le> 30000 then Inr raw else Inl InvalidLeverage)"
  by (simp add: leverage_from_raw_def word_le_nat_alt)

lemma unat_mul_scale: "unat m * 10 < 2 ^ 16 \<Longrightarrow> unat (m * leverage_SCALE) = unat m * 10"
  using unat_mult_lem [of m leverage_SCALE] by simp

context decimal_arith
begin

lemma volume_quantity_roundtrip:
  assumes "0 \<le> q" "p \<noteq> 0" "representable (p * q)" "representable q"
  shows "price_calculate_volume D p q = Inr (\<bar>p\<bar> * q)"
    and "volume_calculate_quantity D (\<bar>p\<bar> * q) p = Inr q"
proof -
  have "representable (\<bar>p\<bar> * q)" using assms(3) by (cases "0 \<le> p") auto
  then show "price_calculate_volume D p q = Inr (\<bar>p\<bar> * q)"
    using assms(1) by (simp add: price_calculate_volume_def mul_exact param_type_defs not_less)
  have "dec_checked_div D (\<bar>p\<bar> * q) \<bar>p\<bar> = Some q"
    using assms div_exact [of "\<bar>p\<bar>" "\<bar>p\<bar> * q"] by simp
  then show "volume_calculate_quantity D (\<bar>p\<bar> * q) p = Inr q"
    using assms by (simp add: volume_calculate_quantity_def param_type_defs)
qed

lemma close_quantity_closes:
  assumes "to_close_quantity pos = (q, Some s)"
  shows "checked_add_quantity D pos q s = Inr 0"
  using assms add_exact [of pos "- pos"]
  by (auto simp: to_close_quantity_def checked_add_quantity_def param_type_defs
      split: if_splits)

lemma margin_exact:
  assumes "self \<noteq> 0" "representable (n * 10)" "representable (n * 10 / of_nat (unat self))"
  shows "leverage_calculate_margin_required D self n = Inr (n * 10 / of_nat (unat self))"
proof -
  have nz: "(of_nat (unat self) :: rat) \<noteq> 0" using assms(1) by (simp add: unat_gt_0 del: of_nat_unat)
  show ?thesis unfolding leverage_calculate_margin_required_def Let_def
    using assms(2,3) nz by (simp add: mul_exact div_exact param_type_defs del: of_nat_unat)
qed

end

section \<open>Properties\<close>

text \<open>
  The volume of a quantity at a non-zero price, and the quantity of a volume at that price,
  are inverse: pricing an order by quantity and then reading the volume back gives the quantity.
\<close>

lemma volume_of_quantity_roundtrip:
  assumes "decimal_arith D" and "0 \<le> q" and "p \<noteq> 0"
    and "representable (p * q)" and "representable q"
  shows "bind_res (price_calculate_volume D p q) (\<lambda>v. volume_calculate_quantity D v p) = Inr q"
  using decimal_arith.volume_quantity_roundtrip [OF assms] by simp

text \<open>
  A position is recovered from the trade that opens it, and trading the quantity and side
  that \<open>to_close_quantity\<close> returns for it brings it to exactly zero; a flat position asks
  for no closing trade.
\<close>

lemma position_open_close:
  assumes "decimal_arith D"
  shows "(case to_open_quantity pos of (q, s) \<Rightarrow> 0 \<le> q \<and> from_quantity_and_side q s = pos) \<and>
    (case to_close_quantity pos of
       (q, None) \<Rightarrow> pos = 0 \<and> q = 0
     | (q, Some s) \<Rightarrow> 0 < q \<and> checked_add_quantity D pos q s = Inr 0)"
proof (intro conjI)
  show "case to_open_quantity pos of (q, s) \<Rightarrow> 0 \<le> q \<and> from_quantity_and_side q s = pos"
    by (simp add: to_open_quantity_def from_quantity_and_side_def param_type_defs)
next
  show "case to_close_quantity pos of (q, None) \<Rightarrow> pos = 0 \<and> q = 0
    | (q, Some s) \<Rightarrow> 0 < q \<and> checked_add_quantity D pos q s = Inr 0"
    using decimal_arith.close_quantity_closes [OF assms, of pos]
    by (auto simp: to_close_quantity_def param_type_defs)
qed

text \<open>
  Leverage from an integer multiplier: accepted exactly from 1 to 3000, with the raw value
  ten times the multiplier and no wrap-around; rejected as invalid outside that range, except that
  a multiplier of 6554 or more, whose scaled value does not fit 16 bits, reports an overflow.
\<close>

lemma leverage_from_u16_cases:
  "leverage_from_u16 m =
     (if 6554 \<le> unat m then Inl (Overflow PK_Leverage)
      else if 1 \<le> unat m \<and> unat m \<le> 3000 then Inr (m * 10)
      else Inl InvalidLeverage) \<and>
   (unat m \<le> 3000 \<longrightarrow> unat (m * 10) = unat m * 10)"
proof -
  have u: "unat m * 10 < 65536 \<Longrightarrow> unat (m * 10) = unat m * 10"
    using unat_mul_scale [of m] by (simp add: leverage_SCALE_def)
  show ?thesis
  proof (cases "6554 \<le> unat m")
    case True
    then show ?thesis by (simp add: leverage_from_u16_def u16_checked_mul_def)
  next
    case False
    then have lt: "unat m * 10 < 65536" by simp
    then show ?thesis using u False
      by (simp add: leverage_from_u16_def u16_checked_mul_def leverage_from_raw_iff
          leverage_SCALE_def)
  qed
qed

end
