(* ===== verification/Holdings.thy ===== *)
theory Holdings
  imports Param_Types Identifiers
begin

text \<open>
  One holdings slot (\<open>crates/openpit/src/pretrade/holdings/holdings.rs\<close> and
  \<open>error.rs\<close>): the quantities \<open>available\<close>, \<open>held\<close> and
  \<open>incoming\<close>, the average entry price and the realized P\&L with its sticky halt, and the
  outcome types of \<open>core/account_outcome.rs\<close>. Every operation is a function to a new slot or
  an error, as in the code.

  The main theorem about position accounting is \<open>fill_preserves_equity\<close>: a fill changes the
  marked-to-market value of the slot, at any mark price, by exactly the value of the fill.
\<close>

section \<open>Outcome types\<close>

datatype pnl_halt_reason = MissingFx | MissingAccountCurrency | MissingInitialPnl
  | MissingCostBasis | PnlArithmeticOverflow

record outcome_amount =
  oa_delta :: position_size
  oa_absolute :: position_size

record pnl_outcome_amount =
  poa_delta :: pnl
  poa_absolute :: pnl

type_synonym pnl_outcome = "pnl_halt_reason + pnl_outcome_amount"

datatype pnl_state = PnlState_Value pnl | PnlState_Halted pnl_halt_reason

record account_outcome_entry =
  aoe_asset :: asset
  aoe_balance :: "outcome_amount option"
  aoe_held :: "outcome_amount option"
  aoe_incoming :: "outcome_amount option"
  aoe_realized_pnl :: "pnl_outcome option"
  aoe_average_entry_price :: "price option"

section \<open>The slot\<close>

datatype position_pnl_state = PnlValue pnl | PnlHalted pnl_halt_reason

record holdings =
  available :: position_size
  held :: position_size
  incoming :: position_size
  avg_entry_price :: "price option"
  realized_pnl_field :: "position_pnl_state option"

record position_pnl_operation =
  op_holdings :: holdings
  op_outcome :: "pnl_outcome option"
  op_realized_delta :: "pnl option"
  op_average_entry_price :: "price option"

datatype adjustment_overflow_error = AdjustmentArithmeticOverflow

datatype hold_error = InsufficientAvailable position_size position_size | HoldArithmeticOverflow

datatype adjustment_target = AvailableField | HeldField | IncomingField

definition operation_unchanged :: "holdings \<Rightarrow> position_pnl_operation" where
  "operation_unchanged h =
     \<lparr>op_holdings = h, op_outcome = None, op_realized_delta = None, op_average_entry_price = None\<rparr>"

definition operation_updated ::
  "holdings \<Rightarrow> pnl_outcome option \<Rightarrow> pnl option \<Rightarrow> price option \<Rightarrow> position_pnl_operation" where
  "operation_updated h outcome realized_delta average_entry_price =
     \<lparr>op_holdings = h, op_outcome = outcome, op_realized_delta = realized_delta,
      op_average_entry_price = average_entry_price\<rparr>"

definition holdings_zero :: holdings where
  "holdings_zero =
     \<lparr>available = 0, held = 0, incoming = 0, avg_entry_price = None, realized_pnl_field = None\<rparr>"

definition holdings_new :: "position_size \<Rightarrow> position_size \<Rightarrow> holdings" where
  "holdings_new av hl =
     \<lparr>available = av, held = hl, incoming = 0, avg_entry_price = None, realized_pnl_field = None\<rparr>"

definition realized_pnl :: "holdings \<Rightarrow> pnl option" where
  "realized_pnl self =
     Option.bind (realized_pnl_field self)
       (\<lambda>outcome. case outcome of PnlValue value \<Rightarrow> Some value | PnlHalted _ \<Rightarrow> None)"

definition realized_pnl_halt_reason :: "holdings \<Rightarrow> pnl_halt_reason option" where
  "realized_pnl_halt_reason self =
     (case realized_pnl_field self of
        Some (PnlHalted reason) \<Rightarrow> Some reason
      | None \<Rightarrow> None | Some (PnlValue _) \<Rightarrow> None)"

definition realized_pnl_is_halted :: "holdings \<Rightarrow> bool" where
  "realized_pnl_is_halted self \<longleftrightarrow> realized_pnl_halt_reason self \<noteq> None"

definition with_realized_pnl :: "holdings \<Rightarrow> pnl \<Rightarrow> holdings" where
  "with_realized_pnl self value = self\<lparr>realized_pnl_field := Some (PnlValue value)\<rparr>"

definition force_set_realized_pnl_state :: "holdings \<Rightarrow> position_pnl_state \<Rightarrow> holdings" where
  "force_set_realized_pnl_state self state =
     self\<lparr>avg_entry_price :=
            (case state of PnlValue _ \<Rightarrow> avg_entry_price self | PnlHalted _ \<Rightarrow> None),
          realized_pnl_field := Some state\<rparr>"

definition with_realized_pnl_opt :: "holdings \<Rightarrow> pnl option \<Rightarrow> holdings" where
  "with_realized_pnl_opt self value =
     self\<lparr>realized_pnl_field :=
       (case (realized_pnl_field self, value) of
          (_, Some v) \<Rightarrow> Some (PnlValue v)
        | (Some (PnlHalted reason), None) \<Rightarrow> Some (PnlHalted reason)
        | (None, None) \<Rightarrow> None
        | (Some (PnlValue _), None) \<Rightarrow> None)\<rparr>"

definition with_realized_pnl_state :: "holdings \<Rightarrow> position_pnl_state option \<Rightarrow> holdings" where
  "with_realized_pnl_state self value = self\<lparr>realized_pnl_field := value\<rparr>"

definition halt_realized_pnl_with_average ::
  "holdings \<Rightarrow> pnl_halt_reason \<Rightarrow> price option \<Rightarrow> position_pnl_operation" where
  "halt_realized_pnl_with_average self reason average =
     (if realized_pnl_is_halted self then operation_unchanged self
      else operation_updated
             (self\<lparr>avg_entry_price := average, realized_pnl_field := Some (PnlHalted reason)\<rparr>)
             (Some (Inl reason)) None None)"

definition halt_realized_pnl :: "holdings \<Rightarrow> pnl_halt_reason \<Rightarrow> position_pnl_operation" where
  "halt_realized_pnl self reason = halt_realized_pnl_with_average self reason None"

definition halt_realized_pnl_preserving_average ::
  "holdings \<Rightarrow> pnl_halt_reason \<Rightarrow> position_pnl_operation" where
  "halt_realized_pnl_preserving_average self reason =
     halt_realized_pnl_with_average self reason (avg_entry_price self)"

text \<open>Position-size arithmetic with the overflow error of an adjustment or of a hold.\<close>

definition ps_add :: "dec_ops \<Rightarrow> 'e \<Rightarrow> position_size \<Rightarrow> position_size \<Rightarrow> 'e + position_size" where
  "ps_add D e a b = map_err (\<lambda>_. e) (sg_checked_add D PK_PositionSize a b)"

definition ps_sub :: "dec_ops \<Rightarrow> 'e \<Rightarrow> position_size \<Rightarrow> position_size \<Rightarrow> 'e + position_size" where
  "ps_sub D e a b = map_err (\<lambda>_. e) (sg_checked_sub D PK_PositionSize a b)"

definition halt_realized_pnl_for_unpriced_fill ::
  "dec_ops \<Rightarrow> holdings \<Rightarrow> position_size \<Rightarrow> pnl_halt_reason \<Rightarrow>
   adjustment_overflow_error + position_pnl_operation" where
  "halt_realized_pnl_for_unpriced_fill D self signed_quantity reason =
     bind_res (ps_add D AdjustmentArithmeticOverflow (available self) (held self)) (\<lambda>owned.
     bind_res (ps_add D AdjustmentArithmeticOverflow owned signed_quantity) (\<lambda>new_owned.
       let average =
             (if signed_quantity = 0 then avg_entry_price self
              else if owned = 0 \<or> (owned > 0) = (signed_quantity > 0)
                   \<or> \<bar>signed_quantity\<bar> > \<bar>owned\<bar> \<or> is_zero new_owned
              then None else avg_entry_price self);
           (state, outcome) =
             (case realized_pnl_field self of
                Some (PnlHalted existing) \<Rightarrow> (PnlHalted existing, None)
              | None \<Rightarrow> (PnlHalted reason, Some (Inl reason))
              | Some (PnlValue _) \<Rightarrow> (PnlHalted reason, Some (Inl reason)))
       in Inr (operation_updated
            (self\<lparr>avg_entry_price := average, realized_pnl_field := Some state\<rparr>)
            outcome None average)))"

definition without_position_tracking :: "holdings \<Rightarrow> holdings" where
  "without_position_tracking self = self\<lparr>avg_entry_price := None, realized_pnl_field := None\<rparr>"

definition try_hold :: "dec_ops \<Rightarrow> holdings \<Rightarrow> position_size \<Rightarrow> hold_error + holdings" where
  "try_hold D self amount =
     bind_res
       (if held self < 0 then ps_add D HoldArithmeticOverflow (available self) (held self)
        else Inr (available self))
       (\<lambda>spendable.
          if amount > spendable then Inl (InsufficientAvailable spendable amount)
          else
            bind_res (ps_sub D HoldArithmeticOverflow (available self) amount) (\<lambda>av.
            bind_res (ps_add D HoldArithmeticOverflow (held self) amount) (\<lambda>hl.
              Inr (self\<lparr>available := av, held := hl\<rparr>))))"

definition hold_allow_negative ::
  "dec_ops \<Rightarrow> holdings \<Rightarrow> position_size \<Rightarrow> hold_error + holdings" where
  "hold_allow_negative D self amount =
     bind_res (ps_sub D HoldArithmeticOverflow (available self) amount) (\<lambda>av.
     bind_res (ps_add D HoldArithmeticOverflow (held self) amount) (\<lambda>hl.
       Inr (self\<lparr>available := av, held := hl\<rparr>)))"

definition release ::
  "dec_ops \<Rightarrow> holdings \<Rightarrow> position_size \<Rightarrow> adjustment_overflow_error + holdings" where
  "release D self amount =
     bind_res (ps_add D AdjustmentArithmeticOverflow (available self) amount) (\<lambda>av.
     bind_res (ps_sub D AdjustmentArithmeticOverflow (held self) amount) (\<lambda>hl.
       Inr (self\<lparr>available := av, held := hl\<rparr>)))"

definition apply_fill_outflow ::
  "dec_ops \<Rightarrow> holdings \<Rightarrow> position_size \<Rightarrow> adjustment_overflow_error + holdings" where
  "apply_fill_outflow D self amount =
     bind_res (ps_sub D AdjustmentArithmeticOverflow (held self) amount) (\<lambda>hl.
       Inr (self\<lparr>held := hl\<rparr>))"

definition apply_fill_inflow ::
  "dec_ops \<Rightarrow> holdings \<Rightarrow> position_size \<Rightarrow> adjustment_overflow_error + holdings" where
  "apply_fill_inflow D self amount =
     bind_res (ps_add D AdjustmentArithmeticOverflow (available self) amount) (\<lambda>av.
       Inr (self\<lparr>available := av\<rparr>))"

definition reserve_incoming ::
  "dec_ops \<Rightarrow> holdings \<Rightarrow> position_size \<Rightarrow> adjustment_overflow_error + holdings" where
  "reserve_incoming D self amount =
     bind_res (ps_add D AdjustmentArithmeticOverflow (incoming self) amount) (\<lambda>inc.
       Inr (self\<lparr>incoming := inc\<rparr>))"

definition consume_incoming ::
  "dec_ops \<Rightarrow> holdings \<Rightarrow> position_size \<Rightarrow> adjustment_overflow_error + holdings" where
  "consume_incoming D self amount =
     bind_res (ps_sub D AdjustmentArithmeticOverflow (incoming self) amount) (\<lambda>inc.
       Inr (self\<lparr>incoming := inc\<rparr>))"

section \<open>Realizing a fill\<close>

text \<open>
  The average and the realized amount of a fill, before they are booked. \<open>NeedsBasis\<close> is the
  early return taken when the average entry price is missing.
\<close>

datatype fill_effect = Booked "price option" decimal | NeedsBasis

definition fill_effect_of ::
  "dec_ops \<Rightarrow> holdings \<Rightarrow> decimal \<Rightarrow> decimal \<Rightarrow> decimal \<Rightarrow> decimal \<Rightarrow>
   adjustment_overflow_error + fill_effect" where
  "fill_effect_of D self owned new_owned delta price =
     (if owned = 0 then Inr (Booked (if delta = 0 then None else Some price) 0)
      else if (owned > 0) = (delta > 0) then
        (case avg_entry_price self of
           Some avg \<Rightarrow>
             bind_res (ok_or (dec_checked_mul D owned avg) AdjustmentArithmeticOverflow)
               (\<lambda>weighted_existing.
             bind_res (ok_or (dec_checked_mul D delta price) AdjustmentArithmeticOverflow)
               (\<lambda>weighted_fill.
             bind_res (ok_or (dec_checked_add D weighted_existing weighted_fill)
                 AdjustmentArithmeticOverflow) (\<lambda>numerator.
             bind_res (ok_or (dec_checked_div D numerator new_owned)
                 AdjustmentArithmeticOverflow) (\<lambda>new_avg.
               Inr (Booked (Some (sg_new new_avg)) 0)))))
         | None \<Rightarrow> if delta = 0 then Inr (Booked None 0) else Inr NeedsBasis)
      else
        (case avg_entry_price self of
           Some avg \<Rightarrow>
             bind_res (ok_or (dec_checked_sub D price avg) AdjustmentArithmeticOverflow)
               (\<lambda>price_minus_avg.
                  if \<bar>delta\<bar> \<le> \<bar>owned\<bar> then
                    bind_res (ok_or (dec_checked_mul D price_minus_avg (- delta))
                        AdjustmentArithmeticOverflow)
                      (\<lambda>realized. Inr (Booked (if is_zero new_owned then None else Some avg)
                          realized))
                  else
                    bind_res (ok_or (dec_checked_mul D price_minus_avg owned)
                        AdjustmentArithmeticOverflow)
                      (\<lambda>realized. Inr (Booked (Some price) realized)))
         | None \<Rightarrow> Inr NeedsBasis))"

definition book_realized ::
  "dec_ops \<Rightarrow> position_pnl_state option \<Rightarrow> bool \<Rightarrow> pnl \<Rightarrow>
   position_pnl_state option \<times> pnl_outcome option" where
  "book_realized D state realizes realized_delta =
     (case state of
        Some (PnlValue current) \<Rightarrow>
          (case sg_checked_add D PK_Pnl current realized_delta of
             Inr absolute \<Rightarrow>
               (Some (PnlValue absolute),
                if realizes then Some (Inr \<lparr>poa_delta = realized_delta, poa_absolute = absolute\<rparr>)
                else None)
           | Inl _ \<Rightarrow>
               (Some (PnlHalted PnlArithmeticOverflow), Some (Inl PnlArithmeticOverflow)))
      | None \<Rightarrow>
          if realizes then
            (Some (PnlValue realized_delta),
             Some (Inr \<lparr>poa_delta = realized_delta, poa_absolute = realized_delta\<rparr>))
          else (None, None)
      | Some (PnlHalted reason) \<Rightarrow> (Some (PnlHalted reason), None))"

definition realize_position_fill ::
  "dec_ops \<Rightarrow> holdings \<Rightarrow> position_size \<Rightarrow> price \<Rightarrow>
   adjustment_overflow_error + position_pnl_operation" where
  "realize_position_fill D self signed_qty price =
     bind_res (ps_add D AdjustmentArithmeticOverflow (available self) (held self)) (\<lambda>owned.
     bind_res (ps_add D AdjustmentArithmeticOverflow owned signed_qty) (\<lambda>new_owned.
       let realizes = (owned \<noteq> 0 \<and> signed_qty \<noteq> 0 \<and> (owned > 0) \<noteq> (signed_qty > 0)) in
       bind_res (fill_effect_of D self owned new_owned signed_qty price) (\<lambda>eff.
         case eff of
           NeedsBasis \<Rightarrow>
             if realized_pnl_is_halted self then Inr (operation_unchanged self)
             else Inr (operation_updated
                    (self\<lparr>realized_pnl_field := Some (PnlHalted MissingCostBasis)\<rparr>)
                    (Some (Inl MissingCostBasis)) None None)
         | Booked new_avg realized_dec \<Rightarrow>
             let realized_delta = sg_new realized_dec;
                 (state, outcome) =
                   book_realized D (realized_pnl_field self) realizes realized_delta
             in Inr (operation_updated
                  (self\<lparr>avg_entry_price := new_avg, realized_pnl_field := state\<rparr>)
                  outcome (if realizes then Some realized_delta else None) new_avg))))"

definition add_realized_pnl_contribution ::
  "dec_ops \<Rightarrow> holdings \<Rightarrow> pnl \<Rightarrow> position_pnl_operation" where
  "add_realized_pnl_contribution D self delta =
     (let accrue = (\<lambda>current.
        case sg_checked_add D PK_Pnl current delta of
          Inr absolute \<Rightarrow>
            operation_updated (self\<lparr>realized_pnl_field := Some (PnlValue absolute)\<rparr>)
              (Some (Inr \<lparr>poa_delta = delta, poa_absolute = absolute\<rparr>)) None None
        | Inl _ \<Rightarrow>
            operation_updated (self\<lparr>realized_pnl_field := Some (PnlHalted PnlArithmeticOverflow)\<rparr>)
              (Some (Inl PnlArithmeticOverflow)) None None)
      in case realized_pnl_field self of
           Some (PnlValue current) \<Rightarrow> accrue current
         | None \<Rightarrow> accrue 0
         | Some (PnlHalted _) \<Rightarrow> operation_unchanged self)"

section \<open>Adjustments\<close>

definition apply_delta_rollback ::
  "dec_ops \<Rightarrow> holdings \<Rightarrow> position_size \<Rightarrow> position_size \<Rightarrow> position_size \<Rightarrow>
   adjustment_overflow_error + holdings" where
  "apply_delta_rollback D self available_delta held_delta incoming_delta =
     bind_res (ps_sub D AdjustmentArithmeticOverflow (available self) available_delta) (\<lambda>av.
     bind_res (ps_sub D AdjustmentArithmeticOverflow (held self) held_delta) (\<lambda>hl.
     bind_res (ps_sub D AdjustmentArithmeticOverflow (incoming self) incoming_delta) (\<lambda>inc.
       Inr (self\<lparr>available := av, held := hl, incoming := inc\<rparr>))))"

definition apply_adjustment ::
  "dec_ops \<Rightarrow> holdings \<Rightarrow> adjustment_target \<Rightarrow> adjustment_amount \<Rightarrow>
   adjustment_overflow_error + holdings" where
  "apply_adjustment D self target amount =
     (let new_value = (\<lambda>field. case amount of
            Absolute v \<Rightarrow> Inr v
          | Delta d \<Rightarrow> ps_add D AdjustmentArithmeticOverflow field d)
      in case target of
           AvailableField \<Rightarrow>
             map_res (\<lambda>v. self\<lparr>available := v\<rparr>) (new_value (available self))
         | HeldField \<Rightarrow> map_res (\<lambda>v. self\<lparr>held := v\<rparr>) (new_value (held self))
         | IncomingField \<Rightarrow> map_res (\<lambda>v. self\<lparr>incoming := v\<rparr>) (new_value (incoming self)))"

definition with_avg_entry_price :: "holdings \<Rightarrow> price option \<Rightarrow> holdings" where
  "with_avg_entry_price self average = self\<lparr>avg_entry_price := average\<rparr>"

definition holdings_is_zero :: "holdings \<Rightarrow> bool" where
  "holdings_is_zero self \<longleftrightarrow> is_zero (available self) \<and> is_zero (held self) \<and>
     is_zero (incoming self) \<and> realized_pnl_field self = None \<and> avg_entry_price self = None"

definition is_retirable :: "holdings \<Rightarrow> bool" where
  "is_retirable self \<longleftrightarrow> is_zero (available self) \<and> is_zero (held self) \<and>
     is_zero (incoming self) \<and> avg_entry_price self = None \<and>
     (case realized_pnl_field self of
        None \<Rightarrow> True
      | Some (PnlValue pnl) \<Rightarrow> pnl = 0
      | Some (PnlHalted _) \<Rightarrow> False)"

definition within_bounds ::
  "position_size \<Rightarrow> position_size option \<Rightarrow> position_size option \<Rightarrow> bool" where
  "within_bounds value lower upper \<longleftrightarrow>
     (case lower of None \<Rightarrow> True | Some b \<Rightarrow> value \<ge> b) \<and>
     (case upper of None \<Rightarrow> True | Some b \<Rightarrow> value \<le> b)"

definition available_within_bounds ::
  "holdings \<Rightarrow> position_size option \<Rightarrow> position_size option \<Rightarrow> bool" where
  "available_within_bounds self lower upper = within_bounds (available self) lower upper"

definition held_within_bounds ::
  "holdings \<Rightarrow> position_size option \<Rightarrow> position_size option \<Rightarrow> bool" where
  "held_within_bounds self lower upper = within_bounds (held self) lower upper"

definition incoming_within_bounds ::
  "holdings \<Rightarrow> position_size option \<Rightarrow> position_size option \<Rightarrow> bool" where
  "incoming_within_bounds self lower upper = within_bounds (incoming self) lower upper"

section \<open>Reference quantities\<close>

text \<open>
  \<open>spendable\<close> is the capacity a reservation may use, \<open>equity\<close> the value of a slot
  marked at a price: the realized P\&L and the unrealized P\&L of the owned quantity.
\<close>

definition spendable :: "holdings \<Rightarrow> decimal" where
  "spendable h = available h + min (held h) 0"

definition owned :: "holdings \<Rightarrow> decimal" where
  "owned h = available h + held h"

definition average_or_zero :: "holdings \<Rightarrow> decimal" where
  "average_or_zero h = (case avg_entry_price h of Some a \<Rightarrow> a | None \<Rightarrow> 0)"

definition pnl_or_zero :: "holdings \<Rightarrow> decimal" where
  "pnl_or_zero h = (case realized_pnl h of Some r \<Rightarrow> r | None \<Rightarrow> 0)"

definition equity_at :: "holdings \<Rightarrow> decimal \<Rightarrow> decimal \<Rightarrow> decimal" where
  "equity_at h net mark = pnl_or_zero h + net * (mark - average_or_zero h)"

definition basis_known :: "holdings \<Rightarrow> decimal \<Rightarrow> bool" where
  "basis_known h net \<longleftrightarrow> (avg_entry_price h = None \<longleftrightarrow> net = 0)"

definition keeps_pnl :: "holdings \<Rightarrow> position_pnl_operation \<Rightarrow> bool" where
  "keeps_pnl h op \<longleftrightarrow>
     realized_pnl_field (op_holdings op) = realized_pnl_field h \<and> op_outcome op = None"

text \<open>The values the arithmetic of a fill passes through.\<close>

definition fill_values :: "holdings \<Rightarrow> decimal \<Rightarrow> decimal \<Rightarrow> decimal list" where
  "fill_values h q p =
     (let n = owned h; a = average_or_zero h; r = pnl_or_zero h
      in [n, n + q, r] @
         (if n = 0 then []
          else if (n > 0) = (q > 0) then [n * a, q * p, n * a + q * p, (n * a + q * p) / (n + q)]
          else if \<bar>q\<bar> \<le> \<bar>n\<bar> then [p - a, (p - a) * - q, r + (p - a) * - q]
          else [p - a, (p - a) * n, r + (p - a) * n]))"

section \<open>Lemmas\<close>

lemma halted_iff: "realized_pnl_is_halted h \<longleftrightarrow> (\<exists>r. realized_pnl_field h = Some (PnlHalted r))"
  by (auto simp: realized_pnl_is_halted_def realized_pnl_halt_reason_def
      split: option.splits position_pnl_state.splits)

lemma operation_simps [simp]:
  "op_holdings (operation_unchanged h) = h" "op_outcome (operation_unchanged h) = None"
  "op_holdings (operation_updated h o' d a) = h" "op_outcome (operation_updated h o' d a) = o'"
  "op_realized_delta (operation_updated h o' d a) = d"
  "op_average_entry_price (operation_updated h o' d a) = a"
  by (simp_all add: operation_unchanged_def operation_updated_def)

lemma halted_book:
  "book_realized D (Some (PnlHalted r)) realizes d = (Some (PnlHalted r), None)"
  by (simp add: book_realized_def)

lemma realize_halted_sticky:
  assumes "realized_pnl_is_halted h" "realize_position_fill D h q p = Inr op"
  shows "realized_pnl_field (op_holdings op) = realized_pnl_field h \<and> op_outcome op = None"
proof -
  obtain r where r: "realized_pnl_field h = Some (PnlHalted r)" using assms(1) halted_iff by blast
  obtain x y eff where "ps_add D AdjustmentArithmeticOverflow (available h) (held h) = Inr x"
    "ps_add D AdjustmentArithmeticOverflow x q = Inr y" "fill_effect_of D h x y q p = Inr eff"
    using assms(2) by (auto simp: realize_position_fill_def result_simps Let_def)
  then show ?thesis using assms r
    by (cases eff) (auto simp: realize_position_fill_def halted_book)
qed

lemma unpriced_halted_sticky:
  assumes "realized_pnl_is_halted h" "halt_realized_pnl_for_unpriced_fill D h q r = Inr op"
  shows "realized_pnl_field (op_holdings op) = realized_pnl_field h \<and> op_outcome op = None"
  using assms
  by (auto simp: halt_realized_pnl_for_unpriced_fill_def halted_iff result_simps Let_def)

context decimal_arith
begin

lemma ps_add_exact: "representable (a + b) \<Longrightarrow> ps_add D e a b = Inr (a + b)"
  by (simp add: ps_add_def sg_add_exact)

lemma ps_sub_exact: "representable (a - b) \<Longrightarrow> ps_sub D e a b = Inr (a - b)"
  by (simp add: ps_sub_def sg_sub_exact)

lemma try_hold_exact:
  assumes "representable (owned h)" "representable (available h - a)" "representable (held h + a)"
  shows "try_hold D h a =
    (if a \<le> spendable h
     then Inr (h\<lparr>available := available h - a, held := held h + a\<rparr>)
     else Inl (InsufficientAvailable (spendable h) a))"
  using assms
  by (auto simp: try_hold_def ps_add_exact ps_sub_exact owned_def spendable_def min_def)

lemma hold_allow_negative_exact:
  assumes "representable (available h - a)" "representable (held h + a)"
  shows "hold_allow_negative D h a = Inr (h\<lparr>available := available h - a, held := held h + a\<rparr>)"
  using assms by (simp add: hold_allow_negative_def ps_add_exact ps_sub_exact)

lemma release_exact:
  assumes "representable (available h + a)" "representable (held h - a)"
  shows "release D h a = Inr (h\<lparr>available := available h + a, held := held h - a\<rparr>)"
  using assms by (simp add: release_def ps_add_exact ps_sub_exact)

lemma book_exact:
  assumes "\<not> realized_pnl_is_halted h" "representable (pnl_or_zero h + d)"
    and "d \<noteq> 0 \<longrightarrow> realizes"
  shows "\<exists>state outcome. book_realized D (realized_pnl_field h) realizes d = (state, outcome) \<and>
     pnl_or_zero (g\<lparr>realized_pnl_field := state\<rparr>) = pnl_or_zero h + d \<and>
     \<not> realized_pnl_is_halted (g\<lparr>realized_pnl_field := state\<rparr>)"
  using assms
  by (auto simp: book_realized_def halted_iff pnl_or_zero_def realized_pnl_def sg_add_exact
      split: option.splits position_pnl_state.splits)

text \<open>The average and realized amount of a fill on a slot whose basis is known.\<close>

lemma fill_effect_exact:
  assumes basis: "basis_known h (owned h)"
    and rep: "\<forall>v \<in> set (fill_values h q p). representable v"
  shows "\<exists>avg d. fill_effect_of D h (owned h) (owned h + q) q p = Inr (Booked avg d) \<and>
    (avg = None \<longleftrightarrow> owned h + q = 0) \<and> representable (pnl_or_zero h + d) \<and>
    (d \<noteq> 0 \<longrightarrow> owned h \<noteq> 0 \<and> q \<noteq> 0 \<and> (owned h > 0) \<noteq> (q > 0)) \<and>
    (\<forall>m. d + (owned h + q) * (m - (case avg of Some a \<Rightarrow> a | None \<Rightarrow> 0)) =
         owned h * (m - average_or_zero h) + q * (m - p))"
proof -
  consider (flat) "owned h = 0"
    | (add) a where "owned h \<noteq> 0" "(owned h > 0) = (q > 0)" "avg_entry_price h = Some a"
    | (cut) a where "owned h \<noteq> 0" "(owned h > 0) \<noteq> (q > 0)" "avg_entry_price h = Some a"
    using basis by (cases "avg_entry_price h") (auto simp: basis_known_def)
  then show ?thesis
  proof cases
    case flat
    then show ?thesis using rep
      by (auto simp: fill_effect_of_def fill_values_def Let_def algebra_simps)
  next
    case add
    have net: "owned h + q \<noteq> 0" using add(1,2) by (cases "owned h > 0") auto
    have avg: "average_or_zero h = a" using add(3) by (simp add: average_or_zero_def)
    show ?thesis using rep add net
      by (simp add: fill_effect_of_def fill_values_def Let_def avg mul_exact add_exact div_exact
          sg_new_def right_diff_distrib) (simp add: algebra_simps)
  next
    case cut
    have avg: "average_or_zero h = a" using cut(3) by (simp add: average_or_zero_def)
    have nz: "owned h \<noteq> 0" by (rule cut(1))
    show ?thesis
    proof (cases "\<bar>q\<bar> \<le> \<bar>owned h\<bar>")
      case True
      then have eff: "fill_effect_of D h (owned h) (owned h + q) q p =
          Inr (Booked (if owned h + q = 0 then None else Some a) ((p - a) * - q))"
        and repd: "representable (pnl_or_zero h + (p - a) * - q)"
        using rep cut
        by (simp_all add: fill_effect_of_def fill_values_def Let_def avg mul_exact sub_exact
            is_zero_def)
      have flat: "(p - a) * - q = owned h * (m - a) + q * (m - p)" if "owned h + q = 0" for m
      proof -
        have "owned h = - q" using that by simp
        then show ?thesis by (simp add: algebra_simps)
      qed
      have live: "(p - a) * - q + (owned h + q) * (m - a) = owned h * (m - a) + q * (m - p)" for m
        by (simp add: algebra_simps)
      show ?thesis
        using eff repd cut(1,2) flat live avg by (cases "owned h + q = 0") auto
    next
      case False
      then have "fill_effect_of D h (owned h) (owned h + q) q p =
          Inr (Booked (Some p) ((p - a) * owned h))"
        and "representable (pnl_or_zero h + (p - a) * owned h)" and "owned h + q \<noteq> 0"
        using rep cut
        by (auto simp add: fill_effect_of_def fill_values_def Let_def avg mul_exact sub_exact
            is_zero_def)
      moreover have "q \<noteq> 0" using False by auto
      moreover have "(p - a) * owned h + (owned h + q) * (m - p) =
          owned h * (m - a) + q * (m - p)" for m
        by (simp add: algebra_simps)
      ultimately show ?thesis using cut(1,2) avg by auto
    qed
  qed
qed

lemma realize_fill_exact:
  assumes "\<not> realized_pnl_is_halted h" and basis: "basis_known h (owned h)"
    and rep: "\<forall>v \<in> set (fill_values h q p). representable v"
  shows "\<exists>op. realize_position_fill D h q p = Inr op \<and>
    \<not> realized_pnl_is_halted (op_holdings op) \<and> basis_known (op_holdings op) (owned h + q) \<and>
    available (op_holdings op) = available h \<and> held (op_holdings op) = held h \<and>
    incoming (op_holdings op) = incoming h \<and>
    (\<forall>m. equity_at (op_holdings op) (owned h + q) m = equity_at h (owned h) m + q * (m - p))"
proof -
  obtain avg d where eff: "fill_effect_of D h (owned h) (owned h + q) q p = Inr (Booked avg d)"
    and none: "avg = None \<longleftrightarrow> owned h + q = 0" and repd: "representable (pnl_or_zero h + d)"
    and dz: "d \<noteq> 0 \<longrightarrow> owned h \<noteq> 0 \<and> q \<noteq> 0 \<and> (owned h > 0) \<noteq> (q > 0)"
    and eq: "\<forall>m. d + (owned h + q) * (m - (case avg of Some a \<Rightarrow> a | None \<Rightarrow> 0)) =
         owned h * (m - average_or_zero h) + q * (m - p)"
    using fill_effect_exact [OF basis rep] by blast
  let ?rz = "owned h \<noteq> 0 \<and> q \<noteq> 0 \<and> (owned h > 0) \<noteq> (q > 0)"
  obtain state outcome where
    book: "book_realized D (realized_pnl_field h) ?rz d = (state, outcome)"
    and pnl: "pnl_or_zero (h\<lparr>avg_entry_price := avg, realized_pnl_field := state\<rparr>) =
        pnl_or_zero h + d"
    and live: "\<not> realized_pnl_is_halted (h\<lparr>avg_entry_price := avg, realized_pnl_field := state\<rparr>)"
    using book_exact [OF assms(1) repd, of ?rz "h\<lparr>avg_entry_price := avg\<rparr>"] dz by auto
  have reps: "representable (owned h)" "representable (owned h + q)"
    using rep by (auto simp: fill_values_def Let_def)
  have op: "realize_position_fill D h q p =
      Inr (operation_updated (h\<lparr>avg_entry_price := avg, realized_pnl_field := state\<rparr>) outcome
        (if ?rz then Some d else None) avg)"
    using reps eff book
    by (simp add: realize_position_fill_def ps_add_exact owned_def sg_new_def)
  have "pnl_or_zero h + d + (owned h + q) * (m - (case avg of Some a \<Rightarrow> a | None \<Rightarrow> 0)) =
      pnl_or_zero h + owned h * (m - average_or_zero h) + q * (m - p)" for m
    using eq [rule_format, of m] by linarith
  then show ?thesis using op pnl live none
    by (simp add: equity_at_def basis_known_def average_or_zero_def)
qed

end

section \<open>Properties\<close>

text \<open>
  A reservation is accepted exactly when its amount does not exceed the spendable capacity,
  \<open>available + min(held, 0)\<close>; it then moves the amount from \<open>available\<close> to
  \<open>held\<close> and changes nothing else, and otherwise it reports that capacity.
\<close>

lemma try_hold_gate:
  assumes "decimal_arith D" and "representable (owned h)"
    and "representable (available h - a)" and "representable (held h + a)"
  shows "try_hold D h a =
    (if a \<le> available h + min (held h) 0
     then Inr (h\<lparr>available := available h - a, held := held h + a\<rparr>)
     else Inl (InsufficientAvailable (available h + min (held h) 0) a))"
  using decimal_arith.try_hold_exact [OF assms] unfolding spendable_def .

text \<open>
  A successful reservation conserves the owned quantity \<open>available + held\<close>, leaves the
  free balance non-negative when the held balance was, and releasing the same amount restores the
  slot exactly, average price and P\&L state included.
\<close>

lemma hold_then_release:
  assumes "decimal_arith D" and "representable (owned h)" and "representable (available h)"
    and "representable (held h)" and "representable (available h - a)"
    and "representable (held h + a)" and "try_hold D h a = Inr h'"
  shows "owned h' = owned h \<and> (0 \<le> held h \<longrightarrow> 0 \<le> available h') \<and> release D h' a = Inr h"
proof -
  have h': "h' = h\<lparr>available := available h - a, held := held h + a\<rparr>" and le: "a \<le> spendable h"
    using assms(7) decimal_arith.try_hold_exact [OF assms(1,2,5,6)] by (auto split: if_splits)
  show ?thesis
    using assms(3,4) le decimal_arith.release_exact [OF assms(1), of h' a]
    by (auto simp: h' owned_def spendable_def min_def split: if_splits)
qed

text \<open>
  (C20) Position accounting, on a slot with a known cost basis whose P\&L calculation is not halted, and
  for a fill whose intermediate values (the sums, the products and the weighted-average quotient) are
  all exact decimals, so that nothing is rounded: a fill of signed quantity \<open>q\<close> at price
  \<open>p\<close> succeeds, whether it opens, adds, reduces, closes or flips the position, and
  at every mark price \<open>m\<close> it changes the equity (realized P\&L plus the owned quantity times
  \<open>m\<close> minus the average price) by exactly \<open>q * (m - p)\<close>. The slot again has an
  average price exactly when the new position is not flat, and its quantities are untouched. Fills
  whose average price has to be rounded are outside this statement.
\<close>

theorem fill_preserves_equity:
  assumes "decimal_arith D" and "\<not> realized_pnl_is_halted h" and "basis_known h (owned h)"
    and "\<forall>v \<in> set (fill_values h q p). representable v"
  shows "\<exists>op. realize_position_fill D h q p = Inr op \<and>
    \<not> realized_pnl_is_halted (op_holdings op) \<and> basis_known (op_holdings op) (owned h + q) \<and>
    available (op_holdings op) = available h \<and> held (op_holdings op) = held h \<and>
    incoming (op_holdings op) = incoming h \<and>
    (\<forall>m. equity_at (op_holdings op) (owned h + q) m = equity_at h (owned h) m + q * (m - p))"
  using decimal_arith.realize_fill_exact [OF assms] .

theorem fill_preserves_equity_witness:
  "\<exists>op. realize_position_fill exact96_ops
      (holdings_new 10 0\<lparr>avg_entry_price := Some 3\<rparr>) (- 12) 5 = Inr op \<and>
    equity_at (op_holdings op) (- 2) 7 = 10 * (7 - 3) + (- 12) * (7 - 5)"
  using fill_preserves_equity [OF exact96.decimal_arith_axioms,
      of "holdings_new 10 0\<lparr>avg_entry_price := Some 3\<rparr>" "- 12" 5]
  by (auto simp: halted_iff basis_known_def owned_def holdings_new_def fill_values_def
      average_or_zero_def pnl_or_zero_def realized_pnl_def equity_at_def)

text \<open>
  A halted P\&L calculation is sticky: no fill, fee, or further halt changes the stored
  reason or publishes an outcome; an explicit force-set of a number always re-arms the slot.
\<close>

lemma halted_pnl_sticky:
  assumes "realized_pnl_is_halted h"
  shows "(\<forall>op. realize_position_fill D h q p = Inr op \<longrightarrow> keeps_pnl h op) \<and>
    (\<forall>op. halt_realized_pnl_for_unpriced_fill D h q r = Inr op \<longrightarrow> keeps_pnl h op) \<and>
    keeps_pnl h (add_realized_pnl_contribution D h d) \<and> keeps_pnl h (halt_realized_pnl h r) \<and>
    keeps_pnl h (halt_realized_pnl_preserving_average h r) \<and>
    realized_pnl (with_realized_pnl h x) = Some x \<and>
    realized_pnl (force_set_realized_pnl_state h (PnlValue x)) = Some x"
proof -
  have "keeps_pnl h (add_realized_pnl_contribution D h d)"
    "keeps_pnl h (halt_realized_pnl h r)" "keeps_pnl h (halt_realized_pnl_preserving_average h r)"
    using assms
    by (auto simp: keeps_pnl_def halted_iff add_realized_pnl_contribution_def Let_def
        halt_realized_pnl_def halt_realized_pnl_preserving_average_def
        halt_realized_pnl_with_average_def)
  moreover have "\<forall>op. realize_position_fill D h q p = Inr op \<longrightarrow> keeps_pnl h op"
    "\<forall>op. halt_realized_pnl_for_unpriced_fill D h q r = Inr op \<longrightarrow> keeps_pnl h op"
    using realize_halted_sticky [OF assms] unpriced_halted_sticky [OF assms]
    unfolding keeps_pnl_def by blast+
  ultimately show ?thesis
    by (simp add: realized_pnl_def with_realized_pnl_def force_set_realized_pnl_state_def)
qed

text \<open>
  Rolling back an adjustment by its delta keeps a concurrent change: adjusting the available
  balance by \<open>d\<close>, then reserving \<open>a\<close>, then rolling \<open>d\<close> back leaves exactly
  the slot that the reservation alone would have left.
\<close>

lemma delta_rollback_keeps_concurrent_hold:
  assumes "decimal_arith D" and "representable (available h + d)" and "representable (held h)"
    and "representable (incoming h)" and "representable (available h - a)"
    and "representable (held h + a)" and "representable (available h + d - a)"
  shows "bind_res (map_err (\<lambda>_. HoldArithmeticOverflow)
      (apply_adjustment D h AvailableField (Delta d))) (\<lambda>h1.
    bind_res (hold_allow_negative D h1 a) (\<lambda>h2.
      map_err (\<lambda>_. HoldArithmeticOverflow) (apply_delta_rollback D h2 d 0 0))) =
    hold_allow_negative D h a"
proof -
  note laws = decimal_arith.ps_add_exact [OF assms(1)] decimal_arith.ps_sub_exact [OF assms(1)]
  have "available h + d - a - d = available h - a" by simp
  then show ?thesis using assms(2-)
    by (simp add: apply_adjustment_def apply_delta_rollback_def hold_allow_negative_def laws)
qed

end
