(* ===== verification/Rejects.thy ===== *)
theory Rejects
  imports Holdings
begin

text \<open>
  The verdicts of the policies: reject codes and scopes, rejects, account blocks and the result
  records of the hooks (\<open>crates/openpit/src/pretrade/reject.rs\<close>,
  \<open>policy_result.rs\<close>, \<open>post_trade_result.rs\<close>, \<open>dry_run_report.rs\<close> and
  \<open>core/account_outcome.rs\<close>).
\<close>

section \<open>Codes and scopes\<close>

datatype reject_scope = ScopeOrder | ScopeAccount

datatype reject_code = MissingRequiredField | InvalidFieldFormat | InvalidFieldValue
  | UnsupportedOrderType | UnsupportedTimeInForce | UnsupportedOrderAttribute
  | DuplicateClientOrderId | TooLateToEnter | ExchangeClosed | UnknownInstrument
  | UnknownAccount | UnknownVenue | UnknownClearingAccount | UnknownCollateralAsset
  | InsufficientFunds | InsufficientMargin | InsufficientPosition | CreditLimitExceeded
  | RiskLimitExceeded | OrderExceedsLimit | OrderQtyExceedsLimit | OrderNotionalExceedsLimit
  | PositionLimitExceeded | ConcentrationLimitExceeded | LeverageLimitExceeded
  | RateLimitExceeded | PnlKillSwitchTriggered | AccountBlocked | AccountNotAuthorized
  | ComplianceRestriction | InstrumentRestricted | JurisdictionRestriction | WashTradePrevention
  | SelfMatchPrevention | ShortSaleRestriction | RiskConfigurationMissing
  | ReferenceDataUnavailable | OrderValueCalculationFailed | SystemUnavailable
  | MarkPriceUnavailable | AccountAdjustmentBoundsExceeded | ArithmeticOverflow | Custom | Other

fun is_evaluation_failure :: "reject_code \<Rightarrow> bool" where
  "is_evaluation_failure MissingRequiredField = True"
| "is_evaluation_failure InvalidFieldFormat = False"
| "is_evaluation_failure InvalidFieldValue = False"
| "is_evaluation_failure UnsupportedOrderType = False"
| "is_evaluation_failure UnsupportedTimeInForce = False"
| "is_evaluation_failure UnsupportedOrderAttribute = False"
| "is_evaluation_failure DuplicateClientOrderId = False"
| "is_evaluation_failure TooLateToEnter = False"
| "is_evaluation_failure ExchangeClosed = False"
| "is_evaluation_failure UnknownInstrument = True"
| "is_evaluation_failure UnknownAccount = True"
| "is_evaluation_failure UnknownVenue = True"
| "is_evaluation_failure UnknownClearingAccount = True"
| "is_evaluation_failure UnknownCollateralAsset = True"
| "is_evaluation_failure InsufficientFunds = False"
| "is_evaluation_failure InsufficientMargin = False"
| "is_evaluation_failure InsufficientPosition = False"
| "is_evaluation_failure CreditLimitExceeded = False"
| "is_evaluation_failure RiskLimitExceeded = False"
| "is_evaluation_failure OrderExceedsLimit = False"
| "is_evaluation_failure OrderQtyExceedsLimit = False"
| "is_evaluation_failure OrderNotionalExceedsLimit = False"
| "is_evaluation_failure PositionLimitExceeded = False"
| "is_evaluation_failure ConcentrationLimitExceeded = False"
| "is_evaluation_failure LeverageLimitExceeded = False"
| "is_evaluation_failure RateLimitExceeded = False"
| "is_evaluation_failure PnlKillSwitchTriggered = False"
| "is_evaluation_failure AccountBlocked = False"
| "is_evaluation_failure AccountNotAuthorized = False"
| "is_evaluation_failure ComplianceRestriction = False"
| "is_evaluation_failure InstrumentRestricted = False"
| "is_evaluation_failure JurisdictionRestriction = False"
| "is_evaluation_failure WashTradePrevention = False"
| "is_evaluation_failure SelfMatchPrevention = False"
| "is_evaluation_failure ShortSaleRestriction = False"
| "is_evaluation_failure RiskConfigurationMissing = True"
| "is_evaluation_failure ReferenceDataUnavailable = True"
| "is_evaluation_failure OrderValueCalculationFailed = True"
| "is_evaluation_failure SystemUnavailable = True"
| "is_evaluation_failure MarkPriceUnavailable = True"
| "is_evaluation_failure AccountAdjustmentBoundsExceeded = False"
| "is_evaluation_failure ArithmeticOverflow = True"
| "is_evaluation_failure Custom = False"
| "is_evaluation_failure Other = False"

fun reject_code_text :: "reject_code \<Rightarrow> string" where
  "reject_code_text MissingRequiredField = ''MissingRequiredField''"
| "reject_code_text InvalidFieldFormat = ''InvalidFieldFormat''"
| "reject_code_text InvalidFieldValue = ''InvalidFieldValue''"
| "reject_code_text UnsupportedOrderType = ''UnsupportedOrderType''"
| "reject_code_text UnsupportedTimeInForce = ''UnsupportedTimeInForce''"
| "reject_code_text UnsupportedOrderAttribute = ''UnsupportedOrderAttribute''"
| "reject_code_text DuplicateClientOrderId = ''DuplicateClientOrderId''"
| "reject_code_text TooLateToEnter = ''TooLateToEnter''"
| "reject_code_text ExchangeClosed = ''ExchangeClosed''"
| "reject_code_text UnknownInstrument = ''UnknownInstrument''"
| "reject_code_text UnknownAccount = ''UnknownAccount''"
| "reject_code_text UnknownVenue = ''UnknownVenue''"
| "reject_code_text UnknownClearingAccount = ''UnknownClearingAccount''"
| "reject_code_text UnknownCollateralAsset = ''UnknownCollateralAsset''"
| "reject_code_text InsufficientFunds = ''InsufficientFunds''"
| "reject_code_text InsufficientMargin = ''InsufficientMargin''"
| "reject_code_text InsufficientPosition = ''InsufficientPosition''"
| "reject_code_text CreditLimitExceeded = ''CreditLimitExceeded''"
| "reject_code_text RiskLimitExceeded = ''RiskLimitExceeded''"
| "reject_code_text OrderExceedsLimit = ''OrderExceedsLimit''"
| "reject_code_text OrderQtyExceedsLimit = ''OrderQtyExceedsLimit''"
| "reject_code_text OrderNotionalExceedsLimit = ''OrderNotionalExceedsLimit''"
| "reject_code_text PositionLimitExceeded = ''PositionLimitExceeded''"
| "reject_code_text ConcentrationLimitExceeded = ''ConcentrationLimitExceeded''"
| "reject_code_text LeverageLimitExceeded = ''LeverageLimitExceeded''"
| "reject_code_text RateLimitExceeded = ''RateLimitExceeded''"
| "reject_code_text PnlKillSwitchTriggered = ''PnlKillSwitchTriggered''"
| "reject_code_text AccountBlocked = ''AccountBlocked''"
| "reject_code_text AccountNotAuthorized = ''AccountNotAuthorized''"
| "reject_code_text ComplianceRestriction = ''ComplianceRestriction''"
| "reject_code_text InstrumentRestricted = ''InstrumentRestricted''"
| "reject_code_text JurisdictionRestriction = ''JurisdictionRestriction''"
| "reject_code_text WashTradePrevention = ''WashTradePrevention''"
| "reject_code_text SelfMatchPrevention = ''SelfMatchPrevention''"
| "reject_code_text ShortSaleRestriction = ''ShortSaleRestriction''"
| "reject_code_text RiskConfigurationMissing = ''RiskConfigurationMissing''"
| "reject_code_text ReferenceDataUnavailable = ''ReferenceDataUnavailable''"
| "reject_code_text OrderValueCalculationFailed = ''OrderValueCalculationFailed''"
| "reject_code_text SystemUnavailable = ''SystemUnavailable''"
| "reject_code_text MarkPriceUnavailable = ''MarkPriceUnavailable''"
| "reject_code_text AccountAdjustmentBoundsExceeded = ''AccountAdjustmentBoundsExceeded''"
| "reject_code_text ArithmeticOverflow = ''ArithmeticOverflow''"
| "reject_code_text Custom = ''Custom''"
| "reject_code_text Other = ''Other''"

section \<open>Rejects and account blocks\<close>

record reject =
  rj_reason :: string
  rj_details :: text_pieces
  rj_policy :: string
  rj_user_data :: nat
  rj_code :: reject_code
  rj_scope :: reject_scope

record account_block =
  ab_reason :: string
  ab_details :: text_pieces
  ab_policy :: string
  ab_user_data :: nat
  ab_code :: reject_code
  ab_provenance :: "u64 option"

record policy_pre_trade_result =
  ptr_account_adjustments :: "account_outcome_entry list"
  ptr_lock_prices :: "price list"

record rejects =
  rejects_vec :: "reject list"
  rejects_policy_result :: "policy_pre_trade_result option"

definition rejects_new :: "reject list \<Rightarrow> rejects" where
  "rejects_new rs = \<lparr>rejects_vec = rs, rejects_policy_result = None\<rparr>"

definition with_policy_result :: "rejects \<Rightarrow> policy_pre_trade_result \<Rightarrow> rejects" where
  "with_policy_result self result = self\<lparr>rejects_policy_result := Some result\<rparr>"

definition into_parts :: "rejects \<Rightarrow> reject list \<times> policy_pre_trade_result option" where
  "into_parts self = (rejects_vec self, rejects_policy_result self)"

definition rejects_eq :: "rejects \<Rightarrow> rejects \<Rightarrow> bool" where
  "rejects_eq self other \<longleftrightarrow> rejects_vec self = rejects_vec other"

definition account_block_new ::
  "string \<Rightarrow> reject_code \<Rightarrow> string \<Rightarrow> text_pieces \<Rightarrow> account_block" where
  "account_block_new policy code reason details =
     \<lparr>ab_reason = reason, ab_details = details, ab_policy = policy, ab_user_data = 0,
      ab_code = code, ab_provenance = None\<rparr>"

definition block_with_user_data :: "account_block \<Rightarrow> nat \<Rightarrow> account_block" where
  "block_with_user_data self user_data = self\<lparr>ab_user_data := user_data\<rparr>"

definition with_provenance :: "account_block \<Rightarrow> u64 option \<Rightarrow> account_block" where
  "with_provenance self provenance = self\<lparr>ab_provenance := provenance\<rparr>"

definition account_block_eq :: "account_block \<Rightarrow> account_block \<Rightarrow> bool" where
  "account_block_eq self other \<longleftrightarrow>
     ab_reason self = ab_reason other \<and> ab_details self = ab_details other \<and>
     ab_policy self = ab_policy other \<and> ab_user_data self = ab_user_data other \<and>
     ab_code self = ab_code other"

definition reject_from_block :: "account_block \<Rightarrow> reject" where
  "reject_from_block block =
     \<lparr>rj_reason = ab_reason block, rj_details = ab_details block, rj_policy = ab_policy block,
      rj_user_data = ab_user_data block, rj_code = ab_code block, rj_scope = ScopeAccount\<rparr>"

definition reject_new ::
  "string \<Rightarrow> reject_scope \<Rightarrow> reject_code \<Rightarrow> string \<Rightarrow> text_pieces \<Rightarrow> reject" where
  "reject_new policy scope code reason details =
     \<lparr>rj_reason = reason, rj_details = details, rj_policy = policy, rj_user_data = 0,
      rj_code = code, rj_scope = scope\<rparr>"

definition reject_with_user_data :: "reject \<Rightarrow> nat \<Rightarrow> reject" where
  "reject_with_user_data self user_data = self\<lparr>rj_user_data := user_data\<rparr>"

definition account_block_with_code :: "reject \<Rightarrow> reject_code \<Rightarrow> account_block" where
  "account_block_with_code self code =
     block_with_user_data
       (account_block_new (rj_policy self) code (rj_reason self) (rj_details self))
       (rj_user_data self)"

section \<open>Results of the hooks\<close>

type_synonym policy_group_id = u16

definition DEFAULT_POLICY_GROUP_ID :: policy_group_id where
  "DEFAULT_POLICY_GROUP_ID = 0"

record account_adjustment_outcome =
  aao_policy_group_id :: policy_group_id
  aao_entry :: account_outcome_entry

record account_pnl_outcome =
  apo_result :: pnl_outcome
  apo_account_id :: account_id
  apo_policy_group_id :: policy_group_id

definition policy_pre_trade_result_empty :: policy_pre_trade_result where
  "policy_pre_trade_result_empty = \<lparr>ptr_account_adjustments = [], ptr_lock_prices = []\<rparr>"

record policy_account_adjustment_result =
  aar_account_adjustments :: "account_outcome_entry list"
  aar_account_blocks :: "account_block list"

record account_adjustment_batch_result =
  abr_outcomes :: "account_adjustment_outcome list"
  abr_account_blocks :: "account_block list"

record post_trade_result =
  post_account_blocks :: "account_block list"
  post_account_pnls :: "account_pnl_outcome list"
  post_account_adjustments :: "account_adjustment_outcome list"

definition post_trade_is_empty :: "post_trade_result \<Rightarrow> bool" where
  "post_trade_is_empty self \<longleftrightarrow> post_account_blocks self = [] \<and> post_account_pnls self = [] \<and>
     post_account_adjustments self = []"

definition blocks_only :: "account_block list \<Rightarrow> post_trade_result" where
  "blocks_only blocks =
     \<lparr>post_account_blocks = blocks, post_account_pnls = [], post_account_adjustments = []\<rparr>"

section \<open>Lemmas\<close>

lemma rejects_simps [simp]:
  "rejects_vec (rejects_new rs) = rs" "rejects_policy_result (rejects_new rs) = None"
  "rejects_vec (with_policy_result r x) = rejects_vec r"
  "rejects_policy_result (with_policy_result r x) = Some x"
  by (simp_all add: rejects_new_def with_policy_result_def)

lemma reject_simps [simp]:
  "rj_scope (reject_new p s c r d) = s" "rj_code (reject_new p s c r d) = c"
  "rj_policy (reject_new p s c r d) = p" "rj_scope (reject_with_user_data x u) = rj_scope x"
  "rj_code (reject_with_user_data x u) = rj_code x"
  "rj_scope (reject_from_block b) = ScopeAccount" "rj_code (reject_from_block b) = ab_code b"
  by (simp_all add: reject_new_def reject_with_user_data_def reject_from_block_def)

lemma block_simps [simp]:
  "ab_code (account_block_new p c r d) = c" "ab_policy (account_block_new p c r d) = p"
  "ab_provenance (account_block_new p c r d) = None"
  "ab_code (account_block_with_code x c) = c"
  "ab_provenance (account_block_with_code x c) = None"
  "ab_provenance (with_provenance b v) = v" "ab_code (with_provenance b v) = ab_code b"
  by (simp_all add: account_block_new_def account_block_with_code_def block_with_user_data_def
      with_provenance_def)

lemma block_reject_round:
  "account_block_eq (account_block_with_code (reject_from_block b) (ab_code b)) b"
  by (simp add: account_block_eq_def account_block_with_code_def block_with_user_data_def
      account_block_new_def reject_from_block_def)

end
