(* ===== verification/Pre_Trade_Lock.thy ===== *)
theory Pre_Trade_Lock
  imports Rejects
begin

text \<open>
  The price context of a reservation (\<open>crates/openpit/src/pretrade/lock.rs\<close>): the prices of
  the default policy group and one section per other group, in order of first use, with the
  compact wire format of its serialization.

  The abstract view is a function from policy groups to price lists; \<open>push\<close>,
  \<open>push_many\<close> and \<open>merge\<close> append to it.
\<close>

section \<open>The lock\<close>

record group_section =
  gs_group_id :: policy_group_id
  gs_prices :: "price list"

record pre_trade_lock =
  default_prices :: "price list"
  other_sections :: "group_section list"

definition lock_new :: pre_trade_lock where
  "lock_new = \<lparr>default_prices = [], other_sections = []\<rparr>"

definition lock_len :: "pre_trade_lock \<Rightarrow> nat" where
  "lock_len self =
     length (default_prices self) + sum_list (map (\<lambda>s. length (gs_prices s)) (other_sections self))"

definition lock_is_empty :: "pre_trade_lock \<Rightarrow> bool" where
  "lock_is_empty self \<longleftrightarrow>
     default_prices self = [] \<and> (\<forall>s \<in> set (other_sections self). gs_prices s = [])"

text \<open>The loop over the sections: extend the first one of the group, or add one at the end.\<close>

fun push_section :: "group_section list \<Rightarrow> policy_group_id \<Rightarrow> price list \<Rightarrow> group_section list" where
  "push_section [] g ps = [\<lparr>gs_group_id = g, gs_prices = ps\<rparr>]"
| "push_section (s # ss) g ps =
     (if gs_group_id s = g then s\<lparr>gs_prices := gs_prices s @ ps\<rparr> # ss
      else s # push_section ss g ps)"

definition lock_push :: "pre_trade_lock \<Rightarrow> policy_group_id \<Rightarrow> price \<Rightarrow> pre_trade_lock" where
  "lock_push self g price =
     (if g = DEFAULT_POLICY_GROUP_ID
      then self\<lparr>default_prices := default_prices self @ [price]\<rparr>
      else self\<lparr>other_sections := push_section (other_sections self) g [price]\<rparr>)"

definition push_many :: "pre_trade_lock \<Rightarrow> policy_group_id \<Rightarrow> price list \<Rightarrow> pre_trade_lock" where
  "push_many self g prices =
     (if length prices = 0 then self
      else if g = DEFAULT_POLICY_GROUP_ID
      then self\<lparr>default_prices := default_prices self @ prices\<rparr>
      else self\<lparr>other_sections := push_section (other_sections self) g prices\<rparr>)"

fun merge_sections :: "group_section list \<Rightarrow> group_section list \<Rightarrow> group_section list" where
  "merge_sections ss [] = ss"
| "merge_sections ss (t # ts) =
     merge_sections (push_section ss (gs_group_id t) (gs_prices t)) ts"

definition lock_merge :: "pre_trade_lock \<Rightarrow> pre_trade_lock \<Rightarrow> pre_trade_lock" where
  "lock_merge self other =
     \<lparr>default_prices = default_prices self @ default_prices other,
      other_sections = merge_sections (other_sections self) (other_sections other)\<rparr>"

definition section_entries :: "group_section \<Rightarrow> (policy_group_id \<times> price) list" where
  "section_entries s = map (\<lambda>p. (gs_group_id s, p)) (gs_prices s)"

definition lock_entries :: "pre_trade_lock \<Rightarrow> (policy_group_id \<times> price) list" where
  "lock_entries self =
     map (\<lambda>p. (DEFAULT_POLICY_GROUP_ID, p)) (default_prices self) @
     concat (map section_entries (other_sections self))"

definition prices_of :: "pre_trade_lock \<Rightarrow> policy_group_id \<Rightarrow> price list" where
  "prices_of self g =
     (if g = DEFAULT_POLICY_GROUP_ID then default_prices self
      else case find (\<lambda>s. gs_group_id s = g) (other_sections self) of
             None \<Rightarrow> [] | Some s \<Rightarrow> gs_prices s)"

fun lock_append :: "pre_trade_lock \<Rightarrow> (policy_group_id \<times> price) list \<Rightarrow> pre_trade_lock" where
  "lock_append self [] = self"
| "lock_append self ((g, p) # es) = lock_append (lock_push self g p) es"

definition from_entries :: "(policy_group_id \<times> price) list \<Rightarrow> pre_trade_lock" where
  "from_entries entries = lock_append lock_new entries"

section \<open>Serialization\<close>

text \<open>
  The data model of the wire format: sequences of sequences whose leaves are group numbers and
  prices. The encoding of a price is that of the decimal package.
\<close>

datatype wire = WireU16 u16 | WirePrice price | WireSeq "wire list"

datatype wire_error = WireInvalidType | WireInvalidLength | WireDefaultGroupTagged

definition serialize_section :: "group_section \<Rightarrow> wire" where
  "serialize_section s = WireSeq (WireU16 (gs_group_id s) # map WirePrice (gs_prices s))"

definition serialize_lock :: "pre_trade_lock \<Rightarrow> wire" where
  "serialize_lock self =
     (if lock_is_empty self then WireSeq []
      else WireSeq (WireSeq (map WirePrice (default_prices self)) #
             map serialize_section (other_sections self)))"

fun deserialize_prices ::
  "policy_group_id \<Rightarrow> pre_trade_lock \<Rightarrow> wire list \<Rightarrow> wire_error + pre_trade_lock" where
  "deserialize_prices g lock [] = Inr lock"
| "deserialize_prices g lock (WirePrice p # ws) = deserialize_prices g (lock_push lock g p) ws"
| "deserialize_prices g lock (_ # ws) = Inl WireInvalidType"

fun deserialize_default :: "pre_trade_lock \<Rightarrow> wire \<Rightarrow> wire_error + pre_trade_lock" where
  "deserialize_default lock (WireSeq ws) = deserialize_prices DEFAULT_POLICY_GROUP_ID lock ws"
| "deserialize_default lock _ = Inl WireInvalidType"

fun deserialize_section :: "pre_trade_lock \<Rightarrow> wire \<Rightarrow> wire_error + pre_trade_lock" where
  "deserialize_section lock (WireSeq []) = Inl WireInvalidLength"
| "deserialize_section lock (WireSeq (WireU16 raw # ws)) =
     (if raw = DEFAULT_POLICY_GROUP_ID then Inl WireDefaultGroupTagged
      else deserialize_prices raw lock ws)"
| "deserialize_section lock _ = Inl WireInvalidType"

fun deserialize_sections :: "pre_trade_lock \<Rightarrow> wire list \<Rightarrow> wire_error + pre_trade_lock" where
  "deserialize_sections lock [] = Inr lock"
| "deserialize_sections lock (w # ws) =
     bind_res (deserialize_section lock w) (\<lambda>lock. deserialize_sections lock ws)"

fun deserialize_lock :: "wire \<Rightarrow> wire_error + pre_trade_lock" where
  "deserialize_lock (WireSeq []) = Inr lock_new"
| "deserialize_lock (WireSeq (w # ws)) =
     bind_res (deserialize_default lock_new w) (\<lambda>lock. deserialize_sections lock ws)"
| "deserialize_lock _ = Inl WireInvalidType"

section \<open>Well-formed locks\<close>

definition section_ok :: "group_section \<Rightarrow> bool" where
  "section_ok s \<longleftrightarrow> gs_group_id s \<noteq> DEFAULT_POLICY_GROUP_ID \<and> gs_prices s \<noteq> []"

definition sections_wf :: "group_section list \<Rightarrow> bool" where
  "sections_wf ss \<longleftrightarrow> distinct (map gs_group_id ss) \<and> list_all section_ok ss"

definition lock_wf :: "pre_trade_lock \<Rightarrow> bool" where
  "lock_wf l \<longleftrightarrow> sections_wf (other_sections l)"

definition sections_abs :: "group_section list \<Rightarrow> policy_group_id \<Rightarrow> price list" where
  "sections_abs ss g =
     (case find (\<lambda>s. gs_group_id s = g) ss of None \<Rightarrow> [] | Some s \<Rightarrow> gs_prices s)"

section \<open>Lemmas\<close>

lemma prices_of_alt:
  "prices_of l g =
     (if g = DEFAULT_POLICY_GROUP_ID then default_prices l else sections_abs (other_sections l) g)"
  by (simp add: prices_of_def sections_abs_def)

lemma sections_abs_Cons:
  "sections_abs (t # ts) g = (if gs_group_id t = g then gs_prices t else sections_abs ts g)"
  by (simp add: sections_abs_def)

lemma sections_abs_push:
  "sections_abs (push_section ss g ps) h =
     (if h = g then sections_abs ss g @ ps else sections_abs ss h)"
  by (induction ss g ps rule: push_section.induct) (auto simp: sections_abs_def)

lemma push_section_ids:
  "set (map gs_group_id (push_section ss g ps)) = insert g (set (map gs_group_id ss))"
  by (induction ss g ps rule: push_section.induct) auto

lemma push_section_distinct:
  "distinct (map gs_group_id ss) \<Longrightarrow> distinct (map gs_group_id (push_section ss g ps))"
proof (induction ss g ps rule: push_section.induct)
  case (2 s ss g ps)
  then show ?case using push_section_ids [of ss g ps] by auto
qed simp

lemma push_section_ok:
  "ps \<noteq> [] \<Longrightarrow> g \<noteq> DEFAULT_POLICY_GROUP_ID \<Longrightarrow> list_all section_ok ss \<Longrightarrow>
   list_all section_ok (push_section ss g ps)"
  by (induction ss g ps rule: push_section.induct) (auto simp: section_ok_def)

lemma sections_wf_push:
  "sections_wf ss \<Longrightarrow> ps \<noteq> [] \<Longrightarrow> g \<noteq> DEFAULT_POLICY_GROUP_ID \<Longrightarrow>
   sections_wf (push_section ss g ps)"
  by (simp add: sections_wf_def push_section_distinct push_section_ok)

lemma push_section_append:
  "push_section (push_section ss g ps) g qs = push_section ss g (ps @ qs)"
  by (induction ss g ps rule: push_section.induct) auto

lemma push_section_new:
  "g \<notin> set (map gs_group_id ss) \<Longrightarrow> push_section ss g ps = ss @ [\<lparr>gs_group_id = g, gs_prices = ps\<rparr>]"
  by (induction ss g ps rule: push_section.induct) auto

lemma sections_abs_merge:
  "distinct (map gs_group_id ts) \<Longrightarrow>
   sections_abs (merge_sections ss ts) g = sections_abs ss g @ sections_abs ts g"
proof (induction ss ts rule: merge_sections.induct)
  case (2 ss t ts)
  have none: "gs_group_id t = g \<Longrightarrow> sections_abs ts g = []"
    using 2(2) by (induction ts) (auto simp: sections_abs_def)
  show ?case using 2 none by (simp add: sections_abs_push sections_abs_Cons)
qed (simp add: sections_abs_def)

lemma lock_wf_new: "lock_wf lock_new"
  by (simp add: lock_wf_def lock_new_def sections_wf_def)

lemma lock_wf_push: "lock_wf l \<Longrightarrow> lock_wf (lock_push l g p)"
  by (simp add: lock_wf_def lock_push_def sections_wf_push)

lemma lock_wf_push_many: "lock_wf l \<Longrightarrow> lock_wf (push_many l g ps)"
  by (simp add: lock_wf_def push_many_def sections_wf_push)

lemma merge_sections_wf:
  "sections_wf ss \<Longrightarrow> list_all section_ok ts \<Longrightarrow> sections_wf (merge_sections ss ts)"
proof (induction ss ts rule: merge_sections.induct)
  case (2 ss t ts)
  then show ?case by (simp add: sections_wf_push section_ok_def)
qed simp

lemma lock_wf_merge: "lock_wf l \<Longrightarrow> lock_wf m \<Longrightarrow> lock_wf (lock_merge l m)"
  using merge_sections_wf [of "other_sections l" "other_sections m"]
  by (simp add: lock_wf_def lock_merge_def sections_wf_def)

lemma lock_wf_append: "lock_wf l \<Longrightarrow> lock_wf (lock_append l es)"
  by (induction l es rule: lock_append.induct) (auto intro: lock_wf_push)

lemma deserialize_prices_eq:
  "deserialize_prices g lock (map WirePrice ps) = Inr (lock_append lock (map (\<lambda>p. (g, p)) ps))"
  by (induction ps arbitrary: lock) simp_all

lemma append_default:
  "lock_append l (map (\<lambda>p. (DEFAULT_POLICY_GROUP_ID, p)) ps) =
     l\<lparr>default_prices := default_prices l @ ps\<rparr>"
  by (induction ps arbitrary: l) (simp_all add: lock_push_def)

lemma append_section:
  "g \<noteq> DEFAULT_POLICY_GROUP_ID \<Longrightarrow> ps \<noteq> [] \<Longrightarrow>
   lock_append l (map (\<lambda>p. (g, p)) ps) =
     l\<lparr>other_sections := push_section (other_sections l) g ps\<rparr>"
proof (induction ps arbitrary: l)
  case (Cons p ps)
  then show ?case
    by (cases "ps = []") (simp_all add: lock_push_def push_section_append)
qed simp

lemma append_append: "lock_append l (es @ fs) = lock_append (lock_append l es) fs"
  by (induction l es rule: lock_append.induct) simp_all

lemma append_sections:
  assumes "lock_wf \<lparr>default_prices = d, other_sections = rs @ ss\<rparr>"
  shows "lock_append \<lparr>default_prices = d, other_sections = rs\<rparr> (concat (map section_entries ss)) =
    \<lparr>default_prices = d, other_sections = rs @ ss\<rparr>"
  using assms
proof (induction ss arbitrary: rs)
  case (Cons s ss)
  have s: "gs_group_id s \<noteq> DEFAULT_POLICY_GROUP_ID" "gs_prices s \<noteq> []"
    "gs_group_id s \<notin> set (map gs_group_id rs)"
    using Cons.prems by (auto simp: lock_wf_def sections_wf_def section_ok_def)
  have "lock_append \<lparr>default_prices = d, other_sections = rs\<rparr> (section_entries s) =
      \<lparr>default_prices = d, other_sections = rs @ [s]\<rparr>"
    using s by (simp add: section_entries_def append_section push_section_new)
  then show ?case using Cons.IH [of "rs @ [s]"] Cons.prems by (simp add: append_append)
qed simp

lemma entries_roundtrip: "lock_wf l \<Longrightarrow> from_entries (lock_entries l) = l"
  using append_sections [of "default_prices l" "[]" "other_sections l"]
  by (simp add: from_entries_def lock_entries_def append_append append_default lock_new_def
      lock_wf_def)

lemma deserialize_sections_eq:
  "\<forall>s \<in> set ss. gs_group_id s \<noteq> DEFAULT_POLICY_GROUP_ID \<Longrightarrow>
   deserialize_sections lock (map serialize_section ss) =
     Inr (lock_append lock (concat (map section_entries ss)))"
  by (induction ss arbitrary: lock)
    (simp_all add: serialize_section_def deserialize_prices_eq append_append section_entries_def)

section \<open>Properties\<close>

text \<open>
  Refinement of the lock to a map from policy groups to price lists: pushing one or many
  prices appends them to their group and no other, merging appends the other lock's prices group by
  group, and every operation keeps the lock well formed (one non-empty section per group, the
  default group never tagged).
\<close>

lemma lock_refines_group_map:
  assumes "lock_wf l" and "lock_wf m"
  shows "prices_of (lock_push l g p) = (prices_of l)(g := prices_of l g @ [p]) \<and>
    prices_of (push_many l g ps) = (prices_of l)(g := prices_of l g @ ps) \<and>
    prices_of (lock_merge l m) = (\<lambda>h. prices_of l h @ prices_of m h) \<and>
    lock_wf (lock_push l g p) \<and> lock_wf (push_many l g ps) \<and> lock_wf (lock_merge l m)"
proof -
  have "prices_of (lock_push l g p) = (prices_of l)(g := prices_of l g @ [p])"
    "prices_of (push_many l g ps) = (prices_of l)(g := prices_of l g @ ps)"
    by (auto simp: prices_of_alt lock_push_def push_many_def sections_abs_push fun_eq_iff)
  moreover have "prices_of (lock_merge l m) = (\<lambda>h. prices_of l h @ prices_of m h)"
    using assms(2)
    by (auto simp: prices_of_alt lock_merge_def sections_abs_merge lock_wf_def sections_wf_def
        fun_eq_iff)
  ultimately show ?thesis
    using lock_wf_push lock_wf_push_many lock_wf_merge assms by blast
qed

text \<open>
  Round trips: a well-formed lock is rebuilt exactly from its entries, and decoding its wire
  encoding returns it, with the order of its sections and prices.
\<close>

lemma lock_wire_roundtrip:
  assumes "lock_wf l"
  shows "from_entries (lock_entries l) = l \<and> deserialize_lock (serialize_lock l) = Inr l"
proof -
  have nd: "\<forall>s \<in> set (other_sections l). gs_group_id s \<noteq> DEFAULT_POLICY_GROUP_ID"
    using assms by (simp add: lock_wf_def sections_wf_def section_ok_def list_all_iff)
  have "deserialize_lock (serialize_lock l) = Inr l" if "lock_is_empty l"
  proof -
    have "other_sections l = []"
      using that assms by (cases "other_sections l") (auto simp: lock_is_empty_def lock_wf_def
          sections_wf_def section_ok_def)
    then show ?thesis using that by (simp add: serialize_lock_def lock_new_def lock_is_empty_def)
  qed
  moreover have "deserialize_lock (serialize_lock l) = Inr (from_entries (lock_entries l))"
    if "\<not> lock_is_empty l"
    using that by (simp add: serialize_lock_def deserialize_prices_eq deserialize_sections_eq [OF nd]
        from_entries_def lock_entries_def append_append)
  ultimately show ?thesis using entries_roundtrip [OF assms] by auto
qed

end
