(* ===== verification/Mutation.thy ===== *)
theory Mutation
  imports Pre_Trade_Lock
begin

text \<open>
  Two-phase effects of the pipelines (\<open>crates/openpit/src/core/mutation.rs\<close>) and the handles
  that finalize them (\<open>pretrade/handle.rs\<close>, \<open>reservation.rs\<close> and
  \<open>drop_copy_operation.rs\<close>). The state that policies, engine and block registry share is
  the type parameter \<open>'w\<close> of every definition; a boxed closure is a function on it. The
  diagnostic report that exists in test builds only is not modelled.

  A handle that can be finalized once is the interface \<open>finalizer\<close>; both the reservation and
  the drop-copy operation implement it.
\<close>

section \<open>Failures of finalizers\<close>

datatype mutation_provenance = EngineOwned | CustomPolicy

datatype mutation_failure_scope = FailureAccount | FailureGlobal

record mutation_failure =
  mf_details :: "string list"
  mf_scope :: "mutation_failure_scope option"

definition failure_default :: mutation_failure where
  "failure_default = \<lparr>mf_details = [], mf_scope = None\<rparr>"

definition failure_widen :: "mutation_failure \<Rightarrow> mutation_failure_scope \<Rightarrow> mutation_failure" where
  "failure_widen self scope =
     (if scope = FailureGlobal \<or> mf_scope self = None then self\<lparr>mf_scope := Some scope\<rparr>
      else self)"

definition failure_record ::
  "mutation_failure \<Rightarrow> mutation_provenance \<Rightarrow> string \<Rightarrow> mutation_failure" where
  "failure_record self provenance details =
     (let scope = (case provenance of
            EngineOwned \<Rightarrow> FailureAccount | CustomPolicy \<Rightarrow> FailureGlobal);
          self = failure_widen self scope
      in self\<lparr>mf_details := mf_details self @ [details]\<rparr>)"

definition failure_append :: "mutation_failure \<Rightarrow> mutation_failure \<Rightarrow> mutation_failure" where
  "failure_append self other =
     (let self = (case mf_scope other of Some scope \<Rightarrow> failure_widen self scope | None \<Rightarrow> self)
      in self\<lparr>mf_details := mf_details self @ mf_details other\<rparr>)"

definition failure_failed :: "mutation_failure \<Rightarrow> bool" where
  "failure_failed self \<longleftrightarrow> mf_scope self \<noteq> None"

fun join_texts :: "string \<Rightarrow> string list \<Rightarrow> string" where
  "join_texts sep [] = []"
| "join_texts sep [t] = t"
| "join_texts sep (t # u # ts) = t @ sep @ join_texts sep (u # ts)"

definition failure_details :: "mutation_failure \<Rightarrow> string" where
  "failure_details self = join_texts ''; '' (mf_details self)"

definition callback_failure :: "mutation_provenance \<Rightarrow> string \<Rightarrow> mutation_failure" where
  "callback_failure provenance details = failure_record failure_default provenance details"

section \<open>Mutations\<close>

text \<open>
  A lifetime guard is represented by the effect of dropping it.
\<close>

record 'w mutation =
  mut_commit :: "('w \<Rightarrow> 'w \<times> (string + unit)) option"
  mut_rollback :: "'w \<Rightarrow> 'w \<times> mutation_failure"
  mut_guard :: "('w \<Rightarrow> 'w) option"
  mut_provenance :: mutation_provenance

definition new_reporting_with_error ::
  "mutation_provenance \<Rightarrow> ('w \<Rightarrow> 'w \<times> (string + unit)) \<Rightarrow> ('w \<Rightarrow> 'w \<times> mutation_failure) \<Rightarrow>
   'w mutation" where
  "new_reporting_with_error provenance commit rollback =
     \<lparr>mut_commit = Some commit, mut_rollback = rollback, mut_guard = None,
      mut_provenance = provenance\<rparr>"

definition bool_result :: "string \<Rightarrow> ('w \<Rightarrow> 'w \<times> bool) \<Rightarrow> 'w \<Rightarrow> 'w \<times> (string + unit)" where
  "bool_result message callback w =
     (case callback w of (w', ok) \<Rightarrow> (w', if ok then Inr () else Inl message))"

definition new_infallible ::
  "mutation_provenance \<Rightarrow> ('w \<Rightarrow> 'w) \<Rightarrow> ('w \<Rightarrow> 'w) \<Rightarrow> 'w mutation" where
  "new_infallible provenance commit rollback =
     new_reporting_with_error provenance (\<lambda>w. (commit w, Inr ()))
       (\<lambda>w. (rollback w, failure_default))"

definition mutation_new :: "('w \<Rightarrow> 'w) \<Rightarrow> ('w \<Rightarrow> 'w) \<Rightarrow> 'w mutation" where
  "mutation_new commit rollback = new_infallible CustomPolicy commit rollback"

definition new_engine_owned :: "('w \<Rightarrow> 'w) \<Rightarrow> ('w \<Rightarrow> 'w) \<Rightarrow> 'w mutation" where
  "new_engine_owned commit rollback = new_infallible EngineOwned commit rollback"

definition new_engine_owned_with_guard ::
  "('w \<Rightarrow> 'w) \<Rightarrow> ('w \<Rightarrow> 'w) \<Rightarrow> ('w \<Rightarrow> 'w) \<Rightarrow> 'w mutation" where
  "new_engine_owned_with_guard commit rollback guard =
     (new_engine_owned commit rollback)\<lparr>mut_guard := Some guard\<rparr>"

definition new_fallible_with_error ::
  "('w \<Rightarrow> 'w \<times> (string + unit)) \<Rightarrow> ('w \<Rightarrow> 'w \<times> (string + unit)) \<Rightarrow> 'w mutation" where
  "new_fallible_with_error commit rollback =
     new_reporting_with_error CustomPolicy commit
       (\<lambda>w. case rollback w of
              (w', Inr ()) \<Rightarrow> (w', failure_default)
            | (w', Inl details) \<Rightarrow> (w', callback_failure CustomPolicy details))"

definition new_fallible ::
  "('w \<Rightarrow> 'w \<times> bool) \<Rightarrow> ('w \<Rightarrow> 'w \<times> bool) \<Rightarrow> 'w mutation" where
  "new_fallible commit rollback =
     new_fallible_with_error (bool_result ''mutation commit callback failed'' commit)
       (bool_result ''mutation rollback callback failed'' rollback)"

definition new_reporting ::
  "('w \<Rightarrow> 'w \<times> bool) \<Rightarrow> ('w \<Rightarrow> 'w \<times> mutation_failure) \<Rightarrow> 'w mutation" where
  "new_reporting commit rollback =
     new_reporting_with_error EngineOwned
       (bool_result ''mutation commit callback failed'' commit) rollback"

definition new_reporting_with_guard ::
  "('w \<Rightarrow> 'w \<times> bool) \<Rightarrow> ('w \<Rightarrow> 'w \<times> mutation_failure) \<Rightarrow> ('w \<Rightarrow> 'w) \<Rightarrow> 'w mutation" where
  "new_reporting_with_guard commit rollback guard =
     (new_reporting commit rollback)\<lparr>mut_guard := Some guard\<rparr>"

definition drop_guard :: "'w mutation \<Rightarrow> 'w \<Rightarrow> 'w" where
  "drop_guard self w = (case mut_guard self of Some g \<Rightarrow> g w | None \<Rightarrow> w)"

definition mutation_commit :: "'w mutation \<Rightarrow> 'w \<Rightarrow> 'w \<times> (string + unit)" where
  "mutation_commit self w =
     (case mut_commit self of Some commit \<Rightarrow> commit w | None \<Rightarrow> (w, Inr ()))"

definition mutation_rollback :: "'w mutation \<Rightarrow> 'w \<Rightarrow> 'w \<times> mutation_failure" where
  "mutation_rollback self w =
     (case mut_rollback self w of (w', result) \<Rightarrow> (drop_guard self w', result))"

section \<open>The collector\<close>

record 'w mutations =
  mutation_list :: "'w mutation list"
  owner_id :: u64

text \<open>The atomic counter of owner identifiers, which skips zero when it wraps around.\<close>

function next_mutation_owner_id :: "u64 \<Rightarrow> u64 \<times> u64" where
  "next_mutation_owner_id counter =
     (let fresh = counter; counter = counter + 1
      in if fresh \<noteq> 0 then (fresh, counter) else next_mutation_owner_id counter)"
  by pat_completeness auto

termination next_mutation_owner_id
  by (relation "measure (\<lambda>c. if c = 0 then 1 else 0)") auto

definition mutations_new :: "u64 \<Rightarrow> 'w mutations \<times> u64" where
  "mutations_new counter =
     (case next_mutation_owner_id counter of
        (fresh, counter) \<Rightarrow> (\<lparr>mutation_list = [], owner_id = fresh\<rparr>, counter))"

definition mutations_push :: "'w mutations \<Rightarrow> 'w mutation \<Rightarrow> 'w mutations" where
  "mutations_push self m = self\<lparr>mutation_list := mutation_list self @ [m]\<rparr>"

definition mutations_append :: "'w mutations \<Rightarrow> 'w mutations \<Rightarrow> 'w mutations" where
  "mutations_append self other =
     self\<lparr>mutation_list := mutation_list self @ mutation_list other\<rparr>"

text \<open>Each mutation is dropped, with its guard, at the end of its iteration.\<close>

fun commit_loop :: "'w mutation list \<Rightarrow> 'w \<Rightarrow> mutation_failure \<Rightarrow> 'w \<times> mutation_failure" where
  "commit_loop [] w failure = (w, failure)"
| "commit_loop (m # ms) w failure =
     (case mutation_commit m w of
        (w', Inl details) \<Rightarrow>
          commit_loop ms (drop_guard m w') (failure_record failure (mut_provenance m) details)
      | (w', Inr _) \<Rightarrow> commit_loop ms (drop_guard m w') failure)"

definition commit_all :: "'w mutations \<Rightarrow> 'w \<Rightarrow> 'w \<times> mutation_failure" where
  "commit_all self w = commit_loop (mutation_list self) w failure_default"

fun rollback_loop :: "'w mutation list \<Rightarrow> 'w \<Rightarrow> mutation_failure \<Rightarrow> 'w \<times> mutation_failure" where
  "rollback_loop [] w result = (w, result)"
| "rollback_loop (m # ms) w result =
     (case mutation_rollback m w of (w', r) \<Rightarrow> rollback_loop ms w' (failure_append result r))"

definition rollback_all :: "'w mutations \<Rightarrow> 'w \<Rightarrow> 'w \<times> mutation_failure" where
  "rollback_all self w = rollback_loop (rev (mutation_list self)) w failure_default"

section \<open>Handles\<close>

type_synonym 'w kill_switch = "mutation_failure_scope \<Rightarrow> 'w \<Rightarrow> 'w"

definition kill_switch_arm :: "'w kill_switch \<Rightarrow> mutation_failure \<Rightarrow> 'w \<Rightarrow> 'w" where
  "kill_switch_arm arm failure w = (case mf_scope failure of Some scope \<Rightarrow> arm scope w | None \<Rightarrow> w)"

record 'w reservation_handle =
  rh_mutations :: "'w mutations"
  rh_kill_switch :: "'w kill_switch"

definition handle_commit :: "'w reservation_handle \<Rightarrow> 'w \<Rightarrow> 'w" where
  "handle_commit self w =
     (case commit_all (rh_mutations self) w of
        (w', failure) \<Rightarrow> kill_switch_arm (rh_kill_switch self) failure w')"

definition handle_rollback :: "'w reservation_handle \<Rightarrow> 'w \<Rightarrow> 'w" where
  "handle_rollback self w =
     (case rollback_all (rh_mutations self) w of
        (w', failure) \<Rightarrow> kill_switch_arm (rh_kill_switch self) failure w')"

record 'w pre_trade_reservation =
  rsv_account_adjustments :: "account_adjustment_outcome list"
  rsv_lock :: pre_trade_lock
  rsv_inner :: "'w reservation_handle option"

text \<open>\<open>None\<close> is the panic of finalizing a consumed reservation.\<close>

definition reservation_commit ::
  "'w pre_trade_reservation \<Rightarrow> 'w \<Rightarrow> ('w pre_trade_reservation \<times> 'w) option" where
  "reservation_commit self w =
     (case rsv_inner self of
        None \<Rightarrow> None
      | Some inner \<Rightarrow> Some (self\<lparr>rsv_inner := None\<rparr>, handle_commit inner w))"

definition reservation_rollback ::
  "'w pre_trade_reservation \<Rightarrow> 'w \<Rightarrow> 'w pre_trade_reservation \<times> 'w" where
  "reservation_rollback self w =
     (case rsv_inner self of
        None \<Rightarrow> (self, w)
      | Some inner \<Rightarrow> (self\<lparr>rsv_inner := None\<rparr>, handle_rollback inner w))"

definition reservation_drop :: "'w pre_trade_reservation \<Rightarrow> 'w \<Rightarrow> 'w" where
  "reservation_drop self w =
     (case rsv_inner self of None \<Rightarrow> w | Some inner \<Rightarrow> handle_rollback inner w)"

definition reservation_from_handle ::
  "'w reservation_handle \<Rightarrow> pre_trade_lock \<Rightarrow> account_adjustment_outcome list \<Rightarrow>
   'w pre_trade_reservation" where
  "reservation_from_handle inner lock adjustments =
     \<lparr>rsv_account_adjustments = adjustments, rsv_lock = lock, rsv_inner = Some inner\<rparr>"

record 'w drop_copy_operation =
  dco_account_block :: "account_block option"
  dco_lock :: pre_trade_lock
  dco_account_adjustments :: "account_adjustment_outcome list"
  dco_inner :: "'w reservation_handle option"
  dco_account_blocked :: bool

definition drop_copy_commit ::
  "'w drop_copy_operation \<Rightarrow> 'w \<Rightarrow> ('w drop_copy_operation \<times> 'w) option" where
  "drop_copy_commit self w =
     (case dco_inner self of
        None \<Rightarrow> None
      | Some inner \<Rightarrow> Some (self\<lparr>dco_inner := None\<rparr>, handle_commit inner w))"

definition drop_copy_rollback ::
  "'w drop_copy_operation \<Rightarrow> 'w \<Rightarrow> 'w drop_copy_operation \<times> 'w" where
  "drop_copy_rollback self w =
     (case dco_inner self of
        None \<Rightarrow> (self, w)
      | Some inner \<Rightarrow> (self\<lparr>dco_inner := None\<rparr>, handle_rollback inner w))"

definition drop_copy_drop :: "'w drop_copy_operation \<Rightarrow> 'w \<Rightarrow> 'w" where
  "drop_copy_drop self w =
     (case dco_inner self of None \<Rightarrow> w | Some inner \<Rightarrow> handle_rollback inner w)"

definition drop_copy_from_handle ::
  "'w reservation_handle \<Rightarrow> pre_trade_lock \<Rightarrow> account_adjustment_outcome list \<Rightarrow>
   account_block option \<Rightarrow> bool \<Rightarrow> 'w drop_copy_operation" where
  "drop_copy_from_handle inner lock adjustments block blocked =
     \<lparr>dco_account_block = block, dco_lock = lock, dco_account_adjustments = adjustments,
      dco_inner = Some inner, dco_account_blocked = blocked\<rparr>"

section \<open>A handle finalized once\<close>

text \<open>
  The life of a handle from the caller's side: any sequence of explicit finalizations and then the
  drop. \<open>None\<close> is a panic, after which the handle is dropped while unwinding.
\<close>

datatype final_call = CallCommit | CallRollback

locale finalizer =
  fixes inner_of :: "'r \<Rightarrow> 'w reservation_handle option"
    and commit_call :: "'r \<Rightarrow> 'w \<Rightarrow> ('r \<times> 'w) option"
    and rollback_call :: "'r \<Rightarrow> 'w \<Rightarrow> 'r \<times> 'w"
    and drop_call :: "'r \<Rightarrow> 'w \<Rightarrow> 'w"
  assumes commit_panics: "inner_of r = None \<Longrightarrow> commit_call r w = None"
    and commit_runs: "inner_of r = Some h \<Longrightarrow>
      \<exists>r'. commit_call r w = Some (r', handle_commit h w) \<and> inner_of r' = None"
    and rollback_idle: "inner_of r = None \<Longrightarrow> rollback_call r w = (r, w)"
    and rollback_runs: "inner_of r = Some h \<Longrightarrow>
      \<exists>r'. rollback_call r w = (r', handle_rollback h w) \<and> inner_of r' = None"
    and drop_idle: "inner_of r = None \<Longrightarrow> drop_call r w = w"
    and drop_runs: "inner_of r = Some h \<Longrightarrow> drop_call r w = handle_rollback h w"
begin

fun run_calls :: "final_call list \<Rightarrow> 'r \<Rightarrow> 'w \<Rightarrow> 'w" where
  "run_calls [] r w = drop_call r w"
| "run_calls (CallRollback # cs) r w = (case rollback_call r w of (r', w') \<Rightarrow> run_calls cs r' w')"
| "run_calls (CallCommit # cs) r w =
     (case commit_call r w of
        None \<Rightarrow> drop_call r w
      | Some (r', w') \<Rightarrow> run_calls cs r' w')"

lemma consumed_idle: "inner_of r = None \<Longrightarrow> run_calls cs r w = w"
proof (induction cs arbitrary: r w)
  case Nil
  then show ?case by (simp add: drop_idle)
next
  case (Cons c cs)
  then show ?case by (cases c) (simp_all add: drop_idle rollback_idle commit_panics)
qed

lemma finalized_once:
  assumes "inner_of r = Some h"
  shows "run_calls cs r w =
    (case cs of CallCommit # _ \<Rightarrow> handle_commit h w | _ \<Rightarrow> handle_rollback h w)"
proof (cases cs)
  case Nil
  then show ?thesis using assms by (simp add: drop_runs)
next
  case (Cons c rest)
  obtain r1 where c1: "commit_call r w = Some (r1, handle_commit h w)" "inner_of r1 = None"
    using commit_runs [OF assms] by blast
  obtain r2 where c2: "rollback_call r w = (r2, handle_rollback h w)" "inner_of r2 = None"
    using rollback_runs [OF assms] by blast
  show ?thesis using Cons c1 c2 by (cases c) (simp_all add: consumed_idle)
qed

end

interpretation rsv: finalizer rsv_inner reservation_commit reservation_rollback reservation_drop
  by unfold_locales (auto simp: reservation_commit_def reservation_rollback_def
      reservation_drop_def)

interpretation dco: finalizer dco_inner drop_copy_commit drop_copy_rollback drop_copy_drop
  by unfold_locales (auto simp: drop_copy_commit_def drop_copy_rollback_def drop_copy_drop_def)

section \<open>Undoing a batch\<close>

text \<open>
  \<open>undo_chain w ms w'\<close>: starting from \<open>w\<close>, the registrations \<open>ms\<close> led to
  \<open>w'\<close>, and each rollback, run where its registration left the state, returns to where it
  started.
\<close>

inductive undo_chain :: "'w \<Rightarrow> 'w mutation list \<Rightarrow> 'w \<Rightarrow> bool" where
  start: "undo_chain w [] w"
| register: "undo_chain w ms w' \<Longrightarrow> mutation_rollback m w'' = (w', failure_default) \<Longrightarrow>
    undo_chain w (ms @ [m]) w''"

definition commit_effect :: "'w mutation \<Rightarrow> 'w \<Rightarrow> 'w" where
  "commit_effect m w = drop_guard m (fst (mutation_commit m w))"

definition rollback_effect :: "'w mutation \<Rightarrow> 'w \<Rightarrow> 'w" where
  "rollback_effect m w = fst (mutation_rollback m w)"

definition provenance_scope :: "mutation_provenance \<Rightarrow> mutation_failure_scope" where
  "provenance_scope p = (case p of EngineOwned \<Rightarrow> FailureAccount | CustomPolicy \<Rightarrow> FailureGlobal)"

text \<open>The provenances of the commits that fail, in order, when all of them run.\<close>

fun failing_commits :: "'w mutation list \<Rightarrow> 'w \<Rightarrow> mutation_provenance list" where
  "failing_commits [] w = []"
| "failing_commits (m # ms) w =
     (if is_ok (snd (mutation_commit m w)) then [] else [mut_provenance m]) @
     failing_commits ms (commit_effect m w)"

definition widest :: "mutation_failure_scope list \<Rightarrow> mutation_failure_scope option" where
  "widest scopes =
     (if FailureGlobal \<in> set scopes then Some FailureGlobal
      else if scopes = [] then None else Some FailureAccount)"

section \<open>Lemmas\<close>

lemma not_global_iff [simp]: "s \<noteq> FailureGlobal \<longleftrightarrow> s = FailureAccount"
  by (cases s) simp_all

lemma failure_record_scope:
  "mf_scope (failure_record f p d) =
     (if provenance_scope p = FailureGlobal \<or> mf_scope f = None
      then Some (provenance_scope p) else mf_scope f)"
  by (simp add: failure_record_def failure_widen_def provenance_scope_def Let_def)

lemma failure_append_default [simp]:
  "failure_append f failure_default = f" "failure_append failure_default failure_default = failure_default"
  by (simp_all add: failure_append_def failure_default_def Let_def)

lemma commit_loop_world: "fst (commit_loop ms w f) = fold commit_effect ms w"
  by (induction ms w f rule: commit_loop.induct)
    (auto simp: commit_effect_def split: prod.splits sum.splits)

lemma rollback_loop_world: "fst (rollback_loop ms w f) = fold rollback_effect ms w"
  by (induction ms w f rule: rollback_loop.induct)
    (auto simp: rollback_effect_def split: prod.splits)

lemma widest_Cons:
  "widest (s # ss) =
     (if s = FailureGlobal then Some FailureGlobal
      else case widest ss of None \<Rightarrow> Some FailureAccount | Some t \<Rightarrow> Some t)"
  using mutation_failure_scope.exhaust [of s] by (auto simp: widest_def)

lemma commit_loop_scope:
  "mf_scope (snd (commit_loop ms w f)) =
     (case widest (map provenance_scope (failing_commits ms w)) of
        None \<Rightarrow> mf_scope f
      | Some s \<Rightarrow> if s = FailureGlobal \<or> mf_scope f = None then Some s else mf_scope f)"
proof (induction ms w f rule: commit_loop.induct)
  case (1 w failure)
  then show ?case by (simp add: widest_def)
next
  case (2 m ms w failure)
  obtain w' r where c: "mutation_commit m w = (w', r)" by force
  have p: "provenance_scope (mut_provenance m) = FailureAccount \<or>
      provenance_scope (mut_provenance m) = FailureGlobal"
    by (cases "mut_provenance m") (simp_all add: provenance_scope_def)
  show ?case
  proof (cases r)
    case (Inl d)
    then show ?thesis using 2(1) [OF c [symmetric] Inl] c p
      by (auto simp: commit_effect_def failure_record_scope widest_Cons split: option.splits)
  next
    case (Inr u)
    then show ?thesis using 2(2) [OF c [symmetric] Inr] c by (simp add: commit_effect_def)
  qed
qed

lemma undo_chain_rollback:
  "undo_chain w ms w' \<Longrightarrow> rollback_loop (rev ms) w' failure_default = (w, failure_default)"
  by (induction rule: undo_chain.induct) simp_all

lemma undo_chain_append:
  "undo_chain w' ns w'' \<Longrightarrow> undo_chain w ms w' \<Longrightarrow> undo_chain w (ms @ ns) w''"
proof (induction rule: undo_chain.induct)
  case (register w' ns w1 m w2)
  then show ?case using undo_chain.register [of w "ms @ ns" w1 m w2] by simp
qed simp

lemma undo_chain_single:
  "mutation_rollback m w' = (w, failure_default) \<Longrightarrow> undo_chain w [m] w'"
  using undo_chain.register [OF undo_chain.start] by force

lemma owner_id_nonzero: "fst (next_mutation_owner_id c) \<noteq> 0"
  by (induction c rule: next_mutation_owner_id.induct) (subst next_mutation_owner_id.simps, auto simp: Let_def)

section \<open>Properties\<close>

text \<open>
  A reservation, and likewise a drop-copy operation, finalizes its mutations exactly once:
  whatever sequence of commits and rollbacks the caller issues before dropping it, panics
  included, the effect on the state is that of the first call alone, and rollback when there was
  no call.
\<close>

lemma handles_finalize_exactly_once:
  assumes "rsv_inner r = Some h" and "dco_inner d = Some h"
  shows "rsv.run_calls cs r w =
      (case cs of CallCommit # _ \<Rightarrow> handle_commit h w | _ \<Rightarrow> handle_rollback h w) \<and>
    dco.run_calls cs d w =
      (case cs of CallCommit # _ \<Rightarrow> handle_commit h w | _ \<Rightarrow> handle_rollback h w)"
  using rsv.finalized_once [OF assms(1)] dco.finalized_once [OF assms(2)] by blast

text \<open>
  A failing finalizer never stops a batch: all commits run in registration order and all
  rollbacks in reverse order, and the reported scope of a commit batch is the widest one: global
  when a failing mutation was registered by a custom policy, the account otherwise, and none
  exactly when every commit succeeded.
\<close>

lemma batch_runs_every_finalizer:
  "fst (commit_all b w) = fold commit_effect (mutation_list b) w \<and>
   fst (rollback_all b w) = fold rollback_effect (rev (mutation_list b)) w \<and>
   mf_scope (snd (commit_all b w)) =
     widest (map provenance_scope (failing_commits (mutation_list b) w))"
  by (simp add: commit_all_def rollback_all_def commit_loop_world rollback_loop_world
      commit_loop_scope failure_default_def split: option.splits)

text \<open>
  When each rollback undoes what its registration did, rolling a batch back in reverse order
  restores the state from before the first registration and reports no failure, so the kill switch
  is not armed.
\<close>

lemma rollback_restores_initial_state:
  assumes "undo_chain w (mutation_list b) w'"
  shows "rollback_all b w' = (w, failure_default) \<and>
    handle_rollback \<lparr>rh_mutations = b, rh_kill_switch = arm\<rparr> w' = w"
  using undo_chain_rollback [OF assms]
  by (simp add: rollback_all_def handle_rollback_def kill_switch_arm_def failure_default_def)

end
