(* ===== verification/Account_Control.thy ===== *)
theory Account_Control
  imports Account_Groups Mutation
begin

text \<open>
  Account blocking (\<open>crates/openpit/src/core/account_control.rs\<close>): the registry of blocked
  accounts and groups with its fast-path flags and global cause, the operations deferred by a
  drop-copy evaluation, and the control handle of one account. All mutations run under the
  exclusive \<open>mutation_guard\<close>, so each is one function of the registry.

  The abstract registry has no flags: a map of account causes, a map of group causes and an
  optional global block. \<open>abs_blocks\<close> relates the two; the flags are correct by the
  invariant \<open>flags_ok\<close>. The engine uses the registry through the interface
  \<open>block_gate\<close>.
\<close>

section \<open>The registry\<close>

datatype account_block_error = BlockErr_ReservedGroup | AccountNotBlocked account_id
  | GroupNotBlocked account_group_id

record blocked_accounts =
  any_flag :: bool
  all_flag :: bool
  blocked_groups_any_flag :: bool
  accounts_table :: "(account_id, account_block) storage"
  blocked_groups :: "(account_group_id, account_block) storage"
  global_block :: "(unit, account_block) storage"

definition blocked_accounts_new :: blocked_accounts where
  "blocked_accounts_new =
     \<lparr>any_flag = False, all_flag = False, blocked_groups_any_flag = False,
      accounts_table = [], blocked_groups = [], global_block = []\<rparr>"

definition new_account_blocked_rejects :: rejects where
  "new_account_blocked_rejects =
     rejects_new [reject_new ''Engine'' ScopeAccount AccountBlocked
       ''account is blocked due to kill-switch''
       [Lit ''kill-switch was previously triggered for this account'']]"

definition new_mutation_finalizer_block :: account_block where
  "new_mutation_finalizer_block =
     account_block_new ''Engine'' SystemUnavailable ''mutation finalizer failed''
       [Lit ''a mutation commit or rollback callback failed; engine state may be inconsistent'']"

definition new_unverifiable_block_check_rejects :: "reject_scope \<Rightarrow> rejects" where
  "new_unverifiable_block_check_rejects scope =
     rejects_new [reject_new ''Engine'' scope MissingRequiredField
       ''account could not be verified as account ID is missing''
       [Lit ''unable to check account for blocking'']]"

definition with_blocking_cause ::
  "blocked_accounts \<Rightarrow> memberships \<Rightarrow> account_id option \<Rightarrow> (account_block \<Rightarrow> 'o) \<Rightarrow> 'o \<Rightarrow> 'o \<Rightarrow>
   'o option" where
  "with_blocking_cause self groups account on_specific on_global on_unverifiable =
     (let all_blocking = all_flag self;
          account_blocking = (all_blocking \<or> any_flag self);
          group_blocking = blocked_groups_any_flag self
      in if \<not> account_blocking \<and> \<not> group_blocking then None
         else case account of
           None \<Rightarrow> Some on_unverifiable
         | Some account_id \<Rightarrow>
             (case (if account_blocking then storage_with (accounts_table self) account_id on_specific
                    else None) of
                Some result \<Rightarrow> Some result
              | None \<Rightarrow>
                  (case (if group_blocking
                         then (case group_of groups account_id of
                                 Some grp \<Rightarrow> storage_with (blocked_groups self) grp on_specific
                               | None \<Rightarrow> None)
                         else None) of
                     Some result \<Rightarrow> Some result
                   | None \<Rightarrow>
                       if \<not> all_blocking then None
                       else (case storage_with (global_block self) () on_specific of
                               Some result \<Rightarrow> Some result
                             | None \<Rightarrow> Some on_global))))"

definition blocked_check ::
  "blocked_accounts \<Rightarrow> memberships \<Rightarrow> account_id option \<Rightarrow> reject_scope \<Rightarrow> rejects option" where
  "blocked_check self groups account operation_scope =
     with_blocking_cause self groups account
       (\<lambda>block. rejects_new [reject_from_block block]) new_account_blocked_rejects
       (new_unverifiable_block_check_rejects operation_scope)"

definition is_blocked :: "blocked_accounts \<Rightarrow> memberships \<Rightarrow> account_id \<Rightarrow> bool" where
  "is_blocked self groups account \<longleftrightarrow>
     with_blocking_cause self groups (Some account) (\<lambda>_. ()) () () \<noteq> None"

definition block_account ::
  "blocked_accounts \<Rightarrow> account_id \<Rightarrow> account_block \<Rightarrow> blocked_accounts \<times> bool" where
  "block_account self account cause =
     (case insert_if_absent (accounts_table self) account cause of
        (table, inserted) \<Rightarrow> (self\<lparr>accounts_table := table, any_flag := True\<rparr>, inserted))"

definition block_all :: "blocked_accounts \<Rightarrow> blocked_accounts" where
  "block_all self = self\<lparr>any_flag := True, all_flag := True\<rparr>"

definition block_all_with_cause :: "blocked_accounts \<Rightarrow> account_block \<Rightarrow> blocked_accounts" where
  "block_all_with_cause self cause =
     self\<lparr>global_block := fst (insert_if_absent (global_block self) () cause),
          any_flag := True, all_flag := True\<rparr>"

definition unblock_all :: "blocked_accounts \<Rightarrow> blocked_accounts" where
  "unblock_all self =
     (let self = self\<lparr>global_block := fst (storage_remove (global_block self) ()),
                       all_flag := False\<rparr>
      in if storage_is_empty (accounts_table self) then self\<lparr>any_flag := False\<rparr> else self)"

definition unblock_account :: "blocked_accounts \<Rightarrow> account_id \<Rightarrow> blocked_accounts" where
  "unblock_account self account =
     (let self = self\<lparr>accounts_table := fst (storage_remove (accounts_table self) account)\<rparr>
      in if storage_is_empty (accounts_table self) \<and> \<not> all_flag self
         then self\<lparr>any_flag := False\<rparr> else self)"

definition invalidate_provenance ::
  "blocked_accounts \<Rightarrow> account_id \<Rightarrow> u64 \<Rightarrow> blocked_accounts \<times> account_block option" where
  "invalidate_provenance self account provenance =
     (case Option.bind
             (storage_with (accounts_table self) account
                (\<lambda>cause. if ab_provenance cause = Some provenance then Some cause else None))
             (\<lambda>removed. removed) of
        None \<Rightarrow> (self, None)
      | Some removed \<Rightarrow>
          (let self = self\<lparr>accounts_table := fst (storage_remove (accounts_table self) account)\<rparr>
           in (if storage_is_empty (accounts_table self) \<and> \<not> all_flag self
               then self\<lparr>any_flag := False\<rparr> else self, Some removed)))"

definition replace_reason ::
  "blocked_accounts \<Rightarrow> account_id \<Rightarrow> account_block \<Rightarrow>
   blocked_accounts \<times> (account_block_error + unit)" where
  "replace_reason self account block =
     (case with_mut_if_present (accounts_table self) account (\<lambda>_. (block, ())) of
        (table, out) \<Rightarrow> (self\<lparr>accounts_table := table\<rparr>, ok_or out (AccountNotBlocked account)))"

definition block_group ::
  "blocked_accounts \<Rightarrow> account_group_id \<Rightarrow> account_block \<Rightarrow>
   blocked_accounts \<times> (account_block_error + unit)" where
  "block_group self grp cause =
     (if grp = DEFAULT_ACCOUNT_GROUP then (self, Inl BlockErr_ReservedGroup)
      else (self\<lparr>blocked_groups := fst (insert_if_absent (blocked_groups self) grp cause),
                 blocked_groups_any_flag := True\<rparr>, Inr ()))"

definition unblock_group ::
  "blocked_accounts \<Rightarrow> account_group_id \<Rightarrow> blocked_accounts \<times> (account_block_error + unit)" where
  "unblock_group self grp =
     (if grp = DEFAULT_ACCOUNT_GROUP then (self, Inl BlockErr_ReservedGroup)
      else (let self = self\<lparr>blocked_groups := fst (storage_remove (blocked_groups self) grp)\<rparr>
            in (if storage_is_empty (blocked_groups self)
                then self\<lparr>blocked_groups_any_flag := False\<rparr> else self, Inr ())))"

definition replace_group_reason ::
  "blocked_accounts \<Rightarrow> account_group_id \<Rightarrow> account_block \<Rightarrow>
   blocked_accounts \<times> (account_block_error + unit)" where
  "replace_group_reason self grp block =
     (if grp = DEFAULT_ACCOUNT_GROUP then (self, Inl BlockErr_ReservedGroup)
      else case with_mut_if_present (blocked_groups self) grp (\<lambda>_. (block, ())) of
             (table, out) \<Rightarrow> (self\<lparr>blocked_groups := table\<rparr>, ok_or out (GroupNotBlocked grp)))"

text \<open>The account of a report that does not name one is \<open>None\<close>.\<close>

definition record_execution_report ::
  "blocked_accounts \<Rightarrow> account_id option \<Rightarrow> account_block \<Rightarrow> blocked_accounts" where
  "record_execution_report self report_account cause =
     (case report_account of
        Some account \<Rightarrow> fst (block_account self account cause)
      | None \<Rightarrow> block_all self)"

definition record_pre_trade ::
  "blocked_accounts \<Rightarrow> account_id option \<Rightarrow> account_block \<Rightarrow> blocked_accounts" where
  "record_pre_trade self account cause =
     (case account of Some a \<Rightarrow> fst (block_account self a cause) | None \<Rightarrow> self)"

definition record_mutation_failure ::
  "blocked_accounts \<Rightarrow> account_id option \<Rightarrow> mutation_failure_scope \<Rightarrow> blocked_accounts" where
  "record_mutation_failure self account scope =
     (case (scope, account) of
        (FailureAccount, Some a) \<Rightarrow> fst (block_account self a new_mutation_finalizer_block)
      | (FailureAccount, None) \<Rightarrow> block_all_with_cause self new_mutation_finalizer_block
      | (FailureGlobal, _) \<Rightarrow> block_all_with_cause self new_mutation_finalizer_block)"

section \<open>Deferred operations\<close>

datatype deferred_account_operation = DeferBlock account_id account_block
  | DeferInvalidateProvenance account_id u64

record deferred_operations =
  do_first_block :: "account_block option"
  do_operations :: "deferred_account_operation list"
  do_is_active :: bool

definition deferred_default :: deferred_operations where
  "deferred_default = \<lparr>do_first_block = None, do_operations = [], do_is_active = True\<rparr>"

definition record_block ::
  "deferred_operations \<Rightarrow> account_id \<Rightarrow> account_block \<Rightarrow>
   deferred_operations \<times> (account_block + unit)" where
  "record_block state account block =
     (if \<not> do_is_active state then (state, Inl block)
      else (let state = (if do_first_block state = None
                         then state\<lparr>do_first_block := Some block\<rparr> else state)
            in (state\<lparr>do_operations := do_operations state @ [DeferBlock account block]\<rparr>, Inr ())))"

definition record_invalidate_provenance ::
  "deferred_operations \<Rightarrow> account_id \<Rightarrow> u64 \<Rightarrow> deferred_operations \<times> bool" where
  "record_invalidate_provenance state account provenance =
     (if \<not> do_is_active state then (state, False)
      else (state\<lparr>do_operations :=
              do_operations state @ [DeferInvalidateProvenance account provenance]\<rparr>, True))"

fun apply_deferred :: "deferred_account_operation list \<Rightarrow> blocked_accounts \<Rightarrow> blocked_accounts" where
  "apply_deferred [] b = b"
| "apply_deferred (DeferBlock account block # ops) b =
     apply_deferred ops (fst (block_account b account block))"
| "apply_deferred (DeferInvalidateProvenance account provenance # ops) b =
     apply_deferred ops (fst (invalidate_provenance b account provenance))"

definition deferred_apply ::
  "deferred_operations \<Rightarrow> blocked_accounts \<Rightarrow> deferred_operations \<times> blocked_accounts" where
  "deferred_apply state b =
     (state\<lparr>do_is_active := False, do_first_block := None, do_operations := []\<rparr>,
      apply_deferred (do_operations state) b)"

definition deferred_abandon :: "deferred_operations \<Rightarrow> deferred_operations" where
  "deferred_abandon state =
     state\<lparr>do_is_active := False, do_first_block := None, do_operations := []\<rparr>"

text \<open>
  \<open>AccountControl\<close> of one account: the deferred list is present during a drop-copy
  evaluation.
\<close>

definition control_block ::
  "account_id \<Rightarrow> account_block \<Rightarrow> deferred_operations option \<times> blocked_accounts \<Rightarrow>
   deferred_operations option \<times> blocked_accounts" where
  "control_block account block st =
     (case st of
        (None, b) \<Rightarrow> (None, fst (block_account b account block))
      | (Some d, b) \<Rightarrow>
          (case record_block d account block of
             (d', Inr _) \<Rightarrow> (Some d', b)
           | (d', Inl block') \<Rightarrow> (Some d', fst (block_account b account block'))))"

definition control_invalidate_provenance ::
  "account_id \<Rightarrow> u64 \<Rightarrow> deferred_operations option \<times> blocked_accounts \<Rightarrow>
   (deferred_operations option \<times> blocked_accounts) \<times> account_block option" where
  "control_invalidate_provenance account provenance st =
     (case st of
        (None, b) \<Rightarrow>
          (case invalidate_provenance b account provenance of (b', r) \<Rightarrow> ((None, b'), r))
      | (Some d, b) \<Rightarrow>
          (case record_invalidate_provenance d account provenance of
             (d', True) \<Rightarrow> ((Some d', b), None)
           | (d', False) \<Rightarrow>
               (case invalidate_provenance b account provenance of
                  (b', r) \<Rightarrow> ((Some d', b'), r))))"

section \<open>The abstract registry\<close>

record block_spec =
  spec_accounts :: "account_id \<Rightarrow> account_block option"
  spec_groups :: "account_group_id \<Rightarrow> account_block option"
  spec_global :: "account_block option option"

definition abs_blocks :: "blocked_accounts \<Rightarrow> block_spec" where
  "abs_blocks b =
     \<lparr>spec_accounts = hm_get (accounts_table b), spec_groups = hm_get (blocked_groups b),
      spec_global = (if all_flag b then Some (hm_get (global_block b) ()) else None)\<rparr>"

definition flags_ok :: "blocked_accounts \<Rightarrow> bool" where
  "flags_ok b \<longleftrightarrow> any_flag b = (accounts_table b \<noteq> [] \<or> all_flag b) \<and>
     blocked_groups_any_flag b = (blocked_groups b \<noteq> []) \<and>
     (global_block b \<noteq> [] \<longrightarrow> all_flag b)"

text \<open>
  The cause that stops an account: its own, then that of its group, then the global one; the inner
  \<open>None\<close> is a global block without a stored cause.
\<close>

definition spec_cause ::
  "block_spec \<Rightarrow> memberships \<Rightarrow> account_id \<Rightarrow> account_block option option" where
  "spec_cause s groups account =
     (case spec_accounts s account of
        Some c \<Rightarrow> Some (Some c)
      | None \<Rightarrow>
          (case Option.bind (group_of groups account) (spec_groups s) of
             Some c \<Rightarrow> Some (Some c)
           | None \<Rightarrow> spec_global s))"

definition spec_idle :: "block_spec \<Rightarrow> bool" where
  "spec_idle s \<longleftrightarrow> spec_accounts s = Map.empty \<and> spec_groups s = Map.empty \<and> spec_global s = None"

definition keep_first :: "('k \<Rightarrow> 'v option) \<Rightarrow> 'k \<Rightarrow> 'v \<Rightarrow> 'k \<Rightarrow> 'v option" where
  "keep_first m k v = (if m k = None then m(k \<mapsto> v) else m)"

definition replace_present :: "('k \<Rightarrow> 'v option) \<Rightarrow> 'k \<Rightarrow> 'v \<Rightarrow> 'k \<Rightarrow> 'v option" where
  "replace_present m k v = (if m k = None then m else m(k \<mapsto> v))"

text \<open>The block of an account, when it carries the given provenance.\<close>

definition spec_provenance :: "block_spec \<Rightarrow> account_id \<Rightarrow> u64 \<Rightarrow> account_block option" where
  "spec_provenance s account p =
     Option.bind (spec_accounts s account) (\<lambda>c. if ab_provenance c = Some p then Some c else None)"

section \<open>The gate the engine relies on\<close>

locale block_gate =
  fixes gate :: "'b \<Rightarrow> account_id \<Rightarrow> bool"
    and latch :: "'b \<Rightarrow> account_id \<Rightarrow> account_block \<Rightarrow> 'b"
    and okay :: "'b \<Rightarrow> bool"
  assumes latch_blocks: "okay b \<Longrightarrow> gate (latch b a c) a"
    and latch_keeps: "okay b \<Longrightarrow> gate b x \<Longrightarrow> gate (latch b a c) x"
    and latch_okay: "okay b \<Longrightarrow> okay (latch b a c)"
begin

lemma latch_all_okay: "okay b \<Longrightarrow> okay (fold (\<lambda>c b. latch b a c) cs b)"
  by (induction cs arbitrary: b) (simp_all add: latch_okay)

lemma latch_all_keeps:
  "okay b \<Longrightarrow> gate b x \<Longrightarrow> gate (fold (\<lambda>c b. latch b a c) cs b) x"
  by (induction cs arbitrary: b) (simp_all add: latch_okay latch_keeps)

lemma latch_all_blocks:
  "okay b \<Longrightarrow> cs \<noteq> [] \<Longrightarrow> gate (fold (\<lambda>c b. latch b a c) cs b) a"
  by (cases cs) (simp_all add: latch_okay latch_blocks latch_all_keeps)

end

section \<open>Lemmas\<close>

lemma insert_if_absent_lookup:
  "hm_get (fst (insert_if_absent t k v)) = keep_first (hm_get t) k v"
  by (auto simp: insert_if_absent_def insert_if_absent_slow_def keep_first_def fun_eq_iff)

lemma insert_if_absent_nonempty [simp]: "fst (insert_if_absent t k v) \<noteq> []"
  by (auto simp: insert_if_absent_def insert_if_absent_slow_def)

lemma insert_if_absent_pair_nonempty: "insert_if_absent t k v = (t', r) \<Longrightarrow> t' \<noteq> []"
  using insert_if_absent_nonempty [of t k v] by simp

lemma storage_is_empty_iff [simp]: "storage_is_empty t \<longleftrightarrow> t = []"
  by (simp add: storage_is_empty_def storage_len_def)

lemma storage_remove_lookup [simp]: "hm_get (fst (storage_remove t k)) = (hm_get t)(k := None)"
  by (auto simp: storage_remove_def fun_eq_iff)

lemma remove_empty [simp]: "fst (storage_remove [] k) = []"
  by (simp add: storage_remove_def)

lemma storage_remove_output: "snd (storage_remove t k) \<longleftrightarrow> hm_get t k \<noteq> None"
  by (simp add: storage_remove_def)

lemma with_mut_if_present_empty:
  "fst (with_mut_if_present t k m) = [] \<longleftrightarrow> t = []"
  by (auto simp: with_mut_if_present_def split: option.splits prod.splits)

lemma unit_table_empty: "(t :: (unit, 'v) storage) = [] \<longleftrightarrow> hm_get t () = None"
  by (cases t) auto

lemma unit_remove [simp]: "fst (storage_remove (t :: (unit, 'v) storage) ()) = []"
  by (simp add: unit_table_empty)

lemma unblock_account_fields [simp]:
  "accounts_table (unblock_account b a) = fst (storage_remove (accounts_table b) a)"
  "blocked_groups (unblock_account b a) = blocked_groups b"
  "global_block (unblock_account b a) = global_block b"
  "all_flag (unblock_account b a) = all_flag b"
  "blocked_groups_any_flag (unblock_account b a) = blocked_groups_any_flag b"
  "any_flag (unblock_account b a) =
     (any_flag b \<and> (fst (storage_remove (accounts_table b) a) \<noteq> [] \<or> all_flag b))"
  by (auto simp: unblock_account_def Let_def)

lemma cause_refines:
  assumes "flags_ok b"
  shows "with_blocking_cause b groups (Some a) f g u =
    map_option (\<lambda>c. case c of Some x \<Rightarrow> f x | None \<Rightarrow> g) (spec_cause (abs_blocks b) groups a)"
proof -
  have g: "all_flag b \<or> hm_get (global_block b) () = None"
    using assms unit_table_empty [of "global_block b"] by (auto simp: flags_ok_def)
  have acc: "\<not> any_flag b \<Longrightarrow> accounts_table b = []" using assms by (auto simp: flags_ok_def)
  have any: "all_flag b \<Longrightarrow> any_flag b" using assms by (auto simp: flags_ok_def)
  have grp: "\<not> blocked_groups_any_flag b \<Longrightarrow> blocked_groups b = []"
    using assms by (auto simp: flags_ok_def)
  show ?thesis
    using g acc any grp
    by (cases "any_flag b"; cases "blocked_groups_any_flag b"; cases "group_of groups a")
      (auto simp: with_blocking_cause_def spec_cause_def abs_blocks_def storage_with_def Let_def
        split: option.splits)
qed

lemma missing_account_refines:
  assumes "flags_ok b"
  shows "with_blocking_cause b groups None f g u =
    (if spec_idle (abs_blocks b) then None else Some u)"
proof -
  have "all_flag b \<or> any_flag b \<or> blocked_groups_any_flag b \<longleftrightarrow> \<not> spec_idle (abs_blocks b)"
    using assms hm_empty_iff [of "accounts_table b"] hm_empty_iff [of "blocked_groups b"]
    by (auto simp: flags_ok_def spec_idle_def abs_blocks_def fun_eq_iff)
  then show ?thesis by (auto simp: with_blocking_cause_def Let_def)
qed

lemmas block_op_defs = block_account_def block_all_def block_all_with_cause_def unblock_all_def
  unblock_account_def replace_reason_def block_group_def unblock_group_def
  replace_group_reason_def

lemma flags_ok_new: "flags_ok blocked_accounts_new"
  by (simp add: flags_ok_def blocked_accounts_new_def)

lemma flags_ok_block:
  assumes "flags_ok b"
  shows "flags_ok (fst (block_account b a c))" and "flags_ok (block_all b)"
    and "flags_ok (block_all_with_cause b c)"
  using assms
  by (auto simp: flags_ok_def block_op_defs dest: insert_if_absent_pair_nonempty
      split: prod.splits)

lemma flags_ok_unblock:
  assumes "flags_ok b"
  shows "flags_ok (unblock_all b)" and "flags_ok (unblock_account b a)"
proof -
  show "flags_ok (unblock_all b)"
    using assms by (auto simp: flags_ok_def unblock_all_def Let_def)
  have "accounts_table b = [] \<Longrightarrow> any_flag b = all_flag b"
    using assms by (auto simp: flags_ok_def)
  then show "flags_ok (unblock_account b a)"
    using assms by (auto simp: flags_ok_def)
qed

lemma flags_ok_replace: "flags_ok b \<Longrightarrow> flags_ok (fst (replace_reason b a c))"
  using with_mut_if_present_empty [of "accounts_table b" a "\<lambda>_. (c, ())"]
  by (auto simp: flags_ok_def replace_reason_def split: prod.splits)

lemmas flags_ok_account_ops = flags_ok_block flags_ok_unblock flags_ok_replace

lemma flags_ok_group_ops:
  assumes "flags_ok b"
  shows "flags_ok (fst (block_group b g c))" and "flags_ok (fst (unblock_group b g))"
    and "flags_ok (fst (replace_group_reason b g c))"
  using assms with_mut_if_present_empty [of "blocked_groups b" g "\<lambda>_. (c, ())"]
  by (auto simp: flags_ok_def block_op_defs Let_def split: prod.splits)

lemma invalidate_eq:
  "invalidate_provenance b a p =
     (case hm_get (accounts_table b) a of
        Some c \<Rightarrow> if ab_provenance c = Some p then (unblock_account b a, Some c) else (b, None)
      | None \<Rightarrow> (b, None))"
  by (auto simp: invalidate_provenance_def unblock_account_def storage_with_def Let_def
      split: option.splits)

lemma flags_ok_invalidate: "flags_ok b \<Longrightarrow> flags_ok (fst (invalidate_provenance b a p))"
  by (auto simp: invalidate_eq flags_ok_account_ops split: option.splits)

lemma block_account_abs:
  "abs_blocks (fst (block_account b a c)) =
     (abs_blocks b)\<lparr>spec_accounts := keep_first (spec_accounts (abs_blocks b)) a c\<rparr>"
  using insert_if_absent_lookup [of "accounts_table b" a c]
  by (auto simp: block_account_def abs_blocks_def split: prod.splits)

lemma unblock_account_abs:
  "abs_blocks (unblock_account b a) =
     (abs_blocks b)\<lparr>spec_accounts := (spec_accounts (abs_blocks b))(a := None)\<rparr>"
  by (simp add: abs_blocks_def fun_upd_def)

lemma is_blocked_iff:
  "flags_ok b \<Longrightarrow> is_blocked b groups a \<longleftrightarrow> spec_cause (abs_blocks b) groups a \<noteq> None"
  by (auto simp: is_blocked_def cause_refines)

interpretation registry: block_gate
  "\<lambda>b a. is_blocked b groups a" "\<lambda>b a c. fst (block_account b a c)" flags_ok for groups
proof (unfold_locales, goal_cases)
  case (1 b a c)
  then show ?case
    by (auto simp: is_blocked_iff flags_ok_account_ops block_account_abs spec_cause_def
        keep_first_def split: option.splits)
next
  case (2 b x a c)
  then show ?case
    by (auto simp: is_blocked_iff flags_ok_account_ops block_account_abs spec_cause_def
        keep_first_def split: option.splits if_splits)
qed (simp add: flags_ok_account_ops)

lemma global_abs:
  assumes "flags_ok b"
  shows "spec_global (abs_blocks b) =
    (if all_flag b then Some (hm_get (global_block b) ()) else None) \<and>
    (\<not> all_flag b \<longrightarrow> hm_get (global_block b) () = None)"
  using assms unit_table_empty [of "global_block b"] by (auto simp: abs_blocks_def flags_ok_def)

lemma block_all_abs:
  assumes "flags_ok b"
  shows "abs_blocks (block_all b) = (abs_blocks b)\<lparr>spec_global :=
      (case spec_global (abs_blocks b) of None \<Rightarrow> Some None | Some c \<Rightarrow> Some c)\<rparr>"
  using global_abs [OF assms] by (auto simp: block_all_def abs_blocks_def)

lemma block_all_with_cause_abs:
  assumes "flags_ok b"
  shows "abs_blocks (block_all_with_cause b cause) = (abs_blocks b)\<lparr>spec_global :=
      (case spec_global (abs_blocks b) of Some (Some c) \<Rightarrow> Some (Some c)
       | _ \<Rightarrow> Some (Some cause))\<rparr>"
  using global_abs [OF assms] insert_if_absent_lookup [of "global_block b" "()" cause]
  by (auto simp: block_all_with_cause_def abs_blocks_def keep_first_def split: option.splits)

lemma unblock_all_abs:
  "abs_blocks (unblock_all b) = (abs_blocks b)\<lparr>spec_global := None\<rparr>"
  by (simp add: unblock_all_def abs_blocks_def Let_def)

lemma replace_present_lookup:
  "(\<lambda>x. hm_get (fst (with_mut_if_present t k (\<lambda>_. (v, ())))) x) = replace_present (hm_get t) k v"
  by (auto simp: with_mut_if_present_def replace_present_def fun_eq_iff split: option.splits)

lemma with_mut_if_present_output:
  "snd (with_mut_if_present t k (\<lambda>_. (v, ()))) = (if hm_get t k = None then None else Some ())"
  by (auto simp: with_mut_if_present_def split: option.splits)

lemma replace_reason_refines:
  "case replace_reason b a c of (b', r) \<Rightarrow>
     abs_blocks b' = (abs_blocks b)\<lparr>spec_accounts :=
       replace_present (spec_accounts (abs_blocks b)) a c\<rparr> \<and>
     r = (if spec_accounts (abs_blocks b) a = None then Inl (AccountNotBlocked a) else Inr ())"
  using replace_present_lookup [of "accounts_table b" a c]
    with_mut_if_present_output [of "accounts_table b" a c]
  by (auto simp: replace_reason_def abs_blocks_def ok_or_def split: prod.splits)

lemma replace_group_reason_refines:
  "g \<noteq> DEFAULT_ACCOUNT_GROUP \<Longrightarrow> case replace_group_reason b g c of (b', r) \<Rightarrow>
     abs_blocks b' = (abs_blocks b)\<lparr>spec_groups :=
       replace_present (spec_groups (abs_blocks b)) g c\<rparr> \<and>
     r = (if spec_groups (abs_blocks b) g = None then Inl (GroupNotBlocked g) else Inr ())"
  using replace_present_lookup [of "blocked_groups b" g c]
    with_mut_if_present_output [of "blocked_groups b" g c]
  by (auto simp: replace_group_reason_def abs_blocks_def ok_or_def split: prod.splits)

lemma invalidate_provenance_refines:
  "case invalidate_provenance b a p of (b', removed) \<Rightarrow>
     removed = spec_provenance (abs_blocks b) a p \<and>
     abs_blocks b' = (if removed = None then abs_blocks b
       else (abs_blocks b)\<lparr>spec_accounts := (spec_accounts (abs_blocks b))(a := None)\<rparr>)"
  by (auto simp: invalidate_eq spec_provenance_def unblock_account_abs split: option.splits)
    (auto simp: abs_blocks_def)

lemma reserved_group_refused:
  "\<forall>f \<in> {\<lambda>b g. block_group b g c, unblock_group, \<lambda>b g. replace_group_reason b g c}.
     f b DEFAULT_ACCOUNT_GROUP = (b, Inl BlockErr_ReservedGroup)"
  by (simp add: block_group_def unblock_group_def replace_group_reason_def)

lemma blocked_check_account:
  "flags_ok b \<Longrightarrow> blocked_check b groups (Some a) scope =
     map_option (\<lambda>c. case c of Some block \<Rightarrow> rejects_new [reject_from_block block]
                             | None \<Rightarrow> new_account_blocked_rejects)
       (spec_cause (abs_blocks b) groups a)"
  by (simp add: blocked_check_def cause_refines)

lemma blocked_check_no_account:
  "flags_ok b \<Longrightarrow> blocked_check b groups None scope =
     (if spec_idle (abs_blocks b) then None
      else Some (new_unverifiable_block_check_rejects scope))"
  by (simp add: blocked_check_def missing_account_refines)

lemma block_group_abs:
  "g \<noteq> DEFAULT_ACCOUNT_GROUP \<Longrightarrow> abs_blocks (fst (block_group b g c)) =
     (abs_blocks b)\<lparr>spec_groups := keep_first (spec_groups (abs_blocks b)) g c\<rparr>"
  using insert_if_absent_lookup [of "blocked_groups b" g c]
  by (auto simp: block_group_def abs_blocks_def)

lemma unblock_group_fields:
  "g \<noteq> DEFAULT_ACCOUNT_GROUP \<Longrightarrow>
     blocked_groups (fst (unblock_group b g)) = fst (storage_remove (blocked_groups b) g)"
  "accounts_table (fst (unblock_group b g)) = accounts_table b"
  "global_block (fst (unblock_group b g)) = global_block b"
  "all_flag (fst (unblock_group b g)) = all_flag b"
  by (auto simp: unblock_group_def Let_def)

lemma unblock_group_abs:
  "g \<noteq> DEFAULT_ACCOUNT_GROUP \<Longrightarrow> abs_blocks (fst (unblock_group b g)) =
     (abs_blocks b)\<lparr>spec_groups := (spec_groups (abs_blocks b))(g := None)\<rparr>"
  by (simp add: abs_blocks_def unblock_group_fields fun_upd_def)

lemma record_mutation_failure_ok:
  "flags_ok b \<Longrightarrow> flags_ok (record_mutation_failure b acc sc)"
  by (simp add: record_mutation_failure_def flags_ok_block
      split: mutation_failure_scope.splits option.splits)

lemma global_blocks_everyone:
  "spec_global (abs_blocks b) \<noteq> None \<Longrightarrow> flags_ok b \<Longrightarrow> is_blocked b groups x"
  by (auto simp: is_blocked_iff spec_cause_def split: option.splits)

lemma block_all_blocks:
  assumes "flags_ok b"
  shows "is_blocked (block_all b) groups x" and "is_blocked (block_all_with_cause b c) groups x"
  using assms by (auto intro!: global_blocks_everyone simp: flags_ok_block block_all_abs
      block_all_with_cause_abs split: option.splits)

text \<open>The calls of a policy's control handle, immediate or deferred.\<close>

fun control_run ::
  "deferred_account_operation list \<Rightarrow> deferred_operations option \<times> blocked_accounts \<Rightarrow>
   deferred_operations option \<times> blocked_accounts" where
  "control_run [] st = st"
| "control_run (DeferBlock a blk # ops) st = control_run ops (control_block a blk st)"
| "control_run (DeferInvalidateProvenance a p # ops) st =
     control_run ops (fst (control_invalidate_provenance a p st))"

lemma control_run_immediate: "control_run ops (None, b) = (None, apply_deferred ops b)"
  by (induction ops b rule: apply_deferred.induct)
    (auto simp: control_block_def control_invalidate_provenance_def split: prod.splits)

lemma control_run_deferred:
  "do_is_active d \<Longrightarrow> \<exists>d'. control_run ops (Some d, b) = (Some d', b) \<and> do_is_active d' \<and>
     do_operations d' = do_operations d @ ops"
proof (induction ops arbitrary: d)
  case (Cons op ops)
  show ?case
  proof (cases op)
    case (DeferBlock a blk)
    let ?d = "fst (record_block d a blk)"
    have "do_is_active ?d" "do_operations ?d = do_operations d @ [op]"
      "control_block a blk (Some d, b) = (Some ?d, b)"
      using Cons.prems DeferBlock by (auto simp: record_block_def control_block_def Let_def)
    then show ?thesis using Cons.IH [of ?d] DeferBlock by simp
  next
    case (DeferInvalidateProvenance a p)
    let ?d = "fst (record_invalidate_provenance d a p)"
    have "do_is_active ?d" "do_operations ?d = do_operations d @ [op]"
      "fst (control_invalidate_provenance a p (Some d, b)) = (Some ?d, b)"
      using Cons.prems DeferInvalidateProvenance
      by (auto simp: record_invalidate_provenance_def control_invalidate_provenance_def)
    then show ?thesis using Cons.IH [of ?d] DeferInvalidateProvenance by simp
  qed
qed simp

section \<open>Properties\<close>

text \<open>
  (C28) The registry with its fast-path flags refines the flag-free specification: each of its ten
  operations keeps the flags exact and acts on the abstract maps as specified. The first cause
  recorded for an account, a group or the whole engine is the one that stays (a global cause may
  still be added to a global block without one); replacing a reason changes the cause of an account
  or group that is blocked and refuses the others; invalidating a provenance removes and returns the
  block of exactly that provenance; lifting the global block keeps the individual ones; and the
  operations on groups refuse the reserved default group and change nothing. The block check of a
  request decides from the specification alone: an account is stopped by its own cause, else by that
  of its group, else by the global block, and passes when there is none, while a request without an
  account identifier is refused as unverifiable exactly when anything at all is blocked.
\<close>

theorem block_registry_refines_spec:
  assumes "flags_ok b" and "g \<noteq> DEFAULT_ACCOUNT_GROUP"
  shows "abs_blocks (fst (block_account b a c)) =
      (abs_blocks b)\<lparr>spec_accounts := keep_first (spec_accounts (abs_blocks b)) a c\<rparr> \<and>
    abs_blocks (unblock_account b a) =
      (abs_blocks b)\<lparr>spec_accounts := (spec_accounts (abs_blocks b))(a := None)\<rparr> \<and>
    abs_blocks (block_all b) = (abs_blocks b)\<lparr>spec_global :=
      (case spec_global (abs_blocks b) of None \<Rightarrow> Some None | Some d \<Rightarrow> Some d)\<rparr> \<and>
    abs_blocks (block_all_with_cause b c) = (abs_blocks b)\<lparr>spec_global :=
      (case spec_global (abs_blocks b) of Some (Some d) \<Rightarrow> Some (Some d)
       | _ \<Rightarrow> Some (Some c))\<rparr> \<and>
    abs_blocks (unblock_all b) = (abs_blocks b)\<lparr>spec_global := None\<rparr> \<and>
    (case replace_reason b a c of (b', r) \<Rightarrow>
      abs_blocks b' = (abs_blocks b)\<lparr>spec_accounts :=
        replace_present (spec_accounts (abs_blocks b)) a c\<rparr> \<and>
      r = (if spec_accounts (abs_blocks b) a = None then Inl (AccountNotBlocked a) else Inr ())) \<and>
    (case invalidate_provenance b a p of (b', removed) \<Rightarrow>
      removed = spec_provenance (abs_blocks b) a p \<and>
      abs_blocks b' = (if removed = None then abs_blocks b
        else (abs_blocks b)\<lparr>spec_accounts := (spec_accounts (abs_blocks b))(a := None)\<rparr>)) \<and>
    abs_blocks (fst (block_group b g c)) =
      (abs_blocks b)\<lparr>spec_groups := keep_first (spec_groups (abs_blocks b)) g c\<rparr> \<and>
    abs_blocks (fst (unblock_group b g)) =
      (abs_blocks b)\<lparr>spec_groups := (spec_groups (abs_blocks b))(g := None)\<rparr> \<and>
    (case replace_group_reason b g c of (b', r) \<Rightarrow>
      abs_blocks b' = (abs_blocks b)\<lparr>spec_groups :=
        replace_present (spec_groups (abs_blocks b)) g c\<rparr> \<and>
      r = (if spec_groups (abs_blocks b) g = None then Inl (GroupNotBlocked g) else Inr ())) \<and>
    (\<forall>f \<in> {\<lambda>b g. block_group b g c, unblock_group, \<lambda>b g. replace_group_reason b g c}.
      f b DEFAULT_ACCOUNT_GROUP = (b, Inl BlockErr_ReservedGroup)) \<and>
    flags_ok (fst (block_account b a c)) \<and> flags_ok (unblock_account b a) \<and>
    flags_ok (block_all b) \<and> flags_ok (block_all_with_cause b c) \<and> flags_ok (unblock_all b) \<and>
    flags_ok (fst (replace_reason b a c)) \<and> flags_ok (fst (invalidate_provenance b a p)) \<and>
    flags_ok (fst (block_group b g c)) \<and> flags_ok (fst (unblock_group b g)) \<and>
    flags_ok (fst (replace_group_reason b g c)) \<and>
    blocked_check b groups (Some a) scope =
      map_option (\<lambda>c. case c of Some block \<Rightarrow> rejects_new [reject_from_block block]
                              | None \<Rightarrow> new_account_blocked_rejects)
        (spec_cause (abs_blocks b) groups a) \<and>
    blocked_check b groups None scope =
      (if spec_idle (abs_blocks b) then None
       else Some (new_unverifiable_block_check_rejects scope)) \<and>
    (is_blocked b groups a \<longleftrightarrow> spec_cause (abs_blocks b) groups a \<noteq> None)"
  by (intro conjI block_account_abs unblock_account_abs block_all_abs block_all_with_cause_abs
      unblock_all_abs replace_reason_refines invalidate_provenance_refines block_group_abs
      unblock_group_abs replace_group_reason_refines reserved_group_refused flags_ok_account_ops
      flags_ok_group_ops flags_ok_invalidate blocked_check_account blocked_check_no_account
      is_blocked_iff assms)

theorem block_registry_refines_spec_witness:
  "flags_ok blocked_accounts_new \<and>
   spec_accounts (abs_blocks (fst (block_account blocked_accounts_new 7
     new_mutation_finalizer_block))) 7 = Some new_mutation_finalizer_block"
  using flags_ok_new block_registry_refines_spec [OF flags_ok_new, of 3 7
      new_mutation_finalizer_block]
  by (simp add: DEFAULT_ACCOUNT_GROUP_def keep_first_def abs_blocks_def blocked_accounts_new_def)

text \<open>
  The kill switch reaches as far as it must: a failed finalizer of known reach, and a report
  or reject of a named account, block that account; a failure of unknown reach, one with no account
  to attribute it to, and a report without an account block every account, and unblocking one
  account does not lift such a block.
\<close>

lemma kill_switch_reach:
  assumes "flags_ok b"
  shows "is_blocked (record_mutation_failure b (Some a) FailureAccount) groups a \<and>
    is_blocked (record_execution_report b (Some a) c) groups a \<and>
    is_blocked (record_pre_trade b (Some a) c) groups a \<and>
    is_blocked (record_mutation_failure b acc FailureGlobal) groups x \<and>
    is_blocked (record_mutation_failure b None sc) groups x \<and>
    is_blocked (record_execution_report b None c) groups x \<and>
    is_blocked (unblock_account (record_mutation_failure b acc FailureGlobal) y) groups x"
proof -
  let ?g = "record_mutation_failure b acc FailureGlobal"
  have g: "?g = block_all_with_cause b new_mutation_finalizer_block"
    by (simp add: record_mutation_failure_def)
  have "spec_global (abs_blocks (unblock_account ?g y)) \<noteq> None"
    using assms by (simp add: g unblock_account_abs block_all_with_cause_abs split: option.splits)
  moreover have "flags_ok (unblock_account ?g y)"
    using assms by (simp add: g flags_ok_block flags_ok_unblock)
  ultimately have "is_blocked (unblock_account ?g y) groups x" by (rule global_blocks_everyone)
  moreover have "is_blocked (record_mutation_failure b None sc) groups x"
    by (cases sc) (simp_all add: record_mutation_failure_def block_all_blocks assms)
  ultimately show ?thesis using registry.latch_blocks [OF assms] block_all_blocks [OF assms] g
    by (simp add: record_mutation_failure_def record_execution_report_def record_pre_trade_def)
qed

text \<open>
  Deferring the account operations of a drop-copy evaluation is invisible to the registry
  until they are applied, and applying them then has exactly the effect of having issued them
  immediately in the same order.
\<close>

lemma deferral_is_equivalent:
  "\<exists>d. control_run ops (Some deferred_default, b) = (Some d, b) \<and>
     snd (deferred_apply d b) = snd (control_run ops (None, b))"
  using control_run_deferred [of deferred_default ops b]
  by (auto simp: deferred_default_def deferred_apply_def control_run_immediate)

end
