(* ===== verification/Policy_Interface.thy ===== *)
theory Policy_Interface
  imports Account_Control
begin

text \<open>
  What the policies see: the request accessors (\<open>crates/openpit/src/core/request_trait.rs\<close>,
  \<open>core/instrument.rs\<close>), the read side of the pre-trade context
  (\<open>pretrade/context.rs\<close>), the reject builders of \<open>pretrade/policy.rs\<close> and the
  refusals of account retirement (\<open>core/account_retirement.rs\<close>).

  An order is the tuple of what its accessors return; an accessor can fail. A policy that reads an
  order without keeping state is the interface \<open>stateless_check\<close>.
\<close>

section \<open>Requests\<close>

record request_field_access_error =
  fe_field :: string

definition field_error_text :: "request_field_access_error \<Rightarrow> text_pieces" where
  "field_error_text e = [Lit (''failed to access field '' @ [CHR 0x27] @ fe_field e @ [CHR 0x27])]"

record instrument =
  underlying_asset :: asset
  settlement_asset :: asset

record order =
  ord_account_id :: "request_field_access_error + account_id"
  ord_instrument :: "request_field_access_error + instrument"
  ord_trade_amount :: "request_field_access_error + trade_amount"
  ord_price :: "request_field_access_error + price option"
  ord_side :: "request_field_access_error + side"

record pre_trade_context =
  ctx_account :: "request_field_access_error + account_id"
  ctx_drop_copy :: bool

definition known_account :: "pre_trade_context \<Rightarrow> account_id option" where
  "known_account ctx = (case ctx_account ctx of Inr a \<Rightarrow> Some a | Inl _ \<Rightarrow> None)"

definition drop_copy_account_id :: "pre_trade_context \<Rightarrow> account_id option" where
  "drop_copy_account_id ctx = (if ctx_drop_copy ctx then known_account ctx else None)"

section \<open>Reject builders\<close>

definition quoted_field :: "string \<Rightarrow> string \<Rightarrow> string" where
  "quoted_field prefix field_name = prefix @ [CHR 0x27] @ field_name @ [CHR 0x27]"

definition missing_required_field_reject ::
  "string \<Rightarrow> string \<Rightarrow> request_field_access_error \<Rightarrow> reject" where
  "missing_required_field_reject policy field_name error =
     reject_new policy ScopeOrder MissingRequiredField
       (quoted_field ''failed to access required field '' field_name) (field_error_text error)"

definition missing_required_field_account_adjustment_reject ::
  "string \<Rightarrow> string \<Rightarrow> request_field_access_error \<Rightarrow> reject" where
  "missing_required_field_account_adjustment_reject policy field_name error =
     reject_new policy ScopeAccount MissingRequiredField
       (quoted_field ''failed to access required field '' field_name) (field_error_text error)"

definition field_access_error_account_adjustment_reject ::
  "string \<Rightarrow> string \<Rightarrow> request_field_access_error \<Rightarrow> reject" where
  "field_access_error_account_adjustment_reject policy field_name error =
     reject_new policy ScopeAccount InvalidFieldFormat
       (quoted_field ''failed to access field '' field_name) (field_error_text error)"

definition missing_required_field_account_block ::
  "string \<Rightarrow> string \<Rightarrow> request_field_access_error \<Rightarrow> account_block" where
  "missing_required_field_account_block policy field_name error =
     account_block_new policy MissingRequiredField
       (quoted_field ''failed to access required field '' field_name) (field_error_text error)"

definition read_field ::
  "string \<Rightarrow> string \<Rightarrow> request_field_access_error + 'a \<Rightarrow> rejects + 'a" where
  "read_field policy field_name v =
     map_err (\<lambda>e. rejects_new [missing_required_field_reject policy field_name e]) v"

section \<open>Retirement refusals\<close>

datatype account_retirement_refusal = ConfigurationReferencesAccount | NonZeroState
  | OperationInProgress | EvaluationFailed

record account_retirement_policy_refusal =
  arp_policy :: string
  arp_refusal :: account_retirement_refusal

datatype account_retirement_error = Refused "account_retirement_policy_refusal list"
  | FinalizerFailed

section \<open>Checks that keep no state\<close>

text \<open>
  A start-stage check that is a function of the request, lets historical orders pass and only ever
  rejects the order: it never blocks an account, so the engine's account latch is not reached.
\<close>

definition order_scoped :: "rejects + 'a \<Rightarrow> bool" where
  "order_scoped r =
     (case r of Inr _ \<Rightarrow> True
      | Inl rs \<Rightarrow> rejects_vec rs \<noteq> [] \<and> list_all (\<lambda>x. rj_scope x = ScopeOrder) (rejects_vec rs))"

locale stateless_check =
  fixes check :: "pre_trade_context \<Rightarrow> order \<Rightarrow> rejects + unit"
  assumes check_order_scoped: "order_scoped (check ctx ord)"
    and check_skips_drop_copy: "ctx_drop_copy ctx \<Longrightarrow> check ctx ord = Inr ()"
begin

lemma reject_nonempty: "check ctx ord = Inl rs \<Longrightarrow> rejects_vec rs \<noteq> []"
  using check_order_scoped [of ctx ord] by (simp add: order_scoped_def)

lemma never_blocks: "check ctx ord = Inl rs \<Longrightarrow> x \<in> set (rejects_vec rs) \<Longrightarrow> rj_scope x = ScopeOrder"
  using check_order_scoped [of ctx ord] by (auto simp: order_scoped_def list_all_iff)

lemma live_if_rejected: "check ctx ord = Inl rs \<Longrightarrow> \<not> ctx_drop_copy ctx"
  using check_skips_drop_copy by fastforce

end

lemma order_scoped_simps [simp]:
  "order_scoped (Inr x)"
  "order_scoped (Inl (rejects_new rs)) \<longleftrightarrow> rs \<noteq> [] \<and> list_all (\<lambda>x. rj_scope x = ScopeOrder) rs"
  by (simp_all add: order_scoped_def)

lemma order_scoped_bind:
  "order_scoped m \<Longrightarrow> (\<And>x. m = Inr x \<Longrightarrow> order_scoped (f x)) \<Longrightarrow> order_scoped (bind_res m f)"
  by (cases m) (auto simp: order_scoped_def)

lemma order_scoped_read [simp]: "order_scoped (read_field policy field_name v)"
  by (cases v) (simp_all add: read_field_def missing_required_field_reject_def)

lemma read_field_Inr [simp]: "read_field policy field_name (Inr x) = Inr x"
  by (simp add: read_field_def)

end
