(* ===== verification/Market_Data.thy ===== *)
theory Market_Data
  imports Policy_Interface
begin

text \<open>
  The market-data service (\<open>crates/openpit/src/marketdata\<close>): the instrument registry with
  its automatic ids and slots (\<open>service.rs\<close>), the quote buckets and lifetime settings of a
  slot (\<open>internals.rs\<close>, \<open>quote.rs\<close>, \<open>ttl.rs\<close>, \<open>resolution.rs\<close>), the
  publications and the read with its eight-tier lifetime cascade, and the gate that lets a read
  skip the service-level tiers (\<open>lock.rs\<close>).

  Every lock is held for one critical section of the code, which is one definition here; an
  operation that takes a lock twice is the sequence of its sections, and \<open>md_step\<close> interleaves
  the sections of any number of threads. Arithmetic on ids and slot numbers wraps, as the release
  build does. The callback \<open>AccountInfo::group\<close> is a state transformer: it may answer
  differently each time it is called.
\<close>

section \<open>Quotes and lifetimes\<close>

record quote =
  q_mark :: "price option"
  q_bid :: "price option"
  q_ask :: "price option"

definition quote_new :: quote where
  "quote_new = \<lparr>q_mark = None, q_bid = None, q_ask = None\<rparr>"

definition with_mark :: "quote \<Rightarrow> price \<Rightarrow> quote" where
  "with_mark self mark = self\<lparr>q_mark := Some mark\<rparr>"

definition with_bid :: "quote \<Rightarrow> price \<Rightarrow> quote" where
  "with_bid self bid = self\<lparr>q_bid := Some bid\<rparr>"

definition with_ask :: "quote \<Rightarrow> price \<Rightarrow> quote" where
  "with_ask self ask = self\<lparr>q_ask := Some ask\<rparr>"

datatype quote_ttl = QuoteTtl_Infinite | QuoteTtl_Within duration

fun quote_ttl_as_duration :: "quote_ttl \<Rightarrow> duration option" where
  "quote_ttl_as_duration QuoteTtl_Infinite = None"
| "quote_ttl_as_duration (QuoteTtl_Within d) = Some d"

datatype ttl_setting = TtlSetting_Infinite | TtlSetting_Finite duration

fun from_quote_ttl :: "quote_ttl \<Rightarrow> ttl_setting" where
  "from_quote_ttl QuoteTtl_Infinite = TtlSetting_Infinite"
| "from_quote_ttl (QuoteTtl_Within d) = TtlSetting_Finite d"

fun ttl_as_duration :: "ttl_setting \<Rightarrow> duration option" where
  "ttl_as_duration TtlSetting_Infinite = None"
| "ttl_as_duration (TtlSetting_Finite d) = Some d"

section \<open>Slots\<close>

record quote_state =
  qs_quote :: quote
  qs_pushed_at :: instant
  qs_source_age :: duration

record slot_quotes =
  sq_accounts :: "(account_id, quote_state) hash_map"
  sq_groups :: "(account_group_id, quote_state) hash_map"

record slot_ttls =
  st_accounts :: "(account_id, ttl_setting) hash_map"
  st_groups :: "(account_group_id, ttl_setting) hash_map"
  st_instrument :: "ttl_setting option"

record slot_state =
  ss_quotes :: slot_quotes
  ss_ttls :: slot_ttls

definition slot_quotes_new :: slot_quotes where
  "slot_quotes_new = \<lparr>sq_accounts = [], sq_groups = []\<rparr>"

definition slot_ttls_new :: "ttl_setting option \<Rightarrow> slot_ttls" where
  "slot_ttls_new i = \<lparr>st_accounts = [], st_groups = [], st_instrument = i\<rparr>"

definition slot_new :: "ttl_setting option \<Rightarrow> slot_state" where
  "slot_new instrument_ttl = \<lparr>ss_quotes = slot_quotes_new, ss_ttls = slot_ttls_new instrument_ttl\<rparr>"

datatype quote_resolution = AccountOnly | AccountThenGroup | AccountThenGroupThenDefault

section \<open>Errors\<close>

type_synonym instrument_id = u64

datatype market_data_error = UnknownInstrument | QuoteUnavailable | QuoteExpired quote

datatype unknown_instrument_id = UnknownInstrumentId instrument_id

datatype already_registered = NameAlreadyRegistered instrument

datatype registration_error = DuplicateId instrument_id | DuplicateInstrument instrument

datatype push_for_error = PushFor_UnknownInstrument instrument_id | NoTarget

section \<open>The registry\<close>

record instrument_registry =
  by_id :: "(instrument_id, u32) hash_map"
  by_instrument :: "(instrument, instrument_id) hash_map"
  next_auto :: u64
  next_slot :: u32

definition registry_new :: instrument_registry where
  "registry_new = \<lparr>by_id = [], by_instrument = [], next_auto = 0, next_slot = 0\<rparr>"

definition alloc_slot :: "instrument_registry \<Rightarrow> instrument_registry \<times> u32" where
  "alloc_slot self = (self\<lparr>next_slot := next_slot self + 1\<rparr>, next_slot self)"

text \<open>
  The search for an unused id is a loop without a bound: it returns \<open>None\<close> here when it does
  not end. It answers the candidate found and the counter past it.
\<close>

partial_function (option) next_auto_id_loop ::
  "(instrument_id, 'v) hash_map \<Rightarrow> u64 \<Rightarrow> (instrument_id \<times> u64) option" where
  "next_auto_id_loop ids n =
     (if hm_get ids n = None then Some (n, n + 1) else next_auto_id_loop ids (n + 1))"

definition next_auto_id ::
  "instrument_registry \<Rightarrow> (instrument_registry \<times> instrument_id) option" where
  "next_auto_id self =
     map_option (\<lambda>(candidate, n). (self\<lparr>next_auto := n\<rparr>, candidate))
       (next_auto_id_loop (by_id self) (next_auto self))"

definition insert_id :: "instrument_registry \<Rightarrow> instrument_id \<Rightarrow> u32 \<Rightarrow> instrument_registry" where
  "insert_id self i slot =
     (let self = self\<lparr>by_id := hm_insert (by_id self) i slot\<rparr>
      in if next_auto self = i then self\<lparr>next_auto := next_auto self + 1\<rparr> else self)"

section \<open>The service\<close>

record market_data_service =
  md_default_ttl :: "duration option"
  md_account_ttl :: "(account_id, ttl_setting) hash_map"
  md_group_ttl :: "(account_group_id, ttl_setting) hash_map"
  md_registry :: instrument_registry
  md_slots :: "slot_state list"
  md_has_service_level_ttl :: bool

definition market_data_build :: "quote_ttl \<Rightarrow> market_data_service" where
  "market_data_build default_ttl =
     \<lparr>md_default_ttl = quote_ttl_as_duration default_ttl, md_account_ttl = [], md_group_ttl = [],
      md_registry = registry_new, md_slots = [], md_has_service_level_ttl = False\<rparr>"

definition ensure_slot_storage ::
  "market_data_service \<Rightarrow> ttl_setting option \<Rightarrow> market_data_service" where
  "ensure_slot_storage self instrument_ttl =
     self\<lparr>md_slots := md_slots self @ [slot_new instrument_ttl]\<rparr>"

text \<open>The part of a registration that gives a new name an id and a slot.\<close>

definition add_instrument ::
  "market_data_service \<Rightarrow> instrument_registry \<Rightarrow> instrument \<Rightarrow> instrument_id \<Rightarrow>
   ttl_setting option \<Rightarrow> market_data_service \<times> u32" where
  "add_instrument self reg i new_id instrument_ttl =
     (let (reg, slot_idx) = alloc_slot reg;
          reg = reg\<lparr>by_instrument := hm_insert (by_instrument reg) i new_id\<rparr>;
          reg = insert_id reg new_id slot_idx
      in (ensure_slot_storage (self\<lparr>md_registry := reg\<rparr>) instrument_ttl, slot_idx))"

definition register_locked ::
  "market_data_service \<Rightarrow> instrument \<Rightarrow> ttl_setting option \<Rightarrow>
   (market_data_service \<times> (already_registered + instrument_id)) option" where
  "register_locked self i instrument_ttl =
     (if hm_get (by_instrument (md_registry self)) i \<noteq> None
      then Some (self, Inl (NameAlreadyRegistered i))
      else map_option (\<lambda>(reg, new_id). (fst (add_instrument self reg i new_id instrument_ttl), Inr new_id))
             (next_auto_id (md_registry self)))"

definition register_inner ::
  "market_data_service \<Rightarrow> instrument \<Rightarrow> ttl_setting option \<Rightarrow>
   (market_data_service \<times> (already_registered + instrument_id)) option" where
  "register_inner self i instrument_ttl =
     (if hm_get (by_instrument (md_registry self)) i \<noteq> None
      then Some (self, Inl (NameAlreadyRegistered i))
      else register_locked self i instrument_ttl)"

definition md_register ::
  "market_data_service \<Rightarrow> instrument \<Rightarrow>
   (market_data_service \<times> (already_registered + instrument_id)) option" where
  "md_register self i = register_inner self i None"

definition register_with_ttl ::
  "market_data_service \<Rightarrow> instrument \<Rightarrow> quote_ttl \<Rightarrow>
   (market_data_service \<times> (already_registered + instrument_id)) option" where
  "register_with_ttl self i ttl = register_inner self i (Some (from_quote_ttl ttl))"

definition register_with_id_inner ::
  "market_data_service \<Rightarrow> instrument \<Rightarrow> instrument_id \<Rightarrow> ttl_setting option \<Rightarrow>
   market_data_service \<times> (registration_error + instrument_id)" where
  "register_with_id_inner self i new_id instrument_ttl =
     (if hm_get (by_instrument (md_registry self)) i \<noteq> None
      then (self, Inl (DuplicateInstrument i))
      else if hm_get (by_id (md_registry self)) new_id \<noteq> None
      then (self, Inl (DuplicateId new_id))
      else (fst (add_instrument self (md_registry self) i new_id instrument_ttl), Inr new_id))"

definition register_with_id ::
  "market_data_service \<Rightarrow> instrument \<Rightarrow> instrument_id \<Rightarrow>
   market_data_service \<times> (registration_error + instrument_id)" where
  "register_with_id self i new_id = register_with_id_inner self i new_id None"

definition register_with_id_and_ttl ::
  "market_data_service \<Rightarrow> instrument \<Rightarrow> instrument_id \<Rightarrow> quote_ttl \<Rightarrow>
   market_data_service \<times> (registration_error + instrument_id)" where
  "register_with_id_and_ttl self i new_id ttl =
     register_with_id_inner self i new_id (Some (from_quote_ttl ttl))"

subsection \<open>Lifetime settings\<close>

definition account_ttl_insert ::
  "market_data_service \<Rightarrow> account_id \<Rightarrow> quote_ttl \<Rightarrow> market_data_service" where
  "account_ttl_insert self account ttl =
     self\<lparr>md_account_ttl := hm_insert (md_account_ttl self) account (from_quote_ttl ttl)\<rparr>"

definition group_ttl_insert ::
  "market_data_service \<Rightarrow> account_group_id \<Rightarrow> quote_ttl \<Rightarrow> market_data_service" where
  "group_ttl_insert self g ttl =
     self\<lparr>md_group_ttl := hm_insert (md_group_ttl self) g (from_quote_ttl ttl)\<rparr>"

definition mark_present :: "market_data_service \<Rightarrow> market_data_service" where
  "mark_present self = self\<lparr>md_has_service_level_ttl := True\<rparr>"

definition set_account_ttl ::
  "market_data_service \<Rightarrow> account_id \<Rightarrow> quote_ttl \<Rightarrow> market_data_service" where
  "set_account_ttl self account ttl = mark_present (account_ttl_insert self account ttl)"

definition clear_account_ttl :: "market_data_service \<Rightarrow> account_id \<Rightarrow> market_data_service" where
  "clear_account_ttl self account =
     self\<lparr>md_account_ttl := hm_remove (md_account_ttl self) account\<rparr>"

definition set_account_group_ttl ::
  "market_data_service \<Rightarrow> account_group_id \<Rightarrow> quote_ttl \<Rightarrow> market_data_service" where
  "set_account_group_ttl self g ttl = mark_present (group_ttl_insert self g ttl)"

definition clear_account_group_ttl ::
  "market_data_service \<Rightarrow> account_group_id \<Rightarrow> market_data_service" where
  "clear_account_group_ttl self g = self\<lparr>md_group_ttl := hm_remove (md_group_ttl self) g\<rparr>"

definition with_slot :: "market_data_service \<Rightarrow> u32 \<Rightarrow> (slot_state \<Rightarrow> slot_state) \<Rightarrow> market_data_service" where
  "with_slot self slot_idx f =
     (if unat slot_idx < length (md_slots self)
      then self\<lparr>md_slots := (md_slots self)[unat slot_idx := f (md_slots self ! unat slot_idx)]\<rparr>
      else self)"

definition slot_for_id ::
  "market_data_service \<Rightarrow> instrument_id \<Rightarrow> unknown_instrument_id + u32" where
  "slot_for_id self i = ok_or (hm_get (by_id (md_registry self)) i) (UnknownInstrumentId i)"

definition with_slot_ttls ::
  "market_data_service \<Rightarrow> instrument_id \<Rightarrow> (slot_ttls \<Rightarrow> slot_ttls) \<Rightarrow>
   market_data_service \<times> (unknown_instrument_id + unit)" where
  "with_slot_ttls self i mutate =
     (case slot_for_id self i of
        Inl e \<Rightarrow> (self, Inl e)
      | Inr slot_idx \<Rightarrow> (with_slot self slot_idx (ss_ttls_update mutate), Inr ()))"

definition set_instrument_ttl ::
  "market_data_service \<Rightarrow> instrument_id \<Rightarrow> quote_ttl \<Rightarrow>
   market_data_service \<times> (unknown_instrument_id + unit)" where
  "set_instrument_ttl self i ttl =
     with_slot_ttls self i (\<lambda>ttls. ttls\<lparr>st_instrument := Some (from_quote_ttl ttl)\<rparr>)"

definition clear_instrument_ttl ::
  "market_data_service \<Rightarrow> instrument_id \<Rightarrow> market_data_service \<times> (unknown_instrument_id + unit)" where
  "clear_instrument_ttl self i = with_slot_ttls self i (\<lambda>ttls. ttls\<lparr>st_instrument := None\<rparr>)"

definition set_instrument_account_ttl ::
  "market_data_service \<Rightarrow> instrument_id \<Rightarrow> account_id \<Rightarrow> quote_ttl \<Rightarrow>
   market_data_service \<times> (unknown_instrument_id + unit)" where
  "set_instrument_account_ttl self i account ttl =
     with_slot_ttls self i
       (\<lambda>ttls. ttls\<lparr>st_accounts := hm_insert (st_accounts ttls) account (from_quote_ttl ttl)\<rparr>)"

definition clear_instrument_account_ttl ::
  "market_data_service \<Rightarrow> instrument_id \<Rightarrow> account_id \<Rightarrow>
   market_data_service \<times> (unknown_instrument_id + unit)" where
  "clear_instrument_account_ttl self i account =
     with_slot_ttls self i (\<lambda>ttls. ttls\<lparr>st_accounts := hm_remove (st_accounts ttls) account\<rparr>)"

definition set_instrument_account_group_ttl ::
  "market_data_service \<Rightarrow> instrument_id \<Rightarrow> account_group_id \<Rightarrow> quote_ttl \<Rightarrow>
   market_data_service \<times> (unknown_instrument_id + unit)" where
  "set_instrument_account_group_ttl self i g ttl =
     with_slot_ttls self i
       (\<lambda>ttls. ttls\<lparr>st_groups := hm_insert (st_groups ttls) g (from_quote_ttl ttl)\<rparr>)"

definition clear_instrument_account_group_ttl ::
  "market_data_service \<Rightarrow> instrument_id \<Rightarrow> account_group_id \<Rightarrow>
   market_data_service \<times> (unknown_instrument_id + unit)" where
  "clear_instrument_account_group_ttl self i g =
     with_slot_ttls self i (\<lambda>ttls. ttls\<lparr>st_groups := hm_remove (st_groups ttls) g\<rparr>)"

subsection \<open>Publications\<close>

definition md_clear :: "market_data_service \<Rightarrow> instrument_id \<Rightarrow> market_data_service" where
  "md_clear self i =
     (case hm_get (by_id (md_registry self)) i of
        None \<Rightarrow> self
      | Some slot_idx \<Rightarrow>
          with_slot self slot_idx
            (ss_quotes_update (\<lambda>q. q\<lparr>sq_accounts := [], sq_groups := []\<rparr>)))"

definition store_into ::
  "('k, quote_state) hash_map \<Rightarrow> 'k \<Rightarrow> instant \<Rightarrow> quote \<Rightarrow> duration \<Rightarrow> ('k, quote_state) hash_map" where
  "store_into m key now q source_age =
     hm_insert m key \<lparr>qs_quote = q, qs_pushed_at = now, qs_source_age = source_age\<rparr>"

definition store_default_at ::
  "market_data_service \<Rightarrow> u32 \<Rightarrow> instant \<Rightarrow> quote \<Rightarrow> duration \<Rightarrow> market_data_service" where
  "store_default_at self slot_idx now q source_age =
     with_slot self slot_idx
       (ss_quotes_update (sq_groups_update (\<lambda>m. store_into m DEFAULT_ACCOUNT_GROUP now q source_age)))"

definition store_default_by_id ::
  "market_data_service \<Rightarrow> instant \<Rightarrow> instrument_id \<Rightarrow> quote \<Rightarrow> duration \<Rightarrow>
   market_data_service \<times> (unknown_instrument_id + unit)" where
  "store_default_by_id self now i q source_age =
     (case slot_for_id self i of
        Inl e \<Rightarrow> (self, Inl e)
      | Inr slot_idx \<Rightarrow> (store_default_at self slot_idx now q source_age, Inr ()))"

definition md_push ::
  "market_data_service \<Rightarrow> instant \<Rightarrow> instrument_id \<Rightarrow> quote \<Rightarrow> duration \<Rightarrow>
   market_data_service \<times> (unknown_instrument_id + unit)" where
  "md_push self now i q source_age = store_default_by_id self now i q source_age"

fun store_all ::
  "('k, quote_state) hash_map \<Rightarrow> 'k list \<Rightarrow> instant \<Rightarrow> quote \<Rightarrow> duration \<Rightarrow> ('k, quote_state) hash_map" where
  "store_all m [] now q source_age = m"
| "store_all m (k # ks) now q source_age = store_all (store_into m k now q source_age) ks now q source_age"

definition store_for ::
  "market_data_service \<Rightarrow> instant \<Rightarrow> instrument_id \<Rightarrow> quote \<Rightarrow> duration \<Rightarrow> account_id list \<Rightarrow>
   account_group_id list \<Rightarrow> market_data_service \<times> (push_for_error + unit)" where
  "store_for self now i q source_age account_ids account_group_ids =
     (if account_ids = [] \<and> account_group_ids = [] then (self, Inl NoTarget)
      else case hm_get (by_id (md_registry self)) i of
        None \<Rightarrow> (self, Inl (PushFor_UnknownInstrument i))
      | Some slot_idx \<Rightarrow>
          (with_slot self slot_idx
             (ss_quotes_update (\<lambda>s.
                s\<lparr>sq_accounts := store_all (sq_accounts s) account_ids now q source_age,
                  sq_groups := store_all (sq_groups s) account_group_ids now q source_age\<rparr>)),
           Inr ()))"

definition push_for ::
  "market_data_service \<Rightarrow> instant \<Rightarrow> instrument_id \<Rightarrow> quote \<Rightarrow> duration \<Rightarrow> account_id list \<Rightarrow>
   account_group_id list \<Rightarrow> market_data_service \<times> (push_for_error + unit)" where
  "push_for self now i q source_age account_ids account_group_ids =
     store_for self now i q source_age account_ids account_group_ids"

text \<open>
  \<open>by_id[&id]\<close> panics on a missing key: the panic is the result \<open>None\<close>, as is a search for
  an id that does not end.
\<close>

definition named_slot ::
  "market_data_service \<Rightarrow> instrument_id \<Rightarrow> (instrument_id \<times> u32) option" where
  "named_slot self i = map_option (\<lambda>slot_idx. (i, slot_idx)) (hm_get (by_id (md_registry self)) i)"

definition resolve_or_register_slow ::
  "market_data_service \<Rightarrow> instrument \<Rightarrow> (market_data_service \<times> instrument_id \<times> u32) option" where
  "resolve_or_register_slow self i =
     (case hm_get (by_instrument (md_registry self)) i of
        Some known \<Rightarrow> map_option (Pair self) (named_slot self known)
      | None \<Rightarrow>
          map_option (\<lambda>(reg, new_id).
              let (self, slot_idx) = add_instrument self reg i new_id None
              in (self, new_id, slot_idx))
            (next_auto_id (md_registry self)))"

definition resolve_or_register_named ::
  "market_data_service \<Rightarrow> instrument \<Rightarrow> (market_data_service \<times> instrument_id \<times> u32) option" where
  "resolve_or_register_named self i =
     (case hm_get (by_instrument (md_registry self)) i of
        Some known \<Rightarrow> map_option (Pair self) (named_slot self known)
      | None \<Rightarrow> resolve_or_register_slow self i)"

definition push_by_instrument ::
  "market_data_service \<Rightarrow> instant \<Rightarrow> instrument \<Rightarrow> quote \<Rightarrow> duration \<Rightarrow>
   (market_data_service \<times> instrument_id) option" where
  "push_by_instrument self now i q source_age =
     map_option (\<lambda>(self, known, slot_idx). (store_default_at self slot_idx now q source_age, known))
       (resolve_or_register_named self i)"

subsection \<open>Reads\<close>

type_synonym 'w account_info = "'w \<Rightarrow> account_group_id option \<times> 'w"

type_synonym group_cell = "account_group_id option option"

definition resolve_group ::
  "'w account_info \<Rightarrow> group_cell \<Rightarrow> 'w \<Rightarrow> account_group_id option \<times> group_cell \<times> 'w" where
  "resolve_group info cell w =
     (case cell of
        Some g \<Rightarrow> (g, cell, w)
      | None \<Rightarrow> (let (g, w) = info w in (g, Some g, w)))"

definition select_quote ::
  "slot_quotes \<Rightarrow> account_id \<Rightarrow> 'w account_info \<Rightarrow> quote_resolution \<Rightarrow> group_cell \<Rightarrow> 'w \<Rightarrow>
   quote_state option \<times> group_cell \<times> 'w" where
  "select_quote quotes account info resolution cell w =
     (case hm_get (sq_accounts quotes) account of
        Some state \<Rightarrow> (Some state, cell, w)
      | None \<Rightarrow>
          (case resolution of
             AccountOnly \<Rightarrow> (None, cell, w)
           | AccountThenGroup \<Rightarrow>
               (let (g, cell, w) = resolve_group info cell w
                in (Option.bind g (hm_get (sq_groups quotes)), cell, w))
           | AccountThenGroupThenDefault \<Rightarrow>
               (let (g, cell, w) = resolve_group info cell w
                in case Option.bind g (hm_get (sq_groups quotes)) of
                     Some state \<Rightarrow> (Some state, cell, w)
                   | None \<Rightarrow> (hm_get (sq_groups quotes) DEFAULT_ACCOUNT_GROUP, cell, w))))"

text \<open>The tiers of one group axis: the account's group, then the default group.\<close>

definition group_tiers ::
  "(account_group_id, ttl_setting) hash_map \<Rightarrow> account_group_id option \<Rightarrow> ttl_setting option" where
  "group_tiers m g =
     (case Option.bind g (hm_get m) of Some s \<Rightarrow> Some s | None \<Rightarrow> hm_get m DEFAULT_ACCOUNT_GROUP)"

definition effective_ttl ::
  "market_data_service \<Rightarrow> slot_ttls \<Rightarrow> account_id \<Rightarrow> 'w account_info \<Rightarrow> group_cell \<Rightarrow> 'w \<Rightarrow>
   duration option \<times> group_cell \<times> 'w" where
  "effective_ttl self ttls account info cell w =
     (case hm_get (st_accounts ttls) account of
        Some setting \<Rightarrow> (ttl_as_duration setting, cell, w)
      | None \<Rightarrow>
          (let (g, cell, w) = resolve_group info cell w
           in case group_tiers (st_groups ttls) g of
                Some setting \<Rightarrow> (ttl_as_duration setting, cell, w)
              | None \<Rightarrow>
                  (let (service, cell, w) =
                     (if md_has_service_level_ttl self
                      then case hm_get (md_account_ttl self) account of
                             Some setting \<Rightarrow> (Some setting, cell, w)
                           | None \<Rightarrow>
                               (let (g, cell, w) = resolve_group info cell w
                                in (group_tiers (md_group_ttl self) g, cell, w))
                      else (None, cell, w))
                   in case service of
                        Some setting \<Rightarrow> (ttl_as_duration setting, cell, w)
                      | None \<Rightarrow>
                          (case st_instrument ttls of
                             Some setting \<Rightarrow> (ttl_as_duration setting, cell, w)
                           | None \<Rightarrow> (md_default_ttl self, cell, w)))))"

definition DURATION_MAX :: duration where
  "DURATION_MAX = (2 ^ 64 - 1) * 1000000000 + 999999999"

definition effective_age :: "instant \<Rightarrow> quote_state \<Rightarrow> duration" where
  "effective_age now s = min DURATION_MAX (min DURATION_MAX (now - qs_pushed_at s) + qs_source_age s)"

definition md_get ::
  "market_data_service \<Rightarrow> instant \<Rightarrow> instrument_id \<Rightarrow> account_id \<Rightarrow> 'w account_info \<Rightarrow> quote_resolution \<Rightarrow>
   'w \<Rightarrow> (market_data_error + quote) \<times> 'w" where
  "md_get self now i account info resolution w =
     (case hm_get (by_id (md_registry self)) i of
        None \<Rightarrow> (Inl UnknownInstrument, w)
      | Some slot_idx \<Rightarrow>
          if length (md_slots self) \<le> unat slot_idx then (Inl QuoteUnavailable, w)
          else let state = md_slots self ! unat slot_idx;
                   (selected, cell, w) = select_quote (ss_quotes state) account info resolution None w
               in case selected of
                    None \<Rightarrow> (Inl QuoteUnavailable, w)
                  | Some s \<Rightarrow>
                      (let (ttl, cell, w) = effective_ttl self (ss_ttls state) account info cell w
                       in case ttl of
                            Some d \<Rightarrow>
                              if d \<le> effective_age now s then (Inl (QuoteExpired (qs_quote s)), w)
                              else (Inr (qs_quote s), w)
                          | None \<Rightarrow> (Inr (qs_quote s), w)))"

definition md_resolve :: "market_data_service \<Rightarrow> instrument \<Rightarrow> instrument_id option" where
  "md_resolve self i = hm_get (by_instrument (md_registry self)) i"

section \<open>The critical sections of concurrent threads\<close>

text \<open>
  A state of the service together with the number of lifetime setters that have inserted their
  entry and not yet published the gate. The first two rules are the two sections of
  \<open>set_account_ttl\<close> and \<open>set_account_group_ttl\<close>.
\<close>

inductive md_step :: "market_data_service \<times> nat \<Rightarrow> market_data_service \<times> nat \<Rightarrow> bool" where
  insert_account: "md_step (s, n) (account_ttl_insert s account ttl, Suc n)"
| insert_group: "md_step (s, n) (group_ttl_insert s g ttl, Suc n)"
| publish_gate: "md_step (s, Suc n) (mark_present s, n)"
| unset_account: "md_step (s, n) (clear_account_ttl s account, n)"
| unset_group: "md_step (s, n) (clear_account_group_ttl s g, n)"
| registration: "register_locked s i ttl = Some (s', r) \<Longrightarrow> md_step (s, n) (s', n)"
| registration_with_id: "register_with_id_inner s i new_id ttl = (s', r) \<Longrightarrow> md_step (s, n) (s', n)"
| named_registration: "resolve_or_register_slow s i = Some (s', r) \<Longrightarrow> md_step (s, n) (s', n)"
| slot_write: "md_step (s, n) (with_slot s slot_idx f, n)"

inductive_simps md_step_iff: "md_step (s, n) (s', n')"

inductive md_reachable :: "quote_ttl \<Rightarrow> market_data_service \<times> nat \<Rightarrow> bool" for ttl where
  built: "md_reachable ttl (market_data_build ttl, 0)"
| stepped: "md_reachable ttl c \<Longrightarrow> md_step c c' \<Longrightarrow> md_reachable ttl c'"

section \<open>Specification\<close>

text \<open>
  The registry and the slots grow in step: the ids are in the order of their slots, and every name
  has the id of its slot.
\<close>

definition registry_wf :: "instrument_registry \<Rightarrow> nat \<Rightarrow> bool" where
  "registry_wf r n \<longleftrightarrow> hm_ok (by_id r) \<and> hm_ok (by_instrument r) \<and>
     map snd (by_instrument r) = map fst (by_id r) \<and>
     map (\<lambda>e. unat (snd e)) (by_id r) = [0..<n] \<and> next_slot r = of_nat n"

definition md_wf :: "market_data_service \<Rightarrow> bool" where
  "md_wf s \<longleftrightarrow> registry_wf (md_registry s) (length (md_slots s)) \<and> length (md_slots s) \<le> 2 ^ 32"

definition gate_ok :: "market_data_service \<Rightarrow> bool" where
  "gate_ok s \<longleftrightarrow> md_has_service_level_ttl s \<or> md_account_ttl s = [] \<and> md_group_ttl s = []"

definition first_set :: "'a option list \<Rightarrow> 'a option" where
  "first_set xs = (case dropWhile (\<lambda>x. x = None) xs of [] \<Rightarrow> None | x # _ \<Rightarrow> x)"

definition ttl_tiers ::
  "market_data_service \<Rightarrow> slot_ttls \<Rightarrow> account_id \<Rightarrow> account_group_id option \<Rightarrow> ttl_setting option list" where
  "ttl_tiers s ttls account g =
     [hm_get (st_accounts ttls) account,
      Option.bind g (hm_get (st_groups ttls)),
      hm_get (st_groups ttls) DEFAULT_ACCOUNT_GROUP,
      hm_get (md_account_ttl s) account,
      Option.bind g (hm_get (md_group_ttl s)),
      hm_get (md_group_ttl s) DEFAULT_ACCOUNT_GROUP,
      st_instrument ttls]"

definition ttl_spec ::
  "market_data_service \<Rightarrow> slot_ttls \<Rightarrow> account_id \<Rightarrow> account_group_id option \<Rightarrow> duration option" where
  "ttl_spec s ttls account g =
     (case first_set (ttl_tiers s ttls account g) of
        Some setting \<Rightarrow> ttl_as_duration setting | None \<Rightarrow> md_default_ttl s)"

fun quote_buckets ::
  "slot_quotes \<Rightarrow> account_id \<Rightarrow> account_group_id option \<Rightarrow> quote_resolution \<Rightarrow> quote_state option list" where
  "quote_buckets q account g AccountOnly = [hm_get (sq_accounts q) account]"
| "quote_buckets q account g AccountThenGroup =
     [hm_get (sq_accounts q) account, Option.bind g (hm_get (sq_groups q))]"
| "quote_buckets q account g AccountThenGroupThenDefault =
     [hm_get (sq_accounts q) account, Option.bind g (hm_get (sq_groups q)),
      hm_get (sq_groups q) DEFAULT_ACCOUNT_GROUP]"

definition freshness :: "duration option \<Rightarrow> instant \<Rightarrow> quote_state \<Rightarrow> market_data_error + quote" where
  "freshness ttl now s =
     (case ttl of
        Some d \<Rightarrow> if d \<le> effective_age now s then Inl (QuoteExpired (qs_quote s)) else Inr (qs_quote s)
      | None \<Rightarrow> Inr (qs_quote s))"

definition slot_of :: "market_data_service \<Rightarrow> instrument_id \<Rightarrow> slot_state option" where
  "slot_of s i = map_option (\<lambda>k. md_slots s ! unat k) (hm_get (by_id (md_registry s)) i)"

definition read_spec ::
  "market_data_service \<Rightarrow> instant \<Rightarrow> instrument_id \<Rightarrow> account_id \<Rightarrow> account_group_id option \<Rightarrow>
   quote_resolution \<Rightarrow> market_data_error + quote" where
  "read_spec s now i account g resolution =
     (case slot_of s i of
        None \<Rightarrow> Inl UnknownInstrument
      | Some slot \<Rightarrow>
          (case first_set (quote_buckets (ss_quotes slot) account g resolution) of
             None \<Rightarrow> Inl QuoteUnavailable
           | Some q \<Rightarrow> freshness (ttl_spec s (ss_ttls slot) account g) now q))"

section \<open>Lemmas\<close>

lemma first_set_simps [simp]:
  "first_set [] = None"
  "first_set (None # xs) = first_set xs"
  "first_set (Some x # xs) = Some x"
  by (simp_all add: first_set_def)

lemma first_set_Cons: "first_set (x # xs) = (case x of Some y \<Rightarrow> Some y | None \<Rightarrow> first_set xs)"
  by (cases x) simp_all

lemma group_tiers_first_set:
  "group_tiers m g = first_set [Option.bind g (hm_get m), hm_get m DEFAULT_ACCOUNT_GROUP]"
  by (simp add: group_tiers_def first_set_Cons split: option.splits)

subsection \<open>The search for an id\<close>

lemma auto_id_sound_pair:
  "next_auto_id_loop ids n = Some r \<Longrightarrow> hm_get ids (fst r) = None \<and> snd r = fst r + 1"
  by (erule next_auto_id_loop.raw_induct
      [where P = "\<lambda>ids n r. hm_get ids (fst r) = None \<and> snd r = fst r + 1", rotated])
    (auto split: if_splits)

lemma auto_id_sound:
  "next_auto_id_loop ids n = Some (c, m) \<Longrightarrow> hm_get ids c = None \<and> m = c + 1"
  by (drule auto_id_sound_pair) simp

lemma auto_id_ends_at: "hm_get ids (n + of_nat k) = None \<Longrightarrow> \<exists>r. next_auto_id_loop ids n = Some r"
proof (induction k arbitrary: n)
  case 0
  then show ?case by (subst next_auto_id_loop.simps) simp
next
  case (Suc k)
  have "hm_get ids ((n + 1) + of_nat k) = None" using Suc.prems by (simp add: add.assoc)
  from Suc.IH [OF this] show ?case by (subst next_auto_id_loop.simps) simp
qed

lemma free_id_exists:
  fixes n :: u64
  assumes "length ids < 2 ^ 64"
  shows "\<exists>k. hm_get ids (n + of_nat k) = None"
proof (rule ccontr)
  assume "\<nexists>k. hm_get ids (n + of_nat k) = None"
  then have used: "m \<in> set (hm_keys ids)" for m
  proof -
    have "n + of_nat (unat (m - n)) = m" by simp
    with \<open>\<nexists>k. hm_get ids (n + of_nat k) = None\<close> have "hm_get ids m \<noteq> None" by metis
    then show ?thesis unfolding hm_keys_iff .
  qed
  have "card (UNIV :: u64 set) \<le> card (set (hm_keys ids))"
    using used by (intro card_mono) auto
  also have "\<dots> \<le> length ids" using card_length [of "hm_keys ids"] by simp
  finally show False using assms by (simp add: card_word)
qed

lemma auto_id_ends: "length ids < 2 ^ 64 \<Longrightarrow> \<exists>c. next_auto_id_loop ids n = Some (c, c + 1)"
proof -
  assume "length ids < 2 ^ 64"
  then obtain r where r: "next_auto_id_loop ids n = Some r"
    using free_id_exists auto_id_ends_at by meson
  moreover have "snd r = fst r + 1" using auto_id_sound [of ids n "fst r" "snd r"] r by simp
  ultimately show ?thesis by (intro exI [of _ "fst r"]) (simp flip: \<open>snd r = fst r + 1\<close>)
qed

lemma next_auto_id_fresh:
  "next_auto_id r = Some (r', c) \<Longrightarrow> hm_get (by_id r) c = None \<and> (\<exists>n. r' = r\<lparr>next_auto := n\<rparr>)"
  by (auto simp: next_auto_id_def dest: auto_id_sound)

subsection \<open>Registrations\<close>

lemma fresh_update_append: "hm_get m k = None \<Longrightarrow> hm_insert m k v = m @ [(k, v)]"
  by (induction m) auto

lemma registry_wf_counter [simp]: "registry_wf (r\<lparr>next_auto := n\<rparr>) k = registry_wf r k"
  by (simp add: registry_wf_def)

lemma add_instrument_registry:
  assumes wf: "registry_wf r n" and n: "n < 2 ^ 32"
    and fresh: "hm_get (by_id r) c = None" "hm_get (by_instrument r) i = None"
  shows "registry_wf (md_registry (fst (add_instrument s r i c ttl))) (Suc n)"
    and "by_id (md_registry (fst (add_instrument s r i c ttl))) = by_id r @ [(c, of_nat n)]"
    and "by_instrument (md_registry (fst (add_instrument s r i c ttl))) = by_instrument r @ [(i, c)]"
proof -
  have [simp]: "unat (of_nat n :: u32) = n"
    using n by (simp add: unat_of_nat)
  show ids: "by_id (md_registry (fst (add_instrument s r i c ttl))) = by_id r @ [(c, of_nat n)]"
    and names: "by_instrument (md_registry (fst (add_instrument s r i c ttl))) = by_instrument r @ [(i, c)]"
    using wf fresh
    by (simp_all add: add_instrument_def alloc_slot_def insert_id_def ensure_slot_storage_def
        Let_def fresh_update_append registry_wf_def)
  have "next_slot (md_registry (fst (add_instrument s r i c ttl))) = of_nat (Suc n)"
    using wf by (simp add: add_instrument_def alloc_slot_def insert_id_def ensure_slot_storage_def
        Let_def registry_wf_def add.commute)
  then show "registry_wf (md_registry (fst (add_instrument s r i c ttl))) (Suc n)"
    using wf fresh by (simp add: registry_wf_def ids names hm_ok_def map_of_eq_None_iff)
qed

lemma add_instrument_slots [simp]:
  "md_slots (fst (add_instrument s r i c ttl)) = md_slots s @ [slot_new ttl]"
  "md_has_service_level_ttl (fst (add_instrument s r i c ttl)) = md_has_service_level_ttl s"
  "md_account_ttl (fst (add_instrument s r i c ttl)) = md_account_ttl s"
  "md_group_ttl (fst (add_instrument s r i c ttl)) = md_group_ttl s"
  "md_default_ttl (fst (add_instrument s r i c ttl)) = md_default_ttl s"
  "snd (add_instrument s r i c ttl) = next_slot r"
  by (simp_all add: add_instrument_def ensure_slot_storage_def alloc_slot_def Let_def)

lemma with_slot_keeps [simp]:
  "length (md_slots (with_slot s k f)) = length (md_slots s)"
  "md_registry (with_slot s k f) = md_registry s"
  "md_has_service_level_ttl (with_slot s k f) = md_has_service_level_ttl s"
  "md_account_ttl (with_slot s k f) = md_account_ttl s"
  "md_group_ttl (with_slot s k f) = md_group_ttl s"
  "md_default_ttl (with_slot s k f) = md_default_ttl s"
  by (simp_all add: with_slot_def)

text \<open>What one section does to the registry: nothing, or one registration of a new name.\<close>

definition registers :: "market_data_service \<Rightarrow> market_data_service \<Rightarrow> bool" where
  "registers s s' \<longleftrightarrow> (\<exists>r i c ttl n. s' = fst (add_instrument s r i c ttl) \<and>
     r = (md_registry s)\<lparr>next_auto := n\<rparr> \<and>
     hm_get (by_id (md_registry s)) c = None \<and> hm_get (by_instrument (md_registry s)) i = None)"

lemma registersI:
  "hm_get (by_id (md_registry s)) c = None \<Longrightarrow> hm_get (by_instrument (md_registry s)) i = None \<Longrightarrow>
   registers s (fst (add_instrument s ((md_registry s)\<lparr>next_auto := n\<rparr>) i c ttl))"
  unfolding registers_def by blast

lemma register_locked_effect:
  "register_locked s i ttl = Some (s', r) \<Longrightarrow> s' = s \<or> registers s s'"
  by (auto simp: register_locked_def dest!: next_auto_id_fresh intro: registersI split: if_splits)

lemma register_with_id_effect:
  "register_with_id_inner s i c ttl = (s', r) \<Longrightarrow> s' = s \<or> registers s s'"
  using registersI [of s c i "next_auto (md_registry s)" ttl]
  by (auto simp: register_with_id_inner_def split: if_splits)

lemma named_registration_effect:
  assumes "resolve_or_register_slow s i = Some (s', r)"
  shows "s' = s \<or> registers s s'"
  using assms
  by (auto simp: resolve_or_register_slow_def case_prod_beta Let_def dest!: next_auto_id_fresh
      intro: registersI split: option.splits)

lemma registers_wf:
  assumes "registers s s'" and "registry_wf (md_registry s) (length (md_slots s))"
    and "length (md_slots s') \<le> 2 ^ 32"
  shows "registry_wf (md_registry s') (length (md_slots s'))"
  using assms add_instrument_registry(1) by (auto simp: registers_def)

lemma registers_keeps:
  "registers s s' \<Longrightarrow> length (md_slots s') = Suc (length (md_slots s)) \<and>
     md_has_service_level_ttl s' = md_has_service_level_ttl s \<and>
     md_account_ttl s' = md_account_ttl s \<and> md_group_ttl s' = md_group_ttl s"
  by (auto simp: registers_def)

subsection \<open>Reachable states\<close>

lemmas section_defs = account_ttl_insert_def group_ttl_insert_def mark_present_def
  clear_account_ttl_def clear_account_group_ttl_def

lemmas registration_effects = register_locked_effect register_with_id_effect
  named_registration_effect

lemma md_step_slots: "md_step (s, n) (s', n') \<Longrightarrow> length (md_slots s) \<le> length (md_slots s')"
  by (auto simp: md_step_iff section_defs
      dest!: registration_effects registers_keeps)

lemma md_step_wf:
  assumes "md_step (s, n) (s', n')" and "registry_wf (md_registry s) (length (md_slots s))"
    and "length (md_slots s') \<le> 2 ^ 32"
  shows "registry_wf (md_registry s') (length (md_slots s'))"
  using assms registers_wf [of s s']
  by (auto simp: md_step_iff section_defs
      dest!: registration_effects)

lemma md_step_gate:
  assumes "md_step (s, n) (s', n')" and "n = 0 \<longrightarrow> gate_ok s"
  shows "n' = 0 \<longrightarrow> gate_ok s'"
  using assms
  by (auto simp: md_step_iff gate_ok_def section_defs
      dest!: registration_effects registers_keeps)

lemma reachable_wf:
  assumes "md_reachable ttl (s, n)"
  shows "(length (md_slots s) \<le> 2 ^ 32 \<longrightarrow> registry_wf (md_registry s) (length (md_slots s))) \<and>
         (n = 0 \<longrightarrow> gate_ok s)"
  using assms
proof (induction "(s, n)" arbitrary: s n rule: md_reachable.induct)
  case built
  show ?case by (simp add: market_data_build_def registry_wf_def registry_new_def gate_ok_def)
next
  case (stepped c s' n')
  obtain s n where c: "c = (s, n)" by (cases c)
  with stepped have step: "md_step (s, n) (s', n')" by simp
  show ?case
    using stepped.hyps(2) [OF c] md_step_slots [OF step] md_step_wf [OF step] md_step_gate [OF step]
    by auto
qed

lemma registry_wfD:
  assumes "registry_wf r n"
  shows "hm_ok (by_id r)" "hm_ok (by_instrument r)" "map snd (by_instrument r) = map fst (by_id r)"
    "map (\<lambda>e. unat (snd e)) (by_id r) = [0..<n]" "next_slot r = of_nat n"
  using assms by (simp_all add: registry_wf_def)

lemma wf_slot:
  assumes "registry_wf r n" and "hm_get (by_id r) c = Some k"
  shows "unat k < n"
proof -
  have "unat k \<in> set (map (\<lambda>e. unat (snd e)) (by_id r))"
    using map_of_SomeD [OF assms(2)] by force
  then show ?thesis unfolding registry_wfD(4) [OF assms(1)] by simp
qed

lemma distinct_map_values:
  "distinct (map f m) \<Longrightarrow> a \<in> set m \<Longrightarrow> b \<in> set m \<Longrightarrow> f a = f b \<Longrightarrow> a = b"
  by (simp add: distinct_map inj_on_def)

lemma wf_slot_inj:
  assumes "registry_wf r n" and "hm_get (by_id r) c = Some k" and "hm_get (by_id r) d = Some k"
  shows "c = d"
proof -
  have "distinct (map (\<lambda>e. unat (snd e)) (by_id r))" using assms(1) by (simp add: registry_wf_def)
  from distinct_map_values [OF this map_of_SomeD [OF assms(2)] map_of_SomeD [OF assms(3)]]
  show ?thesis by simp
qed

lemma wf_name_inj:
  assumes wf: "registry_wf r n" and i: "hm_get (by_instrument r) i = Some c"
    and j: "hm_get (by_instrument r) j = Some c"
  shows "i = j"
proof -
  have "distinct (map snd (by_instrument r))" using wf by (simp add: registry_wf_def hm_ok_def)
  from distinct_map_values [OF this map_of_SomeD [OF i] map_of_SomeD [OF j]] show ?thesis by simp
qed

lemma wf_name_known:
  assumes wf: "registry_wf r n" and i: "hm_get (by_instrument r) i = Some c"
  shows "\<exists>k. hm_get (by_id r) c = Some k \<and> unat k < n"
proof -
  have "c \<in> set (map snd (by_instrument r))" using map_of_SomeD [OF i] by force
  then have "c \<in> set (hm_keys (by_id r))" unfolding registry_wfD(3) [OF wf] .
  then obtain k where "hm_get (by_id r) c = Some k" unfolding hm_keys_iff by auto
  with wf_slot [OF wf] show ?thesis by blast
qed

subsection \<open>Reads\<close>

lemma resolve_group_simps [simp]:
  "resolve_group info (Some g) w = (g, Some g, w)"
  "resolve_group info None w = (fst (info w), Some (fst (info w)), snd (info w))"
  by (simp_all add: resolve_group_def case_prod_beta Let_def)

text \<open>The memo of a read: not asked yet, or holding the answer to the one call made.\<close>

definition asked :: "'w account_info \<Rightarrow> 'w \<Rightarrow> group_cell \<times> 'w \<Rightarrow> bool" where
  "asked info w0 p \<longleftrightarrow> p = (None, w0) \<or> p = (Some (fst (info w0)), snd (info w0))"

lemma resolve_asked:
  "asked info w0 (cell, w) \<Longrightarrow>
   resolve_group info cell w = (fst (info w0), Some (fst (info w0)), snd (info w0))"
  by (auto simp: asked_def)

lemma select_quote_spec:
  "fst (select_quote quotes account info resolution None w) =
     first_set (quote_buckets quotes account (fst (info w)) resolution)"
  "asked info w (snd (select_quote quotes account info resolution None w))"
  by (cases resolution; auto simp: select_quote_def asked_def first_set_Cons split: option.splits)+

lemma effective_ttl_spec:
  assumes gate: "gate_ok s" and memo: "asked info w0 (cell, w)"
  shows "fst (effective_ttl s ttls account info cell w) = ttl_spec s ttls account (fst (info w0))"
    and "asked info w0 (snd (effective_ttl s ttls account info cell w))"
proof -
  have g: "resolve_group info cell w = (fst (info w0), Some (fst (info w0)), snd (info w0))"
    using resolve_asked [OF memo] .
  have service: "first_set [hm_get (md_account_ttl s) account, Option.bind g (hm_get (md_group_ttl s)),
      hm_get (md_group_ttl s) DEFAULT_ACCOUNT_GROUP, x] = x"
    if "\<not> md_has_service_level_ttl s" for g x
    using that gate by (cases g; cases x; simp add: gate_ok_def)
  show "fst (effective_ttl s ttls account info cell w) = ttl_spec s ttls account (fst (info w0))"
    using service [of "fst (info w0)" "st_instrument ttls"]
    by (cases "md_has_service_level_ttl s")
      (simp_all add: effective_ttl_def ttl_spec_def ttl_tiers_def group_tiers_def g first_set_Cons
        split: option.split)
  show "asked info w0 (snd (effective_ttl s ttls account info cell w))"
    using memo by (simp add: effective_ttl_def g asked_def split: option.split)
qed

lemma md_get_at_slot:
  assumes "hm_get (by_id (md_registry s)) i = Some k" and "unat k < length (md_slots s)"
    and "select_quote (ss_quotes (md_slots s ! unat k)) account info resolution None w = (sel, cell, w1)"
  shows "md_get s now i account info resolution w =
     (case sel of None \<Rightarrow> (Inl QuoteUnavailable, w1)
      | Some q \<Rightarrow>
          let (ttl, c2, w2) = effective_ttl s (ss_ttls (md_slots s ! unat k)) account info cell w1
          in (freshness ttl now q, w2))"
  using assms by (auto simp: md_get_def freshness_def case_prod_beta Let_def split: option.splits)

lemma md_get_spec:
  assumes wf: "md_wf s" and gate: "gate_ok s"
  shows "fst (md_get s now i account info resolution w) =
           read_spec s now i account (fst (info w)) resolution \<and>
         snd (md_get s now i account info resolution w) \<in> {w, snd (info w)}"
proof (cases "hm_get (by_id (md_registry s)) i")
  case None
  then show ?thesis by (simp add: md_get_def read_spec_def slot_of_def)
next
  case (Some k)
  obtain sel cell w1 where
    sel: "select_quote (ss_quotes (md_slots s ! unat k)) account info resolution None w = (sel, cell, w1)"
    by (metis prod_cases3)
  have k: "unat k < length (md_slots s)" using wf wf_slot [OF _ Some] by (auto simp: md_wf_def)
  have memo: "asked info w (cell, w1)"
    and first: "sel = first_set (quote_buckets (ss_quotes (md_slots s ! unat k)) account (fst (info w)) resolution)"
    using select_quote_spec [where quotes = "ss_quotes (md_slots s ! unat k)" and account = account
        and info = info and resolution = resolution and w = w]
    by (simp_all add: sel)
  note ttl = effective_ttl_spec [OF gate memo, of "ss_ttls (md_slots s ! unat k)" account]
  have "read_spec s now i account (fst (info w)) resolution =
     (case sel of None \<Rightarrow> Inl QuoteUnavailable
      | Some q \<Rightarrow> freshness (ttl_spec s (ss_ttls (md_slots s ! unat k)) account (fst (info w))) now q)"
    by (simp add: read_spec_def slot_of_def Some first)
  then show ?thesis using ttl memo
    unfolding md_get_at_slot [OF Some k sel]
    by (auto simp: asked_def case_prod_beta Let_def split: option.splits)
qed

lemma slot_of_with_slot:
  assumes wf: "registry_wf (md_registry s) (length (md_slots s))"
    and k: "hm_get (by_id (md_registry s)) i = Some k"
  shows "slot_of (with_slot s k f) j = (if j = i then map_option f (slot_of s i) else slot_of s j)"
proof -
  have "unat k < length (md_slots s)" using wf_slot [OF wf k] .
  moreover have "k' \<noteq> k" if "hm_get (by_id (md_registry s)) j = Some k'" "j \<noteq> i" for k'
    using wf_slot_inj [OF wf that(1)] k that(2) by blast
  ultimately show ?thesis
    by (cases "hm_get (by_id (md_registry s)) j")
      (auto simp: slot_of_def with_slot_def k nth_list_update simp flip: word_unat_eq_iff)
qed

lemma ttl_spec_cong:
  assumes "md_account_ttl s' = md_account_ttl s" and "md_group_ttl s' = md_group_ttl s"
    and "md_default_ttl s' = md_default_ttl s"
  shows "ttl_spec s' = ttl_spec s"
  unfolding ttl_spec_def ttl_tiers_def assms ..

lemma read_spec_cong:
  assumes "slot_of s' i = slot_of s i" and "md_account_ttl s' = md_account_ttl s"
    and "md_group_ttl s' = md_group_ttl s" and "md_default_ttl s' = md_default_ttl s"
  shows "read_spec s' now i account g resolution = read_spec s now i account g resolution"
  unfolding read_spec_def assms(1) ttl_spec_cong [OF assms(2-4)] ..

subsection \<open>A sample service\<close>

definition md_sample :: market_data_service where
  "md_sample =
     fst (md_push
       (fst (register_with_id (market_data_build (QuoteTtl_Within 100))
         \<lparr>underlying_asset = ''AAPL'', settlement_asset = ''USD''\<rparr> 7))
       10 7 (with_mark quote_new 5) 0)"

definition changing_info :: "nat account_info" where
  "changing_info n = (if n = 0 then Some 3 else None, Suc n)"

lemma md_sample_eval:
  "md_sample =
     \<lparr>md_default_ttl = Some 100, md_account_ttl = [], md_group_ttl = [],
      md_registry = \<lparr>by_id = [(7, 0)],
        by_instrument = [(\<lparr>underlying_asset = ''AAPL'', settlement_asset = ''USD''\<rparr>, 7)],
        next_auto = 0, next_slot = 1\<rparr>,
      md_slots = [\<lparr>ss_quotes = \<lparr>sq_accounts = [],
        sq_groups = [(0, \<lparr>qs_quote = with_mark quote_new 5, qs_pushed_at = 10, qs_source_age = 0\<rparr>)]\<rparr>,
        ss_ttls = slot_ttls_new None\<rparr>],
      md_has_service_level_ttl = False\<rparr>"
  by (simp add: md_sample_def register_with_id_def register_with_id_inner_def market_data_build_def
      registry_new_def add_instrument_def alloc_slot_def insert_id_def ensure_slot_storage_def md_push_def
      store_default_by_id_def store_default_at_def with_slot_def slot_for_id_def slot_new_def
      slot_quotes_new_def store_into_def DEFAULT_ACCOUNT_GROUP_def)

lemma md_sample_slots [simp]: "length (md_slots md_sample) = 1"
  by (simp add: md_sample_eval)

lemma md_sample_wf: "md_wf md_sample" "gate_ok md_sample"
  by (simp_all add: md_wf_def registry_wf_def gate_ok_def md_sample_eval hm_ok_def)

lemma md_sample_reachable: "md_reachable (QuoteTtl_Within 100) (md_sample, 0)"
proof -
  let ?i = "\<lparr>underlying_asset = ''AAPL'', settlement_asset = ''USD''\<rparr> :: instrument"
  let ?s0 = "market_data_build (QuoteTtl_Within 100)"
  let ?s1 = "fst (register_with_id ?s0 ?i 7)"
  have "md_step (?s0, 0) (?s1, 0)"
    using registration_with_id [where s = ?s0 and i = ?i and new_id = 7 and ttl = None and n = 0,
        OF prod.collapse [symmetric]]
    by (simp add: register_with_id_def)
  moreover have "\<exists>f. md_sample = with_slot ?s1 0 f"
    by (simp add: md_sample_def md_push_def store_default_by_id_def store_default_at_def slot_for_id_def
        register_with_id_def register_with_id_inner_def market_data_build_def registry_new_def
        add_instrument_def alloc_slot_def insert_id_def ensure_slot_storage_def) blast
  then have "md_step (?s1, 0) (md_sample, 0)" by (metis slot_write)
  ultimately show ?thesis by (meson built stepped)
qed

lemma md_sample_read:
  "read_spec md_sample 60 7 1 (Some 3) AccountThenGroupThenDefault = Inr (with_mark quote_new 5)"
  "read_spec md_sample 110 7 1 (Some 3) AccountThenGroupThenDefault =
     Inl (QuoteExpired (with_mark quote_new 5))"
  by (simp_all add: read_spec_def slot_of_def freshness_def ttl_spec_def ttl_tiers_def effective_age_def
      DURATION_MAX_def md_sample_eval DEFAULT_ACCOUNT_GROUP_def slot_ttls_new_def)

section \<open>Properties\<close>

text \<open>
  (C29) A read answers what the documented cascade says, in every reachable state with at most
  \<open>2 ^ 32\<close> slots in which no lifetime setter is between its two critical sections: the first
  bucket with a quote in the order the resolution allows, expired exactly when its age has reached
  the first lifetime set among the tiers. The memo of the account group, the skipped service tiers
  and the early exits change nothing, and the group callback, whatever it would answer on a second
  call, is consulted at most once.
\<close>

theorem read_follows_cascade:
  assumes "md_reachable ttl (s, 0)" and "length (md_slots s) \<le> 2 ^ 32"
  shows "fst (md_get s now i account info resolution w) =
           read_spec s now i account (fst (info w)) resolution \<and>
         snd (md_get s now i account info resolution w) \<in> {w, snd (info w)}"
  using reachable_wf [OF assms(1)] assms(2) by (intro md_get_spec) (simp_all add: md_wf_def)

theorem read_follows_cascade_witness:
  "fst (md_get md_sample 60 7 1 changing_info AccountThenGroupThenDefault 0) =
     Inr (with_mark quote_new 5) \<and>
   fst (md_get md_sample 110 7 1 changing_info AccountThenGroupThenDefault 0) =
     Inl (QuoteExpired (with_mark quote_new 5)) \<and>
   snd (md_get md_sample 60 7 1 changing_info AccountThenGroupThenDefault 0) \<in> {0, 1}"
  using read_follows_cascade [OF md_sample_reachable, of 60 7 1 changing_info AccountThenGroupThenDefault 0]
    read_follows_cascade [OF md_sample_reachable, of 110 7 1 changing_info AccountThenGroupThenDefault 0]
  by (simp add: md_sample_read md_sample_slots changing_info_def)

text \<open>
  (C26) In every interleaving of the critical sections of any number of threads the registry stays
  consistent with the slots: a registered name has an id with an allocated slot, two names never
  share an id, two ids never share a slot, and once no setter is between its two sections the gate
  is open whenever a service-level lifetime is set.
\<close>

theorem registry_consistent_when_interleaved:
  assumes "md_reachable ttl (s, pending)" and "length (md_slots s) \<le> 2 ^ 32"
  shows "(\<forall>i c. md_resolve s i = Some c \<longrightarrow>
            (\<exists>k. slot_for_id s c = Inr k \<and> unat k < length (md_slots s))) \<and>
         (\<forall>i j c. md_resolve s i = Some c \<longrightarrow> md_resolve s j = Some c \<longrightarrow> i = j) \<and>
         (\<forall>c d k. slot_for_id s c = Inr k \<longrightarrow> slot_for_id s d = Inr k \<longrightarrow> c = d) \<and>
         (pending = 0 \<longrightarrow> gate_ok s)"
proof -
  have wf: "registry_wf (md_registry s) (length (md_slots s))"
    using reachable_wf [OF assms(1)] assms(2) by simp
  show ?thesis
    using reachable_wf [OF assms(1)] wf_name_known [OF wf] wf_name_inj [OF wf] wf_slot_inj [OF wf]
    by (auto simp: md_resolve_def slot_for_id_def result_simps)
qed

theorem registry_consistent_when_interleaved_witness:
  "md_resolve md_sample \<lparr>underlying_asset = ''AAPL'', settlement_asset = ''USD''\<rparr> = Some 7 \<and>
   (\<exists>k. slot_for_id md_sample 7 = Inr k \<and> unat k < length (md_slots md_sample)) \<and> gate_ok md_sample"
proof -
  have name: "md_resolve md_sample \<lparr>underlying_asset = ''AAPL'', settlement_asset = ''USD''\<rparr> = Some 7"
    by (simp add: md_resolve_def md_sample_eval)
  show ?thesis
    using registry_consistent_when_interleaved [OF md_sample_reachable] name md_sample_slots
    by (simp del: One_nat_def)
qed

text \<open>
  (C27) Registration always ends: the search for an unused id, a loop without a bound, finds one for
  every service below its capacity of \<open>2 ^ 32\<close> instruments. A known name is refused and changes
  nothing; a new one gets an id that no registration had, resolves to it afterwards, and leaves the
  slots of all other instruments as they were.
\<close>

theorem registration_ends:
  assumes "md_wf s" and "length (md_slots s) < 2 ^ 32"
  shows "case md_register s i of
           None \<Rightarrow> False
         | Some (s', Inl e) \<Rightarrow> s' = s \<and> e = NameAlreadyRegistered i \<and> md_resolve s i \<noteq> None
         | Some (s', Inr c) \<Rightarrow> md_resolve s i = None \<and> slot_of s c = None \<and>
             md_resolve s' i = Some c \<and> slot_of s' c = Some (slot_new None) \<and>
             (\<forall>j. j \<noteq> c \<longrightarrow> slot_of s' j = slot_of s j)"
proof (cases "md_resolve s i")
  case (Some c)
  then show ?thesis by (simp add: md_register_def register_inner_def md_resolve_def)
next
  case None
  have wf: "registry_wf (md_registry s) (length (md_slots s))" using assms(1) by (simp add: md_wf_def)
  have "length (by_id (md_registry s)) = length (md_slots s)"
    using arg_cong [OF registry_wfD(4) [OF wf], of length] by simp
  with assms(2) obtain c where
    c: "next_auto_id_loop (by_id (md_registry s)) (next_auto (md_registry s)) = Some (c, c + 1)"
    using auto_id_ends [of "by_id (md_registry s)" "next_auto (md_registry s)"] by auto
  let ?r = "(md_registry s)\<lparr>next_auto := c + 1\<rparr>"
  let ?s = "fst (add_instrument s ?r i c None)"
  have fresh: "hm_get (by_id ?r) c = None" "hm_get (by_instrument ?r) i = None"
    using auto_id_sound [OF c] None by (simp_all add: md_resolve_def)
  have reg: "md_register s i = Some (?s, Inr c)"
    using None by (simp add: md_register_def register_inner_def register_locked_def next_auto_id_def c
        md_resolve_def)
  have wf': "registry_wf ?r (length (md_slots s))" using wf by simp
  have "slot_of ?s j = slot_of s j" if "j \<noteq> c" for j
    using add_instrument_registry(2) [OF wf' assms(2) fresh] that wf_slot [OF wf, of j]
    by (auto simp: slot_of_def map_add_def nth_append split: option.splits)
  moreover have "slot_of ?s c = Some (slot_new None)"
    using add_instrument_registry(2) [OF wf' assms(2) fresh] fresh assms(2)
    by (simp add: slot_of_def map_add_def nth_append unat_of_nat)
  ultimately show ?thesis
    using add_instrument_registry(3) [OF wf' assms(2) fresh] fresh None reg
    by (simp add: md_resolve_def slot_of_def map_add_def)
qed

theorem registration_ends_witness:
  "case md_register md_sample \<lparr>underlying_asset = ''SPX'', settlement_asset = ''USD''\<rparr> of
     None \<Rightarrow> False
   | Some (s', Inl e) \<Rightarrow> False
   | Some (s', Inr c) \<Rightarrow>
       md_resolve s' \<lparr>underlying_asset = ''SPX'', settlement_asset = ''USD''\<rparr> = Some c \<and>
       slot_of s' c = Some (slot_new None)"
  using registration_ends [OF md_sample_wf(1),
      of "\<lparr>underlying_asset = ''SPX'', settlement_asset = ''USD''\<rparr>"]
  by (auto simp: md_resolve_def md_sample_eval split: option.splits sum.splits)

text \<open>
  A quote pushed for a registered instrument is what a later read returns to every account that
  no more specific bucket serves, until its age reaches the lifetime in force for the account; then
  the same quote comes back as expired. Reads of the other instruments are unaffected.
\<close>

lemma pushed_quote_is_read:
  assumes "md_wf s" and "gate_ok s" and "slot_of s i = Some slot"
    and "hm_get (sq_accounts (ss_quotes slot)) account = None"
    and "Option.bind (fst (info w)) (hm_get (sq_groups (ss_quotes slot))) = None"
  shows "case md_push s t i q age of (s', r) \<Rightarrow>
           r = Inr () \<and>
           fst (md_get s' now i account info AccountThenGroupThenDefault w) =
             (case ttl_spec s (ss_ttls slot) account (fst (info w)) of
                Some d \<Rightarrow> if d \<le> min DURATION_MAX (min DURATION_MAX (now - t) + age)
                          then Inl (QuoteExpired q) else Inr q
              | None \<Rightarrow> Inr q) \<and>
           (\<forall>j. j \<noteq> i \<longrightarrow> fst (md_get s' now j account info resolution w) =
                          fst (md_get s now j account info resolution w))"
proof -
  obtain k where k: "hm_get (by_id (md_registry s)) i = Some k"
    using assms(3) by (auto simp: slot_of_def)
  let ?f = "ss_quotes_update (sq_groups_update (\<lambda>m. store_into m DEFAULT_ACCOUNT_GROUP t q age))"
  let ?s = "with_slot s k ?f"
  have wf: "registry_wf (md_registry s) (length (md_slots s))" using assms(1) by (simp add: md_wf_def)
  have push: "md_push s t i q age = (?s, Inr ())"
    by (simp add: md_push_def store_default_by_id_def store_default_at_def slot_for_id_def k)
  have slots: "slot_of ?s j = (if j = i then Some (?f slot) else slot_of s j)" for j
    using slot_of_with_slot [OF wf k] assms(3) by simp
  have ok: "md_wf ?s" "gate_ok ?s" using assms(1,2) by (simp_all add: md_wf_def gate_ok_def)
  have ttl: "ttl_spec ?s = ttl_spec s" by (rule ttl_spec_cong) simp_all
  have "read_spec ?s now i account (fst (info w)) AccountThenGroupThenDefault =
      freshness (ttl_spec s (ss_ttls slot) account (fst (info w))) now
        \<lparr>qs_quote = q, qs_pushed_at = t, qs_source_age = age\<rparr>"
    unfolding read_spec_def ttl slots using assms(4,5)
    by (cases "fst (info w)") (simp_all add: store_into_def)
  moreover have "read_spec ?s now j account (fst (info w)) resolution =
      read_spec s now j account (fst (info w)) resolution" if "j \<noteq> i" for j
    using that slots by (intro read_spec_cong) simp_all
  ultimately show ?thesis
    by (simp add: push freshness_def effective_age_def md_get_spec [OF ok] md_get_spec [OF assms(1,2)]
        split: option.split)
qed

end
