(* ===== verification/Pnl_Kill_Switch.thy ===== *)
theory Pnl_Kill_Switch
  imports Policy_Interface
begin

text \<open>
  The P\&L bounds kill switch (\<open>crates/openpit/src/pretrade/policies/pnl_bounds.rs\<close> and
  \<open>pnl_bounds_killswitch.rs\<close>): the settings with their validation, the ledger of realized
  P\&L per account and settlement asset, the start-stage check, the execution report and retirement.

  The ledger is a storage shared with the runtime configurator; the policy record holds it beside
  the current version of the settings. A report is the tuple of what its accessors return.
\<close>

section \<open>Bounds\<close>

definition REALIZED_PNL_LABEL :: string where
  "REALIZED_PNL_LABEL = ''realized pnl''"

definition has_configured_bound :: "pnl option \<Rightarrow> pnl option \<Rightarrow> bool" where
  "has_configured_bound lower_bound upper_bound \<longleftrightarrow> lower_bound \<noteq> None \<or> upper_bound \<noteq> None"

definition breached_sides :: "pnl option \<Rightarrow> pnl option \<Rightarrow> pnl \<Rightarrow> string list" where
  "breached_sides lower_bound upper_bound realized =
     (case lower_bound of Some lb \<Rightarrow> if realized < lb then [''lower''] else [] | None \<Rightarrow> []) @
     (case upper_bound of Some ub \<Rightarrow> if realized > ub then [''upper''] else [] | None \<Rightarrow> [])"

definition outside_bounds :: "pnl option \<Rightarrow> pnl option \<Rightarrow> pnl \<Rightarrow> bool" where
  "outside_bounds lower_bound upper_bound realized \<longleftrightarrow>
     breached_sides lower_bound upper_bound realized \<noteq> []"

definition labelled_barrier_breach_details ::
  "string list \<Rightarrow> pnl option \<Rightarrow> pnl option \<Rightarrow> pnl \<Rightarrow> string \<Rightarrow> string \<Rightarrow> asset \<Rightarrow> text_pieces" where
  "labelled_barrier_breach_details sides lower_bound upper_bound amount label asset_label asset =
     [Lit (join_texts '' and '' sides), Lit '' bound breached: '', Lit label, Lit '' '', Num amount] @
     (case lower_bound of Some lower \<Rightarrow> [Lit '', lower bound '', Num lower] | None \<Rightarrow> []) @
     (case upper_bound of Some upper \<Rightarrow> [Lit '', upper bound '', Num upper] | None \<Rightarrow> []) @
     [Lit '', '', Lit asset_label, Lit '' '', Lit asset]"

definition barrier_breach_details ::
  "string list \<Rightarrow> pnl option \<Rightarrow> pnl option \<Rightarrow> pnl \<Rightarrow> string \<Rightarrow> asset \<Rightarrow> text_pieces" where
  "barrier_breach_details sides lower_bound upper_bound realized asset_label asset =
     labelled_barrier_breach_details sides lower_bound upper_bound realized REALIZED_PNL_LABEL
       asset_label asset"

definition barrier_breach_reject ::
  "string \<Rightarrow> string \<Rightarrow> string list \<Rightarrow> pnl option \<Rightarrow> pnl option \<Rightarrow> pnl \<Rightarrow> string \<Rightarrow> asset \<Rightarrow> reject" where
  "barrier_breach_reject policy_name reason sides lower_bound upper_bound realized asset_label asset =
     reject_new policy_name ScopeAccount PnlKillSwitchTriggered reason
       (barrier_breach_details sides lower_bound upper_bound realized asset_label asset)"

definition pnl_breach_account_block :: "string \<Rightarrow> text_pieces \<Rightarrow> account_block" where
  "pnl_breach_account_block policy_name details =
     account_block_new policy_name PnlKillSwitchTriggered ''pnl kill switch triggered'' details"

definition pnl_barrier_currency_mismatch_account_block :: "string \<Rightarrow> text_pieces \<Rightarrow> account_block" where
  "pnl_barrier_currency_mismatch_account_block policy_name details =
     account_block_new policy_name PnlKillSwitchTriggered ''pnl barrier currency mismatch'' details"

definition pnl_calculation_failed_block :: "string \<Rightarrow> string \<Rightarrow> text_pieces \<Rightarrow> account_block" where
  "pnl_calculation_failed_block policy reason details =
     account_block_new policy OrderValueCalculationFailed reason details"

definition set_or_clear :: "('k, 'v) hash_map \<Rightarrow> 'k \<Rightarrow> 'v option \<Rightarrow> ('k, 'v) hash_map" where
  "set_or_clear m key v = (case v of Some x \<Rightarrow> hm_insert m key x | None \<Rightarrow> hm_remove m key)"

section \<open>Settings\<close>

record pnl_bounds_broker_barrier =
  pbb_settlement_asset :: asset
  pbb_lower_bound :: "pnl option"
  pbb_upper_bound :: "pnl option"

record pnl_bounds_account_asset_barrier =
  pba_barrier :: pnl_bounds_broker_barrier
  pba_account_id :: account_id
  pba_initial_pnl :: pnl

record pnl_bounds_account_asset_barrier_update =
  pbu_barrier :: pnl_bounds_broker_barrier
  pbu_account_id :: account_id

datatype pnl_bounds_error = NoBarriersConfigured | NoBoundsConfigured asset

type_synonym account_barrier_map =
  "(account_id, (asset, pnl_bounds_account_asset_barrier_update) hash_map) hash_map"

record pnl_settings =
  ps_account_barriers :: account_barrier_map
  ps_broker_barriers :: "(asset, pnl_bounds_broker_barrier) hash_map"
  ps_initial_pnl :: "(account_id \<times> asset, pnl) hash_map"
  ps_group_id :: policy_group_id

definition validate_bounds :: "pnl_bounds_broker_barrier \<Rightarrow> pnl_bounds_error + unit" where
  "validate_bounds b =
     (if \<not> has_configured_bound (pbb_lower_bound b) (pbb_upper_bound b)
      then Inl (NoBoundsConfigured (pbb_settlement_asset b)) else Inr ())"

fun collect_broker ::
  "(asset, pnl_bounds_broker_barrier) hash_map \<Rightarrow> pnl_bounds_broker_barrier list \<Rightarrow>
   pnl_bounds_error + (asset, pnl_bounds_broker_barrier) hash_map" where
  "collect_broker broker [] = Inr broker"
| "collect_broker broker (b # bs) =
     bind_res (validate_bounds b) (\<lambda>_. collect_broker (hm_insert broker (pbb_settlement_asset b) b) bs)"

definition account_entry ::
  "account_barrier_map \<Rightarrow> account_id \<Rightarrow> (asset, pnl_bounds_account_asset_barrier_update) hash_map" where
  "account_entry m a = (case hm_get m a of Some inner \<Rightarrow> inner | None \<Rightarrow> [])"

definition insert_account_barrier ::
  "account_barrier_map \<Rightarrow> pnl_bounds_account_asset_barrier_update \<Rightarrow> account_barrier_map" where
  "insert_account_barrier m u =
     hm_insert m (pbu_account_id u)
       (hm_insert (account_entry m (pbu_account_id u)) (pbb_settlement_asset (pbu_barrier u)) u)"

fun collect_account ::
  "account_barrier_map \<Rightarrow> pnl_bounds_account_asset_barrier_update list \<Rightarrow>
   pnl_bounds_error + account_barrier_map" where
  "collect_account m [] = Inr m"
| "collect_account m (u # us) =
     bind_res (validate_bounds (pbu_barrier u)) (\<lambda>_. collect_account (insert_account_barrier m u) us)"

fun collect_account_seeded ::
  "account_barrier_map \<Rightarrow> (account_id \<times> asset, pnl) hash_map \<Rightarrow>
   pnl_bounds_account_asset_barrier list \<Rightarrow>
   pnl_bounds_error + (account_barrier_map \<times> (account_id \<times> asset, pnl) hash_map)" where
  "collect_account_seeded m seeds [] = Inr (m, seeds)"
| "collect_account_seeded m seeds (b # bs) =
     bind_res (validate_bounds (pba_barrier b)) (\<lambda>_.
       collect_account_seeded
         (insert_account_barrier m
           \<lparr>pbu_barrier = pba_barrier b, pbu_account_id = pba_account_id b\<rparr>)
         (hm_insert seeds (pba_account_id b, pbb_settlement_asset (pba_barrier b))
           (pba_initial_pnl b)) bs)"

definition pnl_settings_new ::
  "pnl_bounds_broker_barrier list \<Rightarrow> pnl_bounds_account_asset_barrier list \<Rightarrow>
   pnl_bounds_error + pnl_settings" where
  "pnl_settings_new broker_barriers account_barriers =
     bind_res (collect_broker [] broker_barriers) (\<lambda>broker.
     bind_res (collect_account_seeded [] [] account_barriers) (\<lambda>(account, initial_pnl).
       if broker = [] \<and> account = [] then Inl NoBarriersConfigured
       else Inr \<lparr>ps_account_barriers = account, ps_broker_barriers = broker,
                 ps_initial_pnl = initial_pnl, ps_group_id = DEFAULT_POLICY_GROUP_ID\<rparr>))"

definition pnl_set_broker_barriers ::
  "pnl_settings \<Rightarrow> pnl_bounds_broker_barrier list \<Rightarrow> pnl_bounds_error + pnl_settings" where
  "pnl_set_broker_barriers self barriers =
     bind_res (collect_broker [] barriers) (\<lambda>broker.
       if broker = [] \<and> ps_account_barriers self = [] then Inl NoBarriersConfigured
       else Inr (self\<lparr>ps_broker_barriers := broker\<rparr>))"

definition pnl_set_account_barriers ::
  "pnl_settings \<Rightarrow> pnl_bounds_account_asset_barrier_update list \<Rightarrow>
   pnl_bounds_error + pnl_settings" where
  "pnl_set_account_barriers self barriers =
     bind_res (collect_account [] barriers) (\<lambda>account.
       if ps_broker_barriers self = [] \<and> account = [] then Inl NoBarriersConfigured
       else Inr (self\<lparr>ps_account_barriers := account\<rparr>))"

section \<open>The policy\<close>

type_synonym realized_pnl_storage = "(account_id \<times> asset, pnl) storage"

record pnl_policy =
  pp_settings :: pnl_settings
  pp_realized :: realized_pnl_storage

definition PNL_POLICY_NAME :: string where
  "PNL_POLICY_NAME = ''PnlBoundsKillSwitchPolicy''"

fun seed_realized :: "realized_pnl_storage \<Rightarrow> ((account_id \<times> asset) \<times> pnl) list \<Rightarrow> realized_pnl_storage" where
  "seed_realized realized [] = realized"
| "seed_realized realized ((key, initial) # rest) =
     seed_realized (fst (with_mut realized key 0 (\<lambda>_ _. (initial, ())))) rest"

definition pnl_policy_new :: "pnl_settings \<Rightarrow> pnl_policy" where
  "pnl_policy_new settings =
     \<lparr>pp_settings = settings\<lparr>ps_initial_pnl := []\<rparr>,
      pp_realized = seed_realized [] (ps_initial_pnl settings)\<rparr>"

definition pnl_with_policy_group_id :: "pnl_policy \<Rightarrow> policy_group_id \<Rightarrow> pnl_policy" where
  "pnl_with_policy_group_id self i = self\<lparr>pp_settings := (pp_settings self)\<lparr>ps_group_id := i\<rparr>\<rparr>"

definition account_barrier_of ::
  "pnl_settings \<Rightarrow> account_id \<Rightarrow> asset \<Rightarrow> pnl_bounds_broker_barrier option" where
  "account_barrier_of s a settlement =
     map_option pbu_barrier
       (Option.bind (hm_get (ps_account_barriers s) a) (\<lambda>m. hm_get m settlement))"

definition breach_of :: "string \<Rightarrow> pnl_bounds_broker_barrier option \<Rightarrow> pnl \<Rightarrow> reject option" where
  "breach_of reason barrier current_pnl =
     Option.bind barrier (\<lambda>b.
       let sides = breached_sides (pbb_lower_bound b) (pbb_upper_bound b) current_pnl
       in if sides = [] then None
          else Some (barrier_breach_reject PNL_POLICY_NAME reason sides (pbb_lower_bound b)
                 (pbb_upper_bound b) current_pnl ''settlement asset'' (pbb_settlement_asset b)))"

definition current_pnl_of :: "pnl_policy \<Rightarrow> account_id \<Rightarrow> asset \<Rightarrow> pnl" where
  "current_pnl_of self a settlement =
     (case storage_with (pp_realized self) (a, settlement) (\<lambda>entry. entry) of
        Some p \<Rightarrow> p | None \<Rightarrow> 0)"

definition breaches :: "pnl_policy \<Rightarrow> account_id \<Rightarrow> asset \<Rightarrow> reject option \<times> reject option" where
  "breaches self a settlement =
     (let s = pp_settings self;
          broker_barrier = hm_get (ps_broker_barriers s) settlement;
          account_barrier = account_barrier_of s a settlement
      in if broker_barrier = None \<and> account_barrier = None then (None, None)
         else (let current_pnl = current_pnl_of self a settlement
               in (breach_of ''pnl kill switch triggered: broker barrier'' broker_barrier current_pnl,
                   breach_of ''pnl kill switch triggered: account + asset barrier'' account_barrier
                     current_pnl)))"

definition pnl_check_pre_trade_start ::
  "pnl_policy \<Rightarrow> pre_trade_context \<Rightarrow> order \<Rightarrow> rejects + unit" where
  "pnl_check_pre_trade_start self ctx ord =
     (let s = pp_settings self;
          resolved =
            (case drop_copy_account_id ctx of
               Some a \<Rightarrow>
                 if ps_broker_barriers s = [] \<and> hm_get (ps_account_barriers s) a = None
                 then Inr None
                 else bind_res (read_field PNL_POLICY_NAME ''instrument'' (ord_instrument ord))
                        (\<lambda>i. Inr (Some (i, a)))
             | None \<Rightarrow>
                 bind_res (read_field PNL_POLICY_NAME ''instrument'' (ord_instrument ord)) (\<lambda>i.
                 bind_res (read_field PNL_POLICY_NAME ''account ID'' (ctx_account ctx)) (\<lambda>a.
                   Inr (Some (i, a)))))
      in bind_res resolved (\<lambda>fields.
           case fields of
             None \<Rightarrow> Inr ()
           | Some (i, a) \<Rightarrow>
               (case breaches self a (settlement_asset i) of
                  (Some reject, _) \<Rightarrow> Inl (rejects_new [reject])
                | (None, Some reject) \<Rightarrow> Inl (rejects_new [reject])
                | (None, None) \<Rightarrow> Inr ())))"

definition is_outside_bounds :: "pnl_settings \<Rightarrow> pnl \<Rightarrow> asset \<Rightarrow> account_id \<Rightarrow> bool" where
  "is_outside_bounds s p settlement a \<longleftrightarrow>
     (case hm_get (ps_broker_barriers s) settlement of
        Some b \<Rightarrow> outside_bounds (pbb_lower_bound b) (pbb_upper_bound b) p | None \<Rightarrow> False) \<or>
     (case account_barrier_of s a settlement of
        Some b \<Rightarrow> outside_bounds (pbb_lower_bound b) (pbb_upper_bound b) p | None \<Rightarrow> False)"

record execution_report =
  er_instrument :: "request_field_access_error + instrument"
  er_account_id :: "request_field_access_error + account_id"
  er_pnl :: "request_field_access_error + pnl"
  er_fee :: "request_field_access_error + fee"

definition report_field ::
  "string \<Rightarrow> request_field_access_error + 'a \<Rightarrow> account_block + 'a" where
  "report_field field_name v =
     map_err (missing_required_field_account_block PNL_POLICY_NAME field_name) v"

definition accumulate ::
  "dec_ops \<Rightarrow> pnl_settings \<Rightarrow> account_id \<Rightarrow> asset \<Rightarrow> pnl \<Rightarrow> pnl \<Rightarrow> bool \<Rightarrow>
   pnl \<times> account_block option" where
  "accumulate D s a settlement pnl_with_fee previous is_new =
     (case sg_checked_add D PK_Pnl previous pnl_with_fee of
        Inl _ \<Rightarrow>
          (previous, Some (pnl_calculation_failed_block PNL_POLICY_NAME ''pnl accumulation overflow''
             [Lit ''realized pnl + pnl_with_fee overflow: previous '', Num previous,
              Lit '', increment '', Num pnl_with_fee, Lit '', settlement asset '', Lit settlement]))
      | Inr updated \<Rightarrow>
          (updated,
           if is_outside_bounds s updated settlement a
           then Some (pnl_breach_account_block PNL_POLICY_NAME
                  [Lit ''realized pnl '', Num updated, Lit '', settlement asset '', Lit settlement])
           else None))"

definition pnl_apply_execution_report ::
  "dec_ops \<Rightarrow> pnl_policy \<Rightarrow> execution_report \<Rightarrow> pnl_policy \<times> post_trade_result option" where
  "pnl_apply_execution_report D self report =
     (case bind_res (report_field ''instrument'' (er_instrument report)) (\<lambda>i.
           bind_res (report_field ''account ID'' (er_account_id report)) (\<lambda>a.
           bind_res (report_field ''P&L'' (er_pnl report)) (\<lambda>pnl_delta.
           bind_res (report_field ''fee'' (er_fee report)) (\<lambda>fee.
           bind_res
             (map_err (\<lambda>_. pnl_calculation_failed_block PNL_POLICY_NAME ''pnl accumulation overflow''
                [Lit ''pnl + fee overflow: pnl '', Num pnl_delta, Lit '', fee '', Num fee,
                 Lit '', settlement asset '', Lit (settlement_asset i)])
               (sg_checked_add D PK_Pnl pnl_delta (fee_to_pnl fee))) (\<lambda>pnl_with_fee.
             Inr (settlement_asset i, a, pnl_with_fee)))))) of
        Inl block \<Rightarrow> (self, Some (blocks_only [block]))
      | Inr (settlement, a, pnl_with_fee) \<Rightarrow>
          (case with_mut (pp_realized self) (a, settlement) 0
                  (accumulate D (pp_settings self) a settlement pnl_with_fee) of
             (realized, block) \<Rightarrow>
               (self\<lparr>pp_realized := realized\<rparr>, map_option (\<lambda>b. blocks_only [b]) block)))"

definition forget_if_zero :: "account_id \<times> asset \<Rightarrow> pnl_policy \<Rightarrow> pnl_policy \<times> bool" where
  "forget_if_zero key p =
     (case storage_remove_if (pp_realized p) key (\<lambda>x. x = 0) of
        (realized, ok) \<Rightarrow> (p\<lparr>pp_realized := realized\<rparr>, ok))"

definition pnl_retire_account ::
  "pnl_policy \<Rightarrow> account_id \<Rightarrow> account_retirement_refusal + pnl_policy mutation list" where
  "pnl_retire_account self account =
     (let keys = filter (\<lambda>(a, _). a = account) (storage_keys (pp_realized self))
      in if list_ex (\<lambda>key. case storage_with (pp_realized self) key (\<lambda>p. p) of
                             Some p \<Rightarrow> p \<noteq> 0 | None \<Rightarrow> False) keys
         then Inl NonZeroState
         else if hm_get (ps_account_barriers (pp_settings self)) account \<noteq> None
         then Inl ConfigurationReferencesAccount
         else Inr (map (\<lambda>key. new_reporting (forget_if_zero key) (\<lambda>p. (p, failure_default))) keys))"

text \<open>The write of \<open>Configurator::set_account_pnl\<close>, once its registry entry is found.\<close>

definition set_account_pnl :: "pnl_policy \<Rightarrow> account_id \<Rightarrow> asset \<Rightarrow> pnl \<Rightarrow> pnl_policy" where
  "set_account_pnl self account settlement p =
     self\<lparr>pp_realized := fst (with_mut (pp_realized self) (account, settlement) 0 (\<lambda>_ _. (p, ())))\<rparr>"


text \<open>The entry of the ledger that a policy at its limits is shown on.\<close>

definition stop_loss_policy :: pnl_policy where
  "stop_loss_policy =
     \<lparr>pp_settings =
        \<lparr>ps_account_barriers = [],
         ps_broker_barriers = [(''USD'', \<lparr>pbb_settlement_asset = ''USD'',
           pbb_lower_bound = Some (- 100), pbb_upper_bound = None\<rparr>)],
         ps_initial_pnl = [], ps_group_id = DEFAULT_POLICY_GROUP_ID\<rparr>,
      pp_realized = [((7, ''USD''), - 60), ((8, ''EUR''), 0)]\<rparr>"

definition losing_report :: execution_report where
  "losing_report =
     \<lparr>er_instrument = Inr \<lparr>underlying_asset = ''AAPL'', settlement_asset = ''USD''\<rparr>,
      er_account_id = Inr 7, er_pnl = Inr (- 39), er_fee = Inr 2\<rparr>"

text \<open>The commit stage of a retirement, on whatever ledger it finds.\<close>

definition forgets :: "(account_id \<times> asset) list \<Rightarrow> pnl_policy mutation list" where
  "forgets keys = map (\<lambda>key. new_reporting (forget_if_zero key) (\<lambda>p. (p, failure_default))) keys"

section \<open>Lemmas\<close>

lemma breach_of_None [simp]:
  "breach_of reason barrier p = None \<longleftrightarrow>
     (case barrier of Some b \<Rightarrow> \<not> outside_bounds (pbb_lower_bound b) (pbb_upper_bound b) p | None \<Rightarrow> True)"
  by (simp add: breach_of_def outside_bounds_def Let_def split: option.splits)

lemma breaches_None:
  "breaches self a y = (None, None) \<longleftrightarrow>
     \<not> is_outside_bounds (pp_settings self) (current_pnl_of self a y) y a"
  by (auto simp: breaches_def Let_def is_outside_bounds_def split: option.splits)

lemma uncovered_inside:
  "ps_broker_barriers s = [] \<Longrightarrow> hm_get (ps_account_barriers s) a = None \<Longrightarrow>
   \<not> is_outside_bounds s p y a"
  by (simp add: is_outside_bounds_def account_barrier_of_def)

lemma check_decides:
  assumes "ctx_account ctx = Inr a" and "ord_instrument ord = Inr i"
  shows "is_ok (pnl_check_pre_trade_start self ctx ord) \<longleftrightarrow>
    \<not> is_outside_bounds (pp_settings self) (current_pnl_of self a (settlement_asset i))
        (settlement_asset i) a"
  using assms uncovered_inside [of "pp_settings self" a "current_pnl_of self a (settlement_asset i)"
      "settlement_asset i"]
  by (cases "breaches self a (settlement_asset i)")
    (auto simp: pnl_check_pre_trade_start_def Let_def drop_copy_account_id_def known_account_def
      breaches_None [symmetric] split: option.splits)

lemma report_field_Inr [simp]: "report_field name (Inr x) = Inr x"
  by (simp add: report_field_def)

lemma current_pnl_of_with_mut:
  "current_pnl_of (self\<lparr>pp_realized := fst (with_mut (pp_realized self) (a, y) 0 m)\<rparr>) b z =
     (if (b, z) = (a, y)
      then fst (m (current_pnl_of self a y) (hm_get (pp_realized self) (a, y) = None))
      else current_pnl_of self b z)"
  by (auto simp: current_pnl_of_def storage_with_def with_mut_lookup split: option.splits)

lemma accumulate_with_mut:
  "snd (with_mut (pp_realized self) (a, y) 0 (accumulate D s a y d)) =
     snd (accumulate D s a y d (current_pnl_of self a y) False)"
  by (auto simp: with_mut_output slot_output_def current_pnl_of_def storage_with_def accumulate_def
      split: option.splits)

lemma report_applied:
  assumes "er_instrument report = Inr i" and "er_account_id report = Inr a"
    and "er_pnl report = Inr p" and "er_fee report = Inr f"
  shows "dec_checked_add D p (- f) = Some d \<Longrightarrow>
      pnl_apply_execution_report D self report =
        (let r = with_mut (pp_realized self) (a, settlement_asset i) 0
              (accumulate D (pp_settings self) a (settlement_asset i) d)
         in (self\<lparr>pp_realized := fst r\<rparr>, map_option (\<lambda>b. blocks_only [b]) (snd r)))"
    and "dec_checked_add D p (- f) = None \<Longrightarrow>
      \<exists>b. pnl_apply_execution_report D self report = (self, Some (blocks_only [b]))"
  using assms by (auto simp: pnl_apply_execution_report_def fee_to_pnl_def sg_new_def
      sg_checked_add_def case_prod_beta Let_def)

lemma failure_record_failed [simp]: "failure_failed (failure_record f prov details)"
  by (simp add: failure_record_def failure_failed_def failure_widen_def Let_def split: mutation_provenance.splits)

lemma forgets_step:
  "mutation_commit (new_reporting (forget_if_zero key) r) p =
     (p\<lparr>pp_realized := fst (storage_remove_if (pp_realized p) key (\<lambda>x. x = 0))\<rparr>,
      if hm_get (pp_realized p) key = Some 0 then Inr ()
      else Inl ''mutation commit callback failed'')"
  by (auto simp: mutation_commit_def new_reporting_def new_reporting_with_error_def bool_result_def
      forget_if_zero_def storage_remove_if_def split: option.splits)

lemma drop_guard_reporting [simp]: "drop_guard (new_reporting c r) p = p"
  by (simp add: drop_guard_def new_reporting_def new_reporting_with_error_def)

lemma commit_forgets:
  assumes "distinct keys"
  shows "(\<forall>k. hm_get (pp_realized (fst (commit_loop (forgets keys) p fl))) k =
      (if k \<in> set keys \<and> hm_get (pp_realized p) k = Some 0 then None
       else hm_get (pp_realized p) k)) \<and>
    pp_settings (fst (commit_loop (forgets keys) p fl)) = pp_settings p \<and>
    (failure_failed (snd (commit_loop (forgets keys) p fl)) \<longleftrightarrow>
      failure_failed fl \<or> (\<exists>k\<in>set keys. hm_get (pp_realized p) k \<noteq> Some 0))"
  using assms
proof (induction keys arbitrary: p fl)
  case Nil
  then show ?case by (simp add: forgets_def)
next
  case (Cons key keys)
  let ?p = "p\<lparr>pp_realized := fst (storage_remove_if (pp_realized p) key (\<lambda>x. x = 0))\<rparr>"
  have look: "hm_get (pp_realized ?p) k =
      (if k = key \<and> hm_get (pp_realized p) k = Some 0 then None else hm_get (pp_realized p) k)" for k
    using st.lookup_discard [of "pp_realized p" key "\<lambda>x. x = 0" k] by auto
  have keep: "k \<in> set keys \<Longrightarrow> hm_get (pp_realized ?p) k = hm_get (pp_realized p) k" for k
    using Cons.prems look [of k] by auto
  show ?case
  proof (cases "hm_get (pp_realized p) key = Some 0")
    case True
    then show ?thesis
      using Cons.IH [of ?p fl] Cons.prems keep look by (auto simp: forgets_def forgets_step)
  next
    case False
    let ?fl = "failure_record fl (mut_provenance (new_reporting (forget_if_zero key)
      (\<lambda>p. (p, failure_default)))) ''mutation commit callback failed''"
    show ?thesis
      using Cons.IH [of ?p ?fl] Cons.prems keep look False by (auto simp: forgets_def forgets_step)
  qed
qed

section \<open>Properties\<close>

text \<open>
  The kill switch accumulates and fires consistently. A readable report moves the realized P\&L
  of its own account and settlement asset by P\&L minus fee and no other entry; it returns a block
  exactly when the new total is outside an applicable barrier, and then, and only then, the
  start-stage check rejects the next order of that account on that settlement asset. When a sum
  overflows the report returns a block and the ledger reads as before.
\<close>

lemma kill_switch_fires_consistently:
  assumes "er_instrument report = Inr i" and "er_account_id report = Inr a"
    and "er_pnl report = Inr p" and "er_fee report = Inr f"
    and "pnl_apply_execution_report D self report = (self', result)"
  shows "let y = settlement_asset i in
    case Option.bind (dec_checked_add D p (- f)) (dec_checked_add D (current_pnl_of self a y)) of
      None \<Rightarrow> result \<noteq> None \<and> current_pnl_of self' = current_pnl_of self
    | Some t \<Rightarrow>
        (\<forall>b z. current_pnl_of self' b z = (if b = a \<and> z = y then t else current_pnl_of self b z)) \<and>
        (result = None \<longleftrightarrow> \<not> is_outside_bounds (pp_settings self) t y a) \<and>
        (\<forall>ctx ord j. ctx_account ctx = Inr a \<and> ord_instrument ord = Inr j \<and> settlement_asset j = y \<longrightarrow>
          (is_ok (pnl_check_pre_trade_start self' ctx ord) \<longleftrightarrow> result = None))"
proof (cases "dec_checked_add D p (- f)")
  case None
  then show ?thesis
    using report_applied(2) [OF assms(1-4), of D self] assms(5) by (auto simp: Let_def)
next
  case (Some d)
  let ?y = "settlement_asset i"
  have applied: "self' = self\<lparr>pp_realized := fst (with_mut (pp_realized self) (a, ?y) 0
        (accumulate D (pp_settings self) a ?y d))\<rparr>"
    "result = map_option (\<lambda>b. blocks_only [b])
        (snd (accumulate D (pp_settings self) a ?y d (current_pnl_of self a ?y) False))"
    using report_applied(1) [OF assms(1-4) Some, of self] assms(5)
    by (simp_all add: Let_def accumulate_with_mut)
  have same_settings: "pp_settings self' = pp_settings self"
    by (simp add: applied)
  have ledger: "current_pnl_of self' b z =
      (if (b, z) = (a, ?y)
       then fst (accumulate D (pp_settings self) a ?y d (current_pnl_of self a ?y)
         (hm_get (pp_realized self) (a, ?y) = None))
       else current_pnl_of self b z)" for b z
    unfolding applied by (rule current_pnl_of_with_mut)
  show ?thesis
  proof (cases "dec_checked_add D (current_pnl_of self a ?y) d")
    case None
    then show ?thesis
      using Some by (simp add: Let_def fun_eq_iff ledger applied(2) accumulate_def sg_checked_add_def)
  next
    case total: (Some t)
    then have result: "result = None \<longleftrightarrow> \<not> is_outside_bounds (pp_settings self) t ?y a"
      by (simp add: applied(2) accumulate_def sg_checked_add_def)
    have entries: "current_pnl_of self' b z =
        (if b = a \<and> z = ?y then t else current_pnl_of self b z)" for b z
      using total by (simp add: ledger accumulate_def sg_checked_add_def)
    show ?thesis
      using Some total by (auto simp: Let_def result entries check_decides same_settings)
  qed
qed


text \<open>
  Retirement never loses P\&L. It is refused while the account has a nonzero entry or an
  account barrier; when accepted, committing it on whatever ledger it then finds removes the account's
  entries that are zero at that moment, keeps every entry that a report has made nonzero since, and
  reports a failure exactly when there is such an entry; no other entry and no setting changes.
\<close>

lemma pnl_retirement_keeps_late_pnl:
  assumes "hm_ok (pp_realized self)" and "pnl_retire_account self account = Inr batch"
    and "commit_loop batch later failure_default = (final, failure)"
  shows "(\<forall>y. current_pnl_of self account y = 0) \<and>
    hm_get (ps_account_barriers (pp_settings self)) account = None \<and>
    (\<forall>b y. current_pnl_of final b y = current_pnl_of later b y) \<and>
    (\<forall>y. hm_get (pp_realized self) (account, y) \<noteq> None \<and> current_pnl_of later account y = 0 \<longrightarrow>
      hm_get (pp_realized final) (account, y) = None) \<and>
    (failure_failed failure \<longleftrightarrow>
      (\<exists>y. hm_get (pp_realized self) (account, y) \<noteq> None \<and>
        hm_get (pp_realized later) (account, y) \<noteq> Some 0)) \<and>
    pp_settings final = pp_settings later"
proof -
  let ?keys = "filter (\<lambda>(a, _). a = account) (storage_keys (pp_realized self))"
  have batch: "batch = forgets ?keys" and barrier: "hm_get (ps_account_barriers (pp_settings self)) account = None"
    and zero: "\<forall>key\<in>set ?keys. \<forall>p. hm_get (pp_realized self) key = Some p \<longrightarrow> p = 0"
    using assms(2)
    by (auto simp: pnl_retire_account_def forgets_def storage_with_def list_ex_iff Let_def
        split: if_splits option.splits)
  have "distinct ?keys" using assms(1) by (simp add: storage_keys_def hm_ok_def)
  note committed = commit_forgets [OF this, of later failure_default]
  have keys: "(b, y) \<in> set ?keys \<longleftrightarrow> b = account \<and> hm_get (pp_realized self) (b, y) \<noteq> None" for b y
    by (simp only: set_filter mem_Collect_eq storage_keys_def hm_keys_iff prod.case) blast
  have look: "hm_get (pp_realized final) (b, y) =
      (if b = account \<and> hm_get (pp_realized self) (b, y) \<noteq> None \<and> hm_get (pp_realized later) (b, y) = Some 0
       then None else hm_get (pp_realized later) (b, y))" for b y
    using spec [OF conjunct1 [OF committed], of "(b, y)"]
    unfolding batch [symmetric] assms(3) fst_conv keys by (simp only: conj_assoc)
  have "failure_failed failure \<longleftrightarrow> (\<exists>k\<in>set ?keys. hm_get (pp_realized later) k \<noteq> Some 0)"
    using committed assms(3) by (simp add: batch failure_failed_def failure_default_def)
  also have "\<dots> \<longleftrightarrow> (\<exists>y. hm_get (pp_realized self) (account, y) \<noteq> None \<and>
      hm_get (pp_realized later) (account, y) \<noteq> Some 0)"
    using keys by (metis (no_types, lifting) surj_pair)
  finally have failed: "failure_failed failure \<longleftrightarrow>
      (\<exists>y. hm_get (pp_realized self) (account, y) \<noteq> None \<and>
        hm_get (pp_realized later) (account, y) \<noteq> Some 0)" .
  have settings: "pp_settings final = pp_settings later"
    using committed assms(3) by (simp add: batch)
  have "current_pnl_of self account y = 0" for y
    using zero keys [of account y] by (auto simp: current_pnl_of_def storage_with_def split: option.splits)
  moreover have "current_pnl_of final b y = current_pnl_of later b y" for b y
    using look [of b y] by (auto simp: current_pnl_of_def storage_with_def split: option.splits)
  moreover have "hm_get (pp_realized final) (account, y) = None"
    if "hm_get (pp_realized self) (account, y) \<noteq> None \<and> current_pnl_of later account y = 0" for y
    using that look [of account y] by (auto simp: current_pnl_of_def storage_with_def split: option.splits)
  ultimately show ?thesis using barrier failed settings by blast
qed


end
