(* ===== verification/Holdings_Store.thy ===== *)
theory Holdings_Store
  imports Holdings Storage_Model "HOL-Library.Multiset"
begin

text \<open>
  The holdings table of \<open>crates/openpit/src/pretrade/holdings/store.rs\<close>: slots per
  \<open>(AccountId, Asset)\<close> and the index of the assets each account has a slot for. Each
  operation first changes the slots and, after the slot locks are released, updates the index.

  The sequential operations are followed by a step relation of the concurrent behaviour: between
  the change of the slots and the index update any other operation may run, and within an index
  update the presence check and the write to the account's set are separate steps under the lock of
  the account's index entry.
\<close>

section \<open>Operations\<close>

type_synonym slot_key = "account_id \<times> asset"

record holdings_store =
  inner :: "(slot_key, holdings) storage"
  index :: "(account_id, asset set) storage"

definition holdings_store_new :: holdings_store where
  "holdings_store_new = \<lparr>inner = [], index = []\<rparr>"

definition store_get :: "holdings_store \<Rightarrow> slot_key \<Rightarrow> holdings option" where
  "store_get self key = storage_with (inner self) key (\<lambda>h. h)"

definition account_assets :: "holdings_store \<Rightarrow> account_id \<Rightarrow> asset set option" where
  "account_assets self account = storage_with (index self) account (\<lambda>assets. assets)"

text \<open>The write of an index update, once the presence of the slot has been checked.\<close>

definition index_insert ::
  "(account_id, asset set) storage \<Rightarrow> slot_key \<Rightarrow> bool \<Rightarrow> (account_id, asset set) storage" where
  "index_insert idx key present =
     fst (with_mut_or_insert_prune_new_if idx (fst key) {} (\<lambda>assets. assets = {})
       (\<lambda>assets _. (if present then insert (snd key) assets else assets, Inr () :: unit + unit)))"

definition index_delete ::
  "(account_id, asset set) storage \<Rightarrow> slot_key \<Rightarrow> bool \<Rightarrow>
   (account_id, asset set) storage \<times> bool option" where
  "index_delete idx key absent =
     with_mut_if_present idx (fst key)
       (\<lambda>assets. let assets = (if absent then assets - {snd key} else assets)
                 in (assets, assets = {}))"

definition index_created_slot :: "holdings_store \<Rightarrow> slot_key \<Rightarrow> holdings_store" where
  "index_created_slot self key =
     self\<lparr>index := index_insert (index self) key
        (storage_with (inner self) key (\<lambda>_. ()) \<noteq> None)\<rparr>"

definition unindex_removed_slot :: "holdings_store \<Rightarrow> slot_key \<Rightarrow> holdings_store" where
  "unindex_removed_slot self key =
     (case index_delete (index self) key (storage_with (inner self) key (\<lambda>_. ()) = None) of
        (idx, is_empty) \<Rightarrow>
          if is_empty = Some True
          then self\<lparr>index := fst (storage_remove_if idx (fst key) (\<lambda>assets. assets = {}))\<rparr>
          else self\<lparr>index := idx\<rparr>)"

definition store_with_mut_if_present ::
  "holdings_store \<Rightarrow> slot_key \<Rightarrow> (holdings \<Rightarrow> holdings \<times> 'o) \<Rightarrow> holdings_store \<times> 'o option" where
  "store_with_mut_if_present self key mutator =
     (case with_mut_if_present (inner self) key mutator of
        (data, out) \<Rightarrow> (self\<lparr>inner := data\<rparr>, out))"

definition store_with_mut ::
  "holdings_store \<Rightarrow> slot_key \<Rightarrow> holdings \<Rightarrow> (holdings \<Rightarrow> bool \<Rightarrow> holdings \<times> 'o) \<Rightarrow>
   holdings_store \<times> 'o" where
  "store_with_mut self key init mutator =
     (let was_new = (hm_get (inner self) key = None);
          (data, out) = with_mut (inner self) key init mutator;
          self' = self\<lparr>inner := data\<rparr>
      in (if was_new then index_created_slot self' key else self', out))"

definition store_with_mut_or_insert ::
  "holdings_store \<Rightarrow> slot_key \<Rightarrow> holdings \<Rightarrow> (holdings \<Rightarrow> bool \<Rightarrow> holdings \<times> ('e + 'o)) \<Rightarrow>
   holdings_store \<times> ('e + 'o)" where
  "store_with_mut_or_insert self key init mutator =
     (let was_new = (hm_get (inner self) key = None);
          (data, result) = with_mut_or_insert (inner self) key init mutator;
          self' = self\<lparr>inner := data\<rparr>
      in (if was_new \<and> is_ok result then index_created_slot self' key else self', result))"

definition store_with_mut_or_insert_prune_new_if_zero ::
  "holdings_store \<Rightarrow> slot_key \<Rightarrow> holdings \<Rightarrow> (holdings \<Rightarrow> bool \<Rightarrow> holdings \<times> ('e + 'o)) \<Rightarrow>
   holdings_store \<times> ('e + 'o)" where
  "store_with_mut_or_insert_prune_new_if_zero self key init mutator =
     (let was_new = (hm_get (inner self) key = None);
          was_pruned = (was_new \<and> holdings_is_zero (fst (mutator init True)));
          (data, result) =
            with_mut_or_insert_prune_new_if (inner self) key init holdings_is_zero mutator;
          self' = self\<lparr>inner := data\<rparr>
      in (if was_new \<and> is_ok result \<and> \<not> was_pruned then index_created_slot self' key else self',
          result))"

definition store_remove :: "holdings_store \<Rightarrow> slot_key \<Rightarrow> holdings_store \<times> bool" where
  "store_remove self key =
     (let (data, removed) = storage_remove (inner self) key;
          self' = self\<lparr>inner := data\<rparr>
      in (if removed then unindex_removed_slot self' key else self', removed))"

definition store_remove_if ::
  "holdings_store \<Rightarrow> slot_key \<Rightarrow> (holdings \<Rightarrow> bool) \<Rightarrow> holdings_store \<times> bool" where
  "store_remove_if self key predicate =
     (let (data, removed) = storage_remove_if (inner self) key predicate;
          self' = self\<lparr>inner := data\<rparr>
      in (if removed then unindex_removed_slot self' key else self', removed))"

definition store_remove_if_zero :: "holdings_store \<Rightarrow> slot_key \<Rightarrow> holdings_store \<times> bool" where
  "store_remove_if_zero self key = store_remove_if self key holdings_is_zero"

section \<open>Concurrent steps\<close>

text \<open>
  \<open>waiting\<close> holds the index updates whose slot change has happened and that have not yet
  taken the lock of the account's index entry; \<open>lock\<close> the update inside that lock with the
  result of its presence check.
\<close>

datatype waiting = Created slot_key | Removed slot_key | Clean account_id

datatype index_update = InsertChecked asset bool | DeleteChecked asset bool

record concurrent_store = holdings_store +
  waiting_updates :: "waiting multiset"
  index_lock :: "account_id \<Rightarrow> index_update option"

definition concurrent_new :: concurrent_store where
  "concurrent_new = \<lparr>inner = [], index = [], waiting_updates = {#}, index_lock = (\<lambda>_. None)\<rparr>"

inductive store_step :: "concurrent_store \<Rightarrow> concurrent_store \<Rightarrow> bool" where
  create: "hm_get (inner s) key = None \<Longrightarrow>
    store_step s (s\<lparr>inner := hm_insert (inner s) key h,
      waiting_updates := add_mset (Created key) (waiting_updates s)\<rparr>)"
| update: "hm_get (inner s) key \<noteq> None \<Longrightarrow>
    store_step s (s\<lparr>inner := hm_insert (inner s) key h\<rparr>)"
| remove: "hm_get (inner s) key \<noteq> None \<Longrightarrow>
    store_step s (s\<lparr>inner := hm_remove (inner s) key,
      waiting_updates := add_mset (Removed key) (waiting_updates s)\<rparr>)"
| check_created: "Created (a, x) \<in># waiting_updates s \<Longrightarrow> index_lock s a = None \<Longrightarrow>
    store_step s (s\<lparr>waiting_updates := waiting_updates s - {#Created (a, x)#},
      index_lock := (index_lock s)(a \<mapsto> InsertChecked x (hm_get (inner s) (a, x) \<noteq> None))\<rparr>)"
| write_created: "index_lock s a = Some (InsertChecked x b) \<Longrightarrow>
    store_step s (s\<lparr>index := index_insert (index s) (a, x) b,
      index_lock := (index_lock s)(a := None)\<rparr>)"
| skip_removed: "Removed (a, x) \<in># waiting_updates s \<Longrightarrow> index_lock s a = None \<Longrightarrow>
    hm_get (index s) a = None \<Longrightarrow>
    store_step s (s\<lparr>waiting_updates := waiting_updates s - {#Removed (a, x)#}\<rparr>)"
| check_removed: "Removed (a, x) \<in># waiting_updates s \<Longrightarrow> index_lock s a = None \<Longrightarrow>
    hm_get (index s) a \<noteq> None \<Longrightarrow>
    store_step s (s\<lparr>waiting_updates := waiting_updates s - {#Removed (a, x)#},
      index_lock := (index_lock s)(a \<mapsto> DeleteChecked x (hm_get (inner s) (a, x) = None))\<rparr>)"
| write_removed: "index_lock s a = Some (DeleteChecked x b) \<Longrightarrow>
    index_delete (index s) (a, x) b = (idx, is_empty) \<Longrightarrow>
    store_step s (s\<lparr>index := idx, index_lock := (index_lock s)(a := None),
      waiting_updates :=
        (if is_empty = Some True then add_mset (Clean a) (waiting_updates s)
         else waiting_updates s)\<rparr>)"
| clean: "Clean a \<in># waiting_updates s \<Longrightarrow> index_lock s a = None \<Longrightarrow>
    store_step s (s\<lparr>index := fst (storage_remove_if (index s) a (\<lambda>assets. assets = {})),
      waiting_updates := waiting_updates s - {#Clean a#}\<rparr>)"

definition quiescent :: "concurrent_store \<Rightarrow> bool" where
  "quiescent s \<longleftrightarrow> waiting_updates s = {#} \<and> (\<forall>a. index_lock s a = None)"

section \<open>Index invariants\<close>

definition listed :: "('a holdings_store_scheme) \<Rightarrow> slot_key \<Rightarrow> bool" where
  "listed s key \<longleftrightarrow> (\<exists>assets. hm_get (index s) (fst key) = Some assets \<and> snd key \<in> assets)"

definition index_exact :: "('a holdings_store_scheme) \<Rightarrow> bool" where
  "index_exact s \<longleftrightarrow> (\<forall>key. listed s key \<longleftrightarrow> hm_get (inner s) key \<noteq> None) \<and>
     (\<forall>a. hm_get (index s) a \<noteq> Some {})"

definition index_inv :: "concurrent_store \<Rightarrow> bool" where
  "index_inv s \<longleftrightarrow>
     (\<forall>a x. hm_get (inner s) (a, x) \<noteq> None \<longrightarrow>
        (\<not> listed s (a, x) \<or> index_lock s a = Some (DeleteChecked x True)) \<longrightarrow>
        Created (a, x) \<in># waiting_updates s \<or> index_lock s a = Some (InsertChecked x True)) \<and>
     (\<forall>a x. hm_get (inner s) (a, x) = None \<longrightarrow>
        (listed s (a, x) \<or> index_lock s a = Some (InsertChecked x True)) \<longrightarrow>
        Removed (a, x) \<in># waiting_updates s \<or> index_lock s a = Some (DeleteChecked x True)) \<and>
     (\<forall>a. hm_get (index s) a = Some {} \<longrightarrow> Clean a \<in># waiting_updates s)"

section \<open>Lemmas\<close>

lemma listed_index_insert:
  "hm_get (index_insert idx key b) a =
     (if a = fst key then
        (case hm_get idx a of
           Some S \<Rightarrow> Some (if b then insert (snd key) S else S)
         | None \<Rightarrow> if b then Some {snd key} else None)
      else hm_get idx a)"
  by (auto simp: index_insert_def st.lookup_mutate slot_after_def split: option.splits)

lemma index_delete_eq:
  "index_delete idx key b =
     (case hm_get idx (fst key) of
        None \<Rightarrow> (idx, None)
      | Some S \<Rightarrow> (hm_insert idx (fst key) (if b then S - {snd key} else S),
                  Some ((if b then S - {snd key} else S) = {})))"
  by (simp add: index_delete_def with_mut_if_present_def Let_def split: option.splits)

lemma remove_empty_lookup:
  "hm_get (fst (storage_remove_if idx a (\<lambda>S. S = {}))) j =
     (if j = a \<and> hm_get idx a = Some {} then None else hm_get idx j)"
  by (auto simp: st.lookup_discard)

lemma listed_update_inner [simp]:
  "listed (s\<lparr>inner := d\<rparr>) key = listed s key"
  by (simp add: listed_def)

subsection \<open>Sequential operations\<close>

lemma index_created_exact:
  assumes "index_exact s" and "hm_get (inner s) key = None"
    and "hm_get data key \<noteq> None" and "\<And>j. j \<noteq> key \<Longrightarrow> hm_get data j = hm_get (inner s) j"
  shows "index_exact (index_created_slot (s\<lparr>inner := data\<rparr>) key)"
proof -
  have "listed (index_created_slot (s\<lparr>inner := data\<rparr>) key) j \<longleftrightarrow> j = key \<or> listed s j" for j
    using assms(3)
    by (cases j; cases key) (auto simp: index_created_slot_def listed_def listed_index_insert
        storage_with_def split: option.splits if_splits)
  moreover have "hm_get (index (index_created_slot (s\<lparr>inner := data\<rparr>) key)) a \<noteq> Some {}" for a
    using assms(1,3)
    by (auto simp: index_created_slot_def index_exact_def listed_index_insert storage_with_def
        split: option.splits if_splits)
  moreover have "inner (index_created_slot (s\<lparr>inner := data\<rparr>) key) = data"
    by (simp add: index_created_slot_def)
  ultimately show ?thesis using assms unfolding index_exact_def by metis
qed

lemma unindex_removed_exact:
  assumes "index_exact s" and "hm_get (inner s) key \<noteq> None"
    and "hm_get data key = None" and "\<And>j. j \<noteq> key \<Longrightarrow> hm_get data j = hm_get (inner s) j"
  shows "index_exact (unindex_removed_slot (s\<lparr>inner := data\<rparr>) key)"
proof -
  obtain S where S: "hm_get (index s) (fst key) = Some S" "snd key \<in> S"
    using assms(1,2) unfolding index_exact_def listed_def by meson
  let ?t = "unindex_removed_slot (s\<lparr>inner := data\<rparr>) key"
  have idx: "hm_get (index ?t) a =
      (if a = fst key then (if S = {snd key} then None else Some (S - {snd key}))
       else hm_get (index s) a)" for a
    using S assms(3)
    by (auto simp: unindex_removed_slot_def index_delete_eq storage_with_def remove_empty_lookup)
  have "listed ?t j \<longleftrightarrow> j \<noteq> key \<and> listed s j" for j
    using S by (auto simp: listed_def idx prod_eq_iff)
  moreover have "hm_get (index ?t) a \<noteq> Some {}" for a
    using assms(1) S by (auto simp: idx index_exact_def)
  moreover have "inner ?t = data"
    by (simp add: unindex_removed_slot_def split: prod.splits)
  ultimately show ?thesis using assms unfolding index_exact_def by metis
qed

lemma index_unchanged_exact:
  assumes "index_exact s" and "\<And>j. (hm_get data j = None) = (hm_get (inner s) j = None)"
  shows "index_exact (s\<lparr>inner := data\<rparr>)"
  using assms by (simp add: index_exact_def)

lemma index_mutation_exact:
  assumes "index_exact s" and "\<And>j. j \<noteq> key \<Longrightarrow> hm_get data j = hm_get (inner s) j"
    and "hm_get (inner s) key \<noteq> None \<Longrightarrow> hm_get data key \<noteq> None"
    and "created \<longleftrightarrow> hm_get (inner s) key = None \<and> hm_get data key \<noteq> None"
  shows "index_exact (if created then index_created_slot (s\<lparr>inner := data\<rparr>) key
    else s\<lparr>inner := data\<rparr>)"
proof (cases created)
  case True
  then show ?thesis using index_created_exact [OF assms(1)] assms by simp
next
  case False
  have "(hm_get data j = None) = (hm_get (inner s) j = None)" for j
    using assms(2-4) False by metis
  then show ?thesis using False index_unchanged_exact [OF assms(1)] by simp
qed

lemma store_with_mut_exact:
  assumes "index_exact s" shows "index_exact (fst (store_with_mut s key d m))"
proof -
  obtain data out where data: "with_mut (inner s) key d m = (data, out)" by force
  have "index_exact (if hm_get (inner s) key = None
      then index_created_slot (s\<lparr>inner := data\<rparr>) key else s\<lparr>inner := data\<rparr>)"
    using with_mut_lookup [of "inner s" key d m] data
    by (intro index_mutation_exact [OF assms]) auto
  then show ?thesis by (simp add: store_with_mut_def data Let_def)
qed

lemma slot_after_created:
  assumes "with_mut_or_insert_prune_new_if data key d p m = (data', r)"
  shows "j \<noteq> key \<Longrightarrow> hm_get data' j = hm_get data j"
    and "hm_get data key \<noteq> None \<Longrightarrow> hm_get data' key \<noteq> None"
    and "hm_get data key = None \<and> is_ok r \<and> \<not> p (fst (m d True)) \<longleftrightarrow>
      hm_get data key = None \<and> hm_get data' key \<noteq> None"
  using st.lookup_mutate [of data key d p m] st.mutate_output [of data key d p m] assms
  by (auto simp: slot_after_def slot_output_def split: option.splits prod.splits sum.splits)

lemma store_prune_exact:
  assumes "index_exact s"
  shows "index_exact (fst (store_with_mut_or_insert_prune_new_if_zero s key d m))"
proof -
  obtain data r where data:
    "with_mut_or_insert_prune_new_if (inner s) key d holdings_is_zero m = (data, r)" by force
  have "index_exact (if hm_get (inner s) key = None \<and> is_ok r \<and>
        \<not> holdings_is_zero (fst (m d True))
      then index_created_slot (s\<lparr>inner := data\<rparr>) key else s\<lparr>inner := data\<rparr>)"
    by (rule index_mutation_exact [OF assms slot_after_created [OF data]])
  then show ?thesis
    by (auto simp: store_with_mut_or_insert_prune_new_if_zero_def data Let_def split: if_splits)
qed

lemma store_insert_exact:
  assumes "index_exact s" shows "index_exact (fst (store_with_mut_or_insert s key d m))"
proof -
  obtain data r where data:
    "with_mut_or_insert_prune_new_if (inner s) key d (\<lambda>_. False) m = (data, r)" by force
  have "index_exact (if hm_get (inner s) key = None \<and> is_ok r \<and> \<not> False
      then index_created_slot (s\<lparr>inner := data\<rparr>) key else s\<lparr>inner := data\<rparr>)"
    by (rule index_mutation_exact [OF assms slot_after_created [OF data]])
  then show ?thesis by (simp add: store_with_mut_or_insert_def with_mut_or_insert_def data Let_def)
qed

lemma store_remove_if_exact:
  assumes "index_exact s" shows "index_exact (fst (store_remove_if s key q))"
proof -
  obtain data r where data: "storage_remove_if (inner s) key q = (data, r)" by force
  have look: "hm_get data j =
      (if j = key \<and> (\<exists>v. hm_get (inner s) key = Some v \<and> q v) then None
       else hm_get (inner s) j)" for j
    using st.lookup_discard [of "inner s" key q j] data by simp
  have out: "r \<longleftrightarrow> (\<exists>v. hm_get (inner s) key = Some v \<and> q v)"
    using st.discard_output [of "inner s" key q] data by simp
  show ?thesis
  proof (cases r)
    case True
    then have "index_exact (unindex_removed_slot (s\<lparr>inner := data\<rparr>) key)"
      using out by (intro unindex_removed_exact [OF assms]) (auto simp: look)
    then show ?thesis using True by (simp add: store_remove_if_def data)
  next
    case False
    then show ?thesis using out index_unchanged_exact [OF assms, of data]
      by (auto simp: store_remove_if_def data look Let_def)
  qed
qed

lemma store_remove_exact:
  assumes "index_exact s" shows "index_exact (fst (store_remove s key))"
proof (cases "hm_get (inner s) key")
  case None
  then show ?thesis using index_unchanged_exact [OF assms, of "hm_remove (inner s) key"]
    by (auto simp: store_remove_def storage_remove_def)
next
  case (Some v)
  then have "index_exact (unindex_removed_slot (s\<lparr>inner := hm_remove (inner s) key\<rparr>) key)"
    by (intro unindex_removed_exact [OF assms]) auto
  then show ?thesis using Some by (simp add: store_remove_def storage_remove_def)
qed

lemma store_update_exact:
  assumes "index_exact s" shows "index_exact (fst (store_with_mut_if_present s key m))"
  using index_unchanged_exact [OF assms, of "fst (with_mut_if_present (inner s) key m)"]
    with_mut_if_present_lookup [of "inner s" key m]
  by (auto simp: store_with_mut_if_present_def split: prod.splits)

subsection \<open>Concurrent steps\<close>

lemma listed_unfold:
  "listed (s\<lparr>index := idx, waiting_updates := w, index_lock := l\<rparr>) key \<longleftrightarrow>
     (\<exists>S. hm_get idx (fst key) = Some S \<and> snd key \<in> S)"
  "listed (s\<lparr>waiting_updates := w\<rparr>) key = listed s key"
  "listed (s\<lparr>index_lock := l\<rparr>) key = listed s key"
  by (simp_all add: listed_def)

lemma index_inv_new: "index_inv concurrent_new"
  by (simp add: index_inv_def concurrent_new_def listed_def)

lemma index_inv_rules:
  assumes "index_inv s"
  shows inv_present: "hm_get (inner s) (a, x) \<noteq> None \<Longrightarrow>
      \<not> listed s (a, x) \<or> index_lock s a = Some (DeleteChecked x True) \<Longrightarrow>
      Created (a, x) \<in># waiting_updates s \<or> index_lock s a = Some (InsertChecked x True)"
    and inv_absent: "hm_get (inner s) (a, x) = None \<Longrightarrow>
      listed s (a, x) \<or> index_lock s a = Some (InsertChecked x True) \<Longrightarrow>
      Removed (a, x) \<in># waiting_updates s \<or> index_lock s a = Some (DeleteChecked x True)"
    and inv_empty: "hm_get (index s) a = Some {} \<Longrightarrow> Clean a \<in># waiting_updates s"
  using assms unfolding index_inv_def by blast+

lemma in_diff_other: "t \<noteq> u \<Longrightarrow> t \<in># M - {#u#} \<longleftrightarrow> t \<in># M"
  by (simp add: in_diff_count)

lemma step_inner_inv:
  assumes inv: "index_inv s" and oth: "\<And>j. j \<noteq> key \<Longrightarrow> hm_get d j = hm_get (inner s) j"
    and w: "\<And>t. t \<in># waiting_updates s \<Longrightarrow> t \<in># w"
    and cr: "hm_get (inner s) key = None \<Longrightarrow> hm_get d key \<noteq> None \<Longrightarrow> Created key \<in># w"
    and rm: "hm_get (inner s) key \<noteq> None \<Longrightarrow> hm_get d key = None \<Longrightarrow> Removed key \<in># w"
  shows "index_inv (s\<lparr>inner := d, waiting_updates := w\<rparr>)"
proof -
  have l: "listed (s\<lparr>inner := d, waiting_updates := w\<rparr>) k = listed s k" for k
    by (simp add: listed_def)
  have p: "hm_get d (a, x) \<noteq> None \<longrightarrow>
      \<not> listed s (a, x) \<or> index_lock s a = Some (DeleteChecked x True) \<longrightarrow>
      Created (a, x) \<in># w \<or> index_lock s a = Some (InsertChecked x True)" for a x
    using inv_present [OF inv, of a x] oth [of "(a, x)"] w cr by metis
  have q: "hm_get d (a, x) = None \<longrightarrow>
      listed s (a, x) \<or> index_lock s a = Some (InsertChecked x True) \<longrightarrow>
      Removed (a, x) \<in># w \<or> index_lock s a = Some (DeleteChecked x True)" for a x
    using inv_absent [OF inv, of a x] oth [of "(a, x)"] w rm by metis
  have e: "hm_get (index s) a = Some {} \<longrightarrow> Clean a \<in># w" for a
    using inv_empty [OF inv, of a] w by blast
  show ?thesis unfolding index_inv_def using p q e by (simp add: l)
qed

lemma index_invI:
  assumes "\<And>a x. hm_get (inner s) (a, x) \<noteq> None \<Longrightarrow>
      \<not> listed s (a, x) \<or> index_lock s a = Some (DeleteChecked x True) \<Longrightarrow>
      Created (a, x) \<in># waiting_updates s \<or> index_lock s a = Some (InsertChecked x True)"
    and "\<And>a x. hm_get (inner s) (a, x) = None \<Longrightarrow>
      listed s (a, x) \<or> index_lock s a = Some (InsertChecked x True) \<Longrightarrow>
      Removed (a, x) \<in># waiting_updates s \<or> index_lock s a = Some (DeleteChecked x True)"
    and "\<And>a. hm_get (index s) a = Some {} \<Longrightarrow> Clean a \<in># waiting_updates s"
  shows "index_inv s"
  using assms unfolding index_inv_def by blast

lemma check_created_inv:
  assumes inv: "index_inv s" and free: "index_lock s a = None"
  shows "index_inv (s\<lparr>waiting_updates := waiting_updates s - {#Created (a, x)#},
      index_lock := (index_lock s)(a \<mapsto> InsertChecked x (hm_get (inner s) (a, x) \<noteq> None))\<rparr>)"
proof (rule index_invI, goal_cases)
  case (1 b y)
  then show ?case using inv_present [OF inv, of b y] free
    by (cases "b = a"; cases "y = x") (auto simp: listed_unfold in_diff_other)
next
  case (2 b y)
  then show ?case using inv_absent [OF inv, of b y] free
    by (cases "b = a") (auto simp: listed_unfold in_diff_other split: if_splits)
next
  case (3 b)
  then show ?case using inv_empty [OF inv, of b] by (simp add: in_diff_other)
qed

lemma write_created_inv:
  assumes inv: "index_inv s" and mine: "index_lock s a = Some (InsertChecked x b)"
  shows "index_inv (s\<lparr>index := index_insert (index s) (a, x) b,
      index_lock := (index_lock s)(a := None)\<rparr>)"
proof -
  have l: "listed (s\<lparr>index := index_insert (index s) (a, x) b, index_lock := l\<rparr>) k \<longleftrightarrow>
      listed s k \<or> b \<and> k = (a, x)" for k l
    by (cases k) (auto simp: listed_def listed_index_insert split: option.splits if_splits)
  show ?thesis
  proof (rule index_invI, goal_cases)
    case (1 c y)
    then show ?case using inv_present [OF inv, of c y] mine
      by (cases "c = a") (auto simp: l)
  next
    case (2 c y)
    then show ?case using inv_absent [OF inv, of c y] mine
      by (cases "c = a") (auto simp: l)
  next
    case (3 c)
    then show ?case using inv_empty [OF inv, of c]
      by (auto simp: listed_index_insert split: option.splits if_splits)
  qed
qed

lemma skip_removed_inv:
  assumes inv: "index_inv s" and free: "index_lock s a = None" and no: "hm_get (index s) a = None"
  shows "index_inv (s\<lparr>waiting_updates := waiting_updates s - {#Removed (a, x)#}\<rparr>)"
proof (rule index_invI, goal_cases)
  case (1 b y)
  then show ?case using inv_present [OF inv, of b y] by (auto simp: listed_unfold in_diff_other)
next
  case (2 b y)
  then have "(b, y) \<noteq> (a, x)" using no free by (auto simp: listed_def)
  then show ?case using 2 inv_absent [OF inv, of b y] by (auto simp: listed_unfold in_diff_other)
next
  case (3 b)
  then show ?case using inv_empty [OF inv, of b] by (simp add: in_diff_other)
qed

lemma check_removed_inv:
  assumes inv: "index_inv s" and free: "index_lock s a = None"
  shows "index_inv (s\<lparr>waiting_updates := waiting_updates s - {#Removed (a, x)#},
      index_lock := (index_lock s)(a \<mapsto> DeleteChecked x (hm_get (inner s) (a, x) = None))\<rparr>)"
proof (rule index_invI, goal_cases)
  case (1 b y)
  then show ?case using inv_present [OF inv, of b y] free
    by (cases "b = a") (auto simp: listed_unfold in_diff_other split: if_splits)
next
  case (2 b y)
  then show ?case using inv_absent [OF inv, of b y] free
    by (cases "b = a"; cases "y = x") (auto simp: listed_unfold in_diff_other)
next
  case (3 b)
  then show ?case using inv_empty [OF inv, of b] by (simp add: in_diff_other)
qed

lemma write_removed_inv:
  assumes inv: "index_inv s" and mine: "index_lock s a = Some (DeleteChecked x b)"
    and del: "index_delete (index s) (a, x) b = (idx, is_empty)"
  shows "index_inv (s\<lparr>index := idx, index_lock := (index_lock s)(a := None),
      waiting_updates := (if is_empty = Some True then add_mset (Clean a) (waiting_updates s)
        else waiting_updates s)\<rparr>)"
    (is "index_inv ?t")
proof -
  have l: "listed ?t k \<longleftrightarrow> listed s k \<and> \<not> (b \<and> k = (a, x))" for k
    using del
    by (cases k) (auto simp: listed_def index_delete_eq split: option.splits if_splits)
  have e: "hm_get idx c = Some {} \<Longrightarrow> c = a \<and> is_empty = Some True \<or> hm_get (index s) c = Some {}"
    for c
    using del by (auto simp: index_delete_eq split: option.splits if_splits)
  show ?thesis
  proof (rule index_invI, goal_cases)
    case (1 c y)
    then show ?case using inv_present [OF inv, of c y] mine
      by (cases "c = a") (auto simp: l)
  next
    case (2 c y)
    then show ?case using inv_absent [OF inv, of c y] mine
      by (cases "c = a") (auto simp: l)
  next
    case (3 c)
    then show ?case using inv_empty [OF inv, of c] e [of c] by auto
  qed
qed

lemma clean_inv:
  assumes inv: "index_inv s"
  shows "index_inv (s\<lparr>index := fst (storage_remove_if (index s) a (\<lambda>assets. assets = {})),
      waiting_updates := waiting_updates s - {#Clean a#}\<rparr>)"
    (is "index_inv ?t")
proof -
  have l: "listed ?t k = listed s k" for k
    by (auto simp: listed_def remove_empty_lookup)
  show ?thesis
  proof (rule index_invI, goal_cases)
    case (1 c y)
    then show ?case using inv_present [OF inv, of c y] by (auto simp: l in_diff_other)
  next
    case (2 c y)
    then show ?case using inv_absent [OF inv, of c y] by (auto simp: l in_diff_other)
  next
    case (3 c)
    then show ?case using inv_empty [OF inv, of c]
      by (cases "c = a") (auto simp: remove_empty_lookup in_diff_other split: if_splits)
  qed
qed

lemma store_step_inv: "store_step s t \<Longrightarrow> index_inv s \<Longrightarrow> index_inv t"
proof (induction rule: store_step.induct)
  case (update s key h)
  then show ?case
    using step_inner_inv [of s key "hm_insert (inner s) key h" "waiting_updates s"] by auto
next
  case (check_created a x s)
  then show ?case by (intro check_created_inv)
next
  case (write_removed s a x b idx is_empty)
  then show ?case by (intro write_removed_inv)
qed (auto intro: write_created_inv skip_removed_inv check_removed_inv clean_inv
    intro!: step_inner_inv)

lemma store_steps_inv: "store_step\<^sup>*\<^sup>* concurrent_new t \<Longrightarrow> index_inv t"
  by (induction rule: rtranclp_induct) (auto intro: index_inv_new store_step_inv)

section \<open>Properties\<close>

text \<open>
  Run one at a time, every operation of the holdings table keeps the index exact: an account's
  set lists precisely the assets it has a slot for, and no empty set is kept.
\<close>

lemma store_operations_keep_index_exact:
  assumes "index_exact s"
  shows "index_exact (fst (store_with_mut s key d m)) \<and>
    index_exact (fst (store_with_mut_or_insert s key d m1)) \<and>
    index_exact (fst (store_with_mut_or_insert_prune_new_if_zero s key d m1)) \<and>
    index_exact (fst (store_with_mut_if_present s key m2)) \<and>
    index_exact (fst (store_remove s key)) \<and> index_exact (fst (store_remove_if s key q)) \<and>
    index_exact (fst (store_remove_if_zero s key))"
  unfolding store_remove_if_zero_def
  by (intro conjI assms store_with_mut_exact store_insert_exact store_prune_exact
      store_update_exact store_remove_exact store_remove_if_exact)

text \<open>
  (C25) Under any interleaving of slot changes and index updates from the empty table, a slot whose
  creation is no longer in flight is listed, and once no update is in flight the index is exact: it
  lists precisely the slots that exist and keeps no empty set.
\<close>

theorem concurrent_index_exact_at_quiescence:
  assumes "store_step\<^sup>*\<^sup>* concurrent_new t"
  shows "(\<forall>a x. hm_get (inner t) (a, x) \<noteq> None \<and> Created (a, x) \<notin># waiting_updates t \<and>
       index_lock t a \<noteq> Some (InsertChecked x True) \<longrightarrow> listed t (a, x)) \<and>
    (quiescent t \<longrightarrow> index_exact t)"
proof -
  have inv: "index_inv t" using store_steps_inv [OF assms] .
  have "index_exact t" if q: "quiescent t"
  proof -
    have q': "waiting_updates t = {#}" "\<And>a. index_lock t a = None"
      using q by (auto simp: quiescent_def)
    have "listed t (a, x) \<longleftrightarrow> hm_get (inner t) (a, x) \<noteq> None" for a x
      using inv_present [OF inv, of a x] inv_absent [OF inv, of a x] q' by auto
    moreover have "hm_get (index t) a \<noteq> Some {}" for a
      using inv_empty [OF inv, of a] q' by auto
    ultimately show ?thesis by (auto simp: index_exact_def)
  qed
  then show ?thesis using inv_present [OF inv] by blast
qed

theorem concurrent_index_exact_at_quiescence_witness:
  "\<exists>t. store_step\<^sup>*\<^sup>* concurrent_new t \<and> quiescent t \<and> index_exact t \<and>
     hm_get (inner t) (1, ''USD'') = Some holdings_zero \<and> listed t (1, ''USD'')"
proof -
  let ?k = "(1, ''USD'') :: slot_key"
  let ?t1 = "\<lparr>inner = [(?k, holdings_zero)], index = [], waiting_updates = {#Created ?k#},
      index_lock = (\<lambda>_. None)\<rparr>"
  let ?t2 = "\<lparr>inner = [(?k, holdings_zero)], index = [], waiting_updates = {#},
      index_lock = (\<lambda>_. None)(1 \<mapsto> InsertChecked ''USD'' True)\<rparr>"
  let ?t3 = "\<lparr>inner = [(?k, holdings_zero)], index = index_insert [] ?k True,
      waiting_updates = {#}, index_lock = (\<lambda>_. None)\<rparr>"
  have s1: "store_step concurrent_new ?t1"
    using store_step.create [of concurrent_new ?k holdings_zero] by (simp add: concurrent_new_def)
  have s2: "store_step ?t1 ?t2"
    using store_step.check_created [of 1 "''USD''" ?t1] by simp
  have s3: "store_step ?t2 ?t3"
    using store_step.write_created [of ?t2 1 "''USD''" True] by simp
  have r: "store_step\<^sup>*\<^sup>* concurrent_new ?t3"
    using s1 s2 s3 by (meson converse_rtranclp_into_rtranclp rtranclp.rtrancl_refl)
  have q: "quiescent ?t3" by (simp add: quiescent_def)
  have i: "hm_get (inner ?t3) ?k = Some holdings_zero" by simp
  have "index_exact ?t3 \<and> listed ?t3 ?k"
    using concurrent_index_exact_at_quiescence [OF r] q by simp
  then show ?thesis using r q i by blast
qed

end
