(* ===== verification/Spot_Settings.thy ===== *)
theory Spot_Settings
  imports Market_Data Pnl_Kill_Switch Holdings_Store
begin

text \<open>
  The runtime settings of the spot funds policy (\<open>crates/openpit/src/pretrade/policies/spot_funds\<close>,
  files \<open>market_data.rs\<close>, \<open>market_order_pricer.rs\<close>, \<open>limit_mode.rs\<close> and
  \<open>pnl.rs\<close>): the slippage cascade with its pricers, the funds limit mode cascade, the position
  limits, and the P\&L barriers of the realized line and of the four axes, with the selection of the
  barriers that a change of settings makes effective.
\<close>

section \<open>Pricing with slippage\<close>

datatype market_order_price_error = PriceUncomputable

record with_slippage =
  ws_factor :: decimal

text \<open>The quotient of a 16-bit number by 10000 has four decimals: the division is exact.\<close>

definition with_slippage_new :: "u16 \<Rightarrow> with_slippage" where
  "with_slippage_new bps = \<lparr>ws_factor = of_nat (unat bps) / 10000\<rparr>"

definition pricer_effective_buy_price ::
  "dec_ops \<Rightarrow> with_slippage \<Rightarrow> price \<Rightarrow> market_order_price_error + price" where
  "pricer_effective_buy_price D self mark =
     (if mark \<le> 0 then Inl PriceUncomputable
      else bind_res (ok_or (dec_checked_add D 1 (ws_factor self)) PriceUncomputable) (\<lambda>factor.
           ok_or (dec_checked_mul D mark factor) PriceUncomputable))"

definition pricer_effective_sell_price ::
  "dec_ops \<Rightarrow> with_slippage \<Rightarrow> price \<Rightarrow> market_order_price_error + price" where
  "pricer_effective_sell_price D self mark =
     bind_res (ok_or (dec_checked_sub D 1 (ws_factor self)) PriceUncomputable) (\<lambda>factor.
     bind_res (ok_or (dec_checked_mul D mark factor) PriceUncomputable) (\<lambda>price.
       if price \<le> 0 then Inl PriceUncomputable else Inr price))"

section \<open>Values of the settings\<close>

datatype spot_funds_limit_mode = Enforce | TrackOnly

datatype spot_funds_config_error = SlippageOutOfRange u16 | NoPnlBoundsConfigured
  | NoPnlBarriersConfigured

datatype spot_funds_price_error = PriceQuoteUnavailable | CalculationFailed

datatype spot_funds_pricing_source = Mark | BookTop

record spot_funds_override =
  ovr_slippage_bps :: "u16 option"

datatype spot_funds_override_target = TargetInstrument instrument_id
  | TargetInstrumentAccount instrument_id account_id
  | TargetInstrumentAccountGroup instrument_id account_group_id

datatype pnl_bounds_axis = AccountUnrealized | AccountTotal | PositionUnrealized | PositionTotal

definition pnl_axes_ALL :: "pnl_bounds_axis list" where
  "pnl_axes_ALL = [AccountUnrealized, AccountTotal, PositionUnrealized, PositionTotal]"

record spot_pnl_barrier =
  spb_currency :: asset
  spb_lower_bound :: "pnl option"
  spb_upper_bound :: "pnl option"

record spot_pnl_group_barrier =
  sgb_barrier :: spot_pnl_barrier
  sgb_account_group_id :: account_group_id

record spot_pnl_account_barrier =
  sab_barrier :: spot_pnl_barrier
  sab_account_id :: account_id

definition MAX_SLIPPAGE_BPS :: u16 where
  "MAX_SLIPPAGE_BPS = 10000"

definition check_slippage_bps :: "u16 \<Rightarrow> spot_funds_config_error + unit" where
  "check_slippage_bps bps = (if bps > MAX_SLIPPAGE_BPS then Inl (SlippageOutOfRange bps) else Inr ())"

definition validate_pnl_bounds :: "spot_pnl_barrier \<Rightarrow> spot_funds_config_error + unit" where
  "validate_pnl_bounds barrier =
     (if \<not> has_configured_bound (spb_lower_bound barrier) (spb_upper_bound barrier)
      then Inl NoPnlBoundsConfigured else Inr ())"

fun collect_pnl_account_group_barriers ::
  "(account_group_id, spot_pnl_group_barrier) hash_map \<Rightarrow> spot_pnl_group_barrier list \<Rightarrow>
   spot_funds_config_error + (account_group_id, spot_pnl_group_barrier) hash_map" where
  "collect_pnl_account_group_barriers out [] = Inr out"
| "collect_pnl_account_group_barriers out (b # bs) =
     bind_res (validate_pnl_bounds (sgb_barrier b)) (\<lambda>_.
       collect_pnl_account_group_barriers (hm_insert out (sgb_account_group_id b) b) bs)"

fun collect_pnl_account_barriers ::
  "(account_id, spot_pnl_account_barrier) hash_map \<Rightarrow> spot_pnl_account_barrier list \<Rightarrow>
   spot_funds_config_error + (account_id, spot_pnl_account_barrier) hash_map" where
  "collect_pnl_account_barriers out [] = Inr out"
| "collect_pnl_account_barriers out (b # bs) =
     bind_res (validate_pnl_bounds (sab_barrier b)) (\<lambda>_.
       collect_pnl_account_barriers (hm_insert out (sab_account_id b) b) bs)"

section \<open>A set of barriers\<close>

record pnl_barrier_set =
  pbs_global :: "spot_pnl_barrier option"
  pbs_groups :: "(account_group_id, spot_pnl_group_barrier) hash_map"
  pbs_accounts :: "(account_id, spot_pnl_account_barrier) hash_map"

definition barrier_set_default :: pnl_barrier_set where
  "barrier_set_default = \<lparr>pbs_global = None, pbs_groups = [], pbs_accounts = []\<rparr>"

definition set_global_barrier ::
  "pnl_barrier_set \<Rightarrow> spot_pnl_barrier option \<Rightarrow> pnl_barrier_set \<times> (spot_funds_config_error + unit)" where
  "set_global_barrier self barrier =
     (case (case barrier of Some b \<Rightarrow> validate_pnl_bounds b | None \<Rightarrow> Inr ()) of
        Inl e \<Rightarrow> (self, Inl e)
      | Inr _ \<Rightarrow> (self\<lparr>pbs_global := barrier\<rparr>, Inr ()))"

definition set_account_group_barriers ::
  "pnl_barrier_set \<Rightarrow> spot_pnl_group_barrier list \<Rightarrow> pnl_barrier_set \<times> (spot_funds_config_error + unit)" where
  "set_account_group_barriers self barriers =
     (case collect_pnl_account_group_barriers [] barriers of
        Inl e \<Rightarrow> (self, Inl e)
      | Inr out \<Rightarrow> (self\<lparr>pbs_groups := out\<rparr>, Inr ()))"

definition set_account_barriers ::
  "pnl_barrier_set \<Rightarrow> spot_pnl_account_barrier list \<Rightarrow> pnl_barrier_set \<times> (spot_funds_config_error + unit)" where
  "set_account_barriers self barriers =
     (case collect_pnl_account_barriers [] barriers of
        Inl e \<Rightarrow> (self, Inl e)
      | Inr out \<Rightarrow> (self\<lparr>pbs_accounts := out\<rparr>, Inr ()))"

definition filter_option :: "('a \<Rightarrow> bool) \<Rightarrow> 'a option \<Rightarrow> 'a option" where
  "filter_option P x = (case x of Some v \<Rightarrow> if P v then Some v else None | None \<Rightarrow> None)"

definition matches_currency :: "asset option \<Rightarrow> spot_pnl_barrier \<Rightarrow> bool" where
  "matches_currency account_currency barrier =
     (case account_currency of None \<Rightarrow> True | Some currency \<Rightarrow> spb_currency barrier = currency)"

definition barrier_for ::
  "pnl_barrier_set \<Rightarrow> account_id \<Rightarrow> account_group_id option \<Rightarrow> asset option \<Rightarrow> spot_pnl_barrier option" where
  "barrier_for self account g account_currency =
     (case hm_get (pbs_accounts self) account of
        Some b \<Rightarrow> Some (sab_barrier b)
      | None \<Rightarrow>
          (case filter_option (matches_currency account_currency)
                  (map_option sgb_barrier (Option.bind g (hm_get (pbs_groups self)))) of
             Some b \<Rightarrow> Some b
           | None \<Rightarrow> filter_option (matches_currency account_currency) (pbs_global self)))"

definition barriers_reference_account :: "pnl_barrier_set \<Rightarrow> account_id \<Rightarrow> bool" where
  "barriers_reference_account self account \<longleftrightarrow> hm_get (pbs_accounts self) account \<noteq> None"

definition has_scope :: "pnl_barrier_set \<Rightarrow> account_id \<Rightarrow> account_group_id option \<Rightarrow> bool" where
  "has_scope self account g \<longleftrightarrow>
     barriers_reference_account self account \<or>
     (case g of Some k \<Rightarrow> hm_get (pbs_groups self) k \<noteq> None | None \<Rightarrow> False) \<or>
     pbs_global self \<noteq> None"

definition barrier_set_is_empty :: "pnl_barrier_set \<Rightarrow> bool" where
  "barrier_set_is_empty self \<longleftrightarrow> pbs_global self = None \<and> pbs_groups self = [] \<and> pbs_accounts self = []"

section \<open>Barriers that a change makes effective\<close>

record account_pnl_entry =
  ape_state :: pnl_state
  ape_assertion_token :: "u64 option"

type_synonym account_pnl_storage = "(account_id, account_pnl_entry) storage"

definition holdings_keys :: "holdings_store \<Rightarrow> slot_key list" where
  "holdings_keys self = storage_keys (inner self)"

text \<open>The keys whose entry differs between two maps, in key order as a \<open>BTreeSet\<close> has them.\<close>

definition changed_keys :: "('k, 'v) hash_map \<Rightarrow> ('k, 'v) hash_map \<Rightarrow> 'k set" where
  "changed_keys previous current =
     {k \<in> set (hm_keys previous @ hm_keys current). hm_get previous k \<noteq> hm_get current k}"

definition changed_barriers ::
  "pnl_barrier_set \<Rightarrow> pnl_barrier_set \<Rightarrow> account_pnl_storage \<Rightarrow> holdings_store \<Rightarrow>
   (account_id \<times> account_group_id) list \<Rightarrow> account_id list \<Rightarrow>
   (account_id \<Rightarrow> account_group_id option \<Rightarrow> asset option) \<Rightarrow>
   (account_id \<times> account_group_id option \<times> asset option \<times> spot_pnl_barrier) list" where
  "changed_barriers self previous pnl holdings memberships known_accounts resolve_account_currency =
     (let global_changed = (pbs_global previous \<noteq> pbs_global self);
          changed_accounts = changed_keys (pbs_accounts previous) (pbs_accounts self);
          changed_groups = changed_keys (pbs_groups previous) (pbs_groups self)
      in if \<not> global_changed \<and> changed_accounts = {} \<and> changed_groups = {} then []
         else let members = map_of (rev memberships);
                  candidates =
                    (if global_changed
                     then changed_accounts \<union> set (storage_keys pnl) \<union> fst ` set (holdings_keys holdings) \<union>
                          set (hm_keys (pbs_accounts previous)) \<union> set (hm_keys (pbs_accounts self)) \<union>
                          fst ` set memberships \<union> set known_accounts
                     else if changed_groups \<noteq> {}
                     then changed_accounts \<union>
                          {a \<in> fst ` set memberships. \<exists>g. members a = Some g \<and> g \<in> changed_groups}
                     else changed_accounts)
              in List.map_filter (\<lambda>account.
                   let g = members account;
                       currency = resolve_account_currency account g
                   in case barrier_for self account g currency of
                        None \<Rightarrow> None
                      | Some barrier \<Rightarrow>
                          if barrier_for previous account g currency \<noteq> Some barrier
                          then Some (account, g, currency, barrier) else None)
                 (sorted_list_of_set candidates))"

section \<open>The settings\<close>

record spot_funds_settings =
  sfs_account_overrides :: "(instrument_id \<times> account_id, with_slippage) hash_map"
  sfs_account_group_overrides :: "(instrument_id \<times> account_group_id, with_slippage) hash_map"
  sfs_instrument_overrides :: "(instrument_id, with_slippage) hash_map"
  sfs_account_limit_modes :: "(account_id, spot_funds_limit_mode) hash_map"
  sfs_account_group_limit_modes :: "(account_group_id, spot_funds_limit_mode) hash_map"
  sfs_position_limits :: "(account_id \<times> asset, quantity) hash_map"
  sfs_pnl_barriers :: pnl_barrier_set
  sfs_pnl_account_unrealized_barriers :: pnl_barrier_set
  sfs_pnl_account_total_barriers :: pnl_barrier_set
  sfs_pnl_position_unrealized_barriers :: pnl_barrier_set
  sfs_pnl_position_total_barriers :: pnl_barrier_set
  sfs_global_pricer :: with_slippage
  sfs_pricing_source :: spot_funds_pricing_source
  sfs_global_limit_mode :: spot_funds_limit_mode

fun pnl_axis_barriers :: "spot_funds_settings \<Rightarrow> pnl_bounds_axis \<Rightarrow> pnl_barrier_set" where
  "pnl_axis_barriers self AccountUnrealized = sfs_pnl_account_unrealized_barriers self"
| "pnl_axis_barriers self AccountTotal = sfs_pnl_account_total_barriers self"
| "pnl_axis_barriers self PositionUnrealized = sfs_pnl_position_unrealized_barriers self"
| "pnl_axis_barriers self PositionTotal = sfs_pnl_position_total_barriers self"

fun pnl_axis_barriers_put ::
  "spot_funds_settings \<Rightarrow> pnl_bounds_axis \<Rightarrow> pnl_barrier_set \<Rightarrow> spot_funds_settings" where
  "pnl_axis_barriers_put self AccountUnrealized b = self\<lparr>sfs_pnl_account_unrealized_barriers := b\<rparr>"
| "pnl_axis_barriers_put self AccountTotal b = self\<lparr>sfs_pnl_account_total_barriers := b\<rparr>"
| "pnl_axis_barriers_put self PositionUnrealized b = self\<lparr>sfs_pnl_position_unrealized_barriers := b\<rparr>"
| "pnl_axis_barriers_put self PositionTotal b = self\<lparr>sfs_pnl_position_total_barriers := b\<rparr>"

definition settings_references_account :: "spot_funds_settings \<Rightarrow> account_id \<Rightarrow> bool" where
  "settings_references_account self account \<longleftrightarrow>
     list_ex (\<lambda>k. snd k = account) (hm_keys (sfs_account_overrides self)) \<or>
     hm_get (sfs_account_limit_modes self) account \<noteq> None \<or>
     list_ex (\<lambda>k. fst k = account) (hm_keys (sfs_position_limits self)) \<or>
     barriers_reference_account (sfs_pnl_barriers self) account \<or>
     list_ex (\<lambda>axis. barriers_reference_account (pnl_axis_barriers self axis) account) pnl_axes_ALL"

definition place_override ::
  "spot_funds_settings \<Rightarrow> spot_funds_override_target \<Rightarrow> with_slippage option \<Rightarrow> spot_funds_settings" where
  "place_override self target pricer =
     (case target of
        TargetInstrument i \<Rightarrow>
          self\<lparr>sfs_instrument_overrides := set_or_clear (sfs_instrument_overrides self) i pricer\<rparr>
      | TargetInstrumentAccount i account \<Rightarrow>
          self\<lparr>sfs_account_overrides := set_or_clear (sfs_account_overrides self) (i, account) pricer\<rparr>
      | TargetInstrumentAccountGroup i g \<Rightarrow>
          self\<lparr>sfs_account_group_overrides := set_or_clear (sfs_account_group_overrides self) (i, g) pricer\<rparr>)"

fun add_overrides ::
  "spot_funds_settings \<Rightarrow> (spot_funds_override_target \<times> spot_funds_override) list \<Rightarrow>
   spot_funds_config_error + spot_funds_settings" where
  "add_overrides self [] = Inr self"
| "add_overrides self ((target, ovr) # rest) =
     (case ovr_slippage_bps ovr of
        None \<Rightarrow> add_overrides self rest
      | Some bps \<Rightarrow>
          bind_res (check_slippage_bps bps) (\<lambda>_.
            add_overrides (place_override self target (Some (with_slippage_new bps))) rest))"

definition spot_settings_new ::
  "u16 \<Rightarrow> spot_funds_pricing_source \<Rightarrow> (spot_funds_override_target \<times> spot_funds_override) list \<Rightarrow>
   spot_funds_config_error + spot_funds_settings" where
  "spot_settings_new slippage_bps pricing_source overrides =
     bind_res (check_slippage_bps slippage_bps) (\<lambda>_.
       add_overrides
         \<lparr>sfs_account_overrides = [], sfs_account_group_overrides = [], sfs_instrument_overrides = [],
          sfs_account_limit_modes = [], sfs_account_group_limit_modes = [], sfs_position_limits = [],
          sfs_pnl_barriers = barrier_set_default,
          sfs_pnl_account_unrealized_barriers = barrier_set_default,
          sfs_pnl_account_total_barriers = barrier_set_default,
          sfs_pnl_position_unrealized_barriers = barrier_set_default,
          sfs_pnl_position_total_barriers = barrier_set_default,
          sfs_global_pricer = with_slippage_new slippage_bps, sfs_pricing_source = pricing_source,
          sfs_global_limit_mode = Enforce\<rparr> overrides)"

text \<open>A setter that fails leaves the settings as they were.\<close>

definition set_global_slippage_bps ::
  "spot_funds_settings \<Rightarrow> u16 \<Rightarrow> spot_funds_settings \<times> (spot_funds_config_error + unit)" where
  "set_global_slippage_bps self bps =
     (case check_slippage_bps bps of
        Inl e \<Rightarrow> (self, Inl e)
      | Inr _ \<Rightarrow> (self\<lparr>sfs_global_pricer := with_slippage_new bps\<rparr>, Inr ()))"

definition set_pricing_source ::
  "spot_funds_settings \<Rightarrow> spot_funds_pricing_source \<Rightarrow> spot_funds_settings" where
  "set_pricing_source self source = self\<lparr>sfs_pricing_source := source\<rparr>"

definition set_global_limit_mode ::
  "spot_funds_settings \<Rightarrow> spot_funds_limit_mode \<Rightarrow> spot_funds_settings" where
  "set_global_limit_mode self mode = self\<lparr>sfs_global_limit_mode := mode\<rparr>"

definition set_account_limit_mode ::
  "spot_funds_settings \<Rightarrow> account_id \<Rightarrow> spot_funds_limit_mode option \<Rightarrow> spot_funds_settings" where
  "set_account_limit_mode self account mode =
     self\<lparr>sfs_account_limit_modes := set_or_clear (sfs_account_limit_modes self) account mode\<rparr>"

definition set_account_group_limit_mode ::
  "spot_funds_settings \<Rightarrow> account_group_id \<Rightarrow> spot_funds_limit_mode option \<Rightarrow> spot_funds_settings" where
  "set_account_group_limit_mode self g mode =
     self\<lparr>sfs_account_group_limit_modes := set_or_clear (sfs_account_group_limit_modes self) g mode\<rparr>"

definition set_position_limit ::
  "spot_funds_settings \<Rightarrow> account_id \<Rightarrow> asset \<Rightarrow> quantity option \<Rightarrow> spot_funds_settings" where
  "set_position_limit self account asset limit =
     self\<lparr>sfs_position_limits := set_or_clear (sfs_position_limits self) (account, asset) limit\<rparr>"

definition set_pnl_global_barrier ::
  "spot_funds_settings \<Rightarrow> spot_pnl_barrier option \<Rightarrow>
   spot_funds_settings \<times> (spot_funds_config_error + unit)" where
  "set_pnl_global_barrier self barrier =
     (case set_global_barrier (sfs_pnl_barriers self) barrier of
        (b, r) \<Rightarrow> (self\<lparr>sfs_pnl_barriers := b\<rparr>, r))"

definition set_pnl_account_group_barriers ::
  "spot_funds_settings \<Rightarrow> spot_pnl_group_barrier list \<Rightarrow>
   spot_funds_settings \<times> (spot_funds_config_error + unit)" where
  "set_pnl_account_group_barriers self barriers =
     (case set_account_group_barriers (sfs_pnl_barriers self) barriers of
        (b, r) \<Rightarrow> (self\<lparr>sfs_pnl_barriers := b\<rparr>, r))"

definition set_pnl_account_barriers ::
  "spot_funds_settings \<Rightarrow> spot_pnl_account_barrier list \<Rightarrow>
   spot_funds_settings \<times> (spot_funds_config_error + unit)" where
  "set_pnl_account_barriers self barriers =
     (case set_account_barriers (sfs_pnl_barriers self) barriers of
        (b, r) \<Rightarrow> (self\<lparr>sfs_pnl_barriers := b\<rparr>, r))"

definition set_pnl_axis_global_barrier ::
  "spot_funds_settings \<Rightarrow> pnl_bounds_axis \<Rightarrow> spot_pnl_barrier option \<Rightarrow>
   spot_funds_settings \<times> (spot_funds_config_error + unit)" where
  "set_pnl_axis_global_barrier self axis barrier =
     (case set_global_barrier (pnl_axis_barriers self axis) barrier of
        (b, r) \<Rightarrow> (pnl_axis_barriers_put self axis b, r))"

definition set_pnl_axis_account_group_barriers ::
  "spot_funds_settings \<Rightarrow> pnl_bounds_axis \<Rightarrow> spot_pnl_group_barrier list \<Rightarrow>
   spot_funds_settings \<times> (spot_funds_config_error + unit)" where
  "set_pnl_axis_account_group_barriers self axis barriers =
     (case set_account_group_barriers (pnl_axis_barriers self axis) barriers of
        (b, r) \<Rightarrow> (pnl_axis_barriers_put self axis b, r))"

definition set_pnl_axis_account_barriers ::
  "spot_funds_settings \<Rightarrow> pnl_bounds_axis \<Rightarrow> spot_pnl_account_barrier list \<Rightarrow>
   spot_funds_settings \<times> (spot_funds_config_error + unit)" where
  "set_pnl_axis_account_barriers self axis barriers =
     (case set_account_barriers (pnl_axis_barriers self axis) barriers of
        (b, r) \<Rightarrow> (pnl_axis_barriers_put self axis b, r))"

definition keep_ok :: "'s \<times> ('e + unit) \<Rightarrow> 'e + 's" where
  "keep_ok p = (case p of (_, Inl e) \<Rightarrow> Inl e | (self, Inr _) \<Rightarrow> Inr self)"

definition with_pnl_account_barriers ::
  "spot_funds_settings \<Rightarrow> spot_pnl_account_barrier list \<Rightarrow> spot_funds_config_error + spot_funds_settings" where
  "with_pnl_account_barriers self barriers = keep_ok (set_pnl_account_barriers self barriers)"

definition with_pnl_barriers ::
  "spot_funds_settings \<Rightarrow> spot_pnl_barrier option \<Rightarrow> spot_pnl_group_barrier list \<Rightarrow>
   spot_pnl_account_barrier list \<Rightarrow> spot_funds_config_error + spot_funds_settings" where
  "with_pnl_barriers self global_barrier group_barriers account_barriers =
     bind_res (keep_ok (set_pnl_global_barrier self global_barrier)) (\<lambda>self.
     bind_res (keep_ok (set_pnl_account_group_barriers self group_barriers)) (\<lambda>self.
     bind_res (keep_ok (set_pnl_account_barriers self account_barriers)) (\<lambda>self.
       if barrier_set_is_empty (sfs_pnl_barriers self) then Inl NoPnlBarriersConfigured
       else Inr self)))"

definition pnl_barrier_for ::
  "spot_funds_settings \<Rightarrow> account_id \<Rightarrow> account_group_id option \<Rightarrow> asset option \<Rightarrow> spot_pnl_barrier option" where
  "pnl_barrier_for self account g account_currency =
     barrier_for (sfs_pnl_barriers self) account g account_currency"

definition has_pnl_barrier_scope ::
  "spot_funds_settings \<Rightarrow> account_id \<Rightarrow> account_group_id option \<Rightarrow> bool" where
  "has_pnl_barrier_scope self account g = has_scope (sfs_pnl_barriers self) account g"

definition set_override ::
  "spot_funds_settings \<Rightarrow> spot_funds_override_target \<Rightarrow> spot_funds_override \<Rightarrow>
   spot_funds_settings \<times> (spot_funds_config_error + unit)" where
  "set_override self target ovr =
     (case (case ovr_slippage_bps ovr of Some bps \<Rightarrow> check_slippage_bps bps | None \<Rightarrow> Inr ()) of
        Inl e \<Rightarrow> (self, Inl e)
      | Inr _ \<Rightarrow>
          (place_override self target (map_option with_slippage_new (ovr_slippage_bps ovr)), Inr ()))"

section \<open>The cascades\<close>

text \<open>
  The policy passes the group it has resolved for the operation, so \<open>AccountInfo\<close> is that value.
\<close>

definition pricer_for ::
  "spot_funds_settings \<Rightarrow> instrument_id \<Rightarrow> account_id \<Rightarrow> account_group_id option \<Rightarrow> with_slippage" where
  "pricer_for self i account g =
     (case hm_get (sfs_account_overrides self) (i, account) of
        Some p \<Rightarrow> p
      | None \<Rightarrow>
          (case Option.bind g (\<lambda>k. hm_get (sfs_account_group_overrides self) (i, k)) of
             Some p \<Rightarrow> p
           | None \<Rightarrow>
               (case hm_get (sfs_instrument_overrides self) i of
                  Some p \<Rightarrow> p | None \<Rightarrow> sfs_global_pricer self)))"

definition limit_mode_for ::
  "spot_funds_settings \<Rightarrow> account_id \<Rightarrow> account_group_id option \<Rightarrow> spot_funds_limit_mode" where
  "limit_mode_for self account g =
     (case hm_get (sfs_account_limit_modes self) account of
        Some mode \<Rightarrow> mode
      | None \<Rightarrow>
          (case Option.bind g (hm_get (sfs_account_group_limit_modes self)) of
             Some mode \<Rightarrow> mode | None \<Rightarrow> sfs_global_limit_mode self))"

definition position_limit_for :: "spot_funds_settings \<Rightarrow> account_id \<Rightarrow> asset \<Rightarrow> quantity option" where
  "position_limit_for self account asset = hm_get (sfs_position_limits self) (account, asset)"

definition pricing_base_for_buy :: "spot_funds_settings \<Rightarrow> quote \<Rightarrow> price option" where
  "pricing_base_for_buy self q =
     (case sfs_pricing_source self of Mark \<Rightarrow> q_mark q | BookTop \<Rightarrow> q_ask q)"

definition pricing_base_for_sell :: "spot_funds_settings \<Rightarrow> quote \<Rightarrow> price option" where
  "pricing_base_for_sell self q =
     (case sfs_pricing_source self of Mark \<Rightarrow> q_mark q | BookTop \<Rightarrow> q_bid q)"

definition settings_effective_buy_price ::
  "dec_ops \<Rightarrow> spot_funds_settings \<Rightarrow> quote \<Rightarrow> instrument_id \<Rightarrow> account_id \<Rightarrow> account_group_id option \<Rightarrow>
   spot_funds_price_error + price" where
  "settings_effective_buy_price D self q i account g =
     bind_res (ok_or (pricing_base_for_buy self q) PriceQuoteUnavailable) (\<lambda>base.
       map_err (\<lambda>_. CalculationFailed) (pricer_effective_buy_price D (pricer_for self i account g) base))"

definition settings_effective_sell_price ::
  "dec_ops \<Rightarrow> spot_funds_settings \<Rightarrow> quote \<Rightarrow> instrument_id \<Rightarrow> account_id \<Rightarrow> account_group_id option \<Rightarrow>
   spot_funds_price_error + price" where
  "settings_effective_sell_price D self q i account g =
     bind_res (ok_or (pricing_base_for_sell self q) PriceQuoteUnavailable) (\<lambda>base.
       map_err (\<lambda>_. CalculationFailed) (pricer_effective_sell_price D (pricer_for self i account g) base))"

end
