(* ===== verification/Account_Currencies.thy ===== *)
theory Account_Currencies
  imports Account_Groups
begin

text \<open>
  The account-currency storage of \<open>crates/openpit/src/core/accounts.rs\<close>: a currency per account
  and per group, the reserved default group holding the global one, and the cascade that resolves
  the effective currency of an account.
\<close>

record account_currencies =
  cur_accounts :: "(account_id, asset) storage"
  cur_groups :: "(account_group_id, asset) storage"

definition account_currencies_new :: account_currencies where
  "account_currencies_new = \<lparr>cur_accounts = [], cur_groups = []\<rparr>"

definition set_account_currency ::
  "account_currencies \<Rightarrow> account_id \<Rightarrow> asset \<Rightarrow> account_currencies" where
  "set_account_currency self account currency =
     self\<lparr>cur_accounts := fst (with_mut (cur_accounts self) account currency (\<lambda>_ _. (currency, ())))\<rparr>"

definition clear_account_currency :: "account_currencies \<Rightarrow> account_id \<Rightarrow> account_currencies" where
  "clear_account_currency self account =
     self\<lparr>cur_accounts := fst (storage_remove (cur_accounts self) account)\<rparr>"

definition account_currency_of :: "account_currencies \<Rightarrow> account_id \<Rightarrow> asset option" where
  "account_currency_of self account = storage_with (cur_accounts self) account (\<lambda>currency. currency)"

definition set_group_currency ::
  "account_currencies \<Rightarrow> account_group_id \<Rightarrow> asset \<Rightarrow> account_currencies" where
  "set_group_currency self g currency =
     self\<lparr>cur_groups := fst (with_mut (cur_groups self) g currency (\<lambda>_ _. (currency, ())))\<rparr>"

definition clear_group_currency :: "account_currencies \<Rightarrow> account_group_id \<Rightarrow> account_currencies" where
  "clear_group_currency self g = self\<lparr>cur_groups := fst (storage_remove (cur_groups self) g)\<rparr>"

definition group_currency :: "account_currencies \<Rightarrow> account_group_id \<Rightarrow> asset option" where
  "group_currency self g = storage_with (cur_groups self) g (\<lambda>currency. currency)"

definition or_else :: "'a option \<Rightarrow> 'a option \<Rightarrow> 'a option" where
  "or_else x y = (case x of Some v \<Rightarrow> Some v | None \<Rightarrow> y)"

definition currency_of ::
  "account_currencies \<Rightarrow> account_id \<Rightarrow> account_group_id option \<Rightarrow> asset option" where
  "currency_of self account account_group =
     or_else (account_currency_of self account)
       (or_else (Option.bind account_group (group_currency self))
         (group_currency self DEFAULT_ACCOUNT_GROUP))"

definition known_account_keys :: "account_currencies \<Rightarrow> account_id list" where
  "known_account_keys self = storage_keys (cur_accounts self)"

section \<open>Lemmas\<close>

lemma or_else_simps [simp]: "or_else None y = y" "or_else (Some v) y = Some v" "or_else x None = x"
  by (cases x; simp add: or_else_def)+

lemma account_currency_of_simps [simp]:
  "account_currency_of (set_account_currency c a x) b = (if b = a then Some x else account_currency_of c b)"
  "account_currency_of (clear_account_currency c a) b = (if b = a then None else account_currency_of c b)"
  "account_currency_of (set_group_currency c g x) b = account_currency_of c b"
  "account_currency_of (clear_group_currency c g) b = account_currency_of c b"
  by (simp_all add: account_currency_of_def set_account_currency_def clear_account_currency_def
      set_group_currency_def clear_group_currency_def with_mut_def storage_remove_def
      with_mut_if_present_def with_mut_slow_def split: option.splits)

end
