(* ===== verification/Engine.thy ===== *)
theory Engine
  imports Policy_Interface Account_Currencies "HOL-Library.Sublist"
begin

text \<open>
  The engine (\<open>crates/openpit/src/core/engine.rs\<close>): the start and main stages of the
  pre-trade pipeline, the deferred request, drop copy, the dry runs, execution reports,
  account-adjustment batches and account retirement, with the drop-copy state of a context
  (\<open>pretrade/context.rs\<close>) and the default hooks of \<open>pretrade/policy.rs\<close>.

  The engine state is a record: the storages of the policies as one opaque component
  \<open>'s\<close>, the registry of blocks, the group memberships and the account currencies. A policy
  is the record of its hooks, functions on this state, because policies are open to the user; a
  mutation is a pair of functions on the engine state. An order, a report and an adjustment are
  opaque too; reading their account is the parameter the trait \<open>HasAccountId\<close> is. The owner
  identifier of a mutation collector, drawn from a process-wide counter, is a parameter of the
  stages. Guards that only exist in debug builds are not modelled.
\<close>

section \<open>State\<close>

record 's engine =
  eng_policy_state :: 's
  eng_blocked :: blocked_accounts
  eng_groups :: memberships
  eng_account_currencies :: account_currencies

record 's drop_copy_state =
  dcs_account_operations :: deferred_operations
  dcs_start_mutations :: "'s engine mutations option"

text \<open>What one pipeline run works on: the engine, the cached group lookup and the drop-copy state.\<close>

record 's pipeline =
  pl_engine :: "'s engine"
  pl_group_lookup :: group_lookup
  pl_drop_copy :: "'s drop_copy_state option"

record ('s, 'o, 'r, 'a) policy =
  pol_name :: string
  pol_group_id :: policy_group_id
  check_pre_trade_start ::
    "nat \<Rightarrow> pre_trade_context \<Rightarrow> 'o \<Rightarrow> 's pipeline \<Rightarrow> 's pipeline \<times> (rejects + unit)"
  check_pre_trade_start_dry_run ::
    "nat \<Rightarrow> pre_trade_context \<Rightarrow> 'o \<Rightarrow> 's pipeline \<Rightarrow> 's pipeline \<times> (rejects + unit)"
  perform_pre_trade_check ::
    "pre_trade_context \<Rightarrow> 'o \<Rightarrow> 's pipeline \<Rightarrow> 's engine mutations \<Rightarrow>
     's pipeline \<times> 's engine mutations \<times> (rejects + policy_pre_trade_result option)"
  perform_pre_trade_check_dry_run ::
    "pre_trade_context \<Rightarrow> 'o \<Rightarrow> 's pipeline \<Rightarrow> 's engine mutations \<Rightarrow>
     's pipeline \<times> 's engine mutations \<times> (rejects + policy_pre_trade_result option)"
  apply_execution_report ::
    "account_id option \<Rightarrow> 'r \<Rightarrow> 's engine \<Rightarrow> 's engine \<times> post_trade_result option"
  apply_account_adjustment ::
    "account_id \<Rightarrow> 'a \<Rightarrow> 's engine \<Rightarrow> 's engine mutations \<Rightarrow>
     's engine \<times> 's engine mutations \<times> (rejects + policy_account_adjustment_result)"
  retire_account_hook ::
    "account_id \<Rightarrow> 's engine \<Rightarrow> 's engine mutations \<Rightarrow>
     's engine \<times> 's engine mutations \<times> (account_retirement_refusal + unit)"

text \<open>The provided methods of the trait: a policy overrides the hooks it implements.\<close>

definition policy_default :: "string \<Rightarrow> ('s, 'o, 'r, 'a) policy" where
  "policy_default name =
     \<lparr>pol_name = name, pol_group_id = DEFAULT_POLICY_GROUP_ID,
      check_pre_trade_start = (\<lambda>_ _ _ p. (p, Inr ())),
      check_pre_trade_start_dry_run = (\<lambda>_ _ _ p. (p, Inr ())),
      perform_pre_trade_check = (\<lambda>_ _ p m. (p, m, Inr None)),
      perform_pre_trade_check_dry_run = (\<lambda>_ _ p m. (p, m, Inr None)),
      apply_execution_report = (\<lambda>_ _ e. (e, None)),
      apply_account_adjustment = (\<lambda>_ _ e m. (e, m, Inr \<lparr>aar_account_adjustments = [], aar_account_blocks = []\<rparr>)),
      retire_account_hook = (\<lambda>_ e m. (e, m, Inr ()))\<rparr>"

text \<open>The dry-run hooks of a policy that does not override them are its normal hooks.\<close>

definition with_default_dry_runs :: "('s, 'o, 'r, 'a) policy \<Rightarrow> ('s, 'o, 'r, 'a) policy" where
  "with_default_dry_runs self =
     self\<lparr>check_pre_trade_start_dry_run := check_pre_trade_start self,
          perform_pre_trade_check_dry_run := perform_pre_trade_check self\<rparr>"

definition empty_mutations :: "u64 \<Rightarrow> 'w mutations" where
  "empty_mutations owner = \<lparr>mutation_list = [], owner_id = owner\<rparr>"

section \<open>The drop-copy state of a context\<close>

definition record_drop_copy_account_block ::
  "pre_trade_context \<Rightarrow> account_block \<Rightarrow> 's pipeline \<Rightarrow> 's pipeline" where
  "record_drop_copy_account_block ctx block p =
     (case (pl_drop_copy p, known_account ctx) of
        (Some st, Some account) \<Rightarrow>
          (case control_block account block
                  (Some (dcs_account_operations st), eng_blocked (pl_engine p)) of
             (Some d, b) \<Rightarrow>
               p\<lparr>pl_drop_copy := Some (st\<lparr>dcs_account_operations := d\<rparr>),
                 pl_engine := (pl_engine p)\<lparr>eng_blocked := b\<rparr>\<rparr>
           | (None, _) \<Rightarrow> p)
      | _ \<Rightarrow> p)"

definition record_drop_copy_start_mutation ::
  "'s engine mutation \<Rightarrow> 's pipeline \<Rightarrow> 's pipeline \<times> ('s engine mutation + unit)" where
  "record_drop_copy_start_mutation m p =
     (case pl_drop_copy p of
        None \<Rightarrow> (p, Inl m)
      | Some st \<Rightarrow>
          (case dcs_start_mutations st of
             None \<Rightarrow> (p, Inl m)
           | Some ms \<Rightarrow>
               (p\<lparr>pl_drop_copy := Some (st\<lparr>dcs_start_mutations := Some (mutations_push ms m)\<rparr>)\<rparr>, Inr ())))"

definition take_drop_copy_start_mutations ::
  "u64 \<Rightarrow> 's pipeline \<Rightarrow> 's pipeline \<times> 's engine mutations" where
  "take_drop_copy_start_mutations owner p =
     (case pl_drop_copy p of
        None \<Rightarrow> (p, empty_mutations owner)
      | Some st \<Rightarrow>
          (p\<lparr>pl_drop_copy := Some (st\<lparr>dcs_start_mutations := None\<rparr>)\<rparr>,
           case dcs_start_mutations st of Some ms \<Rightarrow> ms | None \<Rightarrow> empty_mutations owner))"

definition drop_copy_account_block :: "'s pipeline \<Rightarrow> account_block option" where
  "drop_copy_account_block p =
     Option.bind (pl_drop_copy p) (\<lambda>st. do_first_block (dcs_account_operations st))"

definition apply_drop_copy_account_operations :: "'s pipeline \<Rightarrow> 's pipeline" where
  "apply_drop_copy_account_operations p =
     (case pl_drop_copy p of
        None \<Rightarrow> p
      | Some st \<Rightarrow>
          (case deferred_apply (dcs_account_operations st) (eng_blocked (pl_engine p)) of
             (d, b) \<Rightarrow>
               p\<lparr>pl_drop_copy := Some (st\<lparr>dcs_account_operations := d\<rparr>),
                 pl_engine := (pl_engine p)\<lparr>eng_blocked := b\<rparr>\<rparr>))"

definition abandon_drop_copy_account_operations :: "'s pipeline \<Rightarrow> 's pipeline" where
  "abandon_drop_copy_account_operations p =
     (case pl_drop_copy p of
        None \<Rightarrow> p
      | Some st \<Rightarrow>
          p\<lparr>pl_drop_copy :=
              Some (st\<lparr>dcs_account_operations := deferred_abandon (dcs_account_operations st)\<rparr>)\<rparr>)"

section \<open>The stages\<close>

definition reject_account_block :: "reject list \<Rightarrow> account_block option" where
  "reject_account_block rejects =
     map_option (\<lambda>r. account_block_with_code r AccountBlocked)
       (find (\<lambda>r. rj_scope r = ScopeAccount) rejects)"

definition note_account_block ::
  "pre_trade_context \<Rightarrow> reject list \<Rightarrow> 's pipeline \<Rightarrow> account_block option \<Rightarrow>
   's pipeline \<times> account_block option" where
  "note_account_block ctx rejects p first_block =
     (let block = reject_account_block rejects;
          p = (case block of
                 Some b \<Rightarrow> if ctx_drop_copy ctx then record_drop_copy_account_block ctx b p else p
               | None \<Rightarrow> p)
      in (p, if first_block = None then block else first_block))"

definition merge_reject_lists :: "rejects list \<Rightarrow> nat \<Rightarrow> rejects option" where
  "merge_reject_lists collected len =
     (if len = 0 then None else Some (rejects_new (concat (map rejects_vec collected))))"

type_synonym ('s, 'o, 'r, 'a) start_hook =
  "('s, 'o, 'r, 'a) policy \<Rightarrow> pre_trade_context \<Rightarrow> 'o \<Rightarrow> 's pipeline \<Rightarrow> 's pipeline \<times> (rejects + unit)"

fun start_loop ::
  "('s, 'o, 'r, 'a) start_hook \<Rightarrow> ('s, 'o, 'r, 'a) policy list \<Rightarrow> pre_trade_context \<Rightarrow> 'o \<Rightarrow>
   's pipeline \<Rightarrow> rejects list \<Rightarrow> nat \<Rightarrow> account_block option \<Rightarrow>
   's pipeline \<times> rejects list \<times> nat \<times> account_block option" where
  "start_loop hook [] ctx ord p collection total_len block = (p, collection, total_len, block)"
| "start_loop hook (policy # policies) ctx ord p collection total_len block =
     (case hook policy ctx ord p of
        (p, Inr _) \<Rightarrow> start_loop hook policies ctx ord p collection total_len block
      | (p, Inl rejects) \<Rightarrow>
          (case note_account_block ctx (rejects_vec rejects) p block of
             (p, block) \<Rightarrow>
               start_loop hook policies ctx ord p (collection @ [rejects])
                 (total_len + length (rejects_vec rejects)) block))"

definition run_pre_trade_start_stage ::
  "('s, 'o, 'r, 'a) start_hook \<Rightarrow> ('s, 'o, 'r, 'a) policy list \<Rightarrow> pre_trade_context \<Rightarrow> 'o \<Rightarrow>
   's pipeline \<Rightarrow> 's pipeline \<times> rejects option \<times> account_block option" where
  "run_pre_trade_start_stage hook policies ctx ord p =
     (case start_loop hook policies ctx ord p [] 0 None of
        (p, collection, total_len, block) \<Rightarrow> (p, merge_reject_lists collection total_len, block))"

definition append_pre_trade_policy_result ::
  "policy_pre_trade_result \<Rightarrow> policy_group_id \<Rightarrow>
   pre_trade_lock \<times> account_adjustment_outcome list \<Rightarrow>
   pre_trade_lock \<times> account_adjustment_outcome list" where
  "append_pre_trade_policy_result outcome g lo =
     (push_many (fst lo) g (ptr_lock_prices outcome),
      snd lo @ map (\<lambda>entry. \<lparr>aao_policy_group_id = g, aao_entry = entry\<rparr>)
        (ptr_account_adjustments outcome))"

type_synonym ('s, 'o, 'r, 'a) main_hook =
  "('s, 'o, 'r, 'a) policy \<Rightarrow> pre_trade_context \<Rightarrow> 'o \<Rightarrow> 's pipeline \<Rightarrow> 's engine mutations \<Rightarrow>
   's pipeline \<times> 's engine mutations \<times> (rejects + policy_pre_trade_result option)"

record 's main_acc =
  ma_pipeline :: "'s pipeline"
  ma_mutations :: "'s engine mutations"
  ma_rejects :: "rejects list"
  ma_total :: nat
  ma_block :: "account_block option"
  ma_output :: "pre_trade_lock \<times> account_adjustment_outcome list"

definition main_step ::
  "('s, 'o, 'r, 'a) main_hook \<Rightarrow> pre_trade_context \<Rightarrow> 'o \<Rightarrow> ('s, 'o, 'r, 'a) policy \<Rightarrow>
   's main_acc \<Rightarrow> 's main_acc" where
  "main_step hook ctx ord policy acc =
     (case hook policy ctx ord (ma_pipeline acc) (ma_mutations acc) of
        (p, ms, result) \<Rightarrow>
          (let acc = acc\<lparr>ma_pipeline := p, ma_mutations := ms\<rparr>
           in case result of
                Inr None \<Rightarrow> acc
              | Inr (Some outcome) \<Rightarrow>
                  acc\<lparr>ma_output := append_pre_trade_policy_result outcome (pol_group_id policy) (ma_output acc)\<rparr>
              | Inl rejects \<Rightarrow>
                  (case into_parts rejects of
                     (rs, recorded_result) \<Rightarrow>
                       (let acc =
                          (case recorded_result of
                             Some outcome \<Rightarrow>
                               if ctx_drop_copy ctx \<and>
                                  \<not> list_ex (\<lambda>r. is_evaluation_failure (rj_code r)) rs
                               then acc\<lparr>ma_output :=
                                      append_pre_trade_policy_result outcome (pol_group_id policy) (ma_output acc)\<rparr>
                               else acc
                           | None \<Rightarrow> acc);
                            (p, block) = note_account_block ctx rs (ma_pipeline acc) (ma_block acc)
                        in acc\<lparr>ma_pipeline := p, ma_block := block,
                               ma_rejects := ma_rejects acc @ [rejects_new rs],
                               ma_total := ma_total acc + length rs\<rparr>))))"

definition main_start :: "u64 \<Rightarrow> 's pipeline \<Rightarrow> 's main_acc" where
  "main_start owner p =
     \<lparr>ma_pipeline = p, ma_mutations = empty_mutations owner, ma_rejects = [], ma_total = 0,
      ma_block = None, ma_output = (lock_new, [])\<rparr>"

definition run_pre_trade_main_stage ::
  "('s, 'o, 'r, 'a) main_hook \<Rightarrow> u64 \<Rightarrow> ('s, 'o, 'r, 'a) policy list \<Rightarrow> pre_trade_context \<Rightarrow> 'o \<Rightarrow>
   's pipeline \<Rightarrow>
   's pipeline \<times> rejects option \<times> account_block option \<times> 's engine mutations \<times>
   pre_trade_lock \<times> account_adjustment_outcome list" where
  "run_pre_trade_main_stage hook owner policies ctx ord p =
     (let acc = fold (main_step hook ctx ord) policies (main_start owner p)
      in (ma_pipeline acc, merge_reject_lists (ma_rejects acc) (ma_total acc), ma_block acc,
          ma_mutations acc, fst (ma_output acc), snd (ma_output acc)))"


section \<open>Pre-trade\<close>

definition mutation_failure_kill_switch :: "account_id option \<Rightarrow> 's engine kill_switch" where
  "mutation_failure_kill_switch account =
     (\<lambda>scope e. e\<lparr>eng_blocked := record_mutation_failure (eng_blocked e) account scope\<rparr>)"

definition engine_record_mutation_failure ::
  "account_id option \<Rightarrow> mutation_failure \<Rightarrow> 's engine \<Rightarrow> 's engine" where
  "engine_record_mutation_failure account failure e =
     (case mf_scope failure of
        Some scope \<Rightarrow> e\<lparr>eng_blocked := record_mutation_failure (eng_blocked e) account scope\<rparr>
      | None \<Rightarrow> e)"

definition record_engine_pre_trade ::
  "account_id option \<Rightarrow> account_block option \<Rightarrow> 's engine \<Rightarrow> 's engine" where
  "record_engine_pre_trade account block e =
     (case block of
        Some b \<Rightarrow> e\<lparr>eng_blocked := record_pre_trade (eng_blocked e) account b\<rparr>
      | None \<Rightarrow> e)"

record 'o pre_trade_request =
  rq_ctx :: pre_trade_context
  rq_group_lookup :: group_lookup
  rq_order :: 'o

definition ordinary_pipeline :: "account_id option \<Rightarrow> 's engine \<Rightarrow> 's pipeline" where
  "ordinary_pipeline account e =
     \<lparr>pl_engine = e, pl_group_lookup = group_lookup_new account, pl_drop_copy = None\<rparr>"

definition ok_account :: "request_field_access_error + account_id \<Rightarrow> account_id option" where
  "ok_account account = (case account of Inr a \<Rightarrow> Some a | Inl _ \<Rightarrow> None)"

definition start_pre_trade ::
  "('s, 'o, 'r, 'a) policy list \<Rightarrow> ('o \<Rightarrow> request_field_access_error + account_id) \<Rightarrow> nat \<Rightarrow> 'o \<Rightarrow>
   's engine \<Rightarrow> 's engine \<times> (rejects + 'o pre_trade_request)" where
  "start_pre_trade policies account_id_of now ord e =
     (let account = account_id_of ord;
          known = ok_account account
      in case blocked_check (eng_blocked e) (eng_groups e) known ScopeOrder of
           Some rejects \<Rightarrow> (e, Inl rejects)
         | None \<Rightarrow>
             (let ctx = \<lparr>ctx_account = account, ctx_drop_copy = False\<rparr>
              in case run_pre_trade_start_stage (\<lambda>policy. check_pre_trade_start policy now) policies
                        ctx ord (ordinary_pipeline known e) of
                   (p, Some rejects, account_block) \<Rightarrow>
                     (record_engine_pre_trade known account_block (pl_engine p), Inl rejects)
                 | (p, None, _) \<Rightarrow>
                     (pl_engine p,
                      Inr \<lparr>rq_ctx = ctx, rq_group_lookup = pl_group_lookup p, rq_order = ord\<rparr>)))"

definition engine_gone_rejects :: rejects where
  "engine_gone_rejects =
     rejects_new [reject_new ''Engine'' ScopeOrder SystemUnavailable
       ''engine is no longer available'' [Lit ''request handle outlived engine instance'']]"

text \<open>
  Executing a deferred request on the engine as it then is; \<open>None\<close> when the engine was
  dropped in between.
\<close>

definition execute_pre_trade_request ::
  "('s, 'o, 'r, 'a) policy list \<Rightarrow> u64 \<Rightarrow> 'o pre_trade_request \<Rightarrow> 's engine option \<Rightarrow>
   's engine option \<times> (rejects + 's engine pre_trade_reservation)" where
  "execute_pre_trade_request policies owner request engine_ref =
     (case engine_ref of
        None \<Rightarrow> (None, Inl engine_gone_rejects)
      | Some e \<Rightarrow>
          (let ctx = rq_ctx request;
               account = ok_account (ctx_account ctx)
           in case blocked_check (eng_blocked e) (eng_groups e) account ScopeOrder of
                Some rejects \<Rightarrow> (Some e, Inl rejects)
              | None \<Rightarrow>
                  (case run_pre_trade_main_stage perform_pre_trade_check owner policies ctx
                          (rq_order request)
                          \<lparr>pl_engine = e, pl_group_lookup = rq_group_lookup request, pl_drop_copy = None\<rparr> of
                     (p, Some rejects, first_account_block, mutations, lock, outcomes) \<Rightarrow>
                       (case rollback_all mutations (pl_engine p) of
                          (e, failure) \<Rightarrow>
                            (Some (record_engine_pre_trade account first_account_block
                                (engine_record_mutation_failure account failure e)), Inl rejects))
                   | (p, None, first_account_block, mutations, lock, outcomes) \<Rightarrow>
                       (Some (pl_engine p),
                        Inr (reservation_from_handle
                          \<lparr>rh_mutations = mutations,
                           rh_kill_switch = mutation_failure_kill_switch account\<rparr> lock outcomes)))))"

definition execute_pre_trade ::
  "('s, 'o, 'r, 'a) policy list \<Rightarrow> ('o \<Rightarrow> request_field_access_error + account_id) \<Rightarrow> nat \<Rightarrow> u64 \<Rightarrow>
   'o \<Rightarrow> 's engine \<Rightarrow> 's engine \<times> (rejects + 's engine pre_trade_reservation)" where
  "execute_pre_trade policies account_id_of now owner ord e =
     (case start_pre_trade policies account_id_of now ord e of
        (e, Inl rejects) \<Rightarrow> (e, Inl rejects)
      | (e, Inr request) \<Rightarrow>
          (case execute_pre_trade_request policies owner request (Some e) of
             (Some e, result) \<Rightarrow> (e, result)
           | (None, result) \<Rightarrow> (e, result)))"

section \<open>Drop copy\<close>

definition new_drop_copy_unreadable_account_rejects :: rejects where
  "new_drop_copy_unreadable_account_rejects =
     rejects_new [reject_new ''Engine'' ScopeOrder MissingRequiredField
       ''drop-copy requires a readable account ID''
       [Lit ''the account ID routes the drop-copy pipeline and its account control'']]"

definition fatal_drop_copy_rejects :: "rejects option \<Rightarrow> rejects option" where
  "fatal_drop_copy_rejects rejects =
     Option.bind rejects (\<lambda>rs.
       let fatal = filter (\<lambda>r. is_evaluation_failure (rj_code r)) (rejects_vec rs)
       in if fatal = [] then None else Some (rejects_new fatal))"

definition drop_copy_mutation_callback_rejects :: "string \<Rightarrow> rejects" where
  "drop_copy_mutation_callback_rejects details =
     rejects_new [reject_new ''Engine'' ScopeOrder SystemUnavailable ''mutation callback failed''
       [Lit details]]"

definition append_drop_copy_mutation_callback_rejects :: "rejects \<Rightarrow> string \<Rightarrow> rejects" where
  "append_drop_copy_mutation_callback_rejects rejects details =
     rejects_new (rejects_vec rejects @ rejects_vec (drop_copy_mutation_callback_rejects details))"

text \<open>The two fatal exits: compensate, and when that fails arm the kill switch and say so.\<close>

definition fatal_exit ::
  "account_id \<Rightarrow> rejects \<Rightarrow> 's engine \<times> mutation_failure \<Rightarrow> 's engine \<times> rejects" where
  "fatal_exit account rejects rollback =
     (case rollback of
        (e, failure) \<Rightarrow>
          if failure_failed failure
          then (engine_record_mutation_failure (Some account) failure e,
                append_drop_copy_mutation_callback_rejects rejects (failure_details failure))
          else (e, rejects))"

definition drop_copy_pipeline :: "u64 \<Rightarrow> account_id \<Rightarrow> 's engine \<Rightarrow> 's pipeline" where
  "drop_copy_pipeline owner account e =
     \<lparr>pl_engine = e, pl_group_lookup = group_lookup_new (Some account),
      pl_drop_copy = Some \<lparr>dcs_account_operations = deferred_default,
        dcs_start_mutations = Some (empty_mutations owner)\<rparr>\<rparr>"

definition apply_drop_copy ::
  "('s, 'o, 'r, 'a) policy list \<Rightarrow> ('o \<Rightarrow> request_field_access_error + account_id) \<Rightarrow> nat \<Rightarrow> u64 \<Rightarrow>
   u64 \<Rightarrow> 'o \<Rightarrow> 's engine \<Rightarrow> 's engine \<times> (rejects + 's engine drop_copy_operation)" where
  "apply_drop_copy policies account_id_of now start_owner main_owner ord e =
     (case account_id_of ord of
        Inl _ \<Rightarrow> (e, Inl new_drop_copy_unreadable_account_rejects)
      | Inr account \<Rightarrow>
          (let ctx = \<lparr>ctx_account = Inr account, ctx_drop_copy = True\<rparr>
           in case run_pre_trade_start_stage (\<lambda>policy. check_pre_trade_start policy now) policies
                     ctx ord (drop_copy_pipeline start_owner account e) of
                (p, start_rejects, _) \<Rightarrow>
                  (case fatal_drop_copy_rejects start_rejects of
                     Some rejects \<Rightarrow>
                       (case take_drop_copy_start_mutations start_owner
                               (abandon_drop_copy_account_operations p) of
                          (p, start_mutations) \<Rightarrow>
                            (case fatal_exit account rejects
                                    (rollback_all start_mutations (pl_engine p)) of
                               (e, rejects) \<Rightarrow> (e, Inl rejects)))
                   | None \<Rightarrow>
                       (case run_pre_trade_main_stage perform_pre_trade_check main_owner policies
                               ctx ord p of
                          (p, rejects, _, mutations, lock, outcomes) \<Rightarrow>
                            (case fatal_drop_copy_rejects rejects of
                               Some rejects \<Rightarrow>
                                 (case rollback_all mutations
                                         (pl_engine (abandon_drop_copy_account_operations p)) of
                                    (e, failure) \<Rightarrow>
                                      (case take_drop_copy_start_mutations start_owner
                                              (abandon_drop_copy_account_operations p) of
                                         (_, start_mutations) \<Rightarrow>
                                           (case rollback_all start_mutations e of
                                              (e, start_failure) \<Rightarrow>
                                                (case fatal_exit account rejects
                                                   (e, failure_append failure start_failure) of
                                                   (e, rejects) \<Rightarrow> (e, Inl rejects)))))
                             | None \<Rightarrow>
                                 (case take_drop_copy_start_mutations start_owner p of
                                    (p, start_mutations) \<Rightarrow>
                                      (let all_mutations = mutations_append start_mutations mutations;
                                           block = drop_copy_account_block p;
                                           p = apply_drop_copy_account_operations p;
                                           blocked = is_blocked (eng_blocked (pl_engine p))
                                             (eng_groups (pl_engine p)) account
                                       in (pl_engine p,
                                           Inr (drop_copy_from_handle
                                             \<lparr>rh_mutations = all_mutations,
                                              rh_kill_switch =
                                                mutation_failure_kill_switch (Some account)\<rparr>
                                             lock outcomes block blocked)))))))))"

section \<open>Dry runs\<close>

record dry_run_report =
  dr_lock :: pre_trade_lock
  dr_account_adjustments :: "account_adjustment_outcome list"
  dr_account_block :: "account_block option"
  dr_rejects :: "rejects option"

definition dry_run_report_new ::
  "rejects option \<Rightarrow> pre_trade_lock \<Rightarrow> account_adjustment_outcome list \<Rightarrow> account_block option \<Rightarrow>
   dry_run_report" where
  "dry_run_report_new rejects lock outcomes block =
     \<lparr>dr_lock = lock, dr_account_adjustments = outcomes, dr_account_block = block,
      dr_rejects = rejects\<rparr>"

definition is_pass :: "dry_run_report \<Rightarrow> bool" where
  "is_pass self \<longleftrightarrow> dr_rejects self = None"

definition start_pre_trade_dry_run ::
  "('s, 'o, 'r, 'a) policy list \<Rightarrow> ('o \<Rightarrow> request_field_access_error + account_id) \<Rightarrow> nat \<Rightarrow> 'o \<Rightarrow>
   's engine \<Rightarrow> 's engine \<times> dry_run_report" where
  "start_pre_trade_dry_run policies account_id_of now ord e =
     (let account = account_id_of ord;
          known = ok_account account
      in case blocked_check (eng_blocked e) (eng_groups e) known ScopeOrder of
           Some rejects \<Rightarrow> (e, dry_run_report_new (Some rejects) lock_new [] None)
         | None \<Rightarrow>
             (case run_pre_trade_start_stage (\<lambda>policy. check_pre_trade_start_dry_run policy now)
                     policies \<lparr>ctx_account = account, ctx_drop_copy = False\<rparr> ord
                     (ordinary_pipeline known e) of
                (p, rejects, account_block) \<Rightarrow>
                  (pl_engine p, dry_run_report_new rejects lock_new [] account_block)))"

text \<open>Mutations that are neither committed nor rolled back are dropped, with their guards.\<close>

definition drop_mutations :: "'w mutations \<Rightarrow> 'w \<Rightarrow> 'w" where
  "drop_mutations self w = fold drop_guard (mutation_list self) w"

definition execute_pre_trade_dry_run ::
  "('s, 'o, 'r, 'a) policy list \<Rightarrow> ('o \<Rightarrow> request_field_access_error + account_id) \<Rightarrow> nat \<Rightarrow> u64 \<Rightarrow>
   'o \<Rightarrow> 's engine \<Rightarrow> 's engine \<times> dry_run_report" where
  "execute_pre_trade_dry_run policies account_id_of now owner ord e =
     (let account = account_id_of ord;
          known = ok_account account;
          ctx = \<lparr>ctx_account = account, ctx_drop_copy = False\<rparr>
      in case blocked_check (eng_blocked e) (eng_groups e) known ScopeOrder of
           Some rejects \<Rightarrow> (e, dry_run_report_new (Some rejects) lock_new [] None)
         | None \<Rightarrow>
             (case run_pre_trade_start_stage (\<lambda>policy. check_pre_trade_start_dry_run policy now)
                     policies ctx ord (ordinary_pipeline known e) of
                (p, Some rejects, account_block) \<Rightarrow>
                  (pl_engine p, dry_run_report_new (Some rejects) lock_new [] account_block)
              | (p, None, _) \<Rightarrow>
                  (case run_pre_trade_main_stage perform_pre_trade_check_dry_run owner policies ctx
                          ord p of
                     (p, rejects, account_block, mutations, lock, outcomes) \<Rightarrow>
                       (drop_mutations mutations (pl_engine p),
                        dry_run_report_new rejects lock outcomes account_block))))"


section \<open>Execution reports\<close>

fun report_loop ::
  "('s, 'o, 'r, 'a) policy list \<Rightarrow> account_id option \<Rightarrow> 'r \<Rightarrow> 's engine \<Rightarrow> post_trade_result \<Rightarrow>
   's engine \<times> post_trade_result" where
  "report_loop [] account report e acc = (e, acc)"
| "report_loop (policy # policies) account report e acc =
     (case apply_execution_report policy account report e of
        (e, None) \<Rightarrow> report_loop policies account report e acc
      | (e, Some r) \<Rightarrow>
          report_loop policies account report e
            \<lparr>post_account_blocks = post_account_blocks acc @ post_account_blocks r,
             post_account_pnls = post_account_pnls acc @ post_account_pnls r,
             post_account_adjustments = post_account_adjustments acc @ post_account_adjustments r\<rparr>)"

definition engine_apply_execution_report ::
  "('s, 'o, 'r, 'a) policy list \<Rightarrow> ('r \<Rightarrow> request_field_access_error + account_id) \<Rightarrow> 'r \<Rightarrow>
   's engine \<Rightarrow> 's engine \<times> post_trade_result" where
  "engine_apply_execution_report policies account_id_of report e =
     (let account = ok_account (account_id_of report)
      in case report_loop policies account report e (blocks_only []) of
           (e, result) \<Rightarrow>
             (case post_account_blocks result of
                first # _ \<Rightarrow>
                  (e\<lparr>eng_blocked := record_execution_report (eng_blocked e) account first\<rparr>, result)
              | [] \<Rightarrow> (e, result)))"

section \<open>Account adjustments\<close>

record account_adjustment_batch_error =
  abe_rejects :: rejects
  abe_failed_adjustment_index :: nat

record 's adjust_acc =
  aa_engine :: "'s engine"
  aa_mutations :: "'s engine mutations"
  aa_outcomes :: "account_adjustment_outcome list"
  aa_blocks :: "account_block list"

text \<open>The inner loop over the policies and the outer one over the batch; the first reject leaves both.\<close>

fun adjust_policies ::
  "('s, 'o, 'r, 'a) policy list \<Rightarrow> account_id \<Rightarrow> 'a \<Rightarrow> 's adjust_acc \<Rightarrow> 's adjust_acc \<times> rejects option" where
  "adjust_policies [] account adjustment acc = (acc, None)"
| "adjust_policies (policy # policies) account adjustment acc =
     (case apply_account_adjustment policy account adjustment (aa_engine acc) (aa_mutations acc) of
        (e, ms, Inr result) \<Rightarrow>
          adjust_policies policies account adjustment
            (acc\<lparr>aa_engine := e, aa_mutations := ms,
                 aa_outcomes := aa_outcomes acc @
                   map (\<lambda>entry. \<lparr>aao_policy_group_id = pol_group_id policy, aao_entry = entry\<rparr>)
                     (aar_account_adjustments result),
                 aa_blocks := aa_blocks acc @ aar_account_blocks result\<rparr>)
      | (e, ms, Inl rejects) \<Rightarrow> (acc\<lparr>aa_engine := e, aa_mutations := ms\<rparr>, Some rejects))"

fun adjust_batch ::
  "('s, 'o, 'r, 'a) policy list \<Rightarrow> account_id \<Rightarrow> nat \<Rightarrow> 'a list \<Rightarrow> 's adjust_acc \<Rightarrow>
   's adjust_acc \<times> account_adjustment_batch_error option" where
  "adjust_batch policies account index [] acc = (acc, None)"
| "adjust_batch policies account index (adjustment # rest) acc =
     (case adjust_policies policies account adjustment acc of
        (acc, None) \<Rightarrow> adjust_batch policies account (index + 1) rest acc
      | (acc, Some rejects) \<Rightarrow>
          (acc, Some \<lparr>abe_rejects = rejects, abe_failed_adjustment_index = index\<rparr>))"

fun block_each :: "account_id \<Rightarrow> account_block list \<Rightarrow> blocked_accounts \<Rightarrow> blocked_accounts" where
  "block_each account [] b = b"
| "block_each account (block # blocks) b =
     block_each account blocks (fst (block_account b account block))"

definition adjust_start :: "u64 \<Rightarrow> 's engine \<Rightarrow> 's adjust_acc" where
  "adjust_start owner e =
     \<lparr>aa_engine = e, aa_mutations = empty_mutations owner, aa_outcomes = [], aa_blocks = []\<rparr>"

definition engine_apply_account_adjustment ::
  "('s, 'o, 'r, 'a) policy list \<Rightarrow> u64 \<Rightarrow> account_id \<Rightarrow> 'a list \<Rightarrow> 's engine \<Rightarrow>
   's engine \<times> (account_adjustment_batch_error + account_adjustment_batch_result)" where
  "engine_apply_account_adjustment policies owner account adjustments e =
     (if adjustments = [] then (e, Inr \<lparr>abr_outcomes = [], abr_account_blocks = []\<rparr>)
      else case adjust_batch policies account 0 adjustments (adjust_start owner e) of
        (acc, Some err) \<Rightarrow>
          (case rollback_all (aa_mutations acc) (aa_engine acc) of
             (e, failure) \<Rightarrow> (engine_record_mutation_failure (Some account) failure e, Inl err))
      | (acc, None) \<Rightarrow>
          (case commit_all (aa_mutations acc) (aa_engine acc) of
             (e, failure) \<Rightarrow>
               (let e = engine_record_mutation_failure (Some account) failure e
                in (e\<lparr>eng_blocked := block_each account (aa_blocks acc) (eng_blocked e)\<rparr>,
                    Inr \<lparr>abr_outcomes = aa_outcomes acc, abr_account_blocks = aa_blocks acc\<rparr>))))"

section \<open>Retirement\<close>

fun retire_loop ::
  "('s, 'o, 'r, 'a) policy list \<Rightarrow> account_id \<Rightarrow> 's engine \<Rightarrow> 's engine mutations \<Rightarrow>
   account_retirement_policy_refusal list \<Rightarrow>
   's engine \<times> 's engine mutations \<times> account_retirement_policy_refusal list" where
  "retire_loop [] account e ms refusals = (e, ms, refusals)"
| "retire_loop (policy # policies) account e ms refusals =
     (case retire_account_hook policy account e ms of
        (e, ms, Inr _) \<Rightarrow> retire_loop policies account e ms refusals
      | (e, ms, Inl refusal) \<Rightarrow>
          retire_loop policies account e ms
            (refusals @ [\<lparr>arp_policy = pol_name policy, arp_refusal = refusal\<rparr>]))"

definition engine_retire_account ::
  "('s, 'o, 'r, 'a) policy list \<Rightarrow> u64 \<Rightarrow> account_id \<Rightarrow> 's engine \<Rightarrow>
   's engine \<times> (account_retirement_error + unit)" where
  "engine_retire_account policies owner account e =
     (case retire_loop policies account e (empty_mutations owner) [] of
        (e, mutations, refusals) \<Rightarrow>
          if refusals \<noteq> []
          then (case rollback_all mutations e of
                  (e, failure) \<Rightarrow>
                    (engine_record_mutation_failure (Some account) failure e, Inl (Refused refusals)))
          else (case commit_all mutations e of
                  (e, failure) \<Rightarrow>
                    if failure_failed failure
                    then (engine_record_mutation_failure (Some account) failure e, Inl FinalizerFailed)
                    else (let e = e\<lparr>eng_account_currencies := clear_account_currency (eng_account_currencies e) account\<rparr>;
                              e = e\<lparr>eng_groups := groups_retire_account (eng_groups e) account\<rparr>
                          in (e\<lparr>eng_blocked := unblock_account (eng_blocked e) account\<rparr>, Inr ()))))"


section \<open>What the engine relies on\<close>

text \<open>
  The contract of the hooks (\<open>core/mutation.rs\<close>, \<open>pretrade/policy.rs\<close>): a hook
  that changes state appends mutations whose rollbacks, run in reverse order, undo its changes. The
  engine's promises about rejected requests rest on it.
\<close>

definition registers_undo :: "'w \<Rightarrow> 'w mutations \<Rightarrow> 'w \<Rightarrow> 'w mutations \<Rightarrow> bool" where
  "registers_undo w ms w' ms' \<longleftrightarrow>
     (\<exists>ns. mutation_list ms' = mutation_list ms @ ns \<and> undo_chain w ns w')"

text \<open>The bookkeeping of both loops: what was collected determines the count and the first block.\<close>

definition collected_ok :: "rejects list \<Rightarrow> nat \<Rightarrow> account_block option \<Rightarrow> bool" where
  "collected_ok collection n block \<longleftrightarrow>
     n = length (concat (map rejects_vec collection)) \<and>
     block = reject_account_block (concat (map rejects_vec collection))"

definition main_ok :: "'s engine \<Rightarrow> u64 \<Rightarrow> 's main_acc \<Rightarrow> bool" where
  "main_ok e owner acc \<longleftrightarrow>
     registers_undo e (empty_mutations owner) (pl_engine (ma_pipeline acc)) (ma_mutations acc) \<and>
     collected_ok (ma_rejects acc) (ma_total acc) (ma_block acc)"

definition adjust_ok :: "'s engine \<Rightarrow> u64 \<Rightarrow> 's adjust_acc \<Rightarrow> bool" where
  "adjust_ok e owner acc \<longleftrightarrow>
     registers_undo e (empty_mutations owner) (aa_engine acc) (aa_mutations acc)"

locale transactional_policies =
  fixes policies :: "('s, 'o, 'r, 'a) policy list"
  assumes check_registers:
      "policy \<in> set policies \<Longrightarrow> \<not> ctx_drop_copy ctx \<Longrightarrow>
       perform_pre_trade_check policy ctx ord p ms = (p', ms', r) \<Longrightarrow>
       registers_undo (pl_engine p) ms (pl_engine p') ms'"
    and adjustment_registers:
      "policy \<in> set policies \<Longrightarrow> apply_account_adjustment policy account adj e ms = (e', ms', r') \<Longrightarrow>
       registers_undo e ms e' ms'"
    and retirement_registers:
      "policy \<in> set policies \<Longrightarrow> retire_account_hook policy account e ms = (e', ms', r'') \<Longrightarrow>
       registers_undo e ms e' ms'"
    and start_keeps_flags:
      "policy \<in> set policies \<Longrightarrow> \<not> ctx_drop_copy ctx \<Longrightarrow> flags_ok (eng_blocked (pl_engine p)) \<Longrightarrow>
       flags_ok (eng_blocked (pl_engine (fst (check_pre_trade_start policy now ctx ord p))))"

text \<open>
  What the policies answer: every policy is asked, in registration order and whatever the earlier
  ones answered, each on the state and the mutations the earlier ones left.
\<close>

fun main_answers ::
  "('s, 'o, 'r, 'a) policy list \<Rightarrow> pre_trade_context \<Rightarrow> 'o \<Rightarrow> 's pipeline \<Rightarrow> 's engine mutations \<Rightarrow>
   (('s, 'o, 'r, 'a) policy \<times> (rejects + policy_pre_trade_result option)) list" where
  "main_answers [] ctx ord p ms = []"
| "main_answers (policy # policies) ctx ord p ms =
     (case perform_pre_trade_check policy ctx ord p ms of
        (p', ms', answer) \<Rightarrow> (policy, answer) # main_answers policies ctx ord p' ms')"

fun retire_answers ::
  "('s, 'o, 'r, 'a) policy list \<Rightarrow> account_id \<Rightarrow> 's engine \<Rightarrow> 's engine mutations \<Rightarrow>
   (('s, 'o, 'r, 'a) policy \<times> (account_retirement_refusal + unit)) list" where
  "retire_answers [] account e ms = []"
| "retire_answers (policy # policies) account e ms =
     (case retire_account_hook policy account e ms of
        (e', ms', answer) \<Rightarrow> (policy, answer) # retire_answers policies account e' ms')"

definition answered_rejects :: "('p \<times> (rejects + 'x)) list \<Rightarrow> reject list" where
  "answered_rejects answers = concat (map (\<lambda>(_, answer). case_sum rejects_vec (\<lambda>_. []) answer) answers)"

definition answered_refusals ::
  "(('s, 'o, 'r, 'a) policy \<times> (account_retirement_refusal + unit)) list \<Rightarrow>
   account_retirement_policy_refusal list" where
  "answered_refusals answers =
     concat (map (\<lambda>(policy, answer). case_sum
       (\<lambda>refusal. [\<lparr>arp_policy = pol_name policy, arp_refusal = refusal\<rparr>]) (\<lambda>_. []) answer) answers)"

text \<open>
  A pair of custom policies over a counter: the first reserves three units and registers their
  release, the second refuses, with account scope in the main stage, and adjustments of zero.
\<close>

definition put_counter :: "nat \<Rightarrow> nat engine \<Rightarrow> nat engine" where
  "put_counter n e = e\<lparr>eng_policy_state := n\<rparr>"

definition release_three :: "nat engine mutation" where
  "release_three = new_engine_owned (\<lambda>e. e) (\<lambda>e. put_counter (eng_policy_state e - 3) e)"

definition reserve_policy :: "(nat, account_id, unit, nat) policy" where
  "reserve_policy = (policy_default ''Reserve'')\<lparr>
     perform_pre_trade_check := (\<lambda>_ _ p ms.
       (p\<lparr>pl_engine := put_counter (eng_policy_state (pl_engine p) + 3) (pl_engine p)\<rparr>,
        mutations_push ms release_three, Inr None)),
     apply_account_adjustment := (\<lambda>_ _ e ms.
       (put_counter (eng_policy_state e + 3) e, mutations_push ms release_three,
        Inr \<lparr>aar_account_adjustments = [], aar_account_blocks = []\<rparr>))\<rparr>"

definition refusal_of :: "string \<Rightarrow> rejects" where
  "refusal_of name = rejects_new [reject_new name ScopeAccount RiskLimitExceeded ''refused'' []]"

definition refuse_policy :: "(nat, account_id, unit, nat) policy" where
  "refuse_policy = (policy_default ''Refuse'')\<lparr>
     perform_pre_trade_check := (\<lambda>_ _ p ms. (p, ms, Inl (refusal_of ''Refuse''))),
     apply_account_adjustment := (\<lambda>_ n e ms.
       (e, ms, if n = 0 then Inl (refusal_of ''Refuse'')
               else Inr \<lparr>aar_account_adjustments = [], aar_account_blocks = []\<rparr>))\<rparr>"

definition counter_engine :: "nat engine" where
  "counter_engine =
     \<lparr>eng_policy_state = 5, eng_blocked = blocked_accounts_new, eng_groups = [],
      eng_account_currencies = account_currencies_new\<rparr>"

definition counter_request :: "account_id pre_trade_request" where
  "counter_request =
     \<lparr>rq_ctx = \<lparr>ctx_account = Inr 7, ctx_drop_copy = False\<rparr>,
      rq_group_lookup = group_lookup_new (Some 7), rq_order = 7\<rparr>"

section \<open>Lemmas\<close>

lemma registers_undo_refl [simp]: "registers_undo w ms w ms"
  by (auto simp: registers_undo_def intro: undo_chain.start)

lemma registers_undo_trans:
  assumes "registers_undo w ms w' ms'" and "registers_undo w' ms' w'' ms''"
  shows "registers_undo w ms w'' ms''"
proof -
  obtain ns ns' where "mutation_list ms' = mutation_list ms @ ns" "undo_chain w ns w'"
    "mutation_list ms'' = mutation_list ms' @ ns'" "undo_chain w' ns' w''"
    using assms by (auto simp: registers_undo_def)
  then show ?thesis
    using undo_chain_append [of w' ns' w'' w ns] by (auto simp: registers_undo_def)
qed

lemma registered_rollback:
  "registers_undo w (empty_mutations owner) w' ms' \<Longrightarrow> rollback_all ms' w' = (w, failure_default)"
  using undo_chain_rollback by (fastforce simp: registers_undo_def empty_mutations_def rollback_all_def)

lemma no_failure_recorded [simp]: "engine_record_mutation_failure account failure_default e = e"
  by (simp add: engine_record_mutation_failure_def failure_default_def)

lemma note_account_block_live:
  "\<not> ctx_drop_copy ctx \<Longrightarrow> note_account_block ctx rs p b = (p, first_block)
   \<longleftrightarrow> first_block = (if b = None then reject_account_block rs else b)"
  by (auto simp: note_account_block_def Let_def split: option.splits)

lemma find_append: "find P (xs @ ys) = (case find P xs of Some x \<Rightarrow> Some x | None \<Rightarrow> find P ys)"
  by (induction xs) auto

lemma reject_account_block_append:
  "reject_account_block (xs @ ys) =
     (if reject_account_block xs = None then reject_account_block ys else reject_account_block xs)"
  by (auto simp: reject_account_block_def find_append split: option.splits)

lemma reject_account_block_None:
  "reject_account_block rs = None \<longleftrightarrow> list_all (\<lambda>r. rj_scope r \<noteq> ScopeAccount) rs"
  by (auto simp: reject_account_block_def find_None_iff list_all_iff)

lemma collected_ok_empty [simp]: "collected_ok [] 0 None"
  by (simp add: collected_ok_def reject_account_block_def)

lemma collected_ok_add:
  "collected_ok collection n block \<Longrightarrow>
   collected_ok (collection @ [rs]) (n + length (rejects_vec rs))
     (if block = None then reject_account_block (rejects_vec rs) else block)"
  by (auto simp: collected_ok_def reject_account_block_append)

lemma merge_collected:
  "collected_ok collection n block \<Longrightarrow>
   merge_reject_lists collection n =
     (if concat (map rejects_vec collection) = [] then None
      else Some (rejects_new (concat (map rejects_vec collection))))"
  by (simp add: collected_ok_def merge_reject_lists_def)

lemma merge_collected_block:
  "collected_ok collection n block \<Longrightarrow> merge_reject_lists collection n = Some rs \<Longrightarrow>
   block = reject_account_block (rejects_vec rs)"
  by (auto simp: merge_collected collected_ok_def split: if_splits)

lemma start_loop_live:
  assumes "\<not> ctx_drop_copy ctx" and "start_loop hook ps ctx ord p collection n block = (p', c', n', b')"
    and "collected_ok collection n block"
  shows "collected_ok c' n' b'"
  using assms
proof (induction ps arbitrary: p collection n block)
  case (Cons policy ps)
  obtain q r where q: "hook policy ctx ord p = (q, r)" by force
  show ?case
  proof (cases r)
    case (Inr u)
    then show ?thesis using Cons q by simp
  next
    case (Inl rs)
    have "note_account_block ctx (rejects_vec rs) q block =
        (q, if block = None then reject_account_block (rejects_vec rs) else block)"
      using Cons.prems(1) note_account_block_live by blast
    then show ?thesis
      using Cons.IH [OF Cons.prems(1) _ collected_ok_add [OF Cons.prems(3), of rs]] Cons.prems(2) q Inl
      by simp
  qed
qed simp

lemma start_loop_pipeline:
  assumes "\<not> ctx_drop_copy ctx" and "I p"
    and "\<And>policy q. policy \<in> set ps \<Longrightarrow> I q \<Longrightarrow> I (fst (hook policy ctx ord q))"
  shows "I (fst (start_loop hook ps ctx ord p collection n block))"
  using assms(2,3)
proof (induction ps arbitrary: p collection n block)
  case (Cons policy ps)
  obtain q r where q: "hook policy ctx ord p = (q, r)" by force
  have I: "I q" using Cons.prems(1) Cons.prems(2) [of policy p] q by simp
  show ?case
  proof (cases r)
    case (Inr u)
    then show ?thesis using Cons.IH [OF I] Cons.prems(2) q by simp
  next
    case (Inl rs)
    have "note_account_block ctx (rejects_vec rs) q block =
        (q, if block = None then reject_account_block (rejects_vec rs) else block)"
      using assms(1) note_account_block_live by blast
    then show ?thesis using Cons.IH [OF I] Cons.prems(2) q Inl by simp
  qed
qed simp


lemma every_policy_answers:
  "map fst (main_answers ps ctx ord p ms) = ps" "map fst (retire_answers ps account e ms) = ps"
  by (induction ps arbitrary: p ms e) (auto split: prod.splits)

lemma main_step_answer:
  assumes "\<not> ctx_drop_copy ctx"
    and "perform_pre_trade_check policy ctx ord (ma_pipeline acc) (ma_mutations acc) = (p, ms, answer)"
  shows "ma_pipeline (main_step perform_pre_trade_check ctx ord policy acc) = p \<and>
    ma_mutations (main_step perform_pre_trade_check ctx ord policy acc) = ms \<and>
    concat (map rejects_vec (ma_rejects (main_step perform_pre_trade_check ctx ord policy acc))) =
      concat (map rejects_vec (ma_rejects acc)) @ case_sum rejects_vec (\<lambda>_. []) answer"
proof (cases answer)
  case (Inl rs)
  have noted: "note_account_block ctx (rejects_vec rs) q b =
      (q, if b = None then reject_account_block (rejects_vec rs) else b)" for q :: "'a pipeline" and b
    using assms(1) note_account_block_live by blast
  show ?thesis
    using assms Inl
    by (auto simp: main_step_def Let_def into_parts_def noted split: option.splits)
next
  case (Inr outcome)
  then show ?thesis using assms(2) by (cases outcome) (simp_all add: main_step_def Let_def)
qed

lemma main_fold_answers:
  assumes "\<not> ctx_drop_copy ctx"
  shows "concat (map rejects_vec
      (ma_rejects (fold (main_step perform_pre_trade_check ctx ord) ps acc))) =
    concat (map rejects_vec (ma_rejects acc)) @
      answered_rejects (main_answers ps ctx ord (ma_pipeline acc) (ma_mutations acc))"
proof (induction ps arbitrary: acc)
  case Nil
  then show ?case by (simp add: answered_rejects_def)
next
  case (Cons policy ps)
  obtain p ms answer where hook:
    "perform_pre_trade_check policy ctx ord (ma_pipeline acc) (ma_mutations acc) = (p, ms, answer)"
    by (metis prod_cases3)
  then show ?case
    using main_step_answer [OF assms hook] Cons.IH by (simp add: answered_rejects_def)
qed

lemma retire_loop_answers:
  "snd (snd (retire_loop ps account e ms refusals)) =
     refusals @ answered_refusals (retire_answers ps account e ms)"
proof (induction ps arbitrary: e ms refusals)
  case (Cons policy ps)
  obtain e1 ms1 r where "retire_account_hook policy account e ms = (e1, ms1, r)"
    by (metis prod_cases3)
  then show ?case using Cons.IH by (cases r) (simp_all add: answered_refusals_def)
qed (simp add: answered_refusals_def)

lemma answered_refusals_empty:
  "answered_refusals answers = [] \<longleftrightarrow> (\<forall>(policy, answer) \<in> set answers. answer = Inr ())"
  by (auto simp: answered_refusals_def split: sum.splits)

context transactional_policies
begin

lemma main_step_ok:
  assumes "policy \<in> set policies" and "\<not> ctx_drop_copy ctx" and "main_ok e owner acc"
  shows "main_ok e owner (main_step perform_pre_trade_check ctx ord policy acc)"
proof -
  obtain p ms r where hook:
    "perform_pre_trade_check policy ctx ord (ma_pipeline acc) (ma_mutations acc) = (p, ms, r)"
    by (metis prod_cases3)
  have undo: "registers_undo e (empty_mutations owner) (pl_engine p) ms"
    using assms(3) check_registers [OF assms(1,2) hook] registers_undo_trans
    by (auto simp: main_ok_def)
  show ?thesis
  proof (cases r)
    case (Inr outcome)
    then show ?thesis
      using hook undo assms(3)
      by (cases outcome) (simp_all add: main_step_def main_ok_def Let_def)
  next
    case (Inl rs)
    have noted: "note_account_block ctx (rejects_vec rs) q b =
        (q, if b = None then reject_account_block (rejects_vec rs) else b)" for q :: "'s pipeline" and b
      using assms(2) note_account_block_live by blast
    have "collected_ok (ma_rejects acc @ [rejects_new (rejects_vec rs)])
        (ma_total acc + length (rejects_vec rs))
        (if ma_block acc = None then reject_account_block (rejects_vec rs) else ma_block acc)"
      using assms(3) collected_ok_add [of "ma_rejects acc" "ma_total acc" "ma_block acc"
          "rejects_new (rejects_vec rs)"]
      by (simp only: main_ok_def rejects_simps)
    then show ?thesis
      using hook undo Inl assms(2)
      by (auto simp: main_step_def main_ok_def Let_def into_parts_def noted split: option.splits)
  qed
qed

lemma main_fold_ok:
  assumes "set ps \<subseteq> set policies" and "\<not> ctx_drop_copy ctx" and "main_ok e owner acc"
  shows "main_ok e owner (fold (main_step perform_pre_trade_check ctx ord) ps acc)"
  using assms(1,3)
proof (induction ps arbitrary: acc)
  case (Cons policy ps)
  then show ?case using main_step_ok [OF _ assms(2)] by simp
qed simp

lemma main_stage_answers:
  assumes "\<not> ctx_drop_copy ctx"
    and "run_pre_trade_main_stage perform_pre_trade_check owner policies ctx ord p =
      (p', r, block, ms, out)"
  defines "answers \<equiv> answered_rejects (main_answers policies ctx ord p (empty_mutations owner))"
  shows "rollback_all ms (pl_engine p') = (pl_engine p, failure_default) \<and>
    r = (if answers = [] then None else Some (rejects_new answers)) \<and>
    block = reject_account_block answers"
proof -
  let ?acc = "fold (main_step perform_pre_trade_check ctx ord) policies (main_start owner p)"
  have "main_ok (pl_engine p) owner (main_start owner p)"
    by (simp add: main_ok_def main_start_def)
  then have ok: "main_ok (pl_engine p) owner ?acc"
    using main_fold_ok [OF subset_refl assms(1)] by blast
  have parts: "ma_pipeline ?acc = p'" "ma_mutations ?acc = ms" "ma_block ?acc = block"
    "merge_reject_lists (ma_rejects ?acc) (ma_total ?acc) = r"
    using assms(2) by (simp_all add: run_pre_trade_main_stage_def Let_def)
  have collected: "collected_ok (ma_rejects ?acc) (ma_total ?acc) block"
    using ok by (simp add: main_ok_def parts(3))
  have "concat (map rejects_vec (ma_rejects ?acc)) = answers"
    using main_fold_answers [OF assms(1), of ord policies "main_start owner p"]
    by (simp add: main_start_def answers_def)
  then have "r = (if answers = [] then None else Some (rejects_new answers))"
    "block = reject_account_block answers"
    using merge_collected [OF collected] collected parts(4) by (simp_all add: collected_ok_def)
  moreover have "rollback_all ms (pl_engine p') = (pl_engine p, failure_default)"
    using ok by (auto simp: main_ok_def parts intro: registered_rollback)
  ultimately show ?thesis by blast
qed

lemma adjust_policies_ok:
  assumes "set ps \<subseteq> set policies" and "adjust_ok e owner acc"
  shows "adjust_ok e owner (fst (adjust_policies ps account adj acc))"
  using assms
proof (induction ps arbitrary: acc)
  case (Cons policy ps)
  obtain e' ms r where hook:
    "apply_account_adjustment policy account adj (aa_engine acc) (aa_mutations acc) = (e', ms, r)"
    by (metis prod_cases3)
  have "registers_undo e (empty_mutations owner) e' ms"
    using Cons.prems adjustment_registers [OF _ hook] registers_undo_trans
    by (auto simp: adjust_ok_def)
  then show ?case
    using Cons hook by (cases r) (simp_all add: adjust_ok_def)
qed simp

lemma adjust_batch_ok:
  "adjust_ok e owner acc \<Longrightarrow> adjust_ok e owner (fst (adjust_batch policies account i adjs acc))"
proof (induction adjs arbitrary: acc i)
  case (Cons adj adjs)
  obtain acc' r where step: "adjust_policies policies account adj acc = (acc', r)" by force
  have "adjust_ok e owner acc'"
    using adjust_policies_ok [OF subset_refl Cons.prems, of account adj] step by simp
  then show ?case using Cons.IH step by (cases r) simp_all
qed simp

lemma retire_loop_ok:
  assumes "set ps \<subseteq> set policies" and "registers_undo e ms0 e1 ms1"
    and "retire_loop ps account e1 ms1 refusals = (e', ms', refusals')"
  shows "registers_undo e ms0 e' ms'"
  using assms
proof (induction ps arbitrary: e1 ms1 refusals)
  case (Cons policy ps)
  obtain e2 ms2 r where hook: "retire_account_hook policy account e1 ms1 = (e2, ms2, r)"
    by (metis prod_cases3)
  have "registers_undo e ms0 e2 ms2"
    using Cons.prems(1,2) retirement_registers [OF _ hook] registers_undo_trans by fastforce
  then show ?case
    using Cons.IH [of e2 ms2] Cons.prems(1,3) hook by (cases r) auto
qed simp

lemma start_stage_flags:
  assumes "\<not> ctx_drop_copy ctx" and "flags_ok (eng_blocked (pl_engine p))"
    and "run_pre_trade_start_stage (\<lambda>policy. check_pre_trade_start policy now) policies ctx ord p =
      (p', r)"
  shows "flags_ok (eng_blocked (pl_engine p'))"
  using start_loop_pipeline [of ctx "\<lambda>q. flags_ok (eng_blocked (pl_engine q))" p policies
      "\<lambda>policy. check_pre_trade_start policy now" ord "[]" 0 None] assms start_keeps_flags
  by (auto simp: run_pre_trade_start_stage_def split: prod.splits)

end


lemma blocked_check_blocked:
  "flags_ok b \<Longrightarrow> blocked_check b groups (Some a) scope \<noteq> None \<longleftrightarrow> is_blocked b groups a"
  by (simp add: blocked_check_def cause_refines is_blocked_iff)

lemma record_pre_trade_blocks:
  "flags_ok (eng_blocked e) \<Longrightarrow> block \<noteq> None \<Longrightarrow>
   is_blocked (eng_blocked (record_engine_pre_trade (Some a) block e)) groups a"
  using registry.latch_blocks by (auto simp: record_engine_pre_trade_def record_pre_trade_def)

lemma record_engine_pre_trade_simps [simp]:
  "eng_groups (record_engine_pre_trade a block e) = eng_groups e"
  "record_engine_pre_trade a None e = e"
  "eng_policy_state (record_engine_pre_trade a block e) = eng_policy_state e"
  by (auto simp: record_engine_pre_trade_def split: option.splits)

lemma record_engine_pre_trade_flags:
  "flags_ok (eng_blocked e) \<Longrightarrow> flags_ok (eng_blocked (record_engine_pre_trade a block e))"
  by (auto simp: record_engine_pre_trade_def record_pre_trade_def flags_ok_block split: option.splits)

lemma start_pre_trade_rejected:
  assumes "start_pre_trade policies account_id_of now ord e = (e', Inl rs)"
    and "blocked_check (eng_blocked e) (eng_groups e) (ok_account (account_id_of ord)) ScopeOrder = None"
  shows "\<exists>p block. run_pre_trade_start_stage (\<lambda>policy. check_pre_trade_start policy now) policies
      \<lparr>ctx_account = account_id_of ord, ctx_drop_copy = False\<rparr> ord
      (ordinary_pipeline (ok_account (account_id_of ord)) e) = (p, Some rs, block) \<and>
    block = reject_account_block (rejects_vec rs) \<and>
    e' = record_engine_pre_trade (ok_account (account_id_of ord)) block (pl_engine p)"
proof -
  let ?ctx = "\<lparr>ctx_account = account_id_of ord, ctx_drop_copy = False\<rparr>"
  obtain p c n b where loop: "start_loop (\<lambda>policy. check_pre_trade_start policy now) policies ?ctx ord
      (ordinary_pipeline (ok_account (account_id_of ord)) e) [] 0 None = (p, c, n, b)"
    by (metis prod_cases4)
  have collected: "collected_ok c n b"
    using start_loop_live [OF _ loop] by simp
  have rs: "merge_reject_lists c n = Some rs"
    "e' = record_engine_pre_trade (ok_account (account_id_of ord)) b (pl_engine p)"
    using assms loop
    by (auto simp: start_pre_trade_def Let_def run_pre_trade_start_stage_def split: option.splits)
  then show ?thesis
    using loop merge_collected_block [OF collected rs(1)] by (simp add: run_pre_trade_start_stage_def)
qed

lemma adjust_batch_index:
  "adjust_batch policies account i adjs acc = (acc', Some err) \<Longrightarrow>
   i \<le> abe_failed_adjustment_index err \<and> abe_failed_adjustment_index err < i + length adjs"
  by (induction policies account i adjs acc rule: adjust_batch.induct)
    (auto split: prod.splits option.splits)

lemma mutation_failure_armed:
  "hm_get (accounts_table (record_mutation_failure b (Some a) scope)) a \<noteq> None \<or>
   all_flag (record_mutation_failure b (Some a) scope)"
  using insert_if_absent_lookup [of "accounts_table b" a new_mutation_finalizer_block]
  by (auto simp: record_mutation_failure_def block_account_def block_all_with_cause_def keep_first_def
      split: mutation_failure_scope.splits prod.splits if_splits)

lemma retired_parts:
  assumes "e3 = e2\<lparr>eng_account_currencies := clear_account_currency (eng_account_currencies e2) account\<rparr>"
    and "e4 = e3\<lparr>eng_groups := groups_retire_account (eng_groups e3) account\<rparr>"
    and "e' = e4\<lparr>eng_blocked := unblock_account (eng_blocked e4) account\<rparr>"
  shows "account_currency_of (eng_account_currencies e') account = None \<and> group_of (eng_groups e') account = None \<and>
    hm_get (accounts_table (eng_blocked e')) account = None"
  unfolding assms
  by (simp add: groups_retire_account_def group_of_alt)

lemma retirement_unrefused:
  assumes "retire_loop policies account e (empty_mutations owner) [] = (e1, ms, [])"
  shows "case engine_retire_account policies owner account e of
      (e', Inl (Refused refusals)) \<Rightarrow> False
    | (e', Inl FinalizerFailed) \<Rightarrow>
        hm_get (accounts_table (eng_blocked e')) account \<noteq> None \<or> all_flag (eng_blocked e')
    | (e', Inr _) \<Rightarrow>
        account_currency_of (eng_account_currencies e') account = None \<and>
        group_of (eng_groups e') account = None \<and> hm_get (accounts_table (eng_blocked e')) account = None"
proof -
  obtain e2 failure where commit: "commit_all ms e1 = (e2, failure)" by force
  show ?thesis
  proof (cases "mf_scope failure")
    case (Some scope)
    then have "engine_retire_account policies owner account e =
        (e2\<lparr>eng_blocked := record_mutation_failure (eng_blocked e2) (Some account) scope\<rparr>,
         Inl FinalizerFailed)"
      using assms commit
      by (simp add: engine_retire_account_def failure_failed_def engine_record_mutation_failure_def)
    then show ?thesis using mutation_failure_armed [of "eng_blocked e2" account scope] by simp
  next
    case None
    then have "engine_retire_account policies owner account e =
        (let e3 = e2\<lparr>eng_account_currencies := clear_account_currency (eng_account_currencies e2) account\<rparr>;
             e4 = e3\<lparr>eng_groups := groups_retire_account (eng_groups e3) account\<rparr>
         in (e4\<lparr>eng_blocked := unblock_account (eng_blocked e4) account\<rparr>, Inr ()))"
      using assms commit by (simp add: engine_retire_account_def failure_failed_def)
    then show ?thesis using retired_parts [OF refl refl refl, of e2 account] by (simp add: Let_def)
  qed
qed

lemma release_undoes: "mutation_rollback release_three (put_counter (eng_policy_state e + 3) e) = (e, failure_default)"
  by (simp add: release_three_def mutation_rollback_def new_engine_owned_def new_infallible_def
      new_reporting_with_error_def drop_guard_def put_counter_def)

lemma reserve_registers:
  "registers_undo e ms (put_counter (eng_policy_state e + 3) e) (mutations_push ms release_three)"
  using undo_chain_single [OF release_undoes] by (auto simp: registers_undo_def mutations_push_def)

interpretation counter: transactional_policies "[reserve_policy, refuse_policy, refuse_policy]"
  by unfold_locales
    (auto simp: reserve_policy_def refuse_policy_def policy_default_def reserve_registers)

lemma counter_unblocked:
  "blocked_check (eng_blocked counter_engine) (eng_groups counter_engine) account scope = None"
  by (simp add: counter_engine_def blocked_check_def with_blocking_cause_def blocked_accounts_new_def)

lemma counter_answers:
  "answered_rejects (main_answers [reserve_policy, refuse_policy, refuse_policy] ctx ord p ms) =
     rejects_vec (refusal_of ''Refuse'') @ rejects_vec (refusal_of ''Refuse'')"
  by (simp add: answered_rejects_def reserve_policy_def refuse_policy_def policy_default_def)

lemma counter_batch_rejects:
  "snd (engine_apply_account_adjustment [reserve_policy, refuse_policy, refuse_policy] 1 7 [4, 0] counter_engine) =
     Inl \<lparr>abe_rejects = refusal_of ''Refuse'', abe_failed_adjustment_index = 1\<rparr>"
  by (simp add: engine_apply_account_adjustment_def reserve_policy_def refuse_policy_def
      policy_default_def case_prod_beta)

section \<open>Properties\<close>

text \<open>
  (C21) A blocked account never reaches a policy: while the account itself, its group or everything
  is blocked, submitting an order of the account, at once or deferred, and both dry runs give the
  same reject whatever the policies are, and leave the engine as it is; so does executing a request
  that was accepted before the block.
\<close>

theorem blocked_account_reaches_no_policy:
  assumes "flags_ok (eng_blocked e)" and "account_id_of ord = Inr a"
    and "is_blocked (eng_blocked e) (eng_groups e) a"
  shows "\<exists>rs. blocked_check (eng_blocked e) (eng_groups e) (Some a) ScopeOrder = Some rs \<and>
    start_pre_trade policies account_id_of now ord e = (e, Inl rs) \<and>
    execute_pre_trade policies account_id_of now owner ord e = (e, Inl rs) \<and>
    execute_pre_trade_request policies owner
      \<lparr>rq_ctx = \<lparr>ctx_account = Inr a, ctx_drop_copy = False\<rparr>, rq_group_lookup = g, rq_order = ord\<rparr>
      (Some e) = (Some e, Inl rs) \<and>
    start_pre_trade_dry_run policies account_id_of now ord e =
      (e, dry_run_report_new (Some rs) lock_new [] None) \<and>
    execute_pre_trade_dry_run policies account_id_of now owner ord e =
      (e, dry_run_report_new (Some rs) lock_new [] None)"
proof -
  obtain rs where "blocked_check (eng_blocked e) (eng_groups e) (Some a) ScopeOrder = Some rs"
    using assms blocked_check_blocked by blast
  then show ?thesis
    using assms(2) by (simp add: start_pre_trade_def execute_pre_trade_def
        execute_pre_trade_request_def start_pre_trade_dry_run_def execute_pre_trade_dry_run_def
        ok_account_def Let_def)
qed

theorem blocked_account_reaches_no_policy_witness:
  "\<exists>rs. execute_pre_trade [reserve_policy, refuse_policy] Inr 0 1 7
     (counter_engine\<lparr>eng_blocked := fst (block_account blocked_accounts_new 7 new_mutation_finalizer_block)\<rparr>) =
     (counter_engine\<lparr>eng_blocked := fst (block_account blocked_accounts_new 7 new_mutation_finalizer_block)\<rparr>,
      Inl rs)"
  using blocked_account_reaches_no_policy
    [of "counter_engine\<lparr>eng_blocked := fst (block_account blocked_accounts_new 7 new_mutation_finalizer_block)\<rparr>"
      Inr 7 7 "[reserve_policy, refuse_policy]" 0 1 "group_lookup_new None"]
    registry.latch_blocks [OF flags_ok_new] registry.latch_okay [OF flags_ok_new] by fastforce

text \<open>
  (C19) A rejected request leaves no trace. The main stage of a request, outside drop copy, that is
  not stopped by a block asks every policy, whatever the earlier ones answered, and rejects the request exactly when
  they give a reject; what it returns are all rejects of all policies in registration order. When
  the policies keep the mutation contract, the engine is then exactly as before the stage, except
  that an account-scoped reject, and only the first of them, records its block for the account.
\<close>

theorem rejected_request_leaves_no_trace:
  assumes "transactional_policies policies" and "\<not> ctx_drop_copy (rq_ctx request)"
    and "blocked_check (eng_blocked e) (eng_groups e) (ok_account (ctx_account (rq_ctx request)))
      ScopeOrder = None"
    and "answers = main_answers policies (rq_ctx request) (rq_order request)
      \<lparr>pl_engine = e, pl_group_lookup = rq_group_lookup request, pl_drop_copy = None\<rparr>
      (empty_mutations owner)"
  shows "map fst answers = policies \<and>
    (case execute_pre_trade_request policies owner request (Some e) of
       (e', Inl rs) \<Rightarrow>
         rejects_vec rs = answered_rejects answers \<and> answered_rejects answers \<noteq> [] \<and>
         e' = Some (record_engine_pre_trade (ok_account (ctx_account (rq_ctx request)))
           (reject_account_block (answered_rejects answers)) e)
     | (e', Inr _) \<Rightarrow> answered_rejects answers = [])"
proof -
  let ?p = "\<lparr>pl_engine = e, pl_group_lookup = rq_group_lookup request, pl_drop_copy = None\<rparr>"
  obtain p r block ms out where stage:
    "run_pre_trade_main_stage perform_pre_trade_check owner policies (rq_ctx request)
      (rq_order request) ?p = (p, r, block, ms, out)"
    by (metis prod_cases5)
  have "rollback_all ms (pl_engine p) = (e, failure_default)"
    "r = (if answered_rejects answers = [] then None
          else Some (rejects_new (answered_rejects answers)))"
    "block = reject_account_block (answered_rejects answers)"
    using transactional_policies.main_stage_answers [OF assms(1,2) stage] assms(4) by simp_all
  then show ?thesis
    using stage assms(3) every_policy_answers(1)
    by (auto simp: assms(4) execute_pre_trade_request_def Let_def split: prod.splits)
qed

theorem rejected_request_leaves_no_trace_witness:
  "case execute_pre_trade_request [reserve_policy, refuse_policy, refuse_policy] 1 counter_request
     (Some counter_engine) of
     (e', Inl rs) \<Rightarrow> map_option eng_policy_state e' = Some 5 \<and> length (rejects_vec rs) = 2
   | (e', Inr _) \<Rightarrow> False"
proof -
  have two: "length (rejects_vec (refusal_of ''Refuse'')) = 1" by (simp add: refusal_of_def)
  then have "rejects_vec (refusal_of ''Refuse'') \<noteq> []" by force
  with two show ?thesis
    using rejected_request_leaves_no_trace
      [OF counter.transactional_policies_axioms _ counter_unblocked refl, of counter_request 1]
    unfolding counter_answers
    by (cases "execute_pre_trade_request [reserve_policy, refuse_policy, refuse_policy] 1 counter_request
        (Some counter_engine)"; cases "snd (execute_pre_trade_request [reserve_policy, refuse_policy,
        refuse_policy] 1 counter_request (Some counter_engine))")
      (simp_all add: counter_request_def, simp_all add: counter_engine_def)
qed

text \<open>
  An account-scoped reject of the start stage latches: afterwards the account is blocked, and
  every later order of that account, on the same policies, is rejected without the engine changing.
\<close>

lemma account_reject_latches:
  assumes "transactional_policies policies" and "flags_ok (eng_blocked e)"
    and "account_id_of ord = Inr a"
    and "start_pre_trade policies account_id_of now ord e = (e', Inl rs)"
    and "list_ex (\<lambda>r. rj_scope r = ScopeAccount) (rejects_vec rs)"
    and "account_id_of later = Inr a"
  shows "is_blocked (eng_blocked e') (eng_groups e') a \<and>
    (\<exists>rs'. start_pre_trade policies account_id_of now' later e' = (e', Inl rs'))"
proof -
  have "flags_ok (eng_blocked e') \<and> is_blocked (eng_blocked e') (eng_groups e') a"
  proof (cases "blocked_check (eng_blocked e) (eng_groups e) (Some a) ScopeOrder")
    case None
    then obtain p block where stage: "run_pre_trade_start_stage
        (\<lambda>policy. check_pre_trade_start policy now) policies
        \<lparr>ctx_account = account_id_of ord, ctx_drop_copy = False\<rparr> ord
        (ordinary_pipeline (Some a) e) = (p, Some rs, block)"
      and block: "block = reject_account_block (rejects_vec rs)"
      and e': "e' = record_engine_pre_trade (Some a) block (pl_engine p)"
      using start_pre_trade_rejected [OF assms(4)] assms(3) by (auto simp: ok_account_def)
    have "flags_ok (eng_blocked (pl_engine p))"
      using transactional_policies.start_stage_flags [OF assms(1) _ _ stage] assms(2)
      by (simp add: ordinary_pipeline_def)
    moreover have "block \<noteq> None"
      using assms(5) by (auto simp: block reject_account_block_None list_ex_iff list_all_iff)
    ultimately show ?thesis
      by (simp add: e' record_engine_pre_trade_flags record_pre_trade_blocks)
  next
    case (Some r)
    then show ?thesis
      using assms(2-4) blocked_check_blocked [OF assms(2), of "eng_groups e" a ScopeOrder]
      by (auto simp: start_pre_trade_def ok_account_def Let_def)
  qed
  then show ?thesis
    using blocked_check_blocked [of "eng_blocked e'" "eng_groups e'" a ScopeOrder] assms(6)
    by (auto simp: start_pre_trade_def ok_account_def Let_def)
qed


text \<open>
  (C22) An account-adjustment batch is all or nothing: when the policies keep the mutation contract
  and one element is rejected, the engine is exactly as before the batch, no reported block is
  recorded, and the error names an element of the batch.
\<close>

theorem adjustment_batch_all_or_nothing:
  assumes "transactional_policies policies"
    and "engine_apply_account_adjustment policies owner account adjs e = (e', Inl err)"
  shows "e' = e \<and> abe_failed_adjustment_index err < length adjs"
proof -
  obtain acc r where batch: "adjust_batch policies account 0 adjs (adjust_start owner e) = (acc, r)"
    by force
  have "adjs \<noteq> []" using assms(2) by (auto simp: engine_apply_account_adjustment_def)
  then have r: "r = Some err"
    using assms(2) batch
    by (auto simp: engine_apply_account_adjustment_def Let_def split: option.splits prod.splits)
  have "adjust_ok e owner (adjust_start owner e)"
    by (simp add: adjust_ok_def adjust_start_def)
  then have "adjust_ok e owner acc"
    using transactional_policies.adjust_batch_ok [OF assms(1)] batch by (metis fst_conv)
  then have "rollback_all (aa_mutations acc) (aa_engine acc) = (e, failure_default)"
    by (auto simp: adjust_ok_def intro: registered_rollback)
  then show ?thesis
    using assms(2) batch r \<open>adjs \<noteq> []\<close> adjust_batch_index [of policies account 0 adjs _ acc err]
    by (auto simp: engine_apply_account_adjustment_def)
qed

theorem adjustment_batch_all_or_nothing_witness:
  "fst (engine_apply_account_adjustment [reserve_policy, refuse_policy, refuse_policy] 1 7 [4, 0] counter_engine) =
     counter_engine"
proof -
  obtain e' err where run: "engine_apply_account_adjustment [reserve_policy, refuse_policy, refuse_policy] 1 7 [4, 0]
      counter_engine = (e', Inl err)"
    using counter_batch_rejects by (metis prod.collapse)
  show ?thesis
    using adjustment_batch_all_or_nothing [OF counter.transactional_policies_axioms run]
    by (simp add: run)
qed

text \<open>
  (C23) Retirement is all or nothing. Every policy is asked, in registration order, each on what the
  earlier ones left. The retirement is refused exactly when some policy refuses, and the refusals
  are then those of exactly the refusing policies, in that order; when the policies keep the
  mutation contract, the engine is exactly as before. When no policy refuses but a removal fails,
  the kill switch is armed for the account or globally; when it succeeds, the account has no
  currency of its own, no group and no block of its own.
\<close>

theorem retirement_all_or_nothing:
  assumes "transactional_policies policies"
    and "answers = retire_answers policies account e (empty_mutations owner)"
  shows "map fst answers = policies \<and>
    (case engine_retire_account policies owner account e of
       (e', Inl (Refused refusals)) \<Rightarrow>
         e' = e \<and> refusals = answered_refusals answers \<and>
         (\<exists>(policy, answer) \<in> set answers. answer \<noteq> Inr ())
     | (e', Inl FinalizerFailed) \<Rightarrow>
         (\<forall>(policy, answer) \<in> set answers. answer = Inr ()) \<and>
         (hm_get (accounts_table (eng_blocked e')) account \<noteq> None \<or> all_flag (eng_blocked e'))
     | (e', Inr _) \<Rightarrow>
         (\<forall>(policy, answer) \<in> set answers. answer = Inr ()) \<and>
         account_currency_of (eng_account_currencies e') account = None \<and>
         group_of (eng_groups e') account = None \<and>
         hm_get (accounts_table (eng_blocked e')) account = None)"
proof -
  obtain e1 ms refusals where loop:
    "retire_loop policies account e (empty_mutations owner) [] = (e1, ms, refusals)"
    by (metis prod_cases3)
  have refusals: "refusals = answered_refusals answers"
    using retire_loop_answers [of policies account e "empty_mutations owner" "[]"] loop
    by (simp add: assms(2))
  have asked: "map fst answers = policies" by (simp add: assms(2) every_policy_answers)
  have undo: "rollback_all ms e1 = (e, failure_default)"
    using transactional_policies.retire_loop_ok [OF assms(1) subset_refl registers_undo_refl loop]
    by (rule registered_rollback)
  show ?thesis
  proof (cases "refusals = []")
    case False
    then have "engine_retire_account policies owner account e = (e, Inl (Refused refusals))"
      using loop undo by (simp add: engine_retire_account_def)
    then show ?thesis using False asked answered_refusals_empty [of answers] refusals by auto
  next
    case True
    then have "\<forall>(policy, answer) \<in> set answers. answer = Inr ()"
      using answered_refusals_empty [of answers] refusals by simp
    then show ?thesis
      using retirement_unrefused [OF loop [unfolded True]] asked
      by (auto split: prod.splits sum.splits account_retirement_error.splits)
  qed
qed

end
