(* ===== verification/Spot_Funds.thy ===== *)
theory Spot_Funds
  imports Spot_Settings Engine "HOL-Library.Char_ord" "HOL-Library.List_Lexorder"
begin

text \<open>
  The spot funds policy (\<open>crates/openpit/src/pretrade/policies/spot_funds\<close>): its state, the
  account P\&L with its lease (\<open>mod.rs\<close>), its rejects (\<open>rejects.rs\<close>), the valuation
  of positions against the P\&L barriers of the four axes (\<open>unrealized.rs\<close> and the
  conversion functions of \<open>execution.rs\<close>), and the worst-case position limit
  (\<open>position_limit.rs\<close>).

  A lease guard is released at the end of its scope. A wait for a lease that another owner holds
  does not end when one operation runs after the other: \<open>sf_stuck\<close> records that an
  operation got there. Owner identifiers and assertion tokens come from the counter
  \<open>sf_next_owner\<close>.
\<close>

section \<open>State\<close>

definition SPOT_FUNDS_POLICY_NAME :: string where
  "SPOT_FUNDS_POLICY_NAME = ''SpotFundsPolicy''"

definition account_pnl_entry_zero :: account_pnl_entry where
  "account_pnl_entry_zero = \<lparr>ape_state = PnlState_Value 0, ape_assertion_token = None\<rparr>"

record account_pnl_lease =
  lease_owner :: u64
  lease_depth :: nat

record spot_funds =
  sf_holdings :: holdings_store
  sf_settings :: spot_funds_settings
  sf_market_orders :: "market_data_service option"
  sf_pnl :: account_pnl_storage
  sf_active :: "(account_id, nat) storage"
  sf_leases :: "(account_id, account_pnl_lease option) storage"
  sf_group_id :: policy_group_id
  sf_next_owner :: u64
  sf_stuck :: bool

definition spot_funds_new ::
  "spot_funds_settings \<Rightarrow> market_data_service option \<Rightarrow> u64 \<Rightarrow> spot_funds" where
  "spot_funds_new settings market_orders counter =
     \<lparr>sf_holdings = holdings_store_new, sf_settings = settings, sf_market_orders = market_orders,
      sf_pnl = [], sf_active = [], sf_leases = [], sf_group_id = DEFAULT_POLICY_GROUP_ID,
      sf_next_owner = counter, sf_stuck = False\<rparr>"

definition spot_with_policy_group_id :: "spot_funds \<Rightarrow> policy_group_id \<Rightarrow> spot_funds" where
  "spot_with_policy_group_id self g = self\<lparr>sf_group_id := g\<rparr>"

definition pnl_bounds_kill_switch ::
  "spot_pnl_barrier option \<Rightarrow> spot_pnl_group_barrier list \<Rightarrow> spot_pnl_account_barrier list \<Rightarrow>
   market_data_service option \<Rightarrow> u64 \<Rightarrow> spot_funds_config_error + spot_funds" where
  "pnl_bounds_kill_switch global_barrier group_barriers account_barriers market_orders counter =
     bind_res (spot_settings_new 0 Mark []) (\<lambda>settings.
     bind_res (with_pnl_barriers (set_global_limit_mode settings TrackOnly)
         global_barrier group_barriers account_barriers) (\<lambda>settings.
       Inr (spot_funds_new settings market_orders counter)))"

text \<open>The count of a \<open>usize\<close> saturates; dropping the guard removes an entry that reaches zero.\<close>

definition USIZE_MAX :: nat where
  "USIZE_MAX = 2 ^ 64 - 1"

definition begin_holdings_mutation :: "spot_funds \<Rightarrow> account_id \<Rightarrow> spot_funds" where
  "begin_holdings_mutation self account =
     self\<lparr>sf_active := fst (with_mut (sf_active self) account 0
        (\<lambda>count _. (min USIZE_MAX (count + 1), ())))\<rparr>"

definition end_holdings_mutation :: "spot_funds \<Rightarrow> account_id \<Rightarrow> spot_funds" where
  "end_holdings_mutation self account =
     (let active = fst (with_mut_if_present (sf_active self) account (\<lambda>count. (count - 1, ())))
      in self\<lparr>sf_active := fst (storage_remove_if active account (\<lambda>count. count = 0))\<rparr>)"

definition fresh_owner_id :: "spot_funds \<Rightarrow> u64 \<times> spot_funds" where
  "fresh_owner_id self =
     (case next_mutation_owner_id (sf_next_owner self) of
        (fresh, counter) \<Rightarrow> (fresh, self\<lparr>sf_next_owner := counter\<rparr>))"

section \<open>The lease on the account P\&L\<close>

text \<open>One attempt to take the lease; \<open>False\<close> when the caller has to wait.\<close>

definition try_account_pnl_lease :: "spot_funds \<Rightarrow> account_id \<Rightarrow> u64 \<Rightarrow> spot_funds \<times> bool" where
  "try_account_pnl_lease self account owner =
     (case with_mut (sf_leases self) account None
             (\<lambda>lease _. case lease of
                Some existing \<Rightarrow>
                  if lease_owner existing = owner
                  then (Some (existing\<lparr>lease_depth := lease_depth existing + 1\<rparr>), True)
                  else (Some existing, False)
              | None \<Rightarrow> (Some \<lparr>lease_owner = owner, lease_depth = 1\<rparr>, True)) of
        (leases, acquired) \<Rightarrow> (self\<lparr>sf_leases := leases\<rparr>, acquired))"

definition acquire_account_pnl_lease :: "spot_funds \<Rightarrow> account_id \<Rightarrow> u64 \<Rightarrow> spot_funds" where
  "acquire_account_pnl_lease self account owner =
     (case try_account_pnl_lease self account owner of
        (self, True) \<Rightarrow> self
      | (self, False) \<Rightarrow> self\<lparr>sf_stuck := True\<rparr>)"

definition release_account_pnl_lease :: "spot_funds \<Rightarrow> account_id \<Rightarrow> u64 \<Rightarrow> spot_funds" where
  "release_account_pnl_lease self account owner =
     self\<lparr>sf_leases := fst (with_mut_if_present (sf_leases self) account
        (\<lambda>lease. (case lease of
             Some existing \<Rightarrow>
               if lease_owner existing = owner
               then (if lease_depth existing = 1 then None
                     else Some (existing\<lparr>lease_depth := lease_depth existing - 1\<rparr>))
               else Some existing
           | None \<Rightarrow> None, ())))\<rparr>"

definition lease_free :: "spot_funds \<Rightarrow> account_id \<Rightarrow> bool" where
  "lease_free self account \<longleftrightarrow> hm_get (sf_leases self) account \<in> {None, Some None}"

definition account_pnl_state :: "spot_funds \<Rightarrow> account_id \<Rightarrow> pnl_state" where
  "account_pnl_state self account =
     (case storage_with (sf_pnl self) account ape_state of Some s \<Rightarrow> s | None \<Rightarrow> PnlState_Value 0)"

definition account_pnl_entry_of :: "spot_funds \<Rightarrow> account_id \<Rightarrow> pnl_state \<times> u64 option" where
  "account_pnl_entry_of self account =
     (case storage_with (sf_pnl self) account (\<lambda>entry. (ape_state entry, ape_assertion_token entry)) of
        Some x \<Rightarrow> x | None \<Rightarrow> (PnlState_Value 0, None))"

text \<open>An absolute write of the account P\&L under a lease of its own.\<close>

definition with_pnl_leased ::
  "spot_funds \<Rightarrow> account_id \<Rightarrow> (account_pnl_entry \<Rightarrow> bool \<Rightarrow> account_pnl_entry \<times> 'o) \<Rightarrow>
   spot_funds \<times> 'o" where
  "with_pnl_leased self account f =
     (case fresh_owner_id self of
        (owner, self) \<Rightarrow>
          (let self = acquire_account_pnl_lease self account owner
           in case with_mut (sf_pnl self) account account_pnl_entry_zero f of
                (pnl, out) \<Rightarrow>
                  (release_account_pnl_lease (self\<lparr>sf_pnl := pnl\<rparr>) account owner, out)))"

definition set_account_pnl_state ::
  "spot_funds \<Rightarrow> account_id \<Rightarrow> pnl_state \<Rightarrow> spot_funds \<times> pnl_state option" where
  "set_account_pnl_state self account state =
     with_pnl_leased self account (\<lambda>entry is_new.
       (\<lparr>ape_state = state, ape_assertion_token = None\<rparr>,
        if is_new then None else Some (ape_state entry)))"

section \<open>Rejects and blocks\<close>

fun halt_reason_debug :: "pnl_halt_reason \<Rightarrow> string" where
  "halt_reason_debug MissingFx = ''MissingFx''"
| "halt_reason_debug MissingAccountCurrency = ''MissingAccountCurrency''"
| "halt_reason_debug MissingInitialPnl = ''MissingInitialPnl''"
| "halt_reason_debug MissingCostBasis = ''MissingCostBasis''"
| "halt_reason_debug PnlArithmeticOverflow = ''ArithmeticOverflow''"

definition account_pnl_barrier_currency_mismatch_block ::
  "asset option \<Rightarrow> spot_pnl_barrier \<Rightarrow> account_block option" where
  "account_pnl_barrier_currency_mismatch_block account_currency barrier =
     map_option (\<lambda>currency.
         pnl_barrier_currency_mismatch_account_block SPOT_FUNDS_POLICY_NAME
           [Lit ''account currency '', Lit currency, Lit '', barrier currency '', Lit (spb_currency barrier)])
       (filter_option (\<lambda>currency. currency \<noteq> spb_currency barrier) account_currency)"

definition account_pnl_halted_block :: "string \<Rightarrow> pnl_halt_reason \<Rightarrow> account_block" where
  "account_pnl_halted_block policy reason =
     account_block_new policy PnlKillSwitchTriggered ''account pnl calculation halted''
       [Lit ''halt reason '', Lit (halt_reason_debug reason)]"

definition labelled_pnl_block_for_state ::
  "pnl_state \<Rightarrow> spot_pnl_barrier \<Rightarrow> string \<Rightarrow> account_block option" where
  "labelled_pnl_block_for_state state barrier label =
     (case state of
        PnlState_Value absolute \<Rightarrow>
          (let sides = breached_sides (spb_lower_bound barrier) (spb_upper_bound barrier) absolute
           in if sides = [] then None
              else Some (pnl_breach_account_block SPOT_FUNDS_POLICY_NAME
                (labelled_barrier_breach_details sides (spb_lower_bound barrier)
                  (spb_upper_bound barrier) absolute label ''currency'' (spb_currency barrier))))
      | PnlState_Halted reason \<Rightarrow> Some (account_pnl_halted_block SPOT_FUNDS_POLICY_NAME reason))"

definition account_pnl_block_for_state ::
  "asset option \<Rightarrow> pnl_state \<Rightarrow> spot_pnl_barrier \<Rightarrow> u64 option \<Rightarrow> account_block option" where
  "account_pnl_block_for_state account_currency state barrier provenance =
     (case account_pnl_barrier_currency_mismatch_block account_currency barrier of
        Some block \<Rightarrow> Some block
      | None \<Rightarrow>
          map_option (\<lambda>block. with_provenance block provenance)
            (labelled_pnl_block_for_state state barrier REALIZED_PNL_LABEL))"

definition insufficient_funds_reject ::
  "string \<Rightarrow> asset \<Rightarrow> position_size \<Rightarrow> position_size \<Rightarrow> reject" where
  "insufficient_funds_reject policy asset avail requested =
     reject_new policy ScopeOrder InsufficientFunds ''spot funds insufficient''
       [Lit ''asset '', Lit asset, Lit '': available '', Num avail, Lit '', requested '', Num requested]"

definition order_value_failed_reject :: "string \<Rightarrow> text_pieces \<Rightarrow> reject" where
  "order_value_failed_reject policy details =
     reject_new policy ScopeOrder OrderValueCalculationFailed ''order value calculation failed'' details"

fun pnl_axis_label :: "pnl_bounds_axis \<Rightarrow> string" where
  "pnl_axis_label AccountUnrealized = ''account unrealized pnl''"
| "pnl_axis_label AccountTotal = ''account total pnl''"
| "pnl_axis_label PositionUnrealized = ''position unrealized pnl''"
| "pnl_axis_label PositionTotal = ''position total pnl''"

definition pnl_axis_currency_mismatch_block ::
  "pnl_bounds_axis \<Rightarrow> asset option \<Rightarrow> spot_pnl_barrier \<Rightarrow> account_block option" where
  "pnl_axis_currency_mismatch_block axis account_currency barrier =
     map_option (\<lambda>block.
         block\<lparr>ab_details := [Lit (pnl_axis_label axis), Lit '': ''] @ ab_details block\<rparr>)
       (account_pnl_barrier_currency_mismatch_block account_currency barrier)"

definition pnl_axis_block_for_state ::
  "pnl_bounds_axis \<Rightarrow> asset option \<Rightarrow> pnl_state \<Rightarrow> spot_pnl_barrier \<Rightarrow> account_block option" where
  "pnl_axis_block_for_state axis asset state barrier =
     map_option (\<lambda>block.
         let details = (case state of
               PnlState_Halted _ \<Rightarrow> [Lit (pnl_axis_label axis), Lit '': ''] @ ab_details block
             | PnlState_Value _ \<Rightarrow> ab_details block)
         in block\<lparr>ab_details := details @
              (case asset of Some a \<Rightarrow> [Lit '', asset '', Lit a] | None \<Rightarrow> [])\<rparr>)
       (labelled_pnl_block_for_state state barrier (pnl_axis_label axis))"

definition arithmetic_overflow_reject :: "string \<Rightarrow> reject_scope \<Rightarrow> text_pieces \<Rightarrow> reject" where
  "arithmetic_overflow_reject policy scope details =
     reject_new policy scope ArithmeticOverflow ''arithmetic overflow'' details"

definition arithmetic_overflow_account_block :: "string \<Rightarrow> text_pieces \<Rightarrow> account_block" where
  "arithmetic_overflow_account_block policy details =
     account_block_new policy ArithmeticOverflow ''arithmetic overflow'' details"

definition bound_debug :: "position_size option \<Rightarrow> text_pieces" where
  "bound_debug b = (case b of None \<Rightarrow> [Lit ''None'']
     | Some v \<Rightarrow> [Lit ''Some(PositionSize('', Num v, Lit ''))''])"

definition account_adjustment_bounds_exceeded_reject ::
  "string \<Rightarrow> asset \<Rightarrow> string \<Rightarrow> position_size \<Rightarrow> position_size option \<Rightarrow> position_size option \<Rightarrow> reject" where
  "account_adjustment_bounds_exceeded_reject policy asset field actual lower upper =
     reject_new policy ScopeAccount AccountAdjustmentBoundsExceeded
       ''account adjustment bounds exceeded''
       ([Lit ''asset '', Lit asset, Lit '': '', Lit field, Lit '' '', Num actual, Lit '', lower ''] @
        bound_debug lower @ [Lit '', upper ''] @ bound_debug upper)"

definition adj_field ::
  "string \<Rightarrow> request_field_access_error + 'a \<Rightarrow> rejects + 'a" where
  "adj_field field_name result =
     map_err (\<lambda>e. rejects_new
         [field_access_error_account_adjustment_reject SPOT_FUNDS_POLICY_NAME field_name e]) result"

section \<open>Valuation\<close>

definition accounting_quote ::
  "instant \<Rightarrow> spot_funds \<Rightarrow> account_id \<Rightarrow> account_group_id option \<Rightarrow> instrument \<Rightarrow> quote option" where
  "accounting_quote now self account g i =
     Option.bind (sf_market_orders self) (\<lambda>service.
     Option.bind (md_resolve service i) (\<lambda>known.
       case fst (md_get service now known account (\<lambda>u. (g, u)) AccountThenGroupThenDefault ()) of
         Inr q \<Rightarrow> Some q
       | Inl (QuoteExpired q) \<Rightarrow> Some q
       | Inl QuoteUnavailable \<Rightarrow> None
       | Inl UnknownInstrument \<Rightarrow> None))"

definition account_currency_factor ::
  "dec_ops \<Rightarrow> instant \<Rightarrow> spot_funds \<Rightarrow> account_id \<Rightarrow> account_group_id option \<Rightarrow> asset \<Rightarrow> asset \<Rightarrow>
   decimal option" where
  "account_currency_factor D now self account g source_asset account_currency =
     (if source_asset = account_currency then Some 1
      else case Option.bind (accounting_quote now self account g
                 \<lparr>underlying_asset = source_asset, settlement_asset = account_currency\<rparr>) q_mark of
             Some mark \<Rightarrow> Some mark
           | None \<Rightarrow>
               (case Option.bind (accounting_quote now self account g
                       \<lparr>underlying_asset = account_currency, settlement_asset = source_asset\<rparr>) q_mark of
                  Some mark \<Rightarrow> if mark = 0 then Some 0 else dec_checked_div D 1 mark
                | None \<Rightarrow> None))"

definition owned_quantity :: "dec_ops \<Rightarrow> holdings \<Rightarrow> pnl_halt_reason + position_size" where
  "owned_quantity D h =
     map_err (\<lambda>_. PnlArithmeticOverflow) (sg_checked_add D PK_PositionSize (available h) (held h))"

definition position_pnl_realizing_owned ::
  "dec_ops \<Rightarrow> holdings \<Rightarrow> position_size \<Rightarrow> pnl_halt_reason + position_size option" where
  "position_pnl_realizing_owned D h signed_quantity =
     bind_res (owned_quantity D h) (\<lambda>owned.
       Inr (if owned \<noteq> 0 \<and> signed_quantity \<noteq> 0 \<and> (owned > 0) \<noteq> (signed_quantity > 0)
            then Some owned else None))"

fun pnl_halt_reason_priority :: "pnl_halt_reason \<Rightarrow> nat" where
  "pnl_halt_reason_priority PnlArithmeticOverflow = 0"
| "pnl_halt_reason_priority MissingAccountCurrency = 1"
| "pnl_halt_reason_priority MissingFx = 2"
| "pnl_halt_reason_priority MissingCostBasis = 3"
| "pnl_halt_reason_priority MissingInitialPnl = 4"

definition select_pnl_halt_reason ::
  "pnl_halt_reason option \<Rightarrow> pnl_halt_reason \<Rightarrow> pnl_halt_reason option" where
  "select_pnl_halt_reason halt_reason candidate =
     (case halt_reason of
        Some current \<Rightarrow>
          if pnl_halt_reason_priority candidate < pnl_halt_reason_priority current
          then Some candidate else halt_reason
      | None \<Rightarrow> Some candidate)"

definition account_position_pnl_contribution ::
  "dec_ops \<Rightarrow> holdings \<Rightarrow> position_size \<Rightarrow> price option \<Rightarrow> pnl_halt_reason + pnl option" where
  "account_position_pnl_contribution D h signed_quantity price =
     bind_res (position_pnl_realizing_owned D h signed_quantity) (\<lambda>realizing.
       case realizing of
         None \<Rightarrow> Inr None
       | Some own \<Rightarrow>
           bind_res (ok_or price MissingFx) (\<lambda>price.
           bind_res (ok_or (avg_entry_price h) MissingCostBasis) (\<lambda>average.
             let closing_quantity =
                   (if \<bar>signed_quantity\<bar> \<le> \<bar>own\<bar> then - signed_quantity else own)
             in bind_res (ok_or (dec_checked_sub D price average) PnlArithmeticOverflow)
                  (\<lambda>price_difference.
                bind_res (ok_or (dec_checked_mul D price_difference closing_quantity)
                    PnlArithmeticOverflow) (\<lambda>realized. Inr (Some (sg_new realized)))))))"

definition sum_step ::
  "dec_ops \<Rightarrow> pnl_state \<Rightarrow> pnl \<times> pnl_halt_reason option \<Rightarrow> pnl \<times> pnl_halt_reason option" where
  "sum_step D state acc =
     (case state of
        PnlState_Value v \<Rightarrow>
          (case sg_checked_add D PK_Pnl (fst acc) v of
             Inr acc_sum \<Rightarrow> (acc_sum, snd acc)
           | Inl _ \<Rightarrow> (fst acc, select_pnl_halt_reason (snd acc) PnlArithmeticOverflow))
      | PnlState_Halted reason \<Rightarrow> (fst acc, select_pnl_halt_reason (snd acc) reason))"

definition sum_pnl_states :: "dec_ops \<Rightarrow> pnl_state list \<Rightarrow> pnl_state" where
  "sum_pnl_states D states =
     (case fold (sum_step D) states (0, None) of
        (_, Some reason) \<Rightarrow> PnlState_Halted reason
      | (acc_sum, None) \<Rightarrow> PnlState_Value acc_sum)"

text \<open>One position of the account: its unrealized and its total P\&L.\<close>

definition position_unrealized ::
  "dec_ops \<Rightarrow> instant \<Rightarrow> spot_funds \<Rightarrow> account_id \<Rightarrow> account_group_id option \<Rightarrow> asset option \<Rightarrow>
   asset \<Rightarrow> holdings \<Rightarrow> pnl_state" where
  "position_unrealized D now self account g account_currency asset h =
     (case bind_res (owned_quantity D h) (\<lambda>owned.
             let price = Option.bind account_currency (account_currency_factor D now self account g asset);
                 contribution = account_position_pnl_contribution D h (- owned) price
             in if account_currency = None \<and> contribution \<noteq> Inr None
                then (case select_pnl_halt_reason
                             (case contribution of Inl reason \<Rightarrow> Some reason | Inr _ \<Rightarrow> None)
                             MissingAccountCurrency of
                        Some reason \<Rightarrow> Inl reason
                      | None \<Rightarrow> contribution)
                else contribution) of
        Inr (Some v) \<Rightarrow> PnlState_Value v
      | Inr None \<Rightarrow> PnlState_Value 0
      | Inl reason \<Rightarrow> PnlState_Halted reason)"

definition position_realized :: "holdings \<Rightarrow> pnl_state" where
  "position_realized h =
     (case realized_pnl_field h of
        Some (PnlValue v) \<Rightarrow> PnlState_Value v
      | Some (PnlHalted reason) \<Rightarrow> PnlState_Halted reason
      | None \<Rightarrow> PnlState_Value 0)"

definition position_of ::
  "dec_ops \<Rightarrow> instant \<Rightarrow> spot_funds \<Rightarrow> account_id \<Rightarrow> account_group_id option \<Rightarrow> asset option \<Rightarrow>
   asset \<Rightarrow> (asset \<times> pnl_state \<times> pnl_state) option" where
  "position_of D now self account g account_currency asset =
     (case store_get (sf_holdings self) (account, asset) of
        None \<Rightarrow> None
      | Some h \<Rightarrow>
          if avg_entry_price h = None \<and> \<not> realized_pnl_is_halted h then None
          else let unrealized = position_unrealized D now self account g account_currency asset h
               in Some (asset, unrealized, sum_pnl_states D [position_realized h, unrealized]))"

definition account_positions ::
  "dec_ops \<Rightarrow> instant \<Rightarrow> spot_funds \<Rightarrow> account_id \<Rightarrow> account_group_id option \<Rightarrow> asset option \<Rightarrow>
   (asset \<times> pnl_state \<times> pnl_state) list" where
  "account_positions D now self account g account_currency =
     (case account_assets (sf_holdings self) account of
        None \<Rightarrow> []
      | Some assets \<Rightarrow>
          List.map_filter (position_of D now self account g account_currency)
            (sorted_list_of_set assets))"

text \<open>The first block of a list of optional blocks, evaluated in order.\<close>

fun first_block :: "account_block option list \<Rightarrow> account_block option" where
  "first_block [] = None"
| "first_block (Some b # rest) = Some b"
| "first_block (None # rest) = first_block rest"

definition axis_blocks ::
  "pnl_bounds_axis \<Rightarrow> spot_pnl_barrier \<Rightarrow> (asset \<times> pnl_state \<times> pnl_state) list \<Rightarrow> pnl_state \<Rightarrow> pnl_state \<Rightarrow>
   u64 option \<Rightarrow> bool \<Rightarrow> account_block option" where
  "axis_blocks axis barrier positions account_unrealized account_total assertion_token carry =
     (case axis of
        AccountUnrealized \<Rightarrow> pnl_axis_block_for_state axis None account_unrealized barrier
      | AccountTotal \<Rightarrow>
          map_option (\<lambda>block. if carry then block\<lparr>ab_provenance := assertion_token\<rparr> else block)
            (pnl_axis_block_for_state axis None account_total barrier)
      | PositionUnrealized \<Rightarrow>
          first_block (map (\<lambda>(asset, unrealized, _).
            pnl_axis_block_for_state axis (Some asset) unrealized barrier) positions)
      | PositionTotal \<Rightarrow>
          first_block (map (\<lambda>(asset, _, position_total).
            pnl_axis_block_for_state axis (Some asset) position_total barrier) positions))"

definition pnl_axis_block_for_barriers ::
  "dec_ops \<Rightarrow> instant \<Rightarrow> spot_funds \<Rightarrow> spot_pnl_barrier option list \<Rightarrow> account_id \<Rightarrow>
   account_group_id option \<Rightarrow> asset option \<Rightarrow> bool \<Rightarrow> account_block option" where
  "pnl_axis_block_for_barriers D now self barriers account g account_currency carry =
     (if list_all (\<lambda>b. b = None) barriers then None
      else let positions = account_positions D now self account g account_currency;
               account_unrealized = sum_pnl_states D (map (fst \<circ> snd) positions);
               (account_realized, assertion_token) = account_pnl_entry_of self account;
               account_total = sum_pnl_states D [account_realized, account_unrealized]
           in first_block (map (\<lambda>(axis, barrier).
                case barrier of
                  None \<Rightarrow> None
                | Some barrier \<Rightarrow>
                    (case pnl_axis_currency_mismatch_block axis account_currency barrier of
                       Some block \<Rightarrow> Some block
                     | None \<Rightarrow>
                         axis_blocks axis barrier positions account_unrealized account_total
                           assertion_token carry)) (zip pnl_axes_ALL barriers)))"

definition pnl_axis_block ::
  "dec_ops \<Rightarrow> instant \<Rightarrow> spot_funds \<Rightarrow> spot_funds_settings \<Rightarrow> account_id \<Rightarrow> account_group_id option \<Rightarrow>
   asset option \<Rightarrow> bool \<Rightarrow> account_block option" where
  "pnl_axis_block D now self settings account g account_currency carry =
     pnl_axis_block_for_barriers D now self
       (map (\<lambda>axis. barrier_for (pnl_axis_barriers settings axis) account g account_currency) pnl_axes_ALL)
       account g account_currency carry"

section \<open>The worst-case position limit\<close>

record reservation_step =
  rs_asset :: asset
  rs_held :: position_size
  rs_incoming :: position_size

datatype limit_check = FirstStepTransition
  | Position (limit_of: quantity) (earlier_held: position_size) (earlier_incoming: position_size)

datatype exact_arithmetic_error = ExactOverflow | ExactInexact

definition exact_add :: "dec_ops \<Rightarrow> position_size \<Rightarrow> position_size \<Rightarrow> exact_arithmetic_error + position_size" where
  "exact_add D left right =
     bind_res (ps_add D ExactOverflow left right) (\<lambda>result.
       if ps_sub D () result left = Inr right \<and> ps_sub D () result right = Inr left
       then Inr result else Inl ExactInexact)"

definition exact_sub :: "dec_ops \<Rightarrow> position_size \<Rightarrow> position_size \<Rightarrow> exact_arithmetic_error + position_size" where
  "exact_sub D left right =
     bind_res (ps_sub D ExactOverflow left right) (\<lambda>result.
       if ps_add D () result right = Inr left \<and> ps_sub D () left result = Inr right
       then Inr result else Inl ExactInexact)"

definition step_net :: "dec_ops \<Rightarrow> position_size \<Rightarrow> position_size \<Rightarrow> exact_arithmetic_error + position_size" where
  "step_net D held_amount incoming_amount = exact_sub D incoming_amount held_amount"

definition aggregate_net ::
  "dec_ops \<Rightarrow> position_size \<Rightarrow> position_size \<Rightarrow> position_size \<Rightarrow> position_size \<Rightarrow>
   exact_arithmetic_error + position_size" where
  "aggregate_net D held_amount incoming_amount earlier_held_amount earlier_incoming_amount =
     bind_res (step_net D held_amount incoming_amount) (\<lambda>net.
     bind_res (step_net D earlier_held_amount earlier_incoming_amount) (\<lambda>earlier.
       exact_add D earlier net))"

definition touches :: "reservation_step \<Rightarrow> bool" where
  "touches step \<longleftrightarrow> \<not> is_zero (rs_held step) \<or> \<not> is_zero (rs_incoming step)"

definition check_for ::
  "spot_funds_settings \<Rightarrow> account_id \<Rightarrow> reservation_step \<Rightarrow> reservation_step option \<Rightarrow> limit_check option" where
  "check_for settings account step earlier =
     map_option (\<lambda>limit.
         Position limit (case earlier of Some s \<Rightarrow> rs_held s | None \<Rightarrow> 0)
           (case earlier of Some s \<Rightarrow> rs_incoming s | None \<Rightarrow> 0))
       (position_limit_for settings account (rs_asset step))"

definition position_limit_plan ::
  "dec_ops \<Rightarrow> spot_funds_settings \<Rightarrow> account_id \<Rightarrow> reservation_step \<times> reservation_step \<Rightarrow>
   limit_check option \<times> limit_check option" where
  "position_limit_plan D settings account steps =
     (let (s0, s1) = steps
      in if rs_asset s0 \<noteq> rs_asset s1
         then (check_for settings account s0 None, check_for settings account s1 None)
         else (case (touches s0, touches s1) of
                 (False, False) \<Rightarrow> (None, None)
               | (True, False) \<Rightarrow> (check_for settings account s0 None, None)
               | (False, True) \<Rightarrow> (None, check_for settings account s1 None)
               | (True, True) \<Rightarrow>
                   (let final_check = check_for settings account s1 (Some s0);
                        first_check = Option.bind final_check (\<lambda>_.
                          case aggregate_net D (rs_held s1) (rs_incoming s1) (rs_held s0) (rs_incoming s0) of
                            Inr net \<Rightarrow> if is_zero net then None else Some FirstStepTransition
                          | Inl _ \<Rightarrow> Some FirstStepTransition)
                    in (first_check, final_check))))"

definition position_arithmetic_reject :: "asset \<Rightarrow> string \<Rightarrow> exact_arithmetic_error \<Rightarrow> rejects" where
  "position_arithmetic_reject asset stage error =
     rejects_new [arithmetic_overflow_reject SPOT_FUNDS_POLICY_NAME ScopeOrder
       [Lit ''position-limit arithmetic failure: asset '', Lit asset, Lit '', stage '', Lit stage,
        Lit '', cause '', Lit (case error of ExactOverflow \<Rightarrow> ''overflow'' | ExactInexact \<Rightarrow> ''inexact'')]]"

definition verify_first_step_transition ::
  "dec_ops \<Rightarrow> asset \<Rightarrow> holdings \<Rightarrow> position_size \<Rightarrow> position_size \<Rightarrow> rejects + unit" where
  "verify_first_step_transition D asset current held_amount incoming_amount =
     map_err (position_arithmetic_reject asset ''first-step transition'')
       (bind_res (exact_sub D (available current) held_amount) (\<lambda>_.
        bind_res (exact_add D (held current) held_amount) (\<lambda>_.
        map_res (\<lambda>_. ()) (exact_add D (incoming current) incoming_amount))))"

definition position_limit_exceeded_rejects ::
  "asset \<Rightarrow> string \<Rightarrow> position_size \<Rightarrow> position_size \<Rightarrow> rejects" where
  "position_limit_exceeded_rejects asset side_name projected limit =
     rejects_new [reject_new SPOT_FUNDS_POLICY_NAME ScopeOrder PositionLimitExceeded
       ''position limit exceeded''
       [Lit ''asset '', Lit asset, Lit '', side '', Lit side_name,
        Lit '', projected worst-case position '', Num projected, Lit '', limit '', Num limit]]"

definition verify_position ::
  "dec_ops \<Rightarrow> asset \<Rightarrow> holdings \<Rightarrow> position_size \<Rightarrow> position_size \<Rightarrow>
   quantity \<Rightarrow> position_size \<Rightarrow> position_size \<Rightarrow> rejects + unit" where
  "verify_position D asset current held_amount incoming_amount limit earlier_held_amount earlier_incoming_amount =
     bind_res (map_err (position_arithmetic_reject asset ''net'')
       (aggregate_net D held_amount incoming_amount earlier_held_amount earlier_incoming_amount)) (\<lambda>net.
     if is_zero net then Inr ()
     else
       let rebuilt = map_err (position_arithmetic_reject asset ''pre-order reconstruction'') in
       bind_res (rebuilt (exact_add D (available current) earlier_held_amount)) (\<lambda>av.
       bind_res (rebuilt (exact_sub D (held current) earlier_held_amount)) (\<lambda>held_before_order.
       bind_res (rebuilt (exact_sub D (incoming current) earlier_incoming_amount)) (\<lambda>incoming_before_order.
       bind_res (rebuilt (exact_add D av held_before_order)) (\<lambda>owned.
         let limit = quantity_to_position_size limit;
             projection = map_err (position_arithmetic_reject asset ''projection'') in
         if net > 0
         then bind_res (projection (bind_res (exact_add D owned (max incoming_before_order 0))
                  (\<lambda>position. exact_add D position net))) (\<lambda>projected.
                if projected > limit
                then Inl (position_limit_exceeded_rejects asset ''long'' projected limit) else Inr ())
         else bind_res (projection (bind_res (exact_sub D owned (max held_before_order 0))
                  (\<lambda>position. exact_add D position net))) (\<lambda>projected.
                if projected < - limit
                then Inl (position_limit_exceeded_rejects asset ''short'' projected limit) else Inr ()))))))"

definition position_limit_verify ::
  "dec_ops \<Rightarrow> limit_check option \<Rightarrow> asset \<Rightarrow> holdings \<Rightarrow> position_size \<Rightarrow> position_size \<Rightarrow> rejects + unit" where
  "position_limit_verify D check asset current held_amount incoming_amount =
     (case check of
        None \<Rightarrow> Inr ()
      | Some FirstStepTransition \<Rightarrow>
          verify_first_step_transition D asset current held_amount incoming_amount
      | Some (Position limit earlier_held_amount earlier_incoming_amount) \<Rightarrow>
          verify_position D asset current held_amount incoming_amount limit earlier_held_amount
            earlier_incoming_amount)"

section \<open>Balances\<close>

text \<open>A slot that is absent counts as zero, as everywhere in the policy.\<close>

definition balance_of :: "holdings_store \<Rightarrow> slot_key \<Rightarrow> holdings" where
  "balance_of s key = (case store_get s key of Some h \<Rightarrow> h | None \<Rightarrow> holdings_zero)"

text \<open>
  The mutation of one slot (\<open>mutate_slot\<close> of \<open>execution.rs\<close>): an absent slot is created
  unless the result is zero, an existing slot that becomes zero is removed afterwards.
\<close>

definition mutate_slot ::
  "holdings_store \<Rightarrow> slot_key \<Rightarrow> (holdings \<Rightarrow> 'e + holdings) \<Rightarrow> holdings_store \<times> ('e + holdings)" where
  "mutate_slot s key mutation =
     (case store_with_mut_or_insert_prune_new_if_zero s key holdings_zero
             (\<lambda>slot is_new. case mutation slot of
                Inr new \<Rightarrow> (new, Inr (new, is_new))
              | Inl e \<Rightarrow> (slot, Inl e)) of
        (s, Inl e) \<Rightarrow> (s, Inl e)
      | (s, Inr (result, was_new)) \<Rightarrow>
          (if holdings_is_zero result \<and> \<not> was_new then fst (store_remove_if_zero s key) else s,
           Inr result))"

text \<open>What the policy relies on: a table of balances whose updates change one key or fail.\<close>

locale balance_table =
  fixes balance :: "'s \<Rightarrow> 'k \<Rightarrow> 'b"
    and update :: "'s \<Rightarrow> 'k \<Rightarrow> ('b \<Rightarrow> 'e + 'b) \<Rightarrow> 's \<times> ('e + 'b)"
  assumes update_result: "snd (update s k f) = f (balance s k)"
    and update_balance:
      "balance (fst (update s k f)) =
         (case f (balance s k) of Inr v \<Rightarrow> (balance s)(k := v) | Inl _ \<Rightarrow> balance s)"
begin

lemma update_fails: "snd (update s k f) = Inl e \<Longrightarrow> balance (fst (update s k f)) = balance s"
  by (simp add: update_balance update_result)

lemma update_undone:
  assumes "snd (update s k f) = Inr v" and "g v = Inr (balance s k)"
  shows "balance (fst (update (fst (update s k f)) k g)) = balance s"
  using assms by (simp add: update_balance update_result)

end

lemma holdings_is_zero_iff [simp]: "holdings_is_zero h \<longleftrightarrow> h = holdings_zero"
  by (cases h) (auto simp: holdings_is_zero_def holdings_zero_def is_zero_def)

lemma store_get_inner: "store_get s key = hm_get (inner s) key"
  by (simp add: store_get_def storage_with_def option.map_ident)

lemma inner_index_updates [simp]:
  "inner (index_created_slot s key) = inner s" "inner (unindex_removed_slot s key) = inner s"
  by (auto simp: index_created_slot_def unindex_removed_slot_def split: prod.splits)

lemma balance_removed [simp]: "balance_of (fst (store_remove_if_zero s key)) = balance_of s"
proof (rule ext)
  fix k
  show "balance_of (fst (store_remove_if_zero s key)) k = balance_of s k"
    using st.lookup_discard [of "inner s" key holdings_is_zero k]
    by (auto simp: balance_of_def store_get_inner store_remove_if_zero_def store_remove_if_def
        case_prod_beta Let_def)
qed

lemma prune_store_get:
  "store_get (fst (store_with_mut_or_insert_prune_new_if_zero s key init f)) k =
     (if k = key then slot_after (store_get s key) init holdings_is_zero f else store_get s k)"
  using st.lookup_mutate [of "inner s" key init holdings_is_zero f k]
  by (auto simp: store_get_inner store_with_mut_or_insert_prune_new_if_zero_def case_prod_beta Let_def)

lemma prune_store_result:
  "snd (store_with_mut_or_insert_prune_new_if_zero s key init f) = slot_output (store_get s key) init f"
  using st.mutate_output [of "inner s" key init holdings_is_zero f]
  by (auto simp: store_get_inner store_with_mut_or_insert_prune_new_if_zero_def case_prod_beta Let_def)

lemma with_mut_store_get:
  "store_get (fst (store_with_mut s key init f)) k =
     (if k = key
      then Some (case store_get s key of Some v \<Rightarrow> fst (f v False) | None \<Rightarrow> fst (f init True))
      else store_get s k)"
  using with_mut_lookup [of "inner s" key init f k]
  by (auto simp: store_get_inner store_with_mut_def case_prod_beta Let_def)

lemma with_mut_store_result:
  "snd (store_with_mut s key init f) = slot_output (store_get s key) init f"
  using with_mut_output [of "inner s" key init f]
  by (auto simp: store_get_inner store_with_mut_def case_prod_beta Let_def)

lemma with_mut_balance:
  assumes "\<And>v. f v True = f v False"
  shows "balance_of (fst (store_with_mut s key holdings_zero f)) =
      (balance_of s)(key := fst (f (balance_of s key) False))"
    and "snd (store_with_mut s key holdings_zero f) = snd (f (balance_of s key) False)"
  by (auto simp: balance_of_def with_mut_store_get with_mut_store_result slot_output_def assms
      split: option.splits)

definition slot_mutator :: "(holdings \<Rightarrow> 'e + holdings) \<Rightarrow> holdings \<Rightarrow> bool \<Rightarrow> holdings \<times> ('e + holdings \<times> bool)" where
  "slot_mutator mutation slot is_new =
     (case mutation slot of Inr new \<Rightarrow> (new, Inr (new, is_new)) | Inl e \<Rightarrow> (slot, Inl e))"

lemma slot_mutator_balance:
  "balance_of (fst (store_with_mut_or_insert_prune_new_if_zero s key holdings_zero (slot_mutator f))) =
     (case f (balance_of s key) of Inr v \<Rightarrow> (balance_of s)(key := v) | Inl _ \<Rightarrow> balance_of s)"
  by (rule ext) (auto simp: balance_of_def prune_store_get slot_after_def slot_mutator_def
      split: option.splits sum.splits if_splits)

lemma slot_mutator_result:
  "snd (store_with_mut_or_insert_prune_new_if_zero s key holdings_zero (slot_mutator f)) =
     map_res (\<lambda>v. (v, store_get s key = None)) (f (balance_of s key))"
  by (auto simp: prune_store_result slot_output_def slot_mutator_def balance_of_def map_res_def
      split: option.splits sum.splits)

lemma mutate_slot_eq:
  "mutate_slot s key f =
     (let out = store_with_mut_or_insert_prune_new_if_zero s key holdings_zero (slot_mutator f)
      in case snd out of
           Inl e \<Rightarrow> (fst out, Inl e)
         | Inr rw \<Rightarrow> (if holdings_is_zero (fst rw) \<and> \<not> snd rw
                      then fst (store_remove_if_zero (fst out) key) else fst out, Inr (fst rw)))"
  by (simp add: mutate_slot_def slot_mutator_def [abs_def] Let_def case_prod_beta split: sum.split)

interpretation slots: balance_table balance_of mutate_slot
  by unfold_locales
    (simp_all add: mutate_slot_eq Let_def slot_mutator_balance slot_mutator_result map_res_def
      split: sum.split)

end
