(* ===== verification/Spot_Pre_Trade.thy ===== *)
theory Spot_Pre_Trade
  imports Spot_Funds
begin

text \<open>
  The pre-trade side of the spot funds policy (\<open>pre_trade.rs\<close>, and the rollback of a hold in
  \<open>rollback.rs\<close>): the order view, the gate on the account P\&L, the price of a market order,
  the settlement legs an order reserves, the reservation of each leg with its rollback, and the
  read-only twin of the check.

  The policy works on an engine whose policy state is the policy. Its hooks take the current time,
  which the market data service reads. Test hooks are left out.
\<close>

section \<open>The order\<close>

record order_request_view =
  orv_instrument :: instrument
  orv_account :: account_id
  orv_side :: side
  orv_trade_amount :: trade_amount
  orv_price :: "price option"

definition read_order_request :: "pre_trade_context \<Rightarrow> order \<Rightarrow> rejects + order_request_view" where
  "read_order_request ctx ord =
     bind_res (read_field SPOT_FUNDS_POLICY_NAME ''instrument'' (ord_instrument ord)) (\<lambda>i.
     bind_res (read_field SPOT_FUNDS_POLICY_NAME ''account ID'' (ctx_account ctx)) (\<lambda>account.
     bind_res (read_field SPOT_FUNDS_POLICY_NAME ''side'' (ord_side ord)) (\<lambda>s.
     bind_res (read_field SPOT_FUNDS_POLICY_NAME ''trade amount'' (ord_trade_amount ord)) (\<lambda>amount.
     bind_res (read_field SPOT_FUNDS_POLICY_NAME ''price'' (ord_price ord)) (\<lambda>price.
       Inr \<lparr>orv_instrument = i, orv_account = account, orv_side = s, orv_trade_amount = amount,
            orv_price = price\<rparr>)))))"

section \<open>The gate on the account P\&L\<close>

definition reject_halted_account_pnl ::
  "dec_ops \<Rightarrow> instant \<Rightarrow> spot_funds engine \<Rightarrow> account_id \<Rightarrow> account_group_id option \<Rightarrow> rejects + unit" where
  "reject_halted_account_pnl D now e account g =
     (let self = eng_policy_state e; settings = sf_settings self in
      if \<not> has_pnl_barrier_scope settings account g \<and>
         \<not> list_ex (\<lambda>axis. has_scope (pnl_axis_barriers settings axis) account g) pnl_axes_ALL
      then Inr ()
      else let account_currency = currency_of (eng_account_currencies e) account g in
        case Option.bind (pnl_barrier_for settings account g account_currency) (\<lambda>barrier.
               account_pnl_block_for_state account_currency (account_pnl_state self account) barrier None) of
          Some block \<Rightarrow> Inl (rejects_new [reject_from_block block])
        | None \<Rightarrow>
            (case pnl_axis_block D now self settings account g account_currency False of
               Some block \<Rightarrow> Inl (rejects_new [reject_from_block block])
             | None \<Rightarrow> Inr ()))"

section \<open>The price of a market order\<close>

fun reject_from_price_err :: "spot_funds_price_error \<Rightarrow> reject" where
  "reject_from_price_err PriceQuoteUnavailable =
     reject_new SPOT_FUNDS_POLICY_NAME ScopeOrder MarkPriceUnavailable ''mark price unavailable'' [Lit '''']"
| "reject_from_price_err CalculationFailed =
     reject_new SPOT_FUNDS_POLICY_NAME ScopeOrder OrderValueCalculationFailed
       ''price calculation failed'' [Lit '''']"

definition reject_market_orders_unsupported :: reject where
  "reject_market_orders_unsupported =
     reject_new SPOT_FUNDS_POLICY_NAME ScopeOrder UnsupportedOrderType
       ''market orders not supported'' [Lit '''']"

definition market_quote ::
  "market_data_service \<Rightarrow> instant \<Rightarrow> instrument_id \<Rightarrow> account_id \<Rightarrow> account_group_id option \<Rightarrow> quote option" where
  "market_quote service now known account g =
     (case fst (md_get service now known account (\<lambda>u. (g, u)) AccountThenGroupThenDefault ()) of
        Inr q \<Rightarrow> Some q | Inl _ \<Rightarrow> None)"

definition compute_buy_with_md ::
  "dec_ops \<Rightarrow> instant \<Rightarrow> spot_funds \<Rightarrow> instrument \<Rightarrow> account_id \<Rightarrow> account_group_id option \<Rightarrow> reject + price" where
  "compute_buy_with_md D now self i account g =
     bind_res (ok_or (sf_market_orders self) reject_market_orders_unsupported) (\<lambda>bundle.
     bind_res (ok_or (md_resolve bundle i) (reject_from_price_err PriceQuoteUnavailable)) (\<lambda>known.
     bind_res (ok_or (market_quote bundle now known account g)
         (reject_from_price_err PriceQuoteUnavailable)) (\<lambda>q.
       map_err reject_from_price_err
         (settings_effective_buy_price D (sf_settings self) q known account g))))"

definition compute_sell_with_md ::
  "dec_ops \<Rightarrow> instant \<Rightarrow> spot_funds \<Rightarrow> instrument \<Rightarrow> account_id \<Rightarrow> account_group_id option \<Rightarrow> reject + price" where
  "compute_sell_with_md D now self i account g =
     bind_res (ok_or (sf_market_orders self) reject_market_orders_unsupported) (\<lambda>bundle.
     bind_res (ok_or (md_resolve bundle i) (reject_from_price_err PriceQuoteUnavailable)) (\<lambda>known.
     bind_res (ok_or (market_quote bundle now known account g)
         (reject_from_price_err PriceQuoteUnavailable)) (\<lambda>q.
       map_err reject_from_price_err
         (settings_effective_sell_price D (sf_settings self) q known account g))))"

section \<open>The reserved legs\<close>

record reservation_legs =
  rl_underlying :: position_size
  rl_settlement :: position_size
  rl_base_incoming :: position_size
  rl_settlement_incoming :: position_size
  rl_lock_price :: "price option"

definition non_negative :: "position_size \<Rightarrow> position_size" where
  "non_negative v = max v 0"

definition neg :: "position_size \<Rightarrow> position_size" where
  "neg v = position_size_neg v"

definition signed_volume :: "volume \<Rightarrow> price \<Rightarrow> position_size" where
  "signed_volume v p =
     (let magnitude = volume_to_position_size v in if p > 0 then magnitude else neg magnitude)"

definition quantity_reject :: reject where
  "quantity_reject =
     order_value_failed_reject SPOT_FUNDS_POLICY_NAME
       [Lit ''price or volume could not be used to evaluate order quantity'']"

text \<open>The quantity of a volume order: undefined at a zero price, which only drop copy accepts.\<close>

definition volume_order_quantity :: "dec_ops \<Rightarrow> bool \<Rightarrow> volume \<Rightarrow> price \<Rightarrow> reject + quantity" where
  "volume_order_quantity D drop_copy v p =
     (if is_zero p then (if drop_copy then Inr 0 else Inl quantity_reject)
      else map_err (\<lambda>_. quantity_reject) (volume_calculate_quantity D v p))"

definition buy_reservation_legs ::
  "dec_ops \<Rightarrow> bool \<Rightarrow> trade_amount \<Rightarrow> price \<Rightarrow> reject + reservation_legs" where
  "buy_reservation_legs D drop_copy amount buy_price =
     bind_res (case amount of
         TA_Quantity q \<Rightarrow>
           bind_res (map_err (\<lambda>_. order_value_failed_reject SPOT_FUNDS_POLICY_NAME [Lit ''''])
               (price_calculate_position_size D buy_price q)) (\<lambda>notional.
             Inr (notional, quantity_to_position_size q))
       | TA_Volume v \<Rightarrow>
           bind_res (volume_order_quantity D drop_copy v buy_price) (\<lambda>q.
             Inr (signed_volume v buy_price, quantity_to_position_size q)))
       (\<lambda>(settlement_notional, base_incoming).
          Inr \<lparr>rl_underlying = 0, rl_settlement = non_negative settlement_notional,
               rl_base_incoming = base_incoming, rl_settlement_incoming = 0,
               rl_lock_price = Some buy_price\<rparr>)"

definition sell_reservation_legs ::
  "dec_ops \<Rightarrow> bool \<Rightarrow> trade_amount \<Rightarrow> price \<Rightarrow> reject + reservation_legs" where
  "sell_reservation_legs D drop_copy amount sell_price =
     bind_res (case amount of
         TA_Quantity q \<Rightarrow> Inr q
       | TA_Volume v \<Rightarrow> volume_order_quantity D drop_copy v sell_price) (\<lambda>q.
     bind_res (map_err (\<lambda>_. order_value_failed_reject SPOT_FUNDS_POLICY_NAME [Lit ''''])
         (price_calculate_position_size D sell_price q)) (\<lambda>notional.
       Inr \<lparr>rl_underlying = quantity_to_position_size q,
            rl_settlement = non_negative (neg notional), rl_base_incoming = 0,
            rl_settlement_incoming = non_negative notional, rl_lock_price = Some sell_price\<rparr>))"

definition compute_reservation_legs ::
  "dec_ops \<Rightarrow> instant \<Rightarrow> spot_funds \<Rightarrow> order_request_view \<Rightarrow> account_group_id option \<Rightarrow> bool \<Rightarrow>
   reject + reservation_legs" where
  "compute_reservation_legs D now self request g drop_copy =
     (case orv_side request of
        Buy \<Rightarrow>
          bind_res (case orv_price request of
              Some p \<Rightarrow> Inr p
            | None \<Rightarrow> compute_buy_with_md D now self (orv_instrument request) (orv_account request) g)
            (buy_reservation_legs D drop_copy (orv_trade_amount request))
      | Sell \<Rightarrow>
          bind_res (case orv_price request of
              Some p \<Rightarrow> Inr p
            | None \<Rightarrow> compute_sell_with_md D now self (orv_instrument request) (orv_account request) g)
            (sell_reservation_legs D drop_copy (orv_trade_amount request)))"

definition reservation_steps ::
  "reservation_legs \<Rightarrow> asset \<Rightarrow> asset \<Rightarrow> side \<Rightarrow> reservation_step \<times> reservation_step" where
  "reservation_steps legs underlying settlement s =
     (let settlement_step = \<lparr>rs_asset = settlement, rs_held = rl_settlement legs,
                             rs_incoming = rl_settlement_incoming legs\<rparr>;
          underlying_step = \<lparr>rs_asset = underlying, rs_held = rl_underlying legs,
                             rs_incoming = rl_base_incoming legs\<rparr>
      in case s of Buy \<Rightarrow> (settlement_step, underlying_step)
         | Sell \<Rightarrow> (underlying_step, settlement_step))"

definition reservation_controls ::
  "dec_ops \<Rightarrow> spot_funds_settings \<Rightarrow> account_id \<Rightarrow> account_group_id option \<Rightarrow> bool \<Rightarrow>
   reservation_step \<times> reservation_step \<Rightarrow>
   spot_funds_limit_mode \<times> limit_check option \<times> limit_check option" where
  "reservation_controls D settings account g drop_copy steps =
     (if drop_copy then (TrackOnly, None, None)
      else (limit_mode_for settings account g, position_limit_plan D settings account steps))"

section \<open>Reserving one leg\<close>

definition hold_with_mode ::
  "dec_ops \<Rightarrow> holdings \<Rightarrow> position_size \<Rightarrow> spot_funds_limit_mode \<Rightarrow> hold_error + holdings" where
  "hold_with_mode D h amount mode =
     (case mode of Enforce \<Rightarrow> try_hold D h amount | TrackOnly \<Rightarrow> hold_allow_negative D h amount)"

definition reserve_hold_reject :: "string \<Rightarrow> hold_error \<Rightarrow> asset \<Rightarrow> position_size \<Rightarrow> rejects" where
  "reserve_hold_reject policy err asset amount =
     rejects_new [case err of
        HoldArithmeticOverflow \<Rightarrow>
          arithmetic_overflow_reject policy ScopeOrder
            [Lit ''pre-trade hold overflow: asset '', Lit asset, Lit '', requested '', Num amount]
      | InsufficientAvailable avail requested \<Rightarrow>
          insufficient_funds_reject policy asset avail requested]"

definition incoming_overflow_rejects :: "asset \<Rightarrow> position_size \<Rightarrow> rejects" where
  "incoming_overflow_rejects asset amount =
     rejects_new [arithmetic_overflow_reject SPOT_FUNDS_POLICY_NAME ScopeOrder
       [Lit ''pre-trade incoming overflow: asset '', Lit asset, Lit '', requested '', Num amount]]"

definition reservation_outcome_entry ::
  "asset \<Rightarrow> position_size \<Rightarrow> position_size \<Rightarrow> holdings \<Rightarrow> account_outcome_entry" where
  "reservation_outcome_entry asset held_amount incoming_amount h =
     \<lparr>aoe_asset = asset,
      aoe_balance = (if is_zero held_amount then None
                     else Some \<lparr>oa_delta = neg held_amount, oa_absolute = available h\<rparr>),
      aoe_held = (if is_zero held_amount then None
                  else Some \<lparr>oa_delta = held_amount, oa_absolute = held h\<rparr>),
      aoe_incoming = (if is_zero incoming_amount then None
                      else Some \<lparr>oa_delta = incoming_amount, oa_absolute = incoming h\<rparr>),
      aoe_realized_pnl = None, aoe_average_entry_price = None\<rparr>"

definition push_entry :: "account_outcome_entry \<Rightarrow> policy_pre_trade_result \<Rightarrow> policy_pre_trade_result" where
  "push_entry entry outcome =
     outcome\<lparr>ptr_account_adjustments := ptr_account_adjustments outcome @ [entry]\<rparr>"

text \<open>The debug rendering of a slot.\<close>

definition holdings_debug :: "holdings \<Rightarrow> text_pieces" where
  "holdings_debug h =
     [Lit ''Holdings { available: PositionSize('', Num (available h), Lit ''), held: PositionSize('',
      Num (held h), Lit ''), incoming: PositionSize('', Num (incoming h), Lit ''), avg_entry_price: ''] @
     (case avg_entry_price h of None \<Rightarrow> [Lit ''None'']
      | Some p \<Rightarrow> [Lit ''Some(Price('', Num p, Lit ''))'']) @ [Lit '', realized_pnl: ''] @
     (case realized_pnl_field h of None \<Rightarrow> [Lit ''None'']
      | Some (PnlValue v) \<Rightarrow> [Lit ''Some(Pnl(Pnl('', Num v, Lit '')))'']
      | Some (PnlHalted reason) \<Rightarrow> [Lit ''Some(Halted('', Lit (halt_reason_debug reason), Lit ''))'']) @
     [Lit '' }'']"

definition put_spot :: "spot_funds \<Rightarrow> spot_funds engine \<Rightarrow> spot_funds engine" where
  "put_spot self e = e\<lparr>eng_policy_state := self\<rparr>"

definition record_rollback_overflow ::
  "account_id \<Rightarrow> text_pieces \<Rightarrow> spot_funds engine \<Rightarrow> spot_funds engine" where
  "record_rollback_overflow account details e =
     e\<lparr>eng_blocked := fst (block_account (eng_blocked e) account
         (account_block_new SPOT_FUNDS_POLICY_NAME ArithmeticOverflow
            ''rollback overflow: slot left inconsistent'' details))\<rparr>"

text \<open>
  A rollback of one slot: the inverse deltas and a fix of the slot where they apply, a block of the
  account where they overflow, and the removal of a slot that becomes zero.
\<close>

definition rollback_slot ::
  "account_id \<Rightarrow> slot_key \<Rightarrow> (holdings \<Rightarrow> adjustment_overflow_error + holdings) \<Rightarrow>
   (holdings \<Rightarrow> text_pieces) \<Rightarrow> spot_funds engine \<Rightarrow> spot_funds engine" where
  "rollback_slot account key undo details e =
     (let self = eng_policy_state e in
      case store_with_mut (sf_holdings self) key holdings_zero
             (\<lambda>slot _. case undo slot of
                Inr undone \<Rightarrow> (undone, holdings_is_zero undone, None)
              | Inl _ \<Rightarrow> (slot, holdings_is_zero slot, Some (details slot))) of
        (store, became_zero, overflow) \<Rightarrow>
          (let e = (case overflow of Some t \<Rightarrow> record_rollback_overflow account t e | None \<Rightarrow> e);
               store = (if became_zero then fst (store_remove_if_zero store key) else store)
           in put_spot (self\<lparr>sf_holdings := store\<rparr>) e))"

definition hold_rollback ::
  "dec_ops \<Rightarrow> slot_key \<Rightarrow> position_size \<Rightarrow> position_size \<Rightarrow> spot_funds engine \<Rightarrow> spot_funds engine" where
  "hold_rollback D key held_amount incoming_amount =
     rollback_slot (fst key) key
       (\<lambda>slot. apply_delta_rollback D slot (neg held_amount) held_amount incoming_amount)
       (\<lambda>slot. [Lit ''hold rollback overflow: asset '', Lit (snd key), Lit '', held '', Num held_amount,
          Lit '', incoming '', Num incoming_amount, Lit '', slot ''] @ holdings_debug slot)"

definition drop_active_mutation :: "account_id \<Rightarrow> spot_funds engine \<Rightarrow> spot_funds engine" where
  "drop_active_mutation account e = put_spot (end_holdings_mutation (eng_policy_state e) account) e"

definition register_hold_rollback ::
  "dec_ops \<Rightarrow> slot_key \<Rightarrow> position_size \<Rightarrow> position_size \<Rightarrow> spot_funds engine mutations \<Rightarrow>
   spot_funds engine mutations" where
  "register_hold_rollback D key held_amount incoming_amount ms =
     mutations_push ms
       (new_engine_owned_with_guard (\<lambda>e. e) (hold_rollback D key held_amount incoming_amount)
          (drop_active_mutation (fst key)))"

text \<open>What the mutation of the slot computes, inside one exclusive access.\<close>

definition reserve_in_slot ::
  "dec_ops \<Rightarrow> asset \<Rightarrow> position_size \<Rightarrow> position_size \<Rightarrow> spot_funds_limit_mode \<Rightarrow> limit_check option \<Rightarrow>
   holdings \<Rightarrow> rejects + holdings" where
  "reserve_in_slot D asset held_amount incoming_amount mode limit slot =
     bind_res (if is_zero held_amount then Inr slot
               else map_err (\<lambda>err. reserve_hold_reject SPOT_FUNDS_POLICY_NAME err asset held_amount)
                      (hold_with_mode D slot held_amount mode)) (\<lambda>held_slot.
     bind_res (map_err (\<lambda>_. incoming_overflow_rejects asset incoming_amount)
         (reserve_incoming D held_slot incoming_amount)) (\<lambda>new.
     bind_res (position_limit_verify D limit asset slot held_amount incoming_amount) (\<lambda>_.
       Inr new)))"

definition reserve_asset ::
  "dec_ops \<Rightarrow> account_id \<Rightarrow> asset \<Rightarrow> position_size \<Rightarrow> position_size \<Rightarrow> spot_funds_limit_mode \<Rightarrow>
   limit_check option \<Rightarrow> spot_funds engine \<Rightarrow> spot_funds engine mutations \<Rightarrow> policy_pre_trade_result \<Rightarrow>
   spot_funds engine \<times> spot_funds engine mutations \<times> (rejects + policy_pre_trade_result)" where
  "reserve_asset D account asset held_amount incoming_amount mode limit e ms outcome =
     (if is_zero held_amount \<and> is_zero incoming_amount then (e, ms, Inr outcome)
      else
        (let self = begin_holdings_mutation (eng_policy_state e) account;
             key = (account, asset)
         in case store_with_mut_or_insert_prune_new_if_zero (sf_holdings self) key holdings_zero
                   (\<lambda>slot is_new.
                      case reserve_in_slot D asset held_amount incoming_amount mode limit slot of
                        Inr new \<Rightarrow> (new, Inr (new, is_new))
                      | Inl rejects \<Rightarrow> (slot, Inl rejects)) of
              (store, Inl rejects) \<Rightarrow>
                (put_spot (end_holdings_mutation (self\<lparr>sf_holdings := store\<rparr>) account) e, ms, Inl rejects)
            | (store, Inr (new, was_new)) \<Rightarrow>
                (let store = (if holdings_is_zero new \<and> \<not> was_new
                              then fst (store_remove_if_zero store key) else store)
                 in (put_spot (self\<lparr>sf_holdings := store\<rparr>) e,
                     register_hold_rollback D key held_amount incoming_amount ms,
                     Inr (push_entry
                       (reservation_outcome_entry asset held_amount incoming_amount new) outcome)))))"

definition push_lock_price :: "price option \<Rightarrow> policy_pre_trade_result \<Rightarrow> policy_pre_trade_result" where
  "push_lock_price lock_price outcome =
     (case lock_price of
        Some p \<Rightarrow> outcome\<lparr>ptr_lock_prices := ptr_lock_prices outcome @ [p]\<rparr> | None \<Rightarrow> outcome)"

text \<open>Both steps in order; the first failure ends the loop with what was done so far.\<close>

definition reserve_steps ::
  "dec_ops \<Rightarrow> account_id \<Rightarrow> reservation_step \<times> reservation_step \<Rightarrow>
   spot_funds_limit_mode \<times> limit_check option \<times> limit_check option \<Rightarrow>
   spot_funds engine \<Rightarrow> spot_funds engine mutations \<Rightarrow>
   spot_funds engine \<times> spot_funds engine mutations \<times> (rejects + policy_pre_trade_result)" where
  "reserve_steps D account steps controls e ms =
     (case (steps, controls) of
        ((s0, s1), (mode, l0, l1)) \<Rightarrow>
          (case reserve_asset D account (rs_asset s0) (rs_held s0) (rs_incoming s0) mode l0 e ms
                  policy_pre_trade_result_empty of
             (e, ms, Inl rejects) \<Rightarrow> (e, ms, Inl rejects)
           | (e, ms, Inr outcome) \<Rightarrow>
               reserve_asset D account (rs_asset s1) (rs_held s1) (rs_incoming s1) mode l1 e ms outcome))"

section \<open>The check\<close>

definition drop_copy_price_rejects :: rejects where
  "drop_copy_price_rejects =
     rejects_new [reject_new SPOT_FUNDS_POLICY_NAME ScopeOrder MissingRequiredField
       ''limit price is required for drop-copy''
       [Lit ''historical market orders cannot be valued at the current market price'']]"

definition reserve_request ::
  "dec_ops \<Rightarrow> instant \<Rightarrow> pre_trade_context \<Rightarrow> order_request_view \<Rightarrow> spot_funds pipeline \<Rightarrow>
   spot_funds engine mutations \<Rightarrow>
   spot_funds pipeline \<times> spot_funds engine mutations \<times> (rejects + policy_pre_trade_result option)" where
  "reserve_request D now ctx request p ms =
     (let e = pl_engine p; self = eng_policy_state e;
          account = orv_account request;
          g = group_of (eng_groups e) account
      in case compute_reservation_legs D now self request g (ctx_drop_copy ctx) of
           Inl reject \<Rightarrow> (p, ms, Inl (rejects_new [reject]))
         | Inr legs \<Rightarrow>
             (let steps = reservation_steps legs (underlying_asset (orv_instrument request))
                    (settlement_asset (orv_instrument request)) (orv_side request);
                  controls = reservation_controls D (sf_settings self) account g (ctx_drop_copy ctx) steps
              in case reserve_steps D account steps controls e ms of
                   (e, ms, Inl rejects) \<Rightarrow> (p\<lparr>pl_engine := e\<rparr>, ms, Inl rejects)
                 | (e, ms, Inr outcome) \<Rightarrow>
                     (p\<lparr>pl_engine := e\<rparr>, ms,
                      Inr (Some (push_lock_price (rl_lock_price legs) outcome)))))"

definition perform_pre_trade_request_impl ::
  "dec_ops \<Rightarrow> instant \<Rightarrow> pre_trade_context \<Rightarrow> order_request_view \<Rightarrow> spot_funds pipeline \<Rightarrow>
   spot_funds engine mutations \<Rightarrow>
   spot_funds pipeline \<times> spot_funds engine mutations \<times> (rejects + policy_pre_trade_result option)" where
  "perform_pre_trade_request_impl D now ctx request p ms =
     (let account = orv_account request;
          g = group_of (eng_groups (pl_engine p)) account
      in if ctx_drop_copy ctx \<and> orv_price request = None then (p, ms, Inl drop_copy_price_rejects)
         else case reject_halted_account_pnl D now (pl_engine p) account g of
                Inr _ \<Rightarrow> reserve_request D now ctx request p ms
              | Inl rejects \<Rightarrow>
                  if ctx_drop_copy ctx
                  then reserve_request D now ctx request
                         (case find (\<lambda>r. rj_scope r = ScopeAccount) (rejects_vec rejects) of
                            Some r \<Rightarrow>
                              record_drop_copy_account_block ctx (account_block_with_code r AccountBlocked) p
                          | None \<Rightarrow> p) ms
                  else (p, ms, Inl rejects))"

definition perform_pre_trade_check_impl ::
  "dec_ops \<Rightarrow> instant \<Rightarrow> pre_trade_context \<Rightarrow> order \<Rightarrow> spot_funds pipeline \<Rightarrow>
   spot_funds engine mutations \<Rightarrow>
   spot_funds pipeline \<times> spot_funds engine mutations \<times> (rejects + policy_pre_trade_result option)" where
  "perform_pre_trade_check_impl D now ctx ord p ms =
     (case read_order_request ctx ord of
        Inl rejects \<Rightarrow> (p, ms, Inl rejects)
      | Inr request \<Rightarrow> perform_pre_trade_request_impl D now ctx request p ms)"

section \<open>The dry run\<close>

definition reserve_asset_dry_run ::
  "dec_ops \<Rightarrow> spot_funds \<Rightarrow> account_id \<Rightarrow> asset \<Rightarrow> position_size \<Rightarrow> position_size \<Rightarrow>
   spot_funds_limit_mode \<Rightarrow> limit_check option \<Rightarrow> holdings option \<Rightarrow> policy_pre_trade_result \<Rightarrow>
   rejects + (holdings option \<times> policy_pre_trade_result)" where
  "reserve_asset_dry_run D self account asset held_amount incoming_amount mode limit current outcome =
     (if is_zero held_amount \<and> is_zero incoming_amount then Inr (current, outcome)
      else
        (let current = (case current of
               Some h \<Rightarrow> h
             | None \<Rightarrow>
                 (case store_get (sf_holdings self) (account, asset) of
                    Some h \<Rightarrow> h | None \<Rightarrow> holdings_zero))
         in bind_res (if is_zero held_amount then Inr current
                      else map_err (\<lambda>err. reserve_hold_reject SPOT_FUNDS_POLICY_NAME err asset held_amount)
                             (hold_with_mode D current held_amount mode)) (\<lambda>new_holdings.
            bind_res (map_err (\<lambda>_. incoming_overflow_rejects asset incoming_amount)
                (reserve_incoming D new_holdings incoming_amount)) (\<lambda>new_holdings.
            bind_res (position_limit_verify D limit asset current held_amount incoming_amount) (\<lambda>_.
              Inr (Some new_holdings,
                   push_entry (reservation_outcome_entry asset held_amount incoming_amount new_holdings)
                     outcome))))))"

definition perform_pre_trade_request_dry_run_impl ::
  "dec_ops \<Rightarrow> instant \<Rightarrow> pre_trade_context \<Rightarrow> order_request_view \<Rightarrow> spot_funds pipeline \<Rightarrow>
   rejects + policy_pre_trade_result option" where
  "perform_pre_trade_request_dry_run_impl D now ctx request p =
     (let e = pl_engine p; self = eng_policy_state e;
          account = orv_account request;
          g = group_of (eng_groups e) account
      in bind_res (reject_halted_account_pnl D now e account g) (\<lambda>_.
         bind_res (map_err (\<lambda>r. rejects_new [r])
             (compute_reservation_legs D now self request g (ctx_drop_copy ctx))) (\<lambda>legs.
           let (s0, s1) = reservation_steps legs (underlying_asset (orv_instrument request))
                 (settlement_asset (orv_instrument request)) (orv_side request);
               (mode, l0, l1) = reservation_controls D (sf_settings self) account g
                 (ctx_drop_copy ctx) (s0, s1)
           in bind_res (reserve_asset_dry_run D self account (rs_asset s0) (rs_held s0) (rs_incoming s0)
                  mode l0 None policy_pre_trade_result_empty) (\<lambda>(first_after, outcome).
              bind_res (reserve_asset_dry_run D self account (rs_asset s1) (rs_held s1) (rs_incoming s1)
                  mode l1 (if rs_asset s0 = rs_asset s1 then first_after else None) outcome)
                (\<lambda>(_, outcome). Inr (Some (push_lock_price (rl_lock_price legs) outcome)))))))"

definition perform_pre_trade_check_dry_run_impl ::
  "dec_ops \<Rightarrow> instant \<Rightarrow> pre_trade_context \<Rightarrow> order \<Rightarrow> spot_funds pipeline \<Rightarrow>
   rejects + policy_pre_trade_result option" where
  "perform_pre_trade_check_dry_run_impl D now ctx ord p =
     bind_res (read_order_request ctx ord) (\<lambda>request.
       perform_pre_trade_request_dry_run_impl D now ctx request p)"

section \<open>A concrete account\<close>

text \<open>Account 7 has 1000 USD, an enforced limit mode and a position limit of 100 AAPL.\<close>

definition spot_sample_settings :: spot_funds_settings where
  "spot_sample_settings =
     \<lparr>sfs_account_overrides = [], sfs_account_group_overrides = [], sfs_instrument_overrides = [],
      sfs_account_limit_modes = [], sfs_account_group_limit_modes = [],
      sfs_position_limits = [((7, ''AAPL''), 100)], sfs_pnl_barriers = barrier_set_default,
      sfs_pnl_account_unrealized_barriers = barrier_set_default,
      sfs_pnl_account_total_barriers = barrier_set_default,
      sfs_pnl_position_unrealized_barriers = barrier_set_default,
      sfs_pnl_position_total_barriers = barrier_set_default,
      sfs_global_pricer = with_slippage_new 0, sfs_pricing_source = Mark, sfs_global_limit_mode = Enforce\<rparr>"

definition spot_sample :: spot_funds where
  "spot_sample =
     (spot_funds_new spot_sample_settings None 1)\<lparr>sf_holdings :=
       \<lparr>inner = [((7, ''USD''), holdings_new 1000 0)], index = [(7, {''USD''})]\<rparr>\<rparr>"

definition spot_sample_pipeline :: "spot_funds pipeline" where
  "spot_sample_pipeline =
     \<lparr>pl_engine = \<lparr>eng_policy_state = spot_sample, eng_blocked = blocked_accounts_new, eng_groups = [],
                    eng_account_currencies = account_currencies_new\<rparr>,
      pl_group_lookup = group_lookup_new (Some 7), pl_drop_copy = None\<rparr>"

definition spot_sample_ctx :: pre_trade_context where
  "spot_sample_ctx = \<lparr>ctx_account = Inr 7, ctx_drop_copy = False\<rparr>"

definition spot_sample_order :: order where
  "spot_sample_order =
     \<lparr>ord_account_id = Inr 7,
      ord_instrument = Inr \<lparr>underlying_asset = ''AAPL'', settlement_asset = ''USD''\<rparr>,
      ord_trade_amount = Inr (TA_Quantity 5), ord_price = Inr (Some 10), ord_side = Inr Buy\<rparr>"

definition spot_sample_request :: order_request_view where
  "spot_sample_request =
     \<lparr>orv_instrument = \<lparr>underlying_asset = ''AAPL'', settlement_asset = ''USD''\<rparr>, orv_account = 7,
      orv_side = Buy, orv_trade_amount = TA_Quantity 5, orv_price = Some 10\<rparr>"

section \<open>What a reservation does to the balances\<close>

lemma map_res_comp: "map_res f (map_res g m) = map_res (\<lambda>x. f (g x)) m"
  by (cases m) simp_all

abbreviation spot_balances :: "spot_funds engine \<Rightarrow> slot_key \<Rightarrow> holdings" where
  "spot_balances e \<equiv> balance_of (sf_holdings (eng_policy_state e))"

lemma put_spot_simps [simp]:
  "eng_policy_state (put_spot self e) = self" "eng_blocked (put_spot self e) = eng_blocked e"
  "eng_groups (put_spot self e) = eng_groups e"
  "eng_account_currencies (put_spot self e) = eng_account_currencies e"
  by (simp_all add: put_spot_def)

lemma active_frame [simp]:
  "sf_holdings (begin_holdings_mutation self account) = sf_holdings self"
  "sf_settings (begin_holdings_mutation self account) = sf_settings self"
  "sf_holdings (end_holdings_mutation self account) = sf_holdings self"
  "sf_settings (end_holdings_mutation self account) = sf_settings self"
  by (simp_all add: begin_holdings_mutation_def end_holdings_mutation_def Let_def)

text \<open>The reservation of a leg, as one mutation of its slot.\<close>

lemma reserve_asset_eq:
  "reserve_asset D account asset a i mode limit e ms outcome =
     (if is_zero a \<and> is_zero i then (e, ms, Inr outcome)
      else
        (let self = begin_holdings_mutation (eng_policy_state e) account;
             out = mutate_slot (sf_holdings self) (account, asset)
               (reserve_in_slot D asset a i mode limit)
         in case snd out of
              Inl rejects \<Rightarrow>
                (put_spot (end_holdings_mutation (self\<lparr>sf_holdings := fst out\<rparr>) account) e, ms, Inl rejects)
            | Inr new \<Rightarrow>
                (put_spot (self\<lparr>sf_holdings := fst out\<rparr>) e, register_hold_rollback D (account, asset) a i ms,
                 Inr (push_entry (reservation_outcome_entry asset a i new) outcome))))"
  by (simp add: reserve_asset_def mutate_slot_def Let_def case_prod_beta split: sum.split)

lemma reserve_asset_verdict:
  "snd (snd (reserve_asset D account asset a i mode limit e ms outcome)) =
     (if is_zero a \<and> is_zero i then Inr outcome
      else map_res (\<lambda>new. push_entry (reservation_outcome_entry asset a i new) outcome)
             (reserve_in_slot D asset a i mode limit (spot_balances e (account, asset))))"
  by (simp add: reserve_asset_eq Let_def slots.update_result map_res_def split: sum.split)

lemma reserve_asset_balances:
  "spot_balances (fst (reserve_asset D account asset a i mode limit e ms outcome)) =
     (if is_zero a \<and> is_zero i then spot_balances e
      else case reserve_in_slot D asset a i mode limit (spot_balances e (account, asset)) of
             Inr new \<Rightarrow> (spot_balances e)((account, asset) := new)
           | Inl _ \<Rightarrow> spot_balances e)"
  by (simp add: reserve_asset_eq Let_def slots.update_result slots.update_balance split: sum.split)

lemma reserve_asset_dry_run_eq:
  "reserve_asset_dry_run D self account asset a i mode limit current outcome =
     (if is_zero a \<and> is_zero i then Inr (current, outcome)
      else map_res (\<lambda>new. (Some new, push_entry (reservation_outcome_entry asset a i new) outcome))
             (reserve_in_slot D asset a i mode limit
               (case current of Some h \<Rightarrow> h | None \<Rightarrow> balance_of (sf_holdings self) (account, asset))))"
  by (auto simp: reserve_asset_dry_run_def reserve_in_slot_def Let_def balance_of_def map_res_bind
      cong: bind_res_cong split: option.split)

lemma reserve_steps_dry_run:
  "bind_res (reserve_asset_dry_run D (eng_policy_state e) account (rs_asset s0) (rs_held s0)
       (rs_incoming s0) mode l0 None policy_pre_trade_result_empty) (\<lambda>(first_after, outcome).
     map_res snd (reserve_asset_dry_run D (eng_policy_state e) account (rs_asset s1) (rs_held s1)
       (rs_incoming s1) mode l1 (if rs_asset s0 = rs_asset s1 then first_after else None) outcome)) =
   snd (snd (reserve_steps D account (s0, s1) (mode, l0, l1) e ms))"
proof -
  define out where "out = reserve_asset D account (rs_asset s0) (rs_held s0) (rs_incoming s0) mode l0 e ms
      policy_pre_trade_result_empty"
  note first = reserve_asset_verdict [of D account "rs_asset s0" "rs_held s0" "rs_incoming s0" mode l0 e ms
      policy_pre_trade_result_empty, folded out_def]
    reserve_asset_balances [of D account "rs_asset s0" "rs_held s0" "rs_incoming s0" mode l0 e ms
      policy_pre_trade_result_empty, folded out_def]
  have steps: "snd (snd (reserve_steps D account (s0, s1) (mode, l0, l1) e ms)) =
      bind_res (snd (snd out)) (\<lambda>outcome. snd (snd (reserve_asset D account (rs_asset s1) (rs_held s1)
        (rs_incoming s1) mode l1 (fst out) (fst (snd out)) outcome)))"
    by (simp add: reserve_steps_def out_def case_prod_beta bind_res_def split: sum.split)
  show ?thesis
    unfolding steps
    by (cases "reserve_in_slot D (rs_asset s0) (rs_held s0) (rs_incoming s0) mode l0
        (spot_balances e (account, rs_asset s0))")
      (simp_all add: first reserve_asset_dry_run_eq reserve_asset_verdict map_res_comp)
qed

lemma reserve_request_dry_run:
  assumes "reservation_steps legs (underlying_asset (orv_instrument request))
      (settlement_asset (orv_instrument request)) (orv_side request) = (s0, s1)"
    and "reservation_controls D (sf_settings (eng_policy_state (pl_engine p))) (orv_account request)
      (group_of (eng_groups (pl_engine p)) (orv_account request)) (ctx_drop_copy ctx) (s0, s1) = (mode, l0, l1)"
    and "compute_reservation_legs D now (eng_policy_state (pl_engine p)) request
      (group_of (eng_groups (pl_engine p)) (orv_account request)) (ctx_drop_copy ctx) = Inr legs"
  shows "snd (snd (reserve_request D now ctx request p ms)) =
      map_res (\<lambda>outcome. Some (push_lock_price (rl_lock_price legs) outcome))
        (bind_res (reserve_asset_dry_run D (eng_policy_state (pl_engine p)) (orv_account request)
            (rs_asset s0) (rs_held s0) (rs_incoming s0) mode l0 None policy_pre_trade_result_empty)
          (\<lambda>(first_after, outcome).
           map_res snd (reserve_asset_dry_run D (eng_policy_state (pl_engine p)) (orv_account request)
             (rs_asset s1) (rs_held s1) (rs_incoming s1) mode l1
             (if rs_asset s0 = rs_asset s1 then first_after else None) outcome)))"
  using assms unfolding reserve_steps_dry_run [where ms = ms]
  by (simp add: reserve_request_def Let_def case_prod_beta map_res_def split: sum.split)

lemma map_res_as_bind: "map_res f m = bind_res m (\<lambda>x. Inr (f x))"
  by (cases m) simp_all

text \<open>
  (C8) The dry run of the spot funds check predicts the check: for every live order, in every state
  and whatever the decimal arithmetic does, it returns the same rejects, or the same outcome entries
  and lock prices, as the check that reserves the funds.
\<close>

theorem spot_dry_run_predicts:
  assumes "\<not> ctx_drop_copy ctx"
  shows "perform_pre_trade_check_dry_run_impl D now ctx ord p =
    snd (snd (perform_pre_trade_check_impl D now ctx ord p ms))"
proof (cases "read_order_request ctx ord")
  case (Inr request)
  let ?e = "pl_engine p" and ?account = "orv_account request"
  show ?thesis
  proof (cases "reject_halted_account_pnl D now ?e ?account (group_of (eng_groups ?e) ?account)")
    case gate: (Inr u)
    show ?thesis
    proof (cases "compute_reservation_legs D now (eng_policy_state ?e) request
        (group_of (eng_groups ?e) ?account) False")
      case (Inl r)
      then show ?thesis
        using assms gate \<open>read_order_request ctx ord = Inr request\<close>
        by (simp add: perform_pre_trade_check_dry_run_impl_def perform_pre_trade_check_impl_def
            perform_pre_trade_request_impl_def perform_pre_trade_request_dry_run_impl_def Let_def
            reserve_request_def)
    next
      case legs: (Inr legs)
      obtain s0 s1 where steps: "reservation_steps legs (underlying_asset (orv_instrument request))
          (settlement_asset (orv_instrument request)) (orv_side request) = (s0, s1)" by force
      obtain mode l0 l1 where controls: "reservation_controls D (sf_settings (eng_policy_state ?e))
          ?account (group_of (eng_groups ?e) ?account) False (s0, s1) = (mode, l0, l1)"
        by (metis prod_cases3)
      show ?thesis
        using assms gate legs steps controls \<open>read_order_request ctx ord = Inr request\<close>
        by (simp add: perform_pre_trade_check_dry_run_impl_def perform_pre_trade_check_impl_def
            perform_pre_trade_request_impl_def perform_pre_trade_request_dry_run_impl_def Let_def
            reserve_request_dry_run map_res_bind map_res_comp
            map_res_as_bind [of _ "reserve_asset_dry_run _ _ _ _ _ _ _ _ _ _"] case_prod_unfold)
    qed
  qed (use assms Inr in \<open>simp add: perform_pre_trade_check_dry_run_impl_def
      perform_pre_trade_check_impl_def perform_pre_trade_request_impl_def
      perform_pre_trade_request_dry_run_impl_def Let_def\<close>)
qed (simp add: perform_pre_trade_check_dry_run_impl_def perform_pre_trade_check_impl_def)

section \<open>Exact reservations\<close>

text \<open>The reservation of a leg on exact numbers, and on a whole table of balances.\<close>

definition reserved :: "holdings \<Rightarrow> position_size \<Rightarrow> position_size \<Rightarrow> holdings" where
  "reserved h a i = h\<lparr>available := available h - a, held := held h + a, incoming := incoming h + i\<rparr>"

definition exact_slot :: "holdings \<Rightarrow> bool" where
  "exact_slot h \<longleftrightarrow> representable (available h) \<and> representable (held h) \<and> representable (incoming h)"

definition apply_step ::
  "account_id \<Rightarrow> reservation_step \<Rightarrow> (slot_key \<Rightarrow> holdings) \<Rightarrow> slot_key \<Rightarrow> holdings" where
  "apply_step account step b =
     b((account, rs_asset step) := reserved (b (account, rs_asset step)) (rs_held step) (rs_incoming step))"

definition active_count :: "spot_funds \<Rightarrow> account_id \<Rightarrow> nat" where
  "active_count self account = (case hm_get (sf_active self) account of Some n \<Rightarrow> n | None \<Rightarrow> 0)"

lemma reserved_zero [simp]: "reserved h 0 0 = h"
  by (simp add: reserved_def)

lemma apply_step_idle: "is_zero (rs_held step) \<Longrightarrow> is_zero (rs_incoming step) \<Longrightarrow> apply_step account step b = b"
  by (simp add: apply_step_def is_zero_def)

lemma rollback_slot_ok:
  assumes "undo (spot_balances e key) = Inr h"
  shows "spot_balances (rollback_slot account key undo details e) = (spot_balances e)(key := h)"
    and "eng_blocked (rollback_slot account key undo details e) = eng_blocked e"
    and "sf_active (eng_policy_state (rollback_slot account key undo details e)) =
      sf_active (eng_policy_state e)"
proof -
  let ?f = "\<lambda>slot (_ :: bool). case undo slot of
      Inr undone \<Rightarrow> (undone, holdings_is_zero undone, None)
    | Inl _ \<Rightarrow> (slot, holdings_is_zero slot, Some (details slot))"
  have "snd (store_with_mut (sf_holdings (eng_policy_state e)) key holdings_zero ?f) =
      (holdings_is_zero h, None)"
    and "balance_of (fst (store_with_mut (sf_holdings (eng_policy_state e)) key holdings_zero ?f)) =
      (spot_balances e)(key := h)"
    using assms with_mut_balance [of ?f "sf_holdings (eng_policy_state e)" key] by simp_all
  then show "spot_balances (rollback_slot account key undo details e) = (spot_balances e)(key := h)"
    and "eng_blocked (rollback_slot account key undo details e) = eng_blocked e"
    and "sf_active (eng_policy_state (rollback_slot account key undo details e)) =
      sf_active (eng_policy_state e)"
    by (simp_all add: rollback_slot_def Let_def case_prod_beta)
qed

context decimal_arith
begin

lemma reserve_in_slot_exact:
  assumes "reserve_in_slot D asset a i mode limit slot = Inr new" and "exact_slot (reserved slot a i)"
  shows "new = reserved slot a i"
  using assms
  by (auto simp: reserve_in_slot_def exact_slot_def reserved_def result_simps is_zero_def
      hold_with_mode_def try_hold_def hold_allow_negative_def reserve_incoming_def ps_add_def ps_sub_def
      sg_checked_add_def sg_checked_sub_def add_exact sub_exact sg_new_def split: if_splits
      spot_funds_limit_mode.splits)

lemma delta_rollback_exact:
  "exact_slot h \<Longrightarrow> apply_delta_rollback D (reserved h a i) (neg a) a i = Inr h"
  by (simp add: apply_delta_rollback_def reserved_def exact_slot_def neg_def position_size_neg_def
      sg_new_def ps_sub_exact)

lemma hold_rollback_exact:
  assumes "spot_balances e key = reserved h a i" and "exact_slot h"
  shows "spot_balances (hold_rollback D key a i e) = (spot_balances e)(key := h)"
    and "eng_blocked (hold_rollback D key a i e) = eng_blocked e"
    and "sf_active (eng_policy_state (hold_rollback D key a i e)) = sf_active (eng_policy_state e)"
  using assms rollback_slot_ok [of "\<lambda>slot. apply_delta_rollback D slot (neg a) a i" e key h]
  by (simp_all add: hold_rollback_def delta_rollback_exact)

end

lemma active_count_begin:
  "active_count self account < USIZE_MAX \<Longrightarrow>
   active_count (begin_holdings_mutation self account) = (active_count self)(account := active_count self account + 1)"
  by (rule ext) (auto simp: active_count_def begin_holdings_mutation_def with_mut_lookup split: option.splits)

lemma active_count_end:
  "active_count (end_holdings_mutation self account) =
     (active_count self)(account := active_count self account - 1)"
  by (rule ext) (auto simp: active_count_def end_holdings_mutation_def with_mut_if_present_lookup
      st.lookup_discard Let_def split: option.splits if_splits)

text \<open>What a rollback has to restore, and that a list of mutations restores it.\<close>

definition spot_view ::
  "spot_funds engine \<Rightarrow> (slot_key \<Rightarrow> holdings) \<times> (account_id \<Rightarrow> nat) \<times> blocked_accounts" where
  "spot_view e = (spot_balances e, active_count (eng_policy_state e), eng_blocked e)"

definition undone_by ::
  "spot_funds engine mutation list \<Rightarrow> spot_funds engine \<Rightarrow> spot_funds engine \<Rightarrow> bool" where
  "undone_by new e' e \<longleftrightarrow>
     (\<forall>w f. spot_view w = spot_view e' \<longrightarrow>
        spot_view (fst (rollback_loop (rev new) w f)) = spot_view e \<and>
        snd (rollback_loop (rev new) w f) = f)"

lemma undone_by_run:
  "undone_by new e' e \<Longrightarrow> rollback_loop (rev new) e' f = (w, f') \<Longrightarrow> spot_view w = spot_view e \<and> f' = f"
  by (metis undone_by_def fst_conv snd_conv)

lemma rollback_loop_append:
  "rollback_loop (xs @ ys) w f =
     rollback_loop ys (fst (rollback_loop xs w f)) (snd (rollback_loop xs w f))"
  by (induction xs arbitrary: w f) (simp_all add: case_prod_beta)

lemma undone_by_append:
  "undone_by n1 e1 e0 \<Longrightarrow> undone_by n2 e2 e1 \<Longrightarrow> undone_by (n1 @ n2) e2 e0"
  by (simp add: undone_by_def rollback_loop_append)

lemma undone_by_Nil: "spot_view e' = spot_view e \<Longrightarrow> undone_by [] e' e"
  by (simp add: undone_by_def)

context decimal_arith
begin

lemma hold_mutation_undone:
  assumes "spot_balances e' = (spot_balances e)(key := reserved (spot_balances e key) a i)"
    and "exact_slot (spot_balances e key)" and "eng_blocked e' = eng_blocked e"
    and "active_count (eng_policy_state e') =
      (active_count (eng_policy_state e))(fst key := active_count (eng_policy_state e) (fst key) + 1)"
  shows "undone_by [new_engine_owned_with_guard (\<lambda>e. e) (hold_rollback D key a i)
      (drop_active_mutation (fst key))] e' e"
  unfolding undone_by_def
proof (intro allI impI)
  fix w f assume w: "spot_view w = spot_view e'"
  then have bal: "spot_balances w key = reserved (spot_balances e key) a i"
    using assms(1) by (simp add: spot_view_def)
  have act: "active_count (eng_policy_state (hold_rollback D key a i w)) = active_count (eng_policy_state w)"
    using hold_rollback_exact(3) [OF bal assms(2)] by (simp add: active_count_def fun_eq_iff)
  show "spot_view (fst (rollback_loop (rev [new_engine_owned_with_guard (\<lambda>e. e)
      (hold_rollback D key a i) (drop_active_mutation (fst key))]) w f)) = spot_view e \<and>
    snd (rollback_loop (rev [new_engine_owned_with_guard (\<lambda>e. e)
      (hold_rollback D key a i) (drop_active_mutation (fst key))]) w f) = f"
    using w hold_rollback_exact [OF bal assms(2)] act assms
    by (simp add: new_engine_owned_with_guard_def new_engine_owned_def new_infallible_def
        new_reporting_with_error_def mutation_rollback_def drop_guard_def spot_view_def
        drop_active_mutation_def active_count_end)
qed

lemma reserve_asset_undone:
  assumes "reserve_asset D account asset a i mode limit e ms outcome = (e', ms', r)"
    and "exact_slot (spot_balances e (account, asset))"
    and "exact_slot (reserved (spot_balances e (account, asset)) a i)"
    and "active_count (eng_policy_state e) account < USIZE_MAX"
  shows "(\<exists>new. mutation_list ms' = mutation_list ms @ new \<and> undone_by new e' e) \<and>
    (is_ok r \<longrightarrow> spot_balances e' =
       (spot_balances e)((account, asset) := reserved (spot_balances e (account, asset)) a i)) \<and>
    active_count (eng_policy_state e') account \<le> active_count (eng_policy_state e) account + 1"
proof (cases "is_zero a \<and> is_zero i")
  case True
  then show ?thesis using assms(1) undone_by_Nil [of e e] by (auto simp: reserve_asset_eq is_zero_def)
next
  case False
  let ?self = "eng_policy_state e" and ?key = "(account, asset)"
  have bal: "spot_balances e' = (case reserve_in_slot D asset a i mode limit (spot_balances e ?key) of
      Inr new \<Rightarrow> (spot_balances e)(?key := new) | Inl _ \<Rightarrow> spot_balances e)"
    using reserve_asset_balances [of D account asset a i mode limit e ms outcome] assms(1) False by simp
  have act: "active_count (begin_holdings_mutation ?self account\<lparr>sf_holdings := h\<rparr>) =
      (active_count ?self)(account := active_count ?self account + 1)" for h
    using active_count_begin [OF assms(4)] by (simp add: active_count_def fun_eq_iff)
  show ?thesis
  proof (cases "reserve_in_slot D asset a i mode limit (spot_balances e ?key)")
    case (Inl rejects)
    then have "ms' = ms" "r = Inl rejects" "spot_view e' = spot_view e"
      using assms(1) False bal act
      by (auto simp: reserve_asset_eq Let_def slots.update_result spot_view_def active_count_end)
    then show ?thesis using undone_by_Nil [of e' e] by (simp add: spot_view_def)
  next
    case (Inr new)
    then have new: "new = reserved (spot_balances e ?key) a i"
      using reserve_in_slot_exact assms(3) by blast
    have "ms' = register_hold_rollback D ?key a i ms" "eng_blocked e' = eng_blocked e"
      "active_count (eng_policy_state e') = (active_count ?self)(account := active_count ?self account + 1)"
      using assms(1) False Inr act by (auto simp: reserve_asset_eq Let_def slots.update_result)
    then show ?thesis
      using bal Inr new hold_mutation_undone [of e' e ?key a i] assms(2)
      by (simp add: register_hold_rollback_def mutations_push_def)
  qed
qed

lemma reserve_steps_undone:
  assumes "reserve_steps D account (s0, s1) controls e ms = (e', ms', r)"
    and "\<And>key. exact_slot (spot_balances e key)"
    and "\<And>key. exact_slot (apply_step account s0 (spot_balances e) key)"
    and "\<And>key. exact_slot (apply_step account s1 (apply_step account s0 (spot_balances e)) key)"
    and "active_count (eng_policy_state e) account + 1 < USIZE_MAX"
  shows "(\<exists>new. mutation_list ms' = mutation_list ms @ new \<and> undone_by new e' e) \<and>
    (is_ok r \<longrightarrow>
       spot_balances e' = apply_step account s1 (apply_step account s0 (spot_balances e)))"
proof -
  obtain mode l0 l1 where c: "controls = (mode, l0, l1)" by (metis prod_cases3)
  obtain e1 ms1 r1 where one: "reserve_asset D account (rs_asset s0) (rs_held s0) (rs_incoming s0) mode l0 e ms
      policy_pre_trade_result_empty = (e1, ms1, r1)" by (metis prod_cases3)
  have at: "exact_slot (reserved (b (account, rs_asset s)) (rs_held s) (rs_incoming s))"
    if "\<And>key. exact_slot (apply_step account s b key)" for s b
    using that [of "(account, rs_asset s)"] by (simp add: apply_step_def)
  note first = reserve_asset_undone [OF one assms(2) at [OF assms(3)]]
  show ?thesis
  proof (cases r1)
    case (Inl x)
    then show ?thesis using first one assms(1,5) c by (auto simp: reserve_steps_def)
  next
    case (Inr outcome)
    have b1: "spot_balances e1 = apply_step account s0 (spot_balances e)"
      using first Inr assms(5) by (simp add: apply_step_def)
    have two: "reserve_asset D account (rs_asset s1) (rs_held s1) (rs_incoming s1) mode l1 e1 ms1 outcome = (e', ms', r)"
      using assms(1) c one Inr by (simp add: reserve_steps_def)
    have "exact_slot (spot_balances e1 (account, rs_asset s1))"
      and "exact_slot (reserved (spot_balances e1 (account, rs_asset s1)) (rs_held s1) (rs_incoming s1))"
      and "active_count (eng_policy_state e1) account < USIZE_MAX"
      using assms(3) at [OF assms(4)] first assms(5) by (simp_all add: b1)
    note second = reserve_asset_undone [OF two this]
    then show ?thesis
      using first second assms(5) undone_by_append b1 by (fastforce simp: apply_step_def)
  qed
qed

end

section \<open>Properties of the check\<close>

definition order_steps ::
  "dec_ops \<Rightarrow> instant \<Rightarrow> pre_trade_context \<Rightarrow> order_request_view \<Rightarrow> spot_funds engine \<Rightarrow>
   (reservation_step \<times> reservation_step) option" where
  "order_steps D now ctx request e =
     (case compute_reservation_legs D now (eng_policy_state e) request
             (group_of (eng_groups e) (orv_account request)) (ctx_drop_copy ctx) of
        Inr legs \<Rightarrow>
          Some (reservation_steps legs (underlying_asset (orv_instrument request))
            (settlement_asset (orv_instrument request)) (orv_side request))
      | Inl _ \<Rightarrow> None)"

text \<open>The balances an order works on, and those it would leave, need no rounding.\<close>

definition exact_order ::
  "dec_ops \<Rightarrow> instant \<Rightarrow> pre_trade_context \<Rightarrow> order_request_view \<Rightarrow> spot_funds engine \<Rightarrow> bool" where
  "exact_order D now ctx request e \<longleftrightarrow>
     (\<forall>key. exact_slot (spot_balances e key)) \<and>
     (case order_steps D now ctx request e of
        Some (s0, s1) \<Rightarrow>
          (\<forall>key. exact_slot (apply_step (orv_account request) s0 (spot_balances e) key)) \<and>
          (\<forall>key. exact_slot (apply_step (orv_account request) s1
             (apply_step (orv_account request) s0 (spot_balances e)) key))
      | None \<Rightarrow> True)"

lemma recorded_block_frame [simp]:
  "eng_policy_state (pl_engine (record_drop_copy_account_block ctx block p)) = eng_policy_state (pl_engine p)"
  "eng_groups (pl_engine (record_drop_copy_account_block ctx block p)) = eng_groups (pl_engine p)"
  by (auto simp: record_drop_copy_account_block_def split: option.splits prod.splits)

lemma order_steps_frame:
  assumes "eng_policy_state e' = eng_policy_state e" and "eng_groups e' = eng_groups e"
  shows "order_steps D now ctx request e' = order_steps D now ctx request e"
    and "exact_order D now ctx request e' = exact_order D now ctx request e"
  unfolding exact_order_def order_steps_def by (simp_all only: assms)

lemma owned_apply_step: "owned (apply_step account s b key) = owned (b key)"
  by (simp add: apply_step_def reserved_def owned_def)

lemma check_reserves:
  assumes "perform_pre_trade_request_impl D now ctx request p ms = (p', ms', r)"
  shows "(p', ms') = (p, ms) \<and> \<not> is_ok r \<or>
    (\<exists>q. eng_policy_state (pl_engine q) = eng_policy_state (pl_engine p) \<and>
       eng_groups (pl_engine q) = eng_groups (pl_engine p) \<and> (\<not> ctx_drop_copy ctx \<longrightarrow> q = p) \<and>
       reserve_request D now ctx request q ms = (p', ms', r))"
proof (cases "reject_halted_account_pnl D now (pl_engine p) (orv_account request)
    (group_of (eng_groups (pl_engine p)) (orv_account request))")
  case (Inl rejects)
  let ?q = "case find (\<lambda>r. rj_scope r = ScopeAccount) (rejects_vec rejects) of
      Some r \<Rightarrow> record_drop_copy_account_block ctx (account_block_with_code r AccountBlocked) p
    | None \<Rightarrow> p"
  have "eng_policy_state (pl_engine ?q) = eng_policy_state (pl_engine p)"
    and "eng_groups (pl_engine ?q) = eng_groups (pl_engine p)" by (simp_all split: option.split)
  then show ?thesis
    using assms Inl by (auto simp: perform_pre_trade_request_impl_def Let_def split: if_splits)
next
  case (Inr u)
  then show ?thesis
    using assms by (auto simp: perform_pre_trade_request_impl_def Let_def split: if_splits)
qed

lemma reserve_request_cases:
  assumes "reserve_request D now ctx request q ms = (p', ms', r)"
  shows "(p', ms') = (q, ms) \<and> \<not> is_ok r \<or>
    (\<exists>s0 s1 controls r'. order_steps D now ctx request (pl_engine q) = Some (s0, s1) \<and>
       controls = reservation_controls D (sf_settings (eng_policy_state (pl_engine q))) (orv_account request)
         (group_of (eng_groups (pl_engine q)) (orv_account request)) (ctx_drop_copy ctx) (s0, s1) \<and>
       reserve_steps D (orv_account request) (s0, s1) controls (pl_engine q) ms = (pl_engine p', ms', r') \<and>
       is_ok r' = is_ok r)"
proof (cases "compute_reservation_legs D now (eng_policy_state (pl_engine q)) request
    (group_of (eng_groups (pl_engine q)) (orv_account request)) (ctx_drop_copy ctx)")
  case (Inl x)
  then show ?thesis using assms by (auto simp: reserve_request_def Let_def)
next
  case (Inr legs)
  obtain s0 s1 where steps: "reservation_steps legs (underlying_asset (orv_instrument request))
      (settlement_asset (orv_instrument request)) (orv_side request) = (s0, s1)" by force
  obtain e' ms1 r' where "reserve_steps D (orv_account request) (s0, s1)
      (reservation_controls D (sf_settings (eng_policy_state (pl_engine q))) (orv_account request)
         (group_of (eng_groups (pl_engine q)) (orv_account request)) (ctx_drop_copy ctx) (s0, s1))
      (pl_engine q) ms = (e', ms1, r')" by (metis prod_cases3)
  then show ?thesis
    using assms Inr steps by (cases r') (auto simp: reserve_request_def order_steps_def Let_def)
qed

lemma check_undone:
  assumes "decimal_arith D" and "read_order_request ctx ord = Inr request"
    and "exact_order D now ctx request (pl_engine p)"
    and "active_count (eng_policy_state (pl_engine p)) (orv_account request) + 1 < USIZE_MAX"
    and "perform_pre_trade_check_impl D now ctx ord p ms = (p', ms', r)"
  shows "\<exists>new q. mutation_list ms' = mutation_list ms @ new \<and> undone_by new (pl_engine p') (pl_engine q) \<and>
    eng_policy_state (pl_engine q) = eng_policy_state (pl_engine p) \<and> (\<not> ctx_drop_copy ctx \<longrightarrow> q = p) \<and>
    (is_ok r \<longrightarrow> (\<exists>s0 s1. order_steps D now ctx request (pl_engine p) = Some (s0, s1) \<and>
       spot_balances (pl_engine p') = apply_step (orv_account request) s1
         (apply_step (orv_account request) s0 (spot_balances (pl_engine p)))))"
proof -
  have run: "perform_pre_trade_request_impl D now ctx request p ms = (p', ms', r)"
    using assms(2,5) by (simp add: perform_pre_trade_check_impl_def)
  consider (idle) "(p', ms') = (p, ms)" "\<not> is_ok r"
    | (go) q where "eng_policy_state (pl_engine q) = eng_policy_state (pl_engine p)"
        "eng_groups (pl_engine q) = eng_groups (pl_engine p)" "\<not> ctx_drop_copy ctx \<longrightarrow> q = p"
        "reserve_request D now ctx request q ms = (p', ms', r)"
    using check_reserves [OF run] by blast
  then show ?thesis
  proof cases
    case idle
    then show ?thesis using undone_by_Nil [of "pl_engine p" "pl_engine p"] by auto
  next
    case go
    note frame = order_steps_frame [OF go(1,2)]
    show ?thesis
      using reserve_request_cases [OF go(4)]
    proof (elim disjE exE conjE)
      assume "(p', ms') = (q, ms)" "\<not> is_ok r"
      then show ?thesis using go undone_by_Nil [of "pl_engine q" "pl_engine q"] by auto
    next
      fix s0 s1 controls r'
      assume st: "order_steps D now ctx request (pl_engine q) = Some (s0, s1)"
        and rs: "reserve_steps D (orv_account request) (s0, s1) controls (pl_engine q) ms = (pl_engine p', ms', r')"
        and ok: "is_ok r' = is_ok r"
      show ?thesis
        using decimal_arith.reserve_steps_undone [OF assms(1) rs] assms(3,4) st ok go(1,3) frame
        by (auto simp: exact_order_def intro: exI [of _ q])
    qed
  qed
qed

text \<open>
  (C7) Accepted funds are accounted for: when the balances the order finds and those after each of
  its legs are exact decimals, so that no sum is rounded, and the count of the account's open
  mutations is at least two below its machine maximum, an order that the check accepts changes the
  balances of its account by its two legs and no other slot, where each leg moves its held amount
  from available to held and adds its projected inflow to incoming; so what the account owns in every
  asset, available plus held, is unchanged by a reservation. Orders whose amounts or balances need
  rounding are outside this statement.
\<close>

theorem accepted_order_reserves_its_legs:
  assumes "decimal_arith D" and "read_order_request ctx ord = Inr request"
    and "exact_order D now ctx request (pl_engine p)"
    and "active_count (eng_policy_state (pl_engine p)) (orv_account request) + 1 < USIZE_MAX"
    and "perform_pre_trade_check_impl D now ctx ord p ms = (p', ms', Inr outcome)"
  shows "\<exists>s0 s1. order_steps D now ctx request (pl_engine p) = Some (s0, s1) \<and>
    spot_balances (pl_engine p') =
      apply_step (orv_account request) s1 (apply_step (orv_account request) s0 (spot_balances (pl_engine p))) \<and>
    (\<forall>key. owned (spot_balances (pl_engine p') key) = owned (spot_balances (pl_engine p) key))"
  using check_undone [OF assms] by (auto simp: owned_apply_step)

text \<open>
  (C4) A reservation that is rolled back leaves no trace, when the balances the order finds and those
  after each of its legs are exact decimals, so that no sum is rounded, and the count of the
  account's open mutations is at least two below its machine maximum: whatever the check answered,
  rolling back the mutations it registered restores every balance of every account and the count of
  open mutations and reports no failure, and, outside drop copy, leaves the registry of blocks
  unchanged. A rejected order is rolled back by the engine in this way. Orders whose amounts or
  balances need rounding are outside this statement.
\<close>

theorem rolled_back_order_restores_balances:
  assumes "decimal_arith D" and "read_order_request ctx ord = Inr request"
    and "exact_order D now ctx request (pl_engine p)"
    and "active_count (eng_policy_state (pl_engine p)) (orv_account request) + 1 < USIZE_MAX"
    and "perform_pre_trade_check_impl D now ctx ord p (empty_mutations owner) = (p', ms, r)"
    and "rollback_all ms (pl_engine p') = (e, failure)"
  shows "spot_balances e = spot_balances (pl_engine p) \<and>
    active_count (eng_policy_state e) = active_count (eng_policy_state (pl_engine p)) \<and>
    failure = failure_default \<and> (\<not> ctx_drop_copy ctx \<longrightarrow> eng_blocked e = eng_blocked (pl_engine p))"
proof -
  obtain new q where new: "mutation_list ms = new" "undone_by new (pl_engine p') (pl_engine q)"
    "eng_policy_state (pl_engine q) = eng_policy_state (pl_engine p)" "\<not> ctx_drop_copy ctx \<longrightarrow> q = p"
    using check_undone [OF assms(1-5)] by (auto simp: empty_mutations_def)
  have "spot_view e = spot_view (pl_engine q) \<and> failure = failure_default"
    using assms(6) new(1) undone_by_run [OF new(2)] by (simp add: rollback_all_def)
  then show ?thesis using new(3,4) by (auto simp: spot_view_def)
qed

subsection \<open>The worst-case position\<close>

text \<open>
  How the decimals of the package round: a sum or difference that does not fit loses decimal places,
  so a result that is not exact has a number of places into which the exact one does not fit.
\<close>

definition decimal_places :: "nat \<Rightarrow> decimal \<Rightarrow> bool" where
  "decimal_places n x \<longleftrightarrow> x * 10 ^ n \<in> \<int>"

definition rounds_off_places :: "dec_ops \<Rightarrow> bool" where
  "rounds_off_places D \<longleftrightarrow>
     (\<forall>a b c. dec_checked_add D a b = Some c \<and> c \<noteq> a + b \<longrightarrow>
        (\<exists>n. decimal_places n c \<and> \<not> decimal_places n (a + b))) \<and>
     (\<forall>a b c. dec_checked_sub D a b = Some c \<and> c \<noteq> a - b \<longrightarrow>
        (\<exists>n. decimal_places n c \<and> \<not> decimal_places n (a - b)))"

text \<open>
  What the exact additions of the position limit rely on, with the comment of the code that each
  round trip catches the precision lost from one operand order: a sum that both differences lead
  back to is not rounded, and likewise a difference.
\<close>

definition detects_rounding :: "dec_ops \<Rightarrow> bool" where
  "detects_rounding D \<longleftrightarrow>
     (\<forall>a b c. dec_checked_add D a b = Some c \<and> dec_checked_sub D c a = Some b \<and>
        dec_checked_sub D c b = Some a \<longrightarrow> c = a + b) \<and>
     (\<forall>a b c. dec_checked_sub D a b = Some c \<and> dec_checked_add D c b = Some a \<and>
        dec_checked_sub D a c = Some b \<longrightarrow> c = a - b)"

lemma places_more: "decimal_places n x \<Longrightarrow> n \<le> m \<Longrightarrow> decimal_places m x"
proof -
  assume "decimal_places n x" "n \<le> m"
  then have "x * 10 ^ n * 10 ^ (m - n) \<in> \<int>" by (simp add: decimal_places_def)
  then show ?thesis using \<open>n \<le> m\<close> by (simp add: decimal_places_def mult.assoc flip: power_add)
qed

lemma places_order: "decimal_places n x \<Longrightarrow> \<not> decimal_places m x \<Longrightarrow> m \<le> n"
  using places_more [of n x m] by linarith

lemma places_add: "decimal_places n x \<Longrightarrow> decimal_places n y \<Longrightarrow> decimal_places n (x + y)"
  by (simp add: decimal_places_def distrib_right)

lemma places_diff: "decimal_places n x \<Longrightarrow> decimal_places n y \<Longrightarrow> decimal_places n (x - y)"
  by (simp add: decimal_places_def left_diff_distrib)

text \<open>
  Three values of which each has a number of places that the other two do not both have.
\<close>

lemma places_cycle:
  assumes "decimal_places n c" "\<not> (decimal_places n a \<and> decimal_places n b)"
    and "decimal_places m a" "\<not> (decimal_places m c \<and> decimal_places m b)"
    and "decimal_places k b" "\<not> (decimal_places k c \<and> decimal_places k a)"
  shows False
proof -
  consider "\<not> decimal_places n a" | "\<not> decimal_places n b" using assms(2) by blast
  then show False
  proof cases
    case 1
    then have c: "decimal_places m c" by (rule places_more [OF assms(1) places_order [OF assms(3)]])
    then have "\<not> decimal_places m b" using assms(4) by simp
    then have "m \<le> k" by (rule places_order [OF assms(5)])
    then show False using assms(6) places_more [OF c, of k] places_more [OF assms(3), of k] by simp
  next
    case 2
    then have c: "decimal_places k c" by (rule places_more [OF assms(1) places_order [OF assms(5)]])
    then have "\<not> decimal_places k a" using assms(6) by simp
    then have "k \<le> m" by (rule places_order [OF assms(3)])
    then show False using assms(4) places_more [OF c, of m] places_more [OF assms(5), of m] by simp
  qed
qed

lemma round_trips_detect_rounding:
  assumes "rounds_off_places D"
  shows "detects_rounding D"
proof -
  have plus: "\<exists>n. decimal_places n z \<and> \<not> (decimal_places n x \<and> decimal_places n y)"
    if "dec_checked_add D x y = Some z" "z \<noteq> x + y" for x y z
    using assms that places_add [of _ x y] unfolding rounds_off_places_def by blast
  have minus: "\<exists>n. decimal_places n z \<and> \<not> (decimal_places n x \<and> decimal_places n y)"
    if "dec_checked_sub D x y = Some z" "z \<noteq> x - y" for x y z
    using assms that places_diff [of _ x y] unfolding rounds_off_places_def by blast
  have "c = a + b" if t: "dec_checked_add D a b = Some c" "dec_checked_sub D c a = Some b"
      "dec_checked_sub D c b = Some a" for a b c
  proof (rule ccontr)
    assume ne: "c \<noteq> a + b"
    then have "a \<noteq> c - b" "b \<noteq> c - a" by auto
    then obtain n k m where "decimal_places n c" "\<not> (decimal_places n a \<and> decimal_places n b)"
      "decimal_places k b" "\<not> (decimal_places k c \<and> decimal_places k a)"
      "decimal_places m a" "\<not> (decimal_places m c \<and> decimal_places m b)"
      using plus [OF t(1) ne] minus [OF t(2)] minus [OF t(3)] by blast
    then show False using places_cycle [of n c a b m k] by blast
  qed
  moreover have "c = a - b" if t: "dec_checked_sub D a b = Some c" "dec_checked_add D c b = Some a"
      "dec_checked_sub D a c = Some b" for a b c
  proof (rule ccontr)
    assume ne: "c \<noteq> a - b"
    then have "a \<noteq> c + b" "b \<noteq> a - c" by auto
    then obtain n k m where "decimal_places n c" "\<not> (decimal_places n a \<and> decimal_places n b)"
      "decimal_places m a" "\<not> (decimal_places m c \<and> decimal_places m b)"
      "decimal_places k b" "\<not> (decimal_places k a \<and> decimal_places k c)"
      using minus [OF t(1) ne] plus [OF t(2)] minus [OF t(3)] by blast
    then show False using places_cycle [of n c a b m k] by blast
  qed
  ultimately show ?thesis by (simp add: detects_rounding_def)
qed

definition net_of :: "asset \<Rightarrow> reservation_step \<Rightarrow> position_size" where
  "net_of asset step = (if rs_asset step = asset then rs_incoming step - rs_held step else 0)"

definition within_limit :: "quantity \<Rightarrow> holdings \<Rightarrow> position_size \<Rightarrow> bool" where
  "within_limit limit h net \<longleftrightarrow>
     (0 < net \<longrightarrow> owned h + max (incoming h) 0 + net \<le> limit) \<and>
     (net < 0 \<longrightarrow> - limit \<le> owned h - max (held h) 0 + net)"

text \<open>The same bounds on the balances that the order leaves.\<close>

definition left_within_limit :: "quantity \<Rightarrow> holdings \<Rightarrow> position_size \<Rightarrow> bool" where
  "left_within_limit limit h net \<longleftrightarrow>
     (0 < net \<longrightarrow> owned h + max (incoming h) 0 \<le> limit) \<and>
     (net < 0 \<longrightarrow> - limit \<le> owned h - max (held h) 0)"

lemma ps_eq_Inr:
  "ps_add D e a b = Inr c \<longleftrightarrow> dec_checked_add D a b = Some c"
  "ps_sub D e a b = Inr c \<longleftrightarrow> dec_checked_sub D a b = Some c"
  by (auto simp: ps_add_def ps_sub_def sg_checked_add_def sg_checked_sub_def sg_new_def result_simps)

lemma exact_ops_Inr:
  assumes "detects_rounding D"
  shows "exact_add D a b = Inr c \<Longrightarrow> c = a + b \<and> dec_checked_add D a b = Some (a + b)"
    and "exact_sub D a b = Inr c \<Longrightarrow> c = a - b \<and> dec_checked_sub D a b = Some (a - b)"
  using assms
  by (auto simp: exact_add_def exact_sub_def detects_rounding_def ps_eq_Inr result_simps split: if_splits)

lemma aggregate_net_Inr:
  assumes "detects_rounding D" and "aggregate_net D a i a0 i0 = Inr net"
  shows "net = (i0 - a0) + (i - a)"
  using assms(2)
  by (auto simp: aggregate_net_def step_net_def result_simps dest!: exact_ops_Inr [OF assms(1)])

lemma verify_position_Inr:
  assumes "detects_rounding D"
    and "verify_position D asset h a i limit a0 i0 = Inr u"
  shows "within_limit limit
    (h\<lparr>available := available h + a0, held := held h - a0, incoming := incoming h - i0\<rparr>)
    ((i0 - a0) + (i - a))"
  using assms(2)
  by (auto simp: verify_position_def within_limit_def owned_def result_simps Let_def is_zero_def
      quantity_to_position_size_def sg_new_def split: if_splits
      dest!: exact_ops_Inr [OF assms(1)] aggregate_net_Inr [OF assms(1)])

lemma verify_plain:
  assumes "detects_rounding D" and "position_limit_for settings account x = Some limit"
    and "reserve_in_slot D asset a i mode (check_for settings account step None) h = Inr new"
    and "rs_asset step = x"
  shows "within_limit limit h (i - a)"
  using verify_position_Inr [OF assms(1), of asset h a i limit 0 0] assms(2-4)
  by (auto simp: reserve_in_slot_def position_limit_verify_def check_for_def result_simps)

lemma first_step_exact:
  assumes "detects_rounding D"
    and "reserve_in_slot D asset a i mode (Some FirstStepTransition) h = Inr new"
  shows "new = reserved h a i"
  using assms(2)
  by (auto simp: reserve_in_slot_def position_limit_verify_def verify_first_step_transition_def
      result_simps hold_with_mode_def try_hold_def hold_allow_negative_def reserve_incoming_def
      reserved_def ps_eq_Inr is_zero_def split: if_splits spot_funds_limit_mode.splits
      dest!: exact_ops_Inr [OF assms(1)])

text \<open>What an accepted step computed, on the balances it found.\<close>

definition step_accepted ::
  "dec_ops \<Rightarrow> account_id \<Rightarrow> spot_funds_limit_mode \<Rightarrow> limit_check option \<Rightarrow> reservation_step \<Rightarrow>
   (slot_key \<Rightarrow> holdings) \<Rightarrow> (slot_key \<Rightarrow> holdings) \<Rightarrow> bool" where
  "step_accepted D account mode limit step b b' \<longleftrightarrow>
     (if touches step
      then \<exists>new. reserve_in_slot D (rs_asset step) (rs_held step) (rs_incoming step) mode limit
             (b (account, rs_asset step)) = Inr new \<and> b' = b((account, rs_asset step) := new)
      else b' = b)"

lemma reserve_asset_accepted:
  "reserve_asset D account (rs_asset step) (rs_held step) (rs_incoming step) mode limit e ms outcome =
     (e', ms', Inr out) \<Longrightarrow>
   step_accepted D account mode limit step (spot_balances e) (spot_balances e')"
  using reserve_asset_verdict [of D account "rs_asset step" "rs_held step" "rs_incoming step" mode limit
      e ms outcome]
    reserve_asset_balances [of D account "rs_asset step" "rs_held step" "rs_incoming step" mode limit
      e ms outcome]
  by (cases "reserve_in_slot D (rs_asset step) (rs_held step) (rs_incoming step) mode limit
      (spot_balances e (account, rs_asset step))")
    (auto simp: step_accepted_def touches_def split: if_splits)

lemma live_check_accepted:
  assumes "read_order_request ctx ord = Inr request" and "\<not> ctx_drop_copy ctx"
    and "perform_pre_trade_check_impl D now ctx ord p ms = (p', ms', Inr outcome)"
  shows "\<exists>s0 s1 b l0 l1. order_steps D now ctx request (pl_engine p) = Some (s0, s1) \<and>
    position_limit_plan D (sf_settings (eng_policy_state (pl_engine p))) (orv_account request) (s0, s1) = (l0, l1) \<and>
    (let mode = limit_mode_for (sf_settings (eng_policy_state (pl_engine p))) (orv_account request)
           (group_of (eng_groups (pl_engine p)) (orv_account request))
     in step_accepted D (orv_account request) mode l0 s0 (spot_balances (pl_engine p)) b \<and>
        step_accepted D (orv_account request) mode l1 s1 b (spot_balances (pl_engine p')))"
proof -
  have "perform_pre_trade_request_impl D now ctx request p ms = (p', ms', Inr outcome)"
    using assms(1,3) by (simp add: perform_pre_trade_check_impl_def)
  then have "reserve_request D now ctx request p ms = (p', ms', Inr outcome)"
    using assms(2) check_reserves [of D now ctx request p ms p' ms' "Inr outcome"] by auto
  then obtain s0 s1 controls r' where st: "order_steps D now ctx request (pl_engine p) = Some (s0, s1)"
    and c: "controls = (limit_mode_for (sf_settings (eng_policy_state (pl_engine p))) (orv_account request)
         (group_of (eng_groups (pl_engine p)) (orv_account request)),
       position_limit_plan D (sf_settings (eng_policy_state (pl_engine p))) (orv_account request) (s0, s1))"
    and rs: "reserve_steps D (orv_account request) (s0, s1) controls (pl_engine p) ms = (pl_engine p', ms', r')"
    and ok: "is_ok r'"
    using reserve_request_cases assms(2) by (fastforce simp: reservation_controls_def)
  obtain l0 l1 where plan: "position_limit_plan D (sf_settings (eng_policy_state (pl_engine p)))
      (orv_account request) (s0, s1) = (l0, l1)" by force
  obtain out where out: "r' = Inr out" using ok by (auto simp: result_simps)
  let ?mode = "limit_mode_for (sf_settings (eng_policy_state (pl_engine p))) (orv_account request)
         (group_of (eng_groups (pl_engine p)) (orv_account request))"
  obtain e1 ms1 r1 where one: "reserve_asset D (orv_account request) (rs_asset s0) (rs_held s0)
      (rs_incoming s0) ?mode l0 (pl_engine p) ms policy_pre_trade_result_empty = (e1, ms1, r1)"
    by (metis prod_cases3)
  then obtain out1 where out1: "r1 = Inr out1" and two: "reserve_asset D (orv_account request) (rs_asset s1)
      (rs_held s1) (rs_incoming s1) ?mode l1 e1 ms1 out1 = (pl_engine p', ms', Inr out)"
    using rs c plan out by (cases r1) (auto simp: reserve_steps_def)
  show ?thesis
    using st plan reserve_asset_accepted [OF one [unfolded out1]] reserve_asset_accepted [OF two]
    by (auto simp: Let_def)
qed

lemma untouched_net: "\<not> touches step \<Longrightarrow> net_of x step = 0"
  by (simp add: touches_def net_of_def is_zero_def)

lemma accepted_other_key:
  "step_accepted D account mode limit step b b' \<Longrightarrow> rs_asset step \<noteq> x \<Longrightarrow> b' (account, x) = b (account, x)"
  by (auto simp: step_accepted_def split: if_splits)

lemma plain_step_within:
  assumes "detects_rounding D" and "position_limit_for settings account x = Some limit"
    and "step_accepted D account mode (check_for settings account step None) step b b'"
  shows "within_limit limit (b (account, x)) (net_of x step)"
proof (cases "touches step \<and> rs_asset step = x")
  case True
  then show ?thesis
    using assms(3) verify_plain [OF assms(1,2)] by (auto simp: step_accepted_def net_of_def)
qed (auto simp: touches_def is_zero_def net_of_def within_limit_def)

lemma zero_net_within: "within_limit limit h 0"
  by (simp add: within_limit_def)

lemma shared_asset_within:
  assumes "detects_rounding D" and "position_limit_for settings account x = Some limit"
    and "position_limit_plan D settings account (s0, s1) = (l0, l1)"
    and "step_accepted D account mode l0 s0 b b1" and "step_accepted D account mode l1 s1 b1 b2"
    and shared: "rs_asset s0 = x" "rs_asset s1 = x" "touches s0" "touches s1"
  shows "within_limit limit (b (account, x)) (net_of x s0 + net_of x s1)"
proof -
  let ?k = "(account, x)"
  have l1: "l1 = Some (Position limit (rs_held s0) (rs_incoming s0))"
    using assms(2,3) shared by (auto simp: position_limit_plan_def check_for_def Let_def)
  obtain new0 new1 where n: "reserve_in_slot D x (rs_held s0) (rs_incoming s0) mode l0 (b ?k) = Inr new0"
    "b1 = b(?k := new0)" "reserve_in_slot D x (rs_held s1) (rs_incoming s1) mode l1 new0 = Inr new1"
    using assms(4,5) shared by (auto simp: step_accepted_def)
  have v: "verify_position D x new0 (rs_held s1) (rs_incoming s1) limit (rs_held s0) (rs_incoming s0) = Inr ()"
    using n(3) by (auto simp: l1 reserve_in_slot_def position_limit_verify_def result_simps)
  obtain net where net: "aggregate_net D (rs_held s1) (rs_incoming s1) (rs_held s0) (rs_incoming s0) = Inr net"
    using v by (auto simp: verify_position_def result_simps)
  show ?thesis
  proof (cases "is_zero net")
    case True
    then show ?thesis
      using aggregate_net_Inr [OF assms(1) net] shared zero_net_within by (simp add: net_of_def is_zero_def)
  next
    case False
    then have "l0 = Some FirstStepTransition"
      using assms(2,3) shared net by (auto simp: position_limit_plan_def check_for_def Let_def)
    then have "new0 = reserved (b ?k) (rs_held s0) (rs_incoming s0)"
      using first_step_exact [OF assms(1)] n(1) by blast
    then show ?thesis
      using verify_position_Inr [OF assms(1) v] shared by (simp add: reserved_def net_of_def)
  qed
qed

lemma planned_steps_within:
  assumes "detects_rounding D" and "position_limit_for settings account x = Some limit"
    and "position_limit_plan D settings account (s0, s1) = (l0, l1)"
    and "step_accepted D account mode l0 s0 b b1" and "step_accepted D account mode l1 s1 b1 b2"
  shows "within_limit limit (b (account, x)) (net_of x s0 + net_of x s1)"
proof (cases "rs_asset s0 = rs_asset s1 \<and> touches s0 \<and> touches s1")
  case False
  then consider (split) "rs_asset s0 \<noteq> rs_asset s1" | (first) "\<not> touches s0" | (second) "\<not> touches s1" by blast
  then show ?thesis
  proof cases
    case split
    then have l: "l0 = check_for settings account s0 None" "l1 = check_for settings account s1 None"
      using assms(3) by (auto simp: position_limit_plan_def)
    show ?thesis
      using split plain_step_within [OF assms(1,2), of mode s0 b b1] plain_step_within [OF assms(1,2), of mode s1 b1 b2]
        assms(4,5) accepted_other_key [OF assms(4), of x] l
      by (cases "rs_asset s0 = x") (auto simp: net_of_def)
  next
    case first
    then show ?thesis
      using assms(3-5) plain_step_within [OF assms(1,2), of mode s1 b b2] zero_net_within untouched_net
      by (cases "touches s1") (auto simp: position_limit_plan_def step_accepted_def split: if_splits)
  next
    case second
    then show ?thesis
      using assms(3-5) plain_step_within [OF assms(1,2), of mode s0 b b1] zero_net_within untouched_net
      by (cases "touches s0") (auto simp: position_limit_plan_def step_accepted_def split: if_splits)
  qed
next
  case True
  then show ?thesis
    using shared_asset_within [OF assms] zero_net_within by (cases "rs_asset s1 = x") (auto simp: net_of_def)
qed

lemma order_steps_one_sided:
  assumes "order_steps D now ctx request e = Some (s0, s1)"
  shows "(rs_held s0 = 0 \<or> rs_incoming s0 = 0) \<and> (rs_held s1 = 0 \<or> rs_incoming s1 = 0)"
proof -
  obtain legs where legs: "compute_reservation_legs D now (eng_policy_state e) request
      (group_of (eng_groups e) (orv_account request)) (ctx_drop_copy ctx) = Inr legs"
    and steps: "reservation_steps legs (underlying_asset (orv_instrument request))
      (settlement_asset (orv_instrument request)) (orv_side request) = (s0, s1)"
    using assms by (auto simp: order_steps_def split: sum.splits)
  have "(rl_underlying legs = 0 \<or> rl_base_incoming legs = 0) \<and>
      (rl_settlement legs = 0 \<or> rl_settlement_incoming legs = 0)"
    using legs by (auto simp: compute_reservation_legs_def buy_reservation_legs_def
        sell_reservation_legs_def non_negative_def neg_def position_size_neg_def sg_new_def max_def result_simps
        split: side.splits if_splits)
  then show ?thesis using steps by (auto simp: reservation_steps_def Let_def split: side.splits)
qed

lemma reserved_within_limit:
  assumes "within_limit limit h (i - a)" and "a = 0 \<or> i = 0"
  shows "left_within_limit limit (reserved h a i) (i - a)"
proof (cases "a = 0")
  case True
  then show ?thesis
    using assms(1) by (simp add: within_limit_def left_within_limit_def reserved_def owned_def) linarith
next
  case False
  then show ?thesis
    using assms by (simp add: within_limit_def left_within_limit_def reserved_def owned_def) linarith
qed

lemma accepted_exact:
  assumes "decimal_arith D" and "step_accepted D account mode limit step b b'"
    and "\<And>key. exact_slot (apply_step account step b key)"
  shows "b' = apply_step account step b"
proof (cases "touches step")
  case True
  let ?k = "(account, rs_asset step)"
  have "exact_slot (reserved (b ?k) (rs_held step) (rs_incoming step))"
    using assms(3) [of ?k] by (simp add: apply_step_def)
  then show ?thesis
    using True assms(2) decimal_arith.reserve_in_slot_exact [OF assms(1)]
    by (auto simp: step_accepted_def apply_step_def)
qed (use assms(2) in \<open>simp add: step_accepted_def apply_step_idle touches_def is_zero_def\<close>)

lemma left_by_two_steps:
  assumes "within_limit limit (b (account, x)) (net_of x s0 + net_of x s1)"
    and "rs_asset s0 \<noteq> rs_asset s1"
    and "(rs_held s0 = 0 \<or> rs_incoming s0 = 0) \<and> (rs_held s1 = 0 \<or> rs_incoming s1 = 0)"
  shows "left_within_limit limit (apply_step account s1 (apply_step account s0 b) (account, x))
    (net_of x s0 + net_of x s1)"
proof -
  consider "rs_asset s0 = x" "rs_asset s1 \<noteq> x" | "rs_asset s1 = x" "rs_asset s0 \<noteq> x"
    | "rs_asset s0 \<noteq> x" "rs_asset s1 \<noteq> x" using assms(2) by blast
  then show ?thesis
    using assms(1,3) reserved_within_limit
    by cases (auto simp: net_of_def apply_step_def left_within_limit_def)
qed

text \<open>
  (C6) The position limit is applied to every accepted live order. With a limit configured for the
  account and an asset, take the net inflow of the asset over both legs of the order. If it is
  positive, the balances the order finds give owned quantity plus open positive inflows plus the net
  at or below the limit; if it is negative, owned quantity minus open positive holds plus the net is
  at or above minus the limit; a net of zero is not limited. When the two legs have different assets
  and the balances before and after each leg are exact decimals, the same holds of the balances the
  order leaves: owned quantity plus open positive inflows at or below the limit after a net inflow,
  owned quantity minus open positive holds at or above minus the limit after a net outflow. (When
  both legs share the asset only their net is limited, not the gross inflow.) The decimals are
  assumed to round by dropping decimal places; the round trips of the code then catch every rounding
  of its sums.
\<close>

theorem position_limit_holds:
  assumes "rounds_off_places D" and "read_order_request ctx ord = Inr request"
    and "\<not> ctx_drop_copy ctx"
    and "perform_pre_trade_check_impl D now ctx ord p ms = (p', ms', Inr outcome)"
    and "position_limit_for (sf_settings (eng_policy_state (pl_engine p))) (orv_account request) asset = Some limit"
  shows "\<exists>s0 s1. order_steps D now ctx request (pl_engine p) = Some (s0, s1) \<and>
    within_limit limit (spot_balances (pl_engine p) (orv_account request, asset))
      (net_of asset s0 + net_of asset s1) \<and>
    (decimal_arith D \<and> exact_order D now ctx request (pl_engine p) \<and> rs_asset s0 \<noteq> rs_asset s1 \<longrightarrow>
      left_within_limit limit (spot_balances (pl_engine p') (orv_account request, asset))
        (net_of asset s0 + net_of asset s1))"
proof -
  let ?account = "orv_account request"
  let ?b = "spot_balances (pl_engine p)"
  obtain s0 s1 b l0 l1 mode where st: "order_steps D now ctx request (pl_engine p) = Some (s0, s1)"
    and plan: "position_limit_plan D (sf_settings (eng_policy_state (pl_engine p))) ?account (s0, s1) = (l0, l1)"
    and one: "step_accepted D ?account mode l0 s0 ?b b"
    and two: "step_accepted D ?account mode l1 s1 b (spot_balances (pl_engine p'))"
    using live_check_accepted [OF assms(2-4)] by (auto simp: Let_def)
  have found: "within_limit limit (?b (?account, asset)) (net_of asset s0 + net_of asset s1)"
    by (rule planned_steps_within [OF round_trips_detect_rounding [OF assms(1)] assms(5) plan one two])
  have "left_within_limit limit (spot_balances (pl_engine p') (?account, asset))
      (net_of asset s0 + net_of asset s1)"
    if d: "decimal_arith D" and e: "exact_order D now ctx request (pl_engine p)" and "rs_asset s0 \<noteq> rs_asset s1"
  proof -
    have ex: "\<And>key. exact_slot (apply_step ?account s0 ?b key)"
      "\<And>key. exact_slot (apply_step ?account s1 (apply_step ?account s0 ?b) key)"
      using e st by (simp_all add: exact_order_def del: split_paired_All)
    have b: "b = apply_step ?account s0 ?b" using accepted_exact [OF d one ex(1)] .
    show ?thesis
      using accepted_exact [OF d two ex(2) [folded b]]
        left_by_two_steps [where b = ?b, OF found that(3) order_steps_one_sided [OF st]] by (simp add: b)
  qed
  then show ?thesis using st found by blast
qed

subsection \<open>No overdraft\<close>





context decimal_arith
begin

lemma enforced_step_covered:
  assumes "reserve_in_slot D asset a i Enforce limit h = Inr new" and "0 \<le> a"
    and "representable (owned h)" and "exact_slot (reserved h a i)"
  shows "a \<le> max 0 (spendable h)" and "0 \<le> spendable h \<Longrightarrow> 0 \<le> spendable new"
proof -
  have new: "new = reserved h a i" using reserve_in_slot_exact assms(1,4) by blast
  have cover: "a = 0 \<or> a \<le> spendable h"
    using assms(1,3,4) try_hold_exact [of h a]
    by (auto simp: reserve_in_slot_def hold_with_mode_def result_simps is_zero_def exact_slot_def
        reserved_def split: if_splits)
  then show "a \<le> max 0 (spendable h)" by auto
  show "0 \<le> spendable h \<Longrightarrow> 0 \<le> spendable new"
    using cover assms(2) by (auto simp: new reserved_def spendable_def min_def split: if_splits)
qed

end



section \<open>Witnesses\<close>

lemmas spot_sample_defs = spot_sample_settings_def spot_sample_def spot_sample_pipeline_def
  spot_sample_ctx_def spot_sample_order_def spot_sample_request_def spot_funds_new_def
  barrier_set_default_def

lemma sample_read: "read_order_request spot_sample_ctx spot_sample_order = Inr spot_sample_request"
  by (simp add: read_order_request_def spot_sample_defs)

lemma sample_steps:
  "order_steps exact96_ops 0 spot_sample_ctx spot_sample_request (pl_engine spot_sample_pipeline) =
     Some (\<lparr>rs_asset = ''USD'', rs_held = 50, rs_incoming = 0\<rparr>,
           \<lparr>rs_asset = ''AAPL'', rs_held = 0, rs_incoming = 5\<rparr>)"
  by (simp add: order_steps_def compute_reservation_legs_def buy_reservation_legs_def spot_sample_defs
      reservation_steps_def price_calculate_position_size_def quantity_to_position_size_def
      non_negative_def sg_new_def in_range_def)

lemma sample_gate:
  "reject_halted_account_pnl D now (pl_engine spot_sample_pipeline) account g = Inr ()"
  by (simp add: reject_halted_account_pnl_def spot_sample_defs has_pnl_barrier_scope_def has_scope_def
      barriers_reference_account_def pnl_axes_ALL_def Let_def split: option.split)

lemma sample_access [simp]:
  "\<not> ctx_drop_copy spot_sample_ctx" "orv_account spot_sample_request = 7"
  "orv_trade_amount spot_sample_request = TA_Quantity 5"
  by (simp_all add: spot_sample_defs)

lemma sample_balances:
  "spot_balances (pl_engine spot_sample_pipeline) key =
     (if key = (7, ''USD'') then holdings_new 1000 0 else holdings_zero)"
  by (simp add: balance_of_def store_get_inner spot_sample_defs)

lemma sample_usd:
  "reserve_in_slot exact96_ops ''USD'' 50 0 Enforce None (holdings_new 1000 0) =
     Inr (holdings_new 950 50)"
  by (simp add: reserve_in_slot_def hold_with_mode_def try_hold_def ps_sub_def ps_add_def holdings_new_def
      sg_checked_sub_def sg_checked_add_def in_range_def is_zero_def reserve_incoming_def
      position_limit_verify_def)

lemma sample_aapl:
  "is_ok (reserve_in_slot exact96_ops ''AAPL'' 0 5 Enforce (Some (Position 100 0 0)) holdings_zero)"
  by (simp add: reserve_in_slot_def ps_sub_def ps_add_def holdings_zero_def
      sg_checked_sub_def sg_checked_add_def in_range_def is_zero_def reserve_incoming_def
      position_limit_verify_def verify_position_def aggregate_net_def step_net_def exact_add_def
      exact_sub_def quantity_to_position_size_def sg_new_def Let_def)

lemma sample_accepted:
  "is_ok (snd (snd (perform_pre_trade_check_impl exact96_ops 0 spot_sample_ctx spot_sample_order
     spot_sample_pipeline ms)))"
proof -
  let ?e = "pl_engine spot_sample_pipeline"
  obtain legs where legs: "compute_reservation_legs exact96_ops 0 (eng_policy_state ?e) spot_sample_request
      (group_of (eng_groups ?e) (orv_account spot_sample_request)) (ctx_drop_copy spot_sample_ctx) = Inr legs"
    and steps: "reservation_steps legs (underlying_asset (orv_instrument spot_sample_request))
        (settlement_asset (orv_instrument spot_sample_request)) (orv_side spot_sample_request) =
      (\<lparr>rs_asset = ''USD'', rs_held = 50, rs_incoming = 0\<rparr>, \<lparr>rs_asset = ''AAPL'', rs_held = 0, rs_incoming = 5\<rparr>)"
    using sample_steps by (auto simp: order_steps_def split: sum.splits)
  have controls: "reservation_controls exact96_ops (sf_settings (eng_policy_state ?e))
      (orv_account spot_sample_request) (group_of (eng_groups ?e) (orv_account spot_sample_request))
      (ctx_drop_copy spot_sample_ctx)
      (\<lparr>rs_asset = ''USD'', rs_held = 50, rs_incoming = 0\<rparr>, \<lparr>rs_asset = ''AAPL'', rs_held = 0, rs_incoming = 5\<rparr>) =
    (Enforce, None, Some (Position 100 0 0))"
    by (simp add: reservation_controls_def limit_mode_for_def position_limit_plan_def check_for_def
        position_limit_for_def spot_sample_defs group_of_def storage_with_def)
  show ?thesis
    using reserve_request_dry_run [OF steps controls legs, where ms = ms] sample_aapl
    by (auto simp: perform_pre_trade_check_impl_def sample_read perform_pre_trade_request_impl_def Let_def
        sample_gate reserve_asset_dry_run_eq sample_balances sample_usd is_zero_def map_res_comp
        result_simps)
qed

theorem spot_dry_run_predicts_witness:
  "is_ok (perform_pre_trade_check_dry_run_impl exact96_ops 0 spot_sample_ctx spot_sample_order
     spot_sample_pipeline)"
  using spot_dry_run_predicts [of spot_sample_ctx exact96_ops 0 spot_sample_order spot_sample_pipeline
      "empty_mutations 1"] sample_accepted [of "empty_mutations 1"]
  by simp

lemma sample_exact:
  "exact_order exact96_ops 0 spot_sample_ctx spot_sample_request (pl_engine spot_sample_pipeline)"
  by (simp add: exact_order_def sample_steps exact_slot_def apply_step_def reserved_def sample_balances
      holdings_new_def holdings_zero_def)

lemma sample_active: "active_count (eng_policy_state (pl_engine spot_sample_pipeline)) account + 1 < USIZE_MAX"
  by (simp add: active_count_def spot_sample_defs USIZE_MAX_def)

lemma exact96_rounds: "rounds_off_places exact96_ops"
  by (auto simp: rounds_off_places_def in_range_def split: if_splits)

lemma sample_run:
  obtains p' ms' outcome where "perform_pre_trade_check_impl exact96_ops 0 spot_sample_ctx spot_sample_order
     spot_sample_pipeline (empty_mutations 1) = (p', ms', Inr outcome)"
  using sample_accepted [of "empty_mutations 1"]
  by (metis prod.collapse is_ok_iff)

theorem accepted_order_reserves_its_legs_witness:
  "\<exists>p' ms' outcome. perform_pre_trade_check_impl exact96_ops 0 spot_sample_ctx spot_sample_order
       spot_sample_pipeline (empty_mutations 1) = (p', ms', Inr outcome) \<and>
     available (spot_balances (pl_engine p') (7, ''USD'')) = 950 \<and>
     held (spot_balances (pl_engine p') (7, ''USD'')) = 50 \<and>
     incoming (spot_balances (pl_engine p') (7, ''AAPL'')) = 5"
proof -
  obtain p' ms' outcome where run: "perform_pre_trade_check_impl exact96_ops 0 spot_sample_ctx
      spot_sample_order spot_sample_pipeline (empty_mutations 1) = (p', ms', Inr outcome)"
    by (rule sample_run)
  show ?thesis
    using accepted_order_reserves_its_legs [OF exact96.decimal_arith_axioms sample_read sample_exact
        sample_active run] run
    by (auto simp: sample_steps apply_step_def reserved_def sample_balances holdings_new_def
        holdings_zero_def)
qed

theorem rolled_back_order_restores_balances_witness:
  "\<exists>p' ms outcome e. perform_pre_trade_check_impl exact96_ops 0 spot_sample_ctx spot_sample_order
       spot_sample_pipeline (empty_mutations 1) = (p', ms, Inr outcome) \<and>
     rollback_all ms (pl_engine p') = (e, failure_default) \<and>
     available (spot_balances e (7, ''USD'')) = 1000"
proof -
  obtain p' ms outcome where run: "perform_pre_trade_check_impl exact96_ops 0 spot_sample_ctx
      spot_sample_order spot_sample_pipeline (empty_mutations 1) = (p', ms, Inr outcome)"
    by (rule sample_run)
  obtain e failure where roll: "rollback_all ms (pl_engine p') = (e, failure)" by force
  show ?thesis
    using rolled_back_order_restores_balances [OF exact96.decimal_arith_axioms sample_read sample_exact
        sample_active run roll] run roll
    by (simp add: sample_balances holdings_new_def)
qed

theorem position_limit_holds_witness:
  "\<exists>p' ms' outcome. perform_pre_trade_check_impl exact96_ops 0 spot_sample_ctx spot_sample_order
       spot_sample_pipeline (empty_mutations 1) = (p', ms', Inr outcome) \<and>
     within_limit 100 (spot_balances (pl_engine spot_sample_pipeline) (7, ''AAPL'')) 5 \<and>
     left_within_limit 100 (spot_balances (pl_engine p') (7, ''AAPL'')) 5"
proof -
  obtain p' ms' outcome where run: "perform_pre_trade_check_impl exact96_ops 0 spot_sample_ctx
      spot_sample_order spot_sample_pipeline (empty_mutations 1) = (p', ms', Inr outcome)"
    by (rule sample_run)
  have "position_limit_for (sf_settings (eng_policy_state (pl_engine spot_sample_pipeline)))
      (orv_account spot_sample_request) ''AAPL'' = Some 100"
    by (simp add: position_limit_for_def spot_sample_defs)
  from position_limit_holds [OF exact96_rounds sample_read sample_access(1) run this]
  show ?thesis
    using run exact96.decimal_arith_axioms sample_exact by (auto simp: sample_steps net_of_def)
qed


end
