(* ===== verification/Spot_Execution.thy ===== *)
theory Spot_Execution
  imports Spot_Pre_Trade
begin

text \<open>
  The post-trade side of the spot funds policy (\<open>execution.rs\<close> and \<open>views.rs\<close>):
  fills, fees and cancellations reported by the venue, the position P\&L and the account P\&L they
  realize, the blocks they cause and the outcome entries they report.

  Processing is not atomic: when a later part fails, what was done before stays. The operations are
  functions on the policy state and the accumulated deltas that return a value or the block that ends
  them, composed by \<open>fill_bind\<close>.
\<close>

section \<open>Views\<close>

datatype leg_kind = Underlying | Settlement

record monetary_amount =
  mon_amount :: fee
  mon_currency :: asset

record spot_report =
  rep_account_id :: "request_field_access_error + account_id"
  rep_instrument :: "request_field_access_error + instrument"
  rep_side :: "request_field_access_error + side"
  rep_last_trade :: "request_field_access_error + trade option"
  rep_fill_fee :: "request_field_access_error + monetary_amount option"
  rep_remaining :: "request_field_access_error + quantity"
  rep_is_final :: "request_field_access_error + bool"
  rep_lock :: "request_field_access_error + pre_trade_lock"

record execution_request_view =
  erv_instrument :: instrument
  erv_account :: account_id
  erv_side :: side
  erv_last_trade :: "trade option"
  erv_fee :: "monetary_amount option"
  erv_remaining :: quantity
  erv_is_final :: bool
  erv_lock :: pre_trade_lock

record leg_delta =
  ld_held :: position_size
  ld_balance :: position_size
  ld_incoming :: position_size
  ld_pnl_outcome :: "pnl_outcome option"
  ld_average_entry_price :: "price option"
  ld_final_holdings :: "holdings option"

definition leg_delta_new :: leg_delta where
  "leg_delta_new = \<lparr>ld_held = 0, ld_balance = 0, ld_incoming = 0, ld_pnl_outcome = None,
     ld_average_entry_price = None, ld_final_holdings = None\<rparr>"

record fill_cancel_deltas =
  fcd_underlying :: leg_delta
  fcd_settlement :: leg_delta
  fcd_fee :: "(asset \<times> leg_delta) option"

definition deltas_new :: fill_cancel_deltas where
  "deltas_new = \<lparr>fcd_underlying = leg_delta_new, fcd_settlement = leg_delta_new, fcd_fee = None\<rparr>"

definition leg_of :: "leg_kind \<Rightarrow> fill_cancel_deltas \<Rightarrow> leg_delta" where
  "leg_of kind d = (case kind of Underlying \<Rightarrow> fcd_underlying d | Settlement \<Rightarrow> fcd_settlement d)"

definition leg_put :: "leg_kind \<Rightarrow> leg_delta \<Rightarrow> fill_cancel_deltas \<Rightarrow> fill_cancel_deltas" where
  "leg_put kind leg d =
     (case kind of Underlying \<Rightarrow> d\<lparr>fcd_underlying := leg\<rparr> | Settlement \<Rightarrow> d\<lparr>fcd_settlement := leg\<rparr>)"

definition fee_leg_of :: "asset \<Rightarrow> asset \<Rightarrow> asset \<Rightarrow> fill_cancel_deltas \<Rightarrow> leg_delta" where
  "fee_leg_of fee_currency underlying settlement d =
     (if fee_currency = underlying then fcd_underlying d
      else if fee_currency = settlement then fcd_settlement d
      else case fcd_fee d of Some (_, leg) \<Rightarrow> leg | None \<Rightarrow> leg_delta_new)"

definition fee_leg_put ::
  "asset \<Rightarrow> asset \<Rightarrow> asset \<Rightarrow> leg_delta \<Rightarrow> fill_cancel_deltas \<Rightarrow> fill_cancel_deltas" where
  "fee_leg_put fee_currency underlying settlement leg d =
     (if fee_currency = underlying then d\<lparr>fcd_underlying := leg\<rparr>
      else if fee_currency = settlement then d\<lparr>fcd_settlement := leg\<rparr>
      else d\<lparr>fcd_fee := Some (case fcd_fee d of Some (asset, _) \<Rightarrow> asset | None \<Rightarrow> fee_currency, leg)\<rparr>)"

section \<open>Operations that can end with a block\<close>

type_synonym fill_state = "spot_funds \<times> fill_cancel_deltas"

type_synonym 'a fill_op = "fill_state \<Rightarrow> fill_state \<times> (account_block + 'a)"

definition fill_return :: "'a \<Rightarrow> 'a fill_op" where
  "fill_return x st = (st, Inr x)"

definition fill_of :: "account_block + 'a \<Rightarrow> 'a fill_op" where
  "fill_of r st = (st, r)"

definition fill_bind :: "'a fill_op \<Rightarrow> ('a \<Rightarrow> 'b fill_op) \<Rightarrow> 'b fill_op" where
  "fill_bind m f st = (case m st of (st', Inl b) \<Rightarrow> (st', Inl b) | (st', Inr x) \<Rightarrow> f x st')"

definition overflow_block :: "text_pieces \<Rightarrow> account_block" where
  "overflow_block details = arithmetic_overflow_account_block SPOT_FUNDS_POLICY_NAME details"

text \<open>One checked addition to a field of a leg; the field is only written when it succeeds.\<close>

definition leg_add ::
  "(fill_cancel_deltas \<Rightarrow> leg_delta) \<Rightarrow> (leg_delta \<Rightarrow> fill_cancel_deltas \<Rightarrow> fill_cancel_deltas) \<Rightarrow>
   (leg_delta \<Rightarrow> adjustment_overflow_error + leg_delta) \<Rightarrow> text_pieces \<Rightarrow> unit fill_op" where
  "leg_add get put change details st =
     (case change (get (snd st)) of
        Inr leg \<Rightarrow> ((fst st, put leg (snd st)), Inr ())
      | Inl _ \<Rightarrow> (st, Inl (overflow_block details)))"

definition balance_plus :: "dec_ops \<Rightarrow> position_size \<Rightarrow> leg_delta \<Rightarrow> adjustment_overflow_error + leg_delta" where
  "balance_plus D amount leg =
     map_res (\<lambda>v. leg\<lparr>ld_balance := v\<rparr>) (ps_add D AdjustmentArithmeticOverflow (ld_balance leg) amount)"

definition held_minus :: "dec_ops \<Rightarrow> position_size \<Rightarrow> leg_delta \<Rightarrow> adjustment_overflow_error + leg_delta" where
  "held_minus D amount leg =
     map_res (\<lambda>v. leg\<lparr>ld_held := v\<rparr>) (ps_sub D AdjustmentArithmeticOverflow (ld_held leg) amount)"

definition incoming_minus :: "dec_ops \<Rightarrow> position_size \<Rightarrow> leg_delta \<Rightarrow> adjustment_overflow_error + leg_delta" where
  "incoming_minus D amount leg =
     map_res (\<lambda>v. leg\<lparr>ld_incoming := v\<rparr>) (ps_sub D AdjustmentArithmeticOverflow (ld_incoming leg) amount)"

definition final_holdings_put :: "leg_kind \<Rightarrow> holdings \<Rightarrow> unit fill_op" where
  "final_holdings_put kind h st =
     ((fst st, leg_put kind ((leg_of kind (snd st))\<lparr>ld_final_holdings := Some h\<rparr>) (snd st)), Inr ())"

text \<open>The mutation of one slot as an operation: an overflow ends it with the block.\<close>

definition slot_op ::
  "slot_key \<Rightarrow> (holdings \<Rightarrow> adjustment_overflow_error + holdings) \<Rightarrow> text_pieces \<Rightarrow> holdings fill_op" where
  "slot_op key mutation details st =
     (case mutate_slot (sf_holdings (fst st)) key mutation of
        (store, r) \<Rightarrow>
          (((fst st)\<lparr>sf_holdings := store\<rparr>, snd st), map_err (\<lambda>_. overflow_block details) r))"

section \<open>Prices in the account currency\<close>

definition trade_price_with_factor :: "dec_ops \<Rightarrow> price \<Rightarrow> decimal \<Rightarrow> pnl_halt_reason + price" where
  "trade_price_with_factor D p factor = ok_or (dec_checked_mul D p factor) PnlArithmeticOverflow"

definition account_currency_price ::
  "dec_ops \<Rightarrow> instant \<Rightarrow> spot_funds \<Rightarrow> account_id \<Rightarrow> account_group_id option \<Rightarrow> asset \<Rightarrow> asset \<Rightarrow> price \<Rightarrow>
   pnl_halt_reason + price option" where
  "account_currency_price D now self account g quote_asset account_currency p =
     (case account_currency_factor D now self account g quote_asset account_currency of
        None \<Rightarrow> Inr None
      | Some factor \<Rightarrow> map_res Some (trade_price_with_factor D p factor))"

definition fee_pnl_delta ::
  "dec_ops \<Rightarrow> instant \<Rightarrow> spot_funds \<Rightarrow> account_id \<Rightarrow> account_group_id option \<Rightarrow> monetary_amount \<Rightarrow> asset \<Rightarrow>
   pnl_halt_reason + pnl option" where
  "fee_pnl_delta D now self account g f account_currency =
     (case account_currency_factor D now self account g (mon_currency f) account_currency of
        None \<Rightarrow> Inr None
      | Some factor \<Rightarrow>
          bind_res (ok_or (dec_checked_mul D (fee_to_pnl (mon_amount f)) factor) PnlArithmeticOverflow)
            (\<lambda>v. Inr (Some (sg_new v))))"

definition fee_account_pnl_delta ::
  "dec_ops \<Rightarrow> instant \<Rightarrow> spot_funds \<Rightarrow> account_id \<Rightarrow> account_group_id option \<Rightarrow> monetary_amount \<Rightarrow> asset \<Rightarrow>
   pnl_halt_reason + pnl" where
  "fee_account_pnl_delta D now self account g f account_currency =
     (if is_zero (mon_amount f) then Inr 0
      else bind_res (fee_pnl_delta D now self account g f account_currency) (\<lambda>d.
             ok_or d MissingFx))"

section \<open>The position P\&L of a report\<close>

definition record_position_pnl_operation ::
  "dec_ops \<Rightarrow> fill_cancel_deltas \<Rightarrow> position_pnl_operation \<Rightarrow> fill_cancel_deltas \<times> bool" where
  "record_position_pnl_operation D d op =
     (let leg = fcd_underlying d;
          (outcome, overflowed) =
            (case (ld_pnl_outcome leg, op_outcome op) of
               (current, None) \<Rightarrow> (current, False)
             | (_, Some (Inl reason)) \<Rightarrow> (Some (Inl reason), False)
             | (None, Some (Inr amount)) \<Rightarrow> (Some (Inr amount), False)
             | (Some (Inr current), Some (Inr next)) \<Rightarrow>
                 (case sg_checked_add D PK_Pnl (poa_delta current) (poa_delta next) of
                    Inr delta \<Rightarrow> (Some (Inr \<lparr>poa_delta = delta, poa_absolute = poa_absolute next\<rparr>), False)
                  | Inl _ \<Rightarrow> (Some (Inl PnlArithmeticOverflow), True))
             | (Some (Inl reason), Some (Inr _)) \<Rightarrow> (Some (Inl reason), False));
          leg = leg\<lparr>ld_pnl_outcome := outcome,
                    ld_average_entry_price :=
                      (case op_average_entry_price op of
                         Some p \<Rightarrow> Some p | None \<Rightarrow> ld_average_entry_price leg)\<rparr>
      in (d\<lparr>fcd_underlying := leg\<rparr>, overflowed))"

definition halt_position_pnl ::
  "dec_ops \<Rightarrow> account_id \<Rightarrow> asset \<Rightarrow> pnl_halt_reason \<Rightarrow> fill_state \<Rightarrow> fill_state" where
  "halt_position_pnl D account underlying reason st =
     (case store_with_mut (sf_holdings (fst st)) (account, underlying) holdings_zero
             (\<lambda>slot _. let op = halt_realized_pnl_preserving_average slot reason
                       in (op_holdings op, (op_holdings op, op))) of
        (store, h, op) \<Rightarrow>
          (let d = fst (record_position_pnl_operation D (snd st) op);
               d = (if op_outcome op \<noteq> None
                    then d\<lparr>fcd_underlying := (fcd_underlying d)\<lparr>ld_final_holdings := Some h\<rparr>\<rparr> else d)
           in ((fst st)\<lparr>sf_holdings := store\<rparr>, d)))"

definition fold_fee_into_realized_pnl ::
  "dec_ops \<Rightarrow> account_id \<Rightarrow> asset \<Rightarrow> pnl option \<Rightarrow> fill_state \<Rightarrow> fill_state" where
  "fold_fee_into_realized_pnl D account underlying fee_contribution st =
     (case fee_contribution of
        None \<Rightarrow> st
      | Some fee_delta \<Rightarrow>
          (case store_with_mut (sf_holdings (fst st)) (account, underlying) holdings_zero
                  (\<lambda>slot _. let op = add_realized_pnl_contribution D slot fee_delta
                            in (op_holdings op, (op_holdings op, op))) of
             (store, h, op) \<Rightarrow>
               (case record_position_pnl_operation D (snd st) op of
                  (d, overflowed) \<Rightarrow>
                    (let st = ((fst st)\<lparr>sf_holdings := store\<rparr>, d)
                     in if overflowed then halt_position_pnl D account underlying PnlArithmeticOverflow st
                        else if op_outcome op \<noteq> None
                        then (fst st, d\<lparr>fcd_underlying := (fcd_underlying d)\<lparr>ld_final_holdings := Some h\<rparr>\<rparr>)
                        else st))))"

definition apply_fee_debit ::
  "dec_ops \<Rightarrow> account_id \<Rightarrow> asset \<Rightarrow> asset \<Rightarrow> monetary_amount \<Rightarrow> unit fill_op" where
  "apply_fee_debit D account underlying settlement f =
     (let amount = fee_to_position_size (mon_amount f); currency = mon_currency f in
      if is_zero amount then fill_return ()
      else
        fill_bind (slot_op (account, currency) (\<lambda>h. apply_fill_inflow D h amount)
          [Lit ''fee debit overflow: currency '', Lit currency, Lit '', fee '', Num (mon_amount f)]) (\<lambda>new_h.
        fill_bind (leg_add (fee_leg_of currency underlying settlement)
            (fee_leg_put currency underlying settlement) (balance_plus D amount)
          [Lit ''fee balance delta overflow: currency '', Lit currency, Lit '', fee '', Num (mon_amount f)]) (\<lambda>_.
        leg_add (fee_leg_of currency underlying settlement) (fee_leg_put currency underlying settlement)
          (\<lambda>leg. Inr (leg\<lparr>ld_final_holdings := Some new_h\<rparr>)) [])))"

section \<open>The account P\&L\<close>

definition update_account_pnl ::
  "dec_ops \<Rightarrow> spot_funds \<Rightarrow> account_id \<Rightarrow> pnl \<Rightarrow>
   spot_funds \<times> pnl_outcome option \<times> pnl_state \<times> u64 option" where
  "update_account_pnl D self account delta =
     (case with_mut (sf_pnl self) account account_pnl_entry_zero
             (\<lambda>entry _. case ape_state entry of
                PnlState_Halted reason \<Rightarrow>
                  (entry, Some (None, PnlState_Halted reason, ape_assertion_token entry))
              | PnlState_Value previous \<Rightarrow>
                  (case sg_checked_add D PK_Pnl previous delta of
                     Inr updated \<Rightarrow>
                       (entry\<lparr>ape_state := PnlState_Value updated\<rparr>,
                        Some (Some (Inr \<lparr>poa_delta = delta, poa_absolute = updated\<rparr>),
                              PnlState_Value updated, ape_assertion_token entry))
                   | Inl _ \<Rightarrow> (entry, None))) of
        (pnl, Some result) \<Rightarrow> (self\<lparr>sf_pnl := pnl\<rparr>, result)
      | (pnl, None) \<Rightarrow>
          with_pnl_leased (self\<lparr>sf_pnl := pnl\<rparr>) account
            (\<lambda>entry _. case ape_state entry of
               PnlState_Value previous \<Rightarrow>
                 (case sg_checked_add D PK_Pnl previous delta of
                    Inr updated \<Rightarrow>
                      (entry\<lparr>ape_state := PnlState_Value updated\<rparr>,
                       (Some (Inr \<lparr>poa_delta = delta, poa_absolute = updated\<rparr>),
                        PnlState_Value updated, None))
                  | Inl _ \<Rightarrow>
                      (\<lparr>ape_state = PnlState_Halted PnlArithmeticOverflow, ape_assertion_token = None\<rparr>,
                       (Some (Inl PnlArithmeticOverflow), PnlState_Halted PnlArithmeticOverflow, None)))
             | PnlState_Halted reason \<Rightarrow> (entry, (None, PnlState_Halted reason, None))))"

definition halt_account_pnl ::
  "spot_funds \<Rightarrow> account_id \<Rightarrow> pnl_halt_reason \<Rightarrow> spot_funds \<times> pnl_halt_reason \<times> bool" where
  "halt_account_pnl self account reason =
     with_pnl_leased self account
       (\<lambda>entry _. case ape_state entry of
          PnlState_Value _ \<Rightarrow>
            (\<lparr>ape_state = PnlState_Halted reason, ape_assertion_token = None\<rparr>, (reason, True))
        | PnlState_Halted existing \<Rightarrow> (entry, (existing, False)))"

definition apply_account_pnl_delta ::
  "dec_ops \<Rightarrow> spot_funds \<Rightarrow> account_id \<Rightarrow> asset option \<Rightarrow> spot_pnl_barrier option \<Rightarrow> pnl \<Rightarrow>
   spot_funds \<times> pnl_outcome option \<times> account_block option" where
  "apply_account_pnl_delta D self account account_currency barrier delta =
     (case update_account_pnl D self account delta of
        (self, result, state, provenance) \<Rightarrow>
          (self, result,
           Option.bind barrier (\<lambda>b. account_pnl_block_for_state account_currency state b provenance)))"

record account_pnl_application =
  apa_account_pnl :: "account_pnl_outcome option"
  apa_account_block :: "account_block option"

definition account_outcome :: "spot_funds \<Rightarrow> account_id \<Rightarrow> pnl_outcome \<Rightarrow> account_pnl_outcome" where
  "account_outcome self account result =
     \<lparr>apo_result = result, apo_account_id = account, apo_policy_group_id = sf_group_id self\<rparr>"

text \<open>The halt of the account P\&L that a report has before it is applied, with its provenance.\<close>

definition account_halt_before :: "spot_funds \<Rightarrow> account_id \<Rightarrow> pnl_halt_reason option \<times> u64 option" where
  "account_halt_before self account =
     (case storage_with (sf_pnl self) account (\<lambda>entry. (ape_state entry, ape_assertion_token entry)) of
        Some (PnlState_Halted reason, provenance) \<Rightarrow> (Some reason, provenance)
      | Some (PnlState_Value _, _) \<Rightarrow> (None, None)
      | None \<Rightarrow> (None, None))"

definition stored_halt_block ::
  "asset option \<Rightarrow> spot_pnl_barrier option \<Rightarrow> pnl_halt_reason option \<times> u64 option \<Rightarrow> account_block option" where
  "stored_halt_block account_currency barrier before =
     Option.bind (fst before) (\<lambda>reason.
     Option.bind barrier (\<lambda>b.
       account_pnl_block_for_state account_currency (PnlState_Halted reason) b (snd before)))"

definition halt_and_report ::
  "account_id \<Rightarrow> asset option \<Rightarrow> spot_pnl_barrier option \<Rightarrow> pnl_halt_reason \<Rightarrow> spot_funds \<Rightarrow>
   spot_funds \<times> account_pnl_outcome option \<times> account_block option" where
  "halt_and_report account account_currency barrier reason self =
     (case halt_account_pnl self account reason of
        (self, reason, transitioned) \<Rightarrow>
          (self, if transitioned then Some (account_outcome self account (Inl reason)) else None,
           Option.bind barrier (\<lambda>b.
             account_pnl_block_for_state account_currency (PnlState_Halted reason) b None)))"

definition accrue_and_report ::
  "dec_ops \<Rightarrow> account_id \<Rightarrow> asset option \<Rightarrow> spot_pnl_barrier option \<Rightarrow> pnl \<Rightarrow> spot_funds \<Rightarrow>
   spot_funds \<times> account_pnl_outcome option \<times> account_block option" where
  "accrue_and_report D account account_currency barrier delta self =
     (case apply_account_pnl_delta D self account account_currency barrier delta of
        (self, result, block) \<Rightarrow> (self, map_option (account_outcome self account) result, block))"

text \<open>A halt found while a report is evaluated: the first reason counts unless a halt was there before.\<close>

definition note_halt ::
  "bool \<Rightarrow> pnl_halt_reason \<Rightarrow> pnl_halt_reason option \<Rightarrow> pnl_halt_reason option" where
  "note_halt was_halted reason current =
     (if was_halted then current else select_pnl_halt_reason current reason)"

section \<open>A fee without a trade\<close>

text \<open>The P\&L of a fee, and the halts of the position and of the account it causes when it has none.\<close>

definition evaluate_execution_fee ::
  "dec_ops \<Rightarrow> instant \<Rightarrow> spot_funds \<Rightarrow> account_id \<Rightarrow> account_group_id option \<Rightarrow> monetary_amount \<Rightarrow> asset option \<Rightarrow>
   pnl_halt_reason + pnl" where
  "evaluate_execution_fee D now self account g f account_currency =
     (case account_currency of
        Some currency \<Rightarrow> fee_account_pnl_delta D now self account g f currency
      | None \<Rightarrow> Inl MissingAccountCurrency)"

definition no_application :: account_pnl_application where
  "no_application = \<lparr>apa_account_pnl = None, apa_account_block = None\<rparr>"

text \<open>The first block of the three: the static mismatch, the stored halt, what this report caused.\<close>

definition application_of ::
  "account_block option \<Rightarrow> account_block option \<Rightarrow> account_pnl_outcome option \<times> account_block option \<Rightarrow>
   account_pnl_application" where
  "application_of mismatch stored reported =
     \<lparr>apa_account_pnl = fst reported, apa_account_block = or_else mismatch (or_else stored (snd reported))\<rparr>"

definition report_fee_pnl ::
  "dec_ops \<Rightarrow> account_id \<Rightarrow> asset option \<Rightarrow> spot_pnl_barrier option \<Rightarrow> bool \<Rightarrow> pnl_halt_reason option \<Rightarrow>
   pnl_halt_reason + pnl \<Rightarrow> spot_funds \<Rightarrow> spot_funds \<times> account_pnl_outcome option \<times> account_block option" where
  "report_fee_pnl D account account_currency barrier not_halted reason fee_delta self =
     (case (reason, fee_delta) of
        (None, Inr delta) \<Rightarrow>
          if not_halted then accrue_and_report D account account_currency barrier delta self
          else (self, None, None)
      | (Some reason, _) \<Rightarrow>
          if not_halted then halt_and_report account account_currency barrier reason self
          else (self, None, None)
      | (None, Inl _) \<Rightarrow> (self, None, None))"

definition apply_execution_fee ::
  "dec_ops \<Rightarrow> instant \<Rightarrow> account_group_id option \<Rightarrow> asset option \<Rightarrow> spot_funds_settings \<Rightarrow> account_id \<Rightarrow>
   asset \<Rightarrow> asset \<Rightarrow> monetary_amount \<Rightarrow> account_pnl_application fill_op" where
  "apply_execution_fee D now g account_currency settings account underlying settlement f st =
     (if is_zero (mon_amount f) then (st, Inr no_application)
      else
        (let self = fst st;
             before = account_halt_before self account;
             was_halted =
               (case store_get (sf_holdings self) (account, underlying) of
                  Some h \<Rightarrow> realized_pnl_is_halted h | None \<Rightarrow> False);
             barrier = pnl_barrier_for settings account g account_currency;
             mismatch = Option.bind barrier (account_pnl_barrier_currency_mismatch_block account_currency);
             fee_delta = evaluate_execution_fee D now self account g f account_currency;
             position_reason = (case fee_delta of Inl reason \<Rightarrow> note_halt was_halted reason None | Inr _ \<Rightarrow> None);
             account_reason =
               (case fee_delta of Inl reason \<Rightarrow> note_halt (fst before \<noteq> None) reason None | Inr _ \<Rightarrow> None)
         in fill_bind (apply_fee_debit D account underlying settlement f) (\<lambda>_ st.
            let st = (case position_reason of
                        Some reason \<Rightarrow> halt_position_pnl D account underlying reason st | None \<Rightarrow> st);
                st = fold_fee_into_realized_pnl D account underlying
                       (case fee_delta of Inl _ \<Rightarrow> None | Inr delta \<Rightarrow> Some delta) st;
                stored = stored_halt_block account_currency barrier before;
                (self, reported) =
                  report_fee_pnl D account account_currency barrier (fst before = None) account_reason
                    fee_delta (fst st)
            in ((self, snd st), Inr (application_of mismatch stored reported))) st))"

section \<open>Lock prices\<close>

definition optional_lock_price ::
  "string \<Rightarrow> pre_trade_lock \<Rightarrow> policy_group_id \<Rightarrow> string \<Rightarrow> account_block + price option" where
  "optional_lock_price policy lock gid purpose =
     (case prices_of lock gid of
        [p] \<Rightarrow> Inr (Some p)
      | [] \<Rightarrow> Inr None
      | _ # _ # _ \<Rightarrow>
          Inl (account_block_new policy Other
            (''pre-trade lock has multiple prices for '' @ purpose @
             ''; two SpotFundsPolicies share a group_id'')
            [Lit ''group '', Cnt (unat gid)]))"

definition single_lock_price ::
  "string \<Rightarrow> pre_trade_lock \<Rightarrow> policy_group_id \<Rightarrow> string \<Rightarrow> account_block + price" where
  "single_lock_price policy lock gid purpose =
     bind_res (optional_lock_price policy lock gid purpose) (\<lambda>found.
       ok_or found (account_block_new policy MissingRequiredField
         (''pre-trade lock has no price for '' @ purpose) [Lit ''group '', Cnt (unat gid)]))"

definition settlement_lock_price ::
  "string \<Rightarrow> pre_trade_lock \<Rightarrow> policy_group_id \<Rightarrow> string \<Rightarrow> account_block + price option" where
  "settlement_lock_price policy lock gid purpose = map_res Some (single_lock_price policy lock gid purpose)"

definition settlement_reserved_amount ::
  "dec_ops \<Rightarrow> string \<Rightarrow> side \<Rightarrow> price option \<Rightarrow> quantity \<Rightarrow> asset \<Rightarrow> account_block + position_size" where
  "settlement_reserved_amount D policy s lock_price q settlement =
     (case lock_price of
        None \<Rightarrow> Inr 0
      | Some p \<Rightarrow>
          map_res (\<lambda>notional. non_negative (case s of Buy \<Rightarrow> notional | Sell \<Rightarrow> neg notional))
            (map_err (\<lambda>_. arithmetic_overflow_account_block policy
                [Lit ''settlement notional overflow: asset '', Lit settlement, Lit '', lock_px '', Num p,
                 Lit '', qty '', Num q])
              (price_calculate_position_size D p q)))"

definition settlement_incoming_proceeds ::
  "dec_ops \<Rightarrow> string \<Rightarrow> side \<Rightarrow> price option \<Rightarrow> quantity \<Rightarrow> asset \<Rightarrow> account_block + position_size" where
  "settlement_incoming_proceeds D policy s lock_price q settlement =
     (case s of
        Buy \<Rightarrow> Inr 0
      | Sell \<Rightarrow>
          (case lock_price of
             None \<Rightarrow> Inr 0
           | Some p \<Rightarrow>
               map_res non_negative
                 (map_err (\<lambda>_. arithmetic_overflow_account_block policy
                     [Lit ''settlement proceeds overflow: asset '', Lit settlement, Lit '', lock_px '', Num p,
                      Lit '', qty '', Num q])
                   (price_calculate_position_size D p q))))"

definition settlement_fill_consume ::
  "dec_ops \<Rightarrow> spot_funds \<Rightarrow> asset \<Rightarrow> side \<Rightarrow> trade \<Rightarrow> pre_trade_lock \<Rightarrow> account_block + position_size" where
  "settlement_fill_consume D self settlement s t lock =
     bind_res (settlement_lock_price SPOT_FUNDS_POLICY_NAME lock (sf_group_id self) ''settlement fill'') (\<lambda>p.
       settlement_reserved_amount D SPOT_FUNDS_POLICY_NAME s p (trade_quantity t) settlement)"

definition settlement_incoming_amount ::
  "dec_ops \<Rightarrow> spot_funds \<Rightarrow> asset \<Rightarrow> side \<Rightarrow> trade \<Rightarrow> pre_trade_lock \<Rightarrow> account_block + position_size" where
  "settlement_incoming_amount D self settlement s t lock =
     bind_res (settlement_lock_price SPOT_FUNDS_POLICY_NAME lock (sf_group_id self) ''sell fill'') (\<lambda>p.
       settlement_incoming_proceeds D SPOT_FUNDS_POLICY_NAME s p (trade_quantity t) settlement)"

definition settlement_release ::
  "dec_ops \<Rightarrow> spot_funds \<Rightarrow> asset \<Rightarrow> side \<Rightarrow> quantity \<Rightarrow> pre_trade_lock \<Rightarrow> account_block + position_size" where
  "settlement_release D self settlement s remaining lock =
     bind_res (settlement_lock_price SPOT_FUNDS_POLICY_NAME lock (sf_group_id self) ''settlement release'') (\<lambda>p.
       settlement_reserved_amount D SPOT_FUNDS_POLICY_NAME s p remaining settlement)"

definition settlement_incoming_release ::
  "dec_ops \<Rightarrow> spot_funds \<Rightarrow> asset \<Rightarrow> side \<Rightarrow> quantity \<Rightarrow> pre_trade_lock \<Rightarrow> account_block + position_size" where
  "settlement_incoming_release D self settlement s remaining lock =
     bind_res (settlement_lock_price SPOT_FUNDS_POLICY_NAME lock (sf_group_id self) ''sell release'') (\<lambda>p.
       settlement_incoming_proceeds D SPOT_FUNDS_POLICY_NAME s p remaining settlement)"

section \<open>One leg of a fill\<close>

text \<open>The position P\&L operation of a leg and the slot it leaves, before the money moves.\<close>

definition leg_operation ::
  "dec_ops \<Rightarrow> leg_kind \<Rightarrow> position_size \<Rightarrow> price option \<Rightarrow> pnl_halt_reason option \<Rightarrow> holdings \<Rightarrow>
   position_pnl_operation option \<times> holdings" where
  "leg_operation D kind flow realize_price halt_reason h =
     (case kind of
        Settlement \<Rightarrow> (None, h)
      | Underlying \<Rightarrow>
          (case (realize_price, halt_reason) of
             (Some p, _) \<Rightarrow>
               (let op = (case realize_position_fill D h flow p of
                            Inr updated \<Rightarrow> updated
                          | Inl _ \<Rightarrow> halt_realized_pnl h PnlArithmeticOverflow)
                in (Some op, op_holdings op))
           | (None, Some reason) \<Rightarrow>
               (let op = (case halt_realized_pnl_for_unpriced_fill D h flow reason of
                            Inr updated \<Rightarrow> updated
                          | Inl _ \<Rightarrow> halt_realized_pnl h PnlArithmeticOverflow)
                in (Some op, op_holdings op))
           | (None, None) \<Rightarrow> (None, with_avg_entry_price h None)))"

definition fill_leg_mutation ::
  "dec_ops \<Rightarrow> leg_kind \<Rightarrow> position_size \<Rightarrow> position_size \<Rightarrow> position_size \<Rightarrow> position_size \<Rightarrow> price option \<Rightarrow>
   pnl_halt_reason option \<Rightarrow> holdings \<Rightarrow> adjustment_overflow_error + holdings" where
  "fill_leg_mutation D kind consume flow credit incoming_consume realize_price halt_reason h =
     bind_res (apply_fill_outflow D (snd (leg_operation D kind flow realize_price halt_reason h)) consume) (\<lambda>h.
     bind_res (if is_zero credit then Inr h else apply_fill_inflow D h credit) (\<lambda>h.
       if is_zero incoming_consume then Inr h else consume_incoming D h incoming_consume))"

definition record_leg_operation ::
  "dec_ops \<Rightarrow> account_id \<Rightarrow> asset \<Rightarrow> position_pnl_operation option \<Rightarrow> fill_state \<Rightarrow> fill_state" where
  "record_leg_operation D account asset op st =
     (case op of
        None \<Rightarrow> st
      | Some op \<Rightarrow>
          (case record_position_pnl_operation D (snd st) op of
             (d, overflowed) \<Rightarrow>
               if overflowed then halt_position_pnl D account asset PnlArithmeticOverflow (fst st, d)
               else (fst st, d)))"

definition settle_fill_leg ::
  "dec_ops \<Rightarrow> account_id \<Rightarrow> asset \<Rightarrow> leg_kind \<Rightarrow> position_size \<Rightarrow> position_size \<Rightarrow> position_size \<Rightarrow>
   price option \<Rightarrow> pnl_halt_reason option \<Rightarrow> (pnl_halt_reason + pnl option) option fill_op" where
  "settle_fill_leg D account asset kind consume flow incoming_consume realize_price halt_reason =
     fill_bind (fill_of (map_err (\<lambda>_. overflow_block
         [Lit ''fill balance credit overflow: asset '', Lit asset, Lit '', consume '', Num consume,
          Lit '', flow '', Num flow])
       (sg_checked_add D PK_PositionSize consume flow))) (\<lambda>credit.
     if is_zero consume \<and> is_zero credit \<and> is_zero incoming_consume then fill_return None
     else (\<lambda>st.
       let before = balance_of (sf_holdings (fst st)) (account, asset);
           contribution =
             (case kind of
                Underlying \<Rightarrow> Some (account_position_pnl_contribution D before flow realize_price)
              | Settlement \<Rightarrow> None);
           op = fst (leg_operation D kind flow realize_price halt_reason before)
       in fill_bind (slot_op (account, asset)
              (fill_leg_mutation D kind consume flow credit incoming_consume realize_price halt_reason)
              [Lit ''fill leg mutation overflow: asset '', Lit asset, Lit '', consume '', Num consume,
               Lit '', credit '', Num credit]) (\<lambda>new_h.
          fill_bind (\<lambda>st. (record_leg_operation D account asset op st, Inr ())) (\<lambda>_.
          fill_bind (leg_add (leg_of kind) (leg_put kind) (held_minus D consume)
              [Lit ''fill held delta overflow: asset '', Lit asset, Lit '', consume '', Num consume]) (\<lambda>_.
          fill_bind (leg_add (leg_of kind) (leg_put kind) (incoming_minus D incoming_consume)
              [Lit ''fill incoming delta overflow: asset '', Lit asset, Lit '', incoming '',
               Num incoming_consume]) (\<lambda>_.
          fill_bind (leg_add (leg_of kind) (leg_put kind) (balance_plus D credit)
              [Lit ''fill balance delta overflow: asset '', Lit asset, Lit '', credit '', Num credit]) (\<lambda>_.
          fill_bind (final_holdings_put kind new_h) (\<lambda>_.
            fill_return contribution)))))) st))"

section \<open>A fill\<close>

text \<open>The halts that a fill collects before they are applied.\<close>

record fill_halts =
  fh_position :: bool
  fh_position_reason :: "pnl_halt_reason option"
  fh_account_reason :: "pnl_halt_reason option"
  fh_fill_reason :: "pnl_halt_reason option"

definition nonzero_fee :: "monetary_amount option \<Rightarrow> monetary_amount option" where
  "nonzero_fee = filter_option (\<lambda>f. \<not> is_zero (mon_amount f))"

definition note_position_halt :: "bool \<Rightarrow> pnl_halt_reason \<Rightarrow> fill_halts \<Rightarrow> fill_halts" where
  "note_position_halt was_halted reason hs =
     hs\<lparr>fh_position := True, fh_position_reason := note_halt was_halted reason (fh_position_reason hs)\<rparr>"

definition missing_currency_halts :: "bool \<Rightarrow> bool \<Rightarrow> bool \<Rightarrow> asset option \<Rightarrow> fill_halts" where
  "missing_currency_halts moves has_fee was_halted account_currency =
     (let hs = \<lparr>fh_position = False, fh_position_reason = None,
                fh_account_reason =
                  (if has_fee \<and> account_currency = None then Some MissingAccountCurrency else None),
                fh_fill_reason = None\<rparr>
      in if (moves \<or> has_fee) \<and> account_currency = None
         then note_position_halt was_halted MissingAccountCurrency hs else hs)"

definition note_price_halt :: "bool \<Rightarrow> pnl_halt_reason \<Rightarrow> fill_halts \<Rightarrow> fill_halts" where
  "note_price_halt was_halted reason hs =
     (let hs = note_position_halt was_halted reason hs
      in hs\<lparr>fh_fill_reason := select_pnl_halt_reason (fh_fill_reason hs) reason\<rparr>)"

definition evaluate_fill_price ::
  "dec_ops \<Rightarrow> instant \<Rightarrow> spot_funds \<Rightarrow> account_id \<Rightarrow> account_group_id option \<Rightarrow> asset \<Rightarrow> asset option \<Rightarrow> price \<Rightarrow>
   bool \<Rightarrow> bool \<Rightarrow> fill_halts \<Rightarrow> price option \<times> fill_halts" where
  "evaluate_fill_price D now self account g settlement account_currency p moves was_halted hs =
     (if moves then
        (case account_currency of
           None \<Rightarrow> (None, hs)
         | Some currency \<Rightarrow>
             (case account_currency_price D now self account g settlement currency p of
                Inr (Some v) \<Rightarrow> (Some v, hs)
              | Inr None \<Rightarrow> (None, note_price_halt was_halted MissingFx hs)
              | Inl reason \<Rightarrow> (None, note_price_halt was_halted reason hs)))
      else (None, hs))"

definition evaluate_fill_fee ::
  "dec_ops \<Rightarrow> instant \<Rightarrow> spot_funds \<Rightarrow> account_id \<Rightarrow> account_group_id option \<Rightarrow> asset option \<Rightarrow>
   monetary_amount option \<Rightarrow> bool \<Rightarrow> fill_halts \<Rightarrow> pnl option \<times> fill_halts" where
  "evaluate_fill_fee D now self account g account_currency fee_opt was_halted hs =
     (case (account_currency, fee_opt) of
        (Some currency, Some f) \<Rightarrow>
          (case fee_account_pnl_delta D now self account g f currency of
             Inr delta \<Rightarrow> (Some delta, hs)
           | Inl reason \<Rightarrow>
               (None,
                (note_position_halt was_halted reason hs)\<lparr>fh_account_reason :=
                   select_pnl_halt_reason (fh_account_reason hs) reason\<rparr>))
      | _ \<Rightarrow> (None, hs))"

text \<open>A realized contribution, or the failure to compute one, engages the account P\&L.\<close>

definition fill_engaged :: "(pnl_halt_reason + pnl option) option \<Rightarrow> bool" where
  "fill_engaged contribution =
     (case contribution of
        Some (Inr (Some _)) \<Rightarrow> True | Some (Inl _) \<Rightarrow> True | Some (Inr None) \<Rightarrow> False | None \<Rightarrow> False)"

definition engage_account_pnl ::
  "asset option \<Rightarrow> (pnl_halt_reason + pnl option) option \<Rightarrow> fill_halts \<Rightarrow> pnl_halt_reason option" where
  "engage_account_pnl account_currency contribution hs =
     (if fill_engaged contribution then
        (let r = fh_account_reason hs;
             r = (if account_currency = None then select_pnl_halt_reason r MissingAccountCurrency else r);
             r = (case fh_fill_reason hs of Some reason \<Rightarrow> select_pnl_halt_reason r reason | None \<Rightarrow> r)
         in case contribution of
              Some (Inl reason) \<Rightarrow> select_pnl_halt_reason r reason
            | Some (Inr _) \<Rightarrow> r
            | None \<Rightarrow> r)
      else fh_account_reason hs)"

text \<open>The delta of the account P\&L, and the account halt reason that is left.\<close>

definition account_fill_delta ::
  "dec_ops \<Rightarrow> bool \<Rightarrow> bool \<Rightarrow> bool \<Rightarrow> bool \<Rightarrow> (pnl_halt_reason + pnl option) option \<Rightarrow> pnl option \<Rightarrow>
   pnl_halt_reason option \<Rightarrow> pnl option \<times> pnl_halt_reason option" where
  "account_fill_delta D engaged halted_before moves has_fee contribution fee_delta reason =
     (if engaged \<and> \<not> halted_before \<and> reason = None then
        (let (position_delta, reason) =
               (if moves then
                  (case contribution of
                     Some (Inr (Some delta)) \<Rightarrow> (Some delta, reason)
                   | Some (Inr None) \<Rightarrow> (Some 0, reason)
                   | Some (Inl _) \<Rightarrow> (None, select_pnl_halt_reason reason MissingInitialPnl)
                   | None \<Rightarrow> (None, select_pnl_halt_reason reason MissingInitialPnl))
                else (Some 0, reason));
             fee_part = (if has_fee then fee_delta else Some 0)
         in case (position_delta, fee_part) of
              (Some p, Some f) \<Rightarrow>
                (case sg_checked_add D PK_Pnl p f of
                   Inr delta \<Rightarrow> (Some delta, reason)
                 | Inl _ \<Rightarrow> (None, select_pnl_halt_reason reason PnlArithmeticOverflow))
            | _ \<Rightarrow> (None, reason))
      else (None, reason))"

text \<open>Both legs in the order of the side; the contribution is the one of the underlying leg.\<close>

definition settle_legs ::
  "side \<Rightarrow> 'c option fill_op \<Rightarrow> 'c option fill_op \<Rightarrow> 'c option fill_op" where
  "settle_legs s underlying_leg settlement_leg =
     (case s of
        Buy \<Rightarrow> fill_bind settlement_leg (\<lambda>_. underlying_leg)
      | Sell \<Rightarrow> fill_bind underlying_leg (\<lambda>c. fill_bind settlement_leg (\<lambda>_. fill_return c)))"

definition halt_unless_reported ::
  "dec_ops \<Rightarrow> account_id \<Rightarrow> asset \<Rightarrow> pnl_halt_reason option \<Rightarrow> fill_state \<Rightarrow> fill_state" where
  "halt_unless_reported D account underlying reason st =
     (case reason of
        None \<Rightarrow> st
      | Some reason \<Rightarrow>
          (case ld_pnl_outcome (fcd_underlying (snd st)) of
             Some (Inl _) \<Rightarrow> st
           | Some (Inr _) \<Rightarrow> halt_position_pnl D account underlying reason st
           | None \<Rightarrow> halt_position_pnl D account underlying reason st))"

text \<open>The account P\&L of a fill: the halt it causes, or the delta it accrues.\<close>

definition report_fill_pnl ::
  "dec_ops \<Rightarrow> account_id \<Rightarrow> asset option \<Rightarrow> spot_pnl_barrier option \<Rightarrow> bool \<Rightarrow> pnl_halt_reason option \<Rightarrow>
   pnl option \<Rightarrow> spot_funds \<Rightarrow> spot_funds \<times> account_pnl_outcome option \<times> account_block option" where
  "report_fill_pnl D account account_currency barrier may_halt reason delta self =
     (case (reason, delta) of
        (Some reason, _) \<Rightarrow>
          if may_halt then halt_and_report account account_currency barrier reason self
          else (self, None, None)
      | (None, Some delta) \<Rightarrow> accrue_and_report D account account_currency barrier delta self
      | (None, None) \<Rightarrow> (self, None, None))"

text \<open>What follows the legs: the fee, the position halt, and the account P\&L.\<close>

definition finish_fill ::
  "dec_ops \<Rightarrow> account_id \<Rightarrow> asset \<Rightarrow> asset \<Rightarrow> asset option \<Rightarrow> spot_pnl_barrier option \<Rightarrow>
   pnl_halt_reason option \<times> u64 option \<Rightarrow> monetary_amount option \<Rightarrow> bool \<Rightarrow> fill_halts \<Rightarrow> pnl option \<Rightarrow>
   (pnl_halt_reason + pnl option) option \<Rightarrow> account_pnl_application fill_op" where
  "finish_fill D account underlying settlement account_currency barrier before fee_opt moves hs fee_delta
     contribution =
     (let engaged = (fee_opt \<noteq> None \<or> fill_engaged contribution);
          reason = engage_account_pnl account_currency contribution hs;
          (delta, reason) =
            account_fill_delta D engaged (fst before \<noteq> None) moves (fee_opt \<noteq> None) contribution fee_delta reason
      in fill_bind (case fee_opt of
             Some f \<Rightarrow> apply_fee_debit D account underlying settlement f | None \<Rightarrow> fill_return ()) (\<lambda>_ st.
         let st = halt_unless_reported D account underlying (fh_position_reason hs) st;
             st = fold_fee_into_realized_pnl D account underlying
                    (if fh_position hs then None else fee_delta) st;
             stored = (if moves \<or> fee_opt \<noteq> None
                       then stored_halt_block account_currency barrier before else None);
             (self, reported) =
               report_fill_pnl D account account_currency barrier (engaged \<and> fst before = None) reason delta
                 (fst st)
         in ((self, snd st),
             Inr (application_of
               (Option.bind barrier (account_pnl_barrier_currency_mismatch_block account_currency))
               stored reported))))"

text \<open>
  What a fill is valued at, before anything moves: the price of the underlying leg in the account currency,
  the halt reason of that leg, the collected halts and the P\&L of the fee.
\<close>

definition evaluate_fill ::
  "dec_ops \<Rightarrow> instant \<Rightarrow> spot_funds \<Rightarrow> account_group_id option \<Rightarrow> asset option \<Rightarrow> account_id \<Rightarrow> asset \<Rightarrow> asset \<Rightarrow>
   price \<Rightarrow> bool \<Rightarrow> monetary_amount option \<Rightarrow>
   price option \<times> pnl_halt_reason option \<times> fill_halts \<times> pnl option" where
  "evaluate_fill D now self g account_currency account underlying settlement fill_price moves fee_opt =
     (let position_before =
            Option.bind (store_get (sf_holdings self) (account, underlying)) realized_pnl_halt_reason;
          was_halted = (position_before \<noteq> None);
          (p, hs) = evaluate_fill_price D now self account g settlement account_currency fill_price
            moves was_halted (missing_currency_halts moves (fee_opt \<noteq> None) was_halted account_currency);
          (fee_delta, hs) = evaluate_fill_fee D now self account g account_currency fee_opt was_halted hs
      in (p, if moves then or_else (fh_position_reason hs) position_before else None, hs, fee_delta))"

definition apply_trade_fill ::
  "dec_ops \<Rightarrow> instant \<Rightarrow> account_group_id option \<Rightarrow> asset option \<Rightarrow> spot_funds_settings \<Rightarrow> account_id \<Rightarrow>
   asset \<Rightarrow> asset \<Rightarrow> side \<Rightarrow> trade \<Rightarrow> monetary_amount option \<Rightarrow> pre_trade_lock \<Rightarrow>
   account_pnl_application fill_op" where
  "apply_trade_fill D now g account_currency settings account underlying settlement s t fee_opt lock st =
     (let fee_opt = nonzero_fee fee_opt;
          qty = quantity_to_position_size (trade_quantity t);
          self = fst st;
          consume = (case s of Buy \<Rightarrow> 0 | Sell \<Rightarrow> qty);
          flow = (case s of Buy \<Rightarrow> qty | Sell \<Rightarrow> neg qty);
          moves = (\<not> is_zero flow);
          before = account_halt_before self account;
          barrier = pnl_barrier_for settings account g account_currency;
          (p, leg_reason, hs, fee_delta) =
            evaluate_fill D now self g account_currency account underlying settlement (trade_price t) moves fee_opt
      in fill_bind (fill_of (map_err (\<lambda>_. overflow_block
             [Lit ''fill notional volume overflow: asset '', Lit settlement, Lit '', px '', Num (trade_price t),
              Lit '', qty '', Num (trade_quantity t)])
           (price_calculate_position_size D (trade_price t) (trade_quantity t)))) (\<lambda>notional.
         fill_bind (fill_of (settlement_fill_consume D self settlement s t lock)) (\<lambda>settlement_consume.
         fill_bind (fill_of (settlement_incoming_amount D self settlement s t lock)) (\<lambda>settlement_incoming.
         fill_bind (settle_legs s
             (settle_fill_leg D account underlying Underlying consume flow
                (case s of Buy \<Rightarrow> qty | Sell \<Rightarrow> 0) p leg_reason)
             (settle_fill_leg D account settlement Settlement settlement_consume
                (case s of Buy \<Rightarrow> neg notional | Sell \<Rightarrow> notional) settlement_incoming None None))
           (finish_fill D account underlying settlement account_currency barrier before fee_opt moves
              hs fee_delta)))) st)"

section \<open>A cancellation\<close>

definition release_leg ::
  "dec_ops \<Rightarrow> account_id \<Rightarrow> asset \<Rightarrow> leg_kind \<Rightarrow> position_size \<Rightarrow> position_size \<Rightarrow> unit fill_op" where
  "release_leg D account asset kind held_release incoming_release =
     (if is_zero held_release \<and> is_zero incoming_release then fill_return ()
      else
        fill_bind (slot_op (account, asset)
            (\<lambda>h. bind_res (release D h held_release) (\<lambda>h.
               if is_zero incoming_release then Inr h else consume_incoming D h incoming_release))
            [Lit ''cancel release overflow: asset '', Lit asset, Lit '', held '', Num held_release,
             Lit '', incoming '', Num incoming_release]) (\<lambda>new_h.
        fill_bind (leg_add (leg_of kind) (leg_put kind) (held_minus D held_release)
            [Lit ''cancel held delta overflow: asset '', Lit asset, Lit '', release '', Num held_release]) (\<lambda>_.
        fill_bind (leg_add (leg_of kind) (leg_put kind) (balance_plus D held_release)
            [Lit ''cancel balance delta overflow: asset '', Lit asset, Lit '', release '', Num held_release]) (\<lambda>_.
        fill_bind (leg_add (leg_of kind) (leg_put kind) (incoming_minus D incoming_release)
            [Lit ''cancel incoming delta overflow: asset '', Lit asset, Lit '', release '',
             Num incoming_release]) (\<lambda>_.
          final_holdings_put kind new_h)))))"

definition apply_cancel_release ::
  "dec_ops \<Rightarrow> account_id \<Rightarrow> asset \<Rightarrow> asset \<Rightarrow> side \<Rightarrow> quantity \<Rightarrow> pre_trade_lock \<Rightarrow> unit fill_op" where
  "apply_cancel_release D account underlying settlement s remaining lock st =
     fill_bind (fill_of (settlement_release D (fst st) settlement s remaining lock)) (\<lambda>settlement_held.
     fill_bind (fill_of (settlement_incoming_release D (fst st) settlement s remaining lock))
       (\<lambda>settlement_incoming.
     let qty = quantity_to_position_size remaining in
     fill_bind (release_leg D account underlying Underlying
         (case s of Buy \<Rightarrow> 0 | Sell \<Rightarrow> qty) (case s of Buy \<Rightarrow> qty | Sell \<Rightarrow> 0)) (\<lambda>_.
       release_leg D account settlement Settlement settlement_held settlement_incoming))) st"

section \<open>The report\<close>

definition read_report_field ::
  "string \<Rightarrow> request_field_access_error + 'a \<Rightarrow> account_block + 'a" where
  "read_report_field field_name v =
     map_err (missing_required_field_account_block SPOT_FUNDS_POLICY_NAME field_name) v"

definition read_execution_request :: "spot_report \<Rightarrow> account_block + execution_request_view" where
  "read_execution_request report =
     bind_res (read_report_field ''account ID'' (rep_account_id report)) (\<lambda>account.
     bind_res (read_report_field ''instrument'' (rep_instrument report)) (\<lambda>i.
     bind_res (read_report_field ''side'' (rep_side report)) (\<lambda>s.
     bind_res (read_report_field ''last fill'' (rep_last_trade report)) (\<lambda>last_trade.
     bind_res (read_report_field ''fill fee'' (rep_fill_fee report)) (\<lambda>f.
     bind_res (read_report_field ''remaining reserved quantity'' (rep_remaining report)) (\<lambda>remaining.
     bind_res (read_report_field ''order finality'' (rep_is_final report)) (\<lambda>is_final.
     bind_res (read_report_field ''pre-trade lock'' (rep_lock report)) (\<lambda>lock.
       Inr \<lparr>erv_instrument = i, erv_account = account, erv_side = s, erv_last_trade = last_trade,
            erv_fee = f, erv_remaining = remaining, erv_is_final = is_final, erv_lock = lock\<rparr>))))))))"

definition nonzero_outcome :: "position_size \<Rightarrow> position_size \<Rightarrow> outcome_amount option" where
  "nonzero_outcome delta absolute =
     (if is_zero delta then None else Some \<lparr>oa_delta = delta, oa_absolute = absolute\<rparr>)"

definition push_leg_outcome ::
  "policy_group_id \<Rightarrow> asset \<Rightarrow> leg_delta \<Rightarrow> leg_kind \<Rightarrow> account_adjustment_outcome list \<Rightarrow>
   account_adjustment_outcome list" where
  "push_leg_outcome gid asset leg kind adjustments =
     (case ld_final_holdings leg of
        None \<Rightarrow> adjustments
      | Some h \<Rightarrow>
          (let (pnl, average) =
                 (case kind of
                    Underlying \<Rightarrow>
                      (case ld_pnl_outcome leg of
                         Some (Inl reason) \<Rightarrow> (Some (Inl reason), None)
                       | Some (Inr amount) \<Rightarrow> (Some (Inr amount), ld_average_entry_price leg)
                       | None \<Rightarrow> (None, ld_average_entry_price leg))
                  | Settlement \<Rightarrow> (None, None));
               balance = nonzero_outcome (ld_balance leg) (available h);
               held_out = nonzero_outcome (ld_held leg) (held h);
               incoming_out = nonzero_outcome (ld_incoming leg) (incoming h)
           in if balance = None \<and> held_out = None \<and> incoming_out = None \<and> pnl = None \<and> average = None
              then adjustments
              else adjustments @
                [\<lparr>aao_policy_group_id = gid,
                  aao_entry = \<lparr>aoe_asset = asset, aoe_balance = balance, aoe_held = held_out,
                               aoe_incoming = incoming_out, aoe_realized_pnl = pnl,
                               aoe_average_entry_price = average\<rparr>\<rparr>]))"

text \<open>The accumulated results of a report: the blocks and the account P\&L outcomes.\<close>

definition collect_application ::
  "account_block + account_pnl_application \<Rightarrow> account_block list \<times> account_pnl_outcome list" where
  "collect_application r =
     (case r of
        Inl block \<Rightarrow> ([block], [])
      | Inr application \<Rightarrow>
          ((case apa_account_block application of Some block \<Rightarrow> [block] | None \<Rightarrow> []),
           (case apa_account_pnl application of Some outcome \<Rightarrow> [outcome] | None \<Rightarrow> [])))"

text \<open>
  The settings, the account group and the account currency are read only when the report has a trade or
  a fee that is not zero.
\<close>

definition report_scope ::
  "execution_request_view \<Rightarrow> spot_funds engine \<Rightarrow>
   (account_group_id option \<times> asset option \<times> spot_funds_settings) option" where
  "report_scope request e =
     (if erv_last_trade request \<noteq> None \<or> nonzero_fee (erv_fee request) \<noteq> None then
        (let g = group_of (eng_groups e) (erv_account request)
         in Some (g, currency_of (eng_account_currencies e) (erv_account request) g,
                  sf_settings (eng_policy_state e)))
      else None)"

definition apply_report_economics ::
  "dec_ops \<Rightarrow> instant \<Rightarrow> execution_request_view \<Rightarrow>
   (account_group_id option \<times> asset option \<times> spot_funds_settings) option \<Rightarrow> fill_state \<Rightarrow>
   fill_state \<times> account_block list \<times> account_pnl_outcome list" where
  "apply_report_economics D now request scope st =
     (let underlying = underlying_asset (erv_instrument request);
          settlement = settlement_asset (erv_instrument request) in
      case scope of
        None \<Rightarrow> (st, [], [])
      | Some (g, currency, settings) \<Rightarrow>
          (case erv_last_trade request of
             Some t \<Rightarrow>
               (case apply_trade_fill D now g currency settings (erv_account request) underlying settlement
                       (erv_side request) t (erv_fee request) (erv_lock request) st of
                  (st, r) \<Rightarrow> (st, collect_application r))
           | None \<Rightarrow>
               (case erv_fee request of
                  Some f \<Rightarrow>
                    (case apply_execution_fee D now g currency settings (erv_account request) underlying
                            settlement f st of
                       (st, r) \<Rightarrow> (st, collect_application r))
                | None \<Rightarrow> (st, [], []))))"

definition apply_report_cancel ::
  "dec_ops \<Rightarrow> execution_request_view \<Rightarrow> fill_state \<Rightarrow> fill_state \<times> account_block list" where
  "apply_report_cancel D request st =
     (if erv_is_final request \<and> \<not> is_zero (erv_remaining request) then
        (case apply_cancel_release D (erv_account request) (underlying_asset (erv_instrument request))
                (settlement_asset (erv_instrument request)) (erv_side request) (erv_remaining request)
                (erv_lock request) st of
           (st, Inl block) \<Rightarrow> (st, [block])
         | (st, Inr _) \<Rightarrow> (st, []))
      else (st, []))"

definition report_axis_block ::
  "dec_ops \<Rightarrow> instant \<Rightarrow> execution_request_view \<Rightarrow>
   (account_group_id option \<times> asset option \<times> spot_funds_settings) option \<Rightarrow> spot_funds \<Rightarrow>
   account_block list \<Rightarrow> account_block list" where
  "report_axis_block D now request scope self blocks =
     (case scope of
        None \<Rightarrow> blocks
      | Some (g, currency, settings) \<Rightarrow>
          if blocks = [] then
            (case pnl_axis_block D now self settings (erv_account request) g currency True of
               Some block \<Rightarrow> [block] | None \<Rightarrow> [])
          else blocks)"

definition report_outcomes ::
  "policy_group_id \<Rightarrow> execution_request_view \<Rightarrow> fill_cancel_deltas \<Rightarrow> account_adjustment_outcome list" where
  "report_outcomes gid request d =
     (let adjustments = push_leg_outcome gid (underlying_asset (erv_instrument request))
            (fcd_underlying d) Underlying [];
          adjustments = push_leg_outcome gid (settlement_asset (erv_instrument request))
            (fcd_settlement d) Settlement adjustments
      in case fcd_fee d of
           Some (fee_asset, leg) \<Rightarrow> push_leg_outcome gid fee_asset leg Settlement adjustments
         | None \<Rightarrow> adjustments)"

definition apply_execution_request_impl ::
  "dec_ops \<Rightarrow> instant \<Rightarrow> execution_request_view \<Rightarrow> spot_funds engine \<Rightarrow>
   spot_funds engine \<times> post_trade_result option" where
  "apply_execution_request_impl D now request e =
     (let scope = report_scope request e in
      case apply_report_economics D now request scope (eng_policy_state e, deltas_new) of
        (st, blocks, pnls) \<Rightarrow>
          (case apply_report_cancel D request st of
             ((self, d), cancel_blocks) \<Rightarrow>
               (let blocks = report_axis_block D now request scope self (blocks @ cancel_blocks);
                    result = \<lparr>post_account_blocks = blocks, post_account_pnls = pnls,
                              post_account_adjustments = report_outcomes (sf_group_id self) request d\<rparr>
                in (put_spot self e, if post_trade_is_empty result then None else Some result))))"

definition spot_apply_execution_report ::
  "dec_ops \<Rightarrow> instant \<Rightarrow> spot_report \<Rightarrow> spot_funds engine \<Rightarrow> spot_funds engine \<times> post_trade_result option" where
  "spot_apply_execution_report D now report e =
     (case read_execution_request report of
        Inl block \<Rightarrow> (e, Some (blocks_only [block]))
      | Inr request \<Rightarrow> apply_execution_request_impl D now request e)"

text \<open>A sequence of reports, each with the time it is applied at.\<close>

fun apply_reports ::
  "dec_ops \<Rightarrow> (instant \<times> execution_request_view) list \<Rightarrow> spot_funds engine \<Rightarrow> spot_funds engine" where
  "apply_reports D [] e = e"
| "apply_reports D ((now, r) # rs) e = apply_reports D rs (fst (apply_execution_request_impl D now r e))"

end
