(* ===== verification/Spot_Settlement.thy ===== *)
theory Spot_Settlement
  imports Spot_Execution
begin

text \<open>
  What execution reports do to the money of an account. The fields \<open>available\<close>,
  \<open>held\<close> and \<open>incoming\<close> of every slot form a table of money; a report is compared with
  the exact movement it stands for, and a whole order, from its reservation to its last report, with
  the trades it was filled by.

  The operations of a report keep books (the table of money and the deltas they accumulate), and
  \<open>books_to B m B'\<close> says that the operation \<open>m\<close> ends without a block and takes the
  books from \<open>B\<close> to \<open>B'\<close>, whatever it does to the P\&L.
\<close>

section \<open>Tables of money\<close>

type_synonym money = "slot_key \<Rightarrow> adjustment_target \<Rightarrow> decimal"

fun money_field :: "adjustment_target \<Rightarrow> holdings \<Rightarrow> decimal" where
  "money_field AvailableField h = available h"
| "money_field HeldField h = held h"
| "money_field IncomingField h = incoming h"

definition money_of :: "spot_funds \<Rightarrow> money" where
  "money_of self key field = money_field field (balance_of (sf_holdings self) key)"

definition credited :: "money \<Rightarrow> money \<Rightarrow> money" where
  "credited m d key field = m key field + d key field"

definition leg_effect :: "slot_key \<Rightarrow> decimal \<Rightarrow> decimal \<Rightarrow> decimal \<Rightarrow> money" where
  "leg_effect k a h i key field =
     (if key = k then (case field of AvailableField \<Rightarrow> a | HeldField \<Rightarrow> h | IncomingField \<Rightarrow> i) else 0)"

definition exact_money :: "money \<Rightarrow> bool" where
  "exact_money m \<longleftrightarrow> (\<forall>key field. representable (m key field))"

section \<open>Books\<close>

text \<open>The money, the deltas of both legs as (available, held, incoming), and the policy group.\<close>

type_synonym leg_totals = "leg_kind \<Rightarrow> decimal \<times> decimal \<times> decimal"

definition leg_totals_of :: "fill_cancel_deltas \<Rightarrow> leg_totals" where
  "leg_totals_of d kind =
     (ld_balance (leg_of kind d), ld_held (leg_of kind d), ld_incoming (leg_of kind d))"

definition books :: "fill_state \<Rightarrow> money \<times> leg_totals \<times> policy_group_id" where
  "books st = (money_of (fst st), leg_totals_of (snd st), sf_group_id (fst st))"

definition books_to ::
  "money \<times> leg_totals \<times> policy_group_id \<Rightarrow> 'a fill_op \<Rightarrow> money \<times> leg_totals \<times> policy_group_id \<Rightarrow> bool" where
  "books_to B m B' \<longleftrightarrow> (\<forall>st. books st = B \<longrightarrow> is_ok (snd (m st)) \<and> books (fst (m st)) = B')"

lemma books_toI:
  "(\<And>st. books st = B \<Longrightarrow> is_ok (snd (m st)) \<and> books (fst (m st)) = B') \<Longrightarrow> books_to B m B'"
  by (simp add: books_to_def)

lemma books_toD: "books_to B m B' \<Longrightarrow> books st = B \<Longrightarrow> is_ok (snd (m st)) \<and> books (fst (m st)) = B'"
  by (simp add: books_to_def del: split_paired_All)

lemma books_to_bind [intro]:
  assumes "books_to B m B'" and "\<And>x. books_to B' (f x) B''"
  shows "books_to B (fill_bind m f) B''"
proof (rule books_toI)
  fix st assume st: "books st = B"
  from books_toD [OF assms(1) st] obtain x where "snd (m st) = Inr x" and b: "books (fst (m st)) = B'"
    by (auto simp: is_ok_iff)
  then have "fill_bind m f st = f x (fst (m st))" by (cases "m st") (simp add: fill_bind_def)
  then show "is_ok (snd (fill_bind m f st)) \<and> books (fst (fill_bind m f st)) = B''"
    using books_toD [OF assms(2) b] by simp
qed

lemma books_to_return [intro]: "books_to B (fill_return x) B"
  by (simp add: books_to_def fill_return_def)

lemma fill_bind_of [simp]: "fill_bind (fill_of (Inr v)) f = f v"
  by (rule ext) (simp add: fill_bind_def fill_of_def)

lemma books_to_state:
  "(\<And>st. books st = B \<Longrightarrow> books_to B (g st) B') \<Longrightarrow> books_to B (\<lambda>st. g st st) B'"
  by (simp add: books_to_def)

lemma books_to_pure:
  "(\<And>st. books (f st) = books st) \<Longrightarrow> books_to B (\<lambda>st. (f st, Inr (c st))) B"
  by (simp add: books_to_def)

subsection \<open>The P\&L does not touch the books\<close>

definition same_money :: "holdings \<Rightarrow> holdings \<Rightarrow> bool" where
  "same_money h h' \<longleftrightarrow> available h = available h' \<and> held h = held h' \<and> incoming h = incoming h'"

lemma same_money_field: "same_money h h' \<Longrightarrow> money_field field h = money_field field h'"
  by (cases field) (simp_all add: same_money_def)

lemma same_money_operations [simp]:
  "same_money (op_holdings (halt_realized_pnl_with_average h reason avg)) h"
  "same_money (op_holdings (add_realized_pnl_contribution D h delta)) h"
  by (auto simp: same_money_def halt_realized_pnl_with_average_def operation_unchanged_def
      operation_updated_def add_realized_pnl_contribution_def Let_def
      split: option.split position_pnl_state.split sum.split)

lemma same_money_updated [simp]:
  "same_money (h\<lparr>avg_entry_price := a, realized_pnl_field := r\<rparr>) h"
  "same_money (h\<lparr>realized_pnl_field := r\<rparr>) h" "same_money h h"
  by (simp_all add: same_money_def)

lemma same_money_fill:
  assumes "realize_position_fill D h flow p = Inr op"
  shows "same_money (op_holdings op) h"
proof -
  from assms obtain own new eff where eff: "fill_effect_of D h own new flow p = Inr eff"
    and op: "(case eff of
       NeedsBasis \<Rightarrow>
         if realized_pnl_is_halted h then operation_unchanged h
         else operation_updated (h\<lparr>realized_pnl_field := Some (PnlHalted MissingCostBasis)\<rparr>)
                (Some (Inl MissingCostBasis)) None None
     | Booked avg realized \<Rightarrow>
         let realizes = (own \<noteq> 0 \<and> flow \<noteq> 0 \<and> (own > 0) \<noteq> (flow > 0));
             booked = book_realized D (realized_pnl_field h) realizes (sg_new realized)
         in operation_updated (h\<lparr>avg_entry_price := avg, realized_pnl_field := fst booked\<rparr>)
              (snd booked) (if realizes then Some (sg_new realized) else None) avg) = op"
    unfolding realize_position_fill_def
    by (fastforce simp: result_simps Let_def case_prod_beta split: fill_effect.splits if_splits)
  show ?thesis unfolding op [symmetric] by (simp add: Let_def split: fill_effect.split)
qed

lemma same_money_unpriced:
  "halt_realized_pnl_for_unpriced_fill D h flow reason = Inr op \<Longrightarrow> same_money (op_holdings op) h"
  unfolding halt_realized_pnl_for_unpriced_fill_def
  by (auto simp: same_money_def result_simps operation_updated_def Let_def case_prod_beta simp del: split_paired_Ex)

lemma same_money_leg [simp]: "same_money (snd (leg_operation D kind flow p reason h)) h"
proof -
  have "same_money (op_holdings (case realize_position_fill D h flow q of
      Inr updated \<Rightarrow> updated | Inl _ \<Rightarrow> halt_realized_pnl h PnlArithmeticOverflow)) h" for q
    by (cases "realize_position_fill D h flow q") (simp_all add: halt_realized_pnl_def same_money_fill)
  moreover have "same_money (op_holdings (case halt_realized_pnl_for_unpriced_fill D h flow r of
      Inr updated \<Rightarrow> updated | Inl _ \<Rightarrow> halt_realized_pnl h PnlArithmeticOverflow)) h" for r
    by (cases "halt_realized_pnl_for_unpriced_fill D h flow r")
      (simp_all add: halt_realized_pnl_def same_money_unpriced)
  moreover have "same_money (with_avg_entry_price h None) h" "same_money h h"
    by (simp_all add: same_money_def with_avg_entry_price_def)
  ultimately show ?thesis
    by (simp add: leg_operation_def Let_def split: leg_kind.split option.split)
qed

lemma books_recorded [simp]:
  "leg_totals_of (fst (record_position_pnl_operation D d op)) = leg_totals_of d"
  by (rule ext) (simp add: record_position_pnl_operation_def leg_totals_of_def leg_of_def Let_def
      case_prod_beta split: leg_kind.split)

lemma books_final_holdings [simp]:
  "leg_totals_of (d\<lparr>fcd_underlying := (fcd_underlying d)\<lparr>ld_final_holdings := h\<rparr>\<rparr>) = leg_totals_of d"
  by (rule ext) (simp add: leg_totals_of_def leg_of_def split: leg_kind.split)

lemma books_of_slot:
  assumes "\<And>v. f v True = f v False" and "\<And>v. same_money (fst (f v False)) v"
  shows "money_of (self\<lparr>sf_holdings := fst (store_with_mut (sf_holdings self) key holdings_zero f)\<rparr>) =
    money_of self"
  using assms(2) [of "balance_of (sf_holdings self) key"] same_money_field
  by (intro ext) (auto simp: money_of_def with_mut_balance [OF assms(1)])

lemma books_halt_position [simp]: "books (halt_position_pnl D account underlying reason st) = books st"
proof -
  let ?f = "\<lambda>slot (_ :: bool). let op = halt_realized_pnl_preserving_average slot reason
      in (op_holdings op, (op_holdings op, op))"
  have "money_of ((fst st)\<lparr>sf_holdings := fst (store_with_mut (sf_holdings (fst st)) (account, underlying)
      holdings_zero ?f)\<rparr>) = money_of (fst st)"
    by (rule books_of_slot) (simp_all add: Let_def halt_realized_pnl_preserving_average_def)
  then show ?thesis
    by (simp add: halt_position_pnl_def books_def case_prod_beta Let_def)
qed

lemma books_fold_fee [simp]: "books (fold_fee_into_realized_pnl D account underlying fee_delta st) = books st"
proof (cases fee_delta)
  case (Some delta)
  let ?f = "\<lambda>slot (_ :: bool). let op = add_realized_pnl_contribution D slot delta
      in (op_holdings op, (op_holdings op, op))"
  have "money_of ((fst st)\<lparr>sf_holdings := fst (store_with_mut (sf_holdings (fst st)) (account, underlying)
      holdings_zero ?f)\<rparr>) = money_of (fst st)"
    by (rule books_of_slot) (simp_all add: Let_def)
  then show ?thesis
    using Some books_halt_position
    by (simp add: fold_fee_into_realized_pnl_def books_def case_prod_beta Let_def)
qed (simp add: fold_fee_into_realized_pnl_def)

lemma books_record_leg [simp]: "books (record_leg_operation D account asset op st) = books st"
  using books_halt_position
  by (auto simp: record_leg_operation_def books_def case_prod_beta split: option.split)

section \<open>Exact operations\<close>

definition leg_shift :: "leg_totals \<Rightarrow> leg_kind \<Rightarrow> decimal \<Rightarrow> decimal \<Rightarrow> decimal \<Rightarrow> leg_totals" where
  "leg_shift L kind a h i =
     L(kind := (fst (L kind) + a, fst (snd (L kind)) + h, snd (snd (L kind)) + i))"

definition exact_totals :: "leg_totals \<Rightarrow> bool" where
  "exact_totals L \<longleftrightarrow> (\<forall>kind. representable (fst (L kind)) \<and> representable (fst (snd (L kind))) \<and>
     representable (snd (snd (L kind))))"

lemma leg_shift_idle [simp]: "leg_shift L kind 0 0 0 = L"
  by (simp add: leg_shift_def fun_upd_idem)

lemma credited_idle [simp]: "credited m (leg_effect k 0 0 0) = m"
  by (intro ext) (simp add: credited_def leg_effect_def split: adjustment_target.split)

lemma leg_put_totals:
  "leg_totals_of (leg_put kind leg d) =
     (leg_totals_of d)(kind := (ld_balance leg, ld_held leg, ld_incoming leg))"
  by (rule ext) (auto simp: leg_totals_of_def leg_put_def leg_of_def split: leg_kind.split)

lemma leg_of_put [simp]: "leg_of kind (leg_put kind leg d) = leg"
  by (simp add: leg_of_def leg_put_def split: leg_kind.split)

lemma books_final_put: "books_to B (final_holdings_put kind h) B"
proof (rule books_toI)
  fix st assume "books st = B"
  then show "is_ok (snd (final_holdings_put kind h st)) \<and> books (fst (final_holdings_put kind h st)) = B"
    by (auto simp: final_holdings_put_def books_def leg_put_totals leg_totals_of_def fun_eq_iff)
qed

lemma books_leg_add:
  assumes "\<And>leg. (ld_balance leg, ld_held leg, ld_incoming leg) = L kind \<Longrightarrow>
      \<exists>leg'. change leg = Inr leg' \<and> ld_balance leg' = ld_balance leg + a \<and> ld_held leg' = ld_held leg + h \<and>
        ld_incoming leg' = ld_incoming leg + i"
  shows "books_to (m, L, g) (leg_add (leg_of kind) (leg_put kind) change details)
    (m, leg_shift L kind a h i, g)"
proof (rule books_toI)
  fix st assume st: "books st = (m, L, g)"
  then have tot: "leg_totals_of (snd st) = L" by (simp add: books_def)
  then have now: "(ld_balance (leg_of kind (snd st)), ld_held (leg_of kind (snd st)),
      ld_incoming (leg_of kind (snd st))) = L kind" by (auto simp: leg_totals_of_def)
  obtain leg' where "change (leg_of kind (snd st)) = Inr leg'"
    and "ld_balance leg' = ld_balance (leg_of kind (snd st)) + a"
    and "ld_held leg' = ld_held (leg_of kind (snd st)) + h"
    and "ld_incoming leg' = ld_incoming (leg_of kind (snd st)) + i"
    using assms [OF now] by blast
  then show "is_ok (snd (leg_add (leg_of kind) (leg_put kind) change details st)) \<and>
      books (fst (leg_add (leg_of kind) (leg_put kind) change details st)) = (m, leg_shift L kind a h i, g)"
    using st tot by (auto simp: leg_add_def books_def leg_put_totals leg_shift_def leg_totals_of_def)
qed

lemma books_slot:
  assumes "\<And>h. money_field AvailableField h = m key AvailableField \<Longrightarrow> money_field HeldField h = m key HeldField \<Longrightarrow>
      money_field IncomingField h = m key IncomingField \<Longrightarrow>
      \<exists>h'. mutation h = Inr h' \<and> available h' = available h + a \<and> held h' = held h + b \<and>
        incoming h' = incoming h + i"
  shows "books_to (m, L, g) (slot_op key mutation details) (credited m (leg_effect key a b i), L, g)"
proof (rule books_toI)
  fix st assume st: "books st = (m, L, g)"
  let ?s = "sf_holdings (fst st)"
  have m: "m = money_of (fst st)" using st by (simp add: books_def)
  obtain h' where h': "mutation (balance_of ?s key) = Inr h'"
    "available h' = available (balance_of ?s key) + a" "held h' = held (balance_of ?s key) + b"
    "incoming h' = incoming (balance_of ?s key) + i"
    using assms [of "balance_of ?s key"] by (auto simp: m money_of_def)
  have "money_of ((fst st)\<lparr>sf_holdings := fst (mutate_slot ?s key mutation)\<rparr>) = credited m (leg_effect key a b i)"
    by (intro ext) (auto simp: m money_of_def credited_def leg_effect_def slots.update_balance h'
        elim: money_field.elims split: adjustment_target.split)
  moreover have "snd (mutate_slot ?s key mutation) = Inr h'" by (simp add: slots.update_result h')
  ultimately show "is_ok (snd (slot_op key mutation details st)) \<and>
      books (fst (slot_op key mutation details st)) = (credited m (leg_effect key a b i), L, g)"
    using st by (simp add: slot_op_def books_def case_prod_beta)
qed

context decimal_arith
begin

lemma books_held:
  "representable (fst (snd (L kind)) - c) \<Longrightarrow>
   books_to (m, L, g) (leg_add (leg_of kind) (leg_put kind) (held_minus D c) details) (m, leg_shift L kind 0 (- c) 0, g)"
  by (rule books_leg_add) (drule sym, simp add: held_minus_def ps_sub_exact)

lemma books_incoming:
  "representable (snd (snd (L kind)) - c) \<Longrightarrow>
   books_to (m, L, g) (leg_add (leg_of kind) (leg_put kind) (incoming_minus D c) details)
     (m, leg_shift L kind 0 0 (- c), g)"
  by (rule books_leg_add) (drule sym, simp add: incoming_minus_def ps_sub_exact)

lemma books_balance:
  "representable (fst (L kind) + c) \<Longrightarrow>
   books_to (m, L, g) (leg_add (leg_of kind) (leg_put kind) (balance_plus D c) details) (m, leg_shift L kind c 0 0, g)"
  by (rule books_leg_add) (drule sym, simp add: balance_plus_def ps_add_exact)

lemma fill_leg_exact:
  assumes "representable (held h - consume)" and "representable (available h + c)"
    and "representable (incoming h - inc)"
  shows "\<exists>h'. fill_leg_mutation D kind consume flow c inc p reason h = Inr h' \<and>
    available h' = available h + c \<and> held h' = held h + - consume \<and> incoming h' = incoming h + - inc"
proof -
  define h0 where "h0 = snd (leg_operation D kind flow p reason h)"
  have same: "available h0 = available h" "held h0 = held h" "incoming h0 = incoming h"
    using same_money_leg [of D kind flow p reason h] by (simp_all add: same_money_def h0_def)
  show ?thesis
    unfolding fill_leg_mutation_def h0_def [symmetric]
    using assms by (simp add: apply_fill_outflow_def apply_fill_inflow_def consume_incoming_def same
        ps_sub_exact ps_add_exact is_zero_def)
qed

lemma release_exact:
  assumes "representable (held h - r)" and "representable (available h + r)"
    and "representable (incoming h - inc)"
  shows "\<exists>h'. bind_res (release D h r) (\<lambda>h. if is_zero inc then Inr h else consume_incoming D h inc) = Inr h' \<and>
    available h' = available h + r \<and> held h' = held h + - r \<and> incoming h' = incoming h + - inc"
  using assms by (simp add: release_def consume_incoming_def ps_sub_exact ps_add_exact is_zero_def)

lemma exact_leg:
  assumes "exact_money (credited m (leg_effect key a b i))"
  shows "representable (m key AvailableField + a)" "representable (m key HeldField + b)"
    "representable (m key IncomingField + i)"
  using assms [unfolded exact_money_def, rule_format, of key AvailableField]
    assms [unfolded exact_money_def, rule_format, of key HeldField]
    assms [unfolded exact_money_def, rule_format, of key IncomingField]
  by (simp_all add: credited_def leg_effect_def)

lemma exact_shift:
  assumes "exact_totals (leg_shift L kind a b i)"
  shows "representable (fst (L kind) + a)" "representable (fst (snd (L kind)) + b)"
    "representable (snd (snd (L kind)) + i)"
  using assms [unfolded exact_totals_def, rule_format, of kind] by (simp_all add: leg_shift_def)

lemma leg_shift_shift [simp]:
  "leg_shift (leg_shift L kind a b i) kind a' b' i' = leg_shift L kind (a + a') (b + b') (i + i')"
  by (simp add: leg_shift_def fun_eq_iff add.assoc)

text \<open>The three deltas of a leg, in the order of a fill and in the order of a release.\<close>

lemma books_fill_deltas:
  assumes "exact_totals (leg_shift L kind c (- consume) (- inc))"
    and "books_to (m, leg_shift L kind c (- consume) (- inc), g) f B"
  shows "books_to (m, L, g)
    (fill_bind (leg_add (leg_of kind) (leg_put kind) (held_minus D consume) d0) (\<lambda>_.
     fill_bind (leg_add (leg_of kind) (leg_put kind) (incoming_minus D inc) d1) (\<lambda>_.
     fill_bind (leg_add (leg_of kind) (leg_put kind) (balance_plus D c) d2) (\<lambda>_. f)))) B"
proof (intro books_to_bind)
  note L = exact_shift [OF assms(1)]
  show "books_to (m, L, g) (leg_add (leg_of kind) (leg_put kind) (held_minus D consume) d0)
      (m, leg_shift L kind 0 (- consume) 0, g)" using L by (intro books_held) simp
  show "books_to (m, leg_shift L kind 0 (- consume) 0, g)
      (leg_add (leg_of kind) (leg_put kind) (incoming_minus D inc) d1)
      (m, leg_shift (leg_shift L kind 0 (- consume) 0) kind 0 0 (- inc), g)"
    using L by (intro books_incoming) (simp add: leg_shift_def)
  show "books_to (m, leg_shift (leg_shift L kind 0 (- consume) 0) kind 0 0 (- inc), g)
      (leg_add (leg_of kind) (leg_put kind) (balance_plus D c) d2)
      (m, leg_shift (leg_shift (leg_shift L kind 0 (- consume) 0) kind 0 0 (- inc)) kind c 0 0, g)"
    using L by (intro books_balance) (simp add: leg_shift_def)
  show "books_to (m, leg_shift (leg_shift (leg_shift L kind 0 (- consume) 0) kind 0 0 (- inc)) kind c 0 0, g) f B"
    using assms(2) by simp
qed

lemma books_release_deltas:
  assumes "exact_totals (leg_shift L kind r (- r) (- inc))"
    and "books_to (m, leg_shift L kind r (- r) (- inc), g) f B"
  shows "books_to (m, L, g)
    (fill_bind (leg_add (leg_of kind) (leg_put kind) (held_minus D r) d0) (\<lambda>_.
     fill_bind (leg_add (leg_of kind) (leg_put kind) (balance_plus D r) d1) (\<lambda>_.
     fill_bind (leg_add (leg_of kind) (leg_put kind) (incoming_minus D inc) d2) (\<lambda>_. f)))) B"
proof (intro books_to_bind)
  note L = exact_shift [OF assms(1)]
  show "books_to (m, L, g) (leg_add (leg_of kind) (leg_put kind) (held_minus D r) d0)
      (m, leg_shift L kind 0 (- r) 0, g)" using L by (intro books_held) simp
  show "books_to (m, leg_shift L kind 0 (- r) 0, g)
      (leg_add (leg_of kind) (leg_put kind) (balance_plus D r) d1)
      (m, leg_shift (leg_shift L kind 0 (- r) 0) kind r 0 0, g)"
    using L by (intro books_balance) (simp add: leg_shift_def)
  show "books_to (m, leg_shift (leg_shift L kind 0 (- r) 0) kind r 0 0, g)
      (leg_add (leg_of kind) (leg_put kind) (incoming_minus D inc) d2)
      (m, leg_shift (leg_shift (leg_shift L kind 0 (- r) 0) kind r 0 0) kind 0 0 (- inc), g)"
    using L by (intro books_incoming) (simp add: leg_shift_def)
  show "books_to (m, leg_shift (leg_shift (leg_shift L kind 0 (- r) 0) kind r 0 0) kind 0 0 (- inc), g) f B"
    using assms(2) by simp
qed

lemma books_settle_leg:
  assumes "representable (consume + flow)"
    and "exact_money (credited m (leg_effect (account, asset) (consume + flow) (- consume) (- inc)))"
    and "exact_totals (leg_shift L kind (consume + flow) (- consume) (- inc))"
  shows "books_to (m, L, g) (settle_fill_leg D account asset kind consume flow inc p reason)
    (credited m (leg_effect (account, asset) (consume + flow) (- consume) (- inc)),
     leg_shift L kind (consume + flow) (- consume) (- inc), g)"
proof (cases "consume = 0 \<and> consume + flow = 0 \<and> inc = 0")
  case True
  then show ?thesis
    by (auto simp: settle_fill_leg_def sg_checked_add_def add_exact sg_new_def is_zero_def assms(1))
next
  case False
  have slot: "books_to (m, L, g) (slot_op (account, asset)
      (fill_leg_mutation D kind consume flow (consume + flow) inc p reason) details)
      (credited m (leg_effect (account, asset) (consume + flow) (- consume) (- inc)), L, g)" for details
    using exact_leg [OF assms(2)] by (intro books_slot fill_leg_exact) simp_all
  have tail: "books_to (M, L, g)
      (fill_bind (\<lambda>st. (record_leg_operation D account asset op st, Inr ())) (\<lambda>_.
       fill_bind (leg_add (leg_of kind) (leg_put kind) (held_minus D consume) d0) (\<lambda>_.
       fill_bind (leg_add (leg_of kind) (leg_put kind) (incoming_minus D inc) d1) (\<lambda>_.
       fill_bind (leg_add (leg_of kind) (leg_put kind) (balance_plus D (consume + flow)) d2) (\<lambda>_.
       fill_bind (final_holdings_put kind h) (\<lambda>_. fill_return c))))))
      (M, leg_shift L kind (consume + flow) (- consume) (- inc), g)" for M op h c d0 d1 d2
    by (rule books_to_bind [OF books_to_pure books_fill_deltas [OF assms(3)]], simp,
        rule books_to_bind [OF books_final_put], rule books_to_return)
  have add: "sg_checked_add D PK_PositionSize consume flow = Inr (consume + flow)"
    by (simp add: sg_checked_add_def add_exact [OF assms(1)] sg_new_def)
  have idle: "(is_zero consume \<and> is_zero (consume + flow) \<and> is_zero inc) = False"
    using False by (auto simp: is_zero_def)
  show ?thesis
    unfolding settle_fill_leg_def add map_err_simps fill_bind_of idle if_False
    by (rule books_to_state, unfold Let_def, rule books_to_bind [OF slot tail])
qed

lemma books_release_leg:
  assumes "exact_money (credited m (leg_effect (account, asset) r (- r) (- inc)))"
    and "exact_totals (leg_shift L kind r (- r) (- inc))"
  shows "books_to (m, L, g) (release_leg D account asset kind r inc)
    (credited m (leg_effect (account, asset) r (- r) (- inc)), leg_shift L kind r (- r) (- inc), g)"
proof (cases "r = 0 \<and> inc = 0")
  case False
  have slot: "books_to (m, L, g) (slot_op (account, asset)
      (\<lambda>h. bind_res (release D h r) (\<lambda>h. if is_zero inc then Inr h else consume_incoming D h inc)) details)
      (credited m (leg_effect (account, asset) r (- r) (- inc)), L, g)" for details
    using exact_leg [OF assms(1)] by (intro books_slot release_exact) simp_all
  show ?thesis
    using False unfolding release_leg_def
    by (auto simp: is_zero_def simp del: de_Morgan_conj
        intro!: books_to_bind [OF slot [unfolded is_zero_def]] books_release_deltas [OF assms(2)] books_final_put)
qed (auto simp: release_leg_def is_zero_def)

end

section \<open>The account P\&L keeps the books\<close>

lemma leased_frame [simp]:
  "sf_holdings (fst (with_pnl_leased self account f)) = sf_holdings self"
  "sf_settings (fst (with_pnl_leased self account f)) = sf_settings self"
  "sf_market_orders (fst (with_pnl_leased self account f)) = sf_market_orders self"
  "sf_group_id (fst (with_pnl_leased self account f)) = sf_group_id self"
  by (auto simp: with_pnl_leased_def fresh_owner_id_def acquire_account_pnl_lease_def Let_def
      release_account_pnl_lease_def try_account_pnl_lease_def case_prod_beta split: bool.split)

lemma update_account_pnl_frame [simp]:
  "sf_holdings (fst (update_account_pnl D self account delta)) = sf_holdings self"
  "sf_settings (fst (update_account_pnl D self account delta)) = sf_settings self"
  "sf_market_orders (fst (update_account_pnl D self account delta)) = sf_market_orders self"
  "sf_group_id (fst (update_account_pnl D self account delta)) = sf_group_id self"
  by (simp_all add: update_account_pnl_def case_prod_beta split: option.split)

lemma account_pnl_reports_frame [simp]:
  "sf_holdings (fst (accrue_and_report D account currency barrier delta self)) = sf_holdings self"
  "sf_group_id (fst (accrue_and_report D account currency barrier delta self)) = sf_group_id self"
  "sf_holdings (fst (halt_and_report account currency barrier reason self)) = sf_holdings self"
  "sf_group_id (fst (halt_and_report account currency barrier reason self)) = sf_group_id self"
  by (simp_all add: accrue_and_report_def apply_account_pnl_delta_def halt_and_report_def
      halt_account_pnl_def case_prod_beta)

lemma report_fill_frame [simp]:
  "sf_holdings (fst (report_fill_pnl D account currency barrier may_halt reason delta self)) = sf_holdings self"
  "sf_group_id (fst (report_fill_pnl D account currency barrier may_halt reason delta self)) = sf_group_id self"
  by (simp_all add: report_fill_pnl_def split: option.split)

lemma books_same:
  "sf_holdings self' = sf_holdings self \<Longrightarrow> sf_group_id self' = sf_group_id self \<Longrightarrow>
   books (self', d) = books (self, d)"
  by (simp add: books_def money_of_def fun_eq_iff)

lemma books_halt_unless [simp]: "books (halt_unless_reported D account underlying reason st) = books st"
  by (simp add: halt_unless_reported_def split: option.split sum.split)

lemma books_finish_fill:
  "books_to B (finish_fill D account underlying settlement currency barrier before None moves hs fee_delta c) B"
proof (rule books_toI)
  fix st assume st: "books st = B"
  have "books (fst (report_fill_pnl D account currency barrier may_halt reason delta
      (fst (fold_fee_into_realized_pnl D account underlying f
        (halt_unless_reported D account underlying (fh_position_reason hs) st)))),
      snd (fold_fee_into_realized_pnl D account underlying f
        (halt_unless_reported D account underlying (fh_position_reason hs) st))) = B"
    for may_halt reason delta f
    using books_same [of _ "fst (fold_fee_into_realized_pnl D account underlying f
        (halt_unless_reported D account underlying (fh_position_reason hs) st))"] st
    by simp
  then show "is_ok (snd (finish_fill D account underlying settlement currency barrier before None moves hs
      fee_delta c st)) \<and> books (fst (finish_fill D account underlying settlement currency barrier before None
      moves hs fee_delta c st)) = B"
    by (simp add: finish_fill_def fill_bind_def fill_return_def Let_def case_prod_beta)
qed

section \<open>What a report stands for\<close>

definition lock_held :: "side \<Rightarrow> price \<Rightarrow> quantity \<Rightarrow> decimal" where
  "lock_held s p q = max (case s of Buy \<Rightarrow> p * q | Sell \<Rightarrow> - (p * q)) 0"

definition lock_incoming :: "side \<Rightarrow> price \<Rightarrow> quantity \<Rightarrow> decimal" where
  "lock_incoming s p q = (case s of Buy \<Rightarrow> 0 | Sell \<Rightarrow> max (p * q) 0)"

text \<open>The movement of a fill of \<open>q\<close> units at price \<open>fp\<close>, reserved at the lock price \<open>p\<close>.\<close>

definition underlying_fill :: "account_id \<Rightarrow> asset \<Rightarrow> side \<Rightarrow> quantity \<Rightarrow> money" where
  "underlying_fill account u s q =
     (case s of Buy \<Rightarrow> leg_effect (account, u) q 0 (- q) | Sell \<Rightarrow> leg_effect (account, u) 0 (- q) 0)"

definition settlement_fill :: "account_id \<Rightarrow> asset \<Rightarrow> side \<Rightarrow> price \<Rightarrow> quantity \<Rightarrow> price \<Rightarrow> money" where
  "settlement_fill account v s p q fp =
     leg_effect (account, v) (lock_held s p q + (case s of Buy \<Rightarrow> - (fp * q) | Sell \<Rightarrow> fp * q))
       (- lock_held s p q) (- lock_incoming s p q)"

definition underlying_release :: "account_id \<Rightarrow> asset \<Rightarrow> side \<Rightarrow> quantity \<Rightarrow> money" where
  "underlying_release account u s q =
     (case s of Buy \<Rightarrow> leg_effect (account, u) 0 0 (- q) | Sell \<Rightarrow> leg_effect (account, u) q (- q) 0)"

definition settlement_released :: "account_id \<Rightarrow> asset \<Rightarrow> side \<Rightarrow> price \<Rightarrow> quantity \<Rightarrow> money" where
  "settlement_released account v s p q =
     leg_effect (account, v) (lock_held s p q) (- lock_held s p q) (- lock_incoming s p q)"

lemma lock_amounts:
  assumes "decimal_arith D" and "prices_of lock (sf_group_id self) = [p]" and "representable (p * q)"
  shows "trade_quantity t = q \<Longrightarrow> settlement_fill_consume D self v s t lock = Inr (lock_held s p q)"
    and "trade_quantity t = q \<Longrightarrow> settlement_incoming_amount D self v s t lock = Inr (lock_incoming s p q)"
    and "settlement_release D self v s q lock = Inr (lock_held s p q)"
    and "settlement_incoming_release D self v s q lock = Inr (lock_incoming s p q)"
  using assms(2,3)
  by (auto simp: settlement_fill_consume_def settlement_incoming_amount_def settlement_release_def
      settlement_incoming_release_def settlement_lock_price_def single_lock_price_def
      optional_lock_price_def settlement_reserved_amount_def settlement_incoming_proceeds_def
      price_calculate_position_size_def decimal_arith.mul_exact [OF assms(1)] sg_new_def
      lock_held_def lock_incoming_def non_negative_def neg_def position_size_neg_def split: side.split)

definition shift_by :: "leg_totals \<Rightarrow> leg_kind \<Rightarrow> slot_key \<Rightarrow> money \<Rightarrow> leg_totals" where
  "shift_by L kind key e = leg_shift L kind (e key AvailableField) (e key HeldField) (e key IncomingField)"

lemma shift_by_leg [simp]: "shift_by L kind key (leg_effect key a b i) = leg_shift L kind a b i"
  by (simp add: shift_by_def leg_effect_def)

lemma credited_commute: "credited (credited m a) b = credited (credited m b) a"
  by (intro ext) (simp add: credited_def)

lemma shift_commute:
  "shift_by (shift_by L Underlying k a) Settlement j b = shift_by (shift_by L Settlement j b) Underlying k a"
  by (simp add: shift_by_def leg_shift_def fun_upd_twist)

text \<open>Two movements in different slots that are exact together are exact one by one.\<close>

definition local_to :: "slot_key \<Rightarrow> money \<Rightarrow> bool" where
  "local_to key e \<longleftrightarrow> (\<forall>k field. k \<noteq> key \<longrightarrow> e k field = 0)"

lemma local_effects [simp]:
  "local_to k (leg_effect k a b i)" "local_to (account, u) (underlying_fill account u s q)"
  "local_to (account, v) (settlement_fill account v s p q fp)"
  "local_to (account, u) (underlying_release account u s q)"
  "local_to (account, v) (settlement_released account v s p q)"
  by (auto simp: local_to_def leg_effect_def underlying_fill_def settlement_fill_def
      underlying_release_def settlement_released_def split: side.split)

lemma exact_half:
  assumes "exact_money m" and "exact_money (credited (credited m a) b)" and "local_to k a" and "local_to j b"
    and "k \<noteq> j"
  shows "exact_money (credited m a)"
proof -
  have "representable (credited m a key field)" for key field
  proof (cases "key = j")
    case True
    then show ?thesis using assms(1,3,5) by (simp add: credited_def local_to_def exact_money_def del: split_paired_All)
  next
    case False
    then show ?thesis
      using assms(2) [unfolded exact_money_def, rule_format, of key field] assms(4)
      by (simp add: credited_def local_to_def del: split_paired_All)
  qed
  then show ?thesis by (simp add: exact_money_def del: split_paired_All)
qed

lemma totals_half:
  assumes "exact_totals L" and "exact_totals (shift_by (shift_by L kind k a) kind' j b)" and "kind \<noteq> kind'"
  shows "exact_totals (shift_by L kind k a)"
  unfolding exact_totals_def
proof
  fix x
  show "representable (fst (shift_by L kind k a x)) \<and> representable (fst (snd (shift_by L kind k a x))) \<and>
      representable (snd (snd (shift_by L kind k a x)))"
    using assms(1) [unfolded exact_totals_def, rule_format, of x]
      assms(2) [unfolded exact_totals_def, rule_format, of x] assms(3)
    by (cases "x = kind") (simp_all add: shift_by_def leg_shift_def)
qed

context decimal_arith
begin

lemma books_underlying_leg:
  assumes "representable q" and "exact_money (credited m (underlying_fill account u s q))"
    and "exact_totals (shift_by L Underlying (account, u) (underlying_fill account u s q))"
  shows "books_to (m, L, g)
    (settle_fill_leg D account u Underlying (case s of Buy \<Rightarrow> 0 | Sell \<Rightarrow> q) (case s of Buy \<Rightarrow> q | Sell \<Rightarrow> neg q)
       (case s of Buy \<Rightarrow> q | Sell \<Rightarrow> 0) fp reason)
    (credited m (underlying_fill account u s q),
     shift_by L Underlying (account, u) (underlying_fill account u s q), g)"
proof (cases s)
  case Buy
  then show ?thesis
    using books_settle_leg [of 0 q m account u q L Underlying g fp reason] assms
    by (simp add: underlying_fill_def)
next
  case Sell
  then show ?thesis
    using books_settle_leg [of q "- q" m account u 0 L Underlying g fp reason] assms
    by (simp add: underlying_fill_def neg_def position_size_neg_def sg_new_def)
qed

lemma books_settlement_leg:
  assumes "representable (lock_held s p q + (case s of Buy \<Rightarrow> - (fp * q) | Sell \<Rightarrow> fp * q))"
    and "exact_money (credited m (settlement_fill account v s p q fp))"
    and "exact_totals (shift_by L Settlement (account, v) (settlement_fill account v s p q fp))"
  shows "books_to (m, L, g)
    (settle_fill_leg D account v Settlement (lock_held s p q) (case s of Buy \<Rightarrow> neg (fp * q) | Sell \<Rightarrow> fp * q)
       (lock_incoming s p q) None None)
    (credited m (settlement_fill account v s p q fp),
     shift_by L Settlement (account, v) (settlement_fill account v s p q fp), g)"
proof -
  have n: "(case s of Buy \<Rightarrow> neg (fp * q) | Sell \<Rightarrow> fp * q) = (case s of Buy \<Rightarrow> - (fp * q) | Sell \<Rightarrow> fp * q)"
    by (simp add: neg_def position_size_neg_def sg_new_def split: side.split)
  show ?thesis
    using books_settle_leg [OF assms(1), of m account v "lock_incoming s p q" L Settlement g None None] assms(2,3)
    by (simp add: settlement_fill_def n)
qed

lemma books_trade_fill:
  assumes "u \<noteq> v" and "prices_of lock g = [p]" and "nonzero_fee fee_opt = None"
    and "representable (trade_quantity t)" and "representable (p * trade_quantity t)"
    and "representable (trade_price t * trade_quantity t)"
    and "exact_money m" and "exact_totals L"
    and "uf = underlying_fill account u s (trade_quantity t)"
    and "vf = settlement_fill account v s p (trade_quantity t) (trade_price t)"
    and "representable (vf (account, v) AvailableField)"
    and "exact_money (credited (credited m uf) vf)"
    and "exact_totals (shift_by (shift_by L Underlying (account, u) uf) Settlement (account, v) vf)"
  shows "books_to (m, L, g) (apply_trade_fill D now gr currency settings account u v s t fee_opt lock)
    (credited (credited m uf) vf, shift_by (shift_by L Underlying (account, u) uf) Settlement (account, v) vf, g)"
proof -
  let ?q = "trade_quantity t" and ?fp = "trade_price t"
  have loc: "local_to (account, u) uf" "local_to (account, v) vf" "(account, u) \<noteq> (account, v)"
    using assms(1) by (simp_all add: assms(9,10))
  note ex = exact_half [OF assms(7,12) loc]
    exact_half [OF assms(7) assms(12) [unfolded credited_commute [of m uf vf]] loc(2,1) loc(3) [symmetric]]
  have tot: "exact_totals (shift_by L Underlying (account, u) uf)" "exact_totals (shift_by L Settlement (account, v) vf)"
    using totals_half [OF assms(8,13)] totals_half [OF assms(8) assms(13) [unfolded shift_commute]] by simp_all
  have rep: "representable (lock_held s p ?q + (case s of Buy \<Rightarrow> - (?fp * ?q) | Sell \<Rightarrow> ?fp * ?q))"
    using assms(11) by (simp add: assms(10) settlement_fill_def leg_effect_def)
  let ?ul = "\<lambda>price reason. settle_fill_leg D account u Underlying (case s of Buy \<Rightarrow> 0 | Sell \<Rightarrow> ?q)
      (case s of Buy \<Rightarrow> ?q | Sell \<Rightarrow> neg ?q) (case s of Buy \<Rightarrow> ?q | Sell \<Rightarrow> 0) price reason"
  let ?vl = "settle_fill_leg D account v Settlement (lock_held s p ?q)
      (case s of Buy \<Rightarrow> neg (?fp * ?q) | Sell \<Rightarrow> ?fp * ?q) (lock_incoming s p ?q) None None"
  have legs: "books_to (m, L, g) (settle_legs s (?ul price reason) ?vl)
      (credited (credited m uf) vf, shift_by (shift_by L Underlying (account, u) uf) Settlement (account, v) vf, g)"
    for price reason
  proof (cases s)
    case Buy
    note first = books_settlement_leg [OF rep, of m account v L g, folded assms(10), OF ex(2) tot(2)]
    have second: "books_to (credited m vf, shift_by L Settlement (account, v) vf, g) (?ul price reason)
        (credited (credited m vf) uf, shift_by (shift_by L Settlement (account, v) vf) Underlying (account, u) uf, g)"
      using books_underlying_leg [OF assms(4), of "credited m vf" account u s _ g price reason, folded assms(9)]
        assms(12,13) by (simp add: credited_commute [of m vf] shift_commute)
    from Buy show ?thesis
      using books_to_bind [OF first second] by (simp add: settle_legs_def credited_commute [of m vf] shift_commute)
  next
    case Sell
    note first = books_underlying_leg [OF assms(4), of m account u s L g price reason, folded assms(9), OF ex(1) tot(1)]
    note second = books_settlement_leg [OF rep, of "credited m uf" account v _ g, folded assms(10), OF assms(12,13)]
    from Sell show ?thesis
      using books_to_bind [OF first books_to_bind [OF second books_to_return]] by (simp add: settle_legs_def)
  qed
  have notional: "price_calculate_position_size D ?fp ?q = Inr (?fp * ?q)"
    by (simp add: price_calculate_position_size_def mul_exact [OF assms(6)] sg_new_def)
  have qty: "quantity_to_position_size ?q = ?q" by (simp add: quantity_to_position_size_def sg_new_def)
  show ?thesis
  proof (rule books_toI)
    fix st assume st: "books st = (m, L, g)"
    then have "prices_of lock (sf_group_id (fst st)) = [p]" using assms(2) by (simp add: books_def)
    note lock = lock_amounts [OF decimal_arith_axioms this assms(5)]
    obtain price reason hs fd where ev: "evaluate_fill D now (fst st) gr currency account u v ?fp
        (\<not> is_zero (case s of Buy \<Rightarrow> ?q | Sell \<Rightarrow> neg ?q)) None = (price, reason, hs, fd)"
      by (metis prod_cases4)
    have "apply_trade_fill D now gr currency settings account u v s t fee_opt lock st =
        fill_bind (settle_legs s (?ul price reason) ?vl)
          (finish_fill D account u v currency (pnl_barrier_for settings account gr currency)
            (account_halt_before (fst st) account) None (\<not> is_zero (case s of Buy \<Rightarrow> ?q | Sell \<Rightarrow> neg ?q)) hs fd) st"
      unfolding apply_trade_fill_def Let_def notional map_err_simps fill_bind_of qty assms(3) ev prod.case
        lock(1) [OF refl] lock(2) [OF refl] by (rule refl)
    then show "is_ok (snd (apply_trade_fill D now gr currency settings account u v s t fee_opt lock st)) \<and>
        books (fst (apply_trade_fill D now gr currency settings account u v s t fee_opt lock st)) =
        (credited (credited m uf) vf, shift_by (shift_by L Underlying (account, u) uf) Settlement (account, v) vf, g)"
      using books_toD [OF books_to_bind [OF legs books_finish_fill] st] by simp
  qed
qed

lemma books_release_legs:
  assumes "u \<noteq> v" and "prices_of lock g = [p]" and "representable q" and "representable (p * q)"
    and "exact_money m" and "exact_totals L"
    and "ur = underlying_release account u s q" and "vr = settlement_released account v s p q"
    and "exact_money (credited (credited m ur) vr)"
    and "exact_totals (shift_by (shift_by L Underlying (account, u) ur) Settlement (account, v) vr)"
  shows "books_to (m, L, g) (apply_cancel_release D account u v s q lock)
    (credited (credited m ur) vr, shift_by (shift_by L Underlying (account, u) ur) Settlement (account, v) vr, g)"
proof (rule books_toI)
  fix st assume st: "books st = (m, L, g)"
  then have "prices_of lock (sf_group_id (fst st)) = [p]" using assms(2) by (simp add: books_def)
  note lock = lock_amounts(3,4) [OF decimal_arith_axioms this assms(4)]
  have loc: "local_to (account, u) ur" "local_to (account, v) vr" "(account, u) \<noteq> (account, v)"
    using assms(1) by (simp_all add: assms(7,8))
  note ex = exact_half [OF assms(5,9) loc] and tot = totals_half [OF assms(6,10)]
  have ul: "books_to (m, L, g) (release_leg D account u Underlying
      (case s of Buy \<Rightarrow> 0 | Sell \<Rightarrow> q) (case s of Buy \<Rightarrow> q | Sell \<Rightarrow> 0))
      (credited m ur, shift_by L Underlying (account, u) ur, g)"
    using books_release_leg [of m account u "case s of Buy \<Rightarrow> 0 | Sell \<Rightarrow> q"
        "case s of Buy \<Rightarrow> q | Sell \<Rightarrow> 0" L Underlying g] ex tot
    by (simp add: assms(7) underlying_release_def split: side.splits)
  have vl: "books_to (credited m ur, shift_by L Underlying (account, u) ur, g)
      (release_leg D account v Settlement (lock_held s p q) (lock_incoming s p q))
      (credited (credited m ur) vr, shift_by (shift_by L Underlying (account, u) ur) Settlement (account, v) vr, g)"
    using books_release_leg [of "credited m ur" account v "lock_held s p q" "lock_incoming s p q" _ Settlement g] 
      assms(9,10) by (simp add: assms(8) settlement_released_def)
  have "quantity_to_position_size q = q" by (simp add: quantity_to_position_size_def sg_new_def)
  then show "is_ok (snd (apply_cancel_release D account u v s q lock st)) \<and>
      books (fst (apply_cancel_release D account u v s q lock st)) =
      (credited (credited m ur) vr, shift_by (shift_by L Underlying (account, u) ur) Settlement (account, v) vr, g)"
    using books_toD [OF books_to_bind [OF ul vl] st]
    by (simp add: apply_cancel_release_def lock)
qed

end

section \<open>The effect of a report\<close>

definition filled_quantity :: "execution_request_view \<Rightarrow> quantity" where
  "filled_quantity r = (case erv_last_trade r of Some t \<Rightarrow> trade_quantity t | None \<Rightarrow> 0)"

definition fill_price_of :: "execution_request_view \<Rightarrow> price" where
  "fill_price_of r = (case erv_last_trade r of Some t \<Rightarrow> trade_price t | None \<Rightarrow> 0)"

definition released_quantity :: "execution_request_view \<Rightarrow> quantity" where
  "released_quantity r = (if erv_is_final r then erv_remaining r else 0)"

definition released_effect :: "account_id \<Rightarrow> instrument \<Rightarrow> side \<Rightarrow> price \<Rightarrow> quantity \<Rightarrow> money" where
  "released_effect account i s p q =
     credited (underlying_release account (underlying_asset i) s q)
       (settlement_released account (settlement_asset i) s p q)"

definition filled_effect :: "account_id \<Rightarrow> instrument \<Rightarrow> side \<Rightarrow> price \<Rightarrow> quantity \<Rightarrow> price \<Rightarrow> money" where
  "filled_effect account i s p q fp =
     credited (underlying_fill account (underlying_asset i) s q)
       (settlement_fill account (settlement_asset i) s p q fp)"

text \<open>A trade by itself: the underlying one way, its notional the other way.\<close>

definition trade_effect :: "account_id \<Rightarrow> instrument \<Rightarrow> side \<Rightarrow> quantity \<Rightarrow> price \<Rightarrow> money" where
  "trade_effect account i s q fp =
     credited (leg_effect (account, underlying_asset i) (case s of Buy \<Rightarrow> q | Sell \<Rightarrow> - q) 0 0)
       (leg_effect (account, settlement_asset i) (case s of Buy \<Rightarrow> - (fp * q) | Sell \<Rightarrow> fp * q) 0 0)"

definition report_effect :: "price \<Rightarrow> execution_request_view \<Rightarrow> money" where
  "report_effect p r =
     credited (filled_effect (erv_account r) (erv_instrument r) (erv_side r) p (filled_quantity r) (fill_price_of r))
       (released_effect (erv_account r) (erv_instrument r) (erv_side r) p (released_quantity r))"

definition exact_report :: "price \<Rightarrow> execution_request_view \<Rightarrow> money \<Rightarrow> bool" where
  "exact_report p r m \<longleftrightarrow>
     (let f = filled_effect (erv_account r) (erv_instrument r) (erv_side r) p (filled_quantity r) (fill_price_of r)
      in representable (filled_quantity r) \<and> representable (released_quantity r) \<and>
         representable (p * filled_quantity r) \<and> representable (p * released_quantity r) \<and>
         representable (fill_price_of r * filled_quantity r) \<and>
         exact_money m \<and> exact_money f \<and> exact_money (credited m f) \<and>
         exact_money (report_effect p r) \<and> exact_money (credited m (report_effect p r)))"

lemma effect_sums:
  "filled_effect account i s p q fp k field = released_effect account i s p q k field + trade_effect account i s q fp k field"
  by (auto simp: filled_effect_def released_effect_def trade_effect_def credited_def underlying_fill_def
      settlement_fill_def underlying_release_def settlement_released_def leg_effect_def
      split: side.split adjustment_target.split)

lemma lock_additive:
  assumes "0 \<le> a" and "0 \<le> b"
  shows "lock_held s p (a + b) = lock_held s p a + lock_held s p b"
    and "lock_incoming s p (a + b) = lock_incoming s p a + lock_incoming s p b"
proof -
  have "max (x + y) 0 = max x 0 + max y 0 \<and> max (- x - y) 0 = max (- x) 0 + max (- y) 0"
    if "0 \<le> x \<and> 0 \<le> y \<or> x \<le> 0 \<and> y \<le> 0" for x y :: decimal
    using that by auto
  moreover have "0 \<le> p * a \<and> 0 \<le> p * b \<or> p * a \<le> 0 \<and> p * b \<le> 0"
    using assms by (cases "0 \<le> p") (auto intro: mult_nonneg_nonneg mult_nonpos_nonneg)
  ultimately have "max (p * a + p * b) 0 = max (p * a) 0 + max (p * b) 0 \<and>
      max (- (p * a) - p * b) 0 = max (- (p * a)) 0 + max (- (p * b)) 0" by blast
  then show "lock_held s p (a + b) = lock_held s p a + lock_held s p b"
    and "lock_incoming s p (a + b) = lock_incoming s p a + lock_incoming s p b"
    by (simp_all add: lock_held_def lock_incoming_def distrib_left split: side.split)
qed

lemma released_additive:
  "0 \<le> a \<Longrightarrow> 0 \<le> b \<Longrightarrow>
   released_effect account i s p (a + b) k field =
     released_effect account i s p a k field + released_effect account i s p b k field"
  by (auto simp: released_effect_def credited_def underlying_release_def settlement_released_def
      leg_effect_def lock_additive split: side.split adjustment_target.split)

abbreviation no_totals :: leg_totals where
  "no_totals \<equiv> \<lambda>_. (0, 0, 0)"

definition effect_totals :: "account_id \<Rightarrow> instrument \<Rightarrow> leg_totals \<Rightarrow> money \<Rightarrow> money \<Rightarrow> leg_totals" where
  "effect_totals account i L a b =
     shift_by (shift_by L Underlying (account, underlying_asset i) a) Settlement (account, settlement_asset i) b"

lemma zero_effects:
  "credited m (filled_effect account i s p 0 fp) = m" "credited m (released_effect account i s p 0) = m"
  "effect_totals account i L (underlying_fill account (underlying_asset i) s 0)
     (settlement_fill account (settlement_asset i) s p 0 fp) = L"
  "effect_totals account i L (underlying_release account (underlying_asset i) s 0)
     (settlement_released account (settlement_asset i) s p 0) = L"
  by (auto simp: filled_effect_def released_effect_def credited_def underlying_fill_def settlement_fill_def
      underlying_release_def settlement_released_def leg_effect_def lock_held_def lock_incoming_def fun_eq_iff
      effect_totals_def shift_by_def leg_shift_def split: side.split adjustment_target.split)

lemma exact_effect_totals:
  assumes "exact_money (credited a b)" and "local_to (account, underlying_asset i) a"
    and "local_to (account, settlement_asset i) b" and "underlying_asset i \<noteq> settlement_asset i"
  shows "exact_totals (effect_totals account i no_totals a b)"
proof -
  have "representable (a (account, underlying_asset i) field)" and "representable (b (account, settlement_asset i) field)"
    for field
    using assms(1) [unfolded exact_money_def, rule_format, of "(account, underlying_asset i)" field]
      assms(1) [unfolded exact_money_def, rule_format, of "(account, settlement_asset i)" field] assms(2-4)
    by (simp_all add: credited_def local_to_def)
  then show ?thesis
    by (auto simp: exact_totals_def effect_totals_def shift_by_def leg_shift_def)
qed

lemma effect_totals_twice:
  "effect_totals account i (effect_totals account i L a b) c d =
     effect_totals account i L (credited a c) (credited b d)"
  by (simp add: effect_totals_def shift_by_def leg_shift_def credited_def fun_eq_iff add.assoc)

lemma books_start: "books (self, deltas_new) = (money_of self, no_totals, sf_group_id self)"
  by (simp add: books_def deltas_new_def leg_delta_new_def leg_totals_of_def leg_of_def fun_eq_iff
      split: leg_kind.split)

context decimal_arith
begin

lemma books_economics:
  assumes "underlying_asset (erv_instrument r) \<noteq> settlement_asset (erv_instrument r)"
    and "prices_of (erv_lock r) g = [p]" and "nonzero_fee (erv_fee r) = None" and "exact_report p r m"
    and "books st = (m, no_totals, g)"
    and "uf = underlying_fill (erv_account r) (underlying_asset (erv_instrument r)) (erv_side r) (filled_quantity r)"
    and "vf = settlement_fill (erv_account r) (settlement_asset (erv_instrument r)) (erv_side r) p
      (filled_quantity r) (fill_price_of r)"
  shows "books (fst (apply_report_economics D now r (report_scope r e) st)) =
    (credited m (credited uf vf), effect_totals (erv_account r) (erv_instrument r) no_totals uf vf, g)"
proof (cases "erv_last_trade r")
  case None
  then show ?thesis
    using assms(3,5) zero_effects(1) [unfolded filled_effect_def]
    by (simp add: apply_report_economics_def report_scope_def assms(6,7) filled_quantity_def fill_price_of_def
        zero_effects Let_def)
next
  case (Some t)
  have q: "filled_quantity r = trade_quantity t" "fill_price_of r = trade_price t"
    using Some by (simp_all add: filled_quantity_def fill_price_of_def)
  have ex: "exact_money (credited uf vf)" "exact_money (credited (credited m uf) vf)" "exact_money m"
    using assms(4) by (simp_all add: exact_report_def Let_def filled_effect_def assms(6,7) credited_def
        add.assoc exact_money_def)
  have loc: "local_to (erv_account r, underlying_asset (erv_instrument r)) uf"
    "local_to (erv_account r, settlement_asset (erv_instrument r)) vf" by (simp_all add: assms(6,7))
  have av: "representable (vf (erv_account r, settlement_asset (erv_instrument r)) AvailableField)"
    using ex(1) [unfolded exact_money_def, rule_format,
        of "(erv_account r, settlement_asset (erv_instrument r))" AvailableField] loc(1) assms(1)
    by (simp add: credited_def local_to_def)
  have rep: "representable (trade_quantity t)" "representable (p * trade_quantity t)"
    "representable (trade_price t * trade_quantity t)"
    using assms(4) by (simp_all add: exact_report_def Let_def q)
  have zero: "exact_totals no_totals" by (simp add: exact_totals_def)
  note fill = books_trade_fill [OF assms(1,2,3) rep ex(3) zero assms(6) [unfolded q] assms(7) [unfolded q] av ex(2)
      exact_effect_totals [OF ex(1) loc assms(1), unfolded effect_totals_def]]
  have split: "credited (credited m uf) vf = credited m (credited uf vf)"
    by (intro ext) (simp add: credited_def)
  show ?thesis
    using Some books_toD [OF fill assms(5)]
    by (simp add: apply_report_economics_def report_scope_def Let_def case_prod_beta effect_totals_def split)
qed

lemma books_cancel:
  assumes "underlying_asset (erv_instrument r) \<noteq> settlement_asset (erv_instrument r)"
    and "prices_of (erv_lock r) g = [p]" and "representable (released_quantity r)"
    and "representable (p * released_quantity r)" and "exact_money m" and "exact_totals L"
    and "books st = (m, L, g)"
    and "ur = underlying_release (erv_account r) (underlying_asset (erv_instrument r)) (erv_side r)
      (released_quantity r)"
    and "vr = settlement_released (erv_account r) (settlement_asset (erv_instrument r)) (erv_side r) p
      (released_quantity r)"
    and "exact_money (credited m (credited ur vr))"
    and "exact_totals (effect_totals (erv_account r) (erv_instrument r) L ur vr)"
  shows "books (fst (apply_report_cancel D r st)) =
    (credited m (credited ur vr), effect_totals (erv_account r) (erv_instrument r) L ur vr, g)"
proof (cases "erv_is_final r \<and> \<not> is_zero (erv_remaining r)")
  case False
  then have "released_quantity r = 0" by (auto simp: released_quantity_def is_zero_def)
  then show ?thesis
    using False assms(7) zero_effects(2) [unfolded released_effect_def]
    by (auto simp: apply_report_cancel_def assms(8,9) zero_effects)
next
  case True
  then have q: "released_quantity r = erv_remaining r" by (simp add: released_quantity_def)
  have split: "credited (credited m ur) vr = credited m (credited ur vr)"
    by (intro ext) (simp add: credited_def)
  have cancel: "books_to (m, L, g) (apply_cancel_release D (erv_account r) (underlying_asset (erv_instrument r))
      (settlement_asset (erv_instrument r)) (erv_side r) (erv_remaining r) (erv_lock r))
      (credited m (credited ur vr), effect_totals (erv_account r) (erv_instrument r) L ur vr, g)"
    using books_release_legs [OF assms(1,2) assms(3,4) [unfolded q] assms(5,6) assms(8,9) [unfolded q]]
      assms(10,11) by (simp add: split effect_totals_def)
  show ?thesis
    using True books_toD [OF cancel assms(7)]
    by (auto simp: apply_report_cancel_def is_ok_iff case_prod_beta split: sum.split)
qed

lemma report_moves_money:
  assumes "underlying_asset (erv_instrument r) \<noteq> settlement_asset (erv_instrument r)"
    and "prices_of (erv_lock r) (sf_group_id (eng_policy_state e)) = [p]"
    and "nonzero_fee (erv_fee r) = None" and "exact_report p r (money_of (eng_policy_state e))"
  shows "money_of (eng_policy_state (fst (apply_execution_request_impl D now r e))) =
      credited (money_of (eng_policy_state e)) (report_effect p r)"
    and "sf_group_id (eng_policy_state (fst (apply_execution_request_impl D now r e))) =
      sf_group_id (eng_policy_state e)"
proof -
  let ?m = "money_of (eng_policy_state e)" and ?g = "sf_group_id (eng_policy_state e)"
  let ?a = "erv_account r" and ?i = "erv_instrument r" and ?s = "erv_side r"
  define uf where "uf = underlying_fill ?a (underlying_asset ?i) ?s (filled_quantity r)"
  define vf where "vf = settlement_fill ?a (settlement_asset ?i) ?s p (filled_quantity r) (fill_price_of r)"
  define ur where "ur = underlying_release ?a (underlying_asset ?i) ?s (released_quantity r)"
  define vr where "vr = settlement_released ?a (settlement_asset ?i) ?s p (released_quantity r)"
  define st where "st = fst (apply_report_economics D now r (report_scope r e) (eng_policy_state e, deltas_new))"
  have f: "filled_effect ?a ?i ?s p (filled_quantity r) (fill_price_of r) = credited uf vf"
    and eff: "report_effect p r = credited (credited uf vf) (credited ur vr)"
    by (simp_all add: report_effect_def filled_effect_def released_effect_def uf_def vf_def ur_def vr_def)
  have loc: "local_to (?a, underlying_asset ?i) uf" "local_to (?a, settlement_asset ?i) vf"
    "local_to (?a, underlying_asset ?i) (credited uf ur)" "local_to (?a, settlement_asset ?i) (credited vf vr)"
    using local_effects(2-5) by (simp_all add: uf_def vf_def ur_def vr_def local_to_def credited_def)
  have perm: "credited (credited uf ur) (credited vf vr) = report_effect p r"
    "credited (credited ?m (credited uf vf)) (credited ur vr) = credited ?m (report_effect p r)"
    by (intro ext, simp add: eff credited_def)+
  note ex = assms(4) [unfolded exact_report_def Let_def f]
  have one: "books st = (credited ?m (credited uf vf), effect_totals ?a ?i no_totals uf vf, ?g)"
    unfolding st_def by (rule books_economics [OF assms(1-4) books_start uf_def vf_def])
  have tot: "exact_totals (effect_totals ?a ?i no_totals uf vf)"
    "exact_totals (effect_totals ?a ?i (effect_totals ?a ?i no_totals uf vf) ur vr)"
    using ex exact_effect_totals [OF _ loc(1,2) assms(1)] exact_effect_totals [OF _ loc(3,4) assms(1)]
    by (simp_all add: effect_totals_twice perm(1))
  have "books (fst (apply_report_cancel D r st)) = (credited ?m (report_effect p r),
      effect_totals ?a ?i (effect_totals ?a ?i no_totals uf vf) ur vr, ?g)"
    using books_cancel [OF assms(1,2) _ _ _ tot(1) one ur_def vr_def _ tot(2)] ex by (simp add: perm(2))
  moreover have "eng_policy_state (fst (apply_execution_request_impl D now r e)) =
      fst (fst (apply_report_cancel D r st))"
    by (simp add: apply_execution_request_impl_def Let_def case_prod_beta st_def)
  ultimately show "money_of (eng_policy_state (fst (apply_execution_request_impl D now r e))) =
      credited ?m (report_effect p r)"
    and "sf_group_id (eng_policy_state (fst (apply_execution_request_impl D now r e))) = ?g"
    by (simp_all add: books_def)
qed

end

section \<open>The life of an order\<close>

text \<open>The reports of an order, from the books they start with.\<close>

fun exact_reports :: "price \<Rightarrow> (instant \<times> execution_request_view) list \<Rightarrow> money \<Rightarrow> bool" where
  "exact_reports p [] m \<longleftrightarrow> True"
| "exact_reports p ((now, r) # rs) m \<longleftrightarrow>
     exact_report p r m \<and> exact_reports p rs (credited m (report_effect p r))"

text \<open>The reports of one order carry its account, instrument, side and lock; here they charge no fee.\<close>

definition report_for :: "order_request_view \<Rightarrow> pre_trade_lock \<Rightarrow> execution_request_view \<Rightarrow> bool" where
  "report_for request lock r \<longleftrightarrow>
     erv_instrument r = orv_instrument request \<and> erv_account r = orv_account request \<and>
     erv_side r = orv_side request \<and> erv_lock r = lock \<and> nonzero_fee (erv_fee r) = None \<and>
     0 \<le> filled_quantity r \<and> 0 \<le> released_quantity r"

abbreviation settled_quantity :: "(instant \<times> execution_request_view) list \<Rightarrow> quantity" where
  "settled_quantity rs \<equiv> \<Sum>r\<leftarrow>map snd rs. filled_quantity r + released_quantity r"

definition trades_effect :: "(instant \<times> execution_request_view) list \<Rightarrow> money" where
  "trades_effect rs key field =
     (\<Sum>r\<leftarrow>map snd rs. trade_effect (erv_account r) (erv_instrument r) (erv_side r) (filled_quantity r)
        (fill_price_of r) key field)"

lemma reports_move_money:
  assumes "decimal_arith D"
    and "underlying_asset (orv_instrument request) \<noteq> settlement_asset (orv_instrument request)"
    and "prices_of lock (sf_group_id (eng_policy_state e)) = [p]"
    and "\<forall>r\<in>set (map snd rs). report_for request lock r"
    and "exact_reports p rs (money_of (eng_policy_state e))"
  shows "money_of (eng_policy_state (apply_reports D rs e)) key field =
      money_of (eng_policy_state e) key field + (\<Sum>r\<leftarrow>map snd rs. report_effect p r key field)"
  using assms(3-5)
proof (induction rs arbitrary: e)
  case (Cons a rs)
  obtain now r where a: "a = (now, r)" by force
  have r: "underlying_asset (erv_instrument r) \<noteq> settlement_asset (erv_instrument r)"
    "prices_of (erv_lock r) (sf_group_id (eng_policy_state e)) = [p]" "nonzero_fee (erv_fee r) = None"
    "exact_report p r (money_of (eng_policy_state e))"
    using Cons.prems assms(2) by (auto simp: a report_for_def)
  note step = decimal_arith.report_moves_money [OF assms(1) r, where now = now]
  show ?case
    using Cons.IH [of "fst (apply_execution_request_impl D now r e)"] Cons.prems
    by (simp add: a step credited_def [abs_def] add.assoc)
qed simp

lemma report_effects_sum:
  assumes "\<forall>r\<in>set (map snd rs). report_for request lock r"
  shows "(\<Sum>r\<leftarrow>map snd rs. report_effect p r key field) =
      released_effect (orv_account request) (orv_instrument request) (orv_side request) p
        (settled_quantity rs) key field + trades_effect rs key field"
    and "0 \<le> settled_quantity rs"
  using assms
proof (induction rs)
  case Nil
  {
    case 1
    show ?case
      using fun_cong [OF fun_cong [OF zero_effects(2) [of "\<lambda>_ _. 0"]], of _ _ _ _ key field]
      by (simp add: trades_effect_def credited_def)
  next
    case 2
    show ?case by simp
  }
next
  case (Cons a rs)
  {
    case 1
    then show ?case
      using Cons by (auto simp: report_for_def report_effect_def credited_def effect_sums released_additive
          trades_effect_def)
  next
    case 2
    then show ?case using Cons by (auto simp: report_for_def)
  }
qed

subsection \<open>Its reservation\<close>

lemma reserve_asset_locks:
  assumes "reserve_asset D account asset a i mode limit e ms outcome = (e', ms', Inr outcome')"
  shows "ptr_lock_prices outcome' = ptr_lock_prices outcome"
  using assms by (auto simp: reserve_asset_eq Let_def push_entry_def split: if_splits sum.splits)

lemma reserve_asset_group:
  "sf_group_id (eng_policy_state (fst (reserve_asset D account asset a i mode limit e ms outcome))) =
     sf_group_id (eng_policy_state e)"
  by (simp add: reserve_asset_eq Let_def begin_holdings_mutation_def end_holdings_mutation_def
      split: sum.split)

lemma reserve_steps_locks:
  assumes "reserve_steps D account steps controls e ms = (e', ms', Inr outcome)"
  shows "ptr_lock_prices outcome = []" and "sf_group_id (eng_policy_state e') = sf_group_id (eng_policy_state e)"
proof -
  obtain s0 s1 mode l0 l1 where sc: "steps = (s0, s1)" "controls = (mode, l0, l1)" by (metis prod.exhaust)
  obtain e1 ms1 o1 where one: "reserve_asset D account (rs_asset s0) (rs_held s0) (rs_incoming s0) mode l0 e ms
      policy_pre_trade_result_empty = (e1, ms1, Inr o1)"
    and two: "reserve_asset D account (rs_asset s1) (rs_held s1) (rs_incoming s1) mode l1 e1 ms1 o1 =
      (e', ms', Inr outcome)"
    using assms by (auto simp: reserve_steps_def sc split: prod.splits sum.splits)
  show "ptr_lock_prices outcome = []"
    using reserve_asset_locks [OF one] reserve_asset_locks [OF two]
    by (simp add: policy_pre_trade_result_empty_def)
  show "sf_group_id (eng_policy_state e') = sf_group_id (eng_policy_state e)"
    using reserve_asset_group [of D account "rs_asset s0" "rs_held s0" "rs_incoming s0" mode l0 e ms
        policy_pre_trade_result_empty] reserve_asset_group [of D account "rs_asset s1" "rs_held s1"
        "rs_incoming s1" mode l1 e1 ms1 o1] one two by simp
qed

lemma live_order_locks:
  assumes "read_order_request ctx ord = Inr request" and "\<not> ctx_drop_copy ctx"
    and "perform_pre_trade_check_impl D now ctx ord pl ms = (pl', ms', Inr (Some outcome))"
  shows "\<exists>legs. compute_reservation_legs D now (eng_policy_state (pl_engine pl)) request
      (group_of (eng_groups (pl_engine pl)) (orv_account request)) (ctx_drop_copy ctx) = Inr legs \<and>
    ptr_lock_prices outcome = (case rl_lock_price legs of Some p \<Rightarrow> [p] | None \<Rightarrow> [])"
    and "sf_group_id (eng_policy_state (pl_engine pl')) = sf_group_id (eng_policy_state (pl_engine pl))"
proof -
  have run: "reserve_request D now ctx request pl ms = (pl', ms', Inr (Some outcome))"
    using assms by (auto simp: perform_pre_trade_check_impl_def perform_pre_trade_request_impl_def Let_def
        split: sum.splits)
  then obtain legs where legs: "compute_reservation_legs D now (eng_policy_state (pl_engine pl)) request
      (group_of (eng_groups (pl_engine pl)) (orv_account request)) (ctx_drop_copy ctx) = Inr legs"
    by (auto simp: reserve_request_def Let_def split: sum.splits)
  define st where "st = reservation_steps legs (underlying_asset (orv_instrument request))
      (settlement_asset (orv_instrument request)) (orv_side request)"
  define co where "co = reservation_controls D (sf_settings (eng_policy_state (pl_engine pl))) (orv_account request)
      (group_of (eng_groups (pl_engine pl)) (orv_account request)) (ctx_drop_copy ctx) st"
  obtain e' o1 where steps: "reserve_steps D (orv_account request) st co (pl_engine pl) ms = (e', ms', Inr o1)"
    and out: "outcome = push_lock_price (rl_lock_price legs) o1" "pl_engine pl' = e'"
    using run by (auto simp: reserve_request_def legs Let_def st_def [symmetric] co_def [symmetric]
        split: sum.splits prod.splits)
  note locks = reserve_steps_locks [OF steps]
  show "\<exists>legs. compute_reservation_legs D now (eng_policy_state (pl_engine pl)) request
      (group_of (eng_groups (pl_engine pl)) (orv_account request)) (ctx_drop_copy ctx) = Inr legs \<and>
    ptr_lock_prices outcome = (case rl_lock_price legs of Some p \<Rightarrow> [p] | None \<Rightarrow> [])"
    using legs locks(1) by (auto simp: out push_lock_price_def split: option.split)
  show "sf_group_id (eng_policy_state (pl_engine pl')) = sf_group_id (eng_policy_state (pl_engine pl))"
    using locks(2) by (simp add: out)
qed

lemma quantity_legs:
  assumes "decimal_arith D" and "compute_reservation_legs D now self request g drop_copy = Inr legs"
    and "orv_trade_amount request = TA_Quantity q" and "rl_lock_price legs = Some p" and "representable (p * q)"
  shows "rl_settlement legs = lock_held (orv_side request) p q"
    and "rl_settlement_incoming legs = lock_incoming (orv_side request) p q"
    and "rl_underlying legs = (case orv_side request of Buy \<Rightarrow> 0 | Sell \<Rightarrow> q)"
    and "rl_base_incoming legs = (case orv_side request of Buy \<Rightarrow> q | Sell \<Rightarrow> 0)"
  using assms(2-5)
  by (auto simp: compute_reservation_legs_def buy_reservation_legs_def sell_reservation_legs_def result_simps
      price_calculate_position_size_def decimal_arith.mul_exact [OF assms(1)] sg_new_def lock_held_def
      lock_incoming_def non_negative_def neg_def position_size_neg_def quantity_to_position_size_def
      split: side.splits)

lemma reservation_money:
  assumes "reservation_steps legs (underlying_asset i) (settlement_asset i) s = (s0, s1)"
    and "rl_settlement legs = lock_held s p q" and "rl_settlement_incoming legs = lock_incoming s p q"
    and "rl_underlying legs = (case s of Buy \<Rightarrow> 0 | Sell \<Rightarrow> q)"
    and "rl_base_incoming legs = (case s of Buy \<Rightarrow> q | Sell \<Rightarrow> 0)"
  shows "money_field field (apply_step account s1 (apply_step account s0 b) key) =
      money_field field (b key) - released_effect account i s p q key field"
  using assms
  by (cases field; cases s)
    (auto simp: reservation_steps_def Let_def apply_step_def reserved_def released_effect_def credited_def
      underlying_release_def settlement_released_def leg_effect_def)

text \<open>
  (C1) No money is lost between an order and its last report: once the filled quantities and the released
  remainders of its reports add up to the ordered quantity, every held and every incoming amount is back
  at its value before the order, and the available amounts have moved by the trades alone, at the prices
  of the fills, whatever the lock price was, in whatever order fills and releases arrive, and whatever
  the P\&L did. (Limit and market orders by quantity, without fees; no amount needs rounding.)
\<close>

theorem order_lifecycle_conserves_money:
  assumes "decimal_arith D" and "read_order_request ctx ord = Inr request" and "\<not> ctx_drop_copy ctx"
    and "orv_trade_amount request = TA_Quantity q"
    and "underlying_asset (orv_instrument request) \<noteq> settlement_asset (orv_instrument request)"
    and "exact_order D now ctx request (pl_engine pl)"
    and "active_count (eng_policy_state (pl_engine pl)) (orv_account request) + 1 < USIZE_MAX"
    and "perform_pre_trade_check_impl D now ctx ord pl ms = (pl', ms', Inr (Some outcome))"
    and "ptr_lock_prices outcome = [p]" and "representable (p * q)"
    and "prices_of lock (sf_group_id (eng_policy_state (pl_engine pl))) = ptr_lock_prices outcome"
    and "\<forall>r\<in>set (map snd rs). report_for request lock r" and "settled_quantity rs = q"
    and "exact_reports p rs (money_of (eng_policy_state (pl_engine pl')))"
  shows "money_of (eng_policy_state (apply_reports D rs (pl_engine pl'))) =
    credited (money_of (eng_policy_state (pl_engine pl))) (trades_effect rs)"
proof (intro ext)
  fix key field
  let ?self = "eng_policy_state (pl_engine pl)" and ?self' = "eng_policy_state (pl_engine pl')"
  obtain legs where legs: "compute_reservation_legs D now ?self request
      (group_of (eng_groups (pl_engine pl)) (orv_account request)) (ctx_drop_copy ctx) = Inr legs"
    and lock: "rl_lock_price legs = Some p"
    using live_order_locks(1) [OF assms(2,3,8)] assms(9) by (auto split: option.splits)
  obtain s0 s1 where st: "order_steps D now ctx request (pl_engine pl) = Some (s0, s1)"
    and bal: "spot_balances (pl_engine pl') = apply_step (orv_account request) s1
      (apply_step (orv_account request) s0 (spot_balances (pl_engine pl)))"
    using check_undone [OF assms(1,2,6,7,8)] by auto
  have steps: "reservation_steps legs (underlying_asset (orv_instrument request))
      (settlement_asset (orv_instrument request)) (orv_side request) = (s0, s1)"
    using st legs by (simp add: order_steps_def)
  note res = reservation_money [OF steps quantity_legs [OF assms(1) legs assms(4) lock assms(10)]]
  have "money_of ?self' key field = money_of ?self key field -
      released_effect (orv_account request) (orv_instrument request) (orv_side request) p q key field"
    by (simp add: money_of_def bal res)
  moreover have "money_of (eng_policy_state (apply_reports D rs (pl_engine pl'))) key field =
      money_of ?self' key field + (\<Sum>r\<leftarrow>map snd rs. report_effect p r key field)"
    using reports_move_money [OF assms(1,5) _ assms(12,14)] assms(9,11) live_order_locks(2) [OF assms(2,3,8)]
    by simp
  ultimately show "money_of (eng_policy_state (apply_reports D rs (pl_engine pl'))) key field =
      credited (money_of ?self) (trades_effect rs) key field"
    using report_effects_sum(1) [OF assms(12), of p key field] assms(13) by (simp add: credited_def)
qed

subsection \<open>Witness\<close>

definition sample_lock :: pre_trade_lock where
  "sample_lock = \<lparr>default_prices = [10], other_sections = []\<rparr>"

definition sample_report :: "trade option \<Rightarrow> quantity \<Rightarrow> bool \<Rightarrow> execution_request_view" where
  "sample_report t remaining final =
     \<lparr>erv_instrument = \<lparr>underlying_asset = ''AAPL'', settlement_asset = ''USD''\<rparr>, erv_account = 7,
      erv_side = Buy, erv_last_trade = t, erv_fee = None, erv_remaining = remaining, erv_is_final = final,
      erv_lock = sample_lock\<rparr>"

definition sample_reports :: "(instant \<times> execution_request_view) list" where
  "sample_reports =
     [(1, sample_report (Some \<lparr>trade_price = 9, trade_quantity = 3\<rparr>) 2 False), (2, sample_report None 2 True)]"

lemma live_order_outcome:
  assumes "read_order_request ctx ord = Inr request" and "\<not> ctx_drop_copy ctx"
    and "perform_pre_trade_check_impl D now ctx ord pl ms = (pl', ms', Inr outcome)"
  shows "outcome \<noteq> None"
  using assms by (auto simp: perform_pre_trade_check_impl_def perform_pre_trade_request_impl_def Let_def
      reserve_request_def split: sum.splits prod.splits)

lemma sample_legs:
  "compute_reservation_legs exact96_ops now (eng_policy_state (pl_engine spot_sample_pipeline)) spot_sample_request g
     d = Inr legs \<Longrightarrow> rl_lock_price legs = Some 10"
  by (auto simp: compute_reservation_legs_def buy_reservation_legs_def spot_sample_defs result_simps
      price_calculate_position_size_def quantity_to_position_size_def non_negative_def sg_new_def in_range_def)

lemma sample_reports_exact:
  assumes "money_of self = credited (leg_effect (7, ''USD'') 950 50 0) (leg_effect (7, ''AAPL'') 0 0 5)"
  shows "exact_reports 10 sample_reports (money_of self)"
  unfolding assms
  by (auto simp: sample_reports_def sample_report_def exact_report_def Let_def filled_quantity_def
      fill_price_of_def released_quantity_def exact_money_def report_effect_def filled_effect_def
      released_effect_def credited_def underlying_fill_def settlement_fill_def underlying_release_def
      settlement_released_def leg_effect_def lock_held_def lock_incoming_def
      split: adjustment_target.split)

lemma sample_final_values:
  "credited (money_of (eng_policy_state (pl_engine spot_sample_pipeline))) (trades_effect sample_reports)
     (7, ''USD'') AvailableField = 973"
  "credited (money_of (eng_policy_state (pl_engine spot_sample_pipeline))) (trades_effect sample_reports)
     (7, ''USD'') HeldField = 0"
  "credited (money_of (eng_policy_state (pl_engine spot_sample_pipeline))) (trades_effect sample_reports)
     (7, ''AAPL'') AvailableField = 3"
  "credited (money_of (eng_policy_state (pl_engine spot_sample_pipeline))) (trades_effect sample_reports)
     (7, ''AAPL'') IncomingField = 0"
  by (simp_all add: credited_def money_of_def sample_balances holdings_new_def holdings_zero_def
      trades_effect_def trade_effect_def leg_effect_def sample_reports_def sample_report_def
      filled_quantity_def fill_price_of_def)

theorem order_lifecycle_conserves_money_witness:
  "\<exists>pl' ms' outcome. perform_pre_trade_check_impl exact96_ops 0 spot_sample_ctx spot_sample_order
       spot_sample_pipeline (empty_mutations 1) = (pl', ms', Inr outcome) \<and>
     (let m = money_of (eng_policy_state (apply_reports exact96_ops sample_reports (pl_engine pl')))
      in m (7, ''USD'') AvailableField = 973 \<and> m (7, ''USD'') HeldField = 0 \<and>
         m (7, ''AAPL'') AvailableField = 3 \<and> m (7, ''AAPL'') IncomingField = 0)"
proof -
  obtain pl' ms' out where run0: "perform_pre_trade_check_impl exact96_ops 0 spot_sample_ctx
      spot_sample_order spot_sample_pipeline (empty_mutations 1) = (pl', ms', Inr out)"
    by (rule sample_run)
  then obtain outcome where run: "perform_pre_trade_check_impl exact96_ops 0 spot_sample_ctx
      spot_sample_order spot_sample_pipeline (empty_mutations 1) = (pl', ms', Inr (Some outcome))"
    using live_order_outcome [OF sample_read sample_access(1)] by blast
  have locks: "ptr_lock_prices outcome = [10]"
    using live_order_locks(1) [OF sample_read sample_access(1) run] sample_legs by fastforce
  have "spot_balances (pl_engine pl') key = (if key = (7, ''USD'') then holdings_new 950 50
      else if key = (7, ''AAPL'') then holdings_zero\<lparr>incoming := 5\<rparr> else holdings_zero)" for key
    using check_undone [OF exact96.decimal_arith_axioms sample_read sample_exact sample_active run]
    by (auto simp: sample_steps apply_step_def reserved_def sample_balances holdings_new_def holdings_zero_def)
  then have "money_of (eng_policy_state (pl_engine pl')) =
      credited (leg_effect (7, ''USD'') 950 50 0) (leg_effect (7, ''AAPL'') 0 0 5)"
    by (intro ext, case_tac xa) (simp_all add: money_of_def credited_def leg_effect_def holdings_new_def holdings_zero_def)
  note exact = sample_reports_exact [OF this]
  have gid: "prices_of sample_lock (sf_group_id (eng_policy_state (pl_engine spot_sample_pipeline))) = [10]"
    by (simp add: spot_sample_defs sample_lock_def prices_of_def)
  have fors: "\<forall>r\<in>set (map snd sample_reports). report_for spot_sample_request sample_lock r"
    by (simp add: sample_reports_def sample_report_def report_for_def filled_quantity_def released_quantity_def
        spot_sample_request_def nonzero_fee_def filter_option_def)
  have settled: "settled_quantity sample_reports = 5"
    by (simp add: sample_reports_def sample_report_def filled_quantity_def released_quantity_def)
  have final: "money_of (eng_policy_state (apply_reports exact96_ops sample_reports (pl_engine pl'))) =
      credited (money_of (eng_policy_state (pl_engine spot_sample_pipeline))) (trades_effect sample_reports)"
    using order_lifecycle_conserves_money [OF exact96.decimal_arith_axioms sample_read sample_access(1,3) _
        sample_exact sample_active run locks _ _ fors settled exact] gid locks
    by (simp add: spot_sample_request_def)
  show ?thesis
    using run by (simp add: final sample_final_values Let_def)
qed

end
