(* ===== verification/Spot_Account_Pnl.thy ===== *)
theory Spot_Account_Pnl
  imports Spot_Execution
begin

text \<open>
  The account P\&L under execution reports: it changes only with a reported outcome, a change that a
  barrier forbids comes with a block, a halt stays, and no report waits for a lease.

  Everything a report does before it settles the account P\&L leaves that P\&L alone
  (\<open>keeps_pnl_view\<close>); what it does at the end is one \<open>pnl_report\<close>.
\<close>

section \<open>What leaves the account P\&L alone\<close>

definition pnl_view ::
  "spot_funds \<Rightarrow> account_pnl_storage \<times> (account_id, account_pnl_lease option) storage \<times> bool \<times>
     spot_funds_settings \<times> policy_group_id" where
  "pnl_view self = (sf_pnl self, sf_leases self, sf_stuck self, sf_settings self, sf_group_id self)"

definition keeps_pnl_view :: "'a fill_op \<Rightarrow> bool" where
  "keeps_pnl_view m \<longleftrightarrow> (\<forall>st. pnl_view (fst (fst (m st))) = pnl_view (fst st))"

lemma keepsD: "keeps_pnl_view m \<Longrightarrow> pnl_view (fst (fst (m st))) = pnl_view (fst st)"
  by (simp add: keeps_pnl_view_def del: split_paired_All)

lemma keeps_state: "(\<And>x. keeps_pnl_view (g x)) \<Longrightarrow> keeps_pnl_view (\<lambda>st. g st st)"
  by (simp add: keeps_pnl_view_def del: split_paired_All)

lemma keeps_if: "(c \<Longrightarrow> keeps_pnl_view m) \<Longrightarrow> (\<not> c \<Longrightarrow> keeps_pnl_view n) \<Longrightarrow> keeps_pnl_view (if c then m else n)"
  by simp

lemma keeps_bind [intro]:
  "keeps_pnl_view m \<Longrightarrow> (\<And>x. keeps_pnl_view (f x)) \<Longrightarrow> keeps_pnl_view (fill_bind m f)"
  by (simp add: keeps_pnl_view_def fill_bind_def case_prod_beta del: split_paired_All split: sum.split)

lemma keeps_basic [intro, simp]:
  "keeps_pnl_view (fill_return x)" "keeps_pnl_view (fill_of r)"
  "keeps_pnl_view (leg_add get put change details)" "keeps_pnl_view (final_holdings_put kind h)"
  "keeps_pnl_view (slot_op key mutation details)"
  by (auto simp: keeps_pnl_view_def fill_return_def fill_of_def leg_add_def final_holdings_put_def slot_op_def
      pnl_view_def case_prod_beta split: sum.split)

lemma pnl_view_position [simp]:
  "pnl_view (fst (halt_position_pnl D account underlying reason st)) = pnl_view (fst st)"
  "pnl_view (fst (fold_fee_into_realized_pnl D account underlying fee_delta st)) = pnl_view (fst st)"
  "pnl_view (fst (record_leg_operation D account asset op st)) = pnl_view (fst st)"
  "pnl_view (fst (halt_unless_reported D account underlying halted st)) = pnl_view (fst st)"
proof -
  show halt: "pnl_view (fst (halt_position_pnl D account underlying reason st)) = pnl_view (fst st)"
    for account underlying reason st
    by (simp add: halt_position_pnl_def pnl_view_def case_prod_beta Let_def)
  show "pnl_view (fst (fold_fee_into_realized_pnl D account underlying fee_delta st)) = pnl_view (fst st)"
    by (simp add: fold_fee_into_realized_pnl_def case_prod_beta Let_def halt split: option.split)
      (simp add: pnl_view_def)
  show "pnl_view (fst (record_leg_operation D account asset op st)) = pnl_view (fst st)"
    by (simp add: record_leg_operation_def case_prod_beta halt split: option.split)
  show "pnl_view (fst (halt_unless_reported D account underlying halted st)) = pnl_view (fst st)"
    by (simp add: halt_unless_reported_def halt split: option.split sum.split)
qed

lemma keeps_fee_debit [intro]: "keeps_pnl_view (apply_fee_debit D account underlying settlement f)"
  unfolding apply_fee_debit_def Let_def by (intro keeps_if keeps_bind keeps_basic)

lemma keeps_settle_leg [intro]:
  "keeps_pnl_view (settle_fill_leg D account asset kind consume flow inc p reason)"
proof -
  have inner: "keeps_pnl_view (\<lambda>st. (record_leg_operation D account asset op st, Inr ()))" for op
    by (simp add: keeps_pnl_view_def)
  show ?thesis
    unfolding settle_fill_leg_def Let_def
    by (intro keeps_bind keeps_basic keeps_if, rule keeps_state, intro keeps_bind keeps_basic inner)
qed

lemma keeps_release_leg [intro]: "keeps_pnl_view (release_leg D account asset kind r inc)"
  unfolding release_leg_def by (intro keeps_if keeps_bind keeps_basic)

lemma keeps_cancel: "pnl_view (fst (fst (apply_report_cancel D request st))) = pnl_view (fst st)"
proof -
  have "keeps_pnl_view (\<lambda>st. apply_cancel_release D account u v s remaining lock st)" for account u v s remaining lock
    unfolding apply_cancel_release_def Let_def
    by (rule keeps_state) (intro keeps_bind keeps_basic keeps_release_leg)
  from keepsD [OF this] show ?thesis
    by (auto simp: apply_report_cancel_def case_prod_beta split: sum.split)
qed

section \<open>One change of the account P\&L\<close>

definition announces :: "account_pnl_outcome \<Rightarrow> account_id \<Rightarrow> pnl_state \<Rightarrow> bool" where
  "announces out account s \<longleftrightarrow>
     apo_account_id out = account \<and>
     (case apo_result out of
        Inr amount \<Rightarrow> s = PnlState_Value (poa_absolute amount) | Inl reason \<Rightarrow> s = PnlState_Halted reason)"

definition leases_free :: "spot_funds \<Rightarrow> bool" where
  "leases_free self \<longleftrightarrow> (\<forall>account. lease_free self account) \<and> \<not> sf_stuck self"

text \<open>
  What may happen to the account P\&L: no change and no outcome, or a change that is announced and, where
  the barrier forbids it, blocked; a halt stays; other accounts and the leases are left alone.
\<close>

definition pnl_step ::
  "account_id \<Rightarrow> asset option \<Rightarrow> spot_pnl_barrier option \<Rightarrow> spot_funds \<Rightarrow>
   spot_funds \<times> account_pnl_outcome option \<times> account_block option \<Rightarrow> bool" where
  "pnl_step account currency barrier self out \<longleftrightarrow>
     (\<forall>a. a \<noteq> account \<longrightarrow> account_pnl_state (fst out) a = account_pnl_state self a) \<and>
     (case fst (snd out) of
        None \<Rightarrow> account_pnl_state (fst out) account = account_pnl_state self account
      | Some announced \<Rightarrow>
          announces announced account (account_pnl_state (fst out) account) \<and>
          (\<forall>b. barrier = Some b \<longrightarrow>
             account_pnl_block_for_state currency (account_pnl_state (fst out) account) b None \<noteq> None \<longrightarrow>
             snd (snd out) \<noteq> None)) \<and>
     (\<forall>reason. account_pnl_state self account = PnlState_Halted reason \<longrightarrow>
        account_pnl_state (fst out) account = PnlState_Halted reason) \<and>
     (leases_free self \<longrightarrow> leases_free (fst out))"

lemma account_pnl_state_get:
  "account_pnl_state self account =
     (case hm_get (sf_pnl self) account of Some entry \<Rightarrow> ape_state entry | None \<Rightarrow> PnlState_Value 0)"
  by (simp add: account_pnl_state_def storage_with_def split: option.split)

lemma block_provenance:
  "account_pnl_block_for_state currency s b token = None \<longleftrightarrow> account_pnl_block_for_state currency s b None = None"
  by (simp add: account_pnl_block_for_state_def split: option.split)

lemma leased_pnl:
  "sf_pnl (fst (with_pnl_leased self account f)) = fst (with_mut (sf_pnl self) account account_pnl_entry_zero f)"
  "snd (with_pnl_leased self account f) = snd (with_mut (sf_pnl self) account account_pnl_entry_zero f)"
  by (auto simp: with_pnl_leased_def fresh_owner_id_def acquire_account_pnl_lease_def Let_def
      release_account_pnl_lease_def try_account_pnl_lease_def case_prod_beta split: bool.split)

lemma acquire_free:
  assumes "lease_free self account"
  shows "hm_get (sf_leases (acquire_account_pnl_lease self account owner)) a =
      (if a = account then Some (Some \<lparr>lease_owner = owner, lease_depth = 1\<rparr>) else hm_get (sf_leases self) a)"
    and "sf_stuck (acquire_account_pnl_lease self account owner) = sf_stuck self"
proof -
  let ?t = "try_account_pnl_lease self account owner"
  have free: "hm_get (sf_leases self) account = None \<or> hm_get (sf_leases self) account = Some None"
    using assms by (simp add: lease_free_def)
  then have "snd ?t" and "hm_get (sf_leases (fst ?t)) a = (if a = account
      then Some (Some \<lparr>lease_owner = owner, lease_depth = 1\<rparr>) else hm_get (sf_leases self) a)"
    and "sf_stuck (fst ?t) = sf_stuck self"
    by (auto simp: try_account_pnl_lease_def case_prod_beta with_mut_output slot_output_def with_mut_lookup)
  then show "hm_get (sf_leases (acquire_account_pnl_lease self account owner)) a =
      (if a = account then Some (Some \<lparr>lease_owner = owner, lease_depth = 1\<rparr>) else hm_get (sf_leases self) a)"
    and "sf_stuck (acquire_account_pnl_lease self account owner) = sf_stuck self"
    by (cases ?t; simp add: acquire_account_pnl_lease_def)+
qed

lemma release_acquired:
  assumes "hm_get (sf_leases self) account = Some (Some \<lparr>lease_owner = owner, lease_depth = 1\<rparr>)"
  shows "hm_get (sf_leases (release_account_pnl_lease self account owner)) a =
      (if a = account then Some None else hm_get (sf_leases self) a)"
  using assms by (simp add: release_account_pnl_lease_def with_mut_if_present_lookup)

lemma leased_leases:
  assumes "leases_free self"
  shows "leases_free (fst (with_pnl_leased self account f))"
proof -
  obtain owner counter where fresh: "fresh_owner_id self = (owner, self\<lparr>sf_next_owner := counter\<rparr>)"
    by (simp add: fresh_owner_id_def case_prod_beta)
  let ?self = "self\<lparr>sf_next_owner := counter\<rparr>"
  define taken where "taken = acquire_account_pnl_lease ?self account owner"
  define pnl where "pnl = fst (with_mut (sf_pnl taken) account account_pnl_entry_zero f)"
  have "lease_free ?self account" using assms by (simp add: leases_free_def lease_free_def)
  note got = acquire_free [OF this, of owner, folded taken_def]
  have out: "fst (with_pnl_leased self account f) = release_account_pnl_lease (taken\<lparr>sf_pnl := pnl\<rparr>) account owner"
    by (simp add: with_pnl_leased_def fresh Let_def case_prod_beta taken_def pnl_def)
  have "hm_get (sf_leases (taken\<lparr>sf_pnl := pnl\<rparr>)) account = Some (Some \<lparr>lease_owner = owner, lease_depth = 1\<rparr>)"
    by (simp add: got)
  note returned = release_acquired [OF this]
  have "sf_stuck (fst (with_pnl_leased self account f)) = sf_stuck self"
    unfolding out by (simp add: release_account_pnl_lease_def got)
  then show ?thesis
    using assms unfolding leases_free_def lease_free_def out returned by (simp add: got)
qed

section \<open>The account P\&L at the end of a report\<close>

lemma leased_state:
  assumes "\<And>v. f v True = f v False"
  shows "account_pnl_state (fst (with_pnl_leased self account f)) a =
      (if a = account
       then ape_state (fst (f (case hm_get (sf_pnl self) account of
           Some v \<Rightarrow> v | None \<Rightarrow> account_pnl_entry_zero) False))
       else account_pnl_state self a)"
    and "snd (with_pnl_leased self account f) =
      snd (f (case hm_get (sf_pnl self) account of Some v \<Rightarrow> v | None \<Rightarrow> account_pnl_entry_zero) False)"
  by (simp_all add: account_pnl_state_get leased_pnl with_mut_lookup with_mut_output slot_output_def assms
      split: option.split)

lemma halt_step: "pnl_step account currency barrier self (halt_and_report account currency barrier reason self)"
proof -
  let ?entry = "case hm_get (sf_pnl self) account of Some v \<Rightarrow> v | None \<Rightarrow> account_pnl_entry_zero"
  have now: "account_pnl_state self account = ape_state ?entry"
    by (simp add: account_pnl_state_get account_pnl_entry_zero_def split: option.split)
  show ?thesis
    by (cases "ape_state ?entry")
      (simp_all add: pnl_step_def halt_and_report_def halt_account_pnl_def case_prod_beta leased_state leased_leases
        now announces_def account_outcome_def split: option.split)
qed

lemma mut_state:
  assumes "\<And>v. f v True = f v False"
  shows "account_pnl_state (self\<lparr>sf_pnl := fst (with_mut (sf_pnl self) account account_pnl_entry_zero f)\<rparr>) a =
      (if a = account
       then ape_state (fst (f (case hm_get (sf_pnl self) account of
           Some v \<Rightarrow> v | None \<Rightarrow> account_pnl_entry_zero) False))
       else account_pnl_state self a)"
    and "snd (with_mut (sf_pnl self) account account_pnl_entry_zero f) =
      snd (f (case hm_get (sf_pnl self) account of Some v \<Rightarrow> v | None \<Rightarrow> account_pnl_entry_zero) False)"
  by (simp_all add: account_pnl_state_get with_mut_lookup with_mut_output slot_output_def assms
      split: option.split)

lemma leases_free_pnl [simp]: "leases_free (self\<lparr>sf_pnl := pnl\<rparr>) = leases_free self"
  by (simp add: leases_free_def lease_free_def)

text \<open>The accrual: a halt stays and is not reported, a value grows by the delta or halts on overflow.\<close>

lemma update_account_pnl_cases:
  obtains (halted) reason token where "account_pnl_state self account = PnlState_Halted reason"
      "\<And>a. account_pnl_state (fst (update_account_pnl D self account delta)) a = account_pnl_state self a"
      "snd (update_account_pnl D self account delta) = (None, PnlState_Halted reason, token)"
  | (accrued) previous updated token where "account_pnl_state self account = PnlState_Value previous"
      "sg_checked_add D PK_Pnl previous delta = Inr updated"
      "\<And>a. account_pnl_state (fst (update_account_pnl D self account delta)) a =
        (if a = account then PnlState_Value updated else account_pnl_state self a)"
      "snd (update_account_pnl D self account delta) =
        (Some (Inr \<lparr>poa_delta = delta, poa_absolute = updated\<rparr>), PnlState_Value updated, token)"
  | (overflow) previous where "account_pnl_state self account = PnlState_Value previous"
      "\<And>a. account_pnl_state (fst (update_account_pnl D self account delta)) a =
        (if a = account then PnlState_Halted PnlArithmeticOverflow else account_pnl_state self a)"
      "snd (update_account_pnl D self account delta) =
        (Some (Inl PnlArithmeticOverflow), PnlState_Halted PnlArithmeticOverflow, None)"
proof -
  let ?entry = "case hm_get (sf_pnl self) account of Some v \<Rightarrow> v | None \<Rightarrow> account_pnl_entry_zero"
  let ?one = "\<lambda>entry (_ :: bool). case ape_state entry of
      PnlState_Halted reason \<Rightarrow>
        (entry, Some (None :: pnl_outcome option, PnlState_Halted reason, ape_assertion_token entry))
    | PnlState_Value previous \<Rightarrow>
        (case sg_checked_add D PK_Pnl previous delta of
           Inr updated \<Rightarrow>
             (entry\<lparr>ape_state := PnlState_Value updated\<rparr>,
              Some (Some (Inr \<lparr>poa_delta = delta, poa_absolute = updated\<rparr>),
                    PnlState_Value updated, ape_assertion_token entry))
         | Inl _ \<Rightarrow> (entry, None))"
  have now: "account_pnl_state self account = ape_state ?entry"
    by (simp add: account_pnl_state_get account_pnl_entry_zero_def split: option.split)
  define first where "first = with_mut (sf_pnl self) account account_pnl_entry_zero ?one"
  have res: "snd first = snd (?one ?entry False)"
    unfolding first_def by (rule mut_state(2) [where f = ?one]) (rule refl)
  have st: "account_pnl_state (self\<lparr>sf_pnl := fst first\<rparr>) a =
      (if a = account then ape_state (fst (?one ?entry False)) else account_pnl_state self a)" for a
    using mut_state(1) [where f = ?one and self = self and account = account and a = a, OF refl]
    unfolding first_def .
  let ?self = "self\<lparr>sf_pnl := fst first\<rparr>"
  have upd: "update_account_pnl D self account delta = (case snd first of
      Some result \<Rightarrow> (?self, result)
    | None \<Rightarrow> with_pnl_leased ?self account
        (\<lambda>entry _. case ape_state entry of
           PnlState_Value previous \<Rightarrow>
             (case sg_checked_add D PK_Pnl previous delta of
                Inr updated \<Rightarrow>
                  (entry\<lparr>ape_state := PnlState_Value updated\<rparr>,
                   (Some (Inr \<lparr>poa_delta = delta, poa_absolute = updated\<rparr>), PnlState_Value updated, None))
              | Inl _ \<Rightarrow>
                  (\<lparr>ape_state = PnlState_Halted PnlArithmeticOverflow, ape_assertion_token = None\<rparr>,
                   (Some (Inl PnlArithmeticOverflow), PnlState_Halted PnlArithmeticOverflow, None)))
         | PnlState_Halted reason \<Rightarrow> (entry, (None, PnlState_Halted reason, None))))"
    by (simp add: update_account_pnl_def first_def case_prod_beta split: option.split)
  show thesis
  proof (cases "ape_state ?entry")
    case (PnlState_Halted reason)
    then show thesis using halted [of reason "ape_assertion_token ?entry"] by (simp add: upd res st now)
  next
    case val: (PnlState_Value previous)
    show thesis
    proof (cases "sg_checked_add D PK_Pnl previous delta")
      case (Inr updated)
      then show thesis
        using val accrued [of previous updated "ape_assertion_token ?entry"] by (simp add: upd res st now)
    next
      case (Inl x)
      have entry: "hm_get (fst first) account = Some ?entry"
        using val Inl by (simp add: first_def with_mut_lookup split: option.splits)
      have "snd first = None" using res val Inl by simp
      then show thesis
        using overflow [of previous] val Inl
        by (simp add: upd leased_state entry st now)
    qed
  qed
qed

lemma update_account_pnl_leases: "leases_free self \<Longrightarrow> leases_free (fst (update_account_pnl D self account delta))"
  by (simp add: update_account_pnl_def case_prod_beta leased_leases split: option.split)

lemma accrue_step:
  "pnl_step account currency barrier self (accrue_and_report D account currency barrier delta self)"
proof (cases rule: update_account_pnl_cases [of self account D delta])
  case (halted reason token)
  then show ?thesis
    by (simp add: pnl_step_def accrue_and_report_def apply_account_pnl_delta_def case_prod_beta
        update_account_pnl_leases)
next
  case (accrued previous updated token)
  then show ?thesis
    using block_provenance [of currency "PnlState_Value updated" _ token]
    by (simp add: pnl_step_def accrue_and_report_def apply_account_pnl_delta_def case_prod_beta
        update_account_pnl_leases announces_def account_outcome_def)
next
  case (overflow previous)
  then show ?thesis
    by (simp add: pnl_step_def accrue_and_report_def apply_account_pnl_delta_def case_prod_beta
        update_account_pnl_leases announces_def account_outcome_def)
qed

lemma idle_step: "pnl_step account currency barrier self (self, None, b)"
  by (simp add: pnl_step_def)

lemma report_fill_step:
  "pnl_step account currency barrier self (report_fill_pnl D account currency barrier may_halt reason delta self)"
  by (simp add: report_fill_pnl_def halt_step accrue_step idle_step split: option.split)

section \<open>The account P\&L of a whole report\<close>

lemma pnl_step_view:
  assumes "pnl_view self = pnl_view self2"
  shows "pnl_step account currency barrier self out = pnl_step account currency barrier self2 out"
proof -
  have same: "account_pnl_state self = account_pnl_state self2" "leases_free self = leases_free self2"
    using assms by (auto simp: pnl_view_def account_pnl_state_get leases_free_def lease_free_def)
  show ?thesis unfolding pnl_step_def same ..
qed

lemma pnl_step_after:
  assumes "pnl_view self1 = pnl_view self2"
  shows "pnl_step account currency barrier self (self1, out) = pnl_step account currency barrier self (self2, out)"
proof -
  have same: "account_pnl_state self1 = account_pnl_state self2" "leases_free self1 = leases_free self2"
    using assms by (auto simp: pnl_view_def account_pnl_state_get leases_free_def lease_free_def)
  show ?thesis unfolding pnl_step_def fst_conv snd_conv same ..
qed

lemma pnl_step_idle: "pnl_view self' = pnl_view self \<Longrightarrow> pnl_step account currency barrier self (self', None, b)"
  using pnl_step_view [of self' self] idle_step by blast

definition reports_out ::
  "account_id \<Rightarrow> asset option \<Rightarrow> spot_pnl_barrier option \<Rightarrow> spot_funds \<Rightarrow>
   fill_state \<times> (account_block + account_pnl_application) \<Rightarrow> bool" where
  "reports_out account currency barrier self out \<longleftrightarrow>
     (case snd out of
        Inl _ \<Rightarrow> pnl_view (fst (fst out)) = pnl_view self
      | Inr app \<Rightarrow>
          (\<exists>b. pnl_step account currency barrier self (fst (fst out), apa_account_pnl app, b) \<and>
               (b \<noteq> None \<longrightarrow> apa_account_block app \<noteq> None)))"

definition reports_pnl ::
  "account_id \<Rightarrow> asset option \<Rightarrow> spot_pnl_barrier option \<Rightarrow> account_pnl_application fill_op \<Rightarrow> bool" where
  "reports_pnl account currency barrier m \<longleftrightarrow> (\<forall>st. reports_out account currency barrier (fst st) (m st))"

lemma reports_out_bind:
  assumes "keeps_pnl_view m" and "\<And>x. reports_pnl account currency barrier (f x)"
  shows "reports_out account currency barrier (fst st) (fill_bind m f st)"
proof (cases "snd (m st)")
  case (Inl b)
  then show ?thesis using keepsD [OF assms(1), of st] by (simp add: reports_out_def fill_bind_def case_prod_beta)
next
  case (Inr x)
  then have bind: "fill_bind m f st = f x (fst (m st))" by (simp add: fill_bind_def case_prod_beta)
  show ?thesis
    using assms(2) [of x, unfolded reports_pnl_def, rule_format, of "fst (m st)"] keepsD [OF assms(1), of st]
    by (simp add: bind reports_out_def pnl_step_view [OF keepsD [OF assms(1), of st]] split: sum.splits)
qed

lemma reports_bind:
  "keeps_pnl_view m \<Longrightarrow> (\<And>x. reports_pnl account currency barrier (f x)) \<Longrightarrow>
   reports_pnl account currency barrier (fill_bind m f)"
  unfolding reports_pnl_def by (intro allI reports_out_bind) (simp_all add: reports_pnl_def)

text \<open>The end of a report: P\&L of the position, then one step of the account P\&L.\<close>

lemma reports_end:
  assumes "\<And>st. pnl_view (fst (before st)) = pnl_view (fst st)"
    and "\<And>self. pnl_step account currency barrier self (f self)"
  shows "reports_pnl account currency barrier
    (\<lambda>st. ((fst (f (fst (before st))), snd (before st)),
      Inr (application_of mismatch stored (snd (f (fst (before st)))))))"
  unfolding reports_pnl_def
proof
  fix st
  have "pnl_step account currency barrier (fst st) (f (fst (before st)))"
    using assms(2) [of "fst (before st)"] pnl_step_view [OF assms(1)] by simp
  then show "reports_out account currency barrier (fst st) ((fst (f (fst (before st))), snd (before st)),
      Inr (application_of mismatch stored (snd (f (fst (before st))))))"
    by (auto simp: reports_out_def application_of_def or_else_def
        intro: exI [of _ "snd (snd (f (fst (before st))))"] split: option.split)
qed

lemma reports_finish_fill:
  "reports_pnl account currency barrier
     (finish_fill D account underlying settlement currency barrier before fee_opt moves hs fee_delta c)"
  unfolding finish_fill_def Let_def case_prod_beta
proof (rule reports_bind)
  show "keeps_pnl_view (case fee_opt of
      Some f \<Rightarrow> apply_fee_debit D account underlying settlement f | None \<Rightarrow> fill_return ())"
    by (auto split: option.split)
qed (rule reports_end, simp, rule report_fill_step)

lemma keeps_legs: "keeps_pnl_view a \<Longrightarrow> keeps_pnl_view b \<Longrightarrow> keeps_pnl_view (settle_legs s a b)"
  by (auto simp: settle_legs_def split: side.split)

lemma reports_trade_fill:
  "reports_pnl account currency (pnl_barrier_for settings account g currency)
     (apply_trade_fill D now g currency settings account underlying settlement s t fee_opt lock)"
  unfolding reports_pnl_def apply_trade_fill_def Let_def case_prod_beta
  by (intro allI reports_out_bind reports_bind keeps_basic keeps_legs keeps_settle_leg reports_finish_fill)

lemma report_fee_step:
  "pnl_step account currency barrier self
     (report_fee_pnl D account currency barrier not_halted reason fee_delta self)"
  by (simp add: report_fee_pnl_def halt_step accrue_step idle_step split: option.split sum.split)

lemma reports_execution_fee:
  "reports_pnl account currency (pnl_barrier_for settings account g currency)
     (apply_execution_fee D now g currency settings account underlying settlement f)"
proof (cases "is_zero (mon_amount f)")
  case True
  then show ?thesis
    by (auto simp: reports_pnl_def reports_out_def apply_execution_fee_def no_application_def idle_step)
next
  case False
  show ?thesis
    unfolding reports_pnl_def apply_execution_fee_def Let_def case_prod_beta if_not_P [OF False]
    by (intro allI reports_out_bind keeps_fee_debit, rule reports_end, simp split: option.split,
        rule report_fee_step)
qed

text \<open>The currency and the barrier of the account that a report belongs to.\<close>

definition report_currency :: "execution_request_view \<Rightarrow> spot_funds engine \<Rightarrow> asset option" where
  "report_currency r e =
     currency_of (eng_account_currencies e) (erv_account r) (group_of (eng_groups e) (erv_account r))"

definition report_barrier :: "execution_request_view \<Rightarrow> spot_funds engine \<Rightarrow> spot_pnl_barrier option" where
  "report_barrier r e =
     pnl_barrier_for (sf_settings (eng_policy_state e)) (erv_account r)
       (group_of (eng_groups e) (erv_account r)) (report_currency r e)"

lemma collected_step:
  assumes "reports_pnl account currency barrier m"
  shows "\<exists>out b. pnl_step account currency barrier (fst st) (fst (fst (m st)), out, b) \<and>
    snd (collect_application (snd (m st))) = (case out of Some x \<Rightarrow> [x] | None \<Rightarrow> []) \<and>
    (b \<noteq> None \<longrightarrow> fst (collect_application (snd (m st))) \<noteq> [])"
proof (cases "snd (m st)")
  case (Inl b)
  then have "pnl_view (fst (fst (m st))) = pnl_view (fst st)"
    using assms [unfolded reports_pnl_def, rule_format, of st] by (simp add: reports_out_def)
  then have "pnl_step account currency barrier (fst st) (fst (fst (m st)), None, None)"
    by (rule pnl_step_idle)
  then show ?thesis using Inl by (intro exI [of _ None]) (simp add: collect_application_def)
next
  case (Inr app)
  then show ?thesis
    using assms [unfolded reports_pnl_def, rule_format, of st]
    by (auto simp: reports_out_def collect_application_def intro!: exI [of _ "apa_account_pnl app"] split: option.split)
qed

lemma economics_step:
  "\<exists>out b. pnl_step (erv_account r) (report_currency r e) (report_barrier r e) (fst st)
      (fst (fst (apply_report_economics D now r (report_scope r e) st)), out, b) \<and>
    snd (snd (apply_report_economics D now r (report_scope r e) st)) = (case out of Some x \<Rightarrow> [x] | None \<Rightarrow> []) \<and>
    (b \<noteq> None \<longrightarrow> fst (snd (apply_report_economics D now r (report_scope r e) st)) \<noteq> [])"
proof -
  let ?g = "group_of (eng_groups e) (erv_account r)"
  note fill = collected_step [OF reports_trade_fill, of "erv_account r" "report_currency r e"
      "sf_settings (eng_policy_state e)" ?g st D now]
  note fee = collected_step [OF reports_execution_fee, of "erv_account r" "report_currency r e"
      "sf_settings (eng_policy_state e)" ?g st D now]
  have idle: "pnl_step (erv_account r) (report_currency r e) (report_barrier r e) (fst st) (fst st, None, None)"
    by (rule idle_step)
  show ?thesis
  proof (cases "erv_last_trade r")
    case (Some t)
    then show ?thesis
      using fill by (simp add: apply_report_economics_def report_scope_def report_barrier_def report_currency_def
          Let_def case_prod_beta)
  next
    case None
    show ?thesis
    proof (cases "nonzero_fee (erv_fee r)")
      case none: None
      then show ?thesis
        using None idle by (intro exI [of _ None]) (simp add: apply_report_economics_def report_scope_def Let_def)
    next
      case (Some f)
      then obtain f' where "erv_fee r = Some f'" by (cases "erv_fee r") (simp_all add: nonzero_fee_def filter_option_def)
      then show ?thesis
        using None Some fee by (simp add: apply_report_economics_def report_scope_def report_barrier_def
            report_currency_def Let_def case_prod_beta)
    qed
  qed
qed

definition forbidden_by :: "spot_pnl_barrier \<Rightarrow> pnl_state \<Rightarrow> bool" where
  "forbidden_by b s \<longleftrightarrow>
     (case s of
        PnlState_Value v \<Rightarrow>
          (\<exists>l. spb_lower_bound b = Some l \<and> v < l) \<or> (\<exists>u. spb_upper_bound b = Some u \<and> u < v)
      | PnlState_Halted _ \<Rightarrow> True)"

lemma forbidden_blocks: "forbidden_by b s \<Longrightarrow> account_pnl_block_for_state currency s b None \<noteq> None"
  by (auto simp: forbidden_by_def account_pnl_block_for_state_def labelled_pnl_block_for_state_def
      breached_sides_def Let_def split: pnl_state.splits option.splits if_splits)

lemma axis_block_keeps: "blocks \<noteq> [] \<Longrightarrow> report_axis_block D now r scope self blocks = blocks"
  by (simp add: report_axis_block_def split: option.split)

text \<open>A report as one step of the account P\&L, with the outcomes and the blocks of its result.\<close>

lemma request_step:
  "\<exists>out b. pnl_step (erv_account r) (report_currency r e) (report_barrier r e) (eng_policy_state e)
      (eng_policy_state (fst (apply_execution_request_impl D now r e)), out, b) \<and>
    (\<forall>x. out = Some x \<longrightarrow> (\<exists>result. snd (apply_execution_request_impl D now r e) = Some result \<and>
       post_account_pnls result = [x] \<and> (b \<noteq> None \<longrightarrow> post_account_blocks result \<noteq> [])))"
proof -
  let ?st = "(eng_policy_state e, deltas_new)" and ?scope = "report_scope r e"
  let ?eco = "apply_report_economics D now r ?scope ?st"
  let ?can = "apply_report_cancel D r (fst ?eco)"
  obtain out b where step: "pnl_step (erv_account r) (report_currency r e) (report_barrier r e) (eng_policy_state e)
      (fst (fst ?eco), out, b)"
    and pnls: "snd (snd ?eco) = (case out of Some x \<Rightarrow> [x] | None \<Rightarrow> [])"
    and blocks: "b \<noteq> None \<longrightarrow> fst (snd ?eco) \<noteq> []"
    using economics_step [of r e ?st D now] by auto
  have "eng_policy_state (fst (apply_execution_request_impl D now r e)) = fst (fst ?can)"
    by (simp add: apply_execution_request_impl_def Let_def case_prod_beta)
  then have "pnl_step (erv_account r) (report_currency r e) (report_barrier r e) (eng_policy_state e)
      (eng_policy_state (fst (apply_execution_request_impl D now r e)), out, b)"
    using step pnl_step_after [OF keeps_cancel [of D r "fst ?eco"]] by simp
  moreover have "\<exists>result. snd (apply_execution_request_impl D now r e) = Some result \<and>
      post_account_pnls result = [x] \<and> (b \<noteq> None \<longrightarrow> post_account_blocks result \<noteq> [])" if "out = Some x" for x
    using pnls blocks that axis_block_keeps [of "fst (snd ?eco) @ snd ?can" D now r ?scope "fst (fst ?can)"]
    by (auto simp: apply_execution_request_impl_def Let_def case_prod_beta post_trade_is_empty_def)
  ultimately show ?thesis by blast
qed

text \<open>
  (C3) The account P\&L never changes silently: when an execution report changes the P\&L of an account,
  it is the account of the report, the result carries exactly one P\&L outcome, which gives the new
  value or the reason of the halt, and if the account's barrier forbids the new state (a value beyond a
  bound, or a halt) the result carries a block for the account.
\<close>

theorem pnl_change_is_reported_and_policed:
  assumes "account_pnl_state (eng_policy_state (fst (apply_execution_request_impl D now r e))) account \<noteq>
      account_pnl_state (eng_policy_state e) account"
  shows "account = erv_account r \<and>
    (\<exists>result out. snd (apply_execution_request_impl D now r e) = Some result \<and>
       post_account_pnls result = [out] \<and>
       announces out account
         (account_pnl_state (eng_policy_state (fst (apply_execution_request_impl D now r e))) account) \<and>
       (\<forall>b. report_barrier r e = Some b \<longrightarrow>
          forbidden_by b
            (account_pnl_state (eng_policy_state (fst (apply_execution_request_impl D now r e))) account) \<longrightarrow>
          post_account_blocks result \<noteq> []))"
proof -
  let ?self = "eng_policy_state (fst (apply_execution_request_impl D now r e))"
  obtain out b where step: "pnl_step (erv_account r) (report_currency r e) (report_barrier r e)
      (eng_policy_state e) (?self, out, b)"
    and res: "\<forall>x. out = Some x \<longrightarrow> (\<exists>result. snd (apply_execution_request_impl D now r e) = Some result \<and>
      post_account_pnls result = [x] \<and> (b \<noteq> None \<longrightarrow> post_account_blocks result \<noteq> []))"
    using request_step by blast
  have account: "account = erv_account r" using step assms by (auto simp: pnl_step_def)
  then obtain x where out: "out = Some x" using step assms by (cases out) (auto simp: pnl_step_def)
  then obtain result where result: "snd (apply_execution_request_impl D now r e) = Some result"
    "post_account_pnls result = [x]" "b \<noteq> None \<longrightarrow> post_account_blocks result \<noteq> []" using res by blast
  have told: "announces x account (account_pnl_state ?self account)"
    and block: "\<And>bar. report_barrier r e = Some bar \<Longrightarrow>
      account_pnl_block_for_state (report_currency r e) (account_pnl_state ?self account) bar None \<noteq> None \<Longrightarrow>
      b \<noteq> None"
    using step out account by (simp_all add: pnl_step_def)
  show ?thesis
    using account result told block forbidden_blocks by blast
qed

lemma request_keeps_halt:
  "account_pnl_state (eng_policy_state e) account = PnlState_Halted reason \<Longrightarrow>
   account_pnl_state (eng_policy_state (fst (apply_execution_request_impl D now r e))) account =
     PnlState_Halted reason"
  using request_step [of r e D now] unfolding pnl_step_def fst_conv by metis

lemma request_keeps_leases:
  "leases_free (eng_policy_state e) \<Longrightarrow>
   leases_free (eng_policy_state (fst (apply_execution_request_impl D now r e)))"
  using request_step [of r e D now] unfolding pnl_step_def fst_conv by metis

text \<open>
  (C9) A halt of the account P\&L is permanent under trading: no sequence of execution reports, for this
  account or another, with fills, fees or cancellations, turns a halted account P\&L back into a value or
  changes the reason it was halted for.
\<close>

theorem account_pnl_halt_is_sticky:
  assumes "account_pnl_state (eng_policy_state e) account = PnlState_Halted reason"
  shows "account_pnl_state (eng_policy_state (apply_reports D rs e)) account = PnlState_Halted reason"
  using assms by (induction rs arbitrary: e) (auto simp: request_keeps_halt)

text \<open>
  (C10) Reports never wait: when no account P\&L lease is held and no operation is stuck, every sequence of
  execution reports runs to its end without waiting for a lease, and leaves every lease free again.
\<close>

theorem reports_never_wait:
  assumes "leases_free (eng_policy_state e)"
  shows "\<not> sf_stuck (eng_policy_state (apply_reports D rs e)) \<and>
    (\<forall>account. lease_free (eng_policy_state (apply_reports D rs e)) account)"
proof -
  have "leases_free (eng_policy_state (apply_reports D rs e))"
    using assms by (induction rs arbitrary: e) (auto simp: request_keeps_leases)
  then show ?thesis by (simp add: leases_free_def)
qed

section \<open>Witnesses\<close>

text \<open>
  Account 7 holds 5 AAPL bought at 10, reserved for a sell at 10; its currency is USD and its P\&L may
  not fall below -10. The sell fills at 2.
\<close>

definition loss_engine :: "spot_funds engine" where
  "loss_engine =
     \<lparr>eng_policy_state =
        (spot_funds_new (spot_sample_settings\<lparr>sfs_pnl_barriers := \<lparr>pbs_global =
             Some \<lparr>spb_currency = ''USD'', spb_lower_bound = Some (- 10), spb_upper_bound = None\<rparr>,
             pbs_groups = [], pbs_accounts = []\<rparr>\<rparr>) None 1)\<lparr>sf_holdings :=
          \<lparr>inner = [((7, ''AAPL''), (holdings_new 0 5)\<lparr>avg_entry_price := Some 10\<rparr>)],
           index = [(7, {''AAPL''})]\<rparr>\<rparr>,
      eng_blocked = blocked_accounts_new, eng_groups = [],
      eng_account_currencies = set_account_currency account_currencies_new 7 ''USD''\<rparr>"

definition loss_report :: execution_request_view where
  "loss_report =
     \<lparr>erv_instrument = \<lparr>underlying_asset = ''AAPL'', settlement_asset = ''USD''\<rparr>, erv_account = 7,
      erv_side = Sell, erv_last_trade = Some \<lparr>trade_price = 2, trade_quantity = 5\<rparr>, erv_fee = None,
      erv_remaining = 0, erv_is_final = True, erv_lock = \<lparr>default_prices = [10], other_sections = []\<rparr>\<rparr>"

lemma loss_run:
  "account_pnl_state (eng_policy_state (fst (apply_execution_request_impl exact96_ops 0 loss_report loss_engine))) 7 =
     PnlState_Value (- 40)"
  by code_simp

lemma loss_before: "account_pnl_state (eng_policy_state loss_engine) account = PnlState_Value 0"
  by (simp add: account_pnl_state_get loss_engine_def spot_funds_new_def)

lemma loss_barrier: "\<exists>b. report_barrier loss_report loss_engine = Some b \<and> forbidden_by b (PnlState_Value (- 40))"
  by (simp add: report_barrier_def report_currency_def loss_engine_def loss_report_def spot_funds_new_def
      pnl_barrier_for_def barrier_for_def matches_currency_def filter_option_def currency_of_def or_else_def
      account_currency_of_def set_account_currency_def storage_with_def with_mut_lookup group_of_def forbidden_by_def
      account_currencies_new_def)

theorem pnl_change_is_reported_and_policed_witness:
  "\<exists>result out. snd (apply_execution_request_impl exact96_ops 0 loss_report loss_engine) = Some result \<and>
     post_account_pnls result = [out] \<and> announces out 7 (PnlState_Value (- 40)) \<and>
     post_account_blocks result \<noteq> []"
  using pnl_change_is_reported_and_policed [of exact96_ops 0 loss_report loss_engine 7] loss_run loss_before
    loss_barrier by auto

theorem account_pnl_halt_is_sticky_witness:
  "account_pnl_state (eng_policy_state (apply_reports exact96_ops [(0, loss_report), (1, loss_report)]
     (put_spot ((eng_policy_state loss_engine)\<lparr>sf_pnl :=
        [(7, \<lparr>ape_state = PnlState_Halted MissingFx, ape_assertion_token = None\<rparr>)]\<rparr>) loss_engine))) 7 =
     PnlState_Halted MissingFx"
  by (rule account_pnl_halt_is_sticky) (simp add: account_pnl_state_get)

theorem reports_never_wait_witness:
  "\<not> sf_stuck (eng_policy_state (apply_reports exact96_ops [(0, loss_report), (1, loss_report)] loss_engine))"
  using reports_never_wait [of loss_engine exact96_ops "[(0, loss_report), (1, loss_report)]"]
  by (simp add: leases_free_def lease_free_def loss_engine_def spot_funds_new_def)

end
