(* ===== verification/Order_Policies.thy ===== *)
theory Order_Policies
  imports Policy_Interface
begin

text \<open>
  The two policies that judge an order by itself: \<open>OrderValidationPolicy\<close> and
  \<open>OrderSizeLimitPolicy\<close> (\<open>crates/openpit/src/pretrade/policies/order_validation.rs\<close>
  and \<open>order_size_limit.rs\<close>), with the settings of the latter. Both implement the interface
  \<open>stateless_check\<close>; their dry-run hook is the default one, the check itself.
\<close>

section \<open>Order validation\<close>

definition order_validation_NAME :: string where
  "order_validation_NAME = ''OrderValidationPolicy''"

definition order_validation_check :: "pre_trade_context \<Rightarrow> order \<Rightarrow> rejects + unit" where
  "order_validation_check ctx ord =
     (if ctx_drop_copy ctx then Inr ()
      else bind_res (read_field order_validation_NAME ''trade amount'' (ord_trade_amount ord))
        (\<lambda>amount. case amount of
            TA_Quantity quantity \<Rightarrow>
              if is_zero quantity
              then Inl (rejects_new [reject_new order_validation_NAME ScopeOrder InvalidFieldValue
                     ''order quantity must be non-zero'' [Lit ''requested quantity 0 is not allowed'']])
              else Inr ()
          | TA_Volume volume \<Rightarrow>
              if is_zero volume
              then Inl (rejects_new [reject_new order_validation_NAME ScopeOrder InvalidFieldValue
                     ''order volume must be non-zero'' [Lit ''requested volume 0 is not allowed'']])
              else Inr ()))"

section \<open>Order size settings\<close>

record order_size_limit =
  max_quantity :: "quantity option"
  max_notional :: "volume option"

record order_size_asset_barrier =
  oab_limit :: order_size_limit
  oab_asset :: asset

record order_size_account_asset_barrier =
  oaab_limit :: order_size_limit
  oaab_account_id :: account_id
  oaab_asset :: asset

datatype order_size_limit_policy_error = NoCapsConfigured | DuplicateAssetBarrier asset
  | DuplicateAccountAssetBarrier asset

record order_size_limit_settings =
  os_account_asset_limits :: "(account_id \<times> asset, order_size_limit) hash_map"
  os_asset_limits :: "(asset, order_size_limit) hash_map"
  os_broker :: "order_size_limit option"

definition validate_size_limit :: "order_size_limit \<Rightarrow> order_size_limit_policy_error + unit" where
  "validate_size_limit limit =
     (if max_quantity limit = None \<and> max_notional limit = None then Inl NoCapsConfigured
      else Inr ())"

text \<open>The loop that fills a map of barriers, which fails on a repeated key.\<close>

fun barrier_loop ::
  "('k \<Rightarrow> order_size_limit_policy_error) \<Rightarrow> ('k, order_size_limit) hash_map \<Rightarrow>
   ('k \<times> order_size_limit) list \<Rightarrow>
   order_size_limit_policy_error + ('k, order_size_limit) hash_map" where
  "barrier_loop dup limits [] = Inr limits"
| "barrier_loop dup limits ((key, limit) # rest) =
     bind_res (validate_size_limit limit)
       (\<lambda>_. case hm_get limits key of
              None \<Rightarrow> barrier_loop dup (hm_insert limits key limit) rest
            | Some _ \<Rightarrow> Inl (dup key))"

definition asset_barrier_map ::
  "order_size_asset_barrier list \<Rightarrow>
   order_size_limit_policy_error + (asset, order_size_limit) hash_map" where
  "asset_barrier_map barriers =
     barrier_loop DuplicateAssetBarrier [] (map (\<lambda>b. (oab_asset b, oab_limit b)) barriers)"

definition account_asset_barrier_map ::
  "order_size_account_asset_barrier list \<Rightarrow>
   order_size_limit_policy_error + (account_id \<times> asset, order_size_limit) hash_map" where
  "account_asset_barrier_map barriers =
     barrier_loop (\<lambda>key. DuplicateAccountAssetBarrier (snd key)) []
       (map (\<lambda>b. ((oaab_account_id b, oaab_asset b), oaab_limit b)) barriers)"

definition validate_broker ::
  "order_size_limit option \<Rightarrow> order_size_limit_policy_error + unit" where
  "validate_broker broker =
     (case broker of Some limit \<Rightarrow> validate_size_limit limit | None \<Rightarrow> Inr ())"

definition order_size_settings_new ::
  "order_size_limit option \<Rightarrow> order_size_asset_barrier list \<Rightarrow>
   order_size_account_asset_barrier list \<Rightarrow>
   order_size_limit_policy_error + order_size_limit_settings" where
  "order_size_settings_new broker asset_barriers account_asset_barriers =
     bind_res (validate_broker broker) (\<lambda>_.
     bind_res (asset_barrier_map asset_barriers) (\<lambda>asset_limits.
     bind_res (account_asset_barrier_map account_asset_barriers) (\<lambda>account_asset_limits.
       Inr \<lparr>os_account_asset_limits = account_asset_limits, os_asset_limits = asset_limits,
            os_broker = broker\<rparr>)))"

definition size_set_broker ::
  "order_size_limit_settings \<Rightarrow> order_size_limit option \<Rightarrow>
   order_size_limit_policy_error + order_size_limit_settings" where
  "size_set_broker self broker =
     bind_res (validate_broker broker) (\<lambda>_. Inr (self\<lparr>os_broker := broker\<rparr>))"

definition size_set_asset_barriers ::
  "order_size_limit_settings \<Rightarrow> order_size_asset_barrier list \<Rightarrow>
   order_size_limit_policy_error + order_size_limit_settings" where
  "size_set_asset_barriers self barriers =
     bind_res (asset_barrier_map barriers) (\<lambda>m. Inr (self\<lparr>os_asset_limits := m\<rparr>))"

definition size_set_account_asset_barriers ::
  "order_size_limit_settings \<Rightarrow> order_size_account_asset_barrier list \<Rightarrow>
   order_size_limit_policy_error + order_size_limit_settings" where
  "size_set_account_asset_barriers self barriers =
     bind_res (account_asset_barrier_map barriers) (\<lambda>m. Inr (self\<lparr>os_account_asset_limits := m\<rparr>))"

section \<open>The order size check\<close>

definition order_size_NAME :: string where
  "order_size_NAME = ''OrderSizeLimitPolicy''"

definition select_asset_limit ::
  "order_size_limit_settings \<Rightarrow> account_id option \<Rightarrow> asset \<Rightarrow>
   (order_size_limit \<Rightarrow> decimal option) \<Rightarrow> decimal option" where
  "select_asset_limit settings account asset metric =
     (case Option.bind account (\<lambda>account_id.
             Option.bind (hm_get (os_account_asset_limits settings) (account_id, asset)) metric) of
        Some maximum \<Rightarrow> Some maximum
      | None \<Rightarrow> Option.bind (hm_get (os_asset_limits settings) asset) metric)"

record resolved_metric_limit =
  rml_requested :: decimal
  rml_maximum :: decimal

definition resolve_metric_limits ::
  "decimal option \<Rightarrow> decimal option \<Rightarrow> (reject + decimal) \<Rightarrow>
   reject + (resolved_metric_limit option \<times> resolved_metric_limit option)" where
  "resolve_metric_limits axis_limit broker_limit resolve =
     (if axis_limit = None \<and> broker_limit = None then Inr (None, None)
      else bind_res resolve (\<lambda>requested.
        Inr (map_option (\<lambda>m. \<lparr>rml_requested = requested, rml_maximum = m\<rparr>) axis_limit,
             map_option (\<lambda>m. \<lparr>rml_requested = requested, rml_maximum = m\<rparr>) broker_limit)))"

definition exceeded :: "resolved_metric_limit option \<Rightarrow> resolved_metric_limit option" where
  "exceeded limit =
     Option.bind limit (\<lambda>l. if rml_requested l > rml_maximum l then Some l else None)"

definition check_limit_optional ::
  "string \<Rightarrow> resolved_metric_limit option \<Rightarrow> resolved_metric_limit option \<Rightarrow>
   (asset \<times> asset) option \<Rightarrow> reject option" where
  "check_limit_optional policy quantity notional assets =
     (case (exceeded quantity, exceeded notional) of
        (None, None) \<Rightarrow> None
      | (Some q, None) \<Rightarrow>
          Some (reject_new policy ScopeOrder OrderQtyExceedsLimit ''order quantity exceeded''
            [Lit ''requested '', Num (rml_requested q), Lit '', max allowed: '', Num (rml_maximum q)])
      | (None, Some n) \<Rightarrow>
          Some (reject_new policy ScopeOrder OrderNotionalExceedsLimit ''order notional exceeded''
            [Lit ''requested '', Num (rml_requested n), Lit '', max allowed: '', Num (rml_maximum n)])
      | (Some q, Some n) \<Rightarrow>
          Some (reject_new policy ScopeOrder OrderExceedsLimit ''order size exceeded''
            (case assets of
               Some (quantity_asset, notional_asset) \<Rightarrow>
                 [Lit ''requested quantity '', Num (rml_requested q),
                  Lit ('' for asset '' @ quantity_asset @ '', max allowed: ''),
                  Num (rml_maximum q), Lit ''; requested notional '', Num (rml_requested n),
                  Lit ('' for asset '' @ notional_asset @ '', max allowed: ''), Num (rml_maximum n)]
             | None \<Rightarrow>
                 [Lit ''requested quantity '', Num (rml_requested q), Lit '', max allowed: '',
                  Num (rml_maximum q), Lit ''; requested notional '', Num (rml_requested n),
                  Lit '', max allowed: '', Num (rml_maximum n)])))"

definition order_value_calculation_failed_reject :: "string \<Rightarrow> string \<Rightarrow> reject" where
  "order_value_calculation_failed_reject policy details =
     reject_new policy ScopeOrder OrderValueCalculationFailed ''order value calculation failed''
       [Lit details]"

definition resolve_notional ::
  "dec_ops \<Rightarrow> string \<Rightarrow> trade_amount \<Rightarrow> price option \<Rightarrow> reject + volume" where
  "resolve_notional D policy amount price =
     (case (amount, price) of
        (TA_Volume volume, _) \<Rightarrow> Inr volume
      | (TA_Quantity quantity, Some price) \<Rightarrow>
          map_err (\<lambda>_. order_value_calculation_failed_reject policy
              ''price or quantity could not be used to evaluate order notional'')
            (price_calculate_volume D price quantity)
      | (TA_Quantity _, None) \<Rightarrow>
          Inl (order_value_calculation_failed_reject policy
            ''price not provided for evaluating cash flow/notional/volume''))"

definition resolve_quantity ::
  "dec_ops \<Rightarrow> string \<Rightarrow> trade_amount \<Rightarrow> price option \<Rightarrow> reject + quantity" where
  "resolve_quantity D policy amount price =
     (case (amount, price) of
        (TA_Quantity quantity, _) \<Rightarrow> Inr quantity
      | (TA_Volume volume, Some price) \<Rightarrow>
          map_err (\<lambda>_. order_value_calculation_failed_reject policy
              ''price or volume could not be used to evaluate order quantity'')
            (volume_calculate_quantity D volume price)
      | (TA_Volume _, None) \<Rightarrow>
          Inl (order_value_calculation_failed_reject policy
            ''price not provided for evaluating cash flow/notional/volume''))"

definition is_volume_amount :: "trade_amount \<Rightarrow> bool" where
  "is_volume_amount amount = (case amount of TA_Volume _ \<Rightarrow> True | TA_Quantity _ \<Rightarrow> False)"

text \<open>The part of the check after the caps have been selected.\<close>

definition enforce_size_limits ::
  "dec_ops \<Rightarrow> instrument option \<Rightarrow> decimal option \<Rightarrow> decimal option \<Rightarrow> decimal option \<Rightarrow>
   decimal option \<Rightarrow> order \<Rightarrow> rejects + unit" where
  "enforce_size_limits D instrument quantity_axis_limit notional_axis_limit
       quantity_broker_limit notional_broker_limit ord =
     (let quantity_needed = (quantity_axis_limit \<noteq> None \<or> quantity_broker_limit \<noteq> None);
          notional_needed = (notional_axis_limit \<noteq> None \<or> notional_broker_limit \<noteq> None)
      in if \<not> quantity_needed \<and> \<not> notional_needed then Inr ()
         else
           bind_res (read_field order_size_NAME ''trade amount'' (ord_trade_amount ord)) (\<lambda>amount.
           bind_res
             (if (is_volume_amount amount \<and> quantity_needed) \<or>
                 (\<not> is_volume_amount amount \<and> notional_needed)
              then read_field order_size_NAME ''price'' (ord_price ord) else Inr None) (\<lambda>price.
           bind_res
             (map_err (\<lambda>r. rejects_new [r])
               (resolve_metric_limits quantity_axis_limit quantity_broker_limit
                 (resolve_quantity D order_size_NAME amount price)))
             (\<lambda>(quantity_axis, quantity_broker).
           bind_res
             (map_err (\<lambda>r. rejects_new [r])
               (resolve_metric_limits notional_axis_limit notional_broker_limit
                 (resolve_notional D order_size_NAME amount price)))
             (\<lambda>(notional_axis, notional_broker).
                let axis_reject = check_limit_optional order_size_NAME quantity_axis notional_axis
                      (map_option (\<lambda>i. (underlying_asset i, settlement_asset i)) instrument);
                    broker_reject =
                      check_limit_optional order_size_NAME quantity_broker notional_broker None
                in case (case axis_reject of Some r \<Rightarrow> Some r | None \<Rightarrow> broker_reject) of
                     Some reject \<Rightarrow> Inl (rejects_new [reject])
                   | None \<Rightarrow> Inr ())))))"

definition order_size_check ::
  "dec_ops \<Rightarrow> order_size_limit_settings \<Rightarrow> pre_trade_context \<Rightarrow> order \<Rightarrow> rejects + unit" where
  "order_size_check D settings ctx ord =
     (if ctx_drop_copy ctx then Inr ()
      else
        bind_res
          (if os_asset_limits settings \<noteq> [] \<or> os_account_asset_limits settings \<noteq> []
           then map_res Some (read_field order_size_NAME ''instrument'' (ord_instrument ord))
           else Inr None) (\<lambda>instrument.
        bind_res
          (if os_account_asset_limits settings \<noteq> []
           then map_res Some (read_field order_size_NAME ''account ID'' (ctx_account ctx))
           else Inr None) (\<lambda>account_id.
        enforce_size_limits D instrument
          (Option.bind instrument (\<lambda>i.
             select_asset_limit settings account_id (underlying_asset i) max_quantity))
          (Option.bind instrument (\<lambda>i.
             select_asset_limit settings account_id (settlement_asset i) max_notional))
          (Option.bind (os_broker settings) max_quantity)
          (Option.bind (os_broker settings) max_notional) ord)))"

definition order_size_retire_account ::
  "order_size_limit_settings \<Rightarrow> account_id \<Rightarrow> account_retirement_refusal + unit" where
  "order_size_retire_account settings account =
     (if list_ex (\<lambda>(a, _). a = account) (hm_keys (os_account_asset_limits settings))
      then Inl ConfigurationReferencesAccount else Inr ())"

section \<open>Reference decision\<close>

text \<open>
  The caps that apply to an asset: the account's own cap where it has one for the metric, else the
  cap of the asset, and the broker's cap always in addition.
\<close>

definition axis_cap ::
  "order_size_limit_settings \<Rightarrow> account_id \<Rightarrow> asset \<Rightarrow> (order_size_limit \<Rightarrow> decimal option) \<Rightarrow>
   decimal option" where
  "axis_cap s account asset metric =
     (case Option.bind (hm_get (os_account_asset_limits s) (account, asset)) metric of
        Some m \<Rightarrow> Some m
      | None \<Rightarrow> Option.bind (hm_get (os_asset_limits s) asset) metric)"

definition effective_caps ::
  "order_size_limit_settings \<Rightarrow> account_id \<Rightarrow> asset \<Rightarrow> (order_size_limit \<Rightarrow> decimal option) \<Rightarrow>
   decimal set" where
  "effective_caps s account asset metric =
     set_option (axis_cap s account asset metric) \<union> set_option (Option.bind (os_broker s) metric)"

definition within_caps :: "decimal \<Rightarrow> decimal set \<Rightarrow> bool" where
  "within_caps requested caps \<longleftrightarrow> (\<forall>m \<in> caps. requested \<le> m)"

text \<open>A concrete order for the examples.\<close>

definition sample_order :: order where
  "sample_order =
     \<lparr>ord_account_id = Inr 1,
      ord_instrument = Inr \<lparr>underlying_asset = ''AAPL'', settlement_asset = ''USD''\<rparr>,
      ord_trade_amount = Inr (TA_Quantity 3), ord_price = Inr (Some 200), ord_side = Inr Buy\<rparr>"

section \<open>Lemmas\<close>

lemma resolved_pair:
  assumes "r = Inr x"
  shows "resolve_metric_limits a b r =
    Inr (map_option (\<lambda>m. \<lparr>rml_requested = x, rml_maximum = m\<rparr>) a,
         map_option (\<lambda>m. \<lparr>rml_requested = x, rml_maximum = m\<rparr>) b)"
  using assms by (simp add: resolve_metric_limits_def)

lemma exceeded_None:
  "exceeded (map_option (\<lambda>m. \<lparr>rml_requested = x, rml_maximum = m\<rparr>) a) = None \<longleftrightarrow>
     (\<forall>m \<in> set_option a. x \<le> m)"
  by (cases a) (auto simp: exceeded_def)

lemma check_limit_None:
  "check_limit_optional pol q n as = None \<longleftrightarrow> exceeded q = None \<and> exceeded n = None"
  by (simp add: check_limit_optional_def split: option.splits)

lemma check_limit_scope:
  "check_limit_optional pol q n as = Some r \<Longrightarrow> rj_scope r = ScopeOrder"
  by (auto simp: check_limit_optional_def split: option.splits)

lemma select_asset_limit_axis:
  "(os_account_asset_limits s \<noteq> [] \<longrightarrow> acc = Some a) \<Longrightarrow>
   (os_account_asset_limits s = [] \<longrightarrow> acc = None) \<Longrightarrow>
   select_asset_limit s acc asset metric = axis_cap s a asset metric"
  by (cases "os_account_asset_limits s = []") (simp_all add: select_asset_limit_def axis_cap_def)

lemma axis_cap_empty:
  "os_account_asset_limits s = [] \<Longrightarrow> os_asset_limits s = [] \<Longrightarrow> axis_cap s a asset metric = None"
  by (simp add: axis_cap_def)

lemma order_scoped_reject:
  "(\<And>r. m = Inl r \<Longrightarrow> rj_scope r = ScopeOrder) \<Longrightarrow> order_scoped (map_err (\<lambda>r. rejects_new [r]) m)"
  by (cases m) simp_all

lemma resolve_scope:
  "resolve_quantity D pol amount price = Inl r \<Longrightarrow> rj_scope r = ScopeOrder"
  "resolve_notional D pol amount price = Inl r \<Longrightarrow> rj_scope r = ScopeOrder"
  by (auto simp: resolve_quantity_def resolve_notional_def map_err_eq_Inl
      order_value_calculation_failed_reject_def split: trade_amount.splits option.splits)

lemma order_scoped_resolve:
  "order_scoped (map_err (\<lambda>r. rejects_new [r])
     (resolve_metric_limits a b (resolve_quantity D pol amount price)))"
  "order_scoped (map_err (\<lambda>r. rejects_new [r])
     (resolve_metric_limits a b (resolve_notional D pol amount price)))"
  by (auto simp: resolve_metric_limits_def bind_res_eq_Inl intro!: order_scoped_reject
      dest: resolve_scope split: if_splits)

lemma order_scoped_map_res [simp]: "order_scoped (map_res f m) = order_scoped m"
  by (cases m) (simp_all add: order_scoped_def)

lemma enforce_scoped: "order_scoped (enforce_size_limits D i qa na qb nb ord)"
  unfolding enforce_size_limits_def Let_def
  by (auto intro!: order_scoped_bind order_scoped_resolve dest: check_limit_scope
      split: option.splits)

lemma order_size_check_scoped: "order_scoped (order_size_check D s ctx ord)"
  unfolding order_size_check_def by (auto intro!: order_scoped_bind enforce_scoped)

lemma order_validation_scoped: "order_scoped (order_validation_check ctx ord)"
  unfolding order_validation_check_def
  by (auto intro!: order_scoped_bind split: trade_amount.splits)

interpretation validation: stateless_check order_validation_check
  by unfold_locales (rule order_validation_scoped, simp add: order_validation_check_def)

interpretation size: stateless_check "order_size_check D s" for D s
  by unfold_locales (rule order_size_check_scoped, simp add: order_size_check_def)

lemma first_reject_none:
  "(case (case x of Some r \<Rightarrow> Some r | None \<Rightarrow> y) of Some r \<Rightarrow> Inl (f r) | None \<Rightarrow> Inr ()) = Inr () \<longleftrightarrow>
     x = None \<and> y = None"
  by (simp split: option.splits)

lemma enforce_decides:
  assumes "ord_trade_amount ord = Inr amount" and "ord_price ord = Inr (Some p)"
    and q: "resolve_quantity D order_size_NAME amount (Some p) = Inr q"
    and n: "resolve_notional D order_size_NAME amount (Some p) = Inr v"
  shows "enforce_size_limits D i qa na qb nb ord = Inr () \<longleftrightarrow>
    within_caps q (set_option qa \<union> set_option qb) \<and> within_caps v (set_option na \<union> set_option nb)"
proof -
  let ?qn = "qa \<noteq> None \<or> qb \<noteq> None" and ?nn = "na \<noteq> None \<or> nb \<noteq> None"
  let ?price = "if is_volume_amount amount \<and> ?qn \<or> \<not> is_volume_amount amount \<and> ?nn
      then Some p else None"
  let ?mk = "\<lambda>x m. \<lparr>rml_requested = x, rml_maximum = m\<rparr>"
  have rq: "resolve_metric_limits qa qb (resolve_quantity D order_size_NAME amount ?price) =
      Inr (map_option (?mk q) qa, map_option (?mk q) qb)"
    using q by (cases amount)
      (auto simp: resolve_metric_limits_def resolve_quantity_def is_volume_amount_def)
  have rn: "resolve_metric_limits na nb (resolve_notional D order_size_NAME amount ?price) =
      Inr (map_option (?mk v) na, map_option (?mk v) nb)"
    using n by (cases amount)
      (auto simp: resolve_metric_limits_def resolve_notional_def is_volume_amount_def)
  have price: "(if is_volume_amount amount \<and> ?qn \<or> \<not> is_volume_amount amount \<and> ?nn
      then (Inr (Some p) :: rejects + price option) else Inr None) = Inr ?price"
    by simp
  have ax: "check_limit_optional order_size_NAME (map_option (?mk q) qa) (map_option (?mk v) na) x
      = None \<longleftrightarrow> within_caps q (set_option qa) \<and> within_caps v (set_option na)" for qa na x
    by (simp add: check_limit_None exceeded_None within_caps_def)
  have un: "within_caps y (A \<union> B) \<longleftrightarrow> within_caps y A \<and> within_caps y B" for y A B
    by (auto simp: within_caps_def)
  have none: "within_caps y (set_option None)" for y by (simp add: within_caps_def)
  show ?thesis
  proof (cases "?qn \<or> ?nn")
    case False
    then show ?thesis using none by (simp add: enforce_size_limits_def within_caps_def)
  next
    case True
    have "enforce_size_limits D i qa na qb nb ord =
      (case (case check_limit_optional order_size_NAME (map_option (?mk q) qa) (map_option (?mk v) na)
               (map_option (\<lambda>i. (underlying_asset i, settlement_asset i)) i) of
               Some r \<Rightarrow> Some r
             | None \<Rightarrow> check_limit_optional order_size_NAME (map_option (?mk q) qb)
                 (map_option (?mk v) nb) None) of
         Some r \<Rightarrow> Inl (rejects_new [r]) | None \<Rightarrow> Inr ())"
      using True
      by (simp only: enforce_size_limits_def assms(1,2) Let_def price read_field_Inr bind_res_simps
          rq rn map_err_simps prod.case de_Morgan_disj [symmetric] not_not if_False if_True
          simp_thms)
    then show ?thesis by (auto simp: first_reject_none ax un)
  qed
qed

lemma barrier_loop_ok:
  "is_ok (barrier_loop dup m bs) \<longleftrightarrow>
     list_all (\<lambda>(k, l). is_ok (validate_size_limit l)) bs \<and> distinct (map fst bs) \<and>
     (\<forall>k \<in> set (map fst bs). hm_get m k = None)"
  by (induction dup m bs rule: barrier_loop.induct)
    (auto simp: result_simps split: option.splits)

lemma barrier_loop_lookup:
  "barrier_loop dup m bs = Inr m' \<Longrightarrow>
   hm_get m' k = (case hm_get bs k of Some l \<Rightarrow> Some l | None \<Rightarrow> hm_get m k)"
proof (induction dup m bs rule: barrier_loop.induct)
  case (2 dup limits key limit rest)
  have none: "hm_get limits key = None"
    and rest: "barrier_loop dup (hm_insert limits key limit) rest = Inr m'"
    using 2(2) by (auto simp: result_simps split: option.splits)
  have "hm_get rest key = None"
    using barrier_loop_ok [of dup "hm_insert limits key limit" rest] rest
    by (auto simp: map_of_eq_None_iff)
  then show ?case using 2(1) [OF none rest] by (auto split: option.splits)
qed simp

lemma barrier_loop_get: "barrier_loop dup [] bs = Inr m \<Longrightarrow> hm_get m = hm_get bs"
  using barrier_loop_lookup [of dup "[]" bs m] by (auto simp: fun_eq_iff split: option.splits)

section \<open>Properties\<close>

text \<open>
  The order size policy decides by the effective caps alone: a live order whose fields can be
  read and whose quantity and notional can be computed passes exactly when its quantity is within
  every quantity cap for the underlying asset and its notional within every notional cap for the
  settlement asset, where an account's own cap replaces the cap of the asset metric by metric and
  the broker's caps always apply.
\<close>

lemma order_size_decides_by_caps:
  assumes live: "\<not> ctx_drop_copy ctx" and acc: "ctx_account ctx = Inr a"
    and ins: "ord_instrument ord = Inr i" and amt: "ord_trade_amount ord = Inr amount"
    and price: "ord_price ord = Inr (Some p)"
    and q: "resolve_quantity D order_size_NAME amount (Some p) = Inr q"
    and n: "resolve_notional D order_size_NAME amount (Some p) = Inr v"
  shows "order_size_check D s ctx ord = Inr () \<longleftrightarrow>
    within_caps q (effective_caps s a (underlying_asset i) max_quantity) \<and>
    within_caps v (effective_caps s a (settlement_asset i) max_notional)"
proof -
  have sel: "Option.bind (if os_asset_limits s \<noteq> [] \<or> os_account_asset_limits s \<noteq> []
        then Some i else None)
      (\<lambda>i. select_asset_limit s (if os_account_asset_limits s \<noteq> [] then Some a else None) (f i) m)
      = axis_cap s a (f i) m" for f m
    using axis_cap_empty [of s a "f i" m] select_asset_limit_axis [of s _ a "f i" m] by auto
  have "order_size_check D s ctx ord =
      enforce_size_limits D (if os_asset_limits s \<noteq> [] \<or> os_account_asset_limits s \<noteq> []
          then Some i else None)
        (axis_cap s a (underlying_asset i) max_quantity)
        (axis_cap s a (settlement_asset i) max_notional)
        (Option.bind (os_broker s) max_quantity) (Option.bind (os_broker s) max_notional) ord"
    using live sel [of underlying_asset] sel [of settlement_asset]
    by (auto simp: order_size_check_def acc ins split: if_splits)
  then show ?thesis
    using enforce_decides [OF amt price q n] by (simp add: effective_caps_def)
qed

text \<open>
  Size settings are accepted exactly when every barrier has at least one cap and no key is
  given twice, and then each barrier is found under its own key; a rejected update changes nothing.
\<close>

lemma order_size_settings_faithful:
  "(is_ok (order_size_settings_new broker as_bs acc_bs) \<longleftrightarrow>
     is_ok (validate_broker broker) \<and>
     list_all (\<lambda>b. is_ok (validate_size_limit (oab_limit b))) as_bs \<and> distinct (map oab_asset as_bs) \<and>
     list_all (\<lambda>b. is_ok (validate_size_limit (oaab_limit b))) acc_bs \<and>
     distinct (map (\<lambda>b. (oaab_account_id b, oaab_asset b)) acc_bs)) \<and>
   (\<forall>s. order_size_settings_new broker as_bs acc_bs = Inr s \<longrightarrow> os_broker s = broker \<and>
     hm_get (os_asset_limits s) = hm_get (map (\<lambda>b. (oab_asset b, oab_limit b)) as_bs) \<and>
     hm_get (os_account_asset_limits s) =
       hm_get (map (\<lambda>b. ((oaab_account_id b, oaab_asset b), oaab_limit b)) acc_bs))"
proof -
  have la: "is_ok (asset_barrier_map as_bs) \<longleftrightarrow>
      list_all (\<lambda>b. is_ok (validate_size_limit (oab_limit b))) as_bs \<and> distinct (map oab_asset as_bs)"
    by (simp add: asset_barrier_map_def barrier_loop_ok list_all_iff comp_def)
  have laa: "is_ok (account_asset_barrier_map acc_bs) \<longleftrightarrow>
      list_all (\<lambda>b. is_ok (validate_size_limit (oaab_limit b))) acc_bs \<and>
      distinct (map (\<lambda>b. (oaab_account_id b, oaab_asset b)) acc_bs)"
    by (simp add: account_asset_barrier_map_def barrier_loop_ok list_all_iff comp_def)
  have ga: "asset_barrier_map as_bs = Inr m \<Longrightarrow>
      hm_get m = hm_get (map (\<lambda>b. (oab_asset b, oab_limit b)) as_bs)" for m
    by (simp add: asset_barrier_map_def barrier_loop_get)
  have gaa: "account_asset_barrier_map acc_bs = Inr m \<Longrightarrow> hm_get m =
      hm_get (map (\<lambda>b. ((oaab_account_id b, oaab_asset b), oaab_limit b)) acc_bs)" for m
    by (simp add: account_asset_barrier_map_def barrier_loop_get)
  have ok: "is_ok (order_size_settings_new broker as_bs acc_bs) \<longleftrightarrow>
      is_ok (validate_broker broker) \<and> is_ok (asset_barrier_map as_bs) \<and>
      is_ok (account_asset_barrier_map acc_bs)"
    by (auto simp: order_size_settings_new_def result_simps)
  show ?thesis unfolding ok la laa using ga gaa
    by (auto simp: order_size_settings_new_def result_simps)
qed

end
