(* ===== verification/Rate_Limit.thy ===== *)
theory Rate_Limit
  imports Policy_Interface
begin

text \<open>
  The rate limit policy (\<open>crates/openpit/src/pretrade/policies/rate_limit.rs\<close>): fixed-window
  counters for the broker and asset axes, sliding-window logs for the account and account-and-asset
  axes, the settings with their retuning operations, the start-stage check with its dry run, and
  retirement.

  Instants and durations are nanoseconds as natural numbers; the fixed-window counters keep their
  64-bit arithmetic. A counter shared through \<open>Arc\<close> between versions of the settings is part
  of the settings record here: one policy has one current version, whose counters a retuning carries
  over. \<open>partition_point\<close> of the standard library, whose result is specified for
  partitioned sequences only, is the length of the prefix satisfying the predicate; that the logs
  are partitioned follows from the invariant \<open>logs_sorted\<close>.
\<close>

section \<open>Limits and settings\<close>


record rate_limit =
  max_orders :: u64
  window :: duration

record rate_limit_asset_barrier =
  rab_limit :: rate_limit
  rab_settlement_asset :: asset

record rate_limit_account_barrier =
  racb_limit :: rate_limit
  racb_account_id :: account_id

record rate_limit_account_asset_barrier =
  raab_limit :: rate_limit
  raab_account_id :: account_id
  raab_settlement_asset :: asset

datatype rate_limit_policy_error = InvalidWindow duration

record window_counter =
  wc_count :: u64
  wc_window_start_nanos :: u64

record rate_limit_slot =
  rls_counter :: window_counter
  rls_limit :: rate_limit

record rate_limit_settings =
  rl_asset_limits :: "(asset, rate_limit_slot) hash_map"
  rl_account_limits :: "(account_id, rate_limit) hash_map"
  rl_account_asset_limits :: "(account_id \<times> asset, rate_limit) hash_map"
  rl_broker :: "rate_limit_slot option"

definition validate_rate_limit :: "rate_limit \<Rightarrow> rate_limit_policy_error + rate_limit" where
  "validate_rate_limit limit =
     (if window limit = 0 \<or> window limit > 2 ^ 64 - 1 then Inl (InvalidWindow (window limit))
      else Inr limit)"

definition counter_new :: "u64 \<Rightarrow> window_counter" where
  "counter_new now_nanos = \<lparr>wc_count = 0, wc_window_start_nanos = now_nanos\<rparr>"

definition fresh_slot :: "rate_limit \<Rightarrow> rate_limit_slot" where
  "fresh_slot limit = \<lparr>rls_counter = counter_new 0, rls_limit = limit\<rparr>"

text \<open>Collecting validated pairs into a map: the first error stops, a repeated key overwrites.\<close>

fun collect_limits ::
  "('k, 'v) hash_map \<Rightarrow> (rate_limit \<Rightarrow> 'k \<Rightarrow> 'v) \<Rightarrow> ('k \<times> rate_limit) list \<Rightarrow>
   rate_limit_policy_error + ('k, 'v) hash_map" where
  "collect_limits m mk [] = Inr m"
| "collect_limits m mk ((k, l) # rest) =
     bind_res (validate_rate_limit l) (\<lambda>limit. collect_limits (hm_insert m k (mk limit k)) mk rest)"

definition rate_settings_new ::
  "rate_limit option \<Rightarrow> rate_limit_asset_barrier list \<Rightarrow> rate_limit_account_barrier list \<Rightarrow>
   rate_limit_account_asset_barrier list \<Rightarrow> rate_limit_policy_error + rate_limit_settings" where
  "rate_settings_new broker asset_barriers account_barriers account_asset_barriers =
     bind_res (case broker of
         None \<Rightarrow> Inr None
       | Some b \<Rightarrow> map_res (\<lambda>limit. Some (fresh_slot limit)) (validate_rate_limit b)) (\<lambda>brk.
     bind_res (collect_limits [] (\<lambda>limit _. fresh_slot limit)
         (map (\<lambda>b. (rab_settlement_asset b, rab_limit b)) asset_barriers)) (\<lambda>as.
     bind_res (collect_limits [] (\<lambda>limit _. limit)
         (map (\<lambda>b. (racb_account_id b, racb_limit b)) account_barriers)) (\<lambda>accs.
     bind_res (collect_limits [] (\<lambda>limit _. limit)
         (map (\<lambda>b. ((raab_account_id b, raab_settlement_asset b), raab_limit b))
           account_asset_barriers)) (\<lambda>aas.
       Inr \<lparr>rl_asset_limits = as, rl_account_limits = accs, rl_account_asset_limits = aas,
            rl_broker = brk\<rparr>))))"

definition rate_set_broker ::
  "rate_limit_settings \<Rightarrow> rate_limit option \<Rightarrow> rate_limit_policy_error + rate_limit_settings" where
  "rate_set_broker self broker =
     (case broker of
        None \<Rightarrow> Inr (self\<lparr>rl_broker := None\<rparr>)
      | Some b \<Rightarrow>
          bind_res (validate_rate_limit b) (\<lambda>limit.
            let counter = (case rl_broker self of
                  Some slot \<Rightarrow> rls_counter slot | None \<Rightarrow> counter_new 0)
            in Inr (self\<lparr>rl_broker := Some \<lparr>rls_counter = counter, rls_limit = limit\<rparr>\<rparr>)))"

definition rate_set_asset_barriers ::
  "rate_limit_settings \<Rightarrow> rate_limit_asset_barrier list \<Rightarrow>
   rate_limit_policy_error + rate_limit_settings" where
  "rate_set_asset_barriers self barriers =
     bind_res
       (collect_limits []
         (\<lambda>limit asset.
            \<lparr>rls_counter = (case hm_get (rl_asset_limits self) asset of
                Some slot \<Rightarrow> rls_counter slot | None \<Rightarrow> counter_new 0),
             rls_limit = limit\<rparr>)
         (map (\<lambda>b. (rab_settlement_asset b, rab_limit b)) barriers))
       (\<lambda>m. Inr (self\<lparr>rl_asset_limits := m\<rparr>))"

definition rate_set_account_barriers ::
  "rate_limit_settings \<Rightarrow> rate_limit_account_barrier list \<Rightarrow>
   rate_limit_policy_error + rate_limit_settings" where
  "rate_set_account_barriers self barriers =
     bind_res (collect_limits [] (\<lambda>limit _. limit)
         (map (\<lambda>b. (racb_account_id b, racb_limit b)) barriers))
       (\<lambda>m. Inr (self\<lparr>rl_account_limits := m\<rparr>))"

definition rate_set_account_asset_barriers ::
  "rate_limit_settings \<Rightarrow> rate_limit_account_asset_barrier list \<Rightarrow>
   rate_limit_policy_error + rate_limit_settings" where
  "rate_set_account_asset_barriers self barriers =
     bind_res (collect_limits [] (\<lambda>limit _. limit)
         (map (\<lambda>b. ((raab_account_id b, raab_settlement_asset b), raab_limit b)) barriers))
       (\<lambda>m. Inr (self\<lparr>rl_account_asset_limits := m\<rparr>))"

definition rearm :: "rate_limit_settings \<Rightarrow> rate_limit_settings" where
  "rearm self =
     self\<lparr>rl_broker := map_option (\<lambda>slot. slot\<lparr>rls_counter := counter_new 0\<rparr>) (rl_broker self),
          rl_asset_limits :=
            map (\<lambda>(k, slot). (k, slot\<lparr>rls_counter := counter_new 0\<rparr>)) (rl_asset_limits self)\<rparr>"

section \<open>Fixed-window counters\<close>

definition u64_checked_sub :: "u64 \<Rightarrow> u64 \<Rightarrow> u64 option" where
  "u64_checked_sub a b = (if b \<le> a then Some (a - b) else None)"

definition rolled_over :: "u64 \<Rightarrow> u64 \<Rightarrow> u64 \<Rightarrow> bool" where
  "rolled_over now_nanos win_start window_nanos =
     (case u64_checked_sub now_nanos win_start of
        Some elapsed \<Rightarrow> elapsed \<ge> window_nanos
      | None \<Rightarrow> False)"

definition counter_push :: "window_counter \<Rightarrow> u64 \<Rightarrow> u64 \<Rightarrow> window_counter \<times> u64" where
  "counter_push self now_nanos window_nanos =
     (if rolled_over now_nanos (wc_window_start_nanos self) window_nanos
      then (\<lparr>wc_count = 1, wc_window_start_nanos = now_nanos\<rparr>, 1)
      else (self\<lparr>wc_count := wc_count self + 1\<rparr>, wc_count self + 1))"

definition counter_peek :: "window_counter \<Rightarrow> u64 \<Rightarrow> u64 \<Rightarrow> u64" where
  "counter_peek self now_nanos window_nanos =
     (if rolled_over now_nanos (wc_window_start_nanos self) window_nanos then 1
      else wc_count self + 1)"

definition window_nanos :: "rate_limit \<Rightarrow> u64" where
  "window_nanos limit = of_nat (window limit)"

definition fixed_window_count ::
  "rate_limit_slot \<Rightarrow> u64 \<Rightarrow> bool \<Rightarrow> rate_limit_slot \<times> u64" where
  "fixed_window_count slot now_nanos recording =
     (let win = window_nanos (rls_limit slot)
      in if recording
         then (case counter_push (rls_counter slot) now_nanos win of
                 (c, n) \<Rightarrow> (slot\<lparr>rls_counter := c\<rparr>, n))
         else (slot, counter_peek (rls_counter slot) now_nanos win))"

section \<open>Sliding-window logs\<close>

definition checked_duration_since :: "instant \<Rightarrow> instant \<Rightarrow> duration option" where
  "checked_duration_since now earlier = (if earlier \<le> now then Some (now - earlier) else None)"

definition entry_expired :: "instant \<Rightarrow> instant \<Rightarrow> duration \<Rightarrow> bool" where
  "entry_expired entry now win =
     (case checked_duration_since now entry of Some elapsed \<Rightarrow> elapsed \<ge> win | None \<Rightarrow> False)"

fun advance_window :: "instant list \<Rightarrow> instant \<Rightarrow> duration \<Rightarrow> instant list" where
  "advance_window [] now win = []"
| "advance_window (oldest # rest) now win =
     (if entry_expired oldest now win then advance_window rest now win else oldest # rest)"

definition partition_point :: "('a \<Rightarrow> bool) \<Rightarrow> 'a list \<Rightarrow> nat" where
  "partition_point p xs = length (takeWhile p xs)"

definition insert_in_time_order :: "instant list \<Rightarrow> instant \<Rightarrow> instant list" where
  "insert_in_time_order timestamps now =
     (if timestamps \<noteq> [] \<and> last timestamps > now
      then (let pos = partition_point (\<lambda>entry. entry \<le> now) timestamps
            in take pos timestamps @ [now] @ drop pos timestamps)
      else timestamps @ [now])"

definition window_count :: "instant list \<Rightarrow> instant \<Rightarrow> duration \<Rightarrow> u64" where
  "window_count timestamps now win =
     (let expired = partition_point (\<lambda>entry. entry_expired entry now win) timestamps
      in of_nat (length timestamps - expired) + 1)"

definition sliding_window_count ::
  "('k, instant list) storage \<Rightarrow> 'k \<Rightarrow> instant \<Rightarrow> duration \<Rightarrow> bool \<Rightarrow>
   ('k, instant list) storage \<times> u64" where
  "sliding_window_count logs key now win recording =
     (if \<not> recording
      then (logs, case storage_with logs key (\<lambda>log. window_count log now win) of
                    Some n \<Rightarrow> n | None \<Rightarrow> 1)
      else with_mut logs key []
        (\<lambda>log _.
           let count = window_count log now win;
               log = advance_window log now win;
               log = insert_in_time_order log now
           in (log, count)))"

section \<open>The policy\<close>

record rate_limit_policy =
  rlp_group_id :: policy_group_id
  rlp_epoch :: instant
  rlp_settings :: rate_limit_settings
  per_account_timestamps :: "(account_id, instant list) storage"
  per_account_asset_timestamps :: "(account_id \<times> asset, instant list) storage"

definition RATE_LIMIT_POLICY_NAME :: string where
  "RATE_LIMIT_POLICY_NAME = ''RateLimitPolicy''"

definition rate_policy_new :: "rate_limit_settings \<Rightarrow> instant \<Rightarrow> rate_limit_policy" where
  "rate_policy_new settings epoch =
     \<lparr>rlp_group_id = DEFAULT_POLICY_GROUP_ID, rlp_epoch = epoch, rlp_settings = rearm settings,
      per_account_timestamps = [], per_account_asset_timestamps = []\<rparr>"

definition rate_limit_reject :: "string \<Rightarrow> u64 \<Rightarrow> u64 \<Rightarrow> duration \<Rightarrow> rejects" where
  "rate_limit_reject barrier count maximum win =
     rejects_new [reject_new RATE_LIMIT_POLICY_NAME ScopeOrder RateLimitExceeded
       (''rate limit exceeded: '' @ barrier)
       [Lit ''submitted '', Cnt (unat count), Lit '' orders in '', Cnt win,
        Lit '' window, max allowed: '', Cnt (unat maximum)]]"

definition over_limit :: "u64 \<Rightarrow> rate_limit \<Rightarrow> string \<Rightarrow> rejects option" where
  "over_limit count limit reason =
     (if count > max_orders limit
      then Some (rate_limit_reject reason count (max_orders limit) (window limit)) else None)"

text \<open>The four axes; each returns the updated state and its verdict, \<open>None\<close> when it passes.\<close>

definition broker_axis ::
  "rate_limit_settings \<Rightarrow> u64 \<Rightarrow> bool \<Rightarrow> rate_limit_settings \<times> rejects option" where
  "broker_axis s now_nanos recording =
     (case rl_broker s of
        None \<Rightarrow> (s, None)
      | Some slot \<Rightarrow>
          (case fixed_window_count slot now_nanos recording of
             (slot', count) \<Rightarrow>
               (s\<lparr>rl_broker := Some slot'\<rparr>, over_limit count (rls_limit slot) ''broker barrier'')))"

definition asset_axis ::
  "rate_limit_settings \<Rightarrow> asset option \<Rightarrow> u64 \<Rightarrow> bool \<Rightarrow> rate_limit_settings \<times> rejects option" where
  "asset_axis s settlement now_nanos recording =
     (case settlement of
        None \<Rightarrow> (s, None)
      | Some asset \<Rightarrow>
          (case hm_get (rl_asset_limits s) asset of
             None \<Rightarrow> (s, None)
           | Some slot \<Rightarrow>
               (case fixed_window_count slot now_nanos recording of
                  (slot', count) \<Rightarrow>
                    (s\<lparr>rl_asset_limits := (if recording then hm_insert (rl_asset_limits s) asset slot'
                                           else rl_asset_limits s)\<rparr>,
                     over_limit count (rls_limit slot) ''asset barrier''))))"

definition log_axis ::
  "('k, rate_limit) hash_map \<Rightarrow> ('k, instant list) storage \<Rightarrow> 'k option \<Rightarrow> instant \<Rightarrow> bool \<Rightarrow>
   string \<Rightarrow> ('k, instant list) storage \<times> rejects option" where
  "log_axis limits logs key now recording reason =
     (case key of
        None \<Rightarrow> (logs, None)
      | Some k \<Rightarrow>
          (case hm_get limits k of
             None \<Rightarrow> (logs, None)
           | Some limit \<Rightarrow>
               (case sliding_window_count logs k now (window limit) recording of
                  (logs', count) \<Rightarrow> (logs', over_limit count limit reason))))"

definition now_nanos_of :: "rate_limit_policy \<Rightarrow> instant \<Rightarrow> u64" where
  "now_nanos_of self now =
     of_nat (case checked_duration_since now (rlp_epoch self) of Some d \<Rightarrow> d | None \<Rightarrow> 0)"

definition first_some :: "'a option \<Rightarrow> 'a option \<Rightarrow> 'a option" where
  "first_some x y = (case x of Some v \<Rightarrow> Some v | None \<Rightarrow> y)"

definition check_start ::
  "rate_limit_policy \<Rightarrow> instant \<Rightarrow> pre_trade_context \<Rightarrow> order \<Rightarrow> bool \<Rightarrow>
   rate_limit_policy \<times> (rejects + unit)" where
  "check_start self now ctx ord recording =
     (let s = rlp_settings self;
          now_nanos = now_nanos_of self now;
          needs_settlement = (rl_asset_limits s \<noteq> [] \<or> rl_account_asset_limits s \<noteq> []);
          needs_account = (rl_account_limits s \<noteq> [] \<or> rl_account_asset_limits s \<noteq> [])
      in case (if needs_settlement
               then map_res (\<lambda>i. Some (settlement_asset i))
                      (read_field RATE_LIMIT_POLICY_NAME ''instrument'' (ord_instrument ord))
               else Inr None) of
           Inl e \<Rightarrow> (self, Inl e)
         | Inr settlement \<Rightarrow>
             (case (if needs_account
                    then map_res Some
                           (read_field RATE_LIMIT_POLICY_NAME ''account ID'' (ctx_account ctx))
                    else Inr None) of
                Inl e \<Rightarrow> (self, Inl e)
              | Inr account \<Rightarrow>
                  (let (s1, broker) = broker_axis s now_nanos recording;
                       (s2, asset) = asset_axis s1 settlement now_nanos recording;
                       (accs, acc) = log_axis (rl_account_limits s) (per_account_timestamps self)
                          account now recording ''account barrier'';
                       (aas, account_asset) = log_axis (rl_account_asset_limits s)
                          (per_account_asset_timestamps self)
                          (Option.bind account (\<lambda>a. map_option (\<lambda>x. (a, x)) settlement)) now
                          recording ''account+asset barrier'';
                       self' = self\<lparr>rlp_settings := s2, per_account_timestamps := accs,
                                     per_account_asset_timestamps := aas\<rparr>
                   in case first_some (first_some (first_some broker asset) acc) account_asset of
                        Some reject \<Rightarrow> (self', Inl reject)
                      | None \<Rightarrow> (self', Inr ()))))"

definition rate_check_pre_trade_start ::
  "rate_limit_policy \<Rightarrow> instant \<Rightarrow> pre_trade_context \<Rightarrow> order \<Rightarrow>
   rate_limit_policy \<times> (rejects + unit)" where
  "rate_check_pre_trade_start self now ctx ord = check_start self now ctx ord True"

definition rate_check_pre_trade_start_dry_run ::
  "rate_limit_policy \<Rightarrow> instant \<Rightarrow> pre_trade_context \<Rightarrow> order \<Rightarrow>
   rate_limit_policy \<times> (rejects + unit)" where
  "rate_check_pre_trade_start_dry_run self now ctx ord = check_start self now ctx ord False"

fun remove_logs :: "('k, 'v) storage \<Rightarrow> 'k list \<Rightarrow> ('k, 'v) storage" where
  "remove_logs logs [] = logs"
| "remove_logs logs (k # ks) = remove_logs (fst (storage_remove logs k)) ks"

definition rate_retire_account ::
  "rate_limit_policy \<Rightarrow> account_id \<Rightarrow>
   account_retirement_refusal + rate_limit_policy mutation" where
  "rate_retire_account self account =
     (if hm_get (rl_account_limits (rlp_settings self)) account \<noteq> None \<or>
         list_ex (\<lambda>(a, _). a = account) (hm_keys (rl_account_asset_limits (rlp_settings self)))
      then Inl ConfigurationReferencesAccount
      else (let keys = filter (\<lambda>(a, _). a = account)
                  (storage_keys (per_account_asset_timestamps self))
            in Inr (mutation_new
                 (\<lambda>p. p\<lparr>per_account_timestamps :=
                          fst (storage_remove (per_account_timestamps p) account),
                        per_account_asset_timestamps :=
                          remove_logs (per_account_asset_timestamps p) keys\<rparr>)
                 (\<lambda>p. p))))"


section \<open>Interleaved pushes\<close>

text \<open>
  Threads that push into one counter at the same time. A push is three atomic accesses: the load of
  the window start, the compare-exchange (only attempted when the window looks expired), and then
  either the store of 1 or the \<open>fetch_add\<close>. A thread's entry is what it has done so far.
\<close>

datatype push_stage =
    Arrived u64 u64
  | Loaded u64 u64 u64
  | WonRollover
  | Counting
  | PushDone u64

record counter_system =
  cs_counter :: window_counter
  cs_stages :: "push_stage list"

definition move_stage :: "counter_system \<Rightarrow> nat \<Rightarrow> push_stage \<Rightarrow> counter_system" where
  "move_stage s i st = s\<lparr>cs_stages := (cs_stages s)[i := st]\<rparr>"

inductive push_step :: "counter_system \<Rightarrow> counter_system \<Rightarrow> bool" where
  load: "i < length (cs_stages s) \<Longrightarrow> cs_stages s ! i = Arrived now win \<Longrightarrow>
    push_step s (move_stage s i (Loaded now win (wc_window_start_nanos (cs_counter s))))"
| same_window: "i < length (cs_stages s) \<Longrightarrow> cs_stages s ! i = Loaded now win start \<Longrightarrow>
    \<not> rolled_over now start win \<Longrightarrow> push_step s (move_stage s i Counting)"
| exchange_ok: "i < length (cs_stages s) \<Longrightarrow> cs_stages s ! i = Loaded now win start \<Longrightarrow>
    rolled_over now start win \<Longrightarrow> wc_window_start_nanos (cs_counter s) = start \<Longrightarrow>
    push_step s (move_stage
      (s\<lparr>cs_counter := (cs_counter s)\<lparr>wc_window_start_nanos := now\<rparr>\<rparr>) i WonRollover)"
| exchange_lost: "i < length (cs_stages s) \<Longrightarrow> cs_stages s ! i = Loaded now win start \<Longrightarrow>
    rolled_over now start win \<Longrightarrow> wc_window_start_nanos (cs_counter s) \<noteq> start \<Longrightarrow>
    push_step s (move_stage s i Counting)"
| reset: "i < length (cs_stages s) \<Longrightarrow> cs_stages s ! i = WonRollover \<Longrightarrow>
    push_step s (move_stage
      (s\<lparr>cs_counter := (cs_counter s)\<lparr>wc_count := 1\<rparr>\<rparr>) i (PushDone 1))"
| count_up: "i < length (cs_stages s) \<Longrightarrow> cs_stages s ! i = Counting \<Longrightarrow>
    push_step s (move_stage
      (s\<lparr>cs_counter := (cs_counter s)\<lparr>wc_count := wc_count (cs_counter s) + 1\<rparr>\<rparr>) i
      (PushDone (wc_count (cs_counter s) + 1)))"

section \<open>Reference counts\<close>

text \<open>
  The orders a key still has inside its window at an instant, counted over its whole history, and
  the storage after that history was recorded.
\<close>

definition orders_in_window :: "('k \<times> instant) list \<Rightarrow> 'k \<Rightarrow> instant \<Rightarrow> duration \<Rightarrow> nat" where
  "orders_in_window history key now win =
     length (filter (\<lambda>(k, t). k = key \<and> \<not> entry_expired t now win) history)"

definition record_history ::
  "('k \<Rightarrow> duration) \<Rightarrow> ('k \<times> instant) list \<Rightarrow> ('k, instant list) storage" where
  "record_history win history =
     fold (\<lambda>(k, t) logs. fst (sliding_window_count logs k t (win k) True)) history []"

definition log_of :: "('k, instant list) storage \<Rightarrow> 'k \<Rightarrow> instant list" where
  "log_of logs key = (case hm_get logs key of Some ts \<Rightarrow> ts | None \<Rightarrow> [])"

definition logs_sorted :: "('k, instant list) storage \<Rightarrow> bool" where
  "logs_sorted logs \<longleftrightarrow> (\<forall>key. sorted (log_of logs key))"

text \<open>The check once its fields are read: every axis is counted, then the verdict is resolved.\<close>

definition count_axes ::
  "rate_limit_policy \<Rightarrow> instant \<Rightarrow> asset option \<Rightarrow> account_id option \<Rightarrow> bool \<Rightarrow>
   rate_limit_policy \<times> rejects option" where
  "count_axes self now settlement account recording =
     (let s = rlp_settings self;
          b = broker_axis s (now_nanos_of self now) recording;
          x = asset_axis (fst b) settlement (now_nanos_of self now) recording;
          c = log_axis (rl_account_limits s) (per_account_timestamps self) account now recording
                ''account barrier'';
          d = log_axis (rl_account_asset_limits s) (per_account_asset_timestamps self)
                (Option.bind account (\<lambda>a. map_option (\<lambda>y. (a, y)) settlement)) now recording
                ''account+asset barrier''
      in (self\<lparr>rlp_settings := fst x, per_account_timestamps := fst c,
               per_account_asset_timestamps := fst d\<rparr>,
          first_some (first_some (first_some (snd b) (snd x)) (snd c)) (snd d)))"

definition check_of_count ::
  "rate_limit_policy \<times> rejects option \<Rightarrow> rate_limit_policy \<times> (rejects + unit)" where
  "check_of_count r = (fst r, case snd r of Some reject \<Rightarrow> Inl reject | None \<Rightarrow> Inr ())"

definition needed_settlement :: "rate_limit_settings \<Rightarrow> order \<Rightarrow> rejects + asset option" where
  "needed_settlement s ord =
     (if rl_asset_limits s \<noteq> [] \<or> rl_account_asset_limits s \<noteq> []
      then map_res (\<lambda>i. Some (settlement_asset i))
             (read_field RATE_LIMIT_POLICY_NAME ''instrument'' (ord_instrument ord))
      else Inr None)"

definition needed_account :: "rate_limit_settings \<Rightarrow> pre_trade_context \<Rightarrow> rejects + account_id option" where
  "needed_account s ctx =
     (if rl_account_limits s \<noteq> [] \<or> rl_account_asset_limits s \<noteq> []
      then map_res Some (read_field RATE_LIMIT_POLICY_NAME ''account ID'' (ctx_account ctx))
      else Inr None)"

text \<open>Pushes of a counter system that are still to be counted, and systems no push can roll over.\<close>

definition still_pushing :: "push_stage \<Rightarrow> bool" where
  "still_pushing st = (case st of PushDone _ \<Rightarrow> False | _ \<Rightarrow> True)"

definition pending_pushes :: "counter_system \<Rightarrow> nat" where
  "pending_pushes s = length (filter still_pushing (cs_stages s))"

definition stage_calm :: "u64 \<Rightarrow> push_stage \<Rightarrow> bool" where
  "stage_calm start st =
     (case st of
        Arrived now win \<Rightarrow> \<not> rolled_over now start win
      | Loaded now win start' \<Rightarrow> start' = start \<and> \<not> rolled_over now start win
      | WonRollover \<Rightarrow> False
      | Counting \<Rightarrow> True
      | PushDone _ \<Rightarrow> True)"

definition calm :: "counter_system \<Rightarrow> bool" where
  "calm s \<longleftrightarrow> list_all (stage_calm (wc_window_start_nanos (cs_counter s))) (cs_stages s)"

definition accounted :: "counter_system \<Rightarrow> u64" where
  "accounted s = wc_count (cs_counter s) + of_nat (pending_pushes s)"

text \<open>What an axis admits: its count for this order, the order included, is within its limit.\<close>

definition fixed_admits :: "rate_limit_slot option \<Rightarrow> u64 \<Rightarrow> bool" where
  "fixed_admits slot now =
     (case slot of None \<Rightarrow> True
      | Some sl \<Rightarrow> snd (counter_push (rls_counter sl) now (window_nanos (rls_limit sl)))
                    \<le> max_orders (rls_limit sl))"

definition log_admits :: "rate_limit option \<Rightarrow> instant list \<Rightarrow> instant \<Rightarrow> bool" where
  "log_admits limit ts now =
     (case limit of None \<Rightarrow> True | Some l \<Rightarrow> window_count ts now (window l) \<le> max_orders l)"

definition log_after :: "rate_limit option \<Rightarrow> instant list \<Rightarrow> instant \<Rightarrow> instant list" where
  "log_after limit ts now =
     (case limit of None \<Rightarrow> ts
      | Some l \<Rightarrow> insert_in_time_order (advance_window ts now (window l)) now)"

definition slot_after_push :: "rate_limit_slot \<Rightarrow> u64 \<Rightarrow> rate_limit_slot" where
  "slot_after_push sl now =
     sl\<lparr>rls_counter := fst (counter_push (rls_counter sl) now (window_nanos (rls_limit sl)))\<rparr>"

definition slot_with :: "rate_limit_slot option \<Rightarrow> rate_limit \<Rightarrow> rate_limit_slot" where
  "slot_with old limit =
     \<lparr>rls_counter = (case old of Some sl \<Rightarrow> rls_counter sl | None \<Rightarrow> counter_new 0), rls_limit = limit\<rparr>"

definition last_limit :: "('k \<times> rate_limit) list \<Rightarrow> 'k \<Rightarrow> rate_limit option" where
  "last_limit barriers k = map_of (rev barriers) k"

definition window_ok :: "rate_limit \<Rightarrow> bool" where
  "window_ok limit \<longleftrightarrow> 0 < window limit \<and> window limit < 2 ^ 64"

text \<open>A policy whose account barrier is exhausted while its broker barrier is not.\<close>

definition busy_policy :: rate_limit_policy where
  "busy_policy =
     \<lparr>rlp_group_id = DEFAULT_POLICY_GROUP_ID, rlp_epoch = 0,
      rlp_settings =
        \<lparr>rl_asset_limits = [], rl_account_limits = [(7, \<lparr>max_orders = 1, window = 10\<rparr>)],
         rl_account_asset_limits = [],
         rl_broker = Some (fresh_slot \<lparr>max_orders = 5, window = 1000\<rparr>)\<rparr>,
      per_account_timestamps = [(7, [80, 95])], per_account_asset_timestamps = []\<rparr>"

definition busy_ctx :: pre_trade_context where
  "busy_ctx = \<lparr>ctx_account = Inr 7, ctx_drop_copy = False\<rparr>"

definition busy_order :: order where
  "busy_order =
     \<lparr>ord_account_id = Inr 7,
      ord_instrument = Inr \<lparr>underlying_asset = ''AAPL'', settlement_asset = ''USD''\<rparr>,
      ord_trade_amount = Inr (TA_Quantity 3), ord_price = Inr None, ord_side = Inr Buy\<rparr>"

definition crowd :: "u64 \<Rightarrow> push_stage list \<Rightarrow> counter_system" where
  "crowd n stages =
     \<lparr>cs_counter = \<lparr>wc_count = n, wc_window_start_nanos = 0\<rparr>, cs_stages = stages\<rparr>"

section \<open>Logs\<close>

lemma advance_window_eq: "advance_window ts now win = dropWhile (\<lambda>t. entry_expired t now win) ts"
  by (induction ts) simp_all

lemma entry_expired_iff: "entry_expired t now win \<longleftrightarrow> t + win \<le> now \<and> t \<le> now"
  by (auto simp: entry_expired_def checked_duration_since_def)

lemma entry_expired_antimono: "t \<le> t' \<Longrightarrow> entry_expired t' now win \<Longrightarrow> entry_expired t now win"
  by (auto simp: entry_expired_iff)

lemma entry_expired_later: "now \<le> now' \<Longrightarrow> entry_expired t now win \<Longrightarrow> entry_expired t now' win"
  by (auto simp: entry_expired_iff)

lemma advance_window_sorted:
  "sorted ts \<Longrightarrow> advance_window ts now win = filter (\<lambda>t. \<not> entry_expired t now win) ts"
  unfolding advance_window_eq
  by (rule dropWhile_filter_sorted) (auto intro: entry_expired_antimono)

lemma window_count_sorted:
  assumes "sorted ts"
  shows "window_count ts now win = of_nat (length (filter (\<lambda>t. \<not> entry_expired t now win) ts)) + 1"
proof -
  have "takeWhile (\<lambda>t. entry_expired t now win) ts = filter (\<lambda>t. entry_expired t now win) ts"
    using assms by (rule takeWhile_filter_sorted) (auto intro: entry_expired_antimono)
  moreover have "length ts = length (filter (\<lambda>t. entry_expired t now win) ts) +
      length (filter (\<lambda>t. \<not> entry_expired t now win) ts)"
    by (simp add: sum_length_filter_compl)
  ultimately show ?thesis by (simp add: window_count_def partition_point_def)
qed

lemma insert_late_split:
  assumes "sorted ts" and "ts \<noteq> []" and "last ts > now"
  shows "insert_in_time_order ts now =
    filter (\<lambda>t. t \<le> now) ts @ [now] @ filter (\<lambda>t. \<not> t \<le> now) ts"
proof -
  have "takeWhile (\<lambda>t. t \<le> now) ts = filter (\<lambda>t. t \<le> now) ts"
    using assms(1) by (rule takeWhile_filter_sorted) simp
  moreover have "dropWhile (\<lambda>t. t \<le> now) ts = filter (\<lambda>t. \<not> t \<le> now) ts"
    using assms(1) by (rule dropWhile_filter_sorted) simp
  ultimately show ?thesis
    using assms(2,3)
    by (metis (no_types, lifting) insert_in_time_order_def partition_point_def
        takeWhile_eq_take dropWhile_eq_drop)
qed

lemma sorted_last_upper: "sorted ts \<Longrightarrow> last ts \<le> now \<Longrightarrow> t \<in> set ts \<Longrightarrow> t \<le> (now::instant)"
  by (cases ts rule: rev_cases) (auto simp: sorted_append)

lemma insert_in_time_order_sorted:
  assumes "sorted ts"
  shows "sorted (insert_in_time_order ts now)"
proof (cases "ts \<noteq> [] \<and> last ts > now")
  case True
  then show ?thesis
    using assms by (auto simp: insert_late_split sorted_append sorted_wrt_filter)
next
  case False
  then have "insert_in_time_order ts now = ts @ [now]"
    unfolding insert_in_time_order_def by argo
  then show ?thesis
    using False assms by (auto simp: sorted_append intro: sorted_last_upper)
qed

lemma insert_in_order_appends:
  "\<forall>t\<in>set ts. t \<le> now \<Longrightarrow> insert_in_time_order ts now = ts @ [now]"
  unfolding insert_in_time_order_def by (metis last_in_set leD)

lemma sliding_recording:
  "log_of (fst (sliding_window_count logs key now win True)) j =
     (if j = key then insert_in_time_order (advance_window (log_of logs key) now win) now
      else log_of logs j)"
  "snd (sliding_window_count logs key now win True) = window_count (log_of logs key) now win"
  by (auto simp: sliding_window_count_def log_of_def with_mut_lookup with_mut_output slot_output_def
      Let_def split: option.splits)

lemma sliding_dry:
  "fst (sliding_window_count logs key now win False) = logs"
  "snd (sliding_window_count logs key now win False) =
     snd (sliding_window_count logs key now win True)"
  by (auto simp: sliding_window_count_def with_mut_output slot_output_def storage_with_def
      window_count_def partition_point_def Let_def split: option.splits)

lemma advance_keeps_sorted: "sorted ts \<Longrightarrow> sorted (advance_window ts now win)"
  by (simp add: advance_window_sorted sorted_wrt_filter)

lemma logs_sorted_recording:
  "logs_sorted logs \<Longrightarrow> logs_sorted (fst (sliding_window_count logs key now win recording))"
  by (cases recording)
    (simp_all add: logs_sorted_def sliding_recording sliding_dry insert_in_time_order_sorted
      advance_keeps_sorted)


lemma record_history_snoc:
  "log_of (record_history win (history @ [(k, t)])) j =
     (if j = k
      then insert_in_time_order (advance_window (log_of (record_history win history) k) t (win k)) t
      else log_of (record_history win history) j)"
  by (simp add: record_history_def sliding_recording)

text \<open>
  On a history with nondecreasing instants the log of a key is the tail of the key's instants that
  the trimming left: the last instant of the key bounds what was dropped.
\<close>

lemma record_history_log:
  assumes "sorted (map snd history)"
  shows "sorted (log_of (record_history win history) key) \<and>
    (\<forall>t\<in>set (log_of (record_history win history) key). t \<in> snd ` set history) \<and>
    (\<forall>now. (\<forall>t\<in>snd ` set history. t \<le> now) \<longrightarrow>
      length (filter (\<lambda>t. \<not> entry_expired t now (win key)) (log_of (record_history win history) key))
        = orders_in_window history key now (win key))"
  using assms
proof (induction history rule: rev_induct)
  case Nil
  then show ?case by (simp add: record_history_def log_of_def orders_in_window_def)
next
  case (snoc e history)
  obtain k t where e: "e = (k, t)" by fastforce
  let ?old = "log_of (record_history win history)"
  have IH: "sorted (?old key)" "\<forall>t\<in>set (?old key). t \<in> snd ` set history"
    "\<And>now. (\<forall>t\<in>snd ` set history. t \<le> now) \<Longrightarrow>
      length (filter (\<lambda>t. \<not> entry_expired t now (win key)) (?old key))
        = orders_in_window history key now (win key)"
    and upper: "\<forall>x\<in>snd ` set history. x \<le> t"
    using snoc by (auto simp: e sorted_append)
  have older: "\<forall>x\<in>set (?old key). x \<le> t"
    using IH(2) upper by blast
  have new: "log_of (record_history win (history @ [e])) key =
      (if key = k then filter (\<lambda>x. \<not> entry_expired x t (win k)) (?old key) @ [t] else ?old key)"
    using IH(1) older
    by (auto simp: e record_history_snoc advance_window_sorted intro!: insert_in_order_appends)
  have kept: "(\<lambda>x. \<not> entry_expired x t w \<and> \<not> entry_expired x now w) = (\<lambda>x. \<not> entry_expired x now w)"
    if "t \<le> now" for now w
    using that entry_expired_later by blast
  show ?case
    using IH upper unfolding new
    by (auto simp: e kept orders_in_window_def sorted_append sorted_wrt_filter)
qed

section \<open>Fixed windows\<close>

lemma peek_is_push: "counter_peek c now win = snd (counter_push c now win)"
  by (simp add: counter_peek_def counter_push_def)

lemma fixed_window_dry:
  "fst (fixed_window_count slot now False) = slot"
  "snd (fixed_window_count slot now False) = snd (fixed_window_count slot now True)"
  by (auto simp: fixed_window_count_def Let_def peek_is_push split: prod.splits)

lemma fixed_window_keeps_limit: "rls_limit (fst (fixed_window_count slot now recording)) = rls_limit slot"
  by (auto simp: fixed_window_count_def Let_def split: prod.splits)

lemma rolled_over_forward: "rolled_over now start win \<Longrightarrow> start \<le> now"
  by (auto simp: rolled_over_def u64_checked_sub_def split: if_splits)


lemma broker_axis_dry:
  "fst (broker_axis s now False) = s"
  "snd (broker_axis s now False) = snd (broker_axis s now True)"
  by (simp_all add: broker_axis_def case_prod_beta fixed_window_dry split: option.splits)

lemma asset_axis_dry:
  "fst (asset_axis s settlement now False) = s"
  "snd (asset_axis s settlement now False) = snd (asset_axis s settlement now True)"
  by (simp_all add: asset_axis_def case_prod_beta fixed_window_dry split: option.splits)

lemma log_axis_dry:
  "fst (log_axis limits logs key now False reason) = logs"
  "snd (log_axis limits logs key now False reason) = snd (log_axis limits logs key now True reason)"
  by (simp_all add: log_axis_def case_prod_beta sliding_dry split: option.splits)

lemma broker_axis_keeps_assets:
  "rl_asset_limits (fst (broker_axis s now recording)) = rl_asset_limits s"
  by (simp add: broker_axis_def case_prod_beta split: option.splits)

lemma asset_axis_cong:
  "rl_asset_limits s = rl_asset_limits s' \<Longrightarrow>
   snd (asset_axis s settlement now recording) = snd (asset_axis s' settlement now recording)"
  by (simp add: asset_axis_def case_prod_beta split: option.splits)

lemma check_start_counts:
  "check_start self now ctx ord recording =
     (case needed_settlement (rlp_settings self) ord of
        Inl e \<Rightarrow> (self, Inl e)
      | Inr settlement \<Rightarrow>
          (case needed_account (rlp_settings self) ctx of
             Inl e \<Rightarrow> (self, Inl e)
           | Inr account \<Rightarrow> check_of_count (count_axes self now settlement account recording)))"
  unfolding check_start_def needed_settlement_def needed_account_def count_axes_def
    check_of_count_def Let_def case_prod_beta fst_conv snd_conv
  by (simp split: sum.splits option.splits)

lemma count_axes_dry:
  "fst (count_axes self now settlement account False) = self"
  "snd (count_axes self now settlement account False) =
     snd (count_axes self now settlement account True)"
  by (simp_all add: count_axes_def Let_def broker_axis_dry asset_axis_dry log_axis_dry
      asset_axis_cong [OF broker_axis_keeps_assets, of _ _ True])


lemma fixed_window_push:
  "fst (fixed_window_count sl now True) = slot_after_push sl now"
  "snd (fixed_window_count sl now True) =
     snd (counter_push (rls_counter sl) now (window_nanos (rls_limit sl)))"
  by (simp_all add: fixed_window_count_def slot_after_push_def case_prod_beta Let_def)

lemma over_limit_None [simp]: "over_limit n l reason = None \<longleftrightarrow> n \<le> max_orders l"
  by (auto simp: over_limit_def)

lemma first_some_None [simp]: "first_some x y = None \<longleftrightarrow> x = None \<and> y = None"
  by (simp add: first_some_def split: option.splits)

lemma broker_axis_push:
  "snd (broker_axis s now True) = None \<longleftrightarrow> fixed_admits (rl_broker s) now"
  "rl_broker (fst (broker_axis s now True)) = map_option (\<lambda>sl. slot_after_push sl now) (rl_broker s)"
  by (simp_all add: broker_axis_def fixed_admits_def case_prod_beta fixed_window_push
      split: option.splits)

lemma asset_axis_push:
  "snd (asset_axis s (Some y) now True) = None \<longleftrightarrow> fixed_admits (hm_get (rl_asset_limits s) y) now"
  "hm_get (rl_asset_limits (fst (asset_axis s (Some y) now True))) z =
     (if z = y then map_option (\<lambda>sl. slot_after_push sl now) (hm_get (rl_asset_limits s) y)
      else hm_get (rl_asset_limits s) z)"
  "rl_broker (fst (asset_axis s settlement now recording)) = rl_broker s"
  by (auto simp: asset_axis_def fixed_admits_def case_prod_beta fixed_window_push
      split: option.splits)

lemma log_axis_push:
  "snd (log_axis limits logs (Some k) now True reason) = None \<longleftrightarrow>
     log_admits (hm_get limits k) (log_of logs k) now"
  "log_of (fst (log_axis limits logs (Some k) now True reason)) j =
     (if j = k then log_after (hm_get limits k) (log_of logs k) now else log_of logs j)"
  by (auto simp: log_axis_def log_admits_def log_after_def case_prod_beta sliding_recording
      split: option.splits)

lemma axis_unconfigured:
  "rl_asset_limits s = [] \<Longrightarrow> asset_axis s settlement now_nanos recording = (s, None)"
  "log_axis [] logs key now recording reason = (logs, None)"
  by (auto simp: asset_axis_def log_axis_def split: option.splits)

lemma check_of_count_accepts:
  "snd (check_of_count r) = Inr () \<longleftrightarrow> snd r = None"
  "fst (check_of_count r) = fst r"
  by (auto simp: check_of_count_def split: option.splits)

text \<open>A field that no configured axis needs may as well have been read.\<close>

lemma needed_irrelevant:
  assumes "ord_instrument ord = Inr i" and "ctx_account ctx = Inr a"
  shows "check_start self now ctx ord recording =
    check_of_count (count_axes self now (Some (settlement_asset i)) (Some a) recording)"
  using assms
  by (auto simp: check_start_counts needed_settlement_def needed_account_def count_axes_def Let_def
      axis_unconfigured broker_axis_keeps_assets)


section \<open>Settings\<close>

lemma validate_rate_limit_iff:
  "validate_rate_limit l = (if window_ok l then Inr l else Inl (InvalidWindow (window l)))"
  by (auto simp: validate_rate_limit_def window_ok_def)

lemma collect_limits_cases:
  "collect_limits m mk barriers = Inr m' \<Longrightarrow>
     list_all (\<lambda>(_, l). window_ok l) barriers \<and>
     (\<forall>k. hm_get m' k = (case last_limit barriers k of Some l \<Rightarrow> Some (mk l k) | None \<Rightarrow> hm_get m k))"
  "collect_limits m mk barriers = Inl e \<Longrightarrow> \<not> list_all (\<lambda>(_, l). window_ok l) barriers"
  by (induction m mk barriers rule: collect_limits.induct)
    (auto simp: validate_rate_limit_iff last_limit_def map_add_def split: if_splits option.splits)

lemma set_asset_barriers_eq:
  "rate_set_asset_barriers self barriers =
     map_res (\<lambda>m. self\<lparr>rl_asset_limits := m\<rparr>)
       (collect_limits [] (\<lambda>l y. slot_with (hm_get (rl_asset_limits self) y) l)
         (map (\<lambda>b. (rab_settlement_asset b, rab_limit b)) barriers))"
  by (simp add: rate_set_asset_barriers_def slot_with_def bind_res_def map_res_def)

section \<open>Interleaved pushes\<close>

inductive_cases push_stepE: "push_step s s'"

lemma move_stage_counter [simp]: "cs_counter (move_stage s i st) = cs_counter s"
  by (simp add: move_stage_def)

lemma push_step_start:
  "push_step s s' \<Longrightarrow> wc_window_start_nanos (cs_counter s) \<le> wc_window_start_nanos (cs_counter s')"
  by (erule push_stepE) (auto dest: rolled_over_forward)

lemma filter_length_update:
  "i < length xs \<Longrightarrow> P (xs ! i) \<Longrightarrow>
   length (filter P (xs[i := y])) + (if P y then 0 else 1) = length (filter P xs)"
  by (induction xs arbitrary: i) (auto simp: nth_Cons split: nat.splits)

lemma pending_move:
  "i < length (cs_stages s) \<Longrightarrow> still_pushing (cs_stages s ! i) \<Longrightarrow>
   pending_pushes (move_stage s i st) + (if still_pushing st then 0 else 1) = pending_pushes s"
  by (simp add: pending_pushes_def move_stage_def filter_length_update)

lemma calm_move:
  "calm s \<Longrightarrow> stage_calm (wc_window_start_nanos (cs_counter s)) st \<Longrightarrow> calm (move_stage s i st)"
  by (auto simp: calm_def move_stage_def list_all_iff dest!: set_update_subset_insert [THEN subsetD])

lemma calm_nth:
  "calm s \<Longrightarrow> i < length (cs_stages s) \<Longrightarrow>
   stage_calm (wc_window_start_nanos (cs_counter s)) (cs_stages s ! i)"
  by (simp add: calm_def list_all_length)


lemma pending_counter [simp]: "pending_pushes (s\<lparr>cs_counter := c\<rparr>) = pending_pushes s"
  by (simp add: pending_pushes_def)

lemma calm_counter:
  "wc_window_start_nanos c = wc_window_start_nanos (cs_counter s) \<Longrightarrow>
   calm (s\<lparr>cs_counter := c\<rparr>) \<longleftrightarrow> calm s"
  by (simp add: calm_def)

lemma accounted_move:
  assumes "i < length (cs_stages s)" and "still_pushing (cs_stages s ! i)"
  shows "still_pushing st \<Longrightarrow> accounted (move_stage s i st) = accounted s"
    and "\<not> still_pushing st \<Longrightarrow>
      accounted (move_stage (s\<lparr>cs_counter := (cs_counter s)\<lparr>wc_count := wc_count (cs_counter s) + 1\<rparr>\<rparr>) i st)
        = accounted s"
  using pending_move [OF assms, of st]
    pending_move [of i "s\<lparr>cs_counter := (cs_counter s)\<lparr>wc_count := wc_count (cs_counter s) + 1\<rparr>\<rparr>" st] assms
  by (auto simp: accounted_def simp flip: of_nat_Suc)

lemma calm_step:
  assumes "push_step s s'" and "calm s"
  shows "calm s' \<and> accounted s' = accounted s"
  using assms(1)
proof cases
  case (load i now win)
  then show ?thesis
    using calm_nth [OF assms(2), of i] assms(2)
    by (auto simp: stage_calm_def still_pushing_def intro!: calm_move accounted_move)
next
  case (same_window i now win start)
  then show ?thesis
    using assms(2) by (auto simp: stage_calm_def still_pushing_def intro!: calm_move accounted_move)
next
  case (exchange_ok i now win start)
  then show ?thesis
    using calm_nth [OF assms(2), of i] by (simp add: stage_calm_def)
next
  case (exchange_lost i now win start)
  then show ?thesis
    using calm_nth [OF assms(2), of i] by (simp add: stage_calm_def)
next
  case (reset i)
  then show ?thesis
    using calm_nth [OF assms(2), of i] by (simp add: stage_calm_def)
next
  case (count_up i)
  then show ?thesis
    using assms(2) by (auto simp: stage_calm_def still_pushing_def calm_counter
        intro!: calm_move accounted_move)
qed

lemma push_steps_calm: "push_step\<^sup>*\<^sup>* s s' \<Longrightarrow> calm s \<Longrightarrow> calm s' \<and> accounted s' = accounted s"
  by (induction rule: rtranclp_induct) (auto dest: calm_step)

lemma push_steps_start:
  "push_step\<^sup>*\<^sup>* s s' \<Longrightarrow>
   wc_window_start_nanos (cs_counter s) \<le> wc_window_start_nanos (cs_counter s')"
  by (induction rule: rtranclp_induct) (auto dest: push_step_start)

lemma crowd_step:
  "push_step (crowd 3 [Arrived 5 100, Arrived 6 100]) (crowd 3 [Loaded 5 100 0, Arrived 6 100])"
  "push_step (crowd 3 [Loaded 5 100 0, Arrived 6 100]) (crowd 3 [Loaded 5 100 0, Loaded 6 100 0])"
  "push_step (crowd 3 [Loaded 5 100 0, Loaded 6 100 0]) (crowd 3 [Loaded 5 100 0, Counting])"
  "push_step (crowd 3 [Loaded 5 100 0, Counting]) (crowd 3 [Counting, Counting])"
  "push_step (crowd 3 [Counting, Counting]) (crowd 4 [Counting, PushDone 4])"
  "push_step (crowd 4 [Counting, PushDone 4]) (crowd 5 [PushDone 5, PushDone 4])"
  using load [of 0 "crowd 3 [Arrived 5 100, Arrived 6 100]" 5 100]
    load [of 1 "crowd 3 [Loaded 5 100 0, Arrived 6 100]" 6 100]
    same_window [of 1 "crowd 3 [Loaded 5 100 0, Loaded 6 100 0]" 6 100 0]
    same_window [of 0 "crowd 3 [Loaded 5 100 0, Counting]" 5 100 0]
    count_up [of 1 "crowd 3 [Counting, Counting]"] count_up [of 0 "crowd 4 [Counting, PushDone 4]"]
  by (simp_all add: crowd_def move_stage_def rolled_over_def u64_checked_sub_def word_le_nat_alt)

lemma crowd_runs:
  "push_step\<^sup>*\<^sup>* (crowd 3 [Arrived 5 100, Arrived 6 100]) (crowd 5 [PushDone 5, PushDone 4])"
  by (meson crowd_step r_into_rtranclp rtranclp_trans)

section \<open>Properties\<close>

text \<open>
  (C30) The sliding-window log is exact: after any history of recorded orders in nondecreasing time,
  over any mix of keys, the count of a further order is one more than the number of earlier orders
  of its own key that have not expired by then, although the log was trimmed on the way; the dry run
  gives the same count.
\<close>

theorem sliding_window_exact:
  assumes "sorted (map snd history @ [now])"
  shows "snd (sliding_window_count (record_history win history) key now (win key) recording) =
    of_nat (orders_in_window history key now (win key)) + 1"
proof -
  have ordered: "sorted (map snd history)" "\<forall>t\<in>snd ` set history. t \<le> now"
    using assms by (auto simp: sorted_append)
  have "snd (sliding_window_count (record_history win history) key now (win key) recording) =
      window_count (log_of (record_history win history) key) now (win key)"
    by (cases recording) (simp_all add: sliding_dry sliding_recording)
  then show ?thesis
    using record_history_log [OF ordered(1), of win key] ordered(2) by (simp add: window_count_sorted)
qed

theorem sliding_window_exact_witness:
  "snd (sliding_window_count (record_history (\<lambda>_. 10) [(1::nat, 0), (2, 3), (1, 4), (1, 9)]) 1 12 10 True) = 3"
  using sliding_window_exact [of "[(1::nat, 0), (2, 3), (1, 4), (1, 9)]" 12 "\<lambda>_. 10" 1 True]
  by (simp add: orders_in_window_def entry_expired_iff)

text \<open>
  The dry run of the start stage answers what the real check would at the same instant, field
  errors included, and leaves the policy as it was, counters and logs.
\<close>

lemma dry_run_predicts_check:
  "fst (rate_check_pre_trade_start_dry_run self now ctx ord) = self \<and>
   snd (rate_check_pre_trade_start_dry_run self now ctx ord) =
     snd (rate_check_pre_trade_start self now ctx ord)"
  by (auto simp: rate_check_pre_trade_start_dry_run_def rate_check_pre_trade_start_def
      check_start_counts check_of_count_def count_axes_dry split: sum.splits)

text \<open>
  Every applicable axis is counted on every call: an order with a readable account and
  instrument passes exactly when its count, itself included, is within the limit on each of the four
  axes, and whether it passes or not every configured axis consumes one slot, while the logs of the
  other accounts and pairs stay as they are.
\<close>

lemma rate_limit_counts_every_axis:
  assumes "ord_instrument ord = Inr i" and "ctx_account ctx = Inr a"
    and "rate_check_pre_trade_start self now ctx ord = (self', verdict)"
  shows "let s = rlp_settings self; s' = rlp_settings self'; n = now_nanos_of self now;
      y = settlement_asset i;
      accs = per_account_timestamps self; pairs = per_account_asset_timestamps self
    in (verdict = Inr () \<longleftrightarrow>
          fixed_admits (rl_broker s) n \<and> fixed_admits (hm_get (rl_asset_limits s) y) n \<and>
          log_admits (hm_get (rl_account_limits s) a) (log_of accs a) now \<and>
          log_admits (hm_get (rl_account_asset_limits s) (a, y)) (log_of pairs (a, y)) now) \<and>
       rl_broker s' = map_option (\<lambda>sl. slot_after_push sl n) (rl_broker s) \<and>
       hm_get (rl_asset_limits s') y =
         map_option (\<lambda>sl. slot_after_push sl n) (hm_get (rl_asset_limits s) y) \<and>
       (\<forall>b. log_of (per_account_timestamps self') b =
         (if b = a then log_after (hm_get (rl_account_limits s) a) (log_of accs a) now
          else log_of accs b)) \<and>
       (\<forall>k. log_of (per_account_asset_timestamps self') k =
         (if k = (a, y) then log_after (hm_get (rl_account_asset_limits s) k) (log_of pairs k) now
          else log_of pairs k))"
proof -
  have "self' = fst (check_of_count (count_axes self now (Some (settlement_asset i)) (Some a) True))"
    "verdict = snd (check_of_count (count_axes self now (Some (settlement_asset i)) (Some a) True))"
    using assms(3) needed_irrelevant [OF assms(1,2), of self now True]
    by (simp_all add: rate_check_pre_trade_start_def)
  then show ?thesis
    by (simp add: check_of_count_accepts count_axes_def Let_def broker_axis_push asset_axis_push
        log_axis_push broker_axis_keeps_assets)
qed


text \<open>
  Retuning keeps the live windows: replacing the asset barriers fails exactly when some window
  is zero or does not fit 64-bit nanoseconds, and otherwise leaves exactly the given assets, each
  with the last limit given for it, its live counter carried over when the asset had one and a fresh
  counter when it had not; the other axes are untouched. The broker barrier behaves the same.
\<close>

lemma retune_keeps_live_counters:
  "(case rate_set_asset_barriers self barriers of
      Inl e \<Rightarrow> \<not> list_all (\<lambda>b. window_ok (rab_limit b)) barriers
    | Inr self' \<Rightarrow>
        list_all (\<lambda>b. window_ok (rab_limit b)) barriers \<and>
        self' = self\<lparr>rl_asset_limits := rl_asset_limits self'\<rparr> \<and>
        (\<forall>y. hm_get (rl_asset_limits self') y =
           map_option (slot_with (hm_get (rl_asset_limits self) y))
             (last_limit (map (\<lambda>b. (rab_settlement_asset b, rab_limit b)) barriers) y))) \<and>
   rate_set_broker self (Some l) =
     (if window_ok l then Inr (self\<lparr>rl_broker := Some (slot_with (rl_broker self) l)\<rparr>)
      else Inl (InvalidWindow (window l)))"
proof
  let ?pairs = "map (\<lambda>b. (rab_settlement_asset b, rab_limit b)) barriers"
  let ?mk = "\<lambda>l y. slot_with (hm_get (rl_asset_limits self) y) l"
  have windows: "list_all (\<lambda>(_, l). window_ok l) ?pairs = list_all (\<lambda>b. window_ok (rab_limit b)) barriers"
    by (simp add: list_all_iff)
  show "case rate_set_asset_barriers self barriers of
      Inl e \<Rightarrow> \<not> list_all (\<lambda>b. window_ok (rab_limit b)) barriers
    | Inr self' \<Rightarrow>
        list_all (\<lambda>b. window_ok (rab_limit b)) barriers \<and>
        self' = self\<lparr>rl_asset_limits := rl_asset_limits self'\<rparr> \<and>
        (\<forall>y. hm_get (rl_asset_limits self') y =
           map_option (slot_with (hm_get (rl_asset_limits self) y)) (last_limit ?pairs y))"
  proof (cases "collect_limits [] ?mk ?pairs")
    case (Inl e)
    then show ?thesis
      using collect_limits_cases(2) [OF Inl] by (simp add: set_asset_barriers_eq windows)
  next
    case (Inr m)
    then show ?thesis
      using collect_limits_cases(1) [OF Inr]
      by (simp add: set_asset_barriers_eq windows split: option.splits)
  qed
qed (simp add: rate_set_broker_def validate_rate_limit_iff slot_with_def Let_def)

text \<open>
  The lock-free fixed-window counter under any interleaving of pushes: the window start only
  moves forward; and while no reading rolls the window over, no push is lost, so that when every
  thread has finished the count has grown by exactly the number of pushes.
\<close>

lemma interleaved_pushes_counted:
  assumes "push_step\<^sup>*\<^sup>* s s'"
  shows "wc_window_start_nanos (cs_counter s) \<le> wc_window_start_nanos (cs_counter s') \<and>
    (calm s \<and> pending_pushes s' = 0 \<longrightarrow>
      wc_count (cs_counter s') = wc_count (cs_counter s) + of_nat (pending_pushes s))"
  using push_steps_start [OF assms] push_steps_calm [OF assms] by (auto simp: accounted_def)

end
