(* ===== verification/Built_In_Policies.thy ===== *)
theory Built_In_Policies
  imports Order_Policies Rate_Limit Pnl_Kill_Switch Engine
begin

text \<open>
  The built-in start-stage policies as policies of the engine: order validation, order size limit,
  rate limit and P\&L kill switch (the \<open>PreTradePolicy\<close> implementations in
  \<open>crates/openpit/src/pretrade/policies\<close>). Each keeps its own component of the shared
  policy state and has the default group tag; a mutation on a component is lifted to the engine state.
  The engine's contract
  \<open>transactional_policies\<close> is interpreted on them.
\<close>

section \<open>State and lifting\<close>

record built_in_state =
  bi_size :: order_size_limit_settings
  bi_rate :: rate_limit_policy
  bi_pnl :: pnl_policy

definition put_rate :: "rate_limit_policy \<Rightarrow> built_in_state engine \<Rightarrow> built_in_state engine" where
  "put_rate x e = e\<lparr>eng_policy_state := (eng_policy_state e)\<lparr>bi_rate := x\<rparr>\<rparr>"

definition put_pnl :: "pnl_policy \<Rightarrow> built_in_state engine \<Rightarrow> built_in_state engine" where
  "put_pnl x e = e\<lparr>eng_policy_state := (eng_policy_state e)\<lparr>bi_pnl := x\<rparr>\<rparr>"

definition lift_mutation :: "('w \<Rightarrow> 'x) \<Rightarrow> ('x \<Rightarrow> 'w \<Rightarrow> 'w) \<Rightarrow> 'x mutation \<Rightarrow> 'w mutation" where
  "lift_mutation get put m =
     \<lparr>mut_commit = map_option (\<lambda>c w. case c (get w) of (x, r) \<Rightarrow> (put x w, r)) (mut_commit m),
      mut_rollback = (\<lambda>w. case mut_rollback m (get w) of (x, r) \<Rightarrow> (put x w, r)),
      mut_guard = map_option (\<lambda>g w. put (g (get w)) w) (mut_guard m),
      mut_provenance = mut_provenance m\<rparr>"

definition rate_of :: "built_in_state engine \<Rightarrow> rate_limit_policy" where
  "rate_of e = bi_rate (eng_policy_state e)"

definition pnl_of :: "built_in_state engine \<Rightarrow> pnl_policy" where
  "pnl_of e = bi_pnl (eng_policy_state e)"

section \<open>The policies\<close>

type_synonym 'a built_in_policy = "(built_in_state, order, execution_report, 'a) policy"

definition order_validation_policy :: "'a built_in_policy" where
  "order_validation_policy =
     with_default_dry_runs ((policy_default order_validation_NAME)\<lparr>
       check_pre_trade_start := (\<lambda>_ ctx ord p. (p, order_validation_check ctx ord))\<rparr>)"

definition order_size_limit_policy :: "dec_ops \<Rightarrow> 'a built_in_policy" where
  "order_size_limit_policy D =
     with_default_dry_runs ((policy_default order_size_NAME)\<lparr>
       check_pre_trade_start := (\<lambda>_ ctx ord p.
         (p, order_size_check D (bi_size (eng_policy_state (pl_engine p))) ctx ord)),
       retire_account_hook := (\<lambda>account e ms.
         (e, ms, order_size_retire_account (bi_size (eng_policy_state e)) account))\<rparr>)"

definition rate_hook ::
  "bool \<Rightarrow> nat \<Rightarrow> pre_trade_context \<Rightarrow> order \<Rightarrow> built_in_state pipeline \<Rightarrow>
   built_in_state pipeline \<times> (rejects + unit)" where
  "rate_hook recording now ctx ord p =
     (case check_start (rate_of (pl_engine p)) now ctx ord recording of
        (x, r) \<Rightarrow> (p\<lparr>pl_engine := put_rate x (pl_engine p)\<rparr>, r))"

definition rate_limit_built_in :: "'a built_in_policy" where
  "rate_limit_built_in =
     (policy_default RATE_LIMIT_POLICY_NAME)\<lparr>
       check_pre_trade_start := rate_hook True,
       check_pre_trade_start_dry_run := rate_hook False,
       retire_account_hook := (\<lambda>account e ms.
         case rate_retire_account (rate_of e) account of
           Inl refusal \<Rightarrow> (e, ms, Inl refusal)
         | Inr m \<Rightarrow> (e, mutations_push ms (lift_mutation rate_of put_rate m), Inr ()))\<rparr>"

definition pnl_bounds_built_in :: "dec_ops \<Rightarrow> 'a built_in_policy" where
  "pnl_bounds_built_in D =
     (with_default_dry_runs ((policy_default PNL_POLICY_NAME)\<lparr>
       check_pre_trade_start := (\<lambda>_ ctx ord p.
         (p, pnl_check_pre_trade_start (pnl_of (pl_engine p)) ctx ord))\<rparr>))\<lparr>
       apply_execution_report := (\<lambda>_ report e.
         case pnl_apply_execution_report D (pnl_of e) report of (x, r) \<Rightarrow> (put_pnl x e, r)),
       retire_account_hook := (\<lambda>account e ms.
         case pnl_retire_account (pnl_of e) account of
           Inl refusal \<Rightarrow> (e, ms, Inl refusal)
         | Inr batch \<Rightarrow>
             (e, ms\<lparr>mutation_list := mutation_list ms @ map (lift_mutation pnl_of put_pnl) batch\<rparr>,
              Inr ()))\<rparr>"

definition built_in_policies :: "dec_ops \<Rightarrow> 'a built_in_policy list" where
  "built_in_policies D =
     [order_validation_policy, order_size_limit_policy D, rate_limit_built_in, pnl_bounds_built_in D]"

text \<open>The verdicts of a stage, one per policy, with the state threaded through.\<close>

fun run_hooks ::
  "('p \<Rightarrow> 's pipeline \<Rightarrow> 's pipeline \<times> (rejects + unit)) \<Rightarrow> 'p list \<Rightarrow> 's pipeline \<Rightarrow>
   's pipeline \<times> (rejects + unit) list" where
  "run_hooks hook [] p = (p, [])"
| "run_hooks hook (x # xs) p =
     (case hook x p of (q, r) \<Rightarrow> (case run_hooks hook xs q of (p', rs) \<Rightarrow> (p', r # rs)))"

definition errors_of :: "('e + 'u) list \<Rightarrow> 'e list" where
  "errors_of rs = concat (map (\<lambda>r. case r of Inl e \<Rightarrow> [e] | Inr _ \<Rightarrow> []) rs)"

text \<open>A concrete engine: a stop loss at \<open>-100\<close>, no size caps, no rate limits.\<close>

definition sample_state :: built_in_state where
  "sample_state =
     \<lparr>bi_size = \<lparr>os_account_asset_limits = [], os_asset_limits = [], os_broker = None\<rparr>,
      bi_rate = rate_policy_new
        \<lparr>rl_asset_limits = [], rl_account_limits = [], rl_account_asset_limits = [], rl_broker = None\<rparr> 0,
      bi_pnl = stop_loss_policy\<lparr>pp_realized := [((7, ''USD''), - 120), ((8, ''USD''), 5)]\<rparr>\<rparr>"

definition sample_engine :: "built_in_state engine" where
  "sample_engine =
     \<lparr>eng_policy_state = sample_state, eng_blocked = blocked_accounts_new, eng_groups = [],
      eng_account_currencies = account_currencies_new\<rparr>"

definition order_of :: "account_id \<Rightarrow> order" where
  "order_of a = sample_order\<lparr>ord_account_id := Inr a\<rparr>"

section \<open>Lemmas\<close>

lemma put_same [simp]: "put_rate (rate_of e) e = e" "put_pnl (pnl_of e) e = e"
  by (simp_all add: put_rate_def put_pnl_def rate_of_def pnl_of_def)

lemma put_rate_frame [simp]:
  "eng_blocked (put_rate x e) = eng_blocked e" "eng_groups (put_rate x e) = eng_groups e"
  "pnl_of (put_rate x e) = pnl_of e" "bi_size (eng_policy_state (put_rate x e)) = bi_size (eng_policy_state e)"
  by (simp_all add: put_rate_def pnl_of_def)

lemmas hook_defs = order_validation_policy_def order_size_limit_policy_def rate_limit_built_in_def
  pnl_bounds_built_in_def with_default_dry_runs_def policy_default_def

lemma lift_rollback:
  "mut_guard m = None \<Longrightarrow> mut_rollback m (get w) = (get w, failure_default) \<Longrightarrow> put (get w) w = w \<Longrightarrow>
   mutation_rollback (lift_mutation get put m) w = (w, failure_default)"
  by (simp add: mutation_rollback_def lift_mutation_def drop_guard_def)

lemma undo_chain_idle:
  "\<forall>m\<in>set ms. mutation_rollback m w = (w, failure_default) \<Longrightarrow> undo_chain w ms w"
proof (induction ms rule: rev_induct)
  case (snoc m ms)
  then show ?case by (intro undo_chain.register) simp_all
qed (rule undo_chain.start)

lemma rate_retirement_idle:
  "rate_retire_account x account = Inr m \<Longrightarrow>
   mutation_rollback (lift_mutation rate_of put_rate m) e = (e, failure_default)"
  by (rule lift_rollback)
    (auto simp: rate_retire_account_def mutation_new_def new_infallible_def
      new_reporting_with_error_def Let_def split: if_splits)

lemma pnl_retirement_idle:
  "pnl_retire_account x account = Inr batch \<Longrightarrow> m \<in> set batch \<Longrightarrow>
   mutation_rollback (lift_mutation pnl_of put_pnl m) e = (e, failure_default)"
  by (rule lift_rollback)
    (auto simp: pnl_retire_account_def new_reporting_def new_reporting_with_error_def Let_def
      split: if_splits)

lemma rate_retirement_registers:
  "retire_account_hook rate_limit_built_in account e ms = (e', ms', r) \<Longrightarrow> registers_undo e ms e' ms'"
  using rate_retirement_idle [of "rate_of e" account] undo_chain_single
  by (fastforce simp: hook_defs registers_undo_def mutations_push_def split: sum.splits
      intro: undo_chain.start)

lemma pnl_retirement_registers:
  "retire_account_hook (pnl_bounds_built_in D) account e ms = (e', ms', r) \<Longrightarrow> registers_undo e ms e' ms'"
  using pnl_retirement_idle [of "pnl_of e" account]
  by (fastforce simp: hook_defs registers_undo_def split: sum.splits
      intro: undo_chain.start undo_chain_idle)

interpretation built_in: transactional_policies "built_in_policies D" for D
proof (unfold_locales, goal_cases)
  case (1 policy ctx ord p ms p' ms' r)
  then show ?case by (auto simp: built_in_policies_def hook_defs)
next
  case (2 policy account adj e ms e' ms' r)
  then show ?case by (auto simp: built_in_policies_def hook_defs)
next
  case (3 policy account e ms e' ms' r)
  then show ?case
    using rate_retirement_registers pnl_retirement_registers
    by (auto simp: built_in_policies_def) (auto simp: hook_defs)
next
  case (4 policy ctx p now ord)
  then show ?case
    by (auto simp: built_in_policies_def hook_defs rate_hook_def case_prod_beta)
qed


lemma start_loop_verdicts:
  assumes "\<not> ctx_drop_copy ctx"
  shows "start_loop hook ps ctx ord p c n b =
    (let (p', rs) = run_hooks (\<lambda>policy. hook policy ctx ord) ps p
     in (p', c @ errors_of rs, n + length (concat (map rejects_vec (errors_of rs))),
         if b = None then reject_account_block (concat (map rejects_vec (errors_of rs))) else b))"
proof (induction ps arbitrary: p c n b)
  case Nil
  then show ?case by (simp add: errors_of_def reject_account_block_def)
next
  case (Cons policy ps)
  obtain q r where q: "hook policy ctx ord p = (q, r)" by force
  have noted: "note_account_block ctx rs q b' =
      (q, if b' = None then reject_account_block rs else b')" for rs b'
    using assms note_account_block_live by blast
  show ?case
    using q Cons.IH
    by (cases r) (auto simp: noted errors_of_def reject_account_block_append Let_def case_prod_beta)
qed

lemma start_stage_verdicts:
  assumes "\<not> ctx_drop_copy ctx"
    and "snd (run_hooks (\<lambda>policy. hook policy ctx ord) ps p) =
      snd (run_hooks (\<lambda>policy. hook' policy ctx ord) ps p)"
  shows "snd (run_pre_trade_start_stage hook ps ctx ord p) =
      snd (run_pre_trade_start_stage hook' ps ctx ord p)"
    and "fst (run_pre_trade_start_stage hook ps ctx ord p) =
      fst (run_hooks (\<lambda>policy. hook policy ctx ord) ps p)"
  using assms(2)
  by (simp_all add: run_pre_trade_start_stage_def start_loop_verdicts [OF assms(1)] Let_def
      case_prod_beta)

lemma check_start_dry:
  "fst (check_start x now ctx ord False) = x"
  "snd (check_start x now ctx ord False) = snd (check_start x now ctx ord True)"
  by (auto simp: check_start_counts check_of_count_def count_axes_dry split: sum.splits)

lemma rate_hook_dry:
  "fst (rate_hook False now ctx ord p) = p"
  "snd (rate_hook False now ctx ord p) = snd (check_start (rate_of (pl_engine p)) now ctx ord True)"
  by (simp_all add: rate_hook_def case_prod_beta check_start_dry)

lemma rate_hook_real:
  "snd (rate_hook True now ctx ord p) = snd (check_start (rate_of (pl_engine p)) now ctx ord True)"
  "pnl_of (pl_engine (fst (rate_hook True now ctx ord p))) = pnl_of (pl_engine p)"
  by (simp_all add: rate_hook_def case_prod_beta)

lemma built_in_verdicts:
  "snd (run_hooks (\<lambda>policy. check_pre_trade_start_dry_run policy now ctx ord) (built_in_policies D) p) =
   snd (run_hooks (\<lambda>policy. check_pre_trade_start policy now ctx ord) (built_in_policies D) p)"
  "fst (run_hooks (\<lambda>policy. check_pre_trade_start_dry_run policy now ctx ord) (built_in_policies D) p) = p"
  by (simp_all add: built_in_policies_def hook_defs rate_hook_dry rate_hook_real case_prod_beta)

text \<open>Account 7 of the sample engine is beyond the stop loss; account 8 still has a P\&L.\<close>

lemma sample_unblocked:
  "blocked_check (eng_blocked sample_engine) (eng_groups sample_engine) account scope = None"
  by (simp add: sample_engine_def blocked_check_def with_blocking_cause_def blocked_accounts_new_def)

lemma sample_breach:
  "\<exists>r. pnl_check_pre_trade_start (pnl_of sample_engine)
     \<lparr>ctx_account = ord_account_id (order_of 7), ctx_drop_copy = False\<rparr> (order_of 7) =
       Inl (rejects_new [r]) \<and> rj_scope r = ScopeAccount"
  by (simp add: pnl_of_def sample_engine_def sample_state_def order_of_def sample_order_def
      stop_loss_policy_def pnl_check_pre_trade_start_def drop_copy_account_id_def breaches_def
      current_pnl_of_def storage_with_def breach_of_def breached_sides_def barrier_breach_reject_def
      reject_new_def Let_def) (rule exI, rule conjI, rule refl, simp)

lemma sample_stops:
  "\<exists>e' rs. start_pre_trade (built_in_policies exact96_ops :: unit built_in_policy list) ord_account_id 5
     (order_of 7) sample_engine = (e', Inl rs) \<and> list_ex (\<lambda>r. rj_scope r = ScopeAccount) (rejects_vec rs)"
proof -
  let ?ctx = "\<lparr>ctx_account = ord_account_id (order_of 7), ctx_drop_copy = False\<rparr>"
  let ?p = "ordinary_pipeline (ok_account (ord_account_id (order_of 7))) sample_engine"
  let ?ps = "built_in_policies exact96_ops :: unit built_in_policy list"
  obtain r where r: "pnl_check_pre_trade_start (pnl_of sample_engine) ?ctx (order_of 7) =
      Inl (rejects_new [r])" "rj_scope r = ScopeAccount"
    using sample_breach by blast
  obtain p' v1 v2 v3 where run: "run_hooks (\<lambda>policy. check_pre_trade_start policy 5 ?ctx (order_of 7))
      ?ps ?p = (p', [v1, v2, v3, Inl (rejects_new [r])])"
    using r(1) by (simp add: built_in_policies_def hook_defs rate_hook_real case_prod_beta
        ordinary_pipeline_def)
  have "errors_of [v1, v2, v3, Inl (rejects_new [r])] = errors_of [v1, v2, v3] @ [rejects_new [r]]"
    by (simp add: errors_of_def)
  then show ?thesis
    using run r(2) sample_unblocked
    by (simp add: start_pre_trade_def run_pre_trade_start_stage_def start_loop_verdicts
        merge_reject_lists_def Let_def)
qed

lemma sample_refuses:
  "snd (engine_retire_account (built_in_policies exact96_ops :: unit built_in_policy list) 1 8 sample_engine) =
     Inl (Refused [\<lparr>arp_policy = PNL_POLICY_NAME, arp_refusal = NonZeroState\<rparr>])"
  by (simp add: engine_retire_account_def built_in_policies_def hook_defs order_size_retire_account_def
      rate_retire_account_def pnl_retire_account_def sample_engine_def sample_state_def rate_of_def
      pnl_of_def rate_policy_new_def rearm_def stop_loss_policy_def storage_keys_def storage_with_def
      case_prod_beta Let_def)

section \<open>Properties\<close>

text \<open>
  (C24) The dry run of the start stage over the built-in policies changes nothing and reports exactly
  the rejects that submitting the order would return, and none exactly when it would be accepted.
\<close>

theorem built_in_dry_run_predicts:
  "fst (start_pre_trade_dry_run (built_in_policies D :: 'a built_in_policy list) account_id_of now ord e) = e \<and>
   dr_rejects (snd (start_pre_trade_dry_run (built_in_policies D :: 'a built_in_policy list) account_id_of now ord e)) =
     (case snd (start_pre_trade (built_in_policies D :: 'a built_in_policy list) account_id_of now ord e) of
        Inl rs \<Rightarrow> Some rs | Inr _ \<Rightarrow> None)"
proof -
  let ?ctx = "\<lparr>ctx_account = account_id_of ord, ctx_drop_copy = False\<rparr>"
  let ?p = "ordinary_pipeline (ok_account (account_id_of ord)) e"
  let ?dry = "run_pre_trade_start_stage (\<lambda>policy. check_pre_trade_start_dry_run policy now)
    (built_in_policies D :: 'a built_in_policy list) ?ctx ord ?p"
  let ?real = "run_pre_trade_start_stage (\<lambda>policy. check_pre_trade_start policy now)
    (built_in_policies D :: 'a built_in_policy list) ?ctx ord ?p"
  have same: "snd ?dry = snd ?real" and still: "fst ?dry = ?p"
    using start_stage_verdicts [of ?ctx "\<lambda>policy. check_pre_trade_start_dry_run policy now" ord
        "built_in_policies D :: 'a built_in_policy list" ?p "\<lambda>policy. check_pre_trade_start policy now"]
    by (simp_all add: built_in_verdicts)
  obtain p rs block where "?real = (p, rs, block)" by (metis prod_cases3)
  moreover from this same still have "?dry = (?p, rs, block)"
    by (metis prod.collapse snd_conv)
  ultimately show ?thesis
    by (simp add: start_pre_trade_dry_run_def start_pre_trade_def Let_def dry_run_report_new_def
        ordinary_pipeline_def split: option.splits)
qed


theorem account_reject_latches_witness:
  "is_blocked (eng_blocked (fst (start_pre_trade (built_in_policies exact96_ops ::
       unit built_in_policy list) ord_account_id 5 (order_of 7) sample_engine)))
     (eng_groups (fst (start_pre_trade (built_in_policies exact96_ops ::
       unit built_in_policy list) ord_account_id 5 (order_of 7) sample_engine))) 7"
proof -
  obtain e' rs where run: "start_pre_trade (built_in_policies exact96_ops :: unit built_in_policy list)
      ord_account_id 5 (order_of 7) sample_engine = (e', Inl rs)"
    and scope: "list_ex (\<lambda>r. rj_scope r = ScopeAccount) (rejects_vec rs)"
    using sample_stops by blast
  have "flags_ok (eng_blocked sample_engine)" by (simp add: sample_engine_def flags_ok_new)
  then show ?thesis
    unfolding run fst_conv
    using account_reject_latches [OF built_in.transactional_policies_axioms _ _ run scope, of 7 "order_of 7"]
    by (simp add: order_of_def)
qed

theorem retirement_all_or_nothing_witness:
  "engine_retire_account (built_in_policies exact96_ops :: unit built_in_policy list) 1 8
     sample_engine = (sample_engine, Inl (Refused [\<lparr>arp_policy = PNL_POLICY_NAME, arp_refusal = NonZeroState\<rparr>])) \<and>
   answered_refusals (retire_answers (built_in_policies exact96_ops :: unit built_in_policy list) 8
     sample_engine (empty_mutations 1)) = [\<lparr>arp_policy = PNL_POLICY_NAME, arp_refusal = NonZeroState\<rparr>]"
proof -
  obtain e' where run: "engine_retire_account (built_in_policies exact96_ops :: unit built_in_policy list)
      1 8 sample_engine = (e', Inl (Refused [\<lparr>arp_policy = PNL_POLICY_NAME, arp_refusal = NonZeroState\<rparr>]))"
    using sample_refuses by (metis prod.collapse)
  show ?thesis
    using retirement_all_or_nothing
      [where policies = "built_in_policies exact96_ops :: unit built_in_policy list" and account = 8
        and e = sample_engine and owner = 1, OF built_in.transactional_policies_axioms refl]
    by (simp add: run)
qed

end
