(* ===== verification/State_Transition.thy ===== *)
theory State_Transition
  imports Spot_Funds
begin

text \<open>
  The coordinator of account-state writes and engine transitions (\<open>core/accounts.rs\<close>,
  \<open>StateTransitionCoordinator\<close>), under threads. Ordinary writers share a lease, a transition takes
  it alone, a queued transition holds back later writers, and a call that already owns the lease on
  the account P\&L of \<open>Spot_Funds\<close> enters past the queue. A thread is the list of sections it has
  still to pass and the guards it owns; one step is one section under the mutex of the coordinator or
  of the lease table. Shown: a transition runs alone, the counters are the guards that exist, and
  no interleaving of the engine's calls waits forever.
\<close>

section \<open>The coordinator\<close>

record state_transition_access =
  sta_readers :: nat
  sta_waiting_writers :: nat
  sta_writer :: bool

datatype state_transition_access_kind = AccessShared | AccessExclusive

record state_transition_coordinator =
  stc_access :: state_transition_access
  stc_serialized :: bool

definition coordinator_new :: "bool \<Rightarrow> state_transition_coordinator" where
  "coordinator_new serialized =
     \<lparr>stc_access = \<lparr>sta_readers = 0, sta_waiting_writers = 0, sta_writer = False\<rparr>,
      stc_serialized = serialized\<rparr>"

definition drop_access ::
  "state_transition_access_kind \<Rightarrow> state_transition_access \<Rightarrow> state_transition_access" where
  "drop_access kind access =
     (case kind of
        AccessShared \<Rightarrow> access\<lparr>sta_readers := sta_readers access - 1\<rparr>
      | AccessExclusive \<Rightarrow> access\<lparr>sta_writer := False\<rparr>)"

text \<open>One pass of the acquiring loops; \<open>None\<close> backs off and tries again.\<close>

definition try_acquire_shared ::
  "bool \<Rightarrow> state_transition_access \<Rightarrow> state_transition_access option" where
  "try_acquire_shared bypass_waiting_writer access =
     (if \<not> sta_writer access \<and> (bypass_waiting_writer \<or> sta_waiting_writers access = 0)
      then (if sta_readers access < USIZE_MAX
            then Some (access\<lparr>sta_readers := sta_readers access + 1\<rparr>) else None)
      else None)"

definition queue_exclusive :: "state_transition_access \<Rightarrow> state_transition_access" where
  "queue_exclusive access =
     access\<lparr>sta_waiting_writers := min USIZE_MAX (sta_waiting_writers access + 1)\<rparr>"

definition try_acquire_exclusive :: "state_transition_access \<Rightarrow> state_transition_access option" where
  "try_acquire_exclusive access =
     (if \<not> sta_writer access \<and> sta_readers access = 0
      then Some (access\<lparr>sta_waiting_writers := sta_waiting_writers access - 1, sta_writer := True\<rparr>)
      else None)"

text \<open>Without serialization a section takes nothing.\<close>

definition on_access ::
  "(state_transition_access \<Rightarrow> state_transition_access option) \<Rightarrow> state_transition_coordinator \<Rightarrow>
   state_transition_coordinator option" where
  "on_access f coordinator =
     (if stc_serialized coordinator
      then map_option (\<lambda>access. coordinator\<lparr>stc_access := access\<rparr>) (f (stc_access coordinator))
      else Some coordinator)"

section \<open>The calls of the engine\<close>

text \<open>
  The sections of a call, in order. \<open>Enter_Element\<close> is the entry of
  \<open>with_adjustment_state_writer\<close>: past the queue when the batch owns the P\&L lease of the account.
\<close>

datatype call_section =
  Enter_Shared
| Enter_Rollback
| Enter_Element u64 account_id
| Leave_Shared
| Queue_Exclusive
| Enter_Exclusive
| Leave_Exclusive
| Take_Lease u64 account_id
| Drop_Lease u64 account_id

definition with_shared_call :: "call_section list \<Rightarrow> call_section list" where
  "with_shared_call operation = Enter_Shared # operation @ [Leave_Shared]"

definition with_rollback_call :: "call_section list" where
  "with_rollback_call = [Enter_Rollback, Leave_Shared]"

definition with_exclusive_call :: "call_section list" where
  "with_exclusive_call = [Queue_Exclusive, Enter_Exclusive, Leave_Exclusive]"

text \<open>
  An execution report, or an absolute write of the account P\&L: each update of the account P\&L inside
  the section takes the lease under an owner of its own and returns it.
\<close>

definition report_call :: "account_id \<Rightarrow> u64 list \<Rightarrow> call_section list" where
  "report_call account owners =
     with_shared_call (concat (map (\<lambda>owner. [Take_Lease owner account, Drop_Lease owner account]) owners))"

text \<open>
  A batch of adjustments of one account: an element is a holdings adjustment or an assertion of the
  account P\&L (\<open>True\<close>), whose lease stays with the registered mutation until that is finalized. A
  commit of a holdings adjustment does nothing.
\<close>

definition batch_element_call :: "u64 \<Rightarrow> account_id \<Rightarrow> bool \<Rightarrow> call_section list" where
  "batch_element_call owner account assertion =
     Enter_Element owner account # (if assertion then [Take_Lease owner account] else []) @ [Leave_Shared]"

definition finalize_element_call :: "bool \<Rightarrow> u64 \<Rightarrow> account_id \<Rightarrow> bool \<Rightarrow> call_section list" where
  "finalize_element_call commits owner account assertion =
     (if assertion then with_rollback_call @ [Drop_Lease owner account]
      else if commits then [] else with_rollback_call)"

definition batch_call :: "bool \<Rightarrow> u64 \<Rightarrow> account_id \<Rightarrow> bool list \<Rightarrow> call_section list" where
  "batch_call commits owner account elements =
     concat (map (batch_element_call owner account) elements) @
     concat (map (finalize_element_call commits owner account) (if commits then elements else rev elements))"

section \<open>Threads\<close>

text \<open>The guards a thread owns, and whether it has joined the queue for exclusive access.\<close>

record call_thread =
  th_guard :: "state_transition_access_kind option"
  th_queued :: bool
  th_leases :: "(u64 \<times> account_id) list"
  th_todo :: "call_section list"

definition call_start :: "call_section list \<Rightarrow> call_thread" where
  "call_start sections = \<lparr>th_guard = None, th_queued = False, th_leases = [], th_todo = sections\<rparr>"

definition owns_pnl_lease :: "spot_funds \<Rightarrow> account_id \<Rightarrow> u64 \<Rightarrow> bool" where
  "owns_pnl_lease self account owner =
     (case storage_with (sf_leases self) account
         (\<lambda>lease. case lease of Some l \<Rightarrow> lease_owner l = owner | None \<Rightarrow> False) of
        Some b \<Rightarrow> b | None \<Rightarrow> False)"

definition enter_shared ::
  "bool \<Rightarrow> state_transition_coordinator \<Rightarrow> call_thread \<Rightarrow> (state_transition_coordinator \<times> call_thread) option" where
  "enter_shared bypass coordinator t =
     map_option (\<lambda>c. (c, t\<lparr>th_guard := Some AccessShared\<rparr>)) (on_access (try_acquire_shared bypass) coordinator)"

text \<open>One section of one thread; \<open>None\<close> when it has to wait, or has nothing left.\<close>

definition run_section ::
  "call_section \<Rightarrow> state_transition_coordinator \<Rightarrow> spot_funds \<Rightarrow> call_thread \<Rightarrow>
   (state_transition_coordinator \<times> spot_funds \<times> call_thread) option" where
  "run_section sect coordinator self t =
     (case sect of
        Enter_Shared \<Rightarrow> map_option (\<lambda>(c, t). (c, self, t)) (enter_shared False coordinator t)
      | Enter_Rollback \<Rightarrow> map_option (\<lambda>(c, t). (c, self, t)) (enter_shared True coordinator t)
      | Enter_Element owner account \<Rightarrow>
          map_option (\<lambda>(c, t). (c, self, t)) (enter_shared (owns_pnl_lease self account owner) coordinator t)
      | Leave_Shared \<Rightarrow>
          map_option (\<lambda>c. (c, self, t\<lparr>th_guard := None\<rparr>))
            (on_access (\<lambda>access. Some (drop_access AccessShared access)) coordinator)
      | Queue_Exclusive \<Rightarrow>
          map_option (\<lambda>c. (c, self, t\<lparr>th_queued := True\<rparr>))
            (on_access (\<lambda>access. Some (queue_exclusive access)) coordinator)
      | Enter_Exclusive \<Rightarrow>
          map_option (\<lambda>c. (c, self, t\<lparr>th_guard := Some AccessExclusive, th_queued := False\<rparr>))
            (on_access try_acquire_exclusive coordinator)
      | Leave_Exclusive \<Rightarrow>
          map_option (\<lambda>c. (c, self, t\<lparr>th_guard := None\<rparr>))
            (on_access (\<lambda>access. Some (drop_access AccessExclusive access)) coordinator)
      | Take_Lease owner account \<Rightarrow>
          (case try_account_pnl_lease self account owner of
             (self, True) \<Rightarrow> Some (coordinator, self, t\<lparr>th_leases := (owner, account) # th_leases t\<rparr>)
           | (self, False) \<Rightarrow> None)
      | Drop_Lease owner account \<Rightarrow>
          Some (coordinator, release_account_pnl_lease self account owner,
            t\<lparr>th_leases := remove1 (owner, account) (th_leases t)\<rparr>))"

type_synonym call_system = "state_transition_coordinator \<times> spot_funds \<times> call_thread list"

inductive call_step :: "call_system \<Rightarrow> call_system \<Rightarrow> bool" where
  call_stepI: "i < length ts \<Longrightarrow> th_todo (ts ! i) = s # rest \<Longrightarrow>
    run_section s c self ((ts ! i)\<lparr>th_todo := rest\<rparr>) = Some (c', self', t) \<Longrightarrow>
    call_step (c, self, ts) (c', self', ts[i := t])"

definition call_done :: "call_thread \<Rightarrow> bool" where
  "call_done t \<longleftrightarrow> th_todo t = []"

text \<open>The calls of the engine, and a system in which each runs with owner identifiers of its own.\<close>

inductive engine_call :: "call_section list \<Rightarrow> bool" where
  writer_call: "engine_call (with_shared_call [])"
| rollback_call: "engine_call with_rollback_call"
| transition_call: "engine_call with_exclusive_call"
| report_call: "engine_call (report_call account owners)"
| batch_call: "engine_call (batch_call commits owner account elements)"

primrec section_owners :: "call_section \<Rightarrow> u64 set" where
  "section_owners Enter_Shared = {}"
| "section_owners Enter_Rollback = {}"
| "section_owners (Enter_Element owner account) = {owner}"
| "section_owners Leave_Shared = {}"
| "section_owners Queue_Exclusive = {}"
| "section_owners Enter_Exclusive = {}"
| "section_owners Leave_Exclusive = {}"
| "section_owners (Take_Lease owner account) = {owner}"
| "section_owners (Drop_Lease owner account) = {owner}"

definition call_owners :: "call_section list \<Rightarrow> u64 set" where
  "call_owners sections = \<Union> (section_owners ` set sections)"

definition call_system_start :: "call_section list list \<Rightarrow> spot_funds \<Rightarrow> call_system \<Rightarrow> bool" where
  "call_system_start calls self s \<longleftrightarrow>
     s = (coordinator_new True, self, map call_start calls) \<and>
     list_all engine_call calls \<and> length calls < USIZE_MAX \<and>
     (\<forall>account. lease_free self account) \<and>
     (\<forall>i < length calls. \<forall>j < length calls. i \<noteq> j \<longrightarrow> call_owners (calls ! i) \<inter> call_owners (calls ! j) = {})"

section \<open>Well-formed calls\<close>

text \<open>
  What a call may do with the guards it owns: the queue is joined and ordinary sections are entered
  with no lease, a lease is taken inside a shared section and only by the owner that has it already,
  and everything is returned.
\<close>

fun sections_ok ::
  "state_transition_access_kind option \<Rightarrow> bool \<Rightarrow> (u64 \<times> account_id) list \<Rightarrow> call_section list \<Rightarrow> bool" where
  "sections_ok g q ls [] \<longleftrightarrow> g = None \<and> \<not> q \<and> ls = []"
| "sections_ok g q ls (Enter_Shared # r) \<longleftrightarrow>
     g = None \<and> \<not> q \<and> ls = [] \<and> sections_ok (Some AccessShared) False [] r"
| "sections_ok g q ls (Enter_Rollback # r) \<longleftrightarrow> g = None \<and> \<not> q \<and> sections_ok (Some AccessShared) False ls r"
| "sections_ok g q ls (Enter_Element owner account # r) \<longleftrightarrow>
     g = None \<and> \<not> q \<and> set ls \<subseteq> {(owner, account)} \<and> sections_ok (Some AccessShared) False ls r"
| "sections_ok g q ls (Leave_Shared # r) \<longleftrightarrow> g = Some AccessShared \<and> \<not> q \<and> sections_ok None False ls r"
| "sections_ok g q ls (Queue_Exclusive # r) \<longleftrightarrow> g = None \<and> \<not> q \<and> ls = [] \<and> sections_ok None True [] r"
| "sections_ok g q ls (Enter_Exclusive # r) \<longleftrightarrow>
     g = None \<and> q \<and> ls = [] \<and> sections_ok (Some AccessExclusive) False [] r"
| "sections_ok g q ls (Leave_Exclusive # r) \<longleftrightarrow>
     g = Some AccessExclusive \<and> \<not> q \<and> ls = [] \<and> sections_ok None False [] r"
| "sections_ok g q ls (Take_Lease owner account # r) \<longleftrightarrow>
     g = Some AccessShared \<and> \<not> q \<and> set ls \<subseteq> {(owner, account)} \<and>
     sections_ok g False ((owner, account) # ls) r"
| "sections_ok g q ls (Drop_Lease owner account # r) \<longleftrightarrow>
     g \<noteq> Some AccessExclusive \<and> \<not> q \<and> (owner, account) \<in> set ls \<and>
     sections_ok g False (remove1 (owner, account) ls) r"

definition call_ok :: "call_thread \<Rightarrow> bool" where
  "call_ok t \<longleftrightarrow> sections_ok (th_guard t) (th_queued t) (th_leases t) (th_todo t)"

lemma rounds_ok:
  "sections_ok (Some AccessShared) False []
     (concat (map (\<lambda>owner. [Take_Lease owner account, Drop_Lease owner account]) owners) @ [Leave_Shared])"
  by (induction owners) auto

text \<open>The leases a batch owns are copies of one pair, one for each assertion.\<close>

lemma batch_sections:
  "batch_element_call owner account True = [Enter_Element owner account, Take_Lease owner account, Leave_Shared]"
  "batch_element_call owner account False = [Enter_Element owner account, Leave_Shared]"
  "finalize_element_call commits owner account True = [Enter_Rollback, Leave_Shared, Drop_Lease owner account]"
  "finalize_element_call True owner account False = []"
  "finalize_element_call False owner account False = [Enter_Rollback, Leave_Shared]"
  by (simp_all add: batch_element_call_def finalize_element_call_def with_rollback_call_def)

lemma finalize_ok:
  "sections_ok None False (replicate (length (filter (\<lambda>b. b) elements)) (owner, account))
     (concat (map (finalize_element_call commits owner account) elements))"
proof (induction elements)
  case (Cons b elements)
  then show ?case by (cases b; cases commits) (simp_all add: batch_sections)
qed simp

lemma elements_ok:
  assumes "sections_ok None False (replicate (n + length (filter (\<lambda>b. b) elements)) (owner, account)) rest"
  shows "sections_ok None False (replicate n (owner, account))
     (concat (map (batch_element_call owner account) elements) @ rest)"
  using assms
proof (induction elements arbitrary: n)
  case (Cons b elements)
  show ?case
  proof (cases b)
    case True
    then show ?thesis using Cons.IH [of "Suc n"] Cons.prems by (auto simp: batch_sections)
  next
    case False
    then show ?thesis using Cons.IH [of n] Cons.prems by (auto simp: batch_sections)
  qed
qed simp

lemma engine_call_ok: "engine_call sections \<Longrightarrow> call_ok (call_start sections)"
proof (induction rule: engine_call.induct)
  case (batch_call commits owner account elements)
  let ?order = "if commits then elements else rev elements"
  have "length (filter (\<lambda>b. b) ?order) = length (filter (\<lambda>b. b) elements)"
    by (simp add: rev_filter [symmetric])
  then show ?case
    using elements_ok [of 0 elements owner account] finalize_ok [of ?order owner account commits]
    by (simp add: call_ok_def call_start_def batch_call_def)
qed (auto simp: call_ok_def call_start_def with_shared_call_def with_rollback_call_def
    with_exclusive_call_def report_call_def rounds_ok)

section \<open>The lease table\<close>

definition lease_of :: "spot_funds \<Rightarrow> account_id \<Rightarrow> (u64 \<times> nat) option" where
  "lease_of self account =
     (case hm_get (sf_leases self) account of
        Some (Some l) \<Rightarrow> Some (lease_owner l, lease_depth l) | _ \<Rightarrow> None)"

lemma lease_free_iff: "lease_free self account \<longleftrightarrow> lease_of self account = None"
  by (auto simp: lease_free_def lease_of_def split: option.splits)

lemma owns_pnl_lease_iff: "owns_pnl_lease self account owner \<longleftrightarrow> (\<exists>d. lease_of self account = Some (owner, d))"
  by (auto simp: owns_pnl_lease_def lease_of_def storage_with_def split: option.splits)

lemma try_lease_taken:
  "snd (try_account_pnl_lease self account owner) \<longleftrightarrow>
     (\<forall>x. lease_of self account = Some x \<longrightarrow> fst x = owner)"
  by (auto simp: try_account_pnl_lease_def case_prod_beta with_mut_output slot_output_def lease_of_def
      split: option.splits)

lemma try_lease_lookup:
  "snd (try_account_pnl_lease self account owner) \<Longrightarrow>
   lease_of (fst (try_account_pnl_lease self account owner)) a =
     (if a = account
      then Some (owner, case lease_of self account of Some x \<Rightarrow> snd x + 1 | None \<Rightarrow> 1)
      else lease_of self a)"
  by (auto simp: try_account_pnl_lease_def case_prod_beta with_mut_output slot_output_def
      with_mut_lookup lease_of_def split: option.splits if_splits)

lemma release_lookup:
  "lease_of (release_account_pnl_lease self account owner) a =
     (if a = account \<and> (\<exists>d. lease_of self account = Some (owner, d))
      then (case lease_of self account of
              Some (_, d) \<Rightarrow> if d = 1 then None else Some (owner, d - 1) | None \<Rightarrow> None)
      else lease_of self a)"
  by (auto simp: release_account_pnl_lease_def with_mut_if_present_lookup lease_of_def split: option.splits)

section \<open>The invariant\<close>

definition guards_held :: "state_transition_access_kind \<Rightarrow> call_thread list \<Rightarrow> nat" where
  "guards_held kind ts = length (filter (\<lambda>t. th_guard t = Some kind) ts)"

definition queue_length :: "call_thread list \<Rightarrow> nat" where
  "queue_length ts = length (filter th_queued ts)"

definition thread_owners :: "call_thread \<Rightarrow> u64 set" where
  "thread_owners t = fst ` set (th_leases t) \<union> call_owners (th_todo t)"

definition access_inv :: "state_transition_coordinator \<Rightarrow> call_thread list \<Rightarrow> bool" where
  "access_inv c ts \<longleftrightarrow>
     stc_serialized c \<and> length ts < USIZE_MAX \<and>
     sta_readers (stc_access c) = guards_held AccessShared ts \<and>
     sta_waiting_writers (stc_access c) = queue_length ts \<and>
     guards_held AccessExclusive ts = (if sta_writer (stc_access c) then 1 else 0) \<and>
     (sta_writer (stc_access c) \<longrightarrow> sta_readers (stc_access c) = 0)"

definition lease_inv :: "spot_funds \<Rightarrow> call_thread list \<Rightarrow> bool" where
  "lease_inv self ts \<longleftrightarrow>
     (\<forall>i < length ts. \<forall>x \<in> set (th_leases (ts ! i)).
        lease_of self (snd x) = Some (fst x, count_list (th_leases (ts ! i)) x)) \<and>
     (\<forall>a x. lease_of self a = Some x \<longrightarrow> (\<exists>i < length ts. (fst x, a) \<in> set (th_leases (ts ! i)))) \<and>
     (\<forall>i < length ts. \<forall>j < length ts. i \<noteq> j \<longrightarrow> thread_owners (ts ! i) \<inter> thread_owners (ts ! j) = {})"

definition call_inv :: "call_system \<Rightarrow> bool" where
  "call_inv s \<longleftrightarrow> access_inv (fst s) (snd (snd s)) \<and> lease_inv (fst (snd s)) (snd (snd s)) \<and>
     (\<forall>t \<in> set (snd (snd s)). call_ok t)"

lemma population_update:
  "i < length xs \<Longrightarrow>
   length (filter P (xs[i := y])) + of_bool (P (xs ! i)) = length (filter P xs) + of_bool (P y)"
proof (induction xs arbitrary: i)
  case (Cons x xs)
  then show ?case using Cons.IH [of "i - 1"] by (cases i) auto
qed simp

lemma queue_short: "queue_length ts \<le> length ts" by (simp add: queue_length_def)

lemma shared_short: "guards_held kind ts \<le> length ts" by (simp add: guards_held_def)

text \<open>A section of a well-formed call leaves a well-formed call.\<close>

lemma section_keeps_ok:
  assumes "call_ok u" "th_todo u = s # rest" "run_section s c self (u\<lparr>th_todo := rest\<rparr>) = Some (c', self', t)"
  shows "call_ok t \<and> th_todo t = rest"
  using assms
  by (cases s) (auto simp: call_ok_def run_section_def enter_shared_def split: prod.splits bool.splits)

text \<open>What each kind of section does to the counters.\<close>

lemma populations:
  assumes "i < length ts"
  shows "guards_held kind (ts[i := t]) + of_bool (th_guard (ts ! i) = Some kind) =
      guards_held kind ts + of_bool (th_guard t = Some kind)"
    and "queue_length (ts[i := t]) + of_bool (th_queued (ts ! i)) = queue_length ts + of_bool (th_queued t)"
  unfolding guards_held_def queue_length_def by (rule population_update [OF assms])+

lemmas access_simps = access_inv_def on_access_def try_acquire_shared_def try_acquire_exclusive_def
  queue_exclusive_def drop_access_def

lemma access_entered:
  assumes "access_inv c ts" and "i < length ts"
    and "th_guard (ts ! i) = None" and "\<not> th_queued (ts ! i)"
    and "th_guard t = Some AccessShared" and "\<not> th_queued t"
    and "on_access (try_acquire_shared bypass) c = Some c'"
  shows "access_inv c' (ts[i := t])"
  using assms populations(1) [OF assms(2), of AccessShared t] populations(1) [OF assms(2), of AccessExclusive t]
    populations(2) [OF assms(2), of t]
  by (auto simp: access_simps split: if_splits)

lemma access_left:
  assumes "access_inv c ts" and "i < length ts"
    and "th_guard (ts ! i) = Some kind" and "\<not> th_queued (ts ! i)"
    and "th_guard t = None" and "\<not> th_queued t"
    and "on_access (\<lambda>access. Some (drop_access kind access)) c = Some c'"
  shows "access_inv c' (ts[i := t])"
  using assms populations(1) [OF assms(2), of AccessShared t] populations(1) [OF assms(2), of AccessExclusive t]
    populations(2) [OF assms(2), of t]
  by (cases kind) (auto simp: access_simps split: if_splits)

lemma access_queued:
  assumes "access_inv c ts" and "i < length ts"
    and "th_guard (ts ! i) = None" and "\<not> th_queued (ts ! i)"
    and "th_guard t = None" and "th_queued t"
    and "on_access (\<lambda>access. Some (queue_exclusive access)) c = Some c'"
  shows "access_inv c' (ts[i := t])"
  using assms populations(1) [OF assms(2), of AccessShared t] populations(1) [OF assms(2), of AccessExclusive t]
    populations(2) [OF assms(2), of t] queue_short [of ts]
  by (auto simp: access_simps split: if_splits)

lemma access_claimed:
  assumes "access_inv c ts" and "i < length ts"
    and "th_guard (ts ! i) = None" and "th_queued (ts ! i)"
    and "th_guard t = Some AccessExclusive" and "\<not> th_queued t"
    and "on_access try_acquire_exclusive c = Some c'"
  shows "access_inv c' (ts[i := t])"
  using assms populations(1) [OF assms(2), of AccessShared t] populations(1) [OF assms(2), of AccessExclusive t]
    populations(2) [OF assms(2), of t]
  by (auto simp: access_simps split: if_splits)

lemma access_kept:
  assumes "access_inv c ts" and "i < length ts"
    and "th_guard t = th_guard (ts ! i)" and "th_queued t = th_queued (ts ! i)"
  shows "access_inv c (ts[i := t])"
  using assms populations(1) [OF assms(2), of AccessShared t] populations(1) [OF assms(2), of AccessExclusive t]
    populations(2) [OF assms(2), of t]
  by (auto simp: access_inv_def)

lemma section_keeps_access:
  assumes inv: "access_inv c ts" and i: "i < length ts" and todo: "th_todo (ts ! i) = s # rest"
    and ok: "call_ok (ts ! i)"
    and run: "run_section s c self ((ts ! i)\<lparr>th_todo := rest\<rparr>) = Some (c', self', t)"
  shows "access_inv c' (ts[i := t])"
  using ok todo run inv
  by (cases s)
    (auto simp: call_ok_def run_section_def enter_shared_def split: prod.splits bool.splits
      intro: access_entered [OF _ i] access_left [OF _ i] access_queued [OF _ i] access_claimed [OF _ i]
        access_kept [OF _ i])

text \<open>The lease table is what the threads own.\<close>

lemma lease_kept:
  assumes "lease_inv self ts" and "i < length ts" and "th_leases t = th_leases (ts ! i)"
    and "thread_owners t \<subseteq> thread_owners (ts ! i)"
  shows "lease_inv self (ts[i := t])"
  using assms unfolding lease_inv_def by (simp add: nth_list_update) blast

lemma sole_owner:
  assumes "lease_inv self ts" "i < length ts" "j < length ts"
    and "owner \<in> thread_owners (ts ! i)" "(owner, a) \<in> set (th_leases (ts ! j))"
  shows "j = i"
proof (rule ccontr)
  assume "j \<noteq> i"
  moreover have "owner \<in> thread_owners (ts ! j)" using assms(5) by (force simp: thread_owners_def)
  ultimately show False using assms(1-4) unfolding lease_inv_def by blast
qed

lemma owned_lease:
  "lease_inv self ts \<Longrightarrow> i < length ts \<Longrightarrow> x \<in> set (th_leases (ts ! i)) \<Longrightarrow>
   lease_of self (snd x) = Some (fst x, count_list (th_leases (ts ! i)) x)"
  by (simp add: lease_inv_def)

lemma lease_holder:
  "lease_inv self ts \<Longrightarrow> lease_of self a = Some (owner, d) \<Longrightarrow>
   \<exists>i < length ts. (owner, a) \<in> set (th_leases (ts ! i))"
  unfolding lease_inv_def by (metis fst_conv)

lemma count_list_removed:
  "count_list (remove1 x xs) y = (if y = x then count_list xs x - 1 else count_list xs y)"
proof (induction xs)
  case (Cons z xs)
  then show ?case by (cases "x \<in> set xs") (auto simp: count_list_0_iff)
qed simp

text \<open>Building the invariant after thread \<open>i\<close> has moved.\<close>

lemma lease_invI:
  assumes "lease_inv self ts" and "i < length ts" and "thread_owners t \<subseteq> thread_owners (ts ! i)"
    and "\<And>x. x \<in> set (th_leases t) \<Longrightarrow> lease_of self' (snd x) = Some (fst x, count_list (th_leases t) x)"
    and "\<And>j x. j < length ts \<Longrightarrow> j \<noteq> i \<Longrightarrow> x \<in> set (th_leases (ts ! j)) \<Longrightarrow>
      lease_of self' (snd x) = lease_of self (snd x)"
    and "\<And>a x. lease_of self' a = Some x \<Longrightarrow>
      (fst x, a) \<in> set (th_leases t) \<or>
      (\<exists>j < length ts. j \<noteq> i \<and> (fst x, a) \<in> set (th_leases (ts ! j)))"
  shows "lease_inv self' (ts[i := t])"
  unfolding lease_inv_def
proof (intro conjI allI impI ballI)
  fix j x assume "j < length (ts[i := t])" "x \<in> set (th_leases (ts[i := t] ! j))"
  then show "lease_of self' (snd x) = Some (fst x, count_list (th_leases (ts[i := t] ! j)) x)"
    using assms(4,5) owned_lease [OF assms(1)] by (cases "j = i") auto
next
  fix a x assume "lease_of self' a = Some x"
  then show "\<exists>j < length (ts[i := t]). (fst x, a) \<in> set (th_leases (ts[i := t] ! j))"
    using assms(6) [of a x] assms(2) by (metis length_list_update nth_list_update_eq nth_list_update_neq)
next
  fix j k assume "j < length (ts[i := t])" "k < length (ts[i := t])" "j \<noteq> k"
  then show "thread_owners (ts[i := t] ! j) \<inter> thread_owners (ts[i := t] ! k) = {}"
    using assms(1-3) unfolding lease_inv_def by (simp add: nth_list_update) blast
qed

lemma lease_taken:
  assumes inv: "lease_inv self ts" and i: "i < length ts"
    and got: "snd (try_account_pnl_lease self a owner)"
    and mine: "set (th_leases (ts ! i)) \<subseteq> {(owner, a)}" "owner \<in> thread_owners (ts ! i)"
    and t: "th_leases t = (owner, a) # th_leases (ts ! i)" "thread_owners t \<subseteq> thread_owners (ts ! i)"
  shows "lease_inv (fst (try_account_pnl_lease self a owner)) (ts[i := t])"
proof (rule lease_invI [OF inv i t(2)])
  note look = try_lease_lookup [OF got]
  have own: "fst x = owner" if "lease_of self a = Some x" for x
    using got that by (simp add: try_lease_taken)
  fix x assume "x \<in> set (th_leases t)"
  then have x: "x = (owner, a)" using t(1) mine(1) by auto
  show "lease_of (fst (try_account_pnl_lease self a owner)) (snd x) = Some (fst x, count_list (th_leases t) x)"
  proof (cases "th_leases (ts ! i) = []")
    case True
    have "lease_of self a = None"
    proof (rule ccontr)
      assume "lease_of self a \<noteq> None"
      then obtain d where d: "lease_of self a = Some (owner, d)" using own by fastforce
      then obtain j where "j < length ts" "(owner, a) \<in> set (th_leases (ts ! j))"
        using lease_holder [OF inv] by blast
      then show False using sole_owner [OF inv i _ mine(2)] True by force
    qed
    then show ?thesis using True by (simp add: look x t(1))
  next
    case False
    then have "(owner, a) \<in> set (th_leases (ts ! i))"
      using mine(1) by (metis list.set_intros(1) neq_Nil_conv singletonD subset_code(1))
    then show ?thesis using owned_lease [OF inv i] by (force simp: look x t(1))
  qed
next
  fix j x assume j: "j < length ts" "j \<noteq> i" "x \<in> set (th_leases (ts ! j))"
  have "snd x \<noteq> a"
  proof
    assume "snd x = a"
    then have "fst x = owner" using owned_lease [OF inv j(1,3)] got by (auto simp: try_lease_taken)
    then show False using sole_owner [OF inv i j(1) mine(2), of "snd x"] j by auto
  qed
  then show "lease_of (fst (try_account_pnl_lease self a owner)) (snd x) = lease_of self (snd x)"
    by (simp add: try_lease_lookup [OF got])
next
  fix b x assume "lease_of (fst (try_account_pnl_lease self a owner)) b = Some x"
  then show "(fst x, b) \<in> set (th_leases t) \<or> (\<exists>j < length ts. j \<noteq> i \<and> (fst x, b) \<in> set (th_leases (ts ! j)))"
    using lease_holder [OF inv, of b "fst x" "snd x"] t(1)
    by (auto simp: try_lease_lookup [OF got] split: if_splits)
qed

lemma lease_dropped:
  assumes inv: "lease_inv self ts" and i: "i < length ts"
    and mine: "(owner, a) \<in> set (th_leases (ts ! i))"
    and t: "th_leases t = remove1 (owner, a) (th_leases (ts ! i))" "thread_owners t \<subseteq> thread_owners (ts ! i)"
  shows "lease_inv (release_account_pnl_lease self a owner) (ts[i := t])"
proof (rule lease_invI [OF inv i t(2)])
  let ?n = "count_list (th_leases (ts ! i)) (owner, a)"
  have had: "lease_of self a = Some (owner, ?n)" using owned_lease [OF inv i mine] by simp
  have count: "count_list (th_leases t) y = (if y = (owner, a) then ?n - 1 else count_list (th_leases (ts ! i)) y)" for y
    unfolding t(1) by (rule count_list_removed)
  have own: "fst x = owner" if "x \<in> set (th_leases (ts ! i))" "snd x = a" for x
    using owned_lease [OF inv i that(1)] had that(2) by simp
  {
    fix x assume x: "x \<in> set (th_leases t)"
    then have old: "x \<in> set (th_leases (ts ! i))" unfolding t(1) by (rule subsetD [OF set_remove1_subset])
    have "0 < count_list (th_leases t) x" using x by (metis count_list_0_iff gr0I)
    then show "lease_of (release_account_pnl_lease self a owner) (snd x) = Some (fst x, count_list (th_leases t) x)"
      using had own [OF old] owned_lease [OF inv i old] count [of x]
      by (cases x) (auto simp: release_lookup split: if_splits)
  next
    fix j x assume j: "j < length ts" "j \<noteq> i" "x \<in> set (th_leases (ts ! j))"
    have "owner \<in> thread_owners (ts ! i)" using mine by (force simp: thread_owners_def)
    then have "snd x \<noteq> a"
      using sole_owner [OF inv i j(1), of owner a] j owned_lease [OF inv j(1,3)] had by (cases x) auto
    then show "lease_of (release_account_pnl_lease self a owner) (snd x) = lease_of self (snd x)"
      by (simp add: release_lookup)
  next
    fix b x assume b: "lease_of (release_account_pnl_lease self a owner) b = Some x"
    have "0 < ?n" using mine by (metis count_list_0_iff gr0I)
    then have "0 < count_list (th_leases t) (owner, a)" if "b = a"
      using b that had count [of "(owner, a)"] by (auto simp: release_lookup split: if_splits)
    then have "(owner, a) \<in> set (th_leases t)" if "b = a"
      using that by (metis count_list_0_iff less_irrefl)
    then show "(fst x, b) \<in> set (th_leases t) \<or> (\<exists>j < length ts. j \<noteq> i \<and> (fst x, b) \<in> set (th_leases (ts ! j)))"
      using b had lease_holder [OF inv, of b "fst x" "snd x"] t(1)
      by (cases "b = a") (auto simp: release_lookup split: if_splits)
  }
qed

lemma section_keeps_leases:
  assumes inv: "lease_inv self ts" and i: "i < length ts" and todo: "th_todo (ts ! i) = s # rest"
    and ok: "call_ok (ts ! i)"
    and run: "run_section s c self ((ts ! i)\<lparr>th_todo := rest\<rparr>) = Some (c', self', t)"
  shows "lease_inv self' (ts[i := t])"
proof -
  have own: "section_owners s \<subseteq> thread_owners (ts ! i)" "call_owners rest \<subseteq> thread_owners (ts ! i)"
    using todo by (auto simp: thread_owners_def call_owners_def)
  have leases: "fst ` set (th_leases (ts ! i)) \<subseteq> thread_owners (ts ! i)" by (auto simp: thread_owners_def)
  have "fst ` set (th_leases t) \<subseteq> fst ` set (th_leases (ts ! i)) \<union> section_owners s"
    using run
    by (cases s)
      (auto simp: run_section_def enter_shared_def split: prod.splits bool.splits
        dest!: set_remove1_subset [THEN subsetD] intro: rev_image_eqI)
  then have sub: "thread_owners t \<subseteq> thread_owners (ts ! i)"
    using own leases section_keeps_ok [OF ok todo run] unfolding thread_owners_def [of t] by blast
  have kept: "lease_inv self' (ts[i := t])" if "self' = self \<and> th_leases t = th_leases (ts ! i)"
    using that lease_kept [OF inv i _ sub] by simp
  show ?thesis
  proof (cases s)
    case (Take_Lease owner a)
    have "snd (try_account_pnl_lease self a owner)" "self' = fst (try_account_pnl_lease self a owner)"
      "th_leases t = (owner, a) # th_leases (ts ! i)"
      using run Take_Lease by (auto simp: run_section_def split: prod.splits bool.splits)
    moreover have "set (th_leases (ts ! i)) \<subseteq> {(owner, a)}" using ok todo Take_Lease by (simp add: call_ok_def)
    ultimately show ?thesis using lease_taken [OF inv i _ _ _ _ sub, of a owner] own(1) Take_Lease by simp
  next
    case (Drop_Lease owner a)
    then show ?thesis
      using lease_dropped [OF inv i _ _ sub, of owner a] run ok todo by (auto simp: run_section_def call_ok_def)
  qed (rule kept, use run in \<open>force simp: run_section_def enter_shared_def\<close>)+
qed

lemma call_step_inv:
  assumes "call_step s s'" and "call_inv s"
  shows "call_inv s'"
  using assms(1)
proof cases
  case (call_stepI i ts sect rest c self c' self' t)
  have ok: "call_ok (ts ! i)" using assms(2) call_stepI by (simp add: call_inv_def)
  show ?thesis
    using assms(2) section_keeps_ok [OF ok call_stepI(4,5)]
      section_keeps_access [OF _ call_stepI(3,4) ok call_stepI(5)]
      section_keeps_leases [OF _ call_stepI(3,4) ok call_stepI(5)]
    unfolding call_stepI(1,2) call_inv_def by (auto dest!: set_update_subset_insert [THEN subsetD])
qed

lemma start_inv: "call_system_start calls self s \<Longrightarrow> call_inv s"
proof -
  assume start: "call_system_start calls self s"
  have leases: "lease_inv self (map call_start calls)"
    using start by (simp add: call_system_start_def lease_inv_def lease_free_iff thread_owners_def call_start_def)
  have access: "access_inv (coordinator_new True) (map call_start calls)"
    using start
    by (simp add: call_system_start_def access_inv_def coordinator_new_def guards_held_def queue_length_def
        filter_map comp_def call_start_def)
  show ?thesis
    using start leases access engine_call_ok by (auto simp: call_system_start_def call_inv_def list_all_iff)
qed

lemma reachable_inv: "call_step\<^sup>*\<^sup>* s s' \<Longrightarrow> call_inv s \<Longrightarrow> call_inv s'"
  by (induction rule: rtranclp_induct) (auto intro: call_step_inv)

section \<open>Nobody waits forever\<close>

definition runnable :: "state_transition_coordinator \<Rightarrow> spot_funds \<Rightarrow> call_thread \<Rightarrow> bool" where
  "runnable c self t \<longleftrightarrow>
     (case th_todo t of
        [] \<Rightarrow> False | s # rest \<Rightarrow> run_section s c self (t\<lparr>th_todo := rest\<rparr>) \<noteq> None)"

lemma runnable_step:
  assumes "t \<in> set ts" and "runnable c self t"
  shows "\<exists>s'. call_step (c, self, ts) s'"
proof -
  obtain i where i: "i < length ts" "ts ! i = t" using assms(1) by (auto simp: in_set_conv_nth)
  obtain s rest where todo: "th_todo t = s # rest" using assms(2) by (cases "th_todo t") (auto simp: runnable_def)
  then obtain out where "run_section s c self (t\<lparr>th_todo := rest\<rparr>) = Some out"
    using assms(2) by (auto simp: runnable_def)
  then show ?thesis using call_stepI [of i ts s rest c self] i todo by (cases out) auto
qed

text \<open>The sections that never wait, and when the others do not.\<close>

lemma take_runnable:
  assumes "th_todo t = Take_Lease owner a # rest" and "\<forall>x. lease_of self a = Some x \<longrightarrow> fst x = owner"
  shows "runnable c self t"
proof -
  have "snd (try_account_pnl_lease self a owner)" using assms(2) by (simp add: try_lease_taken)
  then show ?thesis using assms(1) by (auto simp: runnable_def run_section_def split: prod.split)
qed

lemma runnable_sections:
  assumes "stc_serialized c" and "sta_readers (stc_access c) < USIZE_MAX" and "th_todo t = s # rest"
  shows "s \<in> {Leave_Shared, Queue_Exclusive, Leave_Exclusive, Drop_Lease owner a} \<Longrightarrow> runnable c self t"
    and "\<not> sta_writer (stc_access c) \<Longrightarrow> s = Enter_Rollback \<Longrightarrow> runnable c self t"
    and "\<not> sta_writer (stc_access c) \<Longrightarrow> s = Enter_Element owner a \<Longrightarrow>
      sta_waiting_writers (stc_access c) = 0 \<or> owns_pnl_lease self a owner \<Longrightarrow> runnable c self t"
    and "\<not> sta_writer (stc_access c) \<Longrightarrow> s = Enter_Shared \<Longrightarrow> sta_waiting_writers (stc_access c) = 0 \<Longrightarrow>
      runnable c self t"
    and "\<not> sta_writer (stc_access c) \<Longrightarrow> s = Enter_Exclusive \<Longrightarrow> sta_readers (stc_access c) = 0 \<Longrightarrow>
      runnable c self t"
  using assms
  by (auto simp: runnable_def run_section_def enter_shared_def on_access_def try_acquire_shared_def
      try_acquire_exclusive_def)

lemma busy_todo: "call_ok t \<Longrightarrow> th_guard t \<noteq> None \<or> th_queued t \<or> th_leases t \<noteq> [] \<Longrightarrow> \<exists>s rest. th_todo t = s # rest"
  by (cases "th_todo t") (auto simp: call_ok_def)

lemma exclusive_runnable:
  assumes "stc_serialized c" "sta_readers (stc_access c) < USIZE_MAX" "call_ok t"
    and "th_guard t = Some AccessExclusive"
  shows "runnable c self t"
proof -
  obtain s rest where todo: "th_todo t = s # rest" using busy_todo assms(3,4) by blast
  then have "s = Leave_Exclusive" using assms(3,4) by (cases s) (auto simp: call_ok_def)
  then show ?thesis using runnable_sections(1) [OF assms(1,2) todo] by simp
qed

lemma lease_owner_runnable:
  assumes "stc_serialized c" "sta_readers (stc_access c) < USIZE_MAX" "\<not> sta_writer (stc_access c)"
    and "call_ok t" "th_leases t \<noteq> []"
    and own: "\<And>x. x \<in> set (th_leases t) \<Longrightarrow> \<exists>d. lease_of self (snd x) = Some (fst x, d)"
  shows "runnable c self t"
proof -
  obtain s rest where todo: "th_todo t = s # rest" using busy_todo assms(4,5) by blast
  obtain x where x: "x \<in> set (th_leases t)" using assms(5) by (cases "th_leases t") auto
  note go = runnable_sections [OF assms(1,2) todo]
  have ok: "sections_ok (th_guard t) (th_queued t) (th_leases t) (s # rest)"
    using assms(4) todo by (simp add: call_ok_def)
  show ?thesis
  proof (cases s)
    case (Enter_Element owner a)
    then have "x = (owner, a)" using ok x by auto
    then show ?thesis using go(3) [OF assms(3) Enter_Element] own [OF x] by (auto simp: owns_pnl_lease_iff)
  next
    case (Take_Lease owner a)
    then have "x = (owner, a)" using ok x by auto
    then show ?thesis using take_runnable todo Take_Lease own [OF x] by auto
  qed (use ok assms(3,5) go(1,2) in auto)
qed

text \<open>
  The order of waiting: a transition waits for shared sections, a shared section for the owner of a
  lease, and that owner for nobody.
\<close>

lemma call_progress:
  assumes inv: "call_inv (c, self, ts)" and stuck: "\<And>t. t \<in> set ts \<Longrightarrow> \<not> runnable c self t"
    and t: "t \<in> set ts"
  shows "call_done t"
proof -
  have acc: "access_inv c ts" and leases: "lease_inv self ts" and ok: "\<And>t. t \<in> set ts \<Longrightarrow> call_ok t"
    using inv by (simp_all add: call_inv_def)
  have ser: "stc_serialized c" and room: "sta_readers (stc_access c) < USIZE_MAX"
    using acc shared_short [of AccessShared ts] by (auto simp: access_inv_def)
  have "filter (\<lambda>t. th_guard t = Some AccessExclusive) ts = []"
    using exclusive_runnable [OF ser room ok] stuck by (auto simp: filter_empty_conv)
  then have writer: "\<not> sta_writer (stc_access c)"
    using acc by (auto simp: access_inv_def guards_held_def split: if_splits)
  have free: "lease_of self a = None" for a
  proof (rule ccontr)
    assume "lease_of self a \<noteq> None"
    then obtain i x where i: "i < length ts" "x \<in> set (th_leases (ts ! i))"
      using lease_holder [OF leases] by fastforce
    have mem: "ts ! i \<in> set ts" "th_leases (ts ! i) \<noteq> []" using i by auto
    have "runnable c self (ts ! i)"
      by (rule lease_owner_runnable [OF ser room writer ok [OF mem(1)] mem(2)])
        (use owned_lease [OF leases i(1)] in blast)
    then show False using stuck mem(1) by simp
  qed
  have quiet: "th_guard u \<noteq> Some AccessShared" if u: "u \<in> set ts" for u
  proof
    assume shared: "th_guard u = Some AccessShared"
    obtain s rest where todo: "th_todo u = s # rest" using busy_todo [OF ok [OF u]] shared by blast
    show False
      using ok [OF u] shared todo stuck [OF u] runnable_sections(1) [OF ser room todo]
        take_runnable free
      by (cases s) (auto simp: call_ok_def)
  qed
  then have readers: "sta_readers (stc_access c) = 0"
    using acc by (simp add: access_inv_def guards_held_def filter_empty_conv)
  have unqueued: "\<not> th_queued u" if u: "u \<in> set ts" for u
  proof
    assume queued: "th_queued u"
    obtain s rest where todo: "th_todo u = s # rest" using busy_todo [OF ok [OF u]] queued by blast
    show False
      using ok [OF u] queued todo stuck [OF u] runnable_sections(5) [OF ser room todo writer _ readers]
      by (cases s) (auto simp: call_ok_def)
  qed
  then have "sta_waiting_writers (stc_access c) = 0"
    using acc by (simp add: access_inv_def queue_length_def filter_empty_conv)
  then have "runnable c self t" if "th_todo t = s # rest" for s rest
    using runnable_sections [OF ser room that] take_runnable that writer readers free by (cases s) auto
  then show ?thesis using stuck [OF t] by (cases "th_todo t") (auto simp: call_done_def)
qed

definition sections_left :: "call_system \<Rightarrow> nat" where
  "sections_left s = sum_list (map (\<lambda>t. length (th_todo t)) (snd (snd s)))"

lemma step_consumes:
  assumes "call_step s s'" and "call_inv s"
  shows "sections_left s = Suc (sections_left s')"
  using assms(1)
proof cases
  case (call_stepI i ts sect rest c self c' self' t)
  have "call_ok (ts ! i)" using assms(2) call_stepI by (simp add: call_inv_def)
  then have "th_todo t = rest" using section_keeps_ok call_stepI(4,5) by blast
  moreover have "sum_list (map f (ts[i := t])) + f (ts ! i) = sum_list (map f ts) + f t" for f :: "call_thread \<Rightarrow> nat"
    using call_stepI(3)
  proof (induction ts arbitrary: i)
    case (Cons x xs)
    then show ?case using Cons.IH [of "i - 1"] by (cases i) auto
  qed simp
  ultimately show ?thesis
    using call_stepI(4) unfolding call_stepI(1,2) sections_left_def
    by (metis (no_types, lifting) add_Suc_right add_right_imp_eq length_Cons snd_conv add_Suc)
qed

lemma run_consumes:
  "(call_step ^^ n) s s' \<Longrightarrow> call_inv s \<Longrightarrow> n + sections_left s' = sections_left s \<and> call_inv s'"
proof (induction n arbitrary: s')
  case (Suc n)
  then obtain m where m: "(call_step ^^ n) s m" "call_step m s'" by auto
  then have "n + sections_left m = sections_left s \<and> call_inv m" using Suc.IH Suc.prems(2) by blast
  then show ?case using step_consumes [OF m(2)] call_step_inv [OF m(2)] by simp
qed simp

lemma finished_at_rest:
  assumes inv: "call_inv (c, self, ts)" and all_done: "\<And>t. t \<in> set ts \<Longrightarrow> call_done t"
  shows "c = coordinator_new True \<and> (\<forall>account. lease_free self account)"
proof -
  have rest: "th_guard t = None \<and> \<not> th_queued t \<and> th_leases t = []" if "t \<in> set ts" for t
    using inv all_done [OF that] that by (auto simp: call_inv_def call_ok_def call_done_def)
  then have "guards_held kind ts = 0" "queue_length ts = 0" for kind
    by (auto simp: guards_held_def queue_length_def filter_empty_conv)
  then have "c = coordinator_new True"
    using inv by (auto simp: call_inv_def access_inv_def coordinator_new_def intro!: state_transition_coordinator.equality
        state_transition_access.equality split: if_splits)
  moreover have "lease_of self a = None" for a
  proof (rule ccontr)
    assume "lease_of self a \<noteq> None"
    then obtain owner d where "lease_of self a = Some (owner, d)" by auto
    then show False using lease_holder [of self ts a owner d] inv rest nth_mem by (force simp: call_inv_def)
  qed
  ultimately show ?thesis by (simp add: lease_free_iff)
qed

lemma start_sections: "call_system_start calls self s \<Longrightarrow> sections_left s = sum_list (map length calls)"
  by (simp add: call_system_start_def sections_left_def call_start_def comp_def)

text \<open>
  (C12) An engine transition runs alone. However the threads of writers, reports, adjustment batches,
  rollbacks and transitions interleave, while one of them is inside a transition no other is inside a
  transition or a shared section, and the reader count is exactly the number of threads inside a
  shared section.
\<close>

theorem transition_runs_alone:
  assumes "call_system_start calls self s" and "call_step\<^sup>*\<^sup>* s (c, self', ts)"
    and "i < length ts" and "th_guard (ts ! i) = Some AccessExclusive"
  shows "(\<forall>j. j < length ts \<and> j \<noteq> i \<longrightarrow> th_guard (ts ! j) = None) \<and>
    sta_readers (stc_access c) = length (filter (\<lambda>t. th_guard t = Some AccessShared) ts)"
proof -
  have "call_inv (c, self', ts)" using reachable_inv [OF assms(2) start_inv [OF assms(1)]] .
  then have inv: "access_inv c ts" by (simp add: call_inv_def)
  let ?e = "filter (\<lambda>k. th_guard (ts ! k) = Some AccessExclusive) [0..<length ts]"
  have "guards_held AccessExclusive ts = length ?e"
    unfolding guards_held_def by (subst map_nth [symmetric]) (simp add: filter_map comp_def)
  moreover have mem: "i \<in> set ?e" using assms(3,4) by simp
  moreover have "?e \<noteq> []" using mem by (metis list.set_cases list.distinct(1))
  ultimately have one: "sta_writer (stc_access c)" "length ?e = 1"
    using inv by (simp_all only: access_inv_def split: if_splits) (simp_all del: filter_empty_conv)
  have "th_guard (ts ! j) = None" if j: "j < length ts" "j \<noteq> i" for j
  proof (rule ccontr)
    assume "th_guard (ts ! j) \<noteq> None"
    then obtain kind where kind: "th_guard (ts ! j) = Some kind" by auto
    consider "th_guard (ts ! j) = Some AccessShared" | "j \<in> set ?e"
      using j(1) kind by (cases kind) auto
    then show False
    proof cases
      case 1
      then have "ts ! j \<in> set (filter (\<lambda>t. th_guard t = Some AccessShared) ts)" using j(1) by simp
      then have "0 < guards_held AccessShared ts" unfolding guards_held_def by (rule length_pos_if_in_set)
      then show False using inv one(1) by (simp add: access_inv_def)
    next
      case 2
      obtain y where "?e = [y]" using one(2) by (auto simp: length_Suc_conv)
      then have "set ?e = {y}" by simp
      then show False using 2 mem j(2) by (metis singletonD)
    qed
  qed
  then show ?thesis using inv by (simp add: access_inv_def guards_held_def)
qed

text \<open>
  (C11) No interleaving of the engine's calls deadlocks. Writers, reports that take the lease on the
  account P\&L, batches that keep it until they are finalized, rollbacks and transitions run on any
  schedule: as long as a call is unfinished some thread can go on, every step completes a section, and
  after exactly as many steps as the calls have sections all of them are finished, every lease is
  returned and the coordinator is as it was.
\<close>

theorem every_call_finishes:
  assumes "call_system_start calls self s" and "(call_step ^^ n) s (c, self', ts)"
  shows "n \<le> sum_list (map length calls) \<and>
    (if n < sum_list (map length calls) then \<exists>s'. call_step (c, self', ts) s'
     else (\<forall>t \<in> set ts. call_done t) \<and> c = coordinator_new True \<and> (\<forall>account. lease_free self' account))"
proof -
  have left: "n + sections_left (c, self', ts) = sum_list (map length calls)" and inv: "call_inv (c, self', ts)"
    using run_consumes [OF assms(2) start_inv [OF assms(1)]] start_sections [OF assms(1)] by auto
  show ?thesis
  proof (cases "n < sum_list (map length calls)")
    case True
    then have "sections_left (c, self', ts) \<noteq> 0" using left by simp
    then obtain t where "t \<in> set ts" "\<not> call_done t" by (auto simp: sections_left_def call_done_def)
    then have "\<exists>s'. call_step (c, self', ts) s'" using call_progress [OF inv] runnable_step by blast
    then show ?thesis using True by simp
  next
    case False
    then have "sections_left (c, self', ts) = 0" using left by simp
    then have "call_done t" if "t \<in> set ts" for t using that by (simp add: sections_left_def call_done_def)
    then show ?thesis using finished_at_rest [OF inv] False left by auto
  qed
qed

section \<open>Witnesses\<close>

text \<open>
  The three calls that would deadlock without the way past the queue: a batch that owns the lease of
  account 7, a report waiting for it inside its section, and a queued transition.
\<close>

definition contended_calls :: "call_section list list" where
  "contended_calls = [batch_call True 1 7 [True, False], report_call 7 [2], with_exclusive_call]"

definition contended_start :: call_system where
  "contended_start =
     (coordinator_new True, spot_funds_new (projr (spot_settings_new 0 Mark [])) None 3, map call_start contended_calls)"

text \<open>A schedule names the thread of each step.\<close>

fun run_schedule :: "nat list \<Rightarrow> call_system \<Rightarrow> call_system option" where
  "run_schedule [] s = Some s"
| "run_schedule (i # is) (c, self, ts) =
     (if i < length ts
      then (case th_todo (ts ! i) of
              [] \<Rightarrow> None
            | sect # rest \<Rightarrow>
                (case run_section sect c self ((ts ! i)\<lparr>th_todo := rest\<rparr>) of
                   None \<Rightarrow> None
                 | Some (c', self', t) \<Rightarrow> run_schedule is (c', self', ts[i := t])))
      else None)"

lemma run_schedule_steps: "run_schedule is s = Some s' \<Longrightarrow> (call_step ^^ length is) s s'"
proof (induction "is" s rule: run_schedule.induct)
  case (2 i "is" c self ts)
  then obtain sect rest c' self' t where
    "i < length ts" "th_todo (ts ! i) = sect # rest"
    "run_section sect c self ((ts ! i)\<lparr>th_todo := rest\<rparr>) = Some (c', self', t)"
    "run_schedule is (c', self', ts[i := t]) = Some s'"
    by (auto split: if_splits list.splits option.splits)
  note run = this
  have "(call_step ^^ length is) (c', self', ts[i := t]) s'"
    by (rule 2(1)) (use run in auto)
  then show ?case
    using relpowp_Suc_I2 [where P = call_step, OF call_stepI [OF run(1-3)]] by simp
qed simp

lemma contended_start_ok: "call_system_start contended_calls (fst (snd contended_start)) contended_start"
proof -
  have "call_owners (contended_calls ! 0) = {1}" "call_owners (contended_calls ! 1) = {2}"
    "call_owners (contended_calls ! 2) = {}"
    by (simp_all add: contended_calls_def call_owners_def batch_call_def batch_sections report_call_def
        with_shared_call_def with_exclusive_call_def)
  then have owners: "\<forall>i < 3. \<forall>j < 3. i \<noteq> j \<longrightarrow> call_owners (contended_calls ! i) \<inter> call_owners (contended_calls ! j) = {}"
    by (auto simp: less_Suc_eq numeral_3_eq_3 numeral_2_eq_2)
  have "list_all engine_call contended_calls" by (simp add: contended_calls_def engine_call.intros)
  then show ?thesis
    using owners
    by (simp add: call_system_start_def contended_start_def lease_free_def spot_funds_new_def USIZE_MAX_def
        contended_calls_def numeral_3_eq_3)
qed

text \<open>The state in which the report waits for the batch and the transition for the report.\<close>

definition threads_after :: "nat list \<Rightarrow> call_thread list" where
  "threads_after is = snd (snd (the (run_schedule is contended_start)))"

lemmas contended_simps = contended_start_def contended_calls_def call_start_def batch_call_def
  batch_sections report_call_def with_shared_call_def with_exclusive_call_def coordinator_new_def
  spot_funds_new_def run_section_def enter_shared_def access_simps owns_pnl_lease_def
  try_account_pnl_lease_def release_account_pnl_lease_def runnable_def USIZE_MAX_def with_mut_def
  with_mut_slow_def storage_with_def

lemma contended_run:
  "run_schedule [0, 0, 0, 1, 2] contended_start \<noteq> None"
  "case the (run_schedule [0, 0, 0, 1, 2] contended_start) of
     (c, self, ts) \<Rightarrow> \<not> runnable c self (ts ! 1) \<and> \<not> runnable c self (ts ! 2)"
  by (simp_all add: contended_simps)

lemma transition_run:
  "run_schedule [2, 2] contended_start \<noteq> None" "length (threads_after [2, 2]) = 3"
  "th_guard (threads_after [2, 2] ! 2) = Some AccessExclusive"
  by (simp_all add: contended_simps threads_after_def)

theorem transition_runs_alone_witness:
  "\<exists>c self ts. call_step\<^sup>*\<^sup>* contended_start (c, self, ts) \<and> th_guard (ts ! 2) = Some AccessExclusive \<and>
     th_guard (ts ! 0) = None \<and> th_guard (ts ! 1) = None"
proof -
  obtain c self ts where run: "run_schedule [2, 2] contended_start = Some (c, self, ts)"
    using transition_run(1) by auto
  then have reach: "call_step\<^sup>*\<^sup>* contended_start (c, self, ts)"
    by (meson run_schedule_steps relpowp_imp_rtranclp)
  have ts: "length ts = 3" "th_guard (ts ! 2) = Some AccessExclusive"
    using transition_run(2,3) by (simp_all add: threads_after_def run)
  show ?thesis
    using transition_runs_alone [OF contended_start_ok reach, of 2] ts reach
    by (intro exI [of _ c] exI [of _ self] exI [of _ ts]) auto
qed

theorem every_call_finishes_witness:
  "\<exists>c self ts s'. (call_step ^^ 5) contended_start (c, self, ts) \<and>
     \<not> runnable c self (ts ! 1) \<and> \<not> runnable c self (ts ! 2) \<and> call_step (c, self, ts) s'"
proof -
  obtain c self ts where run: "run_schedule [0, 0, 0, 1, 2] contended_start = Some (c, self, ts)"
    using contended_run(1) by auto
  then have steps: "(call_step ^^ 5) contended_start (c, self, ts)"
    using run_schedule_steps [OF run] by (simp add: eval_nat_numeral)
  have "sum_list (map length contended_calls) = 15"
    by (simp add: contended_calls_def batch_call_def batch_sections report_call_def with_shared_call_def
        with_exclusive_call_def)
  then show ?thesis
    using every_call_finishes [OF contended_start_ok steps] contended_run(2) steps run
    by (intro exI [of _ c] exI [of _ self] exI [of _ ts]) auto
qed

end
