(* ===== verification/Spot_Adjustment.thy ===== *)
theory Spot_Adjustment
  imports Spot_Pre_Trade State_Transition
begin

text \<open>
  Account adjustments and retirement in the spot funds policy (\<open>adjustment.rs\<close>,
  \<open>rollback.rs\<close>, \<open>retirement.rs\<close> of \<open>policies/spot_funds\<close>): the correction of a slot
  with its bounds, the assertion of the account P\&L under its lease, the mutations that take both
  back, and the refusals and mutations of retirement. An adjustment is what its accessors return, as
  an order is. A section of the state coordinator is one function; \<open>State_Transition\<close> has the
  interleavings.
\<close>

section \<open>Requests\<close>

record account_adjustment =
  adj_pnl_operation :: "request_field_access_error + pnl_state option"
  adj_balance_asset :: "request_field_access_error + asset"
  adj_balance :: "request_field_access_error + adjustment_amount option"
  adj_average_entry_price :: "request_field_access_error + price option"
  adj_realized_pnl :: "request_field_access_error + pnl_state option"
  adj_balance_lower :: "request_field_access_error + position_size option"
  adj_balance_upper :: "request_field_access_error + position_size option"
  adj_held :: "request_field_access_error + adjustment_amount option"
  adj_held_lower :: "request_field_access_error + position_size option"
  adj_held_upper :: "request_field_access_error + position_size option"
  adj_incoming :: "request_field_access_error + adjustment_amount option"
  adj_incoming_lower :: "request_field_access_error + position_size option"
  adj_incoming_upper :: "request_field_access_error + position_size option"

record adjustment_request_view =
  arv_asset :: asset
  arv_balance :: "adjustment_amount option"
  arv_average_entry_price :: "price option"
  arv_realized_pnl :: "pnl_state option"
  arv_balance_lower :: "position_size option"
  arv_balance_upper :: "position_size option"
  arv_held :: "adjustment_amount option"
  arv_held_lower :: "position_size option"
  arv_held_upper :: "position_size option"
  arv_incoming :: "adjustment_amount option"
  arv_incoming_lower :: "position_size option"
  arv_incoming_upper :: "position_size option"

definition read_adjustment_request :: "account_adjustment \<Rightarrow> rejects + adjustment_request_view" where
  "read_adjustment_request adjustment =
     bind_res (map_err (\<lambda>e. rejects_new
         [missing_required_field_account_adjustment_reject SPOT_FUNDS_POLICY_NAME ''balance asset'' e])
         (adj_balance_asset adjustment)) (\<lambda>asset.
     bind_res (adj_field ''balance'' (adj_balance adjustment)) (\<lambda>bal.
     bind_res (adj_field ''balance average entry price'' (adj_average_entry_price adjustment)) (\<lambda>average.
     bind_res (adj_field ''balance realized pnl'' (adj_realized_pnl adjustment)) (\<lambda>realized.
     bind_res (adj_field ''balance lower bound'' (adj_balance_lower adjustment)) (\<lambda>balance_lower.
     bind_res (adj_field ''balance upper bound'' (adj_balance_upper adjustment)) (\<lambda>balance_upper.
     bind_res (adj_field ''held'' (adj_held adjustment)) (\<lambda>hld.
     bind_res (adj_field ''held lower bound'' (adj_held_lower adjustment)) (\<lambda>held_lower.
     bind_res (adj_field ''held upper bound'' (adj_held_upper adjustment)) (\<lambda>held_upper.
     bind_res (adj_field ''incoming'' (adj_incoming adjustment)) (\<lambda>inc.
     bind_res (adj_field ''incoming lower bound'' (adj_incoming_lower adjustment)) (\<lambda>incoming_lower.
     bind_res (adj_field ''incoming upper bound'' (adj_incoming_upper adjustment)) (\<lambda>incoming_upper.
       Inr \<lparr>arv_asset = asset, arv_balance = bal, arv_average_entry_price = average,
            arv_realized_pnl = realized, arv_balance_lower = balance_lower, arv_balance_upper = balance_upper,
            arv_held = hld, arv_held_lower = held_lower, arv_held_upper = held_upper, arv_incoming = inc,
            arv_incoming_lower = incoming_lower, arv_incoming_upper = incoming_upper\<rparr>))))))))))))"

section \<open>The slot\<close>

record avg_restore =
  avr_previous :: "price option"

record pnl_restore =
  pnr_previous :: "position_pnl_state option"

record adjustment_rollback =
  arb_available_delta :: position_size
  arb_held_delta :: position_size
  arb_incoming_delta :: position_size
  arb_asserted :: holdings
  arb_prior_avg :: "avg_restore option"
  arb_prior_realized :: "pnl_restore option"

record adjustment_slot_update =
  asu_new :: holdings
  asu_rollback :: adjustment_rollback

definition adjustment_overflow :: "text_pieces \<Rightarrow> rejects" where
  "adjustment_overflow details =
     rejects_new [arithmetic_overflow_reject SPOT_FUNDS_POLICY_NAME ScopeAccount details]"

text \<open>One of the three quantities: the adjustment, then its bounds.\<close>

definition adjust_quantity ::
  "dec_ops \<Rightarrow> asset \<Rightarrow> string \<Rightarrow> adjustment_target \<Rightarrow> (holdings \<Rightarrow> position_size) \<Rightarrow> adjustment_amount option \<Rightarrow>
   position_size option \<Rightarrow> position_size option \<Rightarrow> holdings \<Rightarrow> rejects + holdings" where
  "adjust_quantity D asset field target read amount_opt lower upper new =
     (case amount_opt of
        None \<Rightarrow> Inr new
      | Some amount \<Rightarrow>
          bind_res (map_err (\<lambda>_. adjustment_overflow
              ([Lit ''account adjustment overflow: asset '', Lit asset, Lit '', field '', Lit field,
                Lit '', current '', Num (read new), Lit '', applied ''] @ adjustment_amount_text amount))
              (apply_adjustment D new target amount)) (\<lambda>new.
            if within_bounds (read new) lower upper then Inr new
            else Inl (rejects_new [account_adjustment_bounds_exceeded_reject SPOT_FUNDS_POLICY_NAME asset
              field (read new) lower upper])))"

definition adjust_quantities ::
  "dec_ops \<Rightarrow> adjustment_request_view \<Rightarrow> holdings \<Rightarrow> rejects + holdings" where
  "adjust_quantities D request current =
     bind_res (adjust_quantity D (arv_asset request) ''balance'' AvailableField available
         (arv_balance request) (arv_balance_lower request) (arv_balance_upper request) current) (\<lambda>new.
     bind_res (adjust_quantity D (arv_asset request) ''held'' HeldField held
         (arv_held request) (arv_held_lower request) (arv_held_upper request) new) (\<lambda>new.
       adjust_quantity D (arv_asset request) ''incoming'' IncomingField incoming
         (arv_incoming request) (arv_incoming_lower request) (arv_incoming_upper request) new))"

definition adjust_position :: "adjustment_request_view \<Rightarrow> holdings \<Rightarrow> holdings" where
  "adjust_position request new =
     (let new = (case arv_average_entry_price request of
            Some average \<Rightarrow> with_avg_entry_price new (Some average) | None \<Rightarrow> new)
      in case arv_realized_pnl request of
           Some (PnlState_Value v) \<Rightarrow> force_set_realized_pnl_state new (PnlValue v)
         | Some (PnlState_Halted reason) \<Rightarrow> force_set_realized_pnl_state new (PnlHalted reason)
         | None \<Rightarrow> new)"

definition halt_clears_average :: "adjustment_request_view \<Rightarrow> bool" where
  "halt_clears_average request \<longleftrightarrow>
     (case arv_realized_pnl request of Some (PnlState_Halted _) \<Rightarrow> True | _ \<Rightarrow> False)"

definition clear_avg_on_flat ::
  "dec_ops \<Rightarrow> adjustment_request_view \<Rightarrow> holdings \<Rightarrow> holdings \<Rightarrow> rejects + bool" where
  "clear_avg_on_flat D request current new =
     (if arv_average_entry_price request \<noteq> None \<or> halt_clears_average request \<or>
         ((arv_balance request \<noteq> None \<or> arv_held request \<noteq> None) \<and> avg_entry_price current \<noteq> None)
      then map_res is_zero
             (ps_add D (adjustment_overflow
                [Lit ''account adjustment net-position overflow: asset '', Lit (arv_asset request)])
               (available new) (held new))
      else Inr False)"

definition adjustment_delta ::
  "dec_ops \<Rightarrow> asset \<Rightarrow> string \<Rightarrow> position_size \<Rightarrow> position_size \<Rightarrow> rejects + position_size" where
  "adjustment_delta D asset field new current =
     ps_sub D (adjustment_overflow
         [Lit ''account adjustment delta overflow: asset '', Lit asset, Lit '', field '', Lit field])
       new current"

definition adjust_slot ::
  "dec_ops \<Rightarrow> adjustment_request_view \<Rightarrow> holdings \<Rightarrow> rejects + adjustment_slot_update" where
  "adjust_slot D request current =
     bind_res (adjust_quantities D request current) (\<lambda>moved.
     bind_res (clear_avg_on_flat D request current (adjust_position request moved)) (\<lambda>flat.
       let new = (if flat then with_avg_entry_price (adjust_position request moved) None
                  else adjust_position request moved);
           restore_avg = (arv_average_entry_price request \<noteq> None \<or> halt_clears_average request \<or>
             (flat \<and> avg_entry_price current \<noteq> None))
       in bind_res (adjustment_delta D (arv_asset request) ''balance'' (available new) (available current))
            (\<lambda>available_delta.
          bind_res (adjustment_delta D (arv_asset request) ''held'' (held new) (held current)) (\<lambda>held_delta.
          bind_res (adjustment_delta D (arv_asset request) ''incoming'' (incoming new) (incoming current))
            (\<lambda>incoming_delta.
            Inr \<lparr>asu_new = new,
                 asu_rollback =
                   \<lparr>arb_available_delta = available_delta, arb_held_delta = held_delta,
                    arb_incoming_delta = incoming_delta, arb_asserted = new,
                    arb_prior_avg =
                      (if restore_avg then Some \<lparr>avr_previous = avg_entry_price current\<rparr> else None),
                    arb_prior_realized = map_option
                      (\<lambda>_. \<lparr>pnr_previous = realized_pnl_field current\<rparr>) (arv_realized_pnl request)\<rparr>\<rparr>)))))"

text \<open>The absolute fields come back only while the whole asserted slot is still there.\<close>

definition restore_adjusted_snapshots ::
  "holdings \<Rightarrow> holdings \<Rightarrow> holdings \<Rightarrow> avg_restore option \<Rightarrow> pnl_restore option \<Rightarrow> holdings" where
  "restore_adjusted_snapshots current_before_rollback asserted rolled_back prior_avg prior_realized =
     (if current_before_rollback \<noteq> asserted then rolled_back
      else let restored = (case prior_avg of
                 Some r \<Rightarrow> with_avg_entry_price rolled_back (avr_previous r) | None \<Rightarrow> rolled_back)
           in case prior_realized of
                Some r \<Rightarrow> with_realized_pnl_state restored (pnr_previous r) | None \<Rightarrow> restored)"

definition undo_adjustment ::
  "dec_ops \<Rightarrow> adjustment_rollback \<Rightarrow> holdings \<Rightarrow> adjustment_overflow_error + holdings" where
  "undo_adjustment D rb slot =
     map_res (\<lambda>rolled_back. restore_adjusted_snapshots slot (arb_asserted rb) rolled_back
         (arb_prior_avg rb) (arb_prior_realized rb))
       (apply_delta_rollback D slot (arb_available_delta rb) (arb_held_delta rb) (arb_incoming_delta rb))"

definition adjustment_rollback_run ::
  "dec_ops \<Rightarrow> slot_key \<Rightarrow> adjustment_rollback \<Rightarrow> spot_funds engine \<Rightarrow> spot_funds engine" where
  "adjustment_rollback_run D key rb =
     rollback_slot (fst key) key (undo_adjustment D rb)
       (\<lambda>slot. [Lit ''adjustment rollback overflow: asset '', Lit (snd key),
          Lit '', available_delta '', Num (arb_available_delta rb), Lit '', held_delta '',
          Num (arb_held_delta rb), Lit '', incoming_delta '', Num (arb_incoming_delta rb),
          Lit '', slot ''] @ holdings_debug slot)"

definition register_adjustment_rollback ::
  "dec_ops \<Rightarrow> slot_key \<Rightarrow> adjustment_rollback \<Rightarrow> spot_funds engine mutations \<Rightarrow>
   spot_funds engine mutations" where
  "register_adjustment_rollback D key rb ms =
     mutations_push ms
       (new_engine_owned_with_guard (\<lambda>e. e) (adjustment_rollback_run D key rb) (drop_active_mutation (fst key)))"

section \<open>Adjusting the holdings\<close>

text \<open>What is reported: the applied changes, the realized P\&L against the value before, the average.\<close>

definition realized_outcome ::
  "dec_ops \<Rightarrow> adjustment_request_view \<Rightarrow> adjustment_rollback \<Rightarrow> rejects + pnl_outcome option" where
  "realized_outcome D request rb =
     (case arv_realized_pnl request of
        Some (PnlState_Value absolute) \<Rightarrow>
          map_res (\<lambda>delta. Some (Inr \<lparr>poa_delta = delta, poa_absolute = absolute\<rparr>))
            (case Option.bind (arb_prior_realized rb) pnr_previous of
               Some (PnlValue previous) \<Rightarrow>
                 map_err (\<lambda>_. adjustment_overflow
                    [Lit ''account adjustment delta overflow: asset '', Lit (arv_asset request),
                     Lit '', field realized pnl''])
                   (sg_checked_sub D PK_Pnl absolute previous)
             | _ \<Rightarrow> Inr absolute)
      | Some (PnlState_Halted reason) \<Rightarrow> Inr (Some (Inl reason))
      | None \<Rightarrow> Inr None)"

definition adjustment_entry ::
  "adjustment_request_view \<Rightarrow> adjustment_slot_update \<Rightarrow> pnl_outcome option \<Rightarrow> account_outcome_entry" where
  "adjustment_entry request upd realized =
     (let new = asu_new upd; rb = asu_rollback upd
      in \<lparr>aoe_asset = arv_asset request,
          aoe_balance = map_option (\<lambda>_. \<lparr>oa_delta = arb_available_delta rb, oa_absolute = available new\<rparr>)
            (arv_balance request),
          aoe_held = map_option (\<lambda>_. \<lparr>oa_delta = arb_held_delta rb, oa_absolute = held new\<rparr>)
            (arv_held request),
          aoe_incoming = map_option (\<lambda>_. \<lparr>oa_delta = arb_incoming_delta rb, oa_absolute = incoming new\<rparr>)
            (arv_incoming request),
          aoe_realized_pnl = realized,
          aoe_average_entry_price =
            (if arv_balance request \<noteq> None \<or> arv_average_entry_price request \<noteq> None \<or>
                arv_realized_pnl request \<noteq> None
             then avg_entry_price new else None)\<rparr>)"

definition adjustment_slot_mutator ::
  "dec_ops \<Rightarrow> adjustment_request_view \<Rightarrow> holdings \<Rightarrow> bool \<Rightarrow> holdings \<times> (rejects + adjustment_slot_update)" where
  "adjustment_slot_mutator D request slot is_new =
     (case adjust_slot D request slot of
        Inr upd \<Rightarrow> (asu_new upd, Inr upd)
      | Inl rejects \<Rightarrow> (slot, Inl rejects))"

definition apply_holdings_adjustment ::
  "dec_ops \<Rightarrow> account_id \<Rightarrow> adjustment_request_view \<Rightarrow> spot_funds engine \<Rightarrow> spot_funds engine mutations \<Rightarrow>
   spot_funds engine \<times> spot_funds engine mutations \<times> (rejects + policy_account_adjustment_result)" where
  "apply_holdings_adjustment D account request e ms =
     (let self = begin_holdings_mutation (eng_policy_state e) account;
          key = (account, arv_asset request)
      in case store_with_mut_or_insert (sf_holdings self) key holdings_zero
                (adjustment_slot_mutator D request) of
           (store, Inl rejects) \<Rightarrow>
             (put_spot (end_holdings_mutation (self\<lparr>sf_holdings := store\<rparr>) account) e, ms, Inl rejects)
         | (store, Inr upd) \<Rightarrow>
             (put_spot (self\<lparr>sf_holdings := if holdings_is_zero (asu_new upd)
                  then fst (store_remove_if_zero store key) else store\<rparr>) e,
              register_adjustment_rollback D key (asu_rollback upd) ms,
              map_res (\<lambda>realized. \<lparr>aar_account_adjustments = [adjustment_entry request upd realized],
                  aar_account_blocks = []\<rparr>)
                (realized_outcome D request (asu_rollback upd))))"

section \<open>Asserting the account P\&L\<close>

definition effective_currency :: "spot_funds engine \<Rightarrow> account_id \<Rightarrow> asset option" where
  "effective_currency e account =
     currency_of (eng_account_currencies e) account (group_of (eng_groups e) account)"

definition effective_barrier :: "spot_funds engine \<Rightarrow> account_id \<Rightarrow> spot_pnl_barrier option" where
  "effective_barrier e account =
     pnl_barrier_for (sf_settings (eng_policy_state e)) account (group_of (eng_groups e) account)
       (effective_currency e account)"

definition commit_pnl_assertion :: "account_id \<Rightarrow> u64 \<Rightarrow> spot_funds engine \<Rightarrow> spot_funds engine" where
  "commit_pnl_assertion account token e =
     (let self = eng_policy_state e
      in put_spot (self\<lparr>sf_pnl := fst (with_mut_if_present (sf_pnl self) account
           (\<lambda>entry. (if ape_assertion_token entry = Some token
                     then entry\<lparr>ape_assertion_token := None\<rparr> else entry, ())))\<rparr>) e)"

text \<open>The state a rejected assertion leaves: the deltas since it, on top of what was there before.\<close>

definition unassert_pnl :: "dec_ops \<Rightarrow> pnl_state \<Rightarrow> pnl_state \<Rightarrow> pnl_state \<Rightarrow> pnl_state" where
  "unassert_pnl D previous asserted current =
     (case (previous, asserted, current) of
        (PnlState_Value previous_value, PnlState_Value asserted_value, PnlState_Value current_value) \<Rightarrow>
          (case bind_res (sg_checked_sub D PK_Pnl current_value asserted_value)
                  (\<lambda>delta. sg_checked_add D PK_Pnl delta previous_value) of
             Inr v \<Rightarrow> PnlState_Value v
           | Inl _ \<Rightarrow> PnlState_Halted PnlArithmeticOverflow)
      | _ \<Rightarrow> previous)"

definition rollback_pnl_entry ::
  "dec_ops \<Rightarrow> account_pnl_entry \<Rightarrow> pnl_state \<Rightarrow> u64 \<Rightarrow> account_pnl_entry \<Rightarrow> account_pnl_entry" where
  "rollback_pnl_entry D previous asserted token entry =
     (if ape_assertion_token entry \<noteq> Some token then entry
      else \<lparr>ape_state = unassert_pnl D (ape_state previous) asserted (ape_state entry),
            ape_assertion_token = ape_assertion_token previous\<rparr>)"

text \<open>The restored entry against the barrier in force now.\<close>

definition judge_account_pnl :: "account_id \<Rightarrow> account_pnl_entry \<Rightarrow> spot_funds engine \<Rightarrow> spot_funds engine" where
  "judge_account_pnl account final e =
     (case Option.bind (effective_barrier e account) (\<lambda>barrier.
             account_pnl_block_for_state (effective_currency e account) (ape_state final) barrier
               (ape_assertion_token final)) of
        Some b \<Rightarrow> e\<lparr>eng_blocked := fst (block_account (eng_blocked e) account b)\<rparr>
      | None \<Rightarrow> e)"

definition rollback_pnl_assertion ::
  "dec_ops \<Rightarrow> account_id \<Rightarrow> account_pnl_entry \<Rightarrow> pnl_state \<Rightarrow> u64 \<Rightarrow> spot_funds engine \<Rightarrow>
   spot_funds engine \<times> mutation_failure" where
  "rollback_pnl_assertion D account previous asserted token e =
     (case with_mut (sf_pnl (eng_policy_state e)) account account_pnl_entry_zero
             (\<lambda>entry _. (rollback_pnl_entry D previous asserted token entry,
                         rollback_pnl_entry D previous asserted token entry)) of
        (pnl, final) \<Rightarrow>
          (judge_account_pnl account final
             (put_spot ((eng_policy_state e)\<lparr>sf_pnl := pnl\<rparr>)
                (e\<lparr>eng_blocked := fst (invalidate_provenance (eng_blocked e) account token)\<rparr>)),
           failure_default))"

definition drop_pnl_lease :: "account_id \<Rightarrow> u64 \<Rightarrow> spot_funds engine \<Rightarrow> spot_funds engine" where
  "drop_pnl_lease account owner e = put_spot (release_account_pnl_lease (eng_policy_state e) account owner) e"

definition register_account_pnl_adjustment_rollback ::
  "dec_ops \<Rightarrow> account_id \<Rightarrow> account_pnl_entry \<Rightarrow> pnl_state \<Rightarrow> u64 \<Rightarrow> spot_funds engine mutations \<Rightarrow>
   spot_funds engine mutations" where
  "register_account_pnl_adjustment_rollback D account previous asserted token ms =
     mutations_push ms
       (new_reporting_with_guard (\<lambda>e. (commit_pnl_assertion account token e, True))
          (rollback_pnl_assertion D account previous asserted token) (drop_pnl_lease account (owner_id ms)))"

definition apply_account_pnl_adjustment ::
  "dec_ops \<Rightarrow> instant \<Rightarrow> account_id \<Rightarrow> pnl_state \<Rightarrow> spot_funds engine \<Rightarrow> spot_funds engine mutations \<Rightarrow>
   spot_funds engine \<times> spot_funds engine mutations \<times> (rejects + policy_account_adjustment_result)" where
  "apply_account_pnl_adjustment D now account state e ms =
     (let self = acquire_account_pnl_lease (eng_policy_state e) account (owner_id ms);
          (token, self) = fresh_owner_id self;
          (pnl, previous) = with_mut (sf_pnl self) account account_pnl_entry_zero
            (\<lambda>entry _. (\<lparr>ape_state = state, ape_assertion_token = Some token\<rparr>, entry));
          self = self\<lparr>sf_pnl := pnl\<rparr>;
          e = put_spot self e;
          account_group = group_of (eng_groups e) account;
          block = (case Option.bind (effective_barrier e account) (\<lambda>barrier.
                      account_pnl_block_for_state (effective_currency e account) state barrier None) of
                     Some b \<Rightarrow> Some b
                   | None \<Rightarrow> pnl_axis_block D now self (sf_settings self) account account_group
                       (effective_currency e account) False)
      in (e, register_account_pnl_adjustment_rollback D account previous state token ms,
          Inr \<lparr>aar_account_adjustments = [],
               aar_account_blocks = (case block of Some b \<Rightarrow> [b] | None \<Rightarrow> [])\<rparr>))"

definition apply_account_adjustment_impl ::
  "dec_ops \<Rightarrow> instant \<Rightarrow> account_id \<Rightarrow> account_adjustment \<Rightarrow> spot_funds engine \<Rightarrow> spot_funds engine mutations \<Rightarrow>
   spot_funds engine \<times> spot_funds engine mutations \<times> (rejects + policy_account_adjustment_result)" where
  "apply_account_adjustment_impl D now account adjustment e ms =
     (case adj_field ''account pnl operation'' (adj_pnl_operation adjustment) of
        Inl rejects \<Rightarrow> (e, ms, Inl rejects)
      | Inr (Some state) \<Rightarrow> apply_account_pnl_adjustment D now account state e ms
      | Inr None \<Rightarrow>
          (case read_adjustment_request adjustment of
             Inl rejects \<Rightarrow> (e, ms, Inl rejects)
           | Inr request \<Rightarrow>
               if arv_balance request = None \<and> arv_average_entry_price request = None \<and>
                  arv_realized_pnl request = None \<and> arv_held request = None \<and> arv_incoming request = None
               then (e, ms, Inr \<lparr>aar_account_adjustments = [], aar_account_blocks = []\<rparr>)
               else apply_holdings_adjustment D account request e ms))"

section \<open>Retirement\<close>

definition retire_holdings_mutation :: "slot_key \<Rightarrow> spot_funds engine mutation" where
  "retire_holdings_mutation key =
     new_reporting
       (\<lambda>e. case store_remove_if (sf_holdings (eng_policy_state e)) key is_retirable of
          (store, removed) \<Rightarrow> (put_spot ((eng_policy_state e)\<lparr>sf_holdings := store\<rparr>) e, removed))
       (\<lambda>e. (e, failure_default))"

definition retire_pnl_mutation :: "account_id \<Rightarrow> spot_funds engine mutation" where
  "retire_pnl_mutation account =
     new_reporting
       (\<lambda>e. case storage_remove_if (sf_pnl (eng_policy_state e)) account
                (\<lambda>entry. ape_state entry = PnlState_Value 0 \<and> ape_assertion_token entry = None) of
          (pnl, removed) \<Rightarrow> (put_spot ((eng_policy_state e)\<lparr>sf_pnl := pnl\<rparr>) e, removed))
       (\<lambda>e. (e, failure_default))"

definition retire_lease_mutation :: "account_id \<Rightarrow> spot_funds engine mutation" where
  "retire_lease_mutation account =
     mutation_new
       (\<lambda>e. put_spot ((eng_policy_state e)\<lparr>sf_leases := fst (storage_remove (sf_leases (eng_policy_state e)) account)\<rparr>) e)
       (\<lambda>e. e)"

definition retire_account_state ::
  "account_id \<Rightarrow> spot_funds engine \<Rightarrow> spot_funds engine mutations \<Rightarrow>
   spot_funds engine \<times> spot_funds engine mutations \<times> (account_retirement_refusal + unit)" where
  "retire_account_state account e ms =
     (let self = eng_policy_state e;
          keys = filter (\<lambda>key. fst key = account) (holdings_keys (sf_holdings self))
      in if (case storage_with (sf_active self) account (\<lambda>n. n) of
               Some n \<Rightarrow> n \<noteq> 0 | None \<Rightarrow> False) \<or>
            (case storage_with (sf_leases self) account (\<lambda>lease. lease) of
               Some (Some _) \<Rightarrow> True | _ \<Rightarrow> False) \<or>
            (case storage_with (sf_pnl self) account ape_assertion_token of Some (Some _) \<Rightarrow> True | _ \<Rightarrow> False)
         then (e, ms, Inl OperationInProgress)
         else if (case storage_with (sf_pnl self) account ape_state of
                    Some state \<Rightarrow> state \<noteq> PnlState_Value 0 | None \<Rightarrow> False)
         then (e, ms, Inl NonZeroState)
         else if list_ex (\<lambda>key. case store_get (sf_holdings self) key of
                    Some h \<Rightarrow> \<not> is_retirable h | None \<Rightarrow> False) keys
         then (e, ms, Inl NonZeroState)
         else if settings_references_account (sf_settings self) account
         then (e, ms, Inl ConfigurationReferencesAccount)
         else let ms = fold (\<lambda>key ms. mutations_push ms (retire_holdings_mutation key)) keys ms;
                  ms = (if storage_with (sf_pnl self) account (\<lambda>_. ()) \<noteq> None
                        then mutations_push ms (retire_pnl_mutation account) else ms)
              in (e, mutations_push ms (retire_lease_mutation account), Inr ()))"

section \<open>Taking a slot back\<close>

lemma adjust_quantity_keeps:
  assumes "adjust_quantity D asset field target read amount lower upper h = Inr new"
  shows "avg_entry_price new = avg_entry_price h" "realized_pnl_field new = realized_pnl_field h"
  using assms
  by (auto simp: adjust_quantity_def apply_adjustment_def Let_def result_simps
      split: option.splits if_splits adjustment_target.splits adjustment_amount.splits)

lemma adjust_quantities_keeps:
  assumes "adjust_quantities D request h = Inr new"
  shows "avg_entry_price new = avg_entry_price h" "realized_pnl_field new = realized_pnl_field h"
proof -
  obtain h1 h2 where
    "adjust_quantity D (arv_asset request) ''balance'' AvailableField available
       (arv_balance request) (arv_balance_lower request) (arv_balance_upper request) h = Inr h1"
    "adjust_quantity D (arv_asset request) ''held'' HeldField held
       (arv_held request) (arv_held_lower request) (arv_held_upper request) h1 = Inr h2"
    "adjust_quantity D (arv_asset request) ''incoming'' IncomingField incoming
       (arv_incoming request) (arv_incoming_lower request) (arv_incoming_upper request) h2 = Inr new"
    using assms by (auto simp: adjust_quantities_def bind_res_eq_Inr)
  then show "avg_entry_price new = avg_entry_price h" "realized_pnl_field new = realized_pnl_field h"
    using adjust_quantity_keeps by metis+
qed

lemma adjust_position_keeps:
  "arv_average_entry_price request = None \<Longrightarrow> \<not> halt_clears_average request \<Longrightarrow>
   avg_entry_price (adjust_position request h) = avg_entry_price h"
  "arv_realized_pnl request = None \<Longrightarrow> realized_pnl_field (adjust_position request h) = realized_pnl_field h"
  by (auto simp: adjust_position_def halt_clears_average_def force_set_realized_pnl_state_def
      with_avg_entry_price_def Let_def split: option.splits pnl_state.splits)

text \<open>
  What an accepted adjustment of a slot records: its deltas, and the snapshots of the fields that are
  overwritten; a field without a snapshot is unchanged.
\<close>

lemma adjust_slot_records:
  assumes "adjust_slot D request h = Inr upd"
  defines "new \<equiv> asu_new upd" and "rb \<equiv> asu_rollback upd"
  shows "arb_asserted rb = new"
    and "dec_checked_sub D (available new) (available h) = Some (arb_available_delta rb)"
    and "dec_checked_sub D (held new) (held h) = Some (arb_held_delta rb)"
    and "dec_checked_sub D (incoming new) (incoming h) = Some (arb_incoming_delta rb)"
    and "case arb_prior_avg rb of Some r \<Rightarrow> avr_previous r = avg_entry_price h
         | None \<Rightarrow> avg_entry_price new = avg_entry_price h"
    and "case arb_prior_realized rb of Some r \<Rightarrow> pnr_previous r = realized_pnl_field h
         | None \<Rightarrow> realized_pnl_field new = realized_pnl_field h"
proof -
  obtain moved flat where moved: "adjust_quantities D request h = Inr moved"
    and flat: "clear_avg_on_flat D request h (adjust_position request moved) = Inr flat"
    using assms(1) by (auto simp: adjust_slot_def bind_res_eq_Inr)
  note keeps = adjust_quantities_keeps [OF moved]
  let ?pos = "adjust_position request moved"
  have new: "new = (if flat then with_avg_entry_price ?pos None else ?pos)"
    using assms(1) moved flat unfolding new_def
    by (auto simp: adjust_slot_def bind_res_eq_Inr Let_def)
  show "arb_asserted rb = new"
    "dec_checked_sub D (available new) (available h) = Some (arb_available_delta rb)"
    "dec_checked_sub D (held new) (held h) = Some (arb_held_delta rb)"
    "dec_checked_sub D (incoming new) (incoming h) = Some (arb_incoming_delta rb)"
    using assms(1) moved flat unfolding new_def rb_def
    by (auto simp: adjust_slot_def bind_res_eq_Inr Let_def adjustment_delta_def ps_sub_def sg_checked_sub_def
        result_simps)
  have avg: "arb_prior_avg rb = (if arv_average_entry_price request \<noteq> None \<or> halt_clears_average request \<or>
      (flat \<and> avg_entry_price h \<noteq> None) then Some \<lparr>avr_previous = avg_entry_price h\<rparr> else None)"
    and real: "arb_prior_realized rb =
      map_option (\<lambda>_. \<lparr>pnr_previous = realized_pnl_field h\<rparr>) (arv_realized_pnl request)"
    using assms(1) moved flat unfolding rb_def
    by (auto simp: adjust_slot_def bind_res_eq_Inr Let_def)
  show "case arb_prior_avg rb of Some r \<Rightarrow> avr_previous r = avg_entry_price h
      | None \<Rightarrow> avg_entry_price new = avg_entry_price h"
    using adjust_position_keeps(1) [of request moved] keeps
    by (auto simp: avg new with_avg_entry_price_def)
  show "case arb_prior_realized rb of Some r \<Rightarrow> pnr_previous r = realized_pnl_field h
      | None \<Rightarrow> realized_pnl_field new = realized_pnl_field h"
    using adjust_position_keeps(2) [of request moved] keeps
    by (cases "arv_realized_pnl request") (auto simp: real new with_avg_entry_price_def)
qed

text \<open>An adjustment whose differences are not rounded.\<close>

definition exact_update :: "holdings \<Rightarrow> holdings \<Rightarrow> bool" where
  "exact_update h new \<longleftrightarrow> exact_slot h \<and> representable (available new - available h) \<and>
     representable (held new - held h) \<and> representable (incoming new - incoming h)"

context decimal_arith
begin

lemma undo_adjusted:
  assumes "adjust_slot D request h = Inr upd" and "exact_update h (asu_new upd)"
  shows "undo_adjustment D (asu_rollback upd) (asu_new upd) = Inr h"
proof -
  let ?new = "asu_new upd" and ?rb = "asu_rollback upd"
  note rec = adjust_slot_records [OF assms(1)]
  have deltas: "arb_available_delta ?rb = available ?new - available h"
    "arb_held_delta ?rb = held ?new - held h" "arb_incoming_delta ?rb = incoming ?new - incoming h"
    using rec(2-4) assms(2) sub_exact by (force simp: exact_update_def)+
  have "apply_delta_rollback D ?new (arb_available_delta ?rb) (arb_held_delta ?rb) (arb_incoming_delta ?rb) =
      Inr (?new\<lparr>available := available h, held := held h, incoming := incoming h\<rparr>)"
    using assms(2)
    by (simp add: apply_delta_rollback_def deltas ps_sub_def sg_checked_sub_def sub_exact exact_update_def
        exact_slot_def result_simps)
  then show ?thesis
    using rec(1,5,6)
    by (auto simp: undo_adjustment_def restore_adjusted_snapshots_def with_avg_entry_price_def
        with_realized_pnl_state_def Let_def result_simps split: option.splits intro!: holdings.equality)
qed

end

section \<open>What a rollback has to restore\<close>

text \<open>
  The balances, the counts of open mutations, the entries of the account P\&L, the leases, and the
  parts of the engine that choose a barrier.
\<close>

definition spot_books where
  "spot_books e =
     (spot_balances e, active_count (eng_policy_state e), account_pnl_entry_of (eng_policy_state e),
      lease_of (eng_policy_state e), sf_settings (eng_policy_state e), eng_groups e, eng_account_currencies e)"

text \<open>The block the effective barrier asks for, given the entry of the account.\<close>

definition pnl_judgement :: "spot_funds engine \<Rightarrow> account_id \<Rightarrow> account_block option" where
  "pnl_judgement e account =
     Option.bind (effective_barrier e account) (\<lambda>barrier.
       account_pnl_block_for_state (effective_currency e account)
         (fst (account_pnl_entry_of (eng_policy_state e) account)) barrier
         (snd (account_pnl_entry_of (eng_policy_state e) account)))"

text \<open>
  The registry as it was, or with a block of the account that its entry is due: a rollback judges the
  state it restores, and the rollback of the assertion behind that state removes the block again.
\<close>

definition blocks_due :: "block_spec \<Rightarrow> account_id \<Rightarrow> spot_funds engine \<Rightarrow> block_spec \<Rightarrow> bool" where
  "blocks_due b0 account e b \<longleftrightarrow>
     b = b0 \<or>
     (spec_accounts b0 account = None \<and>
      (\<exists>block. pnl_judgement e account = Some block \<and>
         b = b0\<lparr>spec_accounts := (spec_accounts b0)(account \<mapsto> block)\<rparr>))"

definition restored_by ::
  "block_spec \<Rightarrow> account_id \<Rightarrow> spot_funds engine mutation list \<Rightarrow> spot_funds engine \<Rightarrow> spot_funds engine \<Rightarrow> bool" where
  "restored_by b0 account new e' e \<longleftrightarrow>
     (\<forall>w f. spot_books w = spot_books e' \<longrightarrow> blocks_due b0 account e' (abs_blocks (eng_blocked w)) \<longrightarrow>
        spot_books (fst (rollback_loop (rev new) w f)) = spot_books e \<and>
        blocks_due b0 account e (abs_blocks (eng_blocked (fst (rollback_loop (rev new) w f)))) \<and>
        snd (rollback_loop (rev new) w f) = f)"

lemma judgement_books:
  "spot_books e' = spot_books e \<Longrightarrow> pnl_judgement e' account = pnl_judgement e account"
  by (simp add: spot_books_def pnl_judgement_def effective_barrier_def effective_currency_def)

lemma blocks_due_refl: "blocks_due b0 account e b0"
  by (simp add: blocks_due_def)

lemma restored_by_run:
  "restored_by b0 account new e' e \<Longrightarrow> blocks_due b0 account e' (abs_blocks (eng_blocked e')) \<Longrightarrow>
   rollback_loop (rev new) e' f = (w, f') \<Longrightarrow>
   spot_books w = spot_books e \<and> blocks_due b0 account e (abs_blocks (eng_blocked w)) \<and> f' = f"
  by (metis restored_by_def fst_conv snd_conv)

lemma restored_by_append:
  "restored_by b0 account n1 e1 e0 \<Longrightarrow> restored_by b0 account n2 e2 e1 \<Longrightarrow>
   restored_by b0 account (n1 @ n2) e2 e0"
  by (simp add: restored_by_def rollback_loop_append)

lemma restored_by_Nil: "spot_books e' = spot_books e \<Longrightarrow> restored_by b0 account [] e' e"
  using judgement_books [of e' e account] by (simp add: restored_by_def blocks_due_def)

lemma insert_store_get:
  "store_get (fst (store_with_mut_or_insert s key init f)) k =
     (if k = key then slot_after (store_get s key) init (\<lambda>_. False) f else store_get s k)"
  using st.lookup_mutate [of "inner s" key init "\<lambda>_. False" f k]
  by (auto simp: store_get_inner store_with_mut_or_insert_def with_mut_or_insert_def case_prod_beta Let_def)

lemma insert_store_result:
  "snd (store_with_mut_or_insert s key init f) = slot_output (store_get s key) init f"
  using st.mutate_output [of "inner s" key init "\<lambda>_. False" f]
  by (auto simp: store_get_inner store_with_mut_or_insert_def with_mut_or_insert_def case_prod_beta Let_def)

lemma adjusted_store:
  "balance_of (fst (store_with_mut_or_insert s key holdings_zero (adjustment_slot_mutator D request))) =
     (case adjust_slot D request (balance_of s key) of
        Inr upd \<Rightarrow> (balance_of s)(key := asu_new upd) | Inl _ \<Rightarrow> balance_of s)"
  "snd (store_with_mut_or_insert s key holdings_zero (adjustment_slot_mutator D request)) =
     adjust_slot D request (balance_of s key)"
  by (auto simp: balance_of_def insert_store_get insert_store_result slot_after_def slot_output_def
      adjustment_slot_mutator_def fun_eq_iff split: option.splits sum.splits)

text \<open>An adjustment of the holdings, by the balances.\<close>

lemma holdings_adjustment_effect:
  assumes "apply_holdings_adjustment D account request e ms = (e', ms', r)"
    and "active_count (eng_policy_state e) account < USIZE_MAX"
  defines "key \<equiv> (account, arv_asset request)"
  shows "eng_blocked e' = eng_blocked e \<and>
    (case adjust_slot D request (spot_balances e key) of
       Inl rejects \<Rightarrow> r = Inl rejects \<and> ms' = ms \<and> spot_books e' = spot_books e
     | Inr upd \<Rightarrow>
         ms' = register_adjustment_rollback D key (asu_rollback upd) ms \<and>
         r = map_res (\<lambda>realized. \<lparr>aar_account_adjustments = [adjustment_entry request upd realized],
               aar_account_blocks = []\<rparr>) (realized_outcome D request (asu_rollback upd)) \<and>
         spot_balances e' = (spot_balances e)(key := asu_new upd) \<and>
         active_count (eng_policy_state e') =
           (active_count (eng_policy_state e))(account := active_count (eng_policy_state e) account + 1) \<and>
         snd (snd (spot_books e')) = snd (snd (spot_books e)))"
proof -
  let ?self = "begin_holdings_mutation (eng_policy_state e) account"
  let ?out = "store_with_mut_or_insert (sf_holdings ?self) key holdings_zero (adjustment_slot_mutator D request)"
  have act: "active_count (?self\<lparr>sf_holdings := h\<rparr>) =
      (active_count (eng_policy_state e))(account := active_count (eng_policy_state e) account + 1)" for h
    using active_count_begin [OF assms(2)] by (simp add: active_count_def fun_eq_iff)
  have frame: "account_pnl_entry_of (?self\<lparr>sf_holdings := h\<rparr>) = account_pnl_entry_of (eng_policy_state e)"
    "lease_of (?self\<lparr>sf_holdings := h\<rparr>) = lease_of (eng_policy_state e)"
    "account_pnl_entry_of (end_holdings_mutation s a) = account_pnl_entry_of s"
    "lease_of (end_holdings_mutation s a) = lease_of s" for h s a
    by (simp_all add: account_pnl_entry_of_def lease_of_def begin_holdings_mutation_def end_holdings_mutation_def
        Let_def fun_eq_iff)
  have bal: "snd ?out = adjust_slot D request (spot_balances e key)"
    "balance_of (fst ?out) = (case adjust_slot D request (spot_balances e key) of
        Inr upd \<Rightarrow> (spot_balances e)(key := asu_new upd) | Inl _ \<Rightarrow> spot_balances e)"
    by (simp_all add: adjusted_store)
  show ?thesis
  proof (cases "adjust_slot D request (spot_balances e key)")
    case (Inl rejects)
    then show ?thesis
      using assms(1) bal act frame unfolding key_def
      by (auto simp: apply_holdings_adjustment_def Let_def case_prod_beta spot_books_def
          active_count_end)
  next
    case (Inr upd)
    then show ?thesis
      using assms(1) bal act frame unfolding key_def
      by (auto simp: apply_holdings_adjustment_def Let_def case_prod_beta spot_books_def)
  qed
qed

lemma rollback_slot_books:
  assumes "undo (spot_balances e key) = Inr h"
  shows "spot_books (rollback_slot account key undo details e) =
      (((spot_balances e)(key := h)), snd (spot_books e))"
proof -
  have frame: "account_pnl_entry_of (eng_policy_state (rollback_slot account key undo details e)) =
      account_pnl_entry_of (eng_policy_state e)"
    "lease_of (eng_policy_state (rollback_slot account key undo details e)) = lease_of (eng_policy_state e)"
    "sf_settings (eng_policy_state (rollback_slot account key undo details e)) = sf_settings (eng_policy_state e)"
    "eng_groups (rollback_slot account key undo details e) = eng_groups e"
    "eng_account_currencies (rollback_slot account key undo details e) = eng_account_currencies e"
    by (auto simp: rollback_slot_def Let_def case_prod_beta account_pnl_entry_of_def lease_of_def put_spot_def
        record_rollback_overflow_def fun_eq_iff split: option.splits)
  show ?thesis
    using rollback_slot_ok [where undo = undo, OF assms] frame
    by (simp add: spot_books_def active_count_def fun_eq_iff)
qed

lemma end_mutation_frame [simp]:
  "sf_pnl (end_holdings_mutation self account) = sf_pnl self"
  "sf_leases (end_holdings_mutation self account) = sf_leases self"
  by (simp_all add: end_holdings_mutation_def Let_def)

lemma drop_active_books:
  "spot_books (drop_active_mutation account e) =
     (spot_balances e,
      (active_count (eng_policy_state e))(account := active_count (eng_policy_state e) account - 1),
      snd (snd (spot_books e)))"
  "eng_blocked (drop_active_mutation account e) = eng_blocked e"
  by (simp_all add: drop_active_mutation_def spot_books_def active_count_end account_pnl_entry_of_def
      lease_of_def fun_eq_iff)

lemmas mutation_simps = new_engine_owned_with_guard_def new_engine_owned_def new_infallible_def
  new_reporting_with_error_def new_reporting_with_guard_def new_reporting_def mutation_rollback_def
  drop_guard_def

context decimal_arith
begin

lemma adjustment_mutation_restores:
  assumes slot: "adjust_slot D request (spot_balances e key) = Inr upd"
    and exact: "exact_update (spot_balances e key) (asu_new upd)"
    and e': "spot_balances e' = (spot_balances e)(key := asu_new upd)"
      "active_count (eng_policy_state e') = (active_count (eng_policy_state e))
         (fst key := active_count (eng_policy_state e) (fst key) + 1)"
      "snd (snd (spot_books e')) = snd (snd (spot_books e))"
  shows "restored_by b0 account [new_engine_owned_with_guard (\<lambda>e. e)
      (adjustment_rollback_run D key (asu_rollback upd)) (drop_active_mutation (fst key))] e' e"
  unfolding restored_by_def
proof (intro allI impI)
  fix w f
  assume w: "spot_books w = spot_books e'" and due: "blocks_due b0 account e' (abs_blocks (eng_blocked w))"
  have "undo_adjustment D (asu_rollback upd) (spot_balances w key) = Inr (spot_balances e key)"
    using undo_adjusted [OF slot exact] w e'(1) by (simp add: spot_books_def)
  note undone = rollback_slot_books [where undo = "undo_adjustment D (asu_rollback upd)", OF this]
    rollback_slot_ok(2) [where undo = "undo_adjustment D (asu_rollback upd)", OF this]
  let ?w = "adjustment_rollback_run D key (asu_rollback upd) w"
  have run: "rollback_loop (rev [new_engine_owned_with_guard (\<lambda>e. e)
      (adjustment_rollback_run D key (asu_rollback upd)) (drop_active_mutation (fst key))]) w f =
      (drop_active_mutation (fst key) ?w, f)"
    by (simp add: mutation_simps)
  have books: "spot_books ?w = (spot_balances e, snd (spot_books e'))" and blocked: "eng_blocked ?w = eng_blocked w"
    using undone w e'(1) by (simp_all add: adjustment_rollback_run_def spot_books_def)
  have "spot_books (drop_active_mutation (fst key) ?w) = spot_books e"
    unfolding drop_active_books using books e'(2,3) by (simp add: spot_books_def)
  moreover have "pnl_judgement e' account = pnl_judgement e account"
    using e'(3) by (simp add: spot_books_def pnl_judgement_def effective_barrier_def effective_currency_def)
  ultimately show "spot_books (fst (rollback_loop (rev [new_engine_owned_with_guard (\<lambda>e. e)
      (adjustment_rollback_run D key (asu_rollback upd)) (drop_active_mutation (fst key))]) w f)) = spot_books e \<and>
    blocks_due b0 account e (abs_blocks (eng_blocked (fst (rollback_loop (rev [new_engine_owned_with_guard (\<lambda>e. e)
      (adjustment_rollback_run D key (asu_rollback upd)) (drop_active_mutation (fst key))]) w f)))) \<and>
    snd (rollback_loop (rev [new_engine_owned_with_guard (\<lambda>e. e)
      (adjustment_rollback_run D key (asu_rollback upd)) (drop_active_mutation (fst key))]) w f) = f"
    unfolding run using due by (simp add: blocked drop_active_books blocks_due_def)
qed

end

section \<open>Taking an assertion back\<close>

lemma entry_of_get:
  "account_pnl_entry_of self a =
     (case hm_get (sf_pnl self) a of
        Some entry \<Rightarrow> (ape_state entry, ape_assertion_token entry) | None \<Rightarrow> (PnlState_Value 0, None))"
  by (simp add: account_pnl_entry_of_def storage_with_def split: option.split)

lemma entry_eta [simp]:
  "\<lparr>ape_state = ape_state entry, ape_assertion_token = ape_assertion_token entry\<rparr> = entry"
  by simp

lemma entry_of_with_mut:
  assumes "\<And>entry new. fst (f entry new) = g entry"
  shows "account_pnl_entry_of (self\<lparr>sf_pnl := fst (with_mut (sf_pnl self) account account_pnl_entry_zero f)\<rparr>) =
    (account_pnl_entry_of self)(account :=
       (let entry = g \<lparr>ape_state = fst (account_pnl_entry_of self account),
                       ape_assertion_token = snd (account_pnl_entry_of self account)\<rparr>
        in (ape_state entry, ape_assertion_token entry)))"
  using assms
  by (rule_tac ext) (auto simp: entry_of_get with_mut_lookup account_pnl_entry_zero_def Let_def split: option.splits)

lemma result_with_mut:
  assumes "\<And>entry new. snd (f entry new) = g entry"
  shows "snd (with_mut (sf_pnl self) account account_pnl_entry_zero f) =
    g \<lparr>ape_state = fst (account_pnl_entry_of self account),
        ape_assertion_token = snd (account_pnl_entry_of self account)\<rparr>"
  using assms
  by (auto simp: entry_of_get with_mut_output slot_output_def account_pnl_entry_zero_def split: option.splits)

text \<open>A block due to the state carries the token of the entry; one due to the currency does not depend on it.\<close>

lemma judgement_provenance:
  assumes "pnl_judgement e account = Some block"
  shows "ab_provenance block = snd (account_pnl_entry_of (eng_policy_state e) account) \<or>
    (\<forall>e'. effective_barrier e' account = effective_barrier e account \<longrightarrow>
       effective_currency e' account = effective_currency e account \<longrightarrow> pnl_judgement e' account = Some block)"
  using assms
  by (auto simp: pnl_judgement_def account_pnl_block_for_state_def with_provenance_def
      split: option.splits bind_splits)

lemma invalidate_abs:
  "abs_blocks (fst (invalidate_provenance b a p)) =
     (case spec_accounts (abs_blocks b) a of
        Some c \<Rightarrow> if ab_provenance c = Some p
                  then (abs_blocks b)\<lparr>spec_accounts := (spec_accounts (abs_blocks b))(a := None)\<rparr> else abs_blocks b
      | None \<Rightarrow> abs_blocks b)"
  by (auto simp: invalidate_eq unblock_account_abs abs_blocks_def split: option.splits)

definition entry_record :: "spot_funds \<Rightarrow> account_id \<Rightarrow> account_pnl_entry" where
  "entry_record self account =
     \<lparr>ape_state = fst (account_pnl_entry_of self account),
      ape_assertion_token = snd (account_pnl_entry_of self account)\<rparr>"

lemma judge_alt:
  "judge_account_pnl account (entry_record (eng_policy_state e) account) e =
     (case pnl_judgement e account of
        Some b \<Rightarrow> e\<lparr>eng_blocked := fst (block_account (eng_blocked e) account b)\<rparr> | None \<Rightarrow> e)"
  by (simp add: judge_account_pnl_def pnl_judgement_def entry_record_def)

lemma judge_books [simp]: "spot_books (judge_account_pnl account entry e) = spot_books e"
  by (auto simp: judge_account_pnl_def spot_books_def split: option.split)

lemma rollback_pnl_assertion_eq:
  assumes "entry_record (eng_policy_state e) account = \<lparr>ape_state = state, ape_assertion_token = Some token\<rparr>"
  shows "\<exists>e1. rollback_pnl_assertion D account previous asserted token e =
      (judge_account_pnl account (entry_record (eng_policy_state e1) account) e1, failure_default) \<and>
    eng_blocked e1 = fst (invalidate_provenance (eng_blocked e) account token) \<and>
    spot_books e1 = (spot_balances e, active_count (eng_policy_state e),
      (account_pnl_entry_of (eng_policy_state e))(account :=
         (unassert_pnl D (ape_state previous) asserted state, ape_assertion_token previous)),
      snd (snd (snd (spot_books e))))"
proof -
  let ?g = "rollback_pnl_entry D previous asserted token" and ?self = "eng_policy_state e"
  let ?f = "\<lambda>entry (_ :: bool). (?g entry, ?g entry)"
  let ?out = "with_mut (sf_pnl ?self) account account_pnl_entry_zero ?f"
  let ?e1 = "put_spot (?self\<lparr>sf_pnl := fst ?out\<rparr>)
    (e\<lparr>eng_blocked := fst (invalidate_provenance (eng_blocked e) account token)\<rparr>)"
  have now: "?g (entry_record ?self account) =
      \<lparr>ape_state = unassert_pnl D (ape_state previous) asserted state,
       ape_assertion_token = ape_assertion_token previous\<rparr>"
    by (simp add: rollback_pnl_entry_def assms)
  have entries: "account_pnl_entry_of (?self\<lparr>sf_pnl := fst ?out\<rparr>) = (account_pnl_entry_of ?self)(account :=
      (unassert_pnl D (ape_state previous) asserted state, ape_assertion_token previous))"
    using entry_of_with_mut [of ?f ?g ?self account] now by (simp add: entry_record_def Let_def)
  have final: "snd ?out = entry_record (eng_policy_state ?e1) account"
    using result_with_mut [of ?f ?g ?self account] now by (simp add: entry_record_def entries)
  have "rollback_pnl_assertion D account previous asserted token e =
      (judge_account_pnl account (entry_record (eng_policy_state ?e1) account) ?e1, failure_default)"
    by (simp only: rollback_pnl_assertion_def case_prod_beta final)
  moreover have "spot_books ?e1 = (spot_balances e, active_count ?self,
      (account_pnl_entry_of ?self)(account :=
         (unassert_pnl D (ape_state previous) asserted state, ape_assertion_token previous)),
      snd (snd (snd (spot_books e))))"
    by (simp add: spot_books_def entries active_count_def lease_of_def fun_eq_iff)
  ultimately show ?thesis by (intro exI [of _ ?e1]) simp
qed

lemma acquire_books:
  assumes "\<forall>x. lease_of self account = Some x \<longrightarrow> fst x = owner"
  shows "lease_of (acquire_account_pnl_lease self account owner) =
      (lease_of self)(account \<mapsto> (owner, case lease_of self account of Some x \<Rightarrow> snd x + 1 | None \<Rightarrow> 1))"
    and "sf_pnl (acquire_account_pnl_lease self account owner) = sf_pnl self"
    and "sf_holdings (acquire_account_pnl_lease self account owner) = sf_holdings self"
    and "sf_active (acquire_account_pnl_lease self account owner) = sf_active self"
    and "sf_settings (acquire_account_pnl_lease self account owner) = sf_settings self"
proof -
  have ok: "snd (try_account_pnl_lease self account owner)" using assms by (simp add: try_lease_taken)
  then have eq: "acquire_account_pnl_lease self account owner = fst (try_account_pnl_lease self account owner)"
    by (simp add: acquire_account_pnl_lease_def case_prod_beta split: prod.split bool.split)
  show "lease_of (acquire_account_pnl_lease self account owner) =
      (lease_of self)(account \<mapsto> (owner, case lease_of self account of Some x \<Rightarrow> snd x + 1 | None \<Rightarrow> 1))"
    unfolding eq using try_lease_lookup [OF ok] by auto
  show "sf_pnl (acquire_account_pnl_lease self account owner) = sf_pnl self"
    "sf_holdings (acquire_account_pnl_lease self account owner) = sf_holdings self"
    "sf_active (acquire_account_pnl_lease self account owner) = sf_active self"
    "sf_settings (acquire_account_pnl_lease self account owner) = sf_settings self"
    unfolding eq by (simp_all add: try_account_pnl_lease_def case_prod_beta)
qed

text \<open>An assertion of the account P\&L, by the entries and the leases.\<close>

lemma pnl_adjustment_effect:
  assumes run: "apply_account_pnl_adjustment D now account state e ms = (e', ms', r)"
    and mine: "\<forall>x. lease_of (eng_policy_state e) account = Some x \<longrightarrow> fst x = owner_id ms"
  shows "eng_blocked e' = eng_blocked e \<and> is_ok r \<and>
    (\<exists>token. ms' = register_account_pnl_adjustment_rollback D account
         (entry_record (eng_policy_state e) account) state token ms \<and>
       spot_books e' = (spot_balances e, active_count (eng_policy_state e),
         (account_pnl_entry_of (eng_policy_state e))(account := (state, Some token)),
         (lease_of (eng_policy_state e))(account \<mapsto> (owner_id ms,
            case lease_of (eng_policy_state e) account of Some x \<Rightarrow> snd x + 1 | None \<Rightarrow> 1)),
         snd (snd (snd (snd (spot_books e))))))"
proof -
  let ?self = "acquire_account_pnl_lease (eng_policy_state e) account (owner_id ms)"
  define token where "token = fst (fresh_owner_id ?self)"
  define drawn where "drawn = snd (fresh_owner_id ?self)"
  have drawn: "sf_pnl drawn = sf_pnl (eng_policy_state e)" "sf_holdings drawn = sf_holdings (eng_policy_state e)"
    "sf_active drawn = sf_active (eng_policy_state e)" "sf_settings drawn = sf_settings (eng_policy_state e)"
    "sf_leases drawn = sf_leases ?self"
    using acquire_books [OF mine] by (simp_all add: drawn_def fresh_owner_id_def case_prod_beta)
  let ?f = "\<lambda>entry (_ :: bool). (\<lparr>ape_state = state, ape_assertion_token = Some token\<rparr>, entry)"
  let ?out = "with_mut (sf_pnl drawn) account account_pnl_entry_zero ?f"
  have prev: "snd ?out = entry_record (eng_policy_state e) account"
    using result_with_mut [of ?f "\<lambda>entry. entry" drawn account]
    by (simp add: entry_record_def entry_of_get drawn(1))
  have parts: "e' = put_spot (drawn\<lparr>sf_pnl := fst ?out\<rparr>) e \<and> is_ok r \<and>
      ms' = register_account_pnl_adjustment_rollback D account (snd ?out) state token ms"
    using run
    by (auto simp: apply_account_pnl_adjustment_def Let_def case_prod_beta token_def [symmetric]
        drawn_def [symmetric])
  have "lease_of (drawn\<lparr>sf_pnl := t\<rparr>) = lease_of ?self" for t by (simp add: lease_of_def drawn(5) fun_eq_iff)
  moreover have "account_pnl_entry_of (drawn\<lparr>sf_pnl := fst ?out\<rparr>) =
      (account_pnl_entry_of (eng_policy_state e))(account := (state, Some token))"
    using entry_of_with_mut [of ?f "\<lambda>_. \<lparr>ape_state = state, ape_assertion_token = Some token\<rparr>" drawn account]
    by (simp add: Let_def entry_of_get drawn(1) fun_eq_iff)
  ultimately show ?thesis
    using parts prev acquire_books(1) [OF mine]
    by (auto simp: spot_books_def drawn active_count_def fun_eq_iff)
qed

lemma release_books:
  assumes "lease_of (eng_policy_state e') = (lease_of (eng_policy_state e))(account \<mapsto> (owner,
      case lease_of (eng_policy_state e) account of Some x \<Rightarrow> snd x + 1 | None \<Rightarrow> 1))"
    and "\<forall>x. lease_of (eng_policy_state e) account = Some x \<longrightarrow> fst x = owner \<and> 0 < snd x"
  shows "lease_of (eng_policy_state (drop_pnl_lease account owner e')) = lease_of (eng_policy_state e)"
  using assms
  by (auto simp: drop_pnl_lease_def release_lookup fun_eq_iff split: option.splits)

lemma drop_lease_frame:
  "spot_books (drop_pnl_lease account owner e) =
     (spot_balances e, active_count (eng_policy_state e), account_pnl_entry_of (eng_policy_state e),
      lease_of (eng_policy_state (drop_pnl_lease account owner e)), snd (snd (snd (snd (spot_books e)))))"
  "eng_blocked (drop_pnl_lease account owner e) = eng_blocked e"
  by (simp_all add: drop_pnl_lease_def spot_books_def release_account_pnl_lease_def active_count_def
      account_pnl_entry_of_def fun_eq_iff)

text \<open>The registry, from one restored entry to the one before it.\<close>

lemma blocks_due_step:
  assumes due: "blocks_due b0 account e' (abs_blocks b)"
    and untagged: "\<And>blk. spec_accounts b0 account = Some blk \<Longrightarrow> ab_provenance blk = None"
    and token: "snd (account_pnl_entry_of (eng_policy_state e') account) = Some token"
    and same: "effective_barrier e' account = effective_barrier e account"
      "effective_currency e' account = effective_currency e account"
    and e1: "pnl_judgement e1 account = pnl_judgement e account"
      "eng_blocked e1 = fst (invalidate_provenance b account token)"
  shows "blocks_due b0 account e (abs_blocks (eng_blocked
      (judge_account_pnl account (entry_record (eng_policy_state e1) account) e1)))"
proof -
  have "abs_blocks (eng_blocked e1) = b0 \<or> (spec_accounts b0 account = None \<and>
      (\<exists>block. pnl_judgement e account = Some block \<and>
         abs_blocks (eng_blocked e1) = b0\<lparr>spec_accounts := (spec_accounts b0)(account \<mapsto> block)\<rparr>))"
  proof (cases "abs_blocks b = b0")
    case True
    then show ?thesis using untagged by (auto simp: e1(2) invalidate_abs split: option.split)
  next
    case False
    then obtain block where block: "spec_accounts b0 account = None" "pnl_judgement e' account = Some block"
      "abs_blocks b = b0\<lparr>spec_accounts := (spec_accounts b0)(account \<mapsto> block)\<rparr>"
      using due by (auto simp: blocks_due_def)
    consider "ab_provenance block = Some token" | "pnl_judgement e account = Some block"
      using judgement_provenance [OF block(2)] token same by auto
    then show ?thesis
      using block by cases (auto simp: e1(2) invalidate_abs fun_upd_idem)
  qed
  then show ?thesis
    unfolding judge_alt e1(1)
    by (cases "pnl_judgement e account") (auto simp: blocks_due_def block_account_abs keep_first_def)
qed

text \<open>A state whose value survives the way back through the arithmetic.\<close>

definition exact_pnl :: "pnl_state \<Rightarrow> bool" where
  "exact_pnl state \<longleftrightarrow> (case state of PnlState_Value v \<Rightarrow> representable v | PnlState_Halted _ \<Rightarrow> True)"

context decimal_arith
begin

lemma unassert_asserted: "exact_pnl previous \<Longrightarrow> unassert_pnl D previous asserted asserted = previous"
  by (auto simp: unassert_pnl_def exact_pnl_def sg_checked_sub_def sg_checked_add_def sub_exact add_exact
      result_simps split: pnl_state.splits)

lemma pnl_mutation_restores:
  assumes exact: "exact_pnl (fst (account_pnl_entry_of (eng_policy_state e) account))"
    and mine: "\<forall>x. lease_of (eng_policy_state e) account = Some x \<longrightarrow> fst x = owner \<and> 0 < snd x"
    and untagged: "\<And>blk. spec_accounts b0 account = Some blk \<Longrightarrow> ab_provenance blk = None"
    and e': "spot_books e' = (spot_balances e, active_count (eng_policy_state e),
         (account_pnl_entry_of (eng_policy_state e))(account := (state, Some token)),
         (lease_of (eng_policy_state e))(account \<mapsto> (owner,
            case lease_of (eng_policy_state e) account of Some x \<Rightarrow> snd x + 1 | None \<Rightarrow> 1)),
         snd (snd (snd (snd (spot_books e)))))"
  shows "restored_by b0 account [new_reporting_with_guard (\<lambda>e. (commit_pnl_assertion account token e, True))
      (rollback_pnl_assertion D account (entry_record (eng_policy_state e) account) state token)
      (drop_pnl_lease account owner)] e' e"
  unfolding restored_by_def
proof (intro allI impI)
  let ?prev = "entry_record (eng_policy_state e) account"
  let ?m = "new_reporting_with_guard (\<lambda>e. (commit_pnl_assertion account token e, True))
      (rollback_pnl_assertion D account ?prev state token) (drop_pnl_lease account owner)"
  fix w f
  assume w: "spot_books w = spot_books e'" and due: "blocks_due b0 account e' (abs_blocks (eng_blocked w))"
  have "entry_record (eng_policy_state w) account = \<lparr>ape_state = state, ape_assertion_token = Some token\<rparr>"
    using w e' by (simp add: entry_record_def spot_books_def)
  then obtain e1 where roll: "rollback_pnl_assertion D account ?prev state token w =
      (judge_account_pnl account (entry_record (eng_policy_state e1) account) e1, failure_default)"
    and blocked: "eng_blocked e1 = fst (invalidate_provenance (eng_blocked w) account token)"
    and books: "spot_books e1 = (spot_balances w, active_count (eng_policy_state w),
      (account_pnl_entry_of (eng_policy_state w))(account :=
         (unassert_pnl D (ape_state ?prev) state state, ape_assertion_token ?prev)),
      snd (snd (snd (spot_books w))))"
    using rollback_pnl_assertion_eq by blast
  let ?w = "judge_account_pnl account (entry_record (eng_policy_state e1) account) e1"
  have run: "rollback_loop (rev [?m]) w f = (drop_pnl_lease account owner ?w, f)"
    by (simp add: mutation_simps roll)
  have b1: "spot_books ?w = (spot_balances e, active_count (eng_policy_state e),
      account_pnl_entry_of (eng_policy_state e), snd (snd (snd (spot_books e'))))"
    unfolding judge_books using books w e' unassert_asserted [OF exact]
    by (simp add: spot_books_def entry_record_def)
  have "lease_of (eng_policy_state ?w) = (lease_of (eng_policy_state e))(account \<mapsto> (owner,
      case lease_of (eng_policy_state e) account of Some x \<Rightarrow> snd x + 1 | None \<Rightarrow> 1))"
    using b1 e' by (simp add: spot_books_def)
  note lease = release_books [OF this mine]
  have final: "spot_books (drop_pnl_lease account owner ?w) = spot_books e"
    unfolding drop_lease_frame lease using b1 e' by (simp add: spot_books_def)
  have same: "effective_barrier e' account = effective_barrier e account"
    "effective_currency e' account = effective_currency e account"
    using e' by (simp_all add: effective_barrier_def effective_currency_def spot_books_def)
  have "spot_books e1 = spot_books ?w" by simp
  then have judged: "pnl_judgement e1 account = pnl_judgement e account"
    using b1 e' by (simp add: spot_books_def pnl_judgement_def effective_barrier_def effective_currency_def)
  have "blocks_due b0 account e (abs_blocks (eng_blocked ?w))"
    using blocks_due_step [OF due untagged _ same judged blocked] e' by (simp add: spot_books_def)
  then show "spot_books (fst (rollback_loop (rev [?m]) w f)) = spot_books e \<and>
      blocks_due b0 account e (abs_blocks (eng_blocked (fst (rollback_loop (rev [?m]) w f)))) \<and>
      snd (rollback_loop (rev [?m]) w f) = f"
    unfolding run using final by (simp add: drop_lease_frame(2))
qed

end

section \<open>One element, and a batch\<close>

text \<open>
  The arithmetic of an element is exact: where it adjusts a slot, the differences; where it asserts
  the account P\&L, the value it replaces.
\<close>

definition exact_element :: "dec_ops \<Rightarrow> account_id \<Rightarrow> account_adjustment \<Rightarrow> spot_funds engine \<Rightarrow> bool" where
  "exact_element D account adjustment e \<longleftrightarrow>
     exact_pnl (fst (account_pnl_entry_of (eng_policy_state e) account)) \<and>
     (case read_adjustment_request adjustment of
        Inl _ \<Rightarrow> True
      | Inr request \<Rightarrow>
          (case adjust_slot D request (spot_balances e (account, arv_asset request)) of
             Inl _ \<Rightarrow> True
           | Inr upd \<Rightarrow> exact_update (spot_balances e (account, arv_asset request)) (asu_new upd)))"

definition lease_mine :: "spot_funds engine \<Rightarrow> account_id \<Rightarrow> u64 \<Rightarrow> bool" where
  "lease_mine e account owner \<longleftrightarrow>
     (\<forall>x. lease_of (eng_policy_state e) account = Some x \<longrightarrow> fst x = owner \<and> 0 < snd x)"

context decimal_arith
begin

lemma element_restored:
  assumes run: "apply_account_adjustment_impl D now account adjustment e ms = (e', ms', r)"
    and exact: "exact_element D account adjustment e"
    and mine: "lease_mine e account (owner_id ms)"
    and active: "active_count (eng_policy_state e) account < USIZE_MAX"
    and untagged: "\<And>blk. spec_accounts b0 account = Some blk \<Longrightarrow> ab_provenance blk = None"
  shows "(\<exists>new. mutation_list ms' = mutation_list ms @ new \<and> restored_by b0 account new e' e) \<and>
    eng_blocked e' = eng_blocked e \<and> owner_id ms' = owner_id ms \<and> lease_mine e' account (owner_id ms) \<and>
    active_count (eng_policy_state e') account \<le> active_count (eng_policy_state e) account + 1"
proof -
  consider (idle) "e' = e" "ms' = ms"
    | (pnl) state where "apply_account_pnl_adjustment D now account state e ms = (e', ms', r)"
    | (holding) request where "read_adjustment_request adjustment = Inr request"
        "apply_holdings_adjustment D account request e ms = (e', ms', r)"
    using run by (auto simp: apply_account_adjustment_impl_def split: sum.splits option.splits if_splits)
  then show ?thesis
  proof cases
    case idle
    then show ?thesis using restored_by_Nil [of e e] mine by simp
  next
    case pnl
    obtain token where tok: "eng_blocked e' = eng_blocked e"
      "ms' = register_account_pnl_adjustment_rollback D account (entry_record (eng_policy_state e) account) state token ms"
      and books: "spot_books e' = (spot_balances e, active_count (eng_policy_state e),
         (account_pnl_entry_of (eng_policy_state e))(account := (state, Some token)),
         (lease_of (eng_policy_state e))(account \<mapsto> (owner_id ms,
            case lease_of (eng_policy_state e) account of Some x \<Rightarrow> snd x + 1 | None \<Rightarrow> 1)),
         snd (snd (snd (snd (spot_books e)))))"
      using pnl_adjustment_effect [OF pnl] mine by (auto simp: lease_mine_def)
    then show ?thesis
      using pnl_mutation_restores [OF _ _ untagged books] exact mine
      by (auto simp: exact_element_def lease_mine_def spot_books_def
          register_account_pnl_adjustment_rollback_def mutations_push_def split: option.split)
  next
    case holding
    let ?key = "(account, arv_asset request)"
    note effect = holdings_adjustment_effect [OF holding(2) active]
    show ?thesis
    proof (cases "adjust_slot D request (spot_balances e ?key)")
      case (Inl rejects)
      then show ?thesis
        using effect restored_by_Nil [of e' e] mine by (auto simp: lease_mine_def spot_books_def)
    next
      case (Inr upd)
      have "exact_update (spot_balances e ?key) (asu_new upd)"
        using exact holding(1) Inr by (simp add: exact_element_def)
      note restores = adjustment_mutation_restores [OF Inr this, of e' b0 account]
      show ?thesis
        using effect Inr restores mine
        by (auto simp: lease_mine_def spot_books_def register_adjustment_rollback_def mutations_push_def)
    qed
  qed
qed

end

end
