(* ===== verification/Spot_Policy.thy ===== *)
theory Spot_Policy
  imports Spot_Execution Spot_Adjustment
begin

text \<open>
  The spot funds policy in the engine (\<open>policies/spot_funds/mod.rs\<close>): its hooks as a policy of
  \<open>Engine\<close>, and what the engine's batches and retirement mean for its state.
\<close>

section \<open>The policy\<close>

definition spot_funds_policy ::
  "dec_ops \<Rightarrow> instant \<Rightarrow> policy_group_id \<Rightarrow> (spot_funds, order, spot_report, account_adjustment) policy" where
  "spot_funds_policy D now g =
     (policy_default SPOT_FUNDS_POLICY_NAME)
       \<lparr>pol_group_id := g,
        perform_pre_trade_check := perform_pre_trade_check_impl D now,
        perform_pre_trade_check_dry_run := (\<lambda>ctx ord p ms.
          (p, ms, perform_pre_trade_check_dry_run_impl D now ctx ord p)),
        apply_execution_report := (\<lambda>_ report e. spot_apply_execution_report D now report e),
        apply_account_adjustment := apply_account_adjustment_impl D now,
        retire_account_hook := retire_account_state\<rparr>"

section \<open>Batches of adjustments\<close>


lemma spot_hooks [simp]:
  "apply_account_adjustment (spot_funds_policy D now g) = apply_account_adjustment_impl D now"
  "retire_account_hook (spot_funds_policy D now g) = retire_account_state"
  "pol_group_id (spot_funds_policy D now g) = g"
  by (simp_all add: spot_funds_policy_def)



section \<open>An accepted adjustment\<close>



lemma adjust_position_fields [simp]:
  "available (adjust_position request h) = available h" "held (adjust_position request h) = held h"
  "incoming (adjust_position request h) = incoming h"
  by (simp_all add: adjust_position_def with_avg_entry_price_def force_set_realized_pnl_state_def Let_def
      split: option.split pnl_state.split)









section \<open>Retirement\<close>

text \<open>An account without open operations, without P\&L, with nothing in its slots and in no setting.\<close>

definition spot_account_idle :: "spot_funds \<Rightarrow> account_id \<Rightarrow> bool" where
  "spot_account_idle self account \<longleftrightarrow>
     active_count self account = 0 \<and> lease_free self account \<and>
     account_pnl_entry_of self account = (PnlState_Value 0, None) \<and>
     (\<forall>key h. fst key = account \<longrightarrow> store_get (sf_holdings self) key = Some h \<longrightarrow> is_retirable h) \<and>
     \<not> settings_references_account (sf_settings self) account"

lemma holdings_keys_iff: "key \<in> set (holdings_keys s) \<longleftrightarrow> store_get s key \<noteq> None"
  by (simp add: holdings_keys_def storage_keys_def store_get_inner map_of_eq_None_iff)

lemma retire_decides:
  "snd (snd (retire_account_state account e ms)) = Inr () \<longleftrightarrow> spot_account_idle (eng_policy_state e) account"
  "fst (retire_account_state account e ms) = e"
  "snd (snd (retire_account_state account e ms)) \<noteq> Inr () \<Longrightarrow> fst (snd (retire_account_state account e ms)) = ms"
proof -
  let ?self = "eng_policy_state e"
  have slots: "list_ex (\<lambda>key. case store_get (sf_holdings ?self) key of Some h \<Rightarrow> \<not> is_retirable h | None \<Rightarrow> False)
      (filter (\<lambda>key. fst key = account) (holdings_keys (sf_holdings ?self))) \<longleftrightarrow>
    (\<exists>key h. fst key = account \<and> store_get (sf_holdings ?self) key = Some h \<and> \<not> is_retirable h)"
    by (fastforce simp: list_ex_iff holdings_keys_iff split: option.splits)
  show "snd (snd (retire_account_state account e ms)) = Inr () \<longleftrightarrow> spot_account_idle ?self account"
    by (auto simp: retire_account_state_def Let_def slots spot_account_idle_def active_count_def lease_free_def
        account_pnl_entry_of_def storage_with_def split: option.splits)
  show "fst (retire_account_state account e ms) = e"
    "snd (snd (retire_account_state account e ms)) \<noteq> Inr () \<Longrightarrow> fst (snd (retire_account_state account e ms)) = ms"
    by (auto simp: retire_account_state_def Let_def)
qed

lemma pushed: "mutation_list (mutations_push ms m) = mutation_list ms @ [m]"
  by (simp add: mutations_push_def)

lemma push_all:
  "mutation_list (fold (\<lambda>key ms. mutations_push ms (m key)) keys ms) = mutation_list ms @ map m keys"
  by (induction keys arbitrary: ms) (simp_all add: pushed)

lemma retire_mutations:
  assumes "spot_account_idle (eng_policy_state e) account"
  shows "mutation_list (fst (snd (retire_account_state account e ms))) = mutation_list ms @
    map retire_holdings_mutation (filter (\<lambda>key. fst key = account) (holdings_keys (sf_holdings (eng_policy_state e)))) @
    (if hm_get (sf_pnl (eng_policy_state e)) account \<noteq> None then [retire_pnl_mutation account] else []) @
    [retire_lease_mutation account]"
proof -
  have "snd (snd (retire_account_state account e ms)) = Inr ()" using assms by (simp add: retire_decides)
  then show ?thesis
    by (auto simp: retire_account_state_def Let_def pushed push_all storage_with_def split: if_splits)
qed

lemma store_removed:
  "store_get s key = Some h \<Longrightarrow> p h \<Longrightarrow> snd (store_remove_if s key p)"
  "store_get s key = Some h \<Longrightarrow> p h \<Longrightarrow>
   store_get (fst (store_remove_if s key p)) k = (if k = key then None else store_get s k)"
  using st.lookup_discard [of "inner s" key p k]
  by (auto simp: store_remove_if_def storage_remove_if_def store_get_inner Let_def)

lemma commit_retired_slots:
  assumes "distinct keys"
    and "\<And>key. key \<in> set keys \<Longrightarrow> \<exists>h. store_get (sf_holdings (eng_policy_state e)) key = Some h \<and> is_retirable h"
  shows "\<exists>store. commit_loop (map retire_holdings_mutation keys @ rest) e f =
      commit_loop rest (put_spot ((eng_policy_state e)\<lparr>sf_holdings := store\<rparr>) e) f \<and>
    (\<forall>key. store_get store key =
       (if key \<in> set keys then None else store_get (sf_holdings (eng_policy_state e)) key))"
  using assms
proof (induction keys arbitrary: e)
  case Nil
  then show ?case by (intro exI [of _ "sf_holdings (eng_policy_state e)"]) (simp add: put_spot_def)
next
  case (Cons key keys)
  obtain h where h: "store_get (sf_holdings (eng_policy_state e)) key = Some h" "is_retirable h"
    using Cons.prems(2) [of key] by auto
  let ?out = "store_remove_if (sf_holdings (eng_policy_state e)) key is_retirable"
  let ?e = "put_spot ((eng_policy_state e)\<lparr>sf_holdings := fst ?out\<rparr>) e"
  have gone: "store_get (fst ?out) k = (if k = key then None else store_get (sf_holdings (eng_policy_state e)) k)" for k
    using store_removed(2) [of _ key h is_retirable k] h by simp
  have step: "commit_loop (map retire_holdings_mutation (key # keys) @ rest) e f =
      commit_loop (map retire_holdings_mutation keys @ rest) ?e f"
    using store_removed(1) [of _ key h is_retirable] h
    by (simp add: retire_holdings_mutation_def mutation_simps mutation_commit_def bool_result_def case_prod_beta)
  have left: "\<exists>h. store_get (sf_holdings (eng_policy_state ?e)) k = Some h \<and> is_retirable h"
    if "k \<in> set keys" for k
    using Cons.prems(1) Cons.prems(2) [of k] that by (auto simp: gone)
  have "distinct keys" using Cons.prems(1) by simp
  from Cons.IH [OF this left] obtain store where
    store: "commit_loop (map retire_holdings_mutation keys @ rest) ?e f =
      commit_loop rest (put_spot ((eng_policy_state ?e)\<lparr>sf_holdings := store\<rparr>) ?e) f"
    "\<And>k. store_get store k = (if k \<in> set keys then None else store_get (sf_holdings (eng_policy_state ?e)) k)"
    by metis
  show ?case
    using step store(1) by (intro exI [of _ store]) (auto simp: put_spot_def store(2) gone simp del: split_paired_All)
qed

lemma commit_retired:
  assumes idle: "spot_account_idle (eng_policy_state e) account"
    and ok: "hm_ok (inner (sf_holdings (eng_policy_state e)))"
    and ms: "mutation_list ms = []"
    and run: "commit_all (fst (snd (retire_account_state account e ms))) e = (e', failure)"
  shows "failure = failure_default \<and>
    (\<forall>key. store_get (sf_holdings (eng_policy_state e')) key =
       (if fst key = account then None else store_get (sf_holdings (eng_policy_state e)) key)) \<and>
    (\<forall>a. hm_get (sf_pnl (eng_policy_state e')) a = (if a = account then None else hm_get (sf_pnl (eng_policy_state e)) a)) \<and>
    hm_get (sf_leases (eng_policy_state e')) account = None"
proof -
  let ?self = "eng_policy_state e"
  let ?keys = "filter (\<lambda>key. fst key = account) (holdings_keys (sf_holdings ?self))"
  let ?pnl = "if hm_get (sf_pnl ?self) account \<noteq> None then [retire_pnl_mutation account] else []"
  have "distinct ?keys" using ok by (simp add: hm_ok_def holdings_keys_def storage_keys_def)
  moreover have "\<exists>h. store_get (sf_holdings ?self) key = Some h \<and> is_retirable h" if "key \<in> set ?keys" for key
  proof -
    have key: "fst key = account" "store_get (sf_holdings ?self) key \<noteq> None"
      using that by (auto simp: holdings_keys_iff)
    then show ?thesis using idle unfolding spot_account_idle_def by blast
  qed
  ultimately obtain store where slots:
    "commit_all (fst (snd (retire_account_state account e ms))) e =
       commit_loop (?pnl @ [retire_lease_mutation account]) (put_spot (?self\<lparr>sf_holdings := store\<rparr>) e) failure_default"
    "\<And>key. store_get store key = (if key \<in> set ?keys then None else store_get (sf_holdings ?self) key)"
    using commit_retired_slots [of ?keys e "?pnl @ [retire_lease_mutation account]" failure_default]
      retire_mutations [OF idle, of ms] ms
    by (auto simp: commit_all_def simp del: split_paired_All)
  have gone: "store_get store key = (if fst key = account then None else store_get (sf_holdings ?self) key)" for key
    by (cases "store_get (sf_holdings ?self) key") (auto simp: slots(2) holdings_keys_iff)
  have entry: "ape_state x = PnlState_Value 0 \<and> ape_assertion_token x = None"
    if "hm_get (sf_pnl ?self) account = Some x" for x
    using idle that by (simp add: spot_account_idle_def entry_of_get)
  have "failure = failure_default \<and> sf_holdings (eng_policy_state e') = store \<and>
      hm_get (sf_leases (eng_policy_state e')) account = None \<and>
      (\<forall>a. hm_get (sf_pnl (eng_policy_state e')) a = (if a = account then None else hm_get (sf_pnl ?self) a))"
    using run entry unfolding slots(1)
    by (cases "hm_get (sf_pnl ?self) account")
      (auto simp: retire_pnl_mutation_def retire_lease_mutation_def mutation_new_def mutation_simps
        mutation_commit_def bool_result_def storage_remove_if_def storage_remove_def put_spot_def)
  then show ?thesis using gone by simp
qed

text \<open>
  (C14) An account is retired from the spot funds policy exactly when nothing of it is left. The engine
  retires the account if it has no open operation, lease or assertion, no P\&L, no balance in any slot
  and no setting of its own; then every slot, its P\&L entry and its lease entry are gone and the slots
  and entries of all other accounts are as before. Otherwise the retirement is refused with a reason
  and the engine is unchanged. A finalizer never fails.
\<close>

theorem retirement_only_when_idle:
  assumes "hm_ok (inner (sf_holdings (eng_policy_state e)))"
    and "engine_retire_account [spot_funds_policy D now g] owner account e = (e', result)"
  shows "case result of
      Inr _ \<Rightarrow>
        spot_account_idle (eng_policy_state e) account \<and>
        (\<forall>key. store_get (sf_holdings (eng_policy_state e')) key =
           (if fst key = account then None else store_get (sf_holdings (eng_policy_state e)) key)) \<and>
        (\<forall>a. hm_get (sf_pnl (eng_policy_state e')) a =
           (if a = account then None else hm_get (sf_pnl (eng_policy_state e)) a)) \<and>
        hm_get (sf_leases (eng_policy_state e')) account = None
    | Inl err \<Rightarrow>
        \<not> spot_account_idle (eng_policy_state e) account \<and> e' = e \<and>
        (\<exists>reason. err = Refused [\<lparr>arp_policy = SPOT_FUNDS_POLICY_NAME, arp_refusal = reason\<rparr>])"
proof -
  let ?ms = "empty_mutations owner :: spot_funds engine mutations"
  let ?hook = "retire_account_state account e ?ms"
  have name: "pol_name (spot_funds_policy D now g) = SPOT_FUNDS_POLICY_NAME"
    by (simp add: spot_funds_policy_def policy_default_def)
  show ?thesis
  proof (cases "snd (snd ?hook)")
    case (Inr u)
    then obtain ms1 where hook: "?hook = (e, ms1, Inr ())"
      using retire_decides(2) [of account e ?ms] by (metis prod.collapse old.unit.exhaust)
    have idle: "spot_account_idle (eng_policy_state e) account"
      using Inr retire_decides(1) [of account e ?ms] by simp
    obtain e1 failure where commit: "commit_all ms1 e = (e1, failure)" by force
    note settled = commit_retired [OF idle assms(1), of ?ms e1 failure]
    have "retire_loop [spot_funds_policy D now g] account e ?ms [] = (e, ms1, [])"
      by (simp add: hook)
    then show ?thesis
      using assms(2) commit settled idle hook
      by (auto simp: engine_retire_account_def empty_mutations_def failure_failed_def failure_default_def Let_def)
  next
    case (Inl reason)
    then have hook: "?hook = (e, ?ms, Inl reason)"
      using retire_decides(2,3) [of account e ?ms] by (metis prod.collapse sum.distinct(1))
    have "\<not> spot_account_idle (eng_policy_state e) account"
      using Inl retire_decides(1) [of account e ?ms] by simp
    then show ?thesis
      using assms(2) hook
      by (auto simp: engine_retire_account_def name rollback_all_def empty_mutations_def)
  qed
qed

section \<open>Witnesses\<close>

text \<open>
  Account 7 has 1000 USD and a P\&L barrier at -10. The batch deposits 5 USD, asserts a P\&L of -50,
  which the barrier forbids, and then asks for a balance outside its bounds.
\<close>

definition adjusted_engine :: "spot_funds engine" where
  "adjusted_engine =
     \<lparr>eng_policy_state =
        (spot_funds_new (spot_sample_settings\<lparr>sfs_pnl_barriers := \<lparr>pbs_global =
             Some \<lparr>spb_currency = ''USD'', spb_lower_bound = Some (- 10), spb_upper_bound = None\<rparr>,
             pbs_groups = [], pbs_accounts = []\<rparr>\<rparr>) None 1)\<lparr>sf_holdings :=
          \<lparr>inner = [((7, ''USD''), holdings_new 1000 0)], index = [(7, {''USD''})]\<rparr>\<rparr>,
      eng_blocked = blocked_accounts_new, eng_groups = [],
      eng_account_currencies = set_account_currency account_currencies_new 7 ''USD''\<rparr>"

















lemma sample_idle_parts:
  "lease_free (eng_policy_state adjusted_engine) 7" "active_count (eng_policy_state adjusted_engine) 7 = 0"
  "hm_get (accounts_table (eng_blocked adjusted_engine)) 7 = None"
  "spot_balances adjusted_engine (7, ''USD'') = holdings_new 1000 0"
  "hm_ok (inner (sf_holdings (eng_policy_state adjusted_engine)))"
  "store_get (sf_holdings (eng_policy_state adjusted_engine)) (7, ''USD'') = Some (holdings_new 1000 0)"
  by (simp_all add: adjusted_engine_def spot_funds_new_def lease_free_def active_count_def
      blocked_accounts_new_def balance_of_def store_get_def storage_with_def hm_ok_def)




theorem retirement_only_when_idle_witness:
  "\<exists>reason. engine_retire_account [spot_funds_policy exact96_ops 0 0] 1 7 adjusted_engine =
     (adjusted_engine, Inl (Refused [\<lparr>arp_policy = SPOT_FUNDS_POLICY_NAME, arp_refusal = reason\<rparr>]))"
proof -
  obtain e' result where run: "engine_retire_account [spot_funds_policy exact96_ops 0 0] 1 7 adjusted_engine =
      (e', result)" by force
  have "\<not> spot_account_idle (eng_policy_state adjusted_engine) 7"
  proof
    assume "spot_account_idle (eng_policy_state adjusted_engine) 7"
    then have "is_retirable (holdings_new 1000 0)"
      using sample_idle_parts(6) unfolding spot_account_idle_def by (metis fst_conv)
    then show False by (simp add: is_retirable_def holdings_new_def is_zero_def)
  qed
  then show ?thesis
    using retirement_only_when_idle [OF sample_idle_parts(5) run] run by (cases result) auto
qed

end
