(* ===== verification/Reconfiguration.thy ===== *)
theory Reconfiguration
  imports Built_In_Policies Spot_Policy
begin

text \<open>
  Changing a running engine (\<open>core/configure.rs\<close>, \<open>core/accounts.rs\<close>,
  \<open>storage/config_cell.rs\<close> and the sweeps of \<open>policies/spot_funds/mod.rs\<close>): the settings
  cells, the registry of the built-in policies that can be retuned, the sweep that a change of P\&L
  barriers runs over the accounts, and the account service with its groups, currencies and blocks.
  A cell of the registry is shared with the running policy, so the policy state of the engine is the
  registry itself. The closure of an update takes the settings and returns them changed, with the text
  of its error.
\<close>

section \<open>Settings cells\<close>

type_synonym 't update = "'t \<Rightarrow> 't \<times> (string + unit)"

text \<open>An update works on a private copy and publishes it on success.\<close>

definition cell_update :: "'t \<Rightarrow> 't update \<Rightarrow> 't \<times> (string + unit)" where
  "cell_update stored f =
     (case f stored of
        (fresh, Inr _) \<Rightarrow> (fresh, Inr ())
      | (_, Inl err) \<Rightarrow> (stored, Inl err))"

record 't prepared_transition =
  pt_previous :: 't
  pt_current :: 't

definition prepare_serialized_transition :: "'t \<Rightarrow> 't update \<Rightarrow> string + 't prepared_transition" where
  "prepare_serialized_transition stored f =
     (case f stored of
        (fresh, Inr _) \<Rightarrow> Inr \<lparr>pt_previous = stored, pt_current = fresh\<rparr>
      | (_, Inl err) \<Rightarrow> Inl err)"

section \<open>The registry of built-in policies\<close>

datatype config_entry =
  RateLimitEntry rate_limit_policy
| PnlBoundsEntry pnl_policy
| SpotFundsEntry spot_funds
| OrderSizeLimitEntry order_size_limit_settings

datatype settings_type = RateLimitType | PnlBoundsType | SpotFundsType | OrderSizeLimitType

fun settings_type_name :: "config_entry \<Rightarrow> settings_type" where
  "settings_type_name (RateLimitEntry _) = RateLimitType"
| "settings_type_name (PnlBoundsEntry _) = PnlBoundsType"
| "settings_type_name (SpotFundsEntry _) = SpotFundsType"
| "settings_type_name (OrderSizeLimitEntry _) = OrderSizeLimitType"

datatype configure_error =
  UnknownPolicy string
| PolicyTypeMismatch string settings_type settings_type
| Validation string string

type_synonym config_registry = "(string, config_entry) hash_map"

definition config_entry_of :: "config_registry \<Rightarrow> string \<Rightarrow> configure_error + config_entry" where
  "config_entry_of self name = ok_or (hm_get self name) (UnknownPolicy name)"

definition type_mismatch :: "settings_type \<Rightarrow> string \<Rightarrow> config_entry \<Rightarrow> configure_error" where
  "type_mismatch expected name entry = PolicyTypeMismatch name expected (settings_type_name entry)"

definition put_entry :: "string \<Rightarrow> config_entry \<Rightarrow> config_registry engine \<Rightarrow> config_registry engine" where
  "put_entry name entry e = e\<lparr>eng_policy_state := hm_insert (eng_policy_state e) name entry\<rparr>"

section \<open>Retuning the settings of a policy\<close>

definition configure_rate_limit ::
  "string \<Rightarrow> rate_limit_settings update \<Rightarrow> config_registry engine \<Rightarrow>
   config_registry engine \<times> (configure_error + unit)" where
  "configure_rate_limit name f e =
     (case config_entry_of (eng_policy_state e) name of
        Inl err \<Rightarrow> (e, Inl err)
      | Inr (RateLimitEntry self) \<Rightarrow>
          (case cell_update (rlp_settings self) f of
             (settings, r) \<Rightarrow>
               (put_entry name (RateLimitEntry (self\<lparr>rlp_settings := settings\<rparr>)) e,
                map_err (Validation name) r))
      | Inr entry \<Rightarrow> (e, Inl (type_mismatch RateLimitType name entry)))"

definition configure_pnl_bounds_killswitch ::
  "string \<Rightarrow> pnl_settings update \<Rightarrow> config_registry engine \<Rightarrow>
   config_registry engine \<times> (configure_error + unit)" where
  "configure_pnl_bounds_killswitch name f e =
     (case config_entry_of (eng_policy_state e) name of
        Inl err \<Rightarrow> (e, Inl err)
      | Inr (PnlBoundsEntry self) \<Rightarrow>
          (case cell_update (pp_settings self) f of
             (settings, r) \<Rightarrow>
               (put_entry name (PnlBoundsEntry (self\<lparr>pp_settings := settings\<rparr>)) e,
                map_err (Validation name) r))
      | Inr entry \<Rightarrow> (e, Inl (type_mismatch PnlBoundsType name entry)))"

definition configure_order_size_limit ::
  "string \<Rightarrow> order_size_limit_settings update \<Rightarrow> config_registry engine \<Rightarrow>
   config_registry engine \<times> (configure_error + unit)" where
  "configure_order_size_limit name f e =
     (case config_entry_of (eng_policy_state e) name of
        Inl err \<Rightarrow> (e, Inl err)
      | Inr (OrderSizeLimitEntry settings) \<Rightarrow>
          (case cell_update settings f of
             (settings, r) \<Rightarrow>
               (put_entry name (OrderSizeLimitEntry settings) e, map_err (Validation name) r))
      | Inr entry \<Rightarrow> (e, Inl (type_mismatch OrderSizeLimitType name entry)))"

definition configure_set_account_pnl ::
  "string \<Rightarrow> account_id \<Rightarrow> asset \<Rightarrow> pnl \<Rightarrow> config_registry engine \<Rightarrow>
   config_registry engine \<times> (configure_error + unit)" where
  "configure_set_account_pnl name account settlement p e =
     (case config_entry_of (eng_policy_state e) name of
        Inl err \<Rightarrow> (e, Inl err)
      | Inr (PnlBoundsEntry self) \<Rightarrow>
          (put_entry name (PnlBoundsEntry (set_account_pnl self account settlement p)) e, Inr ())
      | Inr entry \<Rightarrow> (e, Inl (type_mismatch PnlBoundsType name entry)))"

section \<open>Sweeps over the barriers of the spot funds policy\<close>

datatype policy_runtime_configuration =
  SetSpotFundsAccountPnl account_id "account_group_id option" "asset option" pnl_state
| CheckSpotFundsPnlAxes account_id "account_group_id option" "asset option" "spot_pnl_barrier option list"

definition option_list :: "'a option \<Rightarrow> 'a list" where
  "option_list x = (case x of Some v \<Rightarrow> [v] | None \<Rightarrow> [])"

text \<open>The policy as changed, and the blocks it reports.\<close>

definition apply_runtime_configuration ::
  "dec_ops \<Rightarrow> instant \<Rightarrow> spot_funds \<Rightarrow> policy_runtime_configuration \<Rightarrow> spot_funds \<times> account_block list" where
  "apply_runtime_configuration D now self configuration =
     (case configuration of
        CheckSpotFundsPnlAxes account g currency barriers \<Rightarrow>
          (self, option_list (pnl_axis_block_for_barriers D now self barriers account g currency True))
      | SetSpotFundsAccountPnl account g currency state \<Rightarrow>
          (let self = fst (set_account_pnl_state self account state)
           in (self, option_list (or_else
                 (Option.bind (pnl_barrier_for (sf_settings self) account g currency)
                    (\<lambda>barrier. account_pnl_block_for_state currency state barrier None))
                 (pnl_axis_block D now self (sf_settings self) account g currency False)))))"

definition account_pnl_barrier_change_blocks ::
  "spot_funds \<Rightarrow> spot_funds_settings \<Rightarrow> spot_funds_settings \<Rightarrow> (account_id \<times> account_group_id) list \<Rightarrow>
   account_id list \<Rightarrow> (account_id \<Rightarrow> account_group_id option \<Rightarrow> asset option) \<Rightarrow>
   (account_id \<times> account_block) list" where
  "account_pnl_barrier_change_blocks self previous current memberships known_accounts resolve_currency =
     List.map_filter (\<lambda>(account, _, currency, barrier).
         case account_pnl_entry_of self account of
           (state, provenance) \<Rightarrow>
             map_option (Pair account) (account_pnl_block_for_state currency state barrier provenance))
       (changed_barriers (sfs_pnl_barriers current) (sfs_pnl_barriers previous) (sf_pnl self)
         (sf_holdings self) memberships known_accounts resolve_currency)"

text \<open>The changes of the axes by account; the map is read in the order of its keys.\<close>

type_synonym axis_changes =
  "(account_id, account_group_id option \<times> asset option \<times> spot_pnl_barrier option list) hash_map"

definition note_axis_change ::
  "nat \<Rightarrow> account_id \<times> account_group_id option \<times> asset option \<times> spot_pnl_barrier \<Rightarrow> axis_changes \<Rightarrow> axis_changes" where
  "note_axis_change pos change changes =
     (case change of
        (account, g, currency, barrier) \<Rightarrow>
          (case (case hm_get changes account of
                   Some entry \<Rightarrow> entry | None \<Rightarrow> (g, currency, replicate 4 None)) of
             (g, currency, barriers) \<Rightarrow>
               hm_insert changes account (g, currency, barriers[pos := Some barrier])))"

definition pnl_axis_barrier_changes ::
  "spot_funds \<Rightarrow> spot_funds_settings \<Rightarrow> spot_funds_settings \<Rightarrow> (account_id \<times> account_group_id) list \<Rightarrow>
   account_id list \<Rightarrow> (account_id \<Rightarrow> account_group_id option \<Rightarrow> asset option) \<Rightarrow> account_id list \<Rightarrow>
   axis_changes" where
  "pnl_axis_barrier_changes self previous current memberships known_accounts resolve_currency realized_blocks =
     (let changes = fold (\<lambda>(pos, axis) changes.
            fold (note_axis_change pos)
              (filter (\<lambda>change. fst change \<notin> set realized_blocks)
                (changed_barriers (pnl_axis_barriers current axis) (pnl_axis_barriers previous axis)
                  (sf_pnl self) (sf_holdings self) memberships known_accounts resolve_currency))
              changes) (enumerate 0 pnl_axes_ALL) []
      in map (\<lambda>account. (account, the (hm_get changes account))) (sort (hm_keys changes)))"

definition active_holdings_accounts :: "(account_id, nat) storage \<Rightarrow> account_id list" where
  "active_holdings_accounts active =
     filter (\<lambda>account. case storage_with active account (\<lambda>n. n \<noteq> 0) of Some b \<Rightarrow> b | None \<Rightarrow> False)
       (storage_keys active)"

record account_block_outcome =
  abo_account_id :: account_id
  abo_block :: account_block

definition record_sweep_block ::
  "account_id \<Rightarrow> account_block \<Rightarrow> blocked_accounts \<times> account_block_outcome list \<Rightarrow>
   blocked_accounts \<times> account_block_outcome list" where
  "record_sweep_block account block acc =
     (case block_account (fst acc) account block of
        (blocked, True) \<Rightarrow> (blocked, snd acc @ [\<lparr>abo_account_id = account, abo_block = block\<rparr>])
      | (blocked, False) \<Rightarrow> (blocked, snd acc))"

text \<open>
  The sweep of a publication: \<open>self\<close> has the new settings. An account has one group, so the cache
  that the code keeps by account holds what the cascade of currencies gives.
\<close>

definition barrier_sweep ::
  "dec_ops \<Rightarrow> instant \<Rightarrow> spot_funds \<Rightarrow> spot_funds_settings \<Rightarrow> 's engine \<Rightarrow>
   blocked_accounts \<times> account_block_outcome list" where
  "barrier_sweep D now self previous e =
     (let current = sf_settings self;
          memberships = membership_list (eng_groups e);
          known_accounts = known_account_keys (eng_account_currencies e) @ active_holdings_accounts (sf_active self);
          resolve_currency = currency_of (eng_account_currencies e);
          blocks = account_pnl_barrier_change_blocks self previous current memberships known_accounts resolve_currency;
          acc = fold (\<lambda>(account, block). record_sweep_block account block) blocks (eng_blocked e, []);
          changes = pnl_axis_barrier_changes self previous current memberships known_accounts resolve_currency
            (map fst blocks)
      in fold (\<lambda>(account, g, currency, barriers).
            fold (record_sweep_block account)
              (snd (apply_runtime_configuration D now self (CheckSpotFundsPnlAxes account g currency barriers))))
           changes acc)"

definition publish_spot_funds ::
  "dec_ops \<Rightarrow> instant \<Rightarrow> string \<Rightarrow> spot_funds \<Rightarrow> spot_funds_settings prepared_transition \<Rightarrow> config_registry engine \<Rightarrow>
   config_registry engine \<times> account_block_outcome list" where
  "publish_spot_funds D now name self prepared e =
     (let self = self\<lparr>sf_settings := pt_current prepared\<rparr>
      in case barrier_sweep D now self (pt_previous prepared) e of
           (blocked, outcomes) \<Rightarrow> ((put_entry name (SpotFundsEntry self) e)\<lparr>eng_blocked := blocked\<rparr>, outcomes))"

definition pre_trade_policy :: "string list \<Rightarrow> string \<Rightarrow> configure_error + string" where
  "pre_trade_policy names name = ok_or (find (\<lambda>n. n = name) names) (UnknownPolicy name)"

definition configure_spot_funds ::
  "dec_ops \<Rightarrow> instant \<Rightarrow> string list \<Rightarrow> string \<Rightarrow> spot_funds_settings update \<Rightarrow> config_registry engine \<Rightarrow>
   config_registry engine \<times> (configure_error + account_block_outcome list)" where
  "configure_spot_funds D now names name f e =
     (case config_entry_of (eng_policy_state e) name of
        Inl err \<Rightarrow> (e, Inl err)
      | Inr (SpotFundsEntry self) \<Rightarrow>
          (case bind_res (pre_trade_policy names name)
                  (\<lambda>_. map_err (Validation name) (prepare_serialized_transition (sf_settings self) f)) of
             Inl err \<Rightarrow> (e, Inl err)
           | Inr prepared \<Rightarrow>
               (case publish_spot_funds D now name self prepared e of
                  (e, outcomes) \<Rightarrow> (e, Inr outcomes)))
      | Inr entry \<Rightarrow> (e, Inl (type_mismatch SpotFundsType name entry)))"

definition set_spot_funds_account_pnl ::
  "dec_ops \<Rightarrow> instant \<Rightarrow> string list \<Rightarrow> string \<Rightarrow> account_id \<Rightarrow> pnl_state \<Rightarrow> config_registry engine \<Rightarrow>
   config_registry engine \<times> (configure_error + account_block list)" where
  "set_spot_funds_account_pnl D now names name account state e =
     (case config_entry_of (eng_policy_state e) name of
        Inl err \<Rightarrow> (e, Inl err)
      | Inr (SpotFundsEntry self) \<Rightarrow>
          (case pre_trade_policy names name of
             Inl err \<Rightarrow> (e, Inl err)
           | Inr _ \<Rightarrow>
               (let g = group_of (eng_groups e) account
                in case apply_runtime_configuration D now self
                     (SetSpotFundsAccountPnl account g (currency_of (eng_account_currencies e) account g) state) of
                     (self, blocks) \<Rightarrow>
                       ((put_entry name (SpotFundsEntry self) e)
                          \<lparr>eng_blocked := fold (\<lambda>block b. fst (block_account b account block)) blocks (eng_blocked e)\<rparr>,
                        Inr blocks)))
      | Inr entry \<Rightarrow> (e, Inl (type_mismatch SpotFundsType name entry)))"

section \<open>The account service\<close>

definition currency_mismatches :: "spot_pnl_barrier option \<Rightarrow> asset option \<Rightarrow> bool" where
  "currency_mismatches barrier currency \<longleftrightarrow>
     (case (barrier, currency) of (Some b, Some c) \<Rightarrow> spb_currency b \<noteq> c | _ \<Rightarrow> False)"

definition account_pnl_membership_change_block ::
  "spot_funds \<Rightarrow> account_id \<Rightarrow> account_group_id option \<Rightarrow> account_group_id option \<Rightarrow> asset option \<Rightarrow>
   asset option \<Rightarrow> account_block option" where
  "account_pnl_membership_change_block self account previous_group current_group previous_currency current_currency =
     (let previous = pnl_barrier_for (sf_settings self) account previous_group previous_currency;
          current = pnl_barrier_for (sf_settings self) account current_group current_currency
      in if previous = current \<and>
            currency_mismatches previous previous_currency = currency_mismatches current current_currency
         then None
         else Option.bind current (\<lambda>barrier.
                case account_pnl_entry_of self account of
                  (state, provenance) \<Rightarrow>
                    account_pnl_block_for_state current_currency state barrier provenance))"

fun entry_membership_change_block ::
  "account_id \<Rightarrow> account_group_id option \<Rightarrow> account_group_id option \<Rightarrow> asset option \<Rightarrow>
   asset option \<Rightarrow> config_entry \<Rightarrow> account_block option" where
  "entry_membership_change_block account previous_group current_group previous_currency current_currency
     (SpotFundsEntry self) =
     account_pnl_membership_change_block self account previous_group current_group previous_currency current_currency"
| "entry_membership_change_block account previous_group current_group previous_currency current_currency _ = None"

definition account_pnl_membership_change_blocks ::
  "config_registry \<Rightarrow> account_id \<Rightarrow> account_group_id option \<Rightarrow> account_group_id option \<Rightarrow> asset option \<Rightarrow>
   asset option \<Rightarrow> account_block list" where
  "account_pnl_membership_change_blocks self account previous_group current_group previous_currency current_currency =
     List.map_filter
       (entry_membership_change_block account previous_group current_group previous_currency current_currency)
       (map snd self)"

definition block_barrier_change ::
  "account_id \<times> account_group_id option \<Rightarrow> config_registry engine \<Rightarrow> config_registry engine" where
  "block_barrier_change change e =
     (case change of
        (account, previous_group) \<Rightarrow>
          (let current_group = group_of (eng_groups e) account;
               blocks = account_pnl_membership_change_blocks (eng_policy_state e) account previous_group current_group
                 (currency_of (eng_account_currencies e) account previous_group)
                 (currency_of (eng_account_currencies e) account current_group)
           in e\<lparr>eng_blocked := fold (\<lambda>block b. fst (block_account b account block)) blocks (eng_blocked e)\<rparr>))"

definition block_effective_barrier_changes ::
  "(account_id \<times> account_group_id option) list \<Rightarrow> config_registry engine \<Rightarrow> config_registry engine" where
  "block_effective_barrier_changes previous e = fold block_barrier_change previous e"

definition accounts_register_group ::
  "account_id list \<Rightarrow> account_group_id \<Rightarrow> config_registry engine \<Rightarrow>
   config_registry engine \<times> (account_group_error + unit)" where
  "accounts_register_group accounts g e =
     (let previous_groups = map (\<lambda>account. (account, group_of (eng_groups e) account)) accounts
      in case register_group (eng_groups e) accounts g of
           (groups, Inl err) \<Rightarrow> (e\<lparr>eng_groups := groups\<rparr>, Inl err)
         | (groups, Inr _) \<Rightarrow> (block_effective_barrier_changes previous_groups (e\<lparr>eng_groups := groups\<rparr>), Inr ()))"

definition accounts_unregister_group ::
  "account_id list \<Rightarrow> account_group_id \<Rightarrow> config_registry engine \<Rightarrow>
   config_registry engine \<times> (account_group_error + unit)" where
  "accounts_unregister_group accounts g e =
     (let previous_groups = map (\<lambda>account. (account, group_of (eng_groups e) account)) accounts
      in case unregister_group (eng_groups e) accounts g of
           (groups, Inl err) \<Rightarrow> (e\<lparr>eng_groups := groups\<rparr>, Inl err)
         | (groups, Inr _) \<Rightarrow> (block_effective_barrier_changes previous_groups (e\<lparr>eng_groups := groups\<rparr>), Inr ()))"

definition engine_block :: "string \<Rightarrow> account_block" where
  "engine_block reason = account_block_new ''Engine'' AccountBlocked reason [Lit reason]"

definition accounts_set_currency :: "account_id \<Rightarrow> asset \<Rightarrow> 's engine \<Rightarrow> 's engine" where
  "accounts_set_currency account currency e =
     e\<lparr>eng_account_currencies := set_account_currency (eng_account_currencies e) account currency\<rparr>"

definition accounts_clear_currency :: "account_id \<Rightarrow> 's engine \<Rightarrow> 's engine" where
  "accounts_clear_currency account e =
     e\<lparr>eng_account_currencies := clear_account_currency (eng_account_currencies e) account\<rparr>"

definition accounts_set_group_currency :: "account_group_id \<Rightarrow> asset \<Rightarrow> 's engine \<Rightarrow> 's engine" where
  "accounts_set_group_currency g currency e =
     e\<lparr>eng_account_currencies := set_group_currency (eng_account_currencies e) g currency\<rparr>"

definition accounts_clear_group_currency :: "account_group_id \<Rightarrow> 's engine \<Rightarrow> 's engine" where
  "accounts_clear_group_currency g e =
     e\<lparr>eng_account_currencies := clear_group_currency (eng_account_currencies e) g\<rparr>"

definition accounts_block :: "account_id \<Rightarrow> string \<Rightarrow> 's engine \<Rightarrow> 's engine" where
  "accounts_block account reason e =
     e\<lparr>eng_blocked := fst (block_account (eng_blocked e) account (engine_block reason))\<rparr>"

definition accounts_block_with_cause :: "account_id \<Rightarrow> account_block \<Rightarrow> 's engine \<Rightarrow> 's engine" where
  "accounts_block_with_cause account cause e =
     e\<lparr>eng_blocked := fst (block_account (eng_blocked e) account (with_provenance cause None))\<rparr>"

definition accounts_unblock :: "account_id \<Rightarrow> 's engine \<Rightarrow> 's engine" where
  "accounts_unblock account e = e\<lparr>eng_blocked := unblock_account (eng_blocked e) account\<rparr>"

definition accounts_unblock_all :: "'s engine \<Rightarrow> 's engine" where
  "accounts_unblock_all e = e\<lparr>eng_blocked := unblock_all (eng_blocked e)\<rparr>"

definition on_blocked ::
  "(blocked_accounts \<Rightarrow> blocked_accounts \<times> 'r) \<Rightarrow> 's engine \<Rightarrow> 's engine \<times> 'r" where
  "on_blocked f e = (case f (eng_blocked e) of (b, r) \<Rightarrow> (e\<lparr>eng_blocked := b\<rparr>, r))"

definition accounts_replace_block_reason ::
  "account_id \<Rightarrow> string \<Rightarrow> 's engine \<Rightarrow> 's engine \<times> (account_block_error + unit)" where
  "accounts_replace_block_reason account reason =
     on_blocked (\<lambda>b. replace_reason b account (engine_block reason))"

definition accounts_block_group ::
  "account_group_id \<Rightarrow> string \<Rightarrow> 's engine \<Rightarrow> 's engine \<times> (account_block_error + unit)" where
  "accounts_block_group g reason = on_blocked (\<lambda>b. block_group b g (engine_block reason))"

definition accounts_unblock_group ::
  "account_group_id \<Rightarrow> 's engine \<Rightarrow> 's engine \<times> (account_block_error + unit)" where
  "accounts_unblock_group g = on_blocked (\<lambda>b. unblock_group b g)"

definition accounts_replace_group_block_reason ::
  "account_group_id \<Rightarrow> string \<Rightarrow> 's engine \<Rightarrow> 's engine \<times> (account_block_error + unit)" where
  "accounts_replace_group_block_reason g reason = on_blocked (\<lambda>b. replace_group_reason b g (engine_block reason))"

section \<open>What a sweep finds\<close>

text \<open>
  The reference, account by account: the group and currency of the account, the accounts that a change
  of one set of barriers reaches, and the barrier the change made effective.
\<close>

definition swept_accounts :: "pnl_barrier_set \<Rightarrow> pnl_barrier_set \<Rightarrow> spot_funds \<Rightarrow> 's engine \<Rightarrow> account_id set" where
  "swept_accounts current previous self e =
     set (hm_keys (sf_pnl self)) \<union> fst ` set (holdings_keys (sf_holdings self)) \<union>
     set (hm_keys (pbs_accounts previous)) \<union> set (hm_keys (pbs_accounts current)) \<union>
     set (hm_keys (eng_groups e)) \<union> set (known_account_keys (eng_account_currencies e)) \<union>
     set (active_holdings_accounts (sf_active self))"

definition state_group :: "'s engine \<Rightarrow> account_id \<Rightarrow> account_group_id option" where
  "state_group e a = group_of (eng_groups e) a"

definition state_currency :: "'s engine \<Rightarrow> account_id \<Rightarrow> asset option" where
  "state_currency e a = currency_of (eng_account_currencies e) a (state_group e a)"

definition changed_barrier ::
  "pnl_barrier_set \<Rightarrow> pnl_barrier_set \<Rightarrow> spot_funds \<Rightarrow> 's engine \<Rightarrow> account_id \<Rightarrow> spot_pnl_barrier option" where
  "changed_barrier current previous self e a =
     (let b = barrier_for current a (state_group e a) (state_currency e a)
      in if a \<in> swept_accounts current previous self e \<and>
            barrier_for previous a (state_group e a) (state_currency e a) \<noteq> b
         then b else None)"

lemma sorted_list_filter:
  "finite A \<Longrightarrow> filter P (sorted_list_of_set A) = sorted_list_of_set {x \<in> A. P x}"
  by (rule sorted_distinct_set_unique) (auto simp: sorted_wrt_filter)

lemma map_filter_idle: "(\<And>x. x \<in> set xs \<Longrightarrow> \<not> P x \<Longrightarrow> f x = None) \<Longrightarrow>
    List.map_filter f xs = List.map_filter f (filter P xs)"
  by (induction xs) (auto simp: List.map_filter_simps split: option.splits)

lemma map_filter_cong_set: "(\<And>x. x \<in> set xs \<Longrightarrow> f x = g x) \<Longrightarrow> List.map_filter f xs = List.map_filter g xs"
  by (induction xs) (auto simp: List.map_filter_simps split: option.splits)

lemma map_filter_superset:
  assumes "finite B" and "A \<subseteq> B" and "\<And>x. x \<in> B - A \<Longrightarrow> f x = None"
  shows "List.map_filter f (sorted_list_of_set A) = List.map_filter f (sorted_list_of_set B)"
proof -
  have "{x \<in> B. x \<in> A} = A" using assms(2) by blast
  then show ?thesis
    using map_filter_idle [of "sorted_list_of_set B" "\<lambda>x. x \<in> A" f] sorted_list_filter [OF assms(1), of "\<lambda>x. x \<in> A"]
      assms(1,3) by auto
qed

lemma map_filter_split: "List.map_filter f (xs @ ys) = List.map_filter f xs @ List.map_filter f ys"
  by (simp add: List.map_filter_def)

lemma membership_list_id: "hm_ok m \<Longrightarrow> membership_list m = m"
proof -
  assume ok: "hm_ok m"
  have "membership_list m = List.map_filter (\<lambda>p. map_option (Pair (fst p)) (hm_get m (fst p))) m"
    by (simp add: membership_list_def storage_keys_def storage_with_def List.map_filter_def filter_map comp_def)
  also have "\<dots> = List.map_filter Some m"
    using ok by (intro map_filter_cong_set) (auto simp: hm_ok_def)
  finally show ?thesis by (simp add: List.map_filter_def)
qed

lemma rev_memberships: "hm_ok m \<Longrightarrow> map_of (rev m) = map_of m"
  by (rule map_of_eqI) (auto simp: hm_ok_def simp flip: rev_map intro!: map_of_is_SomeI)

lemma barrier_unchanged:
  assumes "pbs_global previous = pbs_global current"
    and "a \<notin> changed_keys (pbs_accounts previous) (pbs_accounts current)"
    and "\<And>k. g = Some k \<Longrightarrow> k \<notin> changed_keys (pbs_groups previous) (pbs_groups current)"
  shows "barrier_for previous a g c = barrier_for current a g c"
proof -
  have same: "k \<notin> changed_keys m m' \<Longrightarrow> hm_get m k = hm_get m' k" for k :: 'k and m m' :: "('k, 'v) hash_map"
    by (auto simp: changed_keys_def hm_keys_iff simp del: set_map)
  show ?thesis
    using assms same [OF assms(2)] same [OF assms(3)]
    by (cases g; cases "hm_get (pbs_accounts current) a") (auto simp: barrier_for_def split: option.split)
qed

abbreviation change_list where
  "change_list current previous self e \<equiv>
     changed_barriers current previous (sf_pnl self) (sf_holdings self) (membership_list (eng_groups e))
       (known_account_keys (eng_account_currencies e) @ active_holdings_accounts (sf_active self))
       (currency_of (eng_account_currencies e))"

definition changes_of ::
  "'s engine \<Rightarrow> (account_id \<Rightarrow> spot_pnl_barrier option) \<Rightarrow> account_id list \<Rightarrow>
   (account_id \<times> account_group_id option \<times> asset option \<times> spot_pnl_barrier) list" where
  "changes_of e f xs =
     List.map_filter (\<lambda>a. map_option (\<lambda>b. (a, state_group e a, state_currency e a, b)) (f a)) xs"

lemma finite_swept [simp]: "finite (swept_accounts current previous self e)"
  by (simp add: swept_accounts_def)

lemma changed_barriers_spec:
  assumes ok: "hm_ok (eng_groups e)"
  shows "change_list current previous self e =
    changes_of e (changed_barrier current previous self e)
      (sorted_list_of_set (swept_accounts current previous self e))"
proof -
  define ca where "ca = changed_keys (pbs_accounts previous) (pbs_accounts current)"
  define cg where "cg = changed_keys (pbs_groups previous) (pbs_groups current)"
  let ?S = "swept_accounts current previous self e"
  let ?f = "\<lambda>a. map_option (\<lambda>b. (a, state_group e a, state_currency e a, b)) (changed_barrier current previous self e a)"
  let ?C = "if pbs_global previous \<noteq> pbs_global current then ?S
    else if cg \<noteq> {} then ca \<union> {a \<in> fst ` set (eng_groups e). \<exists>g. hm_get (eng_groups e) a = Some g \<and> g \<in> cg}
    else ca"
  have ca: "ca \<subseteq> ?S" by (auto simp: ca_def changed_keys_def swept_accounts_def)
  have idle: "?f a = None" if "a \<in> ?S - ?C" for a
  proof (cases "pbs_global previous = pbs_global current")
    case True
    have "a \<notin> ca" using that True by (auto split: if_splits)
    moreover have "state_group e a = Some k \<Longrightarrow> k \<notin> cg" for k
      using that True by (auto simp: state_group_def group_of_alt image_iff Bex_def dest: map_of_SomeD split: if_splits)
    ultimately show ?thesis
      using barrier_unchanged [OF True, of a "state_group e a" "state_currency e a"]
      by (simp add: changed_barrier_def Let_def ca_def cg_def)
  qed (use that in simp)
  have global: "ca \<union> set (storage_keys (sf_pnl self)) \<union> fst ` set (holdings_keys (sf_holdings self)) \<union>
      set (hm_keys (pbs_accounts previous)) \<union> set (hm_keys (pbs_accounts current)) \<union> fst ` set (eng_groups e) \<union>
      set (known_account_keys (eng_account_currencies e) @ active_holdings_accounts (sf_active self)) = ?S"
    using ca by (auto simp: swept_accounts_def storage_keys_def)
  have "change_list current previous self e = List.map_filter ?f (sorted_list_of_set ?C)"
  proof (cases "pbs_global previous = pbs_global current \<and> ca = {} \<and> cg = {}")
    case False
    have "change_list current previous self e =
        List.map_filter (\<lambda>account. case barrier_for current account (state_group e account) (state_currency e account) of
            None \<Rightarrow> None
          | Some barrier \<Rightarrow> if barrier_for previous account (state_group e account) (state_currency e account) \<noteq> Some barrier
              then Some (account, state_group e account, state_currency e account, barrier) else None)
          (sorted_list_of_set ?C)"
      using False
      unfolding changed_barriers_def membership_list_id [OF ok] rev_memberships [OF ok] ca_def [symmetric]
        cg_def [symmetric] global Let_def state_currency_def state_group_def group_of_alt
      by (auto cong: if_cong)
    also have "\<dots> = List.map_filter ?f (sorted_list_of_set ?C)"
      using ca finite_subset [OF ca]
      by (intro map_filter_cong_set) (auto simp: changed_barrier_def Let_def swept_accounts_def split: option.splits if_splits)
    finally show ?thesis .
  qed (auto simp: changed_barriers_def ca_def cg_def List.map_filter_def)
  also have "\<dots> = List.map_filter ?f (sorted_list_of_set ?S)"
    using ca idle by (intro map_filter_superset) (auto simp: swept_accounts_def)
  finally show ?thesis by (simp add: changes_of_def)
qed

section \<open>Recording the blocks of a sweep\<close>

abbreviation own_block :: "blocked_accounts \<Rightarrow> account_id \<Rightarrow> account_block option" where
  "own_block b \<equiv> spec_accounts (abs_blocks b)"

definition block_outcome :: "account_id \<times> account_block \<Rightarrow> account_block_outcome" where
  "block_outcome p = \<lparr>abo_account_id = fst p, abo_block = snd p\<rparr>"

lemma block_account_inserted: "snd (block_account b a c) \<longleftrightarrow> own_block b a = None"
  by (auto simp: block_account_def abs_blocks_def insert_if_absent_def insert_if_absent_slow_def
      split: option.splits prod.splits)

lemma record_sweep_alt:
  "record_sweep_block a c acc =
     (fst (block_account (fst acc) a c),
      if own_block (fst acc) a = None then snd acc @ [block_outcome (a, c)] else snd acc)"
  using block_account_inserted [of "fst acc" a c]
  by (auto simp: record_sweep_block_def block_outcome_def split: prod.splits bool.splits)

lemma own_block_block: "own_block (fst (block_account b a c)) = keep_first (own_block b) a c"
  by (simp add: block_account_abs)

lemma sweep_step:
  "own_block (fst (record_sweep_block a c acc)) = keep_first (own_block (fst acc)) a c"
  "snd (record_sweep_block a c acc) =
     (if own_block (fst acc) a = None then snd acc @ [block_outcome (a, c)] else snd acc)"
  "spec_groups (abs_blocks (fst (record_sweep_block a c acc))) = spec_groups (abs_blocks (fst acc))"
  "spec_global (abs_blocks (fst (record_sweep_block a c acc))) = spec_global (abs_blocks (fst acc))"
  "flags_ok (fst acc) \<Longrightarrow> flags_ok (fst (record_sweep_block a c acc))"
  by (simp_all add: record_sweep_alt block_account_abs flags_ok_block)

lemma free_after_step:
  "a \<notin> fst ` set L \<Longrightarrow>
    filter (\<lambda>q. own_block (fst (record_sweep_block a c acc)) (fst q) = None) L =
    filter (\<lambda>q. own_block (fst acc) (fst q) = None) L"
  by (rule filter_cong [OF refl]) (auto simp: sweep_step keep_first_def rev_image_eqI)

abbreviation run_sweep :: "(account_id \<times> account_block) list \<Rightarrow> blocked_accounts \<times> account_block_outcome list \<Rightarrow>
    blocked_accounts \<times> account_block_outcome list" where
  "run_sweep L acc \<equiv> fold (\<lambda>(a, c). record_sweep_block a c) L acc"

lemma recorded_sweep:
  assumes "distinct (map fst L)"
  shows "own_block (fst (run_sweep L acc)) x = or_else (own_block (fst acc) x) (map_of L x)"
    and "snd (run_sweep L acc) =
      snd acc @ map block_outcome (filter (\<lambda>p. own_block (fst acc) (fst p) = None) L)"
  using assms
proof (induction L arbitrary: acc)
  case (Cons p L)
  obtain a c where p: "p = (a, c)" by force
  {
    case 1
    have "map_of L a = None" using 1 p by (simp add: map_of_eq_None_iff)
    then show ?case
      using Cons.IH(1) [of "record_sweep_block a c acc"] 1 p
      by (auto simp: sweep_step keep_first_def or_else_def split: option.splits)
  next
    case 2
    then show ?case
      using Cons.IH(2) [of "record_sweep_block a c acc"] free_after_step [of a L c acc] p by (simp add: sweep_step)
  }
qed (simp_all add: or_else_def split: option.splits)

lemma recorded_sweep_frame:
  "spec_groups (abs_blocks (fst (run_sweep L acc))) = spec_groups (abs_blocks (fst acc))"
  "spec_global (abs_blocks (fst (run_sweep L acc))) = spec_global (abs_blocks (fst acc))"
  "flags_ok (fst acc) \<Longrightarrow> flags_ok (fst (run_sweep L acc))"
  by (induction L arbitrary: acc) (simp_all add: sweep_step case_prod_beta)

section \<open>The changes of the axes\<close>

lemma changes_of_simps:
  "changes_of e f [] = []"
  "changes_of e f (a # xs) =
     (case f a of Some b \<Rightarrow> (a, state_group e a, state_currency e a, b) # changes_of e f xs | None \<Rightarrow> changes_of e f xs)"
  by (simp_all add: changes_of_def List.map_filter_simps split: option.splits)

lemma filter_changes:
  "filter (\<lambda>c. fst c \<notin> R) (changes_of e f xs) = changes_of e (\<lambda>a. if a \<in> R then None else f a) xs"
  by (induction xs) (auto simp: changes_of_simps split: option.splits)

definition noted :: "'s engine \<Rightarrow> nat \<Rightarrow> spot_pnl_barrier option \<Rightarrow> account_id \<Rightarrow>
    (account_group_id option \<times> asset option \<times> spot_pnl_barrier option list) option \<Rightarrow>
    (account_group_id option \<times> asset option \<times> spot_pnl_barrier option list) option" where
  "noted e pos b a entry =
     (case b of
        None \<Rightarrow> entry
      | Some b \<Rightarrow>
          (case entry of
             Some (g, c, bs) \<Rightarrow> Some (g, c, bs[pos := Some b])
           | None \<Rightarrow> Some (state_group e a, state_currency e a, (replicate 4 None)[pos := Some b])))"

lemma note_changes:
  assumes "distinct xs"
  shows "hm_get (fold (note_axis_change pos) (changes_of e f xs) m) a =
      (if a \<in> set xs then noted e pos (f a) a (hm_get m a) else hm_get m a)"
    and "hm_ok m \<Longrightarrow> hm_ok (fold (note_axis_change pos) (changes_of e f xs) m)"
  using assms
proof (induction xs arbitrary: m)
  case (Cons x xs)
  {
    case 1
    then show ?case
      using Cons.IH(1)
      by (cases "f x")
        (auto simp: changes_of_simps note_axis_change_def noted_def split: option.splits prod.splits)
  next
    case 2
    then show ?case
      using Cons.IH(2) by (cases "f x")
        (auto simp: changes_of_simps note_axis_change_def split: option.splits prod.splits)
  }
qed (simp_all add: changes_of_simps noted_def)

section \<open>The verdict on one account\<close>

definition axis_change ::
  "spot_funds \<Rightarrow> spot_funds_settings \<Rightarrow> 's engine \<Rightarrow> account_id \<Rightarrow> pnl_bounds_axis \<Rightarrow> spot_pnl_barrier option" where
  "axis_change self previous e a axis =
     changed_barrier (pnl_axis_barriers (sf_settings self) axis) (pnl_axis_barriers previous axis) self e a"

definition realized_verdict ::
  "spot_funds \<Rightarrow> spot_funds_settings \<Rightarrow> 's engine \<Rightarrow> account_id \<Rightarrow> account_block option" where
  "realized_verdict self previous e a =
     Option.bind (changed_barrier (sfs_pnl_barriers (sf_settings self)) (sfs_pnl_barriers previous) self e a)
       (\<lambda>barrier. case account_pnl_entry_of self a of
          (state, provenance) \<Rightarrow> account_pnl_block_for_state (state_currency e a) state barrier provenance)"

definition retune_verdict ::
  "dec_ops \<Rightarrow> instant \<Rightarrow> spot_funds \<Rightarrow> spot_funds_settings \<Rightarrow> 's engine \<Rightarrow> account_id \<Rightarrow> account_block option" where
  "retune_verdict D now self previous e a =
     or_else (realized_verdict self previous e a)
       (pnl_axis_block_for_barriers D now self (map (axis_change self previous e a) pnl_axes_ALL) a
         (state_group e a) (state_currency e a) True)"

lemma changed_barrier_swept:
  "a \<notin> swept_accounts current previous self e \<Longrightarrow> changed_barrier current previous self e a = None"
  by (simp add: changed_barrier_def Let_def)

lemma verdict_list:
  assumes "distinct xs"
  shows "map_of (List.map_filter (\<lambda>a. map_option (Pair a) (f a)) xs) a = (if a \<in> set xs then f a else None)"
    and "distinct (map fst (List.map_filter (\<lambda>a. map_option (Pair a) (f a)) xs))"
    and "set (map fst (List.map_filter (\<lambda>a. map_option (Pair a) (f a)) xs)) \<subseteq> set xs"
proof -
  show 3: "set (map fst (List.map_filter (\<lambda>a. map_option (Pair a) (f a)) ys)) \<subseteq> set ys" for ys
    by (induction ys) (auto simp: List.map_filter_simps split: option.splits)
  show "map_of (List.map_filter (\<lambda>a. map_option (Pair a) (f a)) xs) a = (if a \<in> set xs then f a else None)"
    using assms by (induction xs) (auto simp: List.map_filter_simps split: option.splits)
  show "distinct (map fst (List.map_filter (\<lambda>a. map_option (Pair a) (f a)) xs))"
    using assms
  proof (induction xs)
    case (Cons x xs)
    then show ?case using 3 [of xs] by (auto simp: List.map_filter_simps split: option.splits)
  qed (simp add: List.map_filter_simps)
qed

lemma changes_verdicts:
  "List.map_filter (\<lambda>(account, _, currency, barrier). map_option (Pair account) (h account currency barrier))
     (changes_of e f xs) =
   List.map_filter (\<lambda>a. map_option (Pair a) (Option.bind (f a) (h a (state_currency e a)))) xs"
  by (induction xs) (simp_all add: changes_of_simps List.map_filter_simps split: option.splits)

abbreviation sweep_blocks where
  "sweep_blocks self previous e \<equiv>
     account_pnl_barrier_change_blocks self previous (sf_settings self) (membership_list (eng_groups e))
       (known_account_keys (eng_account_currencies e) @ active_holdings_accounts (sf_active self))
       (currency_of (eng_account_currencies e))"

lemma sweep_blocks_spec:
  assumes "hm_ok (eng_groups e)"
  shows "map_of (sweep_blocks self previous e) a = realized_verdict self previous e a"
    and "distinct (map fst (sweep_blocks self previous e))"
proof -
  let ?S = "swept_accounts (sfs_pnl_barriers (sf_settings self)) (sfs_pnl_barriers previous) self e"
  have eq: "sweep_blocks self previous e =
      List.map_filter (\<lambda>a. map_option (Pair a) (realized_verdict self previous e a)) (sorted_list_of_set ?S)"
    unfolding account_pnl_barrier_change_blocks_def changed_barriers_spec [OF assms] realized_verdict_def
    using changes_verdicts
      [of "\<lambda>account currency barrier. case account_pnl_entry_of self account of
         (state, provenance) \<Rightarrow> account_pnl_block_for_state currency state barrier provenance"]
    by (simp add: case_prod_beta)
  show "map_of (sweep_blocks self previous e) a = realized_verdict self previous e a"
    unfolding eq verdict_list(1) [OF distinct_sorted_list_of_set]
    by (simp add: realized_verdict_def changed_barrier_swept)
  show "distinct (map fst (sweep_blocks self previous e))"
    unfolding eq by (rule verdict_list(2)) simp
qed

lemma axis_changes_spec:
  assumes ok: "hm_ok (eng_groups e)"
    and changes: "changes = pnl_axis_barrier_changes self previous (sf_settings self) (membership_list (eng_groups e))
       (known_account_keys (eng_account_currencies e) @ active_holdings_accounts (sf_active self))
       (currency_of (eng_account_currencies e)) R"
  shows "map_of changes a =
      (if a \<in> set R \<or> list_all (\<lambda>b. b = None) (map (axis_change self previous e a) pnl_axes_ALL) then None
       else Some (state_group e a, state_currency e a, map (axis_change self previous e a) pnl_axes_ALL))"
    and "distinct (map fst changes)"
proof -
  define row where "row axis a = (if a \<in> set R then None else axis_change self previous e a axis)" for axis a
  define nt where "nt pos axis =
    fold (note_axis_change pos) (changes_of e (row axis) (sorted_list_of_set
      (swept_accounts (pnl_axis_barriers (sf_settings self) axis) (pnl_axis_barriers previous axis) self e)))"
    for pos axis
  define m where "m = nt 3 PositionTotal (nt 2 PositionUnrealized (nt 1 AccountTotal (nt 0 AccountUnrealized [])))"
  have get: "hm_get (nt pos axis n) a = noted e pos (row axis a) a (hm_get n a)" for pos axis n a
    unfolding nt_def note_changes(1) [OF distinct_sorted_list_of_set]
    by (auto simp: row_def axis_change_def changed_barrier_swept noted_def)
  have okay: "hm_ok n \<Longrightarrow> hm_ok (nt pos axis n)" for pos axis n
    unfolding nt_def by (rule note_changes(2)) simp_all
  have eq: "changes = map (\<lambda>account. (account, the (hm_get m account))) (sort (hm_keys m))"
    unfolding changes pnl_axis_barrier_changes_def changed_barriers_spec [OF ok] filter_changes m_def nt_def row_def
      axis_change_def pnl_axes_ALL_def
    by (simp add: Let_def numeral_3_eq_3 numeral_2_eq_2)
  have "hm_ok m" unfolding m_def by (intro okay) simp
  then show "distinct (map fst changes)" by (simp add: eq hm_ok_def comp_def)
  have "map_of changes a = hm_get m a"
    unfolding eq map_of_map_restrict using hm_keys_iff [of a m]
    by (cases "hm_get m a") (auto simp: restrict_map_def simp del: set_map)
  then show "map_of changes a =
      (if a \<in> set R \<or> list_all (\<lambda>b. b = None) (map (axis_change self previous e a) pnl_axes_ALL) then None
       else Some (state_group e a, state_currency e a, map (axis_change self previous e a) pnl_axes_ALL))"
    by (simp add: m_def get row_def noted_def pnl_axes_ALL_def numeral_eq_Suc split: option.splits)
qed

section \<open>The sweep of a publication\<close>

lemma keyed_verdicts:
  assumes "distinct (map fst xs)"
  shows "map_of (List.map_filter (\<lambda>p. map_option (Pair (fst p)) (h (fst p) (snd p))) xs) a =
      Option.bind (map_of xs a) (h a)"
    and "distinct (map fst (List.map_filter (\<lambda>p. map_option (Pair (fst p)) (h (fst p) (snd p))) xs))"
    and "set (map fst (List.map_filter (\<lambda>p. map_option (Pair (fst p)) (h (fst p) (snd p))) xs)) \<subseteq> set (map fst xs)"
proof -
  show 3: "set (map fst (List.map_filter (\<lambda>p. map_option (Pair (fst p)) (h (fst p) (snd p))) ys)) \<subseteq> set (map fst ys)" for ys
    by (induction ys) (auto simp: List.map_filter_simps split: option.splits)
  show "map_of (List.map_filter (\<lambda>p. map_option (Pair (fst p)) (h (fst p) (snd p))) xs) a = Option.bind (map_of xs a) (h a)"
    using assms
  proof (induction xs)
    case (Cons p xs)
    have "a = fst p \<Longrightarrow> map_of xs a = None" using Cons.prems by (auto simp: map_of_eq_None_iff)
    then show ?case using Cons by (cases p) (auto simp: List.map_filter_simps split: option.splits)
  qed (simp add: List.map_filter_simps)
  show "distinct (map fst (List.map_filter (\<lambda>p. map_option (Pair (fst p)) (h (fst p) (snd p))) xs))"
    using assms
  proof (induction xs)
    case (Cons p xs)
    then show ?case using 3 [of xs] by (auto simp: List.map_filter_simps split: option.splits)
  qed (simp add: List.map_filter_simps)
qed

lemma axis_fold:
  "fold (\<lambda>(account, g, currency, barriers). fold (record_sweep_block account) (option_list (h account (g, currency, barriers))))
     xs acc =
   run_sweep (List.map_filter (\<lambda>p. map_option (Pair (fst p)) (h (fst p) (snd p))) xs) acc"
  by (induction xs arbitrary: acc) (auto simp: List.map_filter_simps option_list_def split: option.splits)

lemma no_axis_changed:
  "list_all (\<lambda>b. b = None) bs \<Longrightarrow> pnl_axis_block_for_barriers D now self bs a g c carry = None"
  by (simp add: pnl_axis_block_for_barriers_def)

lemma sweep_list:
  assumes ok: "hm_ok (eng_groups e)"
  obtains L where "barrier_sweep D now self previous e = run_sweep L (eng_blocked e, [])"
    and "distinct (map fst L)" and "\<And>a. map_of L a = retune_verdict D now self previous e a"
proof -
  define L1 where "L1 = sweep_blocks self previous e"
  define changes where "changes = pnl_axis_barrier_changes self previous (sf_settings self)
      (membership_list (eng_groups e))
      (known_account_keys (eng_account_currencies e) @ active_holdings_accounts (sf_active self))
      (currency_of (eng_account_currencies e)) (map fst L1)"
  define h where "h a x = (case x of (g, c, bs) \<Rightarrow> pnl_axis_block_for_barriers D now self bs a g c True)" for a x
  define L2 where "L2 = List.map_filter (\<lambda>p. map_option (Pair (fst p)) (h (fst p) (snd p))) changes"
  note L1_spec = sweep_blocks_spec [OF ok, of self previous, folded L1_def]
  note spec = axis_changes_spec [OF ok changes_def]
  note L2_spec = keyed_verdicts [OF spec(2), of h, folded L2_def]
  have run: "barrier_sweep D now self previous e = run_sweep (L1 @ L2) (eng_blocked e, [])"
    using axis_fold [of h changes "run_sweep L1 (eng_blocked e, [])"]
    by (simp add: barrier_sweep_def Let_def L1_def [symmetric] changes_def [symmetric] L2_def
        apply_runtime_configuration_def h_def)
  have "a \<notin> set (map fst changes)" if "a \<in> set (map fst L1)" for a
    using spec(1) [of a] that by (simp add: map_of_eq_None_iff)
  then have distinct: "distinct (map fst (L1 @ L2))"
    using L1_spec(2) L2_spec(2,3) unfolding map_append distinct_append by blast
  have lookup: "map_of (L1 @ L2) a = retune_verdict D now self previous e a" for a
  proof (cases "realized_verdict self previous e a")
    case None
    then have "a \<notin> set (map fst L1)" using L1_spec(1) [of a] by (simp add: map_of_eq_None_iff)
    then have "map_of L2 a = pnl_axis_block_for_barriers D now self (map (axis_change self previous e a) pnl_axes_ALL) a
        (state_group e a) (state_currency e a) True"
      using L2_spec(1) [of a] spec(1) [of a] by (auto simp: h_def no_axis_changed)
    then show ?thesis using L1_spec(1) [of a] None by (simp add: map_add_def retune_verdict_def)
  next
    case (Some b)
    then have "a \<in> set (map fst L1)" using L1_spec(1) [of a] by (metis hm_keys_iff option.distinct(1))
    then have "map_of L2 a = None"
      using L2_spec(1) [of a] spec(1) [of a] by simp
    then show ?thesis using L1_spec(1) [of a] Some by (simp add: map_add_def retune_verdict_def)
  qed
  show thesis using that [OF run distinct lookup] .
qed

text \<open>
  (C15) A retune of the spot funds policy sweeps exactly the changed barriers. Publishing new settings
  stores them in the running policy, and each account then carries its earlier block, or else the
  verdict of the reference on it: the block of its realized P\&L under the barrier the change made
  effective for it, or else that of the first changed axis. Accounts whose barriers did not change are
  not judged again, blocks of groups and the global block stay, and the outcomes are exactly the
  blocks that were inserted.
\<close>

theorem retune_sweep_is_exact:
  assumes "hm_ok (eng_groups e)" and "flags_ok (eng_blocked e)"
    and "publish_spot_funds D now name self prepared e = (e', outcomes)"
  defines "tuned \<equiv> self\<lparr>sf_settings := pt_current prepared\<rparr>"
  shows "hm_get (eng_policy_state e') name = Some (SpotFundsEntry tuned) \<and>
    (\<forall>a. own_block (eng_blocked e') a =
       or_else (own_block (eng_blocked e) a) (retune_verdict D now tuned (pt_previous prepared) e a)) \<and>
    (\<forall>a b. \<lparr>abo_account_id = a, abo_block = b\<rparr> \<in> set outcomes \<longleftrightarrow>
       own_block (eng_blocked e) a = None \<and> own_block (eng_blocked e') a = Some b) \<and>
    spec_groups (abs_blocks (eng_blocked e')) = spec_groups (abs_blocks (eng_blocked e)) \<and>
    spec_global (abs_blocks (eng_blocked e')) = spec_global (abs_blocks (eng_blocked e)) \<and>
    flags_ok (eng_blocked e')"
proof -
  obtain L where run: "barrier_sweep D now tuned (pt_previous prepared) e = run_sweep L (eng_blocked e, [])"
    and distinct: "distinct (map fst L)"
    and lookup: "\<And>a. map_of L a = retune_verdict D now tuned (pt_previous prepared) e a"
    using sweep_list [OF assms(1), of D now tuned "pt_previous prepared"] by blast
  have e': "eng_blocked e' = fst (run_sweep L (eng_blocked e, []))" "outcomes = snd (run_sweep L (eng_blocked e, []))"
    "eng_policy_state e' = hm_insert (eng_policy_state e) name (SpotFundsEntry tuned)"
    using assms(3) run
    by (auto simp: publish_spot_funds_def tuned_def put_entry_def Let_def split: prod.splits)
  have own: "own_block (eng_blocked e') a = or_else (own_block (eng_blocked e) a) (map_of L a)" for a
    using recorded_sweep(1) [OF distinct, of "(eng_blocked e, [])" a] by (simp add: e')
  have out: "\<lparr>abo_account_id = a, abo_block = b\<rparr> \<in> set outcomes \<longleftrightarrow>
      own_block (eng_blocked e) a = None \<and> map_of L a = Some b" for a b
    using recorded_sweep(2) [OF distinct, of "(eng_blocked e, [])"] distinct
    by (auto simp: e' block_outcome_def image_iff intro!: bexI [of _ "(a, b)"])
  show ?thesis
    using own out recorded_sweep_frame [where L = L and acc = "(eng_blocked e, [])"] assms(2)
    by (auto simp: e' lookup or_else_def)
qed

section \<open>Failures and memberships\<close>

lemma hm_insert_same: "hm_get m k = Some v \<Longrightarrow> hm_insert m k v = m"
  by (induction m) (auto split: if_splits)

lemma put_entry_same: "hm_get (eng_policy_state e) name = Some entry \<Longrightarrow> put_entry name entry e = e"
  by (simp add: put_entry_def hm_insert_same)

lemma config_entry_of_Inr: "config_entry_of m name = Inr entry \<longleftrightarrow> hm_get m name = Some entry"
  by (auto simp: config_entry_of_def ok_or_def split: option.splits)

lemma cell_update_error: "snd (cell_update v f) = Inl err \<Longrightarrow> fst (cell_update v f) = v"
  by (auto simp: cell_update_def split: prod.splits sum.splits)

lemmas configure_defs = configure_rate_limit_def configure_pnl_bounds_killswitch_def configure_order_size_limit_def
  configure_set_account_pnl_def configure_spot_funds_def set_spot_funds_account_pnl_def

text \<open>
  (C17) A reconfiguration that fails changes nothing: for an unknown name, for a policy of another type
  and for an update that its closure rejects, every operation of the configurator leaves the engine,
  its settings, ledgers and blocks, exactly as it was.
\<close>

theorem failed_reconfiguration_changes_nothing:
  "(snd (configure_rate_limit name f_rate e) = Inl err \<longrightarrow> fst (configure_rate_limit name f_rate e) = e) \<and>
   (snd (configure_pnl_bounds_killswitch name f_pnl e) = Inl err \<longrightarrow>
      fst (configure_pnl_bounds_killswitch name f_pnl e) = e) \<and>
   (snd (configure_order_size_limit name f_size e) = Inl err \<longrightarrow> fst (configure_order_size_limit name f_size e) = e) \<and>
   (snd (configure_set_account_pnl name account settlement p e) = Inl err \<longrightarrow>
      fst (configure_set_account_pnl name account settlement p e) = e) \<and>
   (snd (configure_spot_funds D now names name f_spot e) = Inl err \<longrightarrow>
      fst (configure_spot_funds D now names name f_spot e) = e) \<and>
   (snd (set_spot_funds_account_pnl D now names name account state e) = Inl err \<longrightarrow>
      fst (set_spot_funds_account_pnl D now names name account state e) = e)"
proof (intro conjI)
  show "snd (configure_rate_limit name f_rate e) = Inl err \<longrightarrow> fst (configure_rate_limit name f_rate e) = e"
    using cell_update_error [of _ f_rate]
    by (auto simp: configure_defs config_entry_of_Inr put_entry_same map_err_eq_Inl case_prod_beta
        split: sum.splits config_entry.splits)
  show "snd (configure_pnl_bounds_killswitch name f_pnl e) = Inl err \<longrightarrow>
      fst (configure_pnl_bounds_killswitch name f_pnl e) = e"
    using cell_update_error [of _ f_pnl]
    by (auto simp: configure_defs config_entry_of_Inr put_entry_same map_err_eq_Inl case_prod_beta
        split: sum.splits config_entry.splits)
  show "snd (configure_order_size_limit name f_size e) = Inl err \<longrightarrow> fst (configure_order_size_limit name f_size e) = e"
    using cell_update_error [of _ f_size]
    by (auto simp: configure_defs config_entry_of_Inr put_entry_same map_err_eq_Inl case_prod_beta
        split: sum.splits config_entry.splits)
qed (auto simp: configure_defs case_prod_beta Let_def split: sum.splits config_entry.splits)

text \<open>The reference of a change of membership: the first block that a configured policy reports on the account.\<close>

definition membership_verdict :: "config_registry engine \<Rightarrow> config_registry engine \<Rightarrow> account_id \<Rightarrow> account_block option" where
  "membership_verdict e e' a =
     first_block (map (entry_membership_change_block a (state_group e a) (state_group e' a)
       (state_currency e a) (state_currency e' a)) (map snd (eng_policy_state e)))"

lemma first_block_filter: "first_block (map f xs) = (case List.map_filter f xs of b # _ \<Rightarrow> Some b | [] \<Rightarrow> None)"
  by (induction xs) (auto simp: List.map_filter_simps split: option.splits)

lemma first_block_Some: "Some b \<in> set bs \<Longrightarrow> first_block bs \<noteq> None"
  by (induction bs rule: first_block.induct) auto

lemma fold_block_account:
  "own_block (fold (\<lambda>block b. fst (block_account b a block)) blocks b0) x =
     (if x = a then or_else (own_block b0 a) (case blocks of b # _ \<Rightarrow> Some b | [] \<Rightarrow> None) else own_block b0 x)"
  "spec_groups (abs_blocks (fold (\<lambda>block b. fst (block_account b a block)) blocks b0)) = spec_groups (abs_blocks b0)"
  "spec_global (abs_blocks (fold (\<lambda>block b. fst (block_account b a block)) blocks b0)) = spec_global (abs_blocks b0)"
  "flags_ok b0 \<Longrightarrow> flags_ok (fold (\<lambda>block b. fst (block_account b a block)) blocks b0)"
  by (induction blocks arbitrary: b0)
    (auto simp: block_account_abs flags_ok_block keep_first_def or_else_def split: option.splits list.splits)

lemma barrier_change_frame [simp]:
  "eng_groups (block_barrier_change p e) = eng_groups e"
  "eng_account_currencies (block_barrier_change p e) = eng_account_currencies e"
  "eng_policy_state (block_barrier_change p e) = eng_policy_state e"
  "flags_ok (eng_blocked e) \<Longrightarrow> flags_ok (eng_blocked (block_barrier_change p e))"
  by (simp_all add: block_barrier_change_def Let_def case_prod_beta fold_block_account)

lemma barrier_change_own:
  "own_block (eng_blocked (block_barrier_change (a, state_group e0 a) e)) x =
     (if x = a
      then or_else (own_block (eng_blocked e) a) (first_block (map (entry_membership_change_block a (state_group e0 a)
        (state_group e a) (currency_of (eng_account_currencies e) a (state_group e0 a)) (state_currency e a))
          (map snd (eng_policy_state e))))
      else own_block (eng_blocked e) x)"
  by (simp add: block_barrier_change_def Let_def fold_block_account first_block_filter
      account_pnl_membership_change_blocks_def state_group_def state_currency_def del: map_map)

lemma own_block_blocks: "flags_ok b \<Longrightarrow> own_block b a \<noteq> None \<Longrightarrow> is_blocked b groups a"
  by (auto simp: is_blocked_iff spec_cause_def)

lemma verdict_of_entry:
  assumes "hm_get (eng_policy_state e) name = Some (SpotFundsEntry self)"
    and "pnl_barrier_for (sf_settings self) a (state_group e a) (state_currency e a) \<noteq>
      pnl_barrier_for (sf_settings self) a (state_group e' a) (state_currency e' a)"
    and "pnl_barrier_for (sf_settings self) a (state_group e' a) (state_currency e' a) = Some b"
    and "account_pnl_block_for_state (state_currency e' a) (fst (account_pnl_entry_of self a)) b
      (snd (account_pnl_entry_of self a)) \<noteq> None"
  shows "membership_verdict e e' a \<noteq> None"
proof -
  have "SpotFundsEntry self \<in> set (map snd (eng_policy_state e))"
    using map_of_SomeD [OF assms(1)] by force
  moreover obtain c where "entry_membership_change_block a (state_group e a) (state_group e' a)
      (state_currency e a) (state_currency e' a) (SpotFundsEntry self) = Some c"
    using assms(2-4) by (auto simp: account_pnl_membership_change_block_def Let_def case_prod_beta)
  ultimately show ?thesis
    unfolding membership_verdict_def by (metis first_block_Some image_eqI set_map)
qed

lemma barrier_changes_own:
  assumes "eng_groups e = eng_groups e'" and "eng_account_currencies e = eng_account_currencies e'"
    and "eng_policy_state e = eng_policy_state e'" and "eng_account_currencies e0 = eng_account_currencies e'"
    and "eng_policy_state e0 = eng_policy_state e'"
  shows "own_block (eng_blocked (block_effective_barrier_changes (map (\<lambda>a. (a, state_group e0 a)) accounts) e)) x =
    or_else (own_block (eng_blocked e) x) (if x \<in> set accounts then membership_verdict e0 e' x else None)"
  using assms
proof (induction accounts arbitrary: e)
  case (Cons a accounts)
  have same: "state_group e a = state_group e' a" "state_currency e a = state_currency e' a"
    "currency_of (eng_account_currencies e) a (state_group e0 a) = state_currency e0 a"
    using Cons.prems by (simp_all add: state_group_def state_currency_def)
  have "own_block (eng_blocked (block_barrier_change (a, state_group e0 a) e)) x =
      or_else (own_block (eng_blocked e) x) (if x = a then membership_verdict e0 e' x else None)"
    unfolding barrier_change_own same using Cons.prems by (simp add: membership_verdict_def)
  moreover have "own_block (eng_blocked (block_effective_barrier_changes (map (\<lambda>a. (a, state_group e0 a)) accounts)
        (block_barrier_change (a, state_group e0 a) e))) x =
      or_else (own_block (eng_blocked (block_barrier_change (a, state_group e0 a) e)) x)
        (if x \<in> set accounts then membership_verdict e0 e' x else None)"
    using Cons.prems by (intro Cons.IH) simp_all
  ultimately show ?case
    by (auto simp: block_effective_barrier_changes_def or_else_def split: option.splits)
qed (simp add: block_effective_barrier_changes_def)

lemma barrier_changes_frame:
  "eng_groups (block_effective_barrier_changes ps e) = eng_groups e"
  "eng_account_currencies (block_effective_barrier_changes ps e) = eng_account_currencies e"
  "eng_policy_state (block_effective_barrier_changes ps e) = eng_policy_state e"
  "flags_ok (eng_blocked e) \<Longrightarrow> flags_ok (eng_blocked (block_effective_barrier_changes ps e))"
  by (induction ps arbitrary: e) (simp_all add: block_effective_barrier_changes_def)

lemma moved_accounts:
  assumes m: "e' = block_effective_barrier_changes (map (\<lambda>a. (a, state_group e a)) accounts) (e\<lparr>eng_groups := m\<rparr>)"
  shows "own_block (eng_blocked e') a =
      or_else (own_block (eng_blocked e) a) (if a \<in> set accounts then membership_verdict e e' a else None)"
    and "flags_ok (eng_blocked e) \<Longrightarrow> flags_ok (eng_blocked e')"
    and "eng_policy_state e' = eng_policy_state e"
proof -
  have frame: "eng_groups e' = m" "eng_account_currencies e' = eng_account_currencies e"
    and state: "eng_policy_state e' = eng_policy_state e"
    unfolding m barrier_changes_frame by simp_all
  then have "own_block (eng_blocked (block_effective_barrier_changes (map (\<lambda>a. (a, state_group e a)) accounts)
        (e\<lparr>eng_groups := m\<rparr>))) a =
      or_else (own_block (eng_blocked (e\<lparr>eng_groups := m\<rparr>)) a)
        (if a \<in> set accounts then membership_verdict e e' a else None)"
    by (intro barrier_changes_own) simp_all
  then show "own_block (eng_blocked e') a =
      or_else (own_block (eng_blocked e) a) (if a \<in> set accounts then membership_verdict e e' a else None)"
    unfolding m [symmetric] by simp
  show "flags_ok (eng_blocked e) \<Longrightarrow> flags_ok (eng_blocked e')" by (simp add: m barrier_changes_frame)
  show "eng_policy_state e' = eng_policy_state e" by (rule state)
qed

text \<open>
  (C16) A change of membership re-checks exactly the accounts it moves. When a registration or a removal
  succeeds, a listed account whose effective barrier the change replaces (or whose currency newly
  mismatches it) and whose stored P\&L the new barrier forbids is blocked in the same call; the other
  blocks of accounts are those from before, and the policies keep their state. When it fails, the
  engine is as before.
\<close>

theorem membership_change_rechecks_barriers:
  assumes "accounts_register_group accounts g e = (e', r) \<or> accounts_unregister_group accounts g e = (e', r)"
    and "flags_ok (eng_blocked e)"
  shows "(r \<noteq> Inr () \<longrightarrow> e' = e) \<and>
    (r = Inr () \<longrightarrow>
      (\<forall>a. own_block (eng_blocked e') a =
        or_else (own_block (eng_blocked e) a) (if a \<in> set accounts then membership_verdict e e' a else None)) \<and>
      (\<forall>a name self b. a \<in> set accounts \<and> hm_get (eng_policy_state e) name = Some (SpotFundsEntry self) \<and>
         pnl_barrier_for (sf_settings self) a (state_group e a) (state_currency e a) \<noteq>
           pnl_barrier_for (sf_settings self) a (state_group e' a) (state_currency e' a) \<and>
         pnl_barrier_for (sf_settings self) a (state_group e' a) (state_currency e' a) = Some b \<and>
         account_pnl_block_for_state (state_currency e' a) (fst (account_pnl_entry_of self a)) b
           (snd (account_pnl_entry_of self a)) \<noteq> None \<longrightarrow>
         is_blocked (eng_blocked e') (eng_groups e') a)) \<and>
    eng_policy_state e' = eng_policy_state e"
proof -
  have unchanged: "register_group (eng_groups e) accounts g = (m, Inl err) \<Longrightarrow> m = eng_groups e"
    "unregister_group (eng_groups e) accounts g = (m, Inl err) \<Longrightarrow> m = eng_groups e" for m err
    by (auto simp: register_group_def unregister_group_def split: if_splits option.splits)
  have failed: "r \<noteq> Inr () \<longrightarrow> e' = e"
    using assms(1) unchanged
    by (auto simp: accounts_register_group_def accounts_unregister_group_def Let_def split: prod.splits sum.splits)
  have succeeded: "\<exists>m. e' = block_effective_barrier_changes (map (\<lambda>a. (a, state_group e a)) accounts) (e\<lparr>eng_groups := m\<rparr>)"
    if "r = Inr ()"
    using assms(1) that
    by (auto simp: accounts_register_group_def accounts_unregister_group_def state_group_def Let_def
        split: prod.splits sum.splits)
  show ?thesis
  proof (cases "r = Inr ()")
    case True
    obtain m where m: "e' = block_effective_barrier_changes (map (\<lambda>a. (a, state_group e a)) accounts) (e\<lparr>eng_groups := m\<rparr>)"
      using succeeded [OF True] by blast
    note own = moved_accounts(1) [OF m]
    have okay: "flags_ok (eng_blocked e')" using moved_accounts(2) [OF m assms(2)] .
    have "is_blocked (eng_blocked e') (eng_groups e') a"
      if "a \<in> set accounts" and "membership_verdict e e' a \<noteq> None" for a
      using own [of a] that by (intro own_block_blocks [OF okay]) (auto simp: or_else_def split: option.splits)
    then show ?thesis
      using failed own moved_accounts(3) [OF m] True verdict_of_entry [of e _ _ _ e'] by blast
  qed (use failed in simp)
qed

section \<open>An account that has already lost\<close>

definition usd_stop :: spot_pnl_barrier where
  "usd_stop = \<lparr>spb_currency = ''USD'', spb_lower_bound = Some (- 10), spb_upper_bound = None\<rparr>"

definition lost_policy :: "pnl_barrier_set \<Rightarrow> spot_funds" where
  "lost_policy barriers =
     (spot_funds_new (spot_sample_settings\<lparr>sfs_pnl_barriers := barriers\<rparr>) None 1)
       \<lparr>sf_pnl := [(7, \<lparr>ape_state = PnlState_Value (- 50), ape_assertion_token = None\<rparr>)]\<rparr>"

definition lost_engine :: "pnl_barrier_set \<Rightarrow> config_registry engine" where
  "lost_engine barriers =
     \<lparr>eng_policy_state = [(''Spot'', SpotFundsEntry (lost_policy barriers))], eng_blocked = blocked_accounts_new,
      eng_groups = [], eng_account_currencies = account_currencies_new\<rparr>"

definition global_stop :: pnl_barrier_set where
  "global_stop = \<lparr>pbs_global = Some usd_stop, pbs_groups = [], pbs_accounts = []\<rparr>"

definition group_stop :: pnl_barrier_set where
  "group_stop = \<lparr>pbs_global = None,
     pbs_groups = [(3, \<lparr>sgb_barrier = usd_stop, sgb_account_group_id = 3\<rparr>)], pbs_accounts = []\<rparr>"

lemma lost_entry:
  "account_pnl_entry_of (lost_policy b) 7 = (PnlState_Value (- 50), None)"
  "account_pnl_block_for_state None (PnlState_Value (- 50)) usd_stop None \<noteq> None"
  by (simp_all add: lost_policy_def account_pnl_entry_of_def storage_with_def account_pnl_block_for_state_def
      account_pnl_barrier_currency_mismatch_block_def filter_option_def labelled_pnl_block_for_state_def usd_stop_def
      breached_sides_def)

lemma lost_currency: "currency_of (eng_account_currencies (lost_engine b)) 7 g = None"
  by (cases g) (simp_all add: lost_engine_def currency_of_def account_currencies_new_def account_currency_of_def
      group_currency_def storage_with_def)

definition arm_stop :: "spot_funds_settings prepared_transition" where
  "arm_stop =
     \<lparr>pt_previous = sf_settings (lost_policy barrier_set_default), pt_current = sf_settings (lost_policy global_stop)\<rparr>"

lemma armed_policy: "(lost_policy barrier_set_default)\<lparr>sf_settings := pt_current arm_stop\<rparr> = lost_policy global_stop"
  by (simp add: lost_policy_def arm_stop_def spot_funds_new_def)

lemma armed_verdict:
  "realized_verdict (lost_policy global_stop) (pt_previous arm_stop) (lost_engine barrier_set_default) 7 \<noteq> None"
proof -
  have cur: "state_currency (lost_engine barrier_set_default) 7 = None"
    by (simp add: state_currency_def lost_currency)
  have "changed_barrier (sfs_pnl_barriers (sf_settings (lost_policy global_stop))) (sfs_pnl_barriers (pt_previous arm_stop))
      (lost_policy global_stop) (lost_engine barrier_set_default) 7 = Some usd_stop"
    unfolding changed_barrier_def cur
    by (simp add: swept_accounts_def arm_stop_def lost_policy_def spot_funds_new_def global_stop_def
        barrier_set_default_def barrier_for_def filter_option_def matches_currency_def state_group_def
        lost_engine_def group_of_def storage_with_def)
  then show ?thesis
    unfolding realized_verdict_def using lost_entry by (simp add: cur)
qed

theorem retune_sweep_is_exact_witness:
  "own_block (eng_blocked (fst (publish_spot_funds exact96_ops 0 ''Spot'' (lost_policy barrier_set_default) arm_stop
     (lost_engine barrier_set_default)))) 7 \<noteq> None"
proof -
  have "hm_ok (eng_groups (lost_engine barrier_set_default))" "flags_ok (eng_blocked (lost_engine barrier_set_default))"
    by (simp_all add: lost_engine_def flags_ok_new)
  from retune_sweep_is_exact [OF this prod.collapse [symmetric], of exact96_ops 0 "''Spot''"
      "lost_policy barrier_set_default" arm_stop]
  show ?thesis
    using armed_verdict by (auto simp: armed_policy retune_verdict_def or_else_def split: option.splits)
qed

theorem failed_reconfiguration_changes_nothing_witness:
  "fst (configure_rate_limit ''Spot'' (\<lambda>s. (rearm s, Inr ())) (lost_engine global_stop)) = lost_engine global_stop"
proof -
  have "snd (configure_rate_limit ''Spot'' (\<lambda>s. (rearm s, Inr ())) (lost_engine global_stop)) =
      Inl (PolicyTypeMismatch ''Spot'' RateLimitType SpotFundsType)"
    by (simp add: configure_rate_limit_def lost_engine_def config_entry_of_def type_mismatch_def)
  then show ?thesis using failed_reconfiguration_changes_nothing by blast
qed

theorem membership_change_rechecks_barriers_witness:
  "is_blocked (eng_blocked (fst (accounts_register_group [7] 3 (lost_engine group_stop))))
     (eng_groups (fst (accounts_register_group [7] 3 (lost_engine group_stop)))) 7"
proof -
  let ?e = "lost_engine group_stop" and ?e' = "fst (accounts_register_group [7] 3 (lost_engine group_stop))"
  have run: "accounts_register_group [7] 3 ?e = (?e', Inr ())"
    by (simp add: accounts_register_group_def register_group_def lost_engine_def storage_with_def
        DEFAULT_ACCOUNT_GROUP_def Let_def)
  have groups: "state_group ?e 7 = None" "state_group ?e' 7 = Some 3"
    by (simp_all add: accounts_register_group_def register_group_def lost_engine_def storage_with_def
        DEFAULT_ACCOUNT_GROUP_def Let_def barrier_changes_frame state_group_def group_of_alt with_mut_lookup)
  have cur: "state_currency ?e 7 = None" "state_currency ?e' 7 = None"
    using lost_currency
    by (simp_all add: state_currency_def accounts_register_group_def register_group_def lost_engine_def
        storage_with_def DEFAULT_ACCOUNT_GROUP_def Let_def barrier_changes_frame)
  have barriers: "pnl_barrier_for (sf_settings (lost_policy group_stop)) 7 None None = None"
    "pnl_barrier_for (sf_settings (lost_policy group_stop)) 7 (Some 3) None = Some usd_stop"
    by (simp_all add: pnl_barrier_for_def barrier_for_def lost_policy_def spot_funds_new_def group_stop_def
        filter_option_def matches_currency_def)
  have "hm_get (eng_policy_state ?e) ''Spot'' = Some (SpotFundsEntry (lost_policy group_stop))"
    "flags_ok (eng_blocked ?e)"
    by (simp_all add: lost_engine_def flags_ok_new)
  then show ?thesis
    using membership_change_rechecks_barriers [OF disjI1 [OF run]] lost_entry barriers groups cur
    by (metis fst_conv list.set_intros(1) option.distinct(1) snd_conv)
qed

end
