(* ===== verification/Engine_Builder.thy ===== *)
theory Engine_Builder
  imports Reconfiguration
begin

text \<open>
  Building an engine (\<open>core/engine_builder.rs\<close>): policies are collected with the settings cell of
  each built-in one, and the build refuses repeated names and repeated explicit groups. The choice of
  the synchronization mode is a type in the code and has no counterpart here.
\<close>

section \<open>The builder\<close>

record built_policy =
  bp_name :: string
  bp_group_id :: policy_group_id
  bp_config_entry :: "config_entry option"

datatype engine_build_error = DuplicatePolicyName string | DuplicatePolicyGroupId policy_group_id

record engine_builder =
  eb_policies :: "built_policy list"
  eb_config_entries :: "(string \<times> config_entry) list"

definition engine_builder_new :: engine_builder where
  "engine_builder_new = \<lparr>eb_policies = [], eb_config_entries = []\<rparr>"

definition builder_pre_trade :: "engine_builder \<Rightarrow> built_policy \<Rightarrow> engine_builder" where
  "builder_pre_trade self policy =
     (let self = (case bp_config_entry policy of
            Some entry \<Rightarrow> self\<lparr>eb_config_entries := eb_config_entries self @ [(bp_name policy, entry)]\<rparr>
          | None \<Rightarrow> self)
      in self\<lparr>eb_policies := eb_policies self @ [policy]\<rparr>)"

fun ensure_unique_policy_names :: "string set \<Rightarrow> string list \<Rightarrow> engine_build_error + unit" where
  "ensure_unique_policy_names unique [] = Inr ()"
| "ensure_unique_policy_names unique (name # names) =
     (if name \<in> unique then Inl (DuplicatePolicyName name)
      else ensure_unique_policy_names (insert name unique) names)"

fun ensure_unique_group_ids :: "policy_group_id set \<Rightarrow> policy_group_id list \<Rightarrow> engine_build_error + unit" where
  "ensure_unique_group_ids unique [] = Inr ()"
| "ensure_unique_group_ids unique (g # gs) =
     (if g = DEFAULT_POLICY_GROUP_ID then ensure_unique_group_ids unique gs
      else if g \<in> unique then Inl (DuplicatePolicyGroupId g)
      else ensure_unique_group_ids (insert g unique) gs)"

definition config_registry_from_entries :: "(string \<times> config_entry) list \<Rightarrow> config_registry" where
  "config_registry_from_entries entries = fold (\<lambda>(name, entry) m. hm_insert m name entry) entries []"

definition builder_build ::
  "engine_builder \<Rightarrow> engine_build_error + (built_policy list \<times> config_registry engine)" where
  "builder_build self =
     bind_res (ensure_unique_policy_names {} (map bp_name (eb_policies self))) (\<lambda>_.
     bind_res (ensure_unique_group_ids {} (map bp_group_id (eb_policies self))) (\<lambda>_.
       Inr (eb_policies self,
         \<lparr>eng_policy_state = config_registry_from_entries (eb_config_entries self),
          eng_blocked = blocked_accounts_new, eng_groups = [], eng_account_currencies = account_currencies_new\<rparr>)))"

section \<open>What a build guarantees\<close>

abbreviation explicit_groups :: "built_policy list \<Rightarrow> policy_group_id list" where
  "explicit_groups ps \<equiv> filter (\<lambda>g. g \<noteq> DEFAULT_POLICY_GROUP_ID) (map bp_group_id ps)"

lemma unique_names: "is_ok (ensure_unique_policy_names unique names) \<longleftrightarrow> distinct names \<and> set names \<inter> unique = {}"
  by (induction unique names rule: ensure_unique_policy_names.induct) (auto simp: is_ok_def)

lemma unique_groups:
  "is_ok (ensure_unique_group_ids unique gs) \<longleftrightarrow>
     distinct (filter (\<lambda>g. g \<noteq> DEFAULT_POLICY_GROUP_ID) gs) \<and> set (filter (\<lambda>g. g \<noteq> DEFAULT_POLICY_GROUP_ID) gs) \<inter> unique = {}"
  by (induction unique gs rule: ensure_unique_group_ids.induct) (auto simp: is_ok_def)

lemma registry_lookup:
  "distinct (map fst entries) \<Longrightarrow>
     hm_get (fold (\<lambda>(name, entry) m. hm_insert m name entry) entries m) name =
       (case map_of entries name of Some entry \<Rightarrow> Some entry | None \<Rightarrow> hm_get m name)"
proof (induction entries arbitrary: m)
  case (Cons p entries)
  have "map_of entries (fst p) = None" using Cons.prems by (simp add: map_of_eq_None_iff)
  then show ?case using Cons by (cases p) (auto split: option.splits)
qed simp

lemma collected:
  "eb_policies (foldl builder_pre_trade b ps) = eb_policies b @ ps"
  "eb_config_entries (foldl builder_pre_trade b ps) =
     eb_config_entries b @ List.map_filter (\<lambda>p. map_option (Pair (bp_name p)) (bp_config_entry p)) ps"
  by (induction ps arbitrary: b)
    (auto simp: builder_pre_trade_def Let_def List.map_filter_simps split: option.splits)

lemma built_in_entries:
  assumes "distinct (map bp_name ps)"
  defines "entries \<equiv> List.map_filter (\<lambda>p. map_option (Pair (bp_name p)) (bp_config_entry p)) ps"
  shows "distinct (map fst entries)"
    and "map_of entries name = Some entry \<longleftrightarrow> (\<exists>p \<in> set ps. bp_name p = name \<and> bp_config_entry p = Some entry)"
proof -
  have eq: "entries = map (\<lambda>p. (bp_name p, the (bp_config_entry p))) (filter (\<lambda>p. bp_config_entry p \<noteq> None) ps)"
    unfolding entries_def List.map_filter_def
    by (auto intro!: map_cong filter_cong)
  show distinct: "distinct (map fst entries)"
    using assms(1) by (simp add: eq comp_def distinct_map_filter)
  show "map_of entries name = Some entry \<longleftrightarrow> (\<exists>p \<in> set ps. bp_name p = name \<and> bp_config_entry p = Some entry)"
    unfolding map_of_eq_Some_iff [OF distinct] by (auto simp: eq)
qed

text \<open>
  A built engine is addressable. A build succeeds exactly when policy names and explicit policy
  groups are unique; the engine then runs the policies in the order they were added, without blocks,
  groups or currencies, its registry has under a name exactly the cell of the built-in policy with that
  name, and every name of the registry is the name of a policy, so that a retune reaches it.
\<close>

lemma built_engine_is_addressable:
  "(is_ok (builder_build (foldl builder_pre_trade engine_builder_new ps)) \<longleftrightarrow>
      distinct (map bp_name ps) \<and> distinct (explicit_groups ps)) \<and>
   (\<forall>policies e. builder_build (foldl builder_pre_trade engine_builder_new ps) = Inr (policies, e) \<longrightarrow>
      policies = ps \<and> flags_ok (eng_blocked e) \<and> spec_idle (abs_blocks (eng_blocked e)) \<and> eng_groups e = [] \<and>
      (\<forall>name entry. hm_get (eng_policy_state e) name = Some entry \<longleftrightarrow>
         (\<exists>p \<in> set ps. bp_name p = name \<and> bp_config_entry p = Some entry)) \<and>
      (\<forall>name entry. hm_get (eng_policy_state e) name = Some entry \<longrightarrow>
         pre_trade_policy (map bp_name policies) name = Inr name))"
proof -
  let ?b = "foldl builder_pre_trade engine_builder_new ps"
  let ?entries = "List.map_filter (\<lambda>p. map_option (Pair (bp_name p)) (bp_config_entry p)) ps"
  have parts: "eb_policies ?b = ps" "eb_config_entries ?b = ?entries"
    by (simp_all add: collected engine_builder_new_def)
  have ok: "is_ok (builder_build ?b) \<longleftrightarrow> distinct (map bp_name ps) \<and> distinct (explicit_groups ps)"
    using unique_names [of "{}" "map bp_name ps"] unique_groups [of "{}" "map bp_group_id ps"]
    by (auto simp: builder_build_def parts is_ok_iff bind_res_eq_Inr)
  have lookup: "hm_get (config_registry_from_entries ?entries) name = Some entry \<longleftrightarrow>
      (\<exists>p \<in> set ps. bp_name p = name \<and> bp_config_entry p = Some entry)"
    if "distinct (map bp_name ps)" for name entry
    using registry_lookup [OF built_in_entries(1) [OF that], of "[]" name] built_in_entries(2) [OF that, of name entry]
    by (auto simp: config_registry_from_entries_def split: option.splits)
  have found: "find (\<lambda>n. n = name) xs = Some name" if "name \<in> set xs" for name :: string and xs
    using that by (induction xs) auto
  have built: "policies = ps \<and> e = \<lparr>eng_policy_state = config_registry_from_entries ?entries,
      eng_blocked = blocked_accounts_new, eng_groups = [], eng_account_currencies = account_currencies_new\<rparr> \<and>
      distinct (map bp_name ps)"
    if "builder_build ?b = Inr (policies, e)" for policies e
  proof -
    have "is_ok (builder_build ?b)" using that by simp
    then have "distinct (map bp_name ps)" using ok by simp
    then show ?thesis using that by (auto simp: builder_build_def parts bind_res_eq_Inr)
  qed
  have idle: "spec_idle (abs_blocks blocked_accounts_new)"
    by (auto simp: spec_idle_def abs_blocks_def blocked_accounts_new_def)
  show ?thesis
    using ok built lookup found idle flags_ok_new by (auto simp: pre_trade_policy_def ok_or_def)
qed

end
