(* ===== verification/Reference_Book.thy ===== *)
theory Reference_Book
  imports Market_Data
begin

text \<open>
  The reference book (\<open>core/reference_book.rs\<close>): instruments with stable identifiers and their
  settlement schemes. The search for an automatic identifier is the loop of the market data registry,
  which has the same text; it wraps at \<open>u64\<close> as a release build does.
\<close>

section \<open>Settlement\<close>

datatype settlement_unit = BusinessDays | CalendarDays

record settlement_lag =
  sl_n :: u64
  sl_unit :: settlement_unit

record settlement_scheme =
  ss_delivery :: settlement_lag
  ss_payment :: settlement_lag

definition settlement_lag_new :: "u64 \<Rightarrow> settlement_unit \<Rightarrow> settlement_lag" where
  "settlement_lag_new n unit = \<lparr>sl_n = n, sl_unit = unit\<rparr>"

definition settlement_scheme_new :: "settlement_lag \<Rightarrow> settlement_lag \<Rightarrow> settlement_scheme" where
  "settlement_scheme_new delivery payment = \<lparr>ss_delivery = delivery, ss_payment = payment\<rparr>"

definition settlement_scheme_uniform :: "u64 \<Rightarrow> settlement_scheme" where
  "settlement_scheme_uniform n =
     (let lag = settlement_lag_new n BusinessDays in settlement_scheme_new lag lag)"

section \<open>The book\<close>

datatype reference_book_registration_error =
  BookDuplicateId instrument_id
| BookDuplicateInstrument instrument

record unknown_reference_book_instrument_id =
  unknown_book_id :: instrument_id

record reference_book_entry =
  rbe_settlement_scheme :: "settlement_scheme option"

record reference_book =
  rb_by_id :: "(instrument_id, reference_book_entry) hash_map"
  rb_by_instrument :: "(instrument, instrument_id) hash_map"
  rb_next_auto :: u64

definition reference_book_new :: reference_book where
  "reference_book_new = \<lparr>rb_by_id = [], rb_by_instrument = [], rb_next_auto = 0\<rparr>"

definition book_insert :: "reference_book \<Rightarrow> instrument \<Rightarrow> instrument_id \<Rightarrow> reference_book" where
  "book_insert self i known =
     (let self = self\<lparr>rb_by_instrument := hm_insert (rb_by_instrument self) i known\<rparr>;
          self = self\<lparr>rb_by_id := hm_insert (rb_by_id self) known \<lparr>rbe_settlement_scheme = None\<rparr>\<rparr>
      in if rb_next_auto self = known then self\<lparr>rb_next_auto := rb_next_auto self + 1\<rparr> else self)"

definition book_next_auto_id :: "reference_book \<Rightarrow> (reference_book \<times> instrument_id) option" where
  "book_next_auto_id self =
     map_option (\<lambda>(candidate, n). (self\<lparr>rb_next_auto := n\<rparr>, candidate))
       (next_auto_id_loop (rb_by_id self) (rb_next_auto self))"

definition book_register ::
  "reference_book \<Rightarrow> instrument \<Rightarrow>
   (reference_book \<times> (reference_book_registration_error + instrument_id)) option" where
  "book_register self i =
     (if hm_get (rb_by_instrument self) i \<noteq> None then Some (self, Inl (BookDuplicateInstrument i))
      else map_option (\<lambda>(self, known). (book_insert self i known, Inr known)) (book_next_auto_id self))"

definition book_register_with_id ::
  "reference_book \<Rightarrow> instrument \<Rightarrow> instrument_id \<Rightarrow>
   reference_book \<times> (reference_book_registration_error + instrument_id)" where
  "book_register_with_id self i known =
     (if hm_get (rb_by_instrument self) i \<noteq> None then (self, Inl (BookDuplicateInstrument i))
      else if hm_get (rb_by_id self) known \<noteq> None then (self, Inl (BookDuplicateId known))
      else (book_insert self i known, Inr known))"

definition book_resolve :: "reference_book \<Rightarrow> instrument \<Rightarrow> instrument_id option" where
  "book_resolve self i = hm_get (rb_by_instrument self) i"

definition book_with_entry ::
  "reference_book \<Rightarrow> instrument_id \<Rightarrow> settlement_scheme option \<Rightarrow>
   reference_book \<times> (unknown_reference_book_instrument_id + unit)" where
  "book_with_entry self known scheme =
     (case hm_get (rb_by_id self) known of
        None \<Rightarrow> (self, Inl \<lparr>unknown_book_id = known\<rparr>)
      | Some entry \<Rightarrow>
          (self\<lparr>rb_by_id := hm_insert (rb_by_id self) known (entry\<lparr>rbe_settlement_scheme := scheme\<rparr>)\<rparr>, Inr ()))"

definition book_set_settlement_scheme ::
  "reference_book \<Rightarrow> instrument_id \<Rightarrow> settlement_scheme \<Rightarrow>
   reference_book \<times> (unknown_reference_book_instrument_id + unit)" where
  "book_set_settlement_scheme self known scheme = book_with_entry self known (Some scheme)"

definition book_clear_settlement_scheme ::
  "reference_book \<Rightarrow> instrument_id \<Rightarrow> reference_book \<times> (unknown_reference_book_instrument_id + unit)" where
  "book_clear_settlement_scheme self known = book_with_entry self known None"

definition book_settlement_scheme ::
  "reference_book \<Rightarrow> instrument_id \<Rightarrow> unknown_reference_book_instrument_id + settlement_scheme option" where
  "book_settlement_scheme self known =
     ok_or (map_option rbe_settlement_scheme (hm_get (rb_by_id self) known)) \<lparr>unknown_book_id = known\<rparr>"

section \<open>Histories\<close>

text \<open>One call of the book; a registration that would not return is no step.\<close>

inductive book_step :: "reference_book \<Rightarrow> reference_book \<Rightarrow> bool" where
  step_register: "book_register b i = Some (b', r) \<Longrightarrow> book_step b b'"
| step_register_with_id: "book_step b (fst (book_register_with_id b i known))"
| step_set: "book_step b (fst (book_set_settlement_scheme b known scheme))"
| step_clear: "book_step b (fst (book_clear_settlement_scheme b known))"

definition book_wf :: "reference_book \<Rightarrow> bool" where
  "book_wf b \<longleftrightarrow> hm_ok (rb_by_id b) \<and> hm_ok (rb_by_instrument b) \<and>
     (\<forall>i j known. book_resolve b i = Some known \<longrightarrow> book_resolve b j = Some known \<longrightarrow> i = j) \<and>
     (\<forall>known. hm_get (rb_by_id b) known \<noteq> None \<longleftrightarrow> (\<exists>i. book_resolve b i = Some known))"

lemma book_insert_simps [simp]:
  "rb_by_id (book_insert b i known) = hm_insert (rb_by_id b) known \<lparr>rbe_settlement_scheme = None\<rparr>"
  "rb_by_instrument (book_insert b i known) = hm_insert (rb_by_instrument b) i known"
  by (simp_all add: book_insert_def Let_def)

lemma book_insert_wf:
  assumes "book_wf b" and "hm_get (rb_by_instrument b) i = None" and "hm_get (rb_by_id b) known = None"
  shows "book_wf (book_insert b i known)"
proof -
  have free: "book_resolve b j \<noteq> Some known" for j
    using assms(1,3) unfolding book_wf_def by blast
  have entries: "(if k = known then Some \<lparr>rbe_settlement_scheme = None\<rparr> else hm_get (rb_by_id b) k) \<noteq> None \<longleftrightarrow>
      (\<exists>j. (if j = i then Some known else hm_get (rb_by_instrument b) j) = Some k)" for k
  proof (cases "k = known")
    case False
    have "hm_get (rb_by_id b) k \<noteq> None \<longleftrightarrow> (\<exists>j. hm_get (rb_by_instrument b) j = Some k)"
      using assms(1) unfolding book_wf_def book_resolve_def by blast
    then show ?thesis using False assms(2) by (metis option.distinct(1) option.sel)
  qed auto
  show ?thesis
    using assms free entries unfolding book_wf_def book_resolve_def book_insert_simps hm_get_insert
    by (intro conjI) (auto split: if_splits)
qed

lemma next_auto_counter: "book_wf (b\<lparr>rb_next_auto := n\<rparr>) = book_wf b"
  by (simp add: book_wf_def book_resolve_def)

lemma book_next_fresh:
  "book_next_auto_id b = Some (b', known) \<Longrightarrow> hm_get (rb_by_id b) known = None \<and> (\<exists>n. b' = b\<lparr>rb_next_auto := n\<rparr>)"
  by (auto simp: book_next_auto_id_def dest: auto_id_sound)

lemma book_with_entry_wf: "book_wf b \<Longrightarrow> book_wf (fst (book_with_entry b known scheme))"
  by (auto simp: book_with_entry_def book_wf_def book_resolve_def split: option.splits)

lemma book_step_wf: "book_step b b' \<Longrightarrow> book_wf b \<Longrightarrow> book_wf b'"
proof (induction rule: book_step.induct)
  case (step_register b i b' r)
  then show ?case
    using book_insert_wf next_auto_counter
    by (auto simp: book_register_def dest!: book_next_fresh split: if_splits)
qed (auto simp: book_register_with_id_def book_set_settlement_scheme_def book_clear_settlement_scheme_def
    intro: book_insert_wf book_with_entry_wf)

lemma book_step_resolve: "book_step b b' \<Longrightarrow> book_resolve b i = Some known \<Longrightarrow> book_resolve b' i = Some known"
proof (induction rule: book_step.induct)
  case (step_register b j b' r)
  then show ?case
    by (auto simp: book_register_def book_resolve_def dest!: book_next_fresh split: if_splits)
qed (auto simp: book_register_with_id_def book_set_settlement_scheme_def book_clear_settlement_scheme_def
    book_with_entry_def book_resolve_def split: option.splits)

text \<open>
  (C40) Identifiers are stable and unique. Through any history of registrations, with automatic and with
  chosen identifiers, and of settlement changes, an instrument keeps the identifier it got, no two
  instruments share one, the book holds an entry for exactly the identifiers given out, and while
  identifiers are left an automatic registration of a new instrument returns one that was free.
\<close>

theorem identifiers_stable_and_unique:
  assumes "book_step\<^sup>*\<^sup>* reference_book_new b" and "book_step\<^sup>*\<^sup>* b b'"
  shows "(\<forall>i known. book_resolve b i = Some known \<longrightarrow> book_resolve b' i = Some known) \<and>
    (\<forall>i j known. book_resolve b' i = Some known \<longrightarrow> book_resolve b' j = Some known \<longrightarrow> i = j) \<and>
    (\<forall>known. is_ok (book_settlement_scheme b' known) \<longleftrightarrow> (\<exists>i. book_resolve b' i = Some known)) \<and>
    (\<forall>i. book_resolve b' i = None \<and> length (rb_by_id b') < 2 ^ 64 \<longrightarrow>
      (\<exists>b'' known. book_register b' i = Some (b'', Inr known) \<and> book_resolve b'' i = Some known \<and>
        (\<forall>j. book_resolve b' j \<noteq> Some known)))"
proof -
  have "book_wf reference_book_new" by (simp add: book_wf_def reference_book_new_def book_resolve_def)
  moreover have "book_step\<^sup>*\<^sup>* x y \<Longrightarrow> book_wf x \<Longrightarrow> book_wf y" for x y
    by (induction rule: rtranclp_induct) (auto intro: book_step_wf)
  ultimately have wf: "book_wf b'" using assms by blast
  have keep: "book_resolve b i = Some known \<longrightarrow> book_resolve b' i = Some known" for i known
    using assms(2) by (induction rule: rtranclp_induct) (auto intro: book_step_resolve)
  have entries: "is_ok (book_settlement_scheme b' known) \<longleftrightarrow> (\<exists>i. book_resolve b' i = Some known)" for known
  proof -
    have "is_ok (book_settlement_scheme b' known) \<longleftrightarrow> hm_get (rb_by_id b') known \<noteq> None"
      by (cases "hm_get (rb_by_id b') known") (simp_all add: book_settlement_scheme_def)
    with wf show ?thesis unfolding book_wf_def by blast
  qed
  have "\<exists>b'' known. book_register b' i = Some (b'', Inr known) \<and> book_resolve b'' i = Some known \<and>
      (\<forall>j. book_resolve b' j \<noteq> Some known)"
    if new: "book_resolve b' i = None" and room: "length (rb_by_id b') < 2 ^ 64" for i
  proof -
    obtain c where "next_auto_id_loop (rb_by_id b') (rb_next_auto b') = Some (c, c + 1)"
      using auto_id_ends [OF room] by blast
    then have next_id: "book_next_auto_id b' = Some (b'\<lparr>rb_next_auto := c + 1\<rparr>, c)"
      by (simp add: book_next_auto_id_def)
    then have "hm_get (rb_by_id b') c = None" by (auto dest: book_next_fresh)
    then have "book_resolve b' j \<noteq> Some c" for j using wf unfolding book_wf_def by blast
    then show ?thesis using new next_id by (auto simp: book_register_def book_resolve_def)
  qed
  with wf keep entries show ?thesis unfolding book_wf_def by blast
qed

definition sample_instrument :: "string \<Rightarrow> instrument" where
  "sample_instrument underlying = \<lparr>underlying_asset = underlying, settlement_asset = ''USD''\<rparr>"

theorem identifiers_stable_and_unique_witness:
  "book_resolve (fst (book_set_settlement_scheme
     (fst (book_register_with_id reference_book_new (sample_instrument ''AAPL'') 5)) 5
     (settlement_scheme_uniform 2))) (sample_instrument ''AAPL'') = Some 5"
proof -
  let ?b = "fst (book_register_with_id reference_book_new (sample_instrument ''AAPL'') 5)"
  have "book_step\<^sup>*\<^sup>* reference_book_new ?b" "book_step\<^sup>*\<^sup>* ?b (fst (book_set_settlement_scheme ?b 5 (settlement_scheme_uniform 2)))"
    by (auto intro: step_register_with_id step_set)
  moreover have "book_resolve ?b (sample_instrument ''AAPL'') = Some 5"
    by (simp add: book_register_with_id_def reference_book_new_def book_resolve_def)
  ultimately show ?thesis using identifiers_stable_and_unique by blast
qed

end
