(* ===== verification/Request_Types.thy ===== *)
theory Request_Types
  imports Spot_Policy
begin

text \<open>
  The request types of the core (\<open>core/order.rs\<close>, \<open>core/execution_report.rs\<close>,
  \<open>core/account_adjustment.rs\<close> with the macros of \<open>core/macros.rs\<close>): payloads and the
  wrappers that add one to a request. A wrapper answers the accessors of its payload and passes the
  others on, so it is an update of what the accessors of the inner request return. The accessors of the
  model are those that policies of the core read; the payload of a derivatives position and the order
  payloads for position and margin only pass them on.
\<close>

section \<open>Orders\<close>

record order_operation =
  oo_instrument :: instrument
  oo_account_id :: account_id
  oo_trade_amount :: trade_amount
  oo_price :: "price option"
  oo_side :: side

definition order_accessors :: "order_operation \<Rightarrow> order" where
  "order_accessors op =
     \<lparr>ord_account_id = Inr (oo_account_id op), ord_instrument = Inr (oo_instrument op),
      ord_trade_amount = Inr (oo_trade_amount op), ord_price = Inr (oo_price op), ord_side = Inr (oo_side op)\<rparr>"

section \<open>Execution reports\<close>

record execution_report_operation =
  ero_instrument :: instrument
  ero_account_id :: account_id
  ero_side :: side

record execution_report_fill_details =
  erf_last_trade :: "trade option"
  erf_fee :: "monetary_amount option"
  erf_remaining_reserved_quantity :: quantity
  erf_lock :: pre_trade_lock
  erf_is_final :: bool

record financial_impact =
  fi_pnl :: pnl
  fi_fee :: fee

definition with_execution_report_operation :: "execution_report_operation \<Rightarrow> spot_report \<Rightarrow> spot_report" where
  "with_execution_report_operation op base =
     base\<lparr>rep_instrument := Inr (ero_instrument op), rep_account_id := Inr (ero_account_id op),
           rep_side := Inr (ero_side op)\<rparr>"

definition with_fill_details :: "execution_report_fill_details \<Rightarrow> spot_report \<Rightarrow> spot_report" where
  "with_fill_details fill base =
     base\<lparr>rep_last_trade := Inr (erf_last_trade fill), rep_fill_fee := Inr (erf_fee fill),
           rep_remaining := Inr (erf_remaining_reserved_quantity fill), rep_lock := Inr (erf_lock fill),
           rep_is_final := Inr (erf_is_final fill)\<rparr>"

text \<open>The same operation and the financial impact, as the kill switch reads them.\<close>

definition with_reported_operation :: "execution_report_operation \<Rightarrow> execution_report \<Rightarrow> execution_report" where
  "with_reported_operation op base =
     base\<lparr>er_instrument := Inr (ero_instrument op), er_account_id := Inr (ero_account_id op)\<rparr>"

definition with_financial_impact :: "financial_impact \<Rightarrow> execution_report \<Rightarrow> execution_report" where
  "with_financial_impact impact base = base\<lparr>er_pnl := Inr (fi_pnl impact), er_fee := Inr (fi_fee impact)\<rparr>"

section \<open>Account adjustments\<close>

record account_adjustment_amount =
  aaa_balance :: "adjustment_amount option"
  aaa_held :: "adjustment_amount option"
  aaa_incoming :: "adjustment_amount option"

record account_adjustment_balance_operation =
  abo_asset :: asset
  abo_average_entry_price :: "price option"

record account_adjustment_bounds =
  aab_balance_upper :: "position_size option"
  aab_balance_lower :: "position_size option"
  aab_held_upper :: "position_size option"
  aab_held_lower :: "position_size option"
  aab_incoming_upper :: "position_size option"
  aab_incoming_lower :: "position_size option"

definition field_access_error :: "string \<Rightarrow> request_field_access_error" where
  "field_access_error field = \<lparr>fe_field = field\<rparr>"

definition account_pnl_operation :: "pnl_state \<Rightarrow> account_adjustment" where
  "account_pnl_operation state =
     \<lparr>adj_pnl_operation = Inr (Some state),
      adj_balance_asset = Inl (field_access_error ''account_pnl.balance_asset''),
      adj_balance = Inr None, adj_average_entry_price = Inr None, adj_realized_pnl = Inr None,
      adj_balance_lower = Inr None, adj_balance_upper = Inr None, adj_held = Inr None, adj_held_lower = Inr None,
      adj_held_upper = Inr None, adj_incoming = Inr None, adj_incoming_lower = Inr None, adj_incoming_upper = Inr None\<rparr>"

text \<open>
  The amounts alone, over accessors they do not have, and as a wrapper. Alone they carry no correction
  of the realized P\&L.
\<close>

definition with_adjustment_amount :: "account_adjustment_amount \<Rightarrow> account_adjustment \<Rightarrow> account_adjustment" where
  "with_adjustment_amount amount base =
     base\<lparr>adj_balance := Inr (aaa_balance amount), adj_held := Inr (aaa_held amount),
           adj_incoming := Inr (aaa_incoming amount)\<rparr>"

definition adjustment_amount_accessors :: "account_adjustment_amount \<Rightarrow> account_adjustment \<Rightarrow> account_adjustment" where
  "adjustment_amount_accessors amount rest = (with_adjustment_amount amount rest)\<lparr>adj_realized_pnl := Inr None\<rparr>"

definition with_balance_operation ::
  "account_adjustment_balance_operation \<Rightarrow> account_adjustment \<Rightarrow> account_adjustment" where
  "with_balance_operation op base =
     base\<lparr>adj_pnl_operation := Inr None, adj_balance_asset := Inr (abo_asset op),
           adj_average_entry_price := Inr (abo_average_entry_price op)\<rparr>"

definition with_balance_realized_pnl :: "pnl_state \<Rightarrow> account_adjustment \<Rightarrow> account_adjustment" where
  "with_balance_realized_pnl realized base = base\<lparr>adj_realized_pnl := Inr (Some realized)\<rparr>"

definition with_position_operation :: "account_adjustment \<Rightarrow> account_adjustment" where
  "with_position_operation base = base\<lparr>adj_pnl_operation := Inr None\<rparr>"

definition with_adjustment_bounds :: "account_adjustment_bounds \<Rightarrow> account_adjustment \<Rightarrow> account_adjustment" where
  "with_adjustment_bounds bounds base =
     base\<lparr>adj_balance_upper := Inr (aab_balance_upper bounds), adj_balance_lower := Inr (aab_balance_lower bounds),
           adj_held_upper := Inr (aab_held_upper bounds), adj_held_lower := Inr (aab_held_lower bounds),
           adj_incoming_upper := Inr (aab_incoming_upper bounds), adj_incoming_lower := Inr (aab_incoming_lower bounds)\<rparr>"

section \<open>What the policies read\<close>

lemmas wrapper_defs = with_execution_report_operation_def with_fill_details_def with_reported_operation_def
  with_financial_impact_def with_adjustment_amount_def adjustment_amount_accessors_def with_balance_operation_def
  with_balance_realized_pnl_def with_adjustment_bounds_def

text \<open>
  A full stack of wrappers is read back field by field, whatever the inner accessors answer; the order in
  which the payloads are added does not matter.
\<close>

lemma adjustment_stack_reads_back:
  "read_adjustment_request (with_adjustment_bounds bounds (with_balance_operation op
     (adjustment_amount_accessors amount rest))) =
   Inr \<lparr>arv_asset = abo_asset op, arv_balance = aaa_balance amount,
        arv_average_entry_price = abo_average_entry_price op, arv_realized_pnl = None,
        arv_balance_lower = aab_balance_lower bounds, arv_balance_upper = aab_balance_upper bounds,
        arv_held = aaa_held amount, arv_held_lower = aab_held_lower bounds, arv_held_upper = aab_held_upper bounds,
        arv_incoming = aaa_incoming amount, arv_incoming_lower = aab_incoming_lower bounds,
        arv_incoming_upper = aab_incoming_upper bounds\<rparr>"
  "with_adjustment_bounds bounds (with_balance_operation op base) =
     with_balance_operation op (with_adjustment_bounds bounds base)"
  "with_balance_realized_pnl realized (with_balance_operation op base) =
     with_balance_operation op (with_balance_realized_pnl realized base)"
  by (simp_all add: wrapper_defs read_adjustment_request_def adj_field_def)

lemma account_pnl_operation_asserts:
  "apply_account_adjustment_impl D now account (account_pnl_operation state) e ms =
     apply_account_pnl_adjustment D now account state e ms"
  by (simp add: apply_account_adjustment_impl_def account_pnl_operation_def adj_field_def)

lemma report_stack_reads_back:
  "read_execution_request (with_fill_details fill (with_execution_report_operation op rest)) =
     Inr \<lparr>erv_instrument = ero_instrument op, erv_account = ero_account_id op, erv_side = ero_side op,
          erv_last_trade = erf_last_trade fill, erv_fee = erf_fee fill,
          erv_remaining = erf_remaining_reserved_quantity fill, erv_is_final = erf_is_final fill,
          erv_lock = erf_lock fill\<rparr>"
  by (simp add: wrapper_defs read_execution_request_def read_report_field_def)

text \<open>
  A reported fee is a charge. When a report carries a realized result and a fee, the kill switch
  moves the realized P\&L of the account and settlement asset by the result less the fee, and no other
  entry: a positive fee lowers the P\&L, a negative one raises it.
\<close>

lemma financial_impact_charges_fee:
  fixes rest :: execution_report
  assumes "dec_checked_add D (fi_pnl impact) (- fi_fee impact) = Some (fi_pnl impact - fi_fee impact)"
    and "dec_checked_add D (current_pnl_of self (ero_account_id op) (settlement_asset (ero_instrument op)))
      (fi_pnl impact - fi_fee impact) =
      Some (current_pnl_of self (ero_account_id op) (settlement_asset (ero_instrument op)) +
        (fi_pnl impact - fi_fee impact))"
  defines "after \<equiv> fst (pnl_apply_execution_report D self
    (with_financial_impact impact (with_reported_operation op rest)))"
  shows "current_pnl_of after a y =
    (if a = ero_account_id op \<and> y = settlement_asset (ero_instrument op)
     then current_pnl_of self a y + (fi_pnl impact - fi_fee impact)
     else current_pnl_of self a y) \<and> pp_settings after = pp_settings self"
proof -
  let ?r = "with_financial_impact impact (with_reported_operation op rest)"
  have fields: "er_instrument ?r = Inr (ero_instrument op)" "er_account_id ?r = Inr (ero_account_id op)"
    "er_pnl ?r = Inr (fi_pnl impact)" "er_fee ?r = Inr (fi_fee impact)"
    by (simp_all add: wrapper_defs)
  show ?thesis
    unfolding after_def report_applied(1) [OF fields assms(1)] Let_def fst_conv current_pnl_of_with_mut
    using assms(2) by (auto simp: accumulate_def sg_checked_add_def)
qed

end
