(* ===== verification/Ffi_Values.thy ===== *)
theory Ffi_Values
  imports Request_Types
begin

text \<open>
  The values of the C interface (\<open>crates/openpit-ffi/src\<close>: \<open>param.rs\<close>, \<open>string.rs\<close>,
  \<open>instrument.rs\<close>, \<open>macros.rs\<close>, the P\&L states of \<open>account_outcome.rs\<close>): a decimal is
  two 64-bit halves of a mantissa and a scale, an enumeration is a byte, a text is a pointer and a
  length, and a value that may be missing carries a flag.

  A pointer to bytes is \<open>None\<close> when it is null and otherwise the bytes that may be read there. The
  stored form of a decimal and its construction belong to the \<open>rust_decimal\<close> package and are the
  parameter \<open>W\<close>; the locale \<open>decimal_wire\<close> states what the package documents of them.
\<close>

unbundle bit_operations_syntax

section \<open>The stored form of decimals\<close>

type_synonym u8 = "8 word"
type_synonym i32 = "32 word"
type_synonym i128 = "128 word"

record decimal_repr =
  dr_mantissa :: "decimal \<Rightarrow> i128"
  dr_scale :: "decimal \<Rightarrow> u32"
  dr_try_from :: "i128 \<Rightarrow> u32 \<Rightarrow> decimal option"

locale decimal_wire =
  fixes W :: decimal_repr
  assumes try_from:
      "dr_try_from W m s =
         (if unat s \<le> 28 \<and> \<bar>sint m\<bar> < 2 ^ 96 then Some (of_int (sint m) / 10 ^ unat s) else None)"
    and stored: "representable d \<Longrightarrow> unat (dr_scale W d) \<le> 28 \<and> \<bar>sint (dr_mantissa W d)\<bar> < 2 ^ 96 \<and>
      d = of_int (sint (dr_mantissa W d)) / 10 ^ unat (dr_scale W d)"

section \<open>Errors\<close>

text \<open>One constructor for each text the conversions report.\<close>

datatype ffi_error =
  FfiNullPointer string
| FfiNotUtf8 string
| FfiInvalidText string asset_error
| FfiPartialInstrument
| FfiInvalidCode string u8
| FfiInvalidScale string i32
| FfiInvalidDecimal string
| FfiInvalidParam string param_error
| FfiCurrencyNotSet
| FfiValueWithHaltReason
| FfiHaltWithoutReason

section \<open>Decimals\<close>

record param_decimal =
  pd_mantissa_lo :: i64
  pd_mantissa_hi :: i64
  pd_scale :: i32

definition param_decimal_default :: param_decimal where
  "param_decimal_default = \<lparr>pd_mantissa_lo = 0, pd_mantissa_hi = 0, pd_scale = 0\<rparr>"

definition param_from_decimal :: "decimal_repr \<Rightarrow> decimal \<Rightarrow> param_decimal" where
  "param_from_decimal W d =
     (let m = dr_mantissa W d
      in \<lparr>pd_mantissa_lo = ucast m, pd_mantissa_hi = ucast (signed_drop_bit 64 m), pd_scale = ucast (dr_scale W d)\<rparr>)"

definition to_mantissa :: "param_decimal \<Rightarrow> i128" where
  "to_mantissa self = push_bit 64 (scast (pd_mantissa_hi self)) OR ucast (pd_mantissa_lo self)"

text \<open>The wrapper of a domain type: \<open>new\<close> is its constructor from a decimal.\<close>

definition to_param ::
  "decimal_repr \<Rightarrow> string \<Rightarrow> (decimal \<Rightarrow> param_error + 'a) \<Rightarrow> param_decimal \<Rightarrow> ffi_error + 'a" where
  "to_param W domain new self =
     (if sint (pd_scale self) < 0 then Inl (FfiInvalidScale domain (pd_scale self))
      else bind_res (ok_or (dr_try_from W (to_mantissa self) (ucast (pd_scale self))) (FfiInvalidDecimal domain))
        (\<lambda>d. map_err (FfiInvalidParam domain) (new d)))"

definition to_pnl :: "decimal_repr \<Rightarrow> param_decimal \<Rightarrow> ffi_error + pnl" where
  "to_pnl W = to_param W ''Pnl'' (\<lambda>d. Inr (sg_new d))"

definition to_price :: "decimal_repr \<Rightarrow> param_decimal \<Rightarrow> ffi_error + price" where
  "to_price W = to_param W ''Price'' (\<lambda>d. Inr (sg_new d))"

definition to_quantity :: "decimal_repr \<Rightarrow> param_decimal \<Rightarrow> ffi_error + quantity" where
  "to_quantity W = to_param W ''Quantity'' (nn_new PK_Quantity)"

definition to_volume :: "decimal_repr \<Rightarrow> param_decimal \<Rightarrow> ffi_error + volume" where
  "to_volume W = to_param W ''Volume'' (nn_new PK_Volume)"

definition to_position_size :: "decimal_repr \<Rightarrow> param_decimal \<Rightarrow> ffi_error + position_size" where
  "to_position_size W = to_param W ''PositionSize'' (\<lambda>d. Inr (sg_new d))"

definition to_fee :: "decimal_repr \<Rightarrow> param_decimal \<Rightarrow> ffi_error + fee" where
  "to_fee W = to_param W ''Fee'' (\<lambda>d. Inr (sg_new d))"

section \<open>Codes\<close>

definition LEVERAGE_NOT_SET :: u16 where
  "LEVERAGE_NOT_SET = 0"

definition import_leverage :: "u16 \<Rightarrow> leverage option" where
  "import_leverage value =
     (if value = LEVERAGE_NOT_SET then None
      else case leverage_from_raw value of Inr l \<Rightarrow> Some l | Inl _ \<Rightarrow> None)"

definition export_leverage :: "leverage option \<Rightarrow> u16" where
  "export_leverage value = (case value of Some v \<Rightarrow> v | None \<Rightarrow> LEVERAGE_NOT_SET)"

definition import_side :: "u8 \<Rightarrow> ffi_error + side option" where
  "import_side value =
     (if value = 1 then Inr (Some Buy) else if value = 2 then Inr (Some Sell) else if value = 0 then Inr None
      else Inl (FfiInvalidCode ''side'' value))"

fun export_side :: "side \<Rightarrow> u8" where
  "export_side Buy = 1"
| "export_side Sell = 2"

definition import_position_side :: "u8 \<Rightarrow> ffi_error + position_side option" where
  "import_position_side value =
     (if value = 1 then Inr (Some Long) else if value = 2 then Inr (Some Short) else if value = 0 then Inr None
      else Inl (FfiInvalidCode ''position side'' value))"

fun export_position_side :: "position_side \<Rightarrow> u8" where
  "export_position_side Long = 1"
| "export_position_side Short = 2"

definition import_position_effect :: "u8 \<Rightarrow> ffi_error + position_effect option" where
  "import_position_effect value =
     (if value = 1 then Inr (Some PE_Open) else if value = 2 then Inr (Some PE_Close) else if value = 0 then Inr None
      else Inl (FfiInvalidCode ''position effect'' value))"

fun export_position_effect :: "position_effect \<Rightarrow> u8" where
  "export_position_effect PE_Open = 1"
| "export_position_effect PE_Close = 2"

definition import_position_mode :: "u8 \<Rightarrow> ffi_error + position_mode option" where
  "import_position_mode value =
     (if value = 1 then Inr (Some Netting) else if value = 2 then Inr (Some Hedged) else if value = 0 then Inr None
      else Inl (FfiInvalidCode ''position mode'' value))"

fun export_position_mode :: "position_mode \<Rightarrow> u8" where
  "export_position_mode Netting = 1"
| "export_position_mode Hedged = 2"

definition import_bool :: "u8 \<Rightarrow> ffi_error + bool option" where
  "import_bool value =
     (if value = 1 then Inr (Some False) else if value = 2 then Inr (Some True) else if value = 0 then Inr None
      else Inl (FfiInvalidCode ''tri-state boolean'' value))"

definition export_bool :: "bool \<Rightarrow> u8" where
  "export_bool value = (if value then 2 else 1)"

section \<open>Texts and instruments\<close>

text \<open>Well-formed UTF-8, as \<open>std::str::from_utf8\<close> checks it.\<close>

definition utf8_tail :: "nat \<Rightarrow> bool" where
  "utf8_tail b \<longleftrightarrow> 0x80 \<le> b \<and> b \<le> 0xBF"

fun utf8_bytes :: "nat list \<Rightarrow> bool" where
  "utf8_bytes [] = True"
| "utf8_bytes (a # bs) =
     (if a < 0x80 then utf8_bytes bs
      else case bs of
        [] \<Rightarrow> False
      | b # cs \<Rightarrow>
          if 0xC2 \<le> a \<and> a \<le> 0xDF then utf8_tail b \<and> utf8_bytes cs
          else case cs of
            [] \<Rightarrow> False
          | c # ds \<Rightarrow>
              if 0xE0 \<le> a \<and> a \<le> 0xEF
              then utf8_tail b \<and> (a = 0xE0 \<longrightarrow> 0xA0 \<le> b) \<and> (a = 0xED \<longrightarrow> b \<le> 0x9F) \<and> utf8_tail c \<and> utf8_bytes ds
              else case ds of
                [] \<Rightarrow> False
              | d # es \<Rightarrow>
                  0xF0 \<le> a \<and> a \<le> 0xF4 \<and> utf8_tail b \<and> (a = 0xF0 \<longrightarrow> 0x90 \<le> b) \<and> (a = 0xF4 \<longrightarrow> b \<le> 0x8F) \<and>
                    utf8_tail c \<and> utf8_tail d \<and> utf8_bytes es)"

definition is_utf8 :: "string \<Rightarrow> bool" where
  "is_utf8 s = utf8_bytes (map of_char s)"

record string_view =
  sv_ptr :: "string option"
  sv_len :: nat

definition view_not_set :: string_view where
  "view_not_set = \<lparr>sv_ptr = None, sv_len = 0\<rparr>"

definition view_from_utf8 :: "string \<Rightarrow> string_view" where
  "view_from_utf8 value = \<lparr>sv_ptr = Some value, sv_len = length value\<rparr>"

definition parse_string_view :: "string_view \<Rightarrow> string \<Rightarrow> ffi_error + string option" where
  "parse_string_view value field =
     (case sv_ptr value of
        None \<Rightarrow> if sv_len value = 0 then Inr None else Inl (FfiNullPointer field)
      | Some memory \<Rightarrow>
          (let bytes = take (sv_len value) memory
           in if is_utf8 bytes then Inr (Some bytes) else Inl (FfiNotUtf8 field)))"

definition parse_asset_view :: "string_view \<Rightarrow> string \<Rightarrow> ffi_error + asset option" where
  "parse_asset_view value field =
     bind_res (parse_string_view value field) (\<lambda>parsed.
       case parsed of
         None \<Rightarrow> Inr None
       | Some name \<Rightarrow> map_err (FfiInvalidText field) (map_res Some (asset_new name)))"

record instrument_view =
  iv_underlying_asset :: string_view
  iv_settlement_asset :: string_view

definition instrument_view_default :: instrument_view where
  "instrument_view_default = \<lparr>iv_underlying_asset = view_not_set, iv_settlement_asset = view_not_set\<rparr>"

definition import_instrument :: "instrument_view \<Rightarrow> ffi_error + instrument option" where
  "import_instrument value =
     bind_res (parse_asset_view (iv_underlying_asset value) ''instrument.underlying_asset'') (\<lambda>underlying.
     bind_res (parse_asset_view (iv_settlement_asset value) ''instrument.settlement_asset'') (\<lambda>settlement.
       case (underlying, settlement) of
         (Some u, Some s) \<Rightarrow> Inr (Some \<lparr>underlying_asset = u, settlement_asset = s\<rparr>)
       | (None, None) \<Rightarrow> Inr None
       | _ \<Rightarrow> Inl FfiPartialInstrument))"

definition export_asset :: "asset option \<Rightarrow> string_view" where
  "export_asset asset = (case asset of Some a \<Rightarrow> view_from_utf8 a | None \<Rightarrow> view_not_set)"

definition export_instrument :: "instrument option \<Rightarrow> instrument_view" where
  "export_instrument i =
     (case i of
        Some i \<Rightarrow> \<lparr>iv_underlying_asset = view_from_utf8 (underlying_asset i),
                   iv_settlement_asset = view_from_utf8 (settlement_asset i)\<rparr>
      | None \<Rightarrow> instrument_view_default)"

section \<open>Values with a flag\<close>

record 'a wire_optional =
  wo_value :: 'a
  wo_is_set :: bool

definition import_optional :: "('a \<Rightarrow> ffi_error + 'b) \<Rightarrow> 'a wire_optional \<Rightarrow> ffi_error + 'b option" where
  "import_optional f value = (if wo_is_set value then map_res Some (f (wo_value value)) else Inr None)"

definition export_optional :: "'a \<Rightarrow> ('b \<Rightarrow> 'a) \<Rightarrow> 'b option \<Rightarrow> 'a wire_optional" where
  "export_optional dflt f value =
     (case value of Some v \<Rightarrow> \<lparr>wo_value = f v, wo_is_set = True\<rparr> | None \<Rightarrow> \<lparr>wo_value = dflt, wo_is_set = False\<rparr>)"

section \<open>Amounts and P\&L states\<close>

record wire_trade_amount =
  wta_value :: param_decimal
  wta_kind :: u8

definition import_trade_amount :: "decimal_repr \<Rightarrow> wire_trade_amount \<Rightarrow> ffi_error + trade_amount option" where
  "import_trade_amount W value =
     (if wta_kind value = 0 then Inr None
      else if wta_kind value = 1 then map_res (\<lambda>q. Some (TA_Quantity q)) (to_quantity W (wta_value value))
      else if wta_kind value = 2 then map_res (\<lambda>v. Some (TA_Volume v)) (to_volume W (wta_value value))
      else Inl (FfiInvalidCode ''trade amount'' (wta_kind value)))"

definition export_trade_amount :: "decimal_repr \<Rightarrow> trade_amount option \<Rightarrow> wire_trade_amount" where
  "export_trade_amount W value =
     (case value of
        Some (TA_Quantity q) \<Rightarrow> \<lparr>wta_value = param_from_decimal W q, wta_kind = 1\<rparr>
      | Some (TA_Volume v) \<Rightarrow> \<lparr>wta_value = param_from_decimal W v, wta_kind = 2\<rparr>
      | None \<Rightarrow> \<lparr>wta_value = param_decimal_default, wta_kind = 0\<rparr>)"

record wire_monetary_amount =
  wma_amount :: param_decimal
  wma_currency :: string_view

definition wire_monetary_amount_default :: wire_monetary_amount where
  "wire_monetary_amount_default = \<lparr>wma_amount = param_decimal_default, wma_currency = view_not_set\<rparr>"

definition import_monetary_amount :: "decimal_repr \<Rightarrow> wire_monetary_amount \<Rightarrow> ffi_error + monetary_amount" where
  "import_monetary_amount W value =
     bind_res (parse_asset_view (wma_currency value) ''monetary_amount.currency'') (\<lambda>parsed.
     bind_res (ok_or parsed FfiCurrencyNotSet) (\<lambda>currency.
     bind_res (to_fee W (wma_amount value)) (\<lambda>amount.
       Inr \<lparr>mon_amount = amount, mon_currency = currency\<rparr>)))"

definition export_monetary_amount :: "decimal_repr \<Rightarrow> monetary_amount \<Rightarrow> wire_monetary_amount" where
  "export_monetary_amount W value =
     \<lparr>wma_amount = param_from_decimal W (mon_amount value), wma_currency = view_from_utf8 (mon_currency value)\<rparr>"

record wire_pnl_state =
  wps_kind :: u8
  wps_value :: param_decimal
  wps_halt_reason :: u8

definition wire_pnl_state_default :: wire_pnl_state where
  "wire_pnl_state_default = \<lparr>wps_kind = 0, wps_value = param_decimal_default, wps_halt_reason = 0\<rparr>"

fun export_pnl_halt_reason :: "pnl_halt_reason \<Rightarrow> u8" where
  "export_pnl_halt_reason MissingFx = 1"
| "export_pnl_halt_reason MissingAccountCurrency = 2"
| "export_pnl_halt_reason MissingInitialPnl = 3"
| "export_pnl_halt_reason MissingCostBasis = 4"
| "export_pnl_halt_reason PnlArithmeticOverflow = 5"

definition import_pnl_halt_reason :: "u8 \<Rightarrow> ffi_error + pnl_halt_reason" where
  "import_pnl_halt_reason value =
     (if value = 1 then Inr MissingFx else if value = 2 then Inr MissingAccountCurrency
      else if value = 3 then Inr MissingInitialPnl else if value = 4 then Inr MissingCostBasis
      else if value = 5 then Inr PnlArithmeticOverflow else Inl (FfiInvalidCode ''PnL halt reason'' value))"

fun export_pnl_state :: "decimal_repr \<Rightarrow> pnl_state \<Rightarrow> wire_pnl_state" where
  "export_pnl_state W (PnlState_Value v) =
     \<lparr>wps_kind = 0, wps_value = param_from_decimal W v, wps_halt_reason = 0\<rparr>"
| "export_pnl_state W (PnlState_Halted reason) =
     \<lparr>wps_kind = 1, wps_value = param_decimal_default, wps_halt_reason = export_pnl_halt_reason reason\<rparr>"

definition import_pnl_state :: "decimal_repr \<Rightarrow> wire_pnl_state \<Rightarrow> ffi_error + pnl_state" where
  "import_pnl_state W value =
     (if wps_kind value = 0 then
        if wps_halt_reason value = 0 then map_res PnlState_Value (to_pnl W (wps_value value))
        else Inl FfiValueWithHaltReason
      else if wps_kind value = 1 then
        if wps_halt_reason value = 0 then Inl FfiHaltWithoutReason
        else map_res PnlState_Halted (import_pnl_halt_reason (wps_halt_reason value))
      else Inl (FfiInvalidCode ''PnL state kind'' (wps_kind value)))"

section \<open>A concrete stored form\<close>

text \<open>The least scale at which the value is an integer.\<close>

definition least_scale :: "decimal \<Rightarrow> nat" where
  "least_scale d = (case find (\<lambda>e. of_int \<lfloor>d * 10 ^ e\<rfloor> = d * 10 ^ e) [0..<29] of Some e \<Rightarrow> e | None \<Rightarrow> 0)"

definition decimal96_repr :: decimal_repr where
  "decimal96_repr =
     \<lparr>dr_mantissa = \<lambda>d. word_of_int \<lfloor>d * 10 ^ least_scale d\<rfloor>, dr_scale = \<lambda>d. of_nat (least_scale d),
      dr_try_from = \<lambda>m s. if unat s \<le> 28 \<and> \<bar>sint m\<bar> < 2 ^ 96 then Some (of_int (sint m) / 10 ^ unat s) else None\<rparr>"

lemma least_scale:
  assumes "representable d"
  shows "least_scale d \<le> 28" and "of_int \<lfloor>d * 10 ^ least_scale d\<rfloor> = d * 10 ^ least_scale d"
    and "\<bar>\<lfloor>d * 10 ^ least_scale d\<rfloor>\<bar> < 2 ^ 96"
proof -
  obtain m e where e: "e \<le> 28" and m: "\<bar>m\<bar> < 2 ^ 96" and d: "d * 10 ^ e = of_int m"
    using assms unfolding representable_def by blast
  let ?P = "\<lambda>e. of_int \<lfloor>d * 10 ^ e\<rfloor> = d * 10 ^ e"
  have "?P e" using d by simp
  then have "find ?P [0..<29] \<noteq> None" using e unfolding find_None_iff by (metis atLeastLessThan_iff less_Suc_eq_le
    set_upt zero_le eval_nat_numeral(3) Suc_numeral semiring_norm(5) semiring_norm(8))
  then obtain k where k: "find ?P [0..<29] = Some k" by blast
  then have min: "k < 29" "?P k" "\<forall>j<k. \<not> ?P j" unfolding find_Some_iff by auto
  have scale: "least_scale d = k" using k by (simp add: least_scale_def)
  have "k \<le> e" using min(3) \<open>?P e\<close> by (meson not_less)
  then have "\<bar>d * 10 ^ k\<bar> \<le> \<bar>d * 10 ^ e\<bar>"
    by (simp add: abs_mult power_increasing mult_left_mono)
  then have "\<bar>of_int \<lfloor>d * 10 ^ k\<rfloor> :: rat\<bar> \<le> \<bar>of_int m\<bar>" using min(2) d by metis
  then show "\<bar>\<lfloor>d * 10 ^ least_scale d\<rfloor>\<bar> < 2 ^ 96" using m unfolding scale of_int_abs [symmetric] by linarith
  show "least_scale d \<le> 28" "of_int \<lfloor>d * 10 ^ least_scale d\<rfloor> = d * 10 ^ least_scale d"
    using min unfolding scale by auto
qed

lemma sint_i128: "\<bar>i\<bar> < 2 ^ 96 \<Longrightarrow> sint (word_of_int i :: i128) = i"
  by (simp add: sint_sbintrunc' signed_take_bit_int_eq_self)

interpretation decimal96: decimal_wire decimal96_repr
proof
  fix d
  assume "representable d"
  note facts = least_scale [OF this]
  have d: "of_int \<lfloor>d * 10 ^ least_scale d\<rfloor> / 10 ^ least_scale d = d" unfolding facts(2) by simp
  have "unat (of_nat (least_scale d) :: u32) = least_scale d"
    using facts(1) by (simp add: unat_of_nat)
  then show "unat (dr_scale decimal96_repr d) \<le> 28 \<and> \<bar>sint (dr_mantissa decimal96_repr d)\<bar> < 2 ^ 96 \<and>
      d = of_int (sint (dr_mantissa decimal96_repr d)) / 10 ^ unat (dr_scale decimal96_repr d)"
    using facts(1,3) d by (simp add: decimal96_repr_def sint_i128)
qed (simp add: decimal96_repr_def)

section \<open>Decimals survive the interface\<close>

lemma mantissa_halves: "push_bit 64 (scast (ucast (signed_drop_bit 64 m) :: i64)) OR ucast (ucast m :: i64) = (m :: i128)"
proof (rule bit_word_eqI)
  fix n
  assume "n < LENGTH(128)"
  then show "bit (push_bit 64 (scast (ucast (signed_drop_bit 64 m) :: i64)) OR ucast (ucast m :: i64) :: i128) n \<longleftrightarrow>
      bit m n"
    by (cases "n = 127") (auto simp: bit_simps min_def not_less)
qed

lemma to_mantissa_from [simp]: "to_mantissa (param_from_decimal W d) = dr_mantissa W d"
  by (simp add: to_mantissa_def param_from_decimal_def Let_def mantissa_halves)

lemma pd_scale_from [simp]: "pd_scale (param_from_decimal W d) = dr_scale W d"
  by (simp add: param_from_decimal_def Let_def)

section \<open>Valid values\<close>

text \<open>What the types of the core promise of their values.\<close>

definition amount_ok :: "decimal \<Rightarrow> bool" where
  "amount_ok d \<longleftrightarrow> representable d \<and> 0 \<le> d"

definition asset_ok :: "asset \<Rightarrow> bool" where
  "asset_ok a \<longleftrightarrow> is_utf8 a \<and> \<not> trim_is_empty a"

definition instrument_ok :: "instrument \<Rightarrow> bool" where
  "instrument_ok i \<longleftrightarrow> asset_ok (underlying_asset i) \<and> asset_ok (settlement_asset i)"

definition leverage_ok :: "leverage \<Rightarrow> bool" where
  "leverage_ok l \<longleftrightarrow> 10 \<le> unat l \<and> unat l \<le> 30000"

fun trade_amount_ok :: "trade_amount \<Rightarrow> bool" where
  "trade_amount_ok (TA_Quantity q) = amount_ok q"
| "trade_amount_ok (TA_Volume v) = amount_ok v"

definition monetary_amount_ok :: "monetary_amount \<Rightarrow> bool" where
  "monetary_amount_ok m \<longleftrightarrow> representable (mon_amount m) \<and> asset_ok (mon_currency m)"

fun pnl_state_ok :: "pnl_state \<Rightarrow> bool" where
  "pnl_state_ok (PnlState_Value v) = representable v"
| "pnl_state_ok (PnlState_Halted reason) = True"

definition code_of :: "('a \<Rightarrow> u8) \<Rightarrow> 'a option \<Rightarrow> u8" where
  "code_of f m = (case m of Some x \<Rightarrow> f x | None \<Rightarrow> 0)"

section \<open>Texts and codes survive the interface\<close>

lemma parse_asset_from [simp]: "asset_ok a \<Longrightarrow> parse_asset_view (view_from_utf8 a) field = Inr (Some a)"
  by (simp add: parse_asset_view_def parse_string_view_def view_from_utf8_def asset_ok_def asset_new_def)

lemma parse_asset_not_set [simp]: "parse_asset_view view_not_set field = Inr None"
  by (simp add: parse_asset_view_def parse_string_view_def view_not_set_def)

lemma parse_export_asset [simp]: "pred_option asset_ok a \<Longrightarrow> parse_asset_view (export_asset a) field = Inr a"
  by (cases a) (simp_all add: export_asset_def)

lemma parse_string_valid: "parse_string_view v field = Inr (Some t) \<Longrightarrow> is_utf8 t"
  by (cases "sv_ptr v") (auto simp: parse_string_view_def Let_def split: if_split_asm)

lemma parse_asset_valid: "parse_asset_view v field = Inr a \<Longrightarrow> pred_option asset_ok a"
proof (cases a)
  case (Some name)
  assume "parse_asset_view v field = Inr a"
  then have "parse_string_view v field = Inr (Some name) \<and> \<not> trim_is_empty name"
    unfolding parse_asset_view_def Some
    by (cases "parse_string_view v field") (auto simp: asset_new_def split: option.split_asm if_split_asm)
  then show ?thesis by (auto simp: Some asset_ok_def intro: parse_string_valid)
qed simp

lemma import_export_instrument [simp]: "pred_option instrument_ok i \<Longrightarrow> import_instrument (export_instrument i) = Inr i"
  by (cases i) (simp_all add: import_instrument_def export_instrument_def instrument_view_default_def instrument_ok_def)

lemma import_instrument_valid: "import_instrument v = Inr i \<Longrightarrow> pred_option instrument_ok i"
  by (auto simp: import_instrument_def instrument_ok_def result_simps dest!: parse_asset_valid split: option.splits)

lemma import_export_codes [simp]:
  "import_side (code_of export_side s) = Inr s"
  "import_position_side (code_of export_position_side p) = Inr p"
  "import_position_effect (code_of export_position_effect e) = Inr e"
  "import_position_mode (code_of export_position_mode m) = Inr m"
  "import_bool (export_bool b) = Inr (Some b)"
proof -
  show "import_side (code_of export_side s) = Inr s"
    by (cases s; cases "the s") (auto simp: code_of_def import_side_def)
  show "import_position_side (code_of export_position_side p) = Inr p"
    by (cases p; cases "the p") (auto simp: code_of_def import_position_side_def)
  show "import_position_effect (code_of export_position_effect e) = Inr e"
    by (cases e; cases "the e") (auto simp: code_of_def import_position_effect_def)
  show "import_position_mode (code_of export_position_mode m) = Inr m"
    by (cases m; cases "the m") (auto simp: code_of_def import_position_mode_def)
qed (simp add: import_bool_def export_bool_def)

lemma import_export_leverage [simp]: "pred_option leverage_ok l \<Longrightarrow> import_leverage (export_leverage l) = l"
  by (cases l) (auto simp: import_leverage_def export_leverage_def LEVERAGE_NOT_SET_def leverage_ok_def leverage_from_raw_iff)

lemma import_leverage_valid: "pred_option leverage_ok (import_leverage v)"
  by (simp add: import_leverage_def leverage_from_raw_iff leverage_ok_def)

lemma import_export_halt_reason [simp]: "import_pnl_halt_reason (export_pnl_halt_reason r) = Inr r"
  by (cases r) (simp_all add: import_pnl_halt_reason_def)

lemma export_halt_reason_nonzero [simp]: "export_pnl_halt_reason r \<noteq> 0"
  by (cases r) simp_all

lemma import_export_optional:
  "pred_option P v \<Longrightarrow> (\<And>x. P x \<Longrightarrow> f (g x) = Inr x) \<Longrightarrow> import_optional f (export_optional d g v) = Inr v"
  by (cases v) (simp_all add: import_optional_def export_optional_def)

lemma import_optional_valid:
  "import_optional f v = Inr x \<Longrightarrow> (\<And>w y. f w = Inr y \<Longrightarrow> P y) \<Longrightarrow> pred_option P x"
  by (auto simp: import_optional_def result_simps split: if_splits)

context decimal_wire
begin

lemma try_stored: "representable d \<Longrightarrow> dr_try_from W (dr_mantissa W d) (dr_scale W d) = Some d"
  using stored [of d] by (simp add: try_from)

lemma scale_nonneg: "representable d \<Longrightarrow> \<not> sint (dr_scale W d) < 0"
proof -
  assume "representable d"
  then have "unat (dr_scale W d) \<le> 28" using stored by blast
  then have "uint (dr_scale W d) \<le> 28" unfolding uint_nat by linarith
  then have "sint (dr_scale W d) = uint (dr_scale W d)"
    unfolding sint_uint by (intro signed_take_bit_int_eq_self order_trans [OF _ uint_ge_0]) auto
  then show ?thesis by simp
qed

lemma to_param_from:
  "representable d \<Longrightarrow> to_param W domain new (param_from_decimal W d) = map_err (FfiInvalidParam domain) (new d)"
  using try_stored [of d] scale_nonneg [of d] by (simp add: to_param_def)

lemma try_representable: "dr_try_from W m s = Some d \<Longrightarrow> representable d"
  using representable_scaled [of "unat s" "sint m"] by (auto simp: try_from split: if_splits)

lemma to_param_Inr: "to_param W domain new v = Inr x \<Longrightarrow> \<exists>d. representable d \<and> new d = Inr x"
  by (auto simp: to_param_def result_simps dest: try_representable split: if_splits)

lemma to_from:
  "representable d \<Longrightarrow> to_pnl W (param_from_decimal W d) = Inr d"
  "representable d \<Longrightarrow> to_price W (param_from_decimal W d) = Inr d"
  "representable d \<Longrightarrow> to_fee W (param_from_decimal W d) = Inr d"
  "representable d \<Longrightarrow> to_position_size W (param_from_decimal W d) = Inr d"
  "amount_ok d \<Longrightarrow> to_quantity W (param_from_decimal W d) = Inr d"
  "amount_ok d \<Longrightarrow> to_volume W (param_from_decimal W d) = Inr d"
  by (simp_all add: to_pnl_def to_price_def to_fee_def to_position_size_def to_quantity_def to_volume_def amount_ok_def
      to_param_from param_type_defs)

lemma to_valid:
  "to_pnl W v = Inr d \<Longrightarrow> representable d"
  "to_price W v = Inr d \<Longrightarrow> representable d"
  "to_fee W v = Inr d \<Longrightarrow> representable d"
  "to_position_size W v = Inr d \<Longrightarrow> representable d"
  "to_quantity W v = Inr d \<Longrightarrow> amount_ok d"
  "to_volume W v = Inr d \<Longrightarrow> amount_ok d"
  by (auto simp: to_pnl_def to_price_def to_fee_def to_position_size_def to_quantity_def to_volume_def amount_ok_def
      param_type_defs dest!: to_param_Inr split: if_splits)

lemma trade_amount_round: "pred_option trade_amount_ok t \<Longrightarrow> import_trade_amount W (export_trade_amount W t) = Inr t"
  by (cases t; cases "the t") (auto simp: import_trade_amount_def export_trade_amount_def to_from)

lemma trade_amount_valid: "import_trade_amount W v = Inr t \<Longrightarrow> pred_option trade_amount_ok t"
  by (auto simp: import_trade_amount_def result_simps dest: to_valid split: if_splits)

lemma monetary_round: "monetary_amount_ok m \<Longrightarrow> import_monetary_amount W (export_monetary_amount W m) = Inr m"
  by (simp add: import_monetary_amount_def export_monetary_amount_def monetary_amount_ok_def to_from)

lemma monetary_valid: "import_monetary_amount W v = Inr m \<Longrightarrow> monetary_amount_ok m"
  by (auto simp: import_monetary_amount_def monetary_amount_ok_def result_simps dest!: parse_asset_valid dest: to_valid)

lemma pnl_state_round: "pnl_state_ok s \<Longrightarrow> import_pnl_state W (export_pnl_state W s) = Inr s"
  by (cases s) (simp_all add: import_pnl_state_def to_from)

lemma pnl_state_valid: "import_pnl_state W v = Inr s \<Longrightarrow> pnl_state_ok s"
  by (auto simp: import_pnl_state_def result_simps dest: to_valid split: if_splits)

end

end
