(* ===== verification/Interop.thy ===== *)
theory Interop
  imports Request_Types
begin

text \<open>
  The request aggregates of the binding layer (\<open>crates/openpit-interop/src\<close>). An aggregate
  holds groups that may be absent, and a populated group holds fields that may be missing: a required
  field that is missing, and every required field of an absent group, answers an access error; an
  optional one answers that there is no value. The accessors of an aggregate are the records that the
  policies read (\<open>order\<close>, \<open>spot_report\<close>, \<open>execution_report\<close>,
  \<open>account_adjustment\<close>) and, for what only custom policies read, records of their own.
\<close>

section \<open>Access groups\<close>

datatype 'a access = Populated 'a | Absent

definition require :: "string \<Rightarrow> 'a option \<Rightarrow> request_field_access_error + 'a" where
  "require field v = ok_or v (field_access_error field)"

section \<open>Orders\<close>

record populated_order_operation =
  poo_instrument :: "instrument option"
  poo_account_id :: "account_id option"
  poo_side :: "side option"
  poo_trade_amount :: "trade_amount option"
  poo_price :: "price option"

definition populated_order_operation_accessors :: "populated_order_operation \<Rightarrow> order" where
  "populated_order_operation_accessors self =
     \<lparr>ord_account_id = require ''operation.account_id'' (poo_account_id self),
      ord_instrument = require ''operation.instrument'' (poo_instrument self),
      ord_trade_amount = require ''operation.trade_amount'' (poo_trade_amount self),
      ord_price = Inr (poo_price self),
      ord_side = require ''operation.side'' (poo_side self)\<rparr>"

definition order_operation_access :: "populated_order_operation access \<Rightarrow> order" where
  "order_operation_access self =
     (case self of
        Populated op \<Rightarrow> populated_order_operation_accessors op
      | Absent \<Rightarrow>
          \<lparr>ord_account_id = Inl (field_access_error ''operation.account_id''),
           ord_instrument = Inl (field_access_error ''operation.instrument''),
           ord_trade_amount = Inl (field_access_error ''operation.trade_amount''),
           ord_price = Inr None,
           ord_side = Inl (field_access_error ''operation.side'')\<rparr>)"

record populated_order_position =
  pop_position_side :: "position_side option"
  pop_reduce_only :: bool
  pop_close_position :: bool

record order_position_view =
  opv_position_side :: "request_field_access_error + position_side option"
  opv_reduce_only :: "request_field_access_error + bool"
  opv_close_position :: "request_field_access_error + bool"

definition populated_order_position_accessors :: "populated_order_position \<Rightarrow> order_position_view" where
  "populated_order_position_accessors self =
     \<lparr>opv_position_side = Inr (pop_position_side self), opv_reduce_only = Inr (pop_reduce_only self),
      opv_close_position = Inr (pop_close_position self)\<rparr>"

definition order_position_access :: "populated_order_position access \<Rightarrow> order_position_view" where
  "order_position_access self =
     (case self of
        Populated p \<Rightarrow> populated_order_position_accessors p
      | Absent \<Rightarrow>
          \<lparr>opv_position_side = Inr None,
           opv_reduce_only = Inl (field_access_error ''position.reduce_only''),
           opv_close_position = Inl (field_access_error ''position.close_position'')\<rparr>)"

record populated_order_margin =
  pom_leverage :: "leverage option"
  pom_collateral_asset :: "asset option"
  pom_auto_borrow :: bool

record order_margin_view =
  omv_leverage :: "request_field_access_error + leverage option"
  omv_collateral_asset :: "request_field_access_error + asset option"
  omv_auto_borrow :: "request_field_access_error + bool"

definition populated_order_margin_accessors :: "populated_order_margin \<Rightarrow> order_margin_view" where
  "populated_order_margin_accessors self =
     \<lparr>omv_leverage = Inr (pom_leverage self), omv_collateral_asset = Inr (pom_collateral_asset self),
      omv_auto_borrow = Inr (pom_auto_borrow self)\<rparr>"

definition order_margin_access :: "populated_order_margin access \<Rightarrow> order_margin_view" where
  "order_margin_access self =
     (case self of
        Populated m \<Rightarrow> populated_order_margin_accessors m
      | Absent \<Rightarrow>
          \<lparr>omv_leverage = Inr None, omv_collateral_asset = Inr None,
           omv_auto_borrow = Inl (field_access_error ''margin.auto_borrow'')\<rparr>)"

record interop_order =
  io_operation :: "populated_order_operation access"
  io_position :: "populated_order_position access"
  io_margin :: "populated_order_margin access"

definition interop_order_default :: interop_order where
  "interop_order_default = \<lparr>io_operation = Absent, io_position = Absent, io_margin = Absent\<rparr>"

definition interop_order_accessors ::
  "interop_order \<Rightarrow> order \<times> order_position_view \<times> order_margin_view" where
  "interop_order_accessors self =
     (order_operation_access (io_operation self), order_position_access (io_position self),
      order_margin_access (io_margin self))"

section \<open>Execution reports\<close>

record populated_execution_report_operation =
  per_instrument :: "instrument option"
  per_account_id :: "account_id option"
  per_side :: "side option"

record report_operation_view =
  rov_instrument :: "request_field_access_error + instrument"
  rov_account_id :: "request_field_access_error + account_id"
  rov_side :: "request_field_access_error + side"

definition populated_report_operation_accessors ::
  "populated_execution_report_operation \<Rightarrow> report_operation_view" where
  "populated_report_operation_accessors self =
     \<lparr>rov_instrument = require ''operation.instrument'' (per_instrument self),
      rov_account_id = require ''operation.account_id'' (per_account_id self),
      rov_side = require ''operation.side'' (per_side self)\<rparr>"

definition report_operation_access ::
  "populated_execution_report_operation access \<Rightarrow> report_operation_view" where
  "report_operation_access self =
     (case self of
        Populated op \<Rightarrow> populated_report_operation_accessors op
      | Absent \<Rightarrow>
          \<lparr>rov_instrument = Inl (field_access_error ''operation.instrument''),
           rov_account_id = Inl (field_access_error ''operation.account_id''),
           rov_side = Inl (field_access_error ''operation.side'')\<rparr>)"

record populated_financial_impact =
  pfi_pnl :: "pnl option"
  pfi_fee :: "fee option"

definition populated_financial_impact_accessors ::
  "populated_financial_impact \<Rightarrow> (request_field_access_error + pnl) \<times> (request_field_access_error + fee)" where
  "populated_financial_impact_accessors self =
     (require ''financial_impact.pnl'' (pfi_pnl self), require ''financial_impact.fee'' (pfi_fee self))"

definition financial_impact_access ::
  "populated_financial_impact access \<Rightarrow>
   (request_field_access_error + pnl) \<times> (request_field_access_error + fee)" where
  "financial_impact_access self =
     (case self of
        Populated fi \<Rightarrow> populated_financial_impact_accessors fi
      | Absent \<Rightarrow> (Inl (field_access_error ''financial_impact.pnl''), Inl (field_access_error ''financial_impact.fee'')))"

record populated_execution_report_fill =
  pef_last_trade :: "trade option"
  pef_fee :: "monetary_amount option"
  pef_remaining_reserved_quantity :: "quantity option"
  pef_lock :: "pre_trade_lock option"
  pef_is_final :: "bool option"

record report_fill_view =
  rfv_last_trade :: "request_field_access_error + trade option"
  rfv_fill_fee :: "request_field_access_error + monetary_amount option"
  rfv_remaining :: "request_field_access_error + quantity"
  rfv_lock :: "request_field_access_error + pre_trade_lock"
  rfv_is_final :: "request_field_access_error + bool"

definition populated_report_fill_accessors :: "populated_execution_report_fill \<Rightarrow> report_fill_view" where
  "populated_report_fill_accessors self =
     \<lparr>rfv_last_trade = Inr (pef_last_trade self), rfv_fill_fee = Inr (pef_fee self),
      rfv_remaining = require ''fill.remaining_reserved_quantity'' (pef_remaining_reserved_quantity self),
      rfv_lock = require ''fill.lock'' (pef_lock self),
      rfv_is_final = require ''fill.is_final'' (pef_is_final self)\<rparr>"

definition report_fill_access :: "populated_execution_report_fill access \<Rightarrow> report_fill_view" where
  "report_fill_access self =
     (case self of
        Populated f \<Rightarrow> populated_report_fill_accessors f
      | Absent \<Rightarrow>
          \<lparr>rfv_last_trade = Inr None, rfv_fill_fee = Inr None,
           rfv_remaining = Inl (field_access_error ''fill.remaining_reserved_quantity''),
           rfv_lock = Inl (field_access_error ''fill.lock''),
           rfv_is_final = Inl (field_access_error ''fill.is_final'')\<rparr>)"

record populated_position_impact =
  ppi_position_effect :: "position_effect option"
  ppi_position_side :: "position_side option"

definition populated_position_impact_accessors ::
  "populated_position_impact \<Rightarrow>
   (request_field_access_error + position_effect option) \<times> (request_field_access_error + position_side option)" where
  "populated_position_impact_accessors self = (Inr (ppi_position_effect self), Inr (ppi_position_side self))"

definition position_impact_access ::
  "populated_position_impact access \<Rightarrow>
   (request_field_access_error + position_effect option) \<times> (request_field_access_error + position_side option)" where
  "position_impact_access self =
     (case self of Populated impact \<Rightarrow> populated_position_impact_accessors impact | Absent \<Rightarrow> (Inr None, Inr None))"

record interop_execution_report =
  ir_operation :: "populated_execution_report_operation access"
  ir_financial_impact :: "populated_financial_impact access"
  ir_fill :: "populated_execution_report_fill access"
  ir_position_impact :: "populated_position_impact access"

definition interop_report_default :: interop_execution_report where
  "interop_report_default =
     \<lparr>ir_operation = Absent, ir_financial_impact = Absent, ir_fill = Absent, ir_position_impact = Absent\<rparr>"

text \<open>The accessors of a report that spot funds and the kill switch read.\<close>

definition interop_spot_report :: "interop_execution_report \<Rightarrow> spot_report" where
  "interop_spot_report self =
     (let op = report_operation_access (ir_operation self); fill = report_fill_access (ir_fill self)
      in \<lparr>rep_account_id = rov_account_id op, rep_instrument = rov_instrument op, rep_side = rov_side op,
          rep_last_trade = rfv_last_trade fill, rep_fill_fee = rfv_fill_fee fill,
          rep_remaining = rfv_remaining fill, rep_is_final = rfv_is_final fill, rep_lock = rfv_lock fill\<rparr>)"

definition interop_pnl_report :: "interop_execution_report \<Rightarrow> execution_report" where
  "interop_pnl_report self =
     (let op = report_operation_access (ir_operation self); impact = financial_impact_access (ir_financial_impact self)
      in \<lparr>er_instrument = rov_instrument op, er_account_id = rov_account_id op, er_pnl = fst impact,
          er_fee = snd impact\<rparr>)"

section \<open>Account adjustments\<close>

record populated_balance_operation =
  pbo_asset :: "asset option"
  pbo_average_entry_price :: "price option"
  pbo_realized_pnl :: "pnl_state option"

record populated_position_operation =
  ppo_instrument :: "instrument option"
  ppo_collateral_asset :: "asset option"
  ppo_average_entry_price :: "price option"
  ppo_mode :: "position_mode option"
  ppo_leverage :: "leverage option"

record populated_account_pnl_operation =
  pap_state :: pnl_state

datatype populated_account_adjustment_operation =
  OpBalance populated_balance_operation
| OpPosition populated_position_operation
| OpAccountPnl populated_account_pnl_operation

record adjustment_operation_view =
  aov_balance_realized_pnl :: "request_field_access_error + pnl_state option"
  aov_balance_asset :: "request_field_access_error + asset"
  aov_balance_average_entry_price :: "request_field_access_error + price option"
  aov_position_instrument :: "request_field_access_error + instrument"
  aov_collateral_asset :: "request_field_access_error + asset"
  aov_average_entry_price :: "request_field_access_error + price"
  aov_position_mode :: "request_field_access_error + position_mode"
  aov_position_leverage :: "request_field_access_error + leverage option"
  aov_pnl_operation :: "request_field_access_error + pnl_state option"

fun populated_adjustment_operation_accessors ::
  "populated_account_adjustment_operation \<Rightarrow> adjustment_operation_view" where
  "populated_adjustment_operation_accessors (OpBalance op) =
     \<lparr>aov_balance_realized_pnl = Inr (pbo_realized_pnl op),
      aov_balance_asset = require ''operation.balance_asset'' (pbo_asset op),
      aov_balance_average_entry_price = Inr (pbo_average_entry_price op),
      aov_position_instrument = Inl (field_access_error ''operation.position_instrument''),
      aov_collateral_asset = Inl (field_access_error ''operation.collateral_asset''),
      aov_average_entry_price = Inl (field_access_error ''operation.average_entry_price''),
      aov_position_mode = Inl (field_access_error ''operation.position_mode''),
      aov_position_leverage = Inr None, aov_pnl_operation = Inr None\<rparr>"
| "populated_adjustment_operation_accessors (OpPosition op) =
     \<lparr>aov_balance_realized_pnl = Inr None,
      aov_balance_asset = Inl (field_access_error ''operation.balance_asset''),
      aov_balance_average_entry_price = Inr None,
      aov_position_instrument = require ''operation.position_instrument'' (ppo_instrument op),
      aov_collateral_asset = require ''operation.collateral_asset'' (ppo_collateral_asset op),
      aov_average_entry_price = require ''operation.average_entry_price'' (ppo_average_entry_price op),
      aov_position_mode = require ''operation.position_mode'' (ppo_mode op),
      aov_position_leverage = Inr (ppo_leverage op), aov_pnl_operation = Inr None\<rparr>"
| "populated_adjustment_operation_accessors (OpAccountPnl op) =
     \<lparr>aov_balance_realized_pnl = Inr None,
      aov_balance_asset = Inl (field_access_error ''operation.balance_asset''),
      aov_balance_average_entry_price = Inr None,
      aov_position_instrument = Inl (field_access_error ''operation.position_instrument''),
      aov_collateral_asset = Inl (field_access_error ''operation.collateral_asset''),
      aov_average_entry_price = Inl (field_access_error ''operation.average_entry_price''),
      aov_position_mode = Inl (field_access_error ''operation.position_mode''),
      aov_position_leverage = Inr None, aov_pnl_operation = Inr (Some (pap_state op))\<rparr>"

definition adjustment_operation_access ::
  "populated_account_adjustment_operation access \<Rightarrow> adjustment_operation_view" where
  "adjustment_operation_access self =
     (case self of
        Populated op \<Rightarrow> populated_adjustment_operation_accessors op
      | Absent \<Rightarrow>
          \<lparr>aov_balance_realized_pnl = Inr None,
           aov_balance_asset = Inl (field_access_error ''operation.balance_asset''),
           aov_balance_average_entry_price = Inr None,
           aov_position_instrument = Inl (field_access_error ''operation.position_instrument''),
           aov_collateral_asset = Inl (field_access_error ''operation.collateral_asset''),
           aov_average_entry_price = Inl (field_access_error ''operation.average_entry_price''),
           aov_position_mode = Inl (field_access_error ''operation.position_mode''),
           aov_position_leverage = Inr None, aov_pnl_operation = Inr None\<rparr>)"

definition adjustment_amount_access :: "account_adjustment_amount access \<Rightarrow> account_adjustment_amount" where
  "adjustment_amount_access self =
     (case self of
        Populated a \<Rightarrow> a
      | Absent \<Rightarrow> \<lparr>aaa_balance = None, aaa_held = None, aaa_incoming = None\<rparr>)"

definition adjustment_bounds_access :: "account_adjustment_bounds access \<Rightarrow> account_adjustment_bounds" where
  "adjustment_bounds_access self =
     (case self of
        Populated b \<Rightarrow> b
      | Absent \<Rightarrow>
          \<lparr>aab_balance_upper = None, aab_balance_lower = None, aab_held_upper = None, aab_held_lower = None,
           aab_incoming_upper = None, aab_incoming_lower = None\<rparr>)"

record interop_account_adjustment =
  ia_operation :: "populated_account_adjustment_operation access"
  ia_amount :: "account_adjustment_amount access"
  ia_bounds :: "account_adjustment_bounds access"

definition interop_adjustment_default :: interop_account_adjustment where
  "interop_adjustment_default = \<lparr>ia_operation = Absent, ia_amount = Absent, ia_bounds = Absent\<rparr>"

text \<open>The amount and bound groups always answer a value, present or not.\<close>

definition interop_adjustment_accessors :: "interop_account_adjustment \<Rightarrow> account_adjustment" where
  "interop_adjustment_accessors self =
     (let op = adjustment_operation_access (ia_operation self); amount = adjustment_amount_access (ia_amount self);
          bounds = adjustment_bounds_access (ia_bounds self)
      in \<lparr>adj_pnl_operation = aov_pnl_operation op, adj_balance_asset = aov_balance_asset op,
          adj_balance = Inr (aaa_balance amount), adj_average_entry_price = aov_balance_average_entry_price op,
          adj_realized_pnl = aov_balance_realized_pnl op,
          adj_balance_lower = Inr (aab_balance_lower bounds), adj_balance_upper = Inr (aab_balance_upper bounds),
          adj_held = Inr (aaa_held amount), adj_held_lower = Inr (aab_held_lower bounds),
          adj_held_upper = Inr (aab_held_upper bounds), adj_incoming = Inr (aaa_incoming amount),
          adj_incoming_lower = Inr (aab_incoming_lower bounds), adj_incoming_upper = Inr (aab_incoming_upper bounds)\<rparr>)"

section \<open>Requests with a payload\<close>

record ('r, 'p) request_with_payload =
  rwp_request :: 'r
  rwp_payload :: 'p

definition request_with_payload_new :: "'r \<Rightarrow> 'p \<Rightarrow> ('r, 'p) request_with_payload" where
  "request_with_payload_new request payload = \<lparr>rwp_request = request, rwp_payload = payload\<rparr>"

definition request_into_parts :: "('r, 'p) request_with_payload \<Rightarrow> 'r \<times> 'p" where
  "request_into_parts self = (rwp_request self, rwp_payload self)"

text \<open>Every accessor of the pair is the accessor of the request.\<close>

definition payload_accessor :: "('r \<Rightarrow> 'v) \<Rightarrow> ('r, 'p) request_with_payload \<Rightarrow> 'v" where
  "payload_accessor f self = f (rwp_request self)"

section \<open>Native requests and aggregates\<close>

lemmas access_defs = require_def order_operation_access_def populated_order_operation_accessors_def
  report_operation_access_def populated_report_operation_accessors_def report_fill_access_def
  populated_report_fill_accessors_def financial_impact_access_def populated_financial_impact_accessors_def
  adjustment_operation_access_def adjustment_amount_access_def adjustment_bounds_access_def
  interop_spot_report_def interop_pnl_report_def interop_adjustment_accessors_def

text \<open>The aggregate that a native request corresponds to.\<close>

definition interop_of_order :: "order_operation \<Rightarrow> interop_order" where
  "interop_of_order op = interop_order_default
     \<lparr>io_operation := Populated \<lparr>poo_instrument = Some (oo_instrument op), poo_account_id = Some (oo_account_id op),
        poo_side = Some (oo_side op), poo_trade_amount = Some (oo_trade_amount op), poo_price = oo_price op\<rparr>\<rparr>"

definition interop_of_report ::
  "execution_report_operation \<Rightarrow> financial_impact \<Rightarrow> execution_report_fill_details \<Rightarrow> interop_execution_report" where
  "interop_of_report op impact fill = interop_report_default
     \<lparr>ir_operation := Populated \<lparr>per_instrument = Some (ero_instrument op), per_account_id = Some (ero_account_id op),
        per_side = Some (ero_side op)\<rparr>,
      ir_financial_impact := Populated \<lparr>pfi_pnl = Some (fi_pnl impact), pfi_fee = Some (fi_fee impact)\<rparr>,
      ir_fill := Populated \<lparr>pef_last_trade = erf_last_trade fill, pef_fee = erf_fee fill,
        pef_remaining_reserved_quantity = Some (erf_remaining_reserved_quantity fill), pef_lock = Some (erf_lock fill),
        pef_is_final = Some (erf_is_final fill)\<rparr>\<rparr>"

definition interop_of_balance ::
  "account_adjustment_balance_operation \<Rightarrow> pnl_state option \<Rightarrow> account_adjustment_amount \<Rightarrow>
   account_adjustment_bounds \<Rightarrow> interop_account_adjustment" where
  "interop_of_balance op realized amount bounds =
     \<lparr>ia_operation = Populated (OpBalance \<lparr>pbo_asset = Some (abo_asset op),
        pbo_average_entry_price = abo_average_entry_price op, pbo_realized_pnl = realized\<rparr>),
      ia_amount = Populated amount, ia_bounds = Populated bounds\<rparr>"

definition native_balance ::
  "account_adjustment_balance_operation \<Rightarrow> pnl_state option \<Rightarrow> account_adjustment_amount \<Rightarrow>
   account_adjustment_bounds \<Rightarrow> account_adjustment \<Rightarrow> account_adjustment" where
  "native_balance op realized amount bounds rest =
     (let stack = with_adjustment_bounds bounds (with_balance_operation op (adjustment_amount_accessors amount rest))
      in case realized of None \<Rightarrow> stack | Some r \<Rightarrow> with_balance_realized_pnl r stack)"

text \<open>
  An aggregate of the binding layer answers as the native request does. For an order, for a report
  as spot funds and as the kill switch read it, and for a balance adjustment with or without a correction
  of the realized P\&L, the policies read the same values from the aggregate and from the stack of
  wrappers of the core, whatever that stack wraps; an assertion of the account P\&L reaches the same
  operation of spot funds.
\<close>

lemma aggregate_answers_as_native:
  "fst (interop_order_accessors (interop_of_order ord)) = order_accessors ord \<and>
   interop_spot_report (interop_of_report rop impact fill) =
     with_fill_details fill (with_execution_report_operation rop srest) \<and>
   interop_pnl_report (interop_of_report rop impact fill) =
     with_financial_impact impact (with_reported_operation rop prest) \<and>
   interop_adjustment_accessors (interop_of_balance op realized amount bounds) =
     native_balance op realized amount bounds arest \<and>
   apply_account_adjustment_impl D now account (interop_adjustment_accessors
       (interop_adjustment_default\<lparr>ia_operation := Populated (OpAccountPnl \<lparr>pap_state = state\<rparr>)\<rparr>)) e ms =
     apply_account_adjustment_impl D now account (account_pnl_operation state) e ms"
  by (simp add: access_defs wrapper_defs interop_order_accessors_def interop_of_order_def order_accessors_def
      interop_order_default_def interop_of_report_def interop_report_default_def interop_of_balance_def
      native_balance_def Let_def interop_adjustment_default_def apply_account_adjustment_impl_def
      account_pnl_operation_def adj_field_def split: option.split)

lemma read_report_field_simps [simp]:
  "read_report_field name (Inr v) = Inr v"
  "read_report_field name (Inl err) = Inl (missing_required_field_account_block SPOT_FUNDS_POLICY_NAME name err)"
  by (simp_all add: read_report_field_def)

lemma block_code [simp]: "ab_code (missing_required_field_account_block policy name err) = MissingRequiredField"
  by (simp add: missing_required_field_account_block_def account_block_new_def)

lemma missing_report_field:
  "(\<exists>err. rep_account_id r = Inl err) \<or> (\<exists>err. rep_remaining r = Inl err) \<and> (\<exists>v. rep_last_trade r = Inr v) \<and>
     (\<exists>v. rep_fill_fee r = Inr v) \<Longrightarrow>
   \<exists>b. read_execution_request r = Inl b \<and> ab_code b = MissingRequiredField"
  by (cases "rep_account_id r"; cases "rep_instrument r"; cases "rep_side r")
    (auto simp: read_execution_request_def)

lemma report_lacks_group:
  "ir_operation rep = Absent \<or> ir_fill rep = Absent \<Longrightarrow>
     \<exists>b. read_execution_request (interop_spot_report rep) = Inl b \<and> ab_code b = MissingRequiredField"
  by (rule missing_report_field) (auto simp: access_defs Let_def)

text \<open>
  (C39) A request that lacks a required group changes nothing. Without its operation group, an order is
  refused by spot funds for a missing required field, live or as a drop copy, and so is its dry run; an
  adjustment is refused too. A report without its operation or its fill group is answered with one
  block for a missing required field. In each case the state of the engine and the pending mutations are
  those before the call.
\<close>

theorem incomplete_request_changes_nothing:
  assumes "io_operation ord = Absent" and "ir_operation rep = Absent \<or> ir_fill rep = Absent"
    and "ia_operation adj = Absent"
  shows "(\<exists>r. rj_code r = MissingRequiredField \<and>
      perform_pre_trade_check_impl D now ctx (fst (interop_order_accessors ord)) p ms = (p, ms, Inl (rejects_new [r])) \<and>
      perform_pre_trade_check_dry_run_impl D now ctx (fst (interop_order_accessors ord)) p = Inl (rejects_new [r])) \<and>
    (\<exists>b. ab_code b = MissingRequiredField \<and>
      spot_apply_execution_report D now (interop_spot_report rep) e = (e, Some (blocks_only [b]))) \<and>
    (\<exists>r. rj_code r = MissingRequiredField \<and>
      apply_account_adjustment_impl D now account (interop_adjustment_accessors adj) e ams =
        (e, ams, Inl (rejects_new [r])))"
proof (intro conjI)
  show "\<exists>r. rj_code r = MissingRequiredField \<and>
      perform_pre_trade_check_impl D now ctx (fst (interop_order_accessors ord)) p ms = (p, ms, Inl (rejects_new [r])) \<and>
      perform_pre_trade_check_dry_run_impl D now ctx (fst (interop_order_accessors ord)) p = Inl (rejects_new [r])"
    using assms(1)
    by (intro exI [of _ "missing_required_field_reject SPOT_FUNDS_POLICY_NAME ''instrument''
          (field_access_error ''operation.instrument'')"])
      (simp add: perform_pre_trade_check_impl_def perform_pre_trade_check_dry_run_impl_def read_order_request_def
        read_field_def access_defs interop_order_accessors_def missing_required_field_reject_def reject_new_def)
next
  have "\<exists>b. read_execution_request (interop_spot_report rep) = Inl b \<and> ab_code b = MissingRequiredField"
    using assms(2) by (rule report_lacks_group)
  then show "\<exists>b. ab_code b = MissingRequiredField \<and>
      spot_apply_execution_report D now (interop_spot_report rep) e = (e, Some (blocks_only [b]))"
    by (auto simp: spot_apply_execution_report_def)
next
  show "\<exists>r. rj_code r = MissingRequiredField \<and>
      apply_account_adjustment_impl D now account (interop_adjustment_accessors adj) e ams =
        (e, ams, Inl (rejects_new [r]))"
    using assms(3)
    by (intro exI [of _ "missing_required_field_account_adjustment_reject SPOT_FUNDS_POLICY_NAME ''balance asset''
          (field_access_error ''operation.balance_asset'')"])
      (simp add: apply_account_adjustment_impl_def read_adjustment_request_def access_defs adj_field_def Let_def
        missing_required_field_account_adjustment_reject_def reject_new_def)
qed

theorem incomplete_request_changes_nothing_witness:
  "\<exists>b. ab_code b = MissingRequiredField \<and>
     spot_apply_execution_report exact96_ops 0 (interop_spot_report interop_report_default) adjusted_engine =
       (adjusted_engine, Some (blocks_only [b]))"
  using incomplete_request_changes_nothing [of interop_order_default interop_report_default interop_adjustment_default]
  by (simp add: interop_order_default_def interop_report_default_def interop_adjustment_default_def)

end
