(* ===== verification/Ffi_Requests.thy ===== *)
theory Ffi_Requests
  imports Ffi_Values Interop
begin

text \<open>
  Requests over the C interface (\<open>crates/openpit-ffi/src\<close>: \<open>order.rs\<close>,
  \<open>execution_report.rs\<close>, \<open>account_adjustment.rs\<close>): every request is decoded from a structure
  with flags into an aggregate of the binding layer, and encoded back for the callbacks of custom
  policies. The fields of a structure are decoded in the order of the code, and the first failure is the
  error of the call. The opaque token of the caller is a machine word and is passed through; a handle of
  a lock is \<open>None\<close> when it is null and otherwise the lock behind it.
\<close>

type_synonym user_data = u64

definition import_access :: "('a \<Rightarrow> ffi_error + 'b) \<Rightarrow> 'a wire_optional \<Rightarrow> ffi_error + 'b access" where
  "import_access f value = (if wo_is_set value then map_res Populated (f (wo_value value)) else Inr Absent)"

definition export_access :: "'a \<Rightarrow> ('b \<Rightarrow> 'a) \<Rightarrow> 'b access \<Rightarrow> 'a wire_optional" where
  "export_access dflt f value =
     (case value of
        Populated v \<Rightarrow> \<lparr>wo_value = f v, wo_is_set = True\<rparr>
      | Absent \<Rightarrow> \<lparr>wo_value = dflt, wo_is_set = False\<rparr>)"

definition flag_or_false :: "u8 \<Rightarrow> ffi_error + bool" where
  "flag_or_false value = map_res (\<lambda>b. case b of Some x \<Rightarrow> x | None \<Rightarrow> False) (import_bool value)"

abbreviation export_decimal :: "decimal_repr \<Rightarrow> decimal option \<Rightarrow> param_decimal wire_optional" where
  "export_decimal W \<equiv> export_optional param_decimal_default (param_from_decimal W)"

section \<open>Orders\<close>

record wire_order_operation =
  woo_trade_amount :: wire_trade_amount
  woo_instrument :: instrument_view
  woo_price :: "param_decimal wire_optional"
  woo_account_id :: "u64 wire_optional"
  woo_side :: u8

record wire_order_position =
  wop_position_side :: u8
  wop_reduce_only :: u8
  wop_close_position :: u8

record wire_order_margin =
  wom_collateral_asset :: string_view
  wom_auto_borrow :: u8
  wom_leverage :: u16

record wire_order =
  wor_operation :: "wire_order_operation wire_optional"
  wor_margin :: "wire_order_margin wire_optional"
  wor_position :: "wire_order_position wire_optional"
  wor_user_data :: user_data

definition wire_order_operation_default :: wire_order_operation where
  "wire_order_operation_default =
     \<lparr>woo_trade_amount = \<lparr>wta_value = param_decimal_default, wta_kind = 0\<rparr>, woo_instrument = instrument_view_default,
      woo_price = \<lparr>wo_value = param_decimal_default, wo_is_set = False\<rparr>, woo_account_id = \<lparr>wo_value = 0, wo_is_set = False\<rparr>,
      woo_side = 0\<rparr>"

definition import_order_operation ::
  "decimal_repr \<Rightarrow> wire_order_operation \<Rightarrow> ffi_error + populated_order_operation" where
  "import_order_operation W value =
     bind_res (import_instrument (woo_instrument value)) (\<lambda>i.
     bind_res (import_optional Inr (woo_account_id value)) (\<lambda>account.
     bind_res (import_side (woo_side value)) (\<lambda>s.
     bind_res (import_trade_amount W (woo_trade_amount value)) (\<lambda>amount.
     bind_res (import_optional (to_price W) (woo_price value)) (\<lambda>price.
       Inr \<lparr>poo_instrument = i, poo_account_id = account, poo_side = s, poo_trade_amount = amount, poo_price = price\<rparr>)))))"

definition import_order_position :: "wire_order_position \<Rightarrow> ffi_error + populated_order_position" where
  "import_order_position value =
     bind_res (import_position_side (wop_position_side value)) (\<lambda>s.
     bind_res (flag_or_false (wop_reduce_only value)) (\<lambda>reduce_only.
     bind_res (flag_or_false (wop_close_position value)) (\<lambda>close_position.
       Inr \<lparr>pop_position_side = s, pop_reduce_only = reduce_only, pop_close_position = close_position\<rparr>)))"

definition import_order_margin :: "wire_order_margin \<Rightarrow> ffi_error + populated_order_margin" where
  "import_order_margin value =
     bind_res (parse_asset_view (wom_collateral_asset value) ''margin.collateral_asset'') (\<lambda>collateral.
     bind_res (flag_or_false (wom_auto_borrow value)) (\<lambda>auto_borrow.
       Inr \<lparr>pom_leverage = import_leverage (wom_leverage value), pom_collateral_asset = collateral,
            pom_auto_borrow = auto_borrow\<rparr>))"

definition import_order :: "decimal_repr \<Rightarrow> wire_order \<Rightarrow> ffi_error + (interop_order, user_data) request_with_payload" where
  "import_order W value =
     bind_res (import_access (import_order_operation W) (wor_operation value)) (\<lambda>operation.
     bind_res (import_access import_order_position (wor_position value)) (\<lambda>position.
     bind_res (import_access import_order_margin (wor_margin value)) (\<lambda>margin.
       Inr (request_with_payload_new \<lparr>io_operation = operation, io_position = position, io_margin = margin\<rparr>
         (wor_user_data value)))))"

definition export_order_operation :: "decimal_repr \<Rightarrow> populated_order_operation \<Rightarrow> wire_order_operation" where
  "export_order_operation W v =
     \<lparr>woo_trade_amount = export_trade_amount W (poo_trade_amount v), woo_instrument = export_instrument (poo_instrument v),
      woo_price = export_decimal W (poo_price v), woo_account_id = export_optional 0 id (poo_account_id v),
      woo_side = code_of export_side (poo_side v)\<rparr>"

definition export_order_position :: "populated_order_position \<Rightarrow> wire_order_position" where
  "export_order_position v =
     \<lparr>wop_position_side = code_of export_position_side (pop_position_side v),
      wop_reduce_only = export_bool (pop_reduce_only v), wop_close_position = export_bool (pop_close_position v)\<rparr>"

definition export_order_margin :: "populated_order_margin \<Rightarrow> wire_order_margin" where
  "export_order_margin v =
     \<lparr>wom_collateral_asset = export_asset (pom_collateral_asset v), wom_auto_borrow = export_bool (pom_auto_borrow v),
      wom_leverage = export_leverage (pom_leverage v)\<rparr>"

definition export_order :: "decimal_repr \<Rightarrow> (interop_order, user_data) request_with_payload \<Rightarrow> wire_order" where
  "export_order W value =
     \<lparr>wor_operation = export_access wire_order_operation_default (export_order_operation W) (io_operation (rwp_request value)),
      wor_margin = export_access \<lparr>wom_collateral_asset = view_not_set, wom_auto_borrow = 0, wom_leverage = 0\<rparr>
        export_order_margin (io_margin (rwp_request value)),
      wor_position = export_access \<lparr>wop_position_side = 0, wop_reduce_only = 0, wop_close_position = 0\<rparr>
        export_order_position (io_position (rwp_request value)),
      wor_user_data = rwp_payload value\<rparr>"

section \<open>Execution reports\<close>

record wire_report_operation =
  wro_instrument :: instrument_view
  wro_account_id :: "u64 wire_optional"
  wro_side :: u8

record wire_financial_impact =
  wfi_pnl :: "param_decimal wire_optional"
  wfi_fee :: "param_decimal wire_optional"

record wire_trade =
  wtr_price :: param_decimal
  wtr_quantity :: param_decimal

record wire_fill =
  wfl_last_trade :: "wire_trade wire_optional"
  wfl_fee :: "wire_monetary_amount wire_optional"
  wfl_remaining :: "param_decimal wire_optional"
  wfl_lock :: "pre_trade_lock option"
  wfl_is_final :: "bool wire_optional"

record wire_position_impact =
  wpi_position_effect :: u8
  wpi_position_side :: u8

record wire_report =
  wre_operation :: "wire_report_operation wire_optional"
  wre_financial_impact :: "wire_financial_impact wire_optional"
  wre_fill :: "wire_fill wire_optional"
  wre_position_impact :: "wire_position_impact wire_optional"
  wre_user_data :: user_data

abbreviation decimal_unset :: "param_decimal wire_optional" where
  "decimal_unset \<equiv> \<lparr>wo_value = param_decimal_default, wo_is_set = False\<rparr>"

definition wire_fill_default :: wire_fill where
  "wire_fill_default =
     \<lparr>wfl_last_trade = \<lparr>wo_value = \<lparr>wtr_price = param_decimal_default, wtr_quantity = param_decimal_default\<rparr>, wo_is_set = False\<rparr>,
      wfl_fee = \<lparr>wo_value = wire_monetary_amount_default, wo_is_set = False\<rparr>, wfl_remaining = decimal_unset, wfl_lock = None,
      wfl_is_final = \<lparr>wo_value = False, wo_is_set = False\<rparr>\<rparr>"

definition import_report_operation ::
  "wire_report_operation \<Rightarrow> ffi_error + populated_execution_report_operation" where
  "import_report_operation value =
     bind_res (import_instrument (wro_instrument value)) (\<lambda>i.
     bind_res (import_optional Inr (wro_account_id value)) (\<lambda>account.
     bind_res (import_side (wro_side value)) (\<lambda>s.
       Inr \<lparr>per_instrument = i, per_account_id = account, per_side = s\<rparr>)))"

definition import_financial_impact ::
  "decimal_repr \<Rightarrow> wire_financial_impact \<Rightarrow> ffi_error + populated_financial_impact" where
  "import_financial_impact W value =
     bind_res (import_optional (to_pnl W) (wfi_pnl value)) (\<lambda>pnl.
     bind_res (import_optional (to_fee W) (wfi_fee value)) (\<lambda>fee.
       Inr \<lparr>pfi_pnl = pnl, pfi_fee = fee\<rparr>))"

definition import_trade :: "decimal_repr \<Rightarrow> wire_trade \<Rightarrow> ffi_error + trade" where
  "import_trade W value =
     bind_res (to_price W (wtr_price value)) (\<lambda>price.
     bind_res (to_quantity W (wtr_quantity value)) (\<lambda>quantity.
       Inr \<lparr>trade_price = price, trade_quantity = quantity\<rparr>))"

definition import_fill :: "decimal_repr \<Rightarrow> wire_fill \<Rightarrow> ffi_error + populated_execution_report_fill" where
  "import_fill W value =
     bind_res (import_optional (to_quantity W) (wfl_remaining value)) (\<lambda>remaining.
     bind_res (import_optional (import_trade W) (wfl_last_trade value)) (\<lambda>last_trade.
     bind_res (import_optional (import_monetary_amount W) (wfl_fee value)) (\<lambda>fee.
     bind_res (import_optional Inr (wfl_is_final value)) (\<lambda>is_final.
       Inr \<lparr>pef_last_trade = last_trade, pef_fee = fee, pef_remaining_reserved_quantity = remaining,
            pef_lock = wfl_lock value, pef_is_final = is_final\<rparr>))))"

definition import_position_impact :: "wire_position_impact \<Rightarrow> ffi_error + populated_position_impact" where
  "import_position_impact value =
     bind_res (import_position_effect (wpi_position_effect value)) (\<lambda>effect.
     bind_res (import_position_side (wpi_position_side value)) (\<lambda>s.
       Inr \<lparr>ppi_position_effect = effect, ppi_position_side = s\<rparr>))"

definition import_execution_report ::
  "decimal_repr \<Rightarrow> wire_report \<Rightarrow> ffi_error + (interop_execution_report, user_data) request_with_payload" where
  "import_execution_report W value =
     bind_res (import_access import_report_operation (wre_operation value)) (\<lambda>operation.
     bind_res (import_access (import_financial_impact W) (wre_financial_impact value)) (\<lambda>impact.
     bind_res (import_access (import_fill W) (wre_fill value)) (\<lambda>fill.
     bind_res (import_access import_position_impact (wre_position_impact value)) (\<lambda>position_impact.
       Inr (request_with_payload_new
         \<lparr>ir_operation = operation, ir_financial_impact = impact, ir_fill = fill, ir_position_impact = position_impact\<rparr>
         (wre_user_data value))))))"

definition export_report_operation :: "populated_execution_report_operation \<Rightarrow> wire_report_operation" where
  "export_report_operation v =
     \<lparr>wro_instrument = export_instrument (per_instrument v), wro_account_id = export_optional 0 id (per_account_id v),
      wro_side = code_of export_side (per_side v)\<rparr>"

definition export_financial_impact :: "decimal_repr \<Rightarrow> populated_financial_impact \<Rightarrow> wire_financial_impact" where
  "export_financial_impact W v =
     \<lparr>wfi_pnl = export_decimal W (pfi_pnl v), wfi_fee = export_decimal W (pfi_fee v)\<rparr>"

definition export_trade :: "decimal_repr \<Rightarrow> trade \<Rightarrow> wire_trade" where
  "export_trade W v =
     \<lparr>wtr_price = param_from_decimal W (trade_price v), wtr_quantity = param_from_decimal W (trade_quantity v)\<rparr>"

definition export_fill :: "decimal_repr \<Rightarrow> populated_execution_report_fill \<Rightarrow> wire_fill" where
  "export_fill W v =
     \<lparr>wfl_last_trade = export_optional \<lparr>wtr_price = param_decimal_default, wtr_quantity = param_decimal_default\<rparr>
        (export_trade W) (pef_last_trade v),
      wfl_fee = export_optional wire_monetary_amount_default (export_monetary_amount W) (pef_fee v),
      wfl_remaining = export_decimal W (pef_remaining_reserved_quantity v), wfl_lock = pef_lock v,
      wfl_is_final = export_optional False id (pef_is_final v)\<rparr>"

definition export_position_impact :: "populated_position_impact \<Rightarrow> wire_position_impact" where
  "export_position_impact v =
     \<lparr>wpi_position_effect = code_of export_position_effect (ppi_position_effect v),
      wpi_position_side = code_of export_position_side (ppi_position_side v)\<rparr>"

definition export_execution_report ::
  "decimal_repr \<Rightarrow> (interop_execution_report, user_data) request_with_payload \<Rightarrow> wire_report" where
  "export_execution_report W value =
     \<lparr>wre_operation = export_access
        \<lparr>wro_instrument = instrument_view_default, wro_account_id = \<lparr>wo_value = 0, wo_is_set = False\<rparr>, wro_side = 0\<rparr>
        export_report_operation (ir_operation (rwp_request value)),
      wre_financial_impact = export_access \<lparr>wfi_pnl = decimal_unset, wfi_fee = decimal_unset\<rparr>
        (export_financial_impact W) (ir_financial_impact (rwp_request value)),
      wre_fill = export_access wire_fill_default (export_fill W) (ir_fill (rwp_request value)),
      wre_position_impact = export_access \<lparr>wpi_position_effect = 0, wpi_position_side = 0\<rparr> export_position_impact
        (ir_position_impact (rwp_request value)),
      wre_user_data = rwp_payload value\<rparr>"

section \<open>Account adjustments\<close>

record wire_adjustment_amount =
  waa_value :: param_decimal
  waa_kind :: u8

record wire_balance_operation =
  wbo_asset :: string_view
  wbo_average_entry_price :: "param_decimal wire_optional"
  wbo_realized_pnl :: "wire_pnl_state wire_optional"

record wire_position_operation =
  wpo_instrument :: instrument_view
  wpo_collateral_asset :: string_view
  wpo_average_entry_price :: "param_decimal wire_optional"
  wpo_leverage :: u16
  wpo_mode :: u8

record wire_adjustment_operation =
  wao_kind :: u8
  wao_balance :: wire_balance_operation
  wao_position :: wire_position_operation
  wao_account_pnl :: wire_pnl_state

record wire_adjustment_amounts =
  wam_balance :: wire_adjustment_amount
  wam_held :: wire_adjustment_amount
  wam_incoming :: wire_adjustment_amount

record wire_adjustment_bounds =
  wab_balance_upper :: "param_decimal wire_optional"
  wab_balance_lower :: "param_decimal wire_optional"
  wab_held_upper :: "param_decimal wire_optional"
  wab_held_lower :: "param_decimal wire_optional"
  wab_incoming_upper :: "param_decimal wire_optional"
  wab_incoming_lower :: "param_decimal wire_optional"

record wire_adjustment =
  wad_operation :: wire_adjustment_operation
  wad_amount :: "wire_adjustment_amounts wire_optional"
  wad_bounds :: "wire_adjustment_bounds wire_optional"
  wad_user_data :: user_data

definition wire_adjustment_amount_default :: wire_adjustment_amount where
  "wire_adjustment_amount_default = \<lparr>waa_value = param_decimal_default, waa_kind = 0\<rparr>"

definition wire_balance_operation_default :: wire_balance_operation where
  "wire_balance_operation_default =
     \<lparr>wbo_asset = view_not_set, wbo_average_entry_price = decimal_unset,
      wbo_realized_pnl = \<lparr>wo_value = wire_pnl_state_default, wo_is_set = False\<rparr>\<rparr>"

definition wire_position_operation_default :: wire_position_operation where
  "wire_position_operation_default =
     \<lparr>wpo_instrument = instrument_view_default, wpo_collateral_asset = view_not_set,
      wpo_average_entry_price = decimal_unset, wpo_leverage = 0, wpo_mode = 0\<rparr>"

definition import_adjustment_amount ::
  "decimal_repr \<Rightarrow> wire_adjustment_amount \<Rightarrow> ffi_error + adjustment_amount option" where
  "import_adjustment_amount W value =
     (if waa_kind value = 0 then Inr None
      else if waa_kind value = 1 then map_res (\<lambda>v. Some (Delta v)) (to_position_size W (waa_value value))
      else if waa_kind value = 2 then map_res (\<lambda>v. Some (Absolute v)) (to_position_size W (waa_value value))
      else Inl (FfiInvalidCode ''adjustment amount'' (waa_kind value)))"

definition export_adjustment_amount :: "decimal_repr \<Rightarrow> adjustment_amount option \<Rightarrow> wire_adjustment_amount" where
  "export_adjustment_amount W value =
     (case value of
        Some (Delta v) \<Rightarrow> \<lparr>waa_value = param_from_decimal W v, waa_kind = 1\<rparr>
      | Some (Absolute v) \<Rightarrow> \<lparr>waa_value = param_from_decimal W v, waa_kind = 2\<rparr>
      | None \<Rightarrow> wire_adjustment_amount_default)"

definition import_balance_operation ::
  "decimal_repr \<Rightarrow> wire_balance_operation \<Rightarrow> ffi_error + populated_balance_operation" where
  "import_balance_operation W value =
     bind_res (parse_asset_view (wbo_asset value) ''account_adjustment.balance.asset'') (\<lambda>asset.
     bind_res (import_optional (to_price W) (wbo_average_entry_price value)) (\<lambda>average.
     bind_res (import_optional (import_pnl_state W) (wbo_realized_pnl value)) (\<lambda>realized.
       Inr \<lparr>pbo_asset = asset, pbo_average_entry_price = average, pbo_realized_pnl = realized\<rparr>)))"

definition import_position_operation ::
  "decimal_repr \<Rightarrow> wire_position_operation \<Rightarrow> ffi_error + populated_position_operation" where
  "import_position_operation W value =
     bind_res (import_instrument (wpo_instrument value)) (\<lambda>i.
     bind_res (parse_asset_view (wpo_collateral_asset value) ''account_adjustment.position.collateral_asset'') (\<lambda>collateral.
     bind_res (import_optional (to_price W) (wpo_average_entry_price value)) (\<lambda>average.
     bind_res (import_position_mode (wpo_mode value)) (\<lambda>mode.
       Inr \<lparr>ppo_instrument = i, ppo_collateral_asset = collateral, ppo_average_entry_price = average, ppo_mode = mode,
            ppo_leverage = import_leverage (wpo_leverage value)\<rparr>))))"

definition import_account_pnl_operation ::
  "decimal_repr \<Rightarrow> wire_pnl_state \<Rightarrow> ffi_error + populated_account_pnl_operation" where
  "import_account_pnl_operation W value = map_res (\<lambda>s. \<lparr>pap_state = s\<rparr>) (import_pnl_state W value)"

definition import_adjustment_operation ::
  "decimal_repr \<Rightarrow> wire_adjustment_operation \<Rightarrow> ffi_error + populated_account_adjustment_operation access" where
  "import_adjustment_operation W value =
     (if wao_kind value = 0 then Inr Absent
      else if wao_kind value = 1
        then map_res (\<lambda>op. Populated (OpBalance op)) (import_balance_operation W (wao_balance value))
      else if wao_kind value = 2
        then map_res (\<lambda>op. Populated (OpPosition op)) (import_position_operation W (wao_position value))
      else if wao_kind value = 3
        then map_res (\<lambda>op. Populated (OpAccountPnl op)) (import_account_pnl_operation W (wao_account_pnl value))
      else Inl (FfiInvalidCode ''account adjustment operation'' (wao_kind value)))"

definition import_amounts ::
  "decimal_repr \<Rightarrow> wire_adjustment_amounts \<Rightarrow> ffi_error + account_adjustment_amount" where
  "import_amounts W value =
     bind_res (import_adjustment_amount W (wam_balance value)) (\<lambda>bal.
     bind_res (import_adjustment_amount W (wam_held value)) (\<lambda>hld.
     bind_res (import_adjustment_amount W (wam_incoming value)) (\<lambda>inc.
       Inr \<lparr>aaa_balance = bal, aaa_held = hld, aaa_incoming = inc\<rparr>)))"

definition import_bound :: "decimal_repr \<Rightarrow> param_decimal wire_optional \<Rightarrow> ffi_error + position_size option" where
  "import_bound W value = import_optional (to_position_size W) value"

definition import_bounds ::
  "decimal_repr \<Rightarrow> wire_adjustment_bounds \<Rightarrow> ffi_error + account_adjustment_bounds" where
  "import_bounds W value =
     bind_res (import_bound W (wab_balance_upper value)) (\<lambda>balance_upper.
     bind_res (import_bound W (wab_balance_lower value)) (\<lambda>balance_lower.
     bind_res (import_bound W (wab_held_upper value)) (\<lambda>held_upper.
     bind_res (import_bound W (wab_held_lower value)) (\<lambda>held_lower.
     bind_res (import_bound W (wab_incoming_upper value)) (\<lambda>incoming_upper.
     bind_res (import_bound W (wab_incoming_lower value)) (\<lambda>incoming_lower.
       Inr \<lparr>aab_balance_upper = balance_upper, aab_balance_lower = balance_lower, aab_held_upper = held_upper,
            aab_held_lower = held_lower, aab_incoming_upper = incoming_upper, aab_incoming_lower = incoming_lower\<rparr>))))))"

definition import_account_adjustment ::
  "decimal_repr \<Rightarrow> wire_adjustment \<Rightarrow> ffi_error + (interop_account_adjustment, user_data) request_with_payload" where
  "import_account_adjustment W value =
     bind_res (import_adjustment_operation W (wad_operation value)) (\<lambda>operation.
     bind_res (import_access (import_amounts W) (wad_amount value)) (\<lambda>amount.
     bind_res (import_access (import_bounds W) (wad_bounds value)) (\<lambda>bounds.
       Inr (request_with_payload_new \<lparr>ia_operation = operation, ia_amount = amount, ia_bounds = bounds\<rparr>
         (wad_user_data value)))))"

definition export_balance_operation :: "decimal_repr \<Rightarrow> populated_balance_operation \<Rightarrow> wire_balance_operation" where
  "export_balance_operation W v =
     \<lparr>wbo_asset = export_asset (pbo_asset v), wbo_average_entry_price = export_decimal W (pbo_average_entry_price v),
      wbo_realized_pnl = export_optional wire_pnl_state_default (export_pnl_state W) (pbo_realized_pnl v)\<rparr>"

definition export_position_operation :: "decimal_repr \<Rightarrow> populated_position_operation \<Rightarrow> wire_position_operation" where
  "export_position_operation W v =
     \<lparr>wpo_instrument = export_instrument (ppo_instrument v), wpo_collateral_asset = export_asset (ppo_collateral_asset v),
      wpo_average_entry_price = export_decimal W (ppo_average_entry_price v),
      wpo_leverage = export_leverage (ppo_leverage v), wpo_mode = code_of export_position_mode (ppo_mode v)\<rparr>"

definition export_account_pnl_operation :: "decimal_repr \<Rightarrow> populated_account_pnl_operation \<Rightarrow> wire_pnl_state" where
  "export_account_pnl_operation W v = export_pnl_state W (pap_state v)"

fun export_adjustment_operation ::
  "decimal_repr \<Rightarrow> populated_account_adjustment_operation access \<Rightarrow> wire_adjustment_operation" where
  "export_adjustment_operation W (Populated (OpBalance v)) =
     \<lparr>wao_kind = 1, wao_balance = export_balance_operation W v, wao_position = wire_position_operation_default,
      wao_account_pnl = wire_pnl_state_default\<rparr>"
| "export_adjustment_operation W (Populated (OpPosition v)) =
     \<lparr>wao_kind = 2, wao_balance = wire_balance_operation_default, wao_position = export_position_operation W v,
      wao_account_pnl = wire_pnl_state_default\<rparr>"
| "export_adjustment_operation W (Populated (OpAccountPnl v)) =
     \<lparr>wao_kind = 3, wao_balance = wire_balance_operation_default, wao_position = wire_position_operation_default,
      wao_account_pnl = export_account_pnl_operation W v\<rparr>"
| "export_adjustment_operation W Absent =
     \<lparr>wao_kind = 0, wao_balance = wire_balance_operation_default, wao_position = wire_position_operation_default,
      wao_account_pnl = wire_pnl_state_default\<rparr>"

definition export_amounts :: "decimal_repr \<Rightarrow> account_adjustment_amount \<Rightarrow> wire_adjustment_amounts" where
  "export_amounts W v =
     \<lparr>wam_balance = export_adjustment_amount W (aaa_balance v), wam_held = export_adjustment_amount W (aaa_held v),
      wam_incoming = export_adjustment_amount W (aaa_incoming v)\<rparr>"

definition export_bounds :: "decimal_repr \<Rightarrow> account_adjustment_bounds \<Rightarrow> wire_adjustment_bounds" where
  "export_bounds W v =
     \<lparr>wab_balance_upper = export_decimal W (aab_balance_upper v), wab_balance_lower = export_decimal W (aab_balance_lower v),
      wab_held_upper = export_decimal W (aab_held_upper v), wab_held_lower = export_decimal W (aab_held_lower v),
      wab_incoming_upper = export_decimal W (aab_incoming_upper v),
      wab_incoming_lower = export_decimal W (aab_incoming_lower v)\<rparr>"

definition export_account_adjustment ::
  "decimal_repr \<Rightarrow> (interop_account_adjustment, user_data) request_with_payload \<Rightarrow> wire_adjustment" where
  "export_account_adjustment W value =
     \<lparr>wad_operation = export_adjustment_operation W (ia_operation (rwp_request value)),
      wad_amount = export_access
        \<lparr>wam_balance = wire_adjustment_amount_default, wam_held = wire_adjustment_amount_default,
         wam_incoming = wire_adjustment_amount_default\<rparr>
        (export_amounts W) (ia_amount (rwp_request value)),
      wad_bounds = export_access
        \<lparr>wab_balance_upper = decimal_unset, wab_balance_lower = decimal_unset, wab_held_upper = decimal_unset,
         wab_held_lower = decimal_unset, wab_incoming_upper = decimal_unset, wab_incoming_lower = decimal_unset\<rparr>
        (export_bounds W) (ia_bounds (rwp_request value)),
      wad_user_data = rwp_payload value\<rparr>"

section \<open>Valid requests\<close>

text \<open>What the types of the core promise of the values in an aggregate.\<close>

fun access_all :: "('a \<Rightarrow> bool) \<Rightarrow> 'a access \<Rightarrow> bool" where
  "access_all P (Populated x) = P x"
| "access_all P Absent = True"

definition order_ok :: "interop_order \<Rightarrow> bool" where
  "order_ok r \<longleftrightarrow>
     access_all (\<lambda>op. pred_option instrument_ok (poo_instrument op) \<and> pred_option trade_amount_ok (poo_trade_amount op) \<and>
       pred_option representable (poo_price op)) (io_operation r) \<and>
     access_all (\<lambda>m. pred_option leverage_ok (pom_leverage m) \<and> pred_option asset_ok (pom_collateral_asset m)) (io_margin r)"

definition trade_ok :: "trade \<Rightarrow> bool" where
  "trade_ok t \<longleftrightarrow> representable (trade_price t) \<and> amount_ok (trade_quantity t)"

definition report_ok :: "interop_execution_report \<Rightarrow> bool" where
  "report_ok r \<longleftrightarrow>
     access_all (\<lambda>op. pred_option instrument_ok (per_instrument op)) (ir_operation r) \<and>
     access_all (\<lambda>i. pred_option representable (pfi_pnl i) \<and> pred_option representable (pfi_fee i)) (ir_financial_impact r) \<and>
     access_all (\<lambda>f. pred_option trade_ok (pef_last_trade f) \<and> pred_option monetary_amount_ok (pef_fee f) \<and>
       pred_option amount_ok (pef_remaining_reserved_quantity f)) (ir_fill r)"

fun adjustment_amount_ok :: "adjustment_amount \<Rightarrow> bool" where
  "adjustment_amount_ok (Delta v) = representable v"
| "adjustment_amount_ok (Absolute v) = representable v"

fun adjustment_operation_ok :: "populated_account_adjustment_operation \<Rightarrow> bool" where
  "adjustment_operation_ok (OpBalance op) \<longleftrightarrow> pred_option asset_ok (pbo_asset op) \<and>
     pred_option representable (pbo_average_entry_price op) \<and> pred_option pnl_state_ok (pbo_realized_pnl op)"
| "adjustment_operation_ok (OpPosition op) \<longleftrightarrow> pred_option instrument_ok (ppo_instrument op) \<and>
     pred_option asset_ok (ppo_collateral_asset op) \<and> pred_option representable (ppo_average_entry_price op) \<and>
     pred_option leverage_ok (ppo_leverage op)"
| "adjustment_operation_ok (OpAccountPnl op) \<longleftrightarrow> pnl_state_ok (pap_state op)"

definition amounts_ok :: "account_adjustment_amount \<Rightarrow> bool" where
  "amounts_ok a \<longleftrightarrow> pred_option adjustment_amount_ok (aaa_balance a) \<and> pred_option adjustment_amount_ok (aaa_held a) \<and>
     pred_option adjustment_amount_ok (aaa_incoming a)"

definition bounds_ok :: "account_adjustment_bounds \<Rightarrow> bool" where
  "bounds_ok b \<longleftrightarrow> pred_option representable (aab_balance_upper b) \<and> pred_option representable (aab_balance_lower b) \<and>
     pred_option representable (aab_held_upper b) \<and> pred_option representable (aab_held_lower b) \<and>
     pred_option representable (aab_incoming_upper b) \<and> pred_option representable (aab_incoming_lower b)"

definition adjustment_ok :: "interop_account_adjustment \<Rightarrow> bool" where
  "adjustment_ok r \<longleftrightarrow> access_all adjustment_operation_ok (ia_operation r) \<and> access_all amounts_ok (ia_amount r) \<and>
     access_all bounds_ok (ia_bounds r)"

section \<open>Groups survive the interface\<close>

lemma import_export_access:
  "access_all P v \<Longrightarrow> (\<And>x. P x \<Longrightarrow> f (g x) = Inr x) \<Longrightarrow> import_access f (export_access d g v) = Inr v"
  by (cases v) (simp_all add: import_access_def export_access_def)

lemma import_access_valid:
  "import_access f v = Inr x \<Longrightarrow> (\<And>w y. f w = Inr y \<Longrightarrow> P y) \<Longrightarrow>
     access_all P x \<and> (x = Absent \<longleftrightarrow> \<not> wo_is_set v)"
  by (auto simp: import_access_def result_simps split: if_splits)

lemma aggregate_eta:
  "\<lparr>io_operation = io_operation q, io_position = io_position q, io_margin = io_margin q\<rparr> = q"
  "\<lparr>ir_operation = ir_operation p, ir_financial_impact = ir_financial_impact p, ir_fill = ir_fill p,
    ir_position_impact = ir_position_impact p\<rparr> = p"
  "\<lparr>ia_operation = ia_operation a, ia_amount = ia_amount a, ia_bounds = ia_bounds a\<rparr> = a"
  by simp_all

lemma request_eta: "request_with_payload_new (rwp_request r) (rwp_payload r) = r"
  by (simp add: request_with_payload_new_def)

lemma flag_round [simp]: "flag_or_false (export_bool b) = Inr b"
  by (simp add: flag_or_false_def)

lemma plain_round [simp]: "import_optional Inr (export_optional d id v) = Inr v"
  by (rule import_export_optional [where P = "\<lambda>_. True"]) (cases v, simp_all)

lemma access_true [simp]: "access_all (\<lambda>_. True) v"
  by (cases v) simp_all

context decimal_wire
begin

lemma decimal_round:
  "pred_option representable v \<Longrightarrow> import_optional (to_pnl W) (export_decimal W v) = Inr v"
  "pred_option representable v \<Longrightarrow> import_optional (to_price W) (export_decimal W v) = Inr v"
  "pred_option representable v \<Longrightarrow> import_optional (to_fee W) (export_decimal W v) = Inr v"
  "pred_option representable v \<Longrightarrow> import_bound W (export_decimal W v) = Inr v"
  "pred_option amount_ok v \<Longrightarrow> import_optional (to_quantity W) (export_decimal W v) = Inr v"
  unfolding import_bound_def by (cases v; simp add: import_optional_def export_optional_def to_from)+

lemma decimal_valid:
  "import_optional (to_pnl W) w = Inr v \<Longrightarrow> pred_option representable v"
  "import_optional (to_price W) w = Inr v \<Longrightarrow> pred_option representable v"
  "import_optional (to_fee W) w = Inr v \<Longrightarrow> pred_option representable v"
  "import_bound W w = Inr v \<Longrightarrow> pred_option representable v"
  "import_optional (to_quantity W) w = Inr v \<Longrightarrow> pred_option amount_ok v"
  unfolding import_bound_def by (auto elim!: import_optional_valid dest: to_valid)

lemma adjustment_amount_round:
  "pred_option adjustment_amount_ok a \<Longrightarrow> import_adjustment_amount W (export_adjustment_amount W a) = Inr a"
  by (cases a; cases "the a")
    (auto simp: import_adjustment_amount_def export_adjustment_amount_def wire_adjustment_amount_default_def to_from)

lemma adjustment_amount_valid: "import_adjustment_amount W w = Inr a \<Longrightarrow> pred_option adjustment_amount_ok a"
  by (auto simp: import_adjustment_amount_def result_simps dest: to_valid split: if_splits)

lemma trade_round: "trade_ok t \<Longrightarrow> import_trade W (export_trade W t) = Inr t"
  by (simp add: import_trade_def export_trade_def trade_ok_def to_from)

lemma trade_valid: "import_trade W w = Inr t \<Longrightarrow> trade_ok t"
  by (auto simp: import_trade_def trade_ok_def result_simps dest: to_valid)

lemma optional_round:
  "pred_option trade_ok t \<Longrightarrow> import_optional (import_trade W) (export_optional dt (export_trade W) t) = Inr t"
  "pred_option monetary_amount_ok m \<Longrightarrow>
     import_optional (import_monetary_amount W) (export_optional dm (export_monetary_amount W) m) = Inr m"
  "pred_option pnl_state_ok s \<Longrightarrow> import_optional (import_pnl_state W) (export_optional ds (export_pnl_state W) s) = Inr s"
  by (cases t; cases m; cases s;
      simp add: import_optional_def export_optional_def trade_round monetary_round pnl_state_round)+

lemma order_round:
  assumes "order_ok (rwp_request r)"
  shows "import_order W (export_order W r) = Inr r"
proof -
  have operation: "import_access (import_order_operation W) (wor_operation (export_order W r)) = Inr (io_operation (rwp_request r))"
    unfolding export_order_def wire_order.simps
    by (rule import_export_access, rule assms [unfolded order_ok_def, THEN conjunct1])
      (simp add: import_order_operation_def export_order_operation_def trade_amount_round decimal_round)
  have margin: "import_access import_order_margin (wor_margin (export_order W r)) = Inr (io_margin (rwp_request r))"
    unfolding export_order_def wire_order.simps
    by (rule import_export_access, rule assms [unfolded order_ok_def, THEN conjunct2])
      (simp add: import_order_margin_def export_order_margin_def)
  have position: "import_access import_order_position (wor_position (export_order W r)) = Inr (io_position (rwp_request r))"
    unfolding export_order_def wire_order.simps
    by (rule import_export_access [where P = "\<lambda>_. True"])
      (simp_all add: import_order_position_def export_order_position_def)
  show ?thesis
    by (simp add: import_order_def operation margin position aggregate_eta) (simp add: export_order_def request_eta)
qed

lemma report_round:
  assumes "report_ok (rwp_request r)"
  shows "import_execution_report W (export_execution_report W r) = Inr r"
proof -
  note ok = assms [unfolded report_ok_def]
  have operation: "import_access import_report_operation (wre_operation (export_execution_report W r)) =
      Inr (ir_operation (rwp_request r))"
    unfolding export_execution_report_def wire_report.simps
    by (rule import_export_access, rule ok [THEN conjunct1])
      (simp add: import_report_operation_def export_report_operation_def)
  have impact: "import_access (import_financial_impact W) (wre_financial_impact (export_execution_report W r)) =
      Inr (ir_financial_impact (rwp_request r))"
    unfolding export_execution_report_def wire_report.simps
    by (rule import_export_access, rule ok [THEN conjunct2, THEN conjunct1])
      (simp add: import_financial_impact_def export_financial_impact_def decimal_round)
  have fill: "import_access (import_fill W) (wre_fill (export_execution_report W r)) = Inr (ir_fill (rwp_request r))"
    unfolding export_execution_report_def wire_report.simps
    by (rule import_export_access, rule ok [THEN conjunct2, THEN conjunct2])
      (simp add: import_fill_def export_fill_def decimal_round optional_round)
  have position: "import_access import_position_impact (wre_position_impact (export_execution_report W r)) =
      Inr (ir_position_impact (rwp_request r))"
    unfolding export_execution_report_def wire_report.simps
    by (rule import_export_access [where P = "\<lambda>_. True"])
      (simp_all add: import_position_impact_def export_position_impact_def)
  show ?thesis
    by (simp add: import_execution_report_def operation impact fill position aggregate_eta) (simp add: export_execution_report_def request_eta)
qed

lemma adjustment_operation_round:
  "access_all adjustment_operation_ok op \<Longrightarrow> import_adjustment_operation W (export_adjustment_operation W op) = Inr op"
  by (cases "(W, op)" rule: export_adjustment_operation.cases)
    (simp_all add: import_adjustment_operation_def import_balance_operation_def export_balance_operation_def
      import_position_operation_def export_position_operation_def import_account_pnl_operation_def
      export_account_pnl_operation_def decimal_round pnl_state_round optional_round)

lemma adjustment_round:
  assumes "adjustment_ok (rwp_request r)"
  shows "import_account_adjustment W (export_account_adjustment W r) = Inr r"
proof -
  note ok = assms [unfolded adjustment_ok_def]
  have amount: "import_access (import_amounts W) (wad_amount (export_account_adjustment W r)) = Inr (ia_amount (rwp_request r))"
    unfolding export_account_adjustment_def wire_adjustment.simps
    by (rule import_export_access, rule ok [THEN conjunct2, THEN conjunct1])
      (simp add: import_amounts_def export_amounts_def amounts_ok_def adjustment_amount_round)
  have bounds: "import_access (import_bounds W) (wad_bounds (export_account_adjustment W r)) = Inr (ia_bounds (rwp_request r))"
    unfolding export_account_adjustment_def wire_adjustment.simps
    by (rule import_export_access, rule ok [THEN conjunct2, THEN conjunct2])
      (simp add: import_bounds_def export_bounds_def bounds_ok_def decimal_round)
  have operation: "import_adjustment_operation W (wad_operation (export_account_adjustment W r)) =
      Inr (ia_operation (rwp_request r))"
    using ok by (simp add: export_account_adjustment_def adjustment_operation_round)
  show ?thesis
    by (simp add: import_account_adjustment_def operation amount bounds aggregate_eta) (simp add: export_account_adjustment_def request_eta)
qed

lemma optional_valid:
  "import_optional (import_trade W) w = Inr t \<Longrightarrow> pred_option trade_ok t"
  "import_optional (import_monetary_amount W) x = Inr m \<Longrightarrow> pred_option monetary_amount_ok m"
  "import_optional (import_pnl_state W) y = Inr s \<Longrightarrow> pred_option pnl_state_ok s"
  by (auto elim!: import_optional_valid dest: trade_valid monetary_valid pnl_state_valid)

lemma order_valid:
  assumes "import_order W w = Inr r"
  shows "order_ok (rwp_request r) \<and> (io_operation (rwp_request r) = Absent \<longleftrightarrow> \<not> wo_is_set (wor_operation w)) \<and>
    (io_position (rwp_request r) = Absent \<longleftrightarrow> \<not> wo_is_set (wor_position w)) \<and>
    (io_margin (rwp_request r) = Absent \<longleftrightarrow> \<not> wo_is_set (wor_margin w)) \<and> rwp_payload r = wor_user_data w"
proof -
  obtain operation position margin where parts:
    "import_access (import_order_operation W) (wor_operation w) = Inr operation"
    "import_access import_order_position (wor_position w) = Inr position"
    "import_access import_order_margin (wor_margin w) = Inr margin"
    "r = request_with_payload_new \<lparr>io_operation = operation, io_position = position, io_margin = margin\<rparr> (wor_user_data w)"
    using assms by (auto simp: import_order_def result_simps)
  have "access_all (\<lambda>op. pred_option instrument_ok (poo_instrument op) \<and> pred_option trade_amount_ok (poo_trade_amount op) \<and>
      pred_option representable (poo_price op)) operation \<and> (operation = Absent \<longleftrightarrow> \<not> wo_is_set (wor_operation w))"
    using parts(1) by (rule import_access_valid)
      (auto simp: import_order_operation_def result_simps
        dest: import_instrument_valid trade_amount_valid decimal_valid)
  moreover have "access_all (\<lambda>m. pred_option leverage_ok (pom_leverage m) \<and> pred_option asset_ok (pom_collateral_asset m)) margin \<and>
      (margin = Absent \<longleftrightarrow> \<not> wo_is_set (wor_margin w))"
    using parts(3) by (rule import_access_valid)
      (auto simp: import_order_margin_def result_simps import_leverage_valid dest: parse_asset_valid)
  moreover have "position = Absent \<longleftrightarrow> \<not> wo_is_set (wor_position w)"
    using import_access_valid [OF parts(2), of "\<lambda>_. True"] by simp
  ultimately show ?thesis by (simp add: parts(4) request_with_payload_new_def order_ok_def)
qed

lemma report_valid:
  assumes "import_execution_report W w = Inr r"
  shows "report_ok (rwp_request r) \<and> (ir_operation (rwp_request r) = Absent \<longleftrightarrow> \<not> wo_is_set (wre_operation w)) \<and>
    (ir_fill (rwp_request r) = Absent \<longleftrightarrow> \<not> wo_is_set (wre_fill w)) \<and>
    rwp_payload r = wre_user_data w"
proof -
  obtain operation impact fill position where parts:
    "import_access import_report_operation (wre_operation w) = Inr operation"
    "import_access (import_financial_impact W) (wre_financial_impact w) = Inr impact"
    "import_access (import_fill W) (wre_fill w) = Inr fill"
    "r = request_with_payload_new \<lparr>ir_operation = operation, ir_financial_impact = impact, ir_fill = fill,
       ir_position_impact = position\<rparr> (wre_user_data w)"
    using assms by (auto simp: import_execution_report_def result_simps)
  have "access_all (\<lambda>op. pred_option instrument_ok (per_instrument op)) operation \<and>
      (operation = Absent \<longleftrightarrow> \<not> wo_is_set (wre_operation w))"
    using parts(1) by (rule import_access_valid)
      (auto simp: import_report_operation_def result_simps dest: import_instrument_valid)
  moreover have "access_all (\<lambda>i. pred_option representable (pfi_pnl i) \<and> pred_option representable (pfi_fee i)) impact \<and>
      (impact = Absent \<longleftrightarrow> \<not> wo_is_set (wre_financial_impact w))"
    using parts(2) by (rule import_access_valid)
      (auto simp: import_financial_impact_def result_simps dest: decimal_valid)
  moreover have "access_all (\<lambda>f. pred_option trade_ok (pef_last_trade f) \<and> pred_option monetary_amount_ok (pef_fee f) \<and>
      pred_option amount_ok (pef_remaining_reserved_quantity f)) fill \<and> (fill = Absent \<longleftrightarrow> \<not> wo_is_set (wre_fill w))"
    using parts(3) by (rule import_access_valid)
      (auto simp: import_fill_def result_simps dest: decimal_valid optional_valid)
  ultimately show ?thesis by (simp add: parts(4) request_with_payload_new_def report_ok_def)
qed

lemma adjustment_operation_valid:
  assumes "import_adjustment_operation W w = Inr op"
  shows "access_all adjustment_operation_ok op \<and> (op = Absent \<longleftrightarrow> wao_kind w = 0)"
proof -
  have "import_balance_operation W v = Inr b \<Longrightarrow> adjustment_operation_ok (OpBalance b)" for v b
    by (auto simp: import_balance_operation_def result_simps dest: parse_asset_valid decimal_valid optional_valid)
  moreover have "import_position_operation W v = Inr p \<Longrightarrow> adjustment_operation_ok (OpPosition p)" for v p
    by (auto simp: import_position_operation_def result_simps import_leverage_valid
        dest: import_instrument_valid parse_asset_valid decimal_valid)
  moreover have "import_account_pnl_operation W v = Inr a \<Longrightarrow> adjustment_operation_ok (OpAccountPnl a)" for v a
    by (auto simp: import_account_pnl_operation_def result_simps dest: pnl_state_valid)
  ultimately show ?thesis
    using assms unfolding import_adjustment_operation_def by (auto simp: result_simps split: if_split_asm)
qed

lemma adjustment_valid:
  assumes "import_account_adjustment W w = Inr r"
  shows "adjustment_ok (rwp_request r) \<and> (ia_operation (rwp_request r) = Absent \<longleftrightarrow> wao_kind (wad_operation w) = 0) \<and>
    rwp_payload r = wad_user_data w"
proof -
  obtain operation amount bounds where parts:
    "import_adjustment_operation W (wad_operation w) = Inr operation"
    "import_access (import_amounts W) (wad_amount w) = Inr amount"
    "import_access (import_bounds W) (wad_bounds w) = Inr bounds"
    "r = request_with_payload_new \<lparr>ia_operation = operation, ia_amount = amount, ia_bounds = bounds\<rparr> (wad_user_data w)"
    using assms by (auto simp: import_account_adjustment_def result_simps)
  have "access_all amounts_ok amount \<and> (amount = Absent \<longleftrightarrow> \<not> wo_is_set (wad_amount w))"
    using parts(2) by (rule import_access_valid)
      (auto simp: import_amounts_def amounts_ok_def result_simps dest: adjustment_amount_valid)
  moreover have "access_all bounds_ok bounds \<and> (bounds = Absent \<longleftrightarrow> \<not> wo_is_set (wad_bounds w))"
    using parts(3) by (rule import_access_valid)
      (auto simp: import_bounds_def bounds_ok_def result_simps dest: decimal_valid)
  ultimately show ?thesis
    using adjustment_operation_valid [OF parts(1)]
    by (simp add: parts(4) request_with_payload_new_def adjustment_ok_def)
qed

end

lemma unset_report_groups:
  "import_execution_report W w = Inr r \<Longrightarrow>
   (\<not> wo_is_set (wre_financial_impact w) \<longrightarrow> ir_financial_impact (rwp_request r) = Absent) \<and>
   (\<not> wo_is_set (wre_position_impact w) \<longrightarrow> ir_position_impact (rwp_request r) = Absent)"
  by (auto simp: import_execution_report_def import_access_def request_with_payload_new_def result_simps split: if_splits)

lemma unset_adjustment_groups:
  "import_account_adjustment W w = Inr r \<Longrightarrow>
   (\<not> wo_is_set (wad_amount w) \<longrightarrow> ia_amount (rwp_request r) = Absent) \<and>
   (\<not> wo_is_set (wad_bounds w) \<longrightarrow> ia_bounds (rwp_request r) = Absent)"
  by (auto simp: import_account_adjustment_def import_access_def request_with_payload_new_def result_simps split: if_splits)

section \<open>Properties\<close>

text \<open>
  (C37) Requests survive the C interface. A request whose values are valid (decimals that fit, quantities
  and volumes that are not negative, asset names that are UTF-8 and not blank, leverage in range) is
  decoded from its encoding to exactly itself, with every present and absent group and field, the
  mantissa put together from its two halves, and the token of the caller.
\<close>

theorem request_survives_c_interface:
  assumes "decimal_wire W"
  shows "(order_ok (rwp_request o') \<longrightarrow> import_order W (export_order W o') = Inr o') \<and>
    (report_ok (rwp_request r) \<longrightarrow> import_execution_report W (export_execution_report W r) = Inr r) \<and>
    (adjustment_ok (rwp_request a) \<longrightarrow> import_account_adjustment W (export_account_adjustment W a) = Inr a)"
  using decimal_wire.order_round [OF assms] decimal_wire.report_round [OF assms]
    decimal_wire.adjustment_round [OF assms] by blast

definition sample_sell :: "(interop_order, user_data) request_with_payload" where
  "sample_sell = request_with_payload_new (interop_order_default
     \<lparr>io_operation := Populated \<lparr>poo_instrument = Some \<lparr>underlying_asset = ''AAPL'', settlement_asset = ''USD''\<rparr>,
        poo_account_id = Some 7, poo_side = Some Sell, poo_trade_amount = Some (TA_Quantity 3), poo_price = Some (- 25)\<rparr>\<rparr>) 99"

lemma sample_sell_ok: "order_ok (rwp_request sample_sell)"
  by (simp add: sample_sell_def request_with_payload_new_def interop_order_default_def order_ok_def instrument_ok_def
      asset_ok_def is_utf8_def trim_is_empty_def ascii_space_def amount_ok_def)

theorem request_survives_c_interface_witness:
  "import_order decimal96_repr (export_order decimal96_repr sample_sell) = Inr sample_sell"
  using request_survives_c_interface [OF decimal96.decimal_wire_axioms] sample_sell_ok by blast

text \<open>
  (C38) Nothing invalid comes in over the C interface. Whatever bytes a caller passes, a request that is
  decoded holds valid values only (decimals that fit, quantities and volumes that are not negative, asset
  names that are UTF-8 and not blank, leverage in range), and carries the token of the caller. What the caller
  did not set is absent: the operation, position and margin groups of an order, the operation, financial
  impact, fill and position impact groups of a report, and the amount and bounds groups of an adjustment
  whose flag is not set, and the operation of an adjustment of the kind that says there is none.
\<close>

theorem decoded_request_is_valid:
  assumes "decimal_wire W"
  shows "(\<forall>w r. import_order W w = Inr r \<longrightarrow>
      order_ok (rwp_request r) \<and> rwp_payload r = wor_user_data w \<and>
      (\<not> wo_is_set (wor_operation w) \<longrightarrow> io_operation (rwp_request r) = Absent) \<and>
      (\<not> wo_is_set (wor_position w) \<longrightarrow> io_position (rwp_request r) = Absent) \<and>
      (\<not> wo_is_set (wor_margin w) \<longrightarrow> io_margin (rwp_request r) = Absent)) \<and>
    (\<forall>w r. import_execution_report W w = Inr r \<longrightarrow>
      report_ok (rwp_request r) \<and> rwp_payload r = wre_user_data w \<and>
      (\<not> wo_is_set (wre_operation w) \<longrightarrow> ir_operation (rwp_request r) = Absent) \<and>
      (\<not> wo_is_set (wre_financial_impact w) \<longrightarrow> ir_financial_impact (rwp_request r) = Absent) \<and>
      (\<not> wo_is_set (wre_fill w) \<longrightarrow> ir_fill (rwp_request r) = Absent) \<and>
      (\<not> wo_is_set (wre_position_impact w) \<longrightarrow> ir_position_impact (rwp_request r) = Absent)) \<and>
    (\<forall>w r. import_account_adjustment W w = Inr r \<longrightarrow>
      adjustment_ok (rwp_request r) \<and> rwp_payload r = wad_user_data w \<and>
      (wao_kind (wad_operation w) = 0 \<longrightarrow> ia_operation (rwp_request r) = Absent) \<and>
      (\<not> wo_is_set (wad_amount w) \<longrightarrow> ia_amount (rwp_request r) = Absent) \<and>
      (\<not> wo_is_set (wad_bounds w) \<longrightarrow> ia_bounds (rwp_request r) = Absent))"
proof (intro conjI allI impI, goal_cases)
qed (auto dest: decimal_wire.order_valid [OF assms] decimal_wire.report_valid [OF assms]
    decimal_wire.adjustment_valid [OF assms] unset_report_groups unset_adjustment_groups)

theorem decoded_request_is_valid_witness:
  "\<exists>r. import_order decimal96_repr (export_order decimal96_repr sample_sell) = Inr r \<and> order_ok (rwp_request r) \<and>
     rwp_payload r = wor_user_data (export_order decimal96_repr sample_sell)"
  using decoded_request_is_valid [OF decimal96.decimal_wire_axioms] decimal96.order_round [OF sample_sell_ok] by blast

end
