(* ===== verification/Ffi_Results.thy ===== *)
theory Ffi_Results
  imports Ffi_Requests
begin

text \<open>
  Results over the C interface (\<open>crates/openpit-ffi/src\<close>: \<open>reject.rs\<close>,
  \<open>account_outcome.rs\<close>): reject codes and scopes, rejects and account blocks with their lists, and
  the outcomes of operations with the collectors that callbacks fill. The details of a reject are pieces
  of text; what a piece looks like as text is the parameter \<open>render\<close>, and the details that come in
  are one literal piece.
\<close>

section \<open>Codes\<close>

fun export_reject_code :: "reject_code \<Rightarrow> u16" where
  "export_reject_code MissingRequiredField = 1"
| "export_reject_code InvalidFieldFormat = 2"
| "export_reject_code InvalidFieldValue = 3"
| "export_reject_code UnsupportedOrderType = 4"
| "export_reject_code UnsupportedTimeInForce = 5"
| "export_reject_code UnsupportedOrderAttribute = 6"
| "export_reject_code DuplicateClientOrderId = 7"
| "export_reject_code TooLateToEnter = 8"
| "export_reject_code ExchangeClosed = 9"
| "export_reject_code reject_code.UnknownInstrument = 10"
| "export_reject_code UnknownAccount = 11"
| "export_reject_code UnknownVenue = 12"
| "export_reject_code UnknownClearingAccount = 13"
| "export_reject_code UnknownCollateralAsset = 14"
| "export_reject_code InsufficientFunds = 15"
| "export_reject_code InsufficientMargin = 16"
| "export_reject_code InsufficientPosition = 17"
| "export_reject_code CreditLimitExceeded = 18"
| "export_reject_code RiskLimitExceeded = 19"
| "export_reject_code OrderExceedsLimit = 20"
| "export_reject_code OrderQtyExceedsLimit = 21"
| "export_reject_code OrderNotionalExceedsLimit = 22"
| "export_reject_code PositionLimitExceeded = 23"
| "export_reject_code ConcentrationLimitExceeded = 24"
| "export_reject_code LeverageLimitExceeded = 25"
| "export_reject_code RateLimitExceeded = 26"
| "export_reject_code PnlKillSwitchTriggered = 27"
| "export_reject_code AccountBlocked = 28"
| "export_reject_code AccountNotAuthorized = 29"
| "export_reject_code ComplianceRestriction = 30"
| "export_reject_code InstrumentRestricted = 31"
| "export_reject_code JurisdictionRestriction = 32"
| "export_reject_code WashTradePrevention = 33"
| "export_reject_code SelfMatchPrevention = 34"
| "export_reject_code ShortSaleRestriction = 35"
| "export_reject_code RiskConfigurationMissing = 36"
| "export_reject_code ReferenceDataUnavailable = 37"
| "export_reject_code OrderValueCalculationFailed = 38"
| "export_reject_code SystemUnavailable = 39"
| "export_reject_code MarkPriceUnavailable = 40"
| "export_reject_code AccountAdjustmentBoundsExceeded = 41"
| "export_reject_code ArithmeticOverflow = 42"
| "export_reject_code Custom = 254"
| "export_reject_code Other = 255"

text \<open>The arms of the import, in the order of the code; any other value is \<open>Other\<close>.\<close>

definition reject_code_arms :: "(u16 \<times> reject_code) list" where
  "reject_code_arms =
     [(1, MissingRequiredField), (2, InvalidFieldFormat), (3, InvalidFieldValue), (4, UnsupportedOrderType),
      (5, UnsupportedTimeInForce), (6, UnsupportedOrderAttribute), (7, DuplicateClientOrderId), (8, TooLateToEnter),
      (9, ExchangeClosed), (10, reject_code.UnknownInstrument), (11, UnknownAccount), (12, UnknownVenue),
      (13, UnknownClearingAccount), (14, UnknownCollateralAsset), (15, InsufficientFunds), (16, InsufficientMargin),
      (17, InsufficientPosition), (18, CreditLimitExceeded), (19, RiskLimitExceeded), (20, OrderExceedsLimit),
      (21, OrderQtyExceedsLimit), (22, OrderNotionalExceedsLimit), (23, PositionLimitExceeded),
      (24, ConcentrationLimitExceeded), (25, LeverageLimitExceeded), (26, RateLimitExceeded),
      (27, PnlKillSwitchTriggered), (28, AccountBlocked), (29, AccountNotAuthorized), (30, ComplianceRestriction),
      (31, InstrumentRestricted), (32, JurisdictionRestriction), (33, WashTradePrevention), (34, SelfMatchPrevention),
      (35, ShortSaleRestriction), (36, RiskConfigurationMissing), (37, ReferenceDataUnavailable),
      (38, OrderValueCalculationFailed), (39, SystemUnavailable), (40, MarkPriceUnavailable),
      (41, AccountAdjustmentBoundsExceeded), (42, ArithmeticOverflow), (254, Custom), (255, Other)]"

definition import_reject_code :: "u16 \<Rightarrow> reject_code" where
  "import_reject_code value = (case map_of reject_code_arms value of Some c \<Rightarrow> c | None \<Rightarrow> Other)"

definition reject_code_is_evaluation_failure :: "u16 \<Rightarrow> bool" where
  "reject_code_is_evaluation_failure code = is_evaluation_failure (import_reject_code code)"

fun export_reject_scope :: "reject_scope \<Rightarrow> u8" where
  "export_reject_scope ScopeOrder = 1"
| "export_reject_scope ScopeAccount = 2"

definition import_reject_scope :: "u8 \<Rightarrow> reject_scope option" where
  "import_reject_scope value = (if value = 1 then Some ScopeOrder else if value = 2 then Some ScopeAccount else None)"

section \<open>Texts\<close>

text \<open>
  \<open>String::from_utf8_lossy\<close>: well-formed sequences are kept, and each maximal part that cannot be
  continued to one is replaced by the replacement character. \<open>lossy_step\<close> answers the length of the
  first sequence, and whether it is well formed.
\<close>

fun lossy_step :: "nat list \<Rightarrow> nat \<times> bool" where
  "lossy_step [] = (0, True)"
| "lossy_step (a # bs) =
     (if a < 0x80 then (1, True)
      else if 0xC2 \<le> a \<and> a \<le> 0xDF then
        (case bs of b # _ \<Rightarrow> if utf8_tail b then (2, True) else (1, False) | [] \<Rightarrow> (1, False))
      else if 0xE0 \<le> a \<and> a \<le> 0xEF then
        (case bs of
           b # cs \<Rightarrow>
             if utf8_tail b \<and> (a = 0xE0 \<longrightarrow> 0xA0 \<le> b) \<and> (a = 0xED \<longrightarrow> b \<le> 0x9F)
             then (case cs of c # _ \<Rightarrow> if utf8_tail c then (3, True) else (2, False) | [] \<Rightarrow> (2, False))
             else (1, False)
         | [] \<Rightarrow> (1, False))
      else if 0xF0 \<le> a \<and> a \<le> 0xF4 then
        (case bs of
           b # cs \<Rightarrow>
             if utf8_tail b \<and> (a = 0xF0 \<longrightarrow> 0x90 \<le> b) \<and> (a = 0xF4 \<longrightarrow> b \<le> 0x8F)
             then (case cs of
                     c # ds \<Rightarrow>
                       if utf8_tail c
                       then (case ds of d # _ \<Rightarrow> if utf8_tail d then (4, True) else (3, False) | [] \<Rightarrow> (3, False))
                       else (2, False)
                   | [] \<Rightarrow> (2, False))
             else (1, False)
         | [] \<Rightarrow> (1, False))
      else (1, False))"

lemma lossy_step_pos: "bs \<noteq> [] \<Longrightarrow> 0 < fst (lossy_step bs)"
  by (cases bs) (auto split: list.split)

function lossy_bytes :: "nat list \<Rightarrow> nat list" where
  "lossy_bytes bs =
     (if bs = [] then []
      else case lossy_step bs of
        (n, ok) \<Rightarrow> (if ok then take n bs else [0xEF, 0xBF, 0xBD]) @ lossy_bytes (drop n bs))"
  by pat_completeness auto

termination
  by (relation "measure length") (auto simp: prod_eq_iff intro!: diff_less lossy_step_pos)

declare lossy_bytes.simps [simp del]

definition from_utf8_lossy :: "string \<Rightarrow> string" where
  "from_utf8_lossy bytes = map char_of (lossy_bytes (map of_char bytes))"

definition import_string :: "string_view \<Rightarrow> string" where
  "import_string view =
     (case sv_ptr view of None \<Rightarrow> [] | Some memory \<Rightarrow> from_utf8_lossy (take (sv_len view) memory))"

section \<open>Rejects and blocks\<close>

record wire_reject =
  wrj_policy :: string_view
  wrj_reason :: string_view
  wrj_details :: string_view
  wrj_user_data :: nat
  wrj_code :: u16
  wrj_scope :: u8

definition wire_from_reject :: "(text_pieces \<Rightarrow> string) \<Rightarrow> reject \<Rightarrow> wire_reject" where
  "wire_from_reject render r =
     \<lparr>wrj_policy = view_from_utf8 (rj_policy r), wrj_reason = view_from_utf8 (rj_reason r),
      wrj_details = view_from_utf8 (render (rj_details r)), wrj_user_data = rj_user_data r,
      wrj_code = export_reject_code (rj_code r), wrj_scope = export_reject_scope (rj_scope r)\<rparr>"

definition wire_to_reject :: "wire_reject \<Rightarrow> reject option" where
  "wire_to_reject self =
     map_option (\<lambda>scope. reject_with_user_data
       (reject_new (import_string (wrj_policy self)) scope (import_reject_code (wrj_code self))
          (import_string (wrj_reason self)) [Lit (import_string (wrj_details self))]) (wrj_user_data self))
       (import_reject_scope (wrj_scope self))"

text \<open>A pointer to a list of rejects: null, the shared list that accepts, or a list of its own.\<close>

datatype reject_list = NullRejects | AcceptSentinel | OwnedRejects "reject list"

definition reject_list_new :: reject_list where
  "reject_list_new = OwnedRejects []"

definition is_accepted_reject_list :: "reject_list \<Rightarrow> bool" where
  "is_accepted_reject_list l \<longleftrightarrow> l = AcceptSentinel"

text \<open>The list after the call and what it answers; \<open>None\<close> is the abort on a null pointer.\<close>

definition reject_list_push :: "reject_list \<Rightarrow> wire_reject \<Rightarrow> (reject_list \<times> bool) option" where
  "reject_list_push l w =
     (case l of
        NullRejects \<Rightarrow> None
      | AcceptSentinel \<Rightarrow> Some (l, False)
      | OwnedRejects items \<Rightarrow>
          Some (case wire_to_reject w of None \<Rightarrow> (l, False) | Some r \<Rightarrow> (OwnedRejects (items @ [r]), True)))"

definition reject_list_items :: "reject_list \<Rightarrow> reject list option" where
  "reject_list_items l = (case l of NullRejects \<Rightarrow> None | AcceptSentinel \<Rightarrow> Some [] | OwnedRejects items \<Rightarrow> Some items)"

definition reject_list_len :: "reject_list \<Rightarrow> nat option" where
  "reject_list_len l = map_option length (reject_list_items l)"

definition reject_list_get :: "(text_pieces \<Rightarrow> string) \<Rightarrow> reject_list \<Rightarrow> nat \<Rightarrow> wire_reject option option" where
  "reject_list_get render l i =
     map_option (\<lambda>items. if i < length items then Some (wire_from_reject render (items ! i)) else None) (reject_list_items l)"

definition rejects_to_list_owned :: "rejects \<Rightarrow> reject_list" where
  "rejects_to_list_owned values = OwnedRejects (rejects_vec values)"

record wire_block =
  wbk_policy :: string_view
  wbk_reason :: string_view
  wbk_details :: string_view
  wbk_user_data :: nat
  wbk_code :: u16

definition wire_from_block :: "(text_pieces \<Rightarrow> string) \<Rightarrow> account_block \<Rightarrow> wire_block" where
  "wire_from_block render b =
     \<lparr>wbk_policy = view_from_utf8 (ab_policy b), wbk_reason = view_from_utf8 (ab_reason b),
      wbk_details = view_from_utf8 (render (ab_details b)), wbk_user_data = ab_user_data b,
      wbk_code = export_reject_code (ab_code b)\<rparr>"

definition wire_to_block :: "wire_block \<Rightarrow> account_block" where
  "wire_to_block self =
     block_with_user_data (account_block_new (import_string (wbk_policy self)) (import_reject_code (wbk_code self))
       (import_string (wbk_reason self)) [Lit (import_string (wbk_details self))]) (wbk_user_data self)"

text \<open>The strict import, for the blocks an operator sets.\<close>

datatype block_error = BlockCodeUnknown | BlockFieldNull string | BlockFieldNotUtf8 string

definition parse_text :: "string \<Rightarrow> string_view \<Rightarrow> block_error + string" where
  "parse_text field view =
     (case sv_ptr view of
        None \<Rightarrow> if sv_len view = 0 then Inr [] else Inl (BlockFieldNull field)
      | Some memory \<Rightarrow>
          (let bytes = take (sv_len view) memory in if is_utf8 bytes then Inr bytes else Inl (BlockFieldNotUtf8 field)))"

definition wire_try_to_block :: "wire_block \<Rightarrow> block_error + account_block" where
  "wire_try_to_block self =
     (let code = import_reject_code (wbk_code self)
      in if code = Other \<and> wbk_code self \<noteq> 255 then Inl BlockCodeUnknown
         else bind_res (parse_text ''policy'' (wbk_policy self)) (\<lambda>policy.
              bind_res (parse_text ''reason'' (wbk_reason self)) (\<lambda>reason.
              bind_res (parse_text ''details'' (wbk_details self)) (\<lambda>details.
                Inr (block_with_user_data (account_block_new policy code reason [Lit details]) (wbk_user_data self))))))"

section \<open>Outcomes\<close>

record wire_outcome_amount =
  wou_delta :: param_decimal
  wou_absolute :: param_decimal

definition wire_outcome_amount_default :: wire_outcome_amount where
  "wire_outcome_amount_default = \<lparr>wou_delta = param_decimal_default, wou_absolute = param_decimal_default\<rparr>"

definition export_outcome_amount :: "decimal_repr \<Rightarrow> outcome_amount \<Rightarrow> wire_outcome_amount" where
  "export_outcome_amount W v =
     \<lparr>wou_delta = param_from_decimal W (oa_delta v), wou_absolute = param_from_decimal W (oa_absolute v)\<rparr>"

definition import_outcome_amount :: "decimal_repr \<Rightarrow> wire_outcome_amount \<Rightarrow> ffi_error + outcome_amount" where
  "import_outcome_amount W v =
     bind_res (to_position_size W (wou_delta v)) (\<lambda>delta.
     bind_res (to_position_size W (wou_absolute v)) (\<lambda>absolute. Inr \<lparr>oa_delta = delta, oa_absolute = absolute\<rparr>))"

definition export_pnl_outcome_amount :: "decimal_repr \<Rightarrow> pnl_outcome_amount \<Rightarrow> wire_outcome_amount" where
  "export_pnl_outcome_amount W v =
     \<lparr>wou_delta = param_from_decimal W (poa_delta v), wou_absolute = param_from_decimal W (poa_absolute v)\<rparr>"

definition import_pnl_outcome_amount :: "decimal_repr \<Rightarrow> wire_outcome_amount \<Rightarrow> ffi_error + pnl_outcome_amount" where
  "import_pnl_outcome_amount W v =
     bind_res (to_pnl W (wou_delta v)) (\<lambda>delta.
     bind_res (to_pnl W (wou_absolute v)) (\<lambda>absolute. Inr \<lparr>poa_delta = delta, poa_absolute = absolute\<rparr>))"

record wire_pnl_outcome =
  wpn_halt_reason :: u8
  wpn_amount :: "wire_outcome_amount wire_optional"

datatype outcome_error = OutcomeValue ffi_error | OutcomeAmountRequired | OutcomeAmountWithHalt u8
  | OutcomeAssetNotUtf8 | OutcomeAssetInvalid asset_error

definition export_pnl_outcome :: "decimal_repr \<Rightarrow> pnl_outcome \<Rightarrow> wire_pnl_outcome" where
  "export_pnl_outcome W v =
     (case v of
        Inr amount \<Rightarrow> \<lparr>wpn_halt_reason = 0, wpn_amount = \<lparr>wo_value = export_pnl_outcome_amount W amount, wo_is_set = True\<rparr>\<rparr>
      | Inl reason \<Rightarrow> \<lparr>wpn_halt_reason = export_pnl_halt_reason reason,
                       wpn_amount = \<lparr>wo_value = wire_outcome_amount_default, wo_is_set = False\<rparr>\<rparr>)"

definition import_pnl_outcome :: "decimal_repr \<Rightarrow> wire_pnl_outcome \<Rightarrow> outcome_error + pnl_outcome" where
  "import_pnl_outcome W v =
     (if wpn_halt_reason v = 0 then
        if wo_is_set (wpn_amount v)
        then map_err OutcomeValue (map_res Inr (import_pnl_outcome_amount W (wo_value (wpn_amount v))))
        else Inl OutcomeAmountRequired
      else if wo_is_set (wpn_amount v) then Inl (OutcomeAmountWithHalt (wpn_halt_reason v))
      else map_err OutcomeValue (map_res Inl (import_pnl_halt_reason (wpn_halt_reason v))))"

record wire_outcome_entry =
  woe_asset :: string_view
  woe_balance :: "wire_outcome_amount wire_optional"
  woe_held :: "wire_outcome_amount wire_optional"
  woe_incoming :: "wire_outcome_amount wire_optional"
  woe_realized_pnl :: "wire_pnl_outcome wire_optional"
  woe_average_entry_price :: "param_decimal wire_optional"

definition export_outcome_entry :: "decimal_repr \<Rightarrow> account_outcome_entry \<Rightarrow> wire_outcome_entry" where
  "export_outcome_entry W v =
     \<lparr>woe_asset = view_from_utf8 (aoe_asset v),
      woe_balance = export_optional wire_outcome_amount_default (export_outcome_amount W) (aoe_balance v),
      woe_held = export_optional wire_outcome_amount_default (export_outcome_amount W) (aoe_held v),
      woe_incoming = export_optional wire_outcome_amount_default (export_outcome_amount W) (aoe_incoming v),
      woe_realized_pnl = export_optional
        \<lparr>wpn_halt_reason = 0, wpn_amount = \<lparr>wo_value = wire_outcome_amount_default, wo_is_set = False\<rparr>\<rparr>
        (export_pnl_outcome W) (aoe_realized_pnl v),
      woe_average_entry_price = export_decimal W (aoe_average_entry_price v)\<rparr>"

definition import_pnl_outcome_optional ::
  "decimal_repr \<Rightarrow> wire_pnl_outcome wire_optional \<Rightarrow> outcome_error + pnl_outcome option" where
  "import_pnl_outcome_optional W v =
     (if wo_is_set v then map_res Some (import_pnl_outcome W (wo_value v)) else Inr None)"

definition wire_to_entry :: "decimal_repr \<Rightarrow> wire_outcome_entry \<Rightarrow> outcome_error + account_outcome_entry" where
  "wire_to_entry W self =
     bind_res (case sv_ptr (woe_asset self) of
         None \<Rightarrow> Inr []
       | Some memory \<Rightarrow>
           (let bytes = take (sv_len (woe_asset self)) memory in if is_utf8 bytes then Inr bytes else Inl OutcomeAssetNotUtf8))
       (\<lambda>asset_code.
     bind_res (map_err OutcomeAssetInvalid (asset_new asset_code)) (\<lambda>asset.
     bind_res (map_err OutcomeValue (import_optional (import_outcome_amount W) (woe_balance self))) (\<lambda>bal.
     bind_res (map_err OutcomeValue (import_optional (import_outcome_amount W) (woe_held self))) (\<lambda>hld.
     bind_res (map_err OutcomeValue (import_optional (import_outcome_amount W) (woe_incoming self))) (\<lambda>inc.
     bind_res (import_pnl_outcome_optional W (woe_realized_pnl self)) (\<lambda>realized.
     bind_res (map_err OutcomeValue (import_optional (to_price W) (woe_average_entry_price self))) (\<lambda>average.
       Inr \<lparr>aoe_asset = asset, aoe_balance = bal, aoe_held = hld, aoe_incoming = inc, aoe_realized_pnl = realized,
            aoe_average_entry_price = average\<rparr>)))))))"

record wire_account_pnl_outcome =
  wap_account_id :: u64
  wap_policy_group_id :: u16
  wap_halt_reason :: u8
  wap_amount :: "wire_outcome_amount wire_optional"

definition wire_from_pnl_outcome :: "decimal_repr \<Rightarrow> account_pnl_outcome \<Rightarrow> wire_account_pnl_outcome" where
  "wire_from_pnl_outcome W v =
     (let pnl = export_pnl_outcome W (apo_result v)
      in \<lparr>wap_account_id = apo_account_id v, wap_policy_group_id = apo_policy_group_id v,
          wap_halt_reason = wpn_halt_reason pnl, wap_amount = wpn_amount pnl\<rparr>)"

definition wire_to_pnl_outcome :: "decimal_repr \<Rightarrow> wire_account_pnl_outcome \<Rightarrow> outcome_error + account_pnl_outcome" where
  "wire_to_pnl_outcome W v =
     map_res (\<lambda>r. \<lparr>apo_result = r, apo_account_id = wap_account_id v, apo_policy_group_id = wap_policy_group_id v\<rparr>)
       (import_pnl_outcome W \<lparr>wpn_halt_reason = wap_halt_reason v, wpn_amount = wap_amount v\<rparr>)"

section \<open>Collectors\<close>

text \<open>What a callback appends to; an entry that does not decode is refused and leaves the collector as it is.\<close>

definition result_push_lock_price ::
  "decimal_repr \<Rightarrow> policy_pre_trade_result \<Rightarrow> param_decimal \<Rightarrow> policy_pre_trade_result \<times> bool" where
  "result_push_lock_price W result price =
     (case to_price W price of
        Inl _ \<Rightarrow> (result, False)
      | Inr parsed \<Rightarrow> (result\<lparr>ptr_lock_prices := ptr_lock_prices result @ [parsed]\<rparr>, True))"

definition push_account_adjustment ::
  "decimal_repr \<Rightarrow> policy_pre_trade_result \<Rightarrow> wire_outcome_entry \<Rightarrow> policy_pre_trade_result \<times> bool" where
  "push_account_adjustment W result entry =
     (case wire_to_entry W entry of
        Inl _ \<Rightarrow> (result, False)
      | Inr parsed \<Rightarrow> (result\<lparr>ptr_account_adjustments := ptr_account_adjustments result @ [parsed]\<rparr>, True))"

definition post_trade_adjustment_list_push ::
  "decimal_repr \<Rightarrow> account_adjustment_outcome list \<Rightarrow> u16 \<Rightarrow> wire_outcome_entry \<Rightarrow>
   account_adjustment_outcome list \<times> bool" where
  "post_trade_adjustment_list_push W items g entry =
     (case wire_to_entry W entry of
        Inl _ \<Rightarrow> (items, False)
      | Inr parsed \<Rightarrow> (items @ [\<lparr>aao_policy_group_id = g, aao_entry = parsed\<rparr>], True))"

definition post_trade_account_pnl_list_push ::
  "decimal_repr \<Rightarrow> account_pnl_outcome list \<Rightarrow> wire_account_pnl_outcome \<Rightarrow> account_pnl_outcome list \<times> bool" where
  "post_trade_account_pnl_list_push W items outcome =
     (case wire_to_pnl_outcome W outcome of Inl _ \<Rightarrow> (items, False) | Inr parsed \<Rightarrow> (items @ [parsed], True))"

definition adjustment_result_push_outcome ::
  "decimal_repr \<Rightarrow> policy_account_adjustment_result \<Rightarrow> wire_outcome_entry \<Rightarrow>
   policy_account_adjustment_result \<times> bool" where
  "adjustment_result_push_outcome W result entry =
     (case wire_to_entry W entry of
        Inl _ \<Rightarrow> (result, False)
      | Inr parsed \<Rightarrow> (result\<lparr>aar_account_adjustments := aar_account_adjustments result @ [parsed]\<rparr>, True))"

definition adjustment_result_push_block ::
  "policy_account_adjustment_result \<Rightarrow> wire_block \<Rightarrow> policy_account_adjustment_result" where
  "adjustment_result_push_block result block =
     result\<lparr>aar_account_blocks := aar_account_blocks result @ [wire_to_block block]\<rparr>"

text \<open>The blocks a callback answers with.\<close>

definition block_list_push :: "account_block list \<Rightarrow> wire_block \<Rightarrow> account_block list" where
  "block_list_push items block = items @ [wire_to_block block]"

text \<open>Repeated pushes, of rejects onto a list and of entries onto a collector, in order.\<close>

definition reject_list_push_all :: "reject_list \<Rightarrow> wire_reject list \<Rightarrow> reject_list option" where
  "reject_list_push_all l ws = fold (\<lambda>w l. Option.bind l (\<lambda>l. map_option fst (reject_list_push l w))) ws (Some l)"

definition push_account_adjustments ::
  "decimal_repr \<Rightarrow> policy_pre_trade_result \<Rightarrow> wire_outcome_entry list \<Rightarrow> policy_pre_trade_result" where
  "push_account_adjustments W result entries = fold (\<lambda>e r. fst (push_account_adjustment W r e)) entries result"

section \<open>What the values promise\<close>

definition reject_texts_ok :: "(text_pieces \<Rightarrow> string) \<Rightarrow> reject \<Rightarrow> bool" where
  "reject_texts_ok render r \<longleftrightarrow> is_utf8 (rj_policy r) \<and> is_utf8 (rj_reason r) \<and> is_utf8 (render (rj_details r))"

definition block_texts_ok :: "(text_pieces \<Rightarrow> string) \<Rightarrow> account_block \<Rightarrow> bool" where
  "block_texts_ok render b \<longleftrightarrow> is_utf8 (ab_policy b) \<and> is_utf8 (ab_reason b) \<and> is_utf8 (render (ab_details b))"

definition outcome_amount_ok :: "outcome_amount \<Rightarrow> bool" where
  "outcome_amount_ok v \<longleftrightarrow> representable (oa_delta v) \<and> representable (oa_absolute v)"

fun pnl_outcome_ok :: "pnl_outcome \<Rightarrow> bool" where
  "pnl_outcome_ok (Inl reason) = True"
| "pnl_outcome_ok (Inr v) = (representable (poa_delta v) \<and> representable (poa_absolute v))"

definition entry_ok :: "account_outcome_entry \<Rightarrow> bool" where
  "entry_ok e \<longleftrightarrow> asset_ok (aoe_asset e) \<and> pred_option outcome_amount_ok (aoe_balance e) \<and>
     pred_option outcome_amount_ok (aoe_held e) \<and> pred_option outcome_amount_ok (aoe_incoming e) \<and>
     pred_option pnl_outcome_ok (aoe_realized_pnl e) \<and> pred_option representable (aoe_average_entry_price e)"

definition rendered :: "(text_pieces \<Rightarrow> string) \<Rightarrow> reject \<Rightarrow> reject" where
  "rendered render r = r\<lparr>rj_details := [Lit (render (rj_details r))]\<rparr>"

section \<open>Codes and texts survive\<close>

lemma import_export_reject_code [simp]: "import_reject_code (export_reject_code c) = c"
  by (cases c) (simp_all add: import_reject_code_def reject_code_arms_def)

lemma import_export_reject_scope [simp]: "import_reject_scope (export_reject_scope s) = Some s"
  by (cases s) (simp_all add: import_reject_scope_def)

lemma other_code_exact: "export_reject_code c = 255 \<longleftrightarrow> c = Other"
  by (cases c) simp_all

text \<open>Reading one sequence after another is the check, whatever the first byte announces.\<close>

lemma lead_byte_cases:
  obtains "(a::nat) < 0x80" | "0xC2 \<le> a" "a \<le> 0xDF" | "0xE0 \<le> a" "a \<le> 0xEF" | "0xF0 \<le> a" "a \<le> 0xF4"
  | "0x80 \<le> a" "a < 0xC2 \<or> 0xF4 < a"
  by linarith

lemma utf8_by_steps:
  "utf8_bytes (a # bs) \<longleftrightarrow> snd (lossy_step (a # bs)) \<and> utf8_bytes (drop (fst (lossy_step (a # bs))) (a # bs))"
proof (cases a rule: lead_byte_cases)
  case 2
  then show ?thesis by (cases bs) simp_all
next
  case 3
  then show ?thesis by (cases bs; cases "tl bs") auto
next
  case 4
  then show ?thesis by (cases bs; cases "tl bs"; cases "tl (tl bs)") auto
next
  case 5
  then show ?thesis by (cases bs; cases "tl bs"; cases "tl (tl bs)") auto
qed simp

lemma lossy_head:
  "utf8_bytes bs \<Longrightarrow> bs \<noteq> [] \<Longrightarrow> snd (lossy_step bs) \<and> utf8_bytes (drop (fst (lossy_step bs)) bs)"
  by (cases bs) (simp_all only: utf8_by_steps)

lemma lossy_valid: "utf8_bytes bs \<Longrightarrow> lossy_bytes bs = bs"
proof (induction bs rule: lossy_bytes.induct)
  case (1 bs)
  show ?case
  proof (cases "bs = []")
    case False
    have h: "snd (lossy_step bs)" "utf8_bytes (drop (fst (lossy_step bs)) bs)"
      using lossy_head [OF "1.prems" False] by simp_all
    then have "lossy_bytes (drop (fst (lossy_step bs)) bs) = drop (fst (lossy_step bs)) bs"
      using "1.IH" [OF False] by (cases "lossy_step bs") auto
    then show ?thesis
      using h False by (subst lossy_bytes.simps) (simp add: case_prod_beta)
  qed (simp add: lossy_bytes.simps)
qed

lemma utf8_step:
  assumes "bs \<noteq> []" "lossy_step bs = (n, True)"
  shows "utf8_bytes (take n bs @ cs) = utf8_bytes cs"
proof (cases bs)
  case (Cons a xs)
  show ?thesis
  proof (cases a rule: lead_byte_cases)
    case 1
    then show ?thesis using assms Cons by auto
  next
    case 2
    then show ?thesis using assms Cons by (cases xs) (auto split: if_splits)
  next
    case 3
    then show ?thesis using assms Cons by (cases xs; cases "tl xs") (auto split: if_splits)
  next
    case 4
    then show ?thesis using assms Cons by (cases xs; cases "tl xs"; cases "tl (tl xs)") (auto split: if_splits)
  next
    case 5
    then show ?thesis using assms Cons by auto
  qed
qed (use assms in simp)

lemma utf8_lossy: "utf8_bytes (lossy_bytes bs)"
proof (induction bs rule: lossy_bytes.induct)
  case (1 bs)
  show ?case
  proof (cases "bs = []")
    case False
    obtain n ok where st: "lossy_step bs = (n, ok)" by fastforce
    have "utf8_bytes (lossy_bytes (drop n bs))" using "1.IH" [OF False] st by simp
    then show ?thesis
      using utf8_step [OF False, of n] False st
      by (subst lossy_bytes.simps) (auto simp: utf8_tail_def)
  qed (simp add: lossy_bytes.simps)
qed

lemma from_utf8_lossy_id [simp]: "is_utf8 s \<Longrightarrow> from_utf8_lossy s = s"
  by (simp add: from_utf8_lossy_def is_utf8_def lossy_valid comp_def)

lemma import_string_from [simp]: "is_utf8 s \<Longrightarrow> import_string (view_from_utf8 s) = s"
  by (simp add: import_string_def view_from_utf8_def)

lemma lossy_small: "\<forall>b\<in>set bs. b < 256 \<Longrightarrow> \<forall>b\<in>set (lossy_bytes bs). b < 256"
proof (induction bs rule: lossy_bytes.induct)
  case (1 bs)
  show ?case
  proof (cases "bs = []")
    case False
    obtain n ok where st: "lossy_step bs = (n, ok)" by fastforce
    have "\<forall>b\<in>set (lossy_bytes (drop n bs)). b < 256"
      using "1.IH" [OF False] st "1.prems" by (auto dest: in_set_dropD)
    then show ?thesis
      using False st "1.prems" by (subst lossy_bytes.simps) (auto dest: in_set_takeD)
  qed (simp add: lossy_bytes.simps)
qed

lemma imported_string_utf8: "is_utf8 (import_string v)"
proof -
  have "is_utf8 (from_utf8_lossy s)" for s
  proof -
    have "\<forall>b\<in>set (lossy_bytes (map of_char s)). b < 256"
      by (rule lossy_small) auto
    then have "map of_char (from_utf8_lossy s) = lossy_bytes (map of_char s)"
      by (simp add: from_utf8_lossy_def map_idI)
    then show ?thesis by (simp add: is_utf8_def utf8_lossy)
  qed
  then show ?thesis
    by (cases "sv_ptr v") (simp_all add: import_string_def is_utf8_def [of "[]"])
qed

section \<open>Rejects, blocks and entries survive\<close>

lemma reject_round: "reject_texts_ok render r \<Longrightarrow> wire_to_reject (wire_from_reject render r) = Some (rendered render r)"
  by (simp add: wire_to_reject_def wire_from_reject_def reject_texts_ok_def rendered_def reject_new_def
      reject_with_user_data_def)

lemma block_round:
  "block_texts_ok render b \<Longrightarrow>
   wire_to_block (wire_from_block render b) = b\<lparr>ab_details := [Lit (render (ab_details b))], ab_provenance := None\<rparr>"
  by (simp add: wire_to_block_def wire_from_block_def block_texts_ok_def account_block_new_def block_with_user_data_def)

lemma strict_block_round:
  "block_texts_ok render b \<Longrightarrow>
   wire_try_to_block (wire_from_block render b) = Inr (wire_to_block (wire_from_block render b))"
  by (simp add: wire_try_to_block_def wire_to_block_def wire_from_block_def block_texts_ok_def parse_text_def
      view_from_utf8_def import_string_def other_code_exact)

lemma push_rejects:
  "\<forall>r\<in>set rs. reject_texts_ok render r \<Longrightarrow>
   reject_list_push_all (OwnedRejects items) (map (wire_from_reject render) rs) =
     Some (OwnedRejects (items @ map (rendered render) rs))"
  by (induction rs arbitrary: items)
    (simp_all add: reject_list_push_all_def reject_list_push_def reject_round)

context decimal_wire
begin

lemma outcome_amount_round: "outcome_amount_ok v \<Longrightarrow> import_outcome_amount W (export_outcome_amount W v) = Inr v"
  by (simp add: import_outcome_amount_def export_outcome_amount_def outcome_amount_ok_def to_from)

lemma optional_outcome_amount_round:
  "pred_option outcome_amount_ok v \<Longrightarrow>
   import_optional (import_outcome_amount W) (export_optional d (export_outcome_amount W) v) = Inr v"
  by (cases v) (simp_all add: import_optional_def export_optional_def outcome_amount_round)

lemma pnl_outcome_round: "pnl_outcome_ok v \<Longrightarrow> import_pnl_outcome W (export_pnl_outcome W v) = Inr v"
  by (cases v)
    (simp_all add: import_pnl_outcome_def export_pnl_outcome_def import_pnl_outcome_amount_def
      export_pnl_outcome_amount_def to_from)

lemma optional_pnl_outcome_round:
  "pred_option pnl_outcome_ok v \<Longrightarrow>
   import_pnl_outcome_optional W (export_optional d (export_pnl_outcome W) v) = Inr v"
  by (cases v) (simp_all add: import_pnl_outcome_optional_def export_optional_def pnl_outcome_round)

lemma entry_round: "entry_ok e \<Longrightarrow> wire_to_entry W (export_outcome_entry W e) = Inr e"
  by (simp add: wire_to_entry_def export_outcome_entry_def entry_ok_def view_from_utf8_def asset_ok_def asset_new_def
      optional_outcome_amount_round optional_pnl_outcome_round decimal_round)

lemma account_pnl_round: "pnl_outcome_ok (apo_result v) \<Longrightarrow> wire_to_pnl_outcome W (wire_from_pnl_outcome W v) = Inr v"
  using pnl_outcome_round [of "apo_result v"]
  by (cases "export_pnl_outcome W (apo_result v)") (simp add: wire_to_pnl_outcome_def wire_from_pnl_outcome_def Let_def)

lemma outcome_amount_valid: "import_outcome_amount W w = Inr v \<Longrightarrow> outcome_amount_ok v"
  by (auto simp: import_outcome_amount_def outcome_amount_ok_def result_simps dest: to_valid)

lemma pnl_outcome_valid: "import_pnl_outcome W w = Inr v \<Longrightarrow> pnl_outcome_ok v"
  by (auto simp: import_pnl_outcome_def import_pnl_outcome_amount_def result_simps dest: to_valid split: if_splits)

lemma entry_valid:
  assumes "wire_to_entry W w = Inr e"
  shows "entry_ok e"
proof -
  obtain code where parts:
    "is_utf8 code" "asset_new code = Inr (aoe_asset e)"
    "import_optional (import_outcome_amount W) (woe_balance w) = Inr (aoe_balance e)"
    "import_optional (import_outcome_amount W) (woe_held w) = Inr (aoe_held e)"
    "import_optional (import_outcome_amount W) (woe_incoming w) = Inr (aoe_incoming e)"
    "import_pnl_outcome_optional W (woe_realized_pnl w) = Inr (aoe_realized_pnl e)"
    "import_optional (to_price W) (woe_average_entry_price w) = Inr (aoe_average_entry_price e)"
    using assms that [of "[]"] unfolding wire_to_entry_def
    by (cases "sv_ptr (woe_asset w)") (auto simp: result_simps Let_def is_utf8_def split: if_split_asm)
  have "asset_ok (aoe_asset e)"
    using parts(1,2) by (auto simp: asset_new_def asset_ok_def split: if_split_asm)
  moreover have "pred_option pnl_outcome_ok (aoe_realized_pnl e)"
    using parts(6) by (auto simp: import_pnl_outcome_optional_def result_simps dest: pnl_outcome_valid split: if_split_asm)
  ultimately show ?thesis
    using parts(3-5,7) by (auto simp: entry_ok_def elim!: import_optional_valid intro: outcome_amount_valid dest: to_valid)
qed

end

lemma push_entries:
  assumes "decimal_wire W" "\<forall>e\<in>set es. entry_ok e"
  shows "push_account_adjustments W result (map (export_outcome_entry W) es) =
    result\<lparr>ptr_account_adjustments := ptr_account_adjustments result @ es\<rparr>"
  using assms(2)
  by (induction es arbitrary: result)
    (simp_all add: push_account_adjustments_def push_account_adjustment_def decimal_wire.entry_round [OF assms(1)])

section \<open>Properties\<close>

text \<open>
  (C36) Results survive the C interface. Rejects whose texts are UTF-8, pushed one by one onto a list of the
  caller, are on it in order with their policy, code, scope, reason and token, and with the text of their
  details; valid outcome entries, pushed onto a collector, are on it in order and unchanged; a P&L outcome
  of the account, an amount or the reason of a halt, comes back as it was. A block whose texts
  are UTF-8 comes back through the lenient import with its policy, code, reason and token, with the text of its
  details and without its provenance, and the strict import accepts it and gives the same block.
\<close>

theorem results_survive_c_interface:
  assumes "decimal_wire W"
  shows "((\<forall>r\<in>set rs. reject_texts_ok render r) \<longrightarrow>
      reject_list_push_all reject_list_new (map (wire_from_reject render) rs) =
        Some (OwnedRejects (map (rendered render) rs))) \<and>
    ((\<forall>e\<in>set es. entry_ok e) \<longrightarrow>
      push_account_adjustments W policy_pre_trade_result_empty (map (export_outcome_entry W) es) =
        policy_pre_trade_result_empty\<lparr>ptr_account_adjustments := es\<rparr>) \<and>
    (pnl_outcome_ok (apo_result v) \<longrightarrow> wire_to_pnl_outcome W (wire_from_pnl_outcome W v) = Inr v) \<and>
    (block_texts_ok render b \<longrightarrow>
      wire_to_block (wire_from_block render b) =
        b\<lparr>ab_details := [Lit (render (ab_details b))], ab_provenance := None\<rparr> \<and>
      wire_try_to_block (wire_from_block render b) =
        Inr (b\<lparr>ab_details := [Lit (render (ab_details b))], ab_provenance := None\<rparr>))"
  using push_rejects [of rs render "[]"] push_entries [OF assms, of es policy_pre_trade_result_empty]
    decimal_wire.account_pnl_round [OF assms, of v] strict_block_round [of render b] block_round [of render b]
  by (simp add: reject_list_new_def policy_pre_trade_result_empty_def)

definition sample_entry :: account_outcome_entry where
  "sample_entry = \<lparr>aoe_asset = ''USD'', aoe_balance = Some \<lparr>oa_delta = - 25, oa_absolute = 75\<rparr>, aoe_held = None,
     aoe_incoming = None, aoe_realized_pnl = Some (Inl MissingFx), aoe_average_entry_price = Some 3\<rparr>"

theorem results_survive_c_interface_witness:
  "reject_list_push_all reject_list_new (map (wire_from_reject (\<lambda>_. ''limit 3''))
      [reject_new ''p'' ScopeAccount RateLimitExceeded ''too many'' []]) =
    Some (OwnedRejects [reject_new ''p'' ScopeAccount RateLimitExceeded ''too many'' [Lit ''limit 3'']]) \<and>
   push_account_adjustments decimal96_repr policy_pre_trade_result_empty
     (map (export_outcome_entry decimal96_repr) [sample_entry]) =
     policy_pre_trade_result_empty\<lparr>ptr_account_adjustments := [sample_entry]\<rparr>"
proof -
  have "reject_texts_ok (\<lambda>_. ''limit 3'') (reject_new ''p'' ScopeAccount RateLimitExceeded ''too many'' [])"
    by (simp add: reject_texts_ok_def reject_new_def is_utf8_def)
  moreover have "rendered (\<lambda>_. ''limit 3'') (reject_new ''p'' ScopeAccount RateLimitExceeded ''too many'' []) =
    reject_new ''p'' ScopeAccount RateLimitExceeded ''too many'' [Lit ''limit 3'']"
    by (simp add: rendered_def reject_new_def)
  moreover have "entry_ok sample_entry"
    by (simp add: entry_ok_def sample_entry_def asset_ok_def is_utf8_def trim_is_empty_def ascii_space_def outcome_amount_ok_def)
  ultimately show ?thesis
    using results_survive_c_interface [OF decimal96.decimal_wire_axioms, of
        "[reject_new ''p'' ScopeAccount RateLimitExceeded ''too many'' []]" "\<lambda>_. ''limit 3''" "[sample_entry]"]
    by simp
qed

end
