(* ===== verification/Ffi_Policy.thy ===== *)
theory Ffi_Policy
  imports Ffi_Results
begin

text \<open>
  Policies written against the C interface (\<open>crates/openpit-ffi/src/policy/custom.rs\<close> and the
  mutation callbacks of \<open>policy/mod.rs\<close>). A callback is a function of the encoded request and
  of the state that it may change; what it may append to (the mutations, the collectors) is passed in
  and out. A null callback is \<open>None\<close>. \<open>custom_hooks\<close> is the policy that the engine runs.
\<close>

section \<open>Mutations over the interface\<close>

text \<open>
  A callback answers whether it succeeded and, when it wrote one, an error text. Both closures share the
  guard that frees the data of the caller; it runs when the mutation is dropped, after the closure that
  was executed.
\<close>

type_synonym 'w mutation_fn = "'w \<Rightarrow> 'w \<times> bool \<times> string option"

definition call_mutation_fn :: "'w mutation_fn \<Rightarrow> string \<Rightarrow> 'w \<Rightarrow> 'w \<times> (string + unit)" where
  "call_mutation_fn callback fallback w =
     (case callback w of
        (w, succeeded, details) \<Rightarrow>
          (w, if succeeded then Inr () else Inl (case details of Some d \<Rightarrow> d | None \<Rightarrow> fallback)))"

definition mutation_from_ffi_callbacks ::
  "'w mutation_fn \<Rightarrow> 'w mutation_fn \<Rightarrow> ('w \<Rightarrow> 'w) option \<Rightarrow> 'w mutation" where
  "mutation_from_ffi_callbacks commit_fn rollback_fn free_fn =
     (new_fallible_with_error
        (call_mutation_fn commit_fn ''mutation commit callback failed without error details'')
        (call_mutation_fn rollback_fn ''mutation rollback callback failed without error details''))
     \<lparr>mut_guard := free_fn\<rparr>"

definition ffi_mutations_push ::
  "'w mutations option \<Rightarrow> 'w mutation_fn \<Rightarrow> 'w mutation_fn \<Rightarrow> ('w \<Rightarrow> 'w) option \<Rightarrow> 'w mutations option \<times> bool" where
  "ffi_mutations_push mutations commit_fn rollback_fn free_fn =
     (case mutations of
        None \<Rightarrow> (None, False)
      | Some ms \<Rightarrow> (Some (mutations_push ms (mutation_from_ffi_callbacks commit_fn rollback_fn free_fn)), True))"

section \<open>Callbacks\<close>

type_synonym 's start_fn =
  "nat \<Rightarrow> pre_trade_context \<Rightarrow> wire_order \<Rightarrow> 's pipeline \<Rightarrow> 's pipeline \<times> reject_list"

type_synonym 's main_fn =
  "pre_trade_context \<Rightarrow> wire_order \<Rightarrow> 's pipeline \<Rightarrow> 's engine mutations \<Rightarrow> policy_pre_trade_result \<Rightarrow>
   's pipeline \<times> 's engine mutations \<times> policy_pre_trade_result \<times> reject_list"

type_synonym 's report_fn =
  "account_id option \<Rightarrow> wire_report \<Rightarrow> 's engine \<Rightarrow> account_adjustment_outcome list \<Rightarrow> account_pnl_outcome list \<Rightarrow>
   's engine \<times> account_adjustment_outcome list \<times> account_pnl_outcome list \<times> account_block list option"

type_synonym 's adjustment_fn =
  "u64 \<Rightarrow> wire_adjustment \<Rightarrow> 's engine \<Rightarrow> 's engine mutations \<Rightarrow> policy_account_adjustment_result \<Rightarrow>
   's engine \<times> 's engine mutations \<times> policy_account_adjustment_result \<times> reject_list"

type_synonym 's retire_fn = "u64 \<Rightarrow> 's engine \<Rightarrow> 's engine mutations \<Rightarrow> 's engine \<times> 's engine mutations \<times> u8"

record 's custom_callbacks =
  cb_check_pre_trade_start_fn :: "'s start_fn option"
  cb_perform_pre_trade_check_fn :: "'s main_fn option"
  cb_check_pre_trade_start_dry_run_fn :: "'s start_fn option"
  cb_perform_pre_trade_check_dry_run_fn :: "'s main_fn option"
  cb_apply_execution_report_fn :: "'s report_fn option"
  cb_apply_account_adjustment_fn :: "'s adjustment_fn option"
  cb_retire_account_fn :: "'s retire_fn option"

record 's custom_pre_trade_policy =
  cpp_name :: string
  cpp_policy_group_id :: policy_group_id
  cpp_callbacks :: "'s custom_callbacks"

section \<open>Answers\<close>

definition callback_failed_reject :: reject where
  "callback_failed_reject =
     reject_new ''openpit.callback'' ScopeOrder SystemUnavailable ''custom policy callback failed''
       [Lit ''callback returned no result'']"

definition import_reject_list_result :: "reject_list \<Rightarrow> rejects + unit" where
  "import_reject_list_result l =
     (case l of
        NullRejects \<Rightarrow> Inl (rejects_new [callback_failed_reject])
      | AcceptSentinel \<Rightarrow> Inr ()
      | OwnedRejects items \<Rightarrow> if items = [] then Inr () else Inl (rejects_new items))"

definition drain_pre_trade_result :: "policy_pre_trade_result \<Rightarrow> policy_pre_trade_result option" where
  "drain_pre_trade_result out_result =
     (if ptr_lock_prices out_result = [] \<and> ptr_account_adjustments out_result = [] then None else Some out_result)"

definition retire_decision :: "u8 \<Rightarrow> account_retirement_refusal + unit" where
  "retire_decision decision =
     (if decision = 0 then Inr ()
      else if decision = 1 then Inl ConfigurationReferencesAccount
      else if decision = 2 then Inl NonZeroState
      else if decision = 3 then Inl OperationInProgress
      else Inl EvaluationFailed)"

section \<open>The hooks\<close>

type_synonym ffi_order = "(interop_order, user_data) request_with_payload"
type_synonym ffi_report = "(interop_execution_report, user_data) request_with_payload"
type_synonym ffi_adjustment = "(interop_account_adjustment, user_data) request_with_payload"

definition call_start_fn ::
  "decimal_repr \<Rightarrow> 's start_fn option \<Rightarrow> nat \<Rightarrow> pre_trade_context \<Rightarrow> ffi_order \<Rightarrow> 's pipeline \<Rightarrow>
   's pipeline \<times> (rejects + unit)" where
  "call_start_fn W check now ctx ord p =
     (case check of
        None \<Rightarrow> (p, Inr ())
      | Some check_fn \<Rightarrow>
          (case check_fn now ctx (export_order W ord) p of (p, rejects) \<Rightarrow> (p, import_reject_list_result rejects)))"

definition custom_check_pre_trade_start ::
  "decimal_repr \<Rightarrow> 's custom_callbacks \<Rightarrow> nat \<Rightarrow> pre_trade_context \<Rightarrow> ffi_order \<Rightarrow> 's pipeline \<Rightarrow>
   's pipeline \<times> (rejects + unit)" where
  "custom_check_pre_trade_start W self = call_start_fn W (cb_check_pre_trade_start_fn self)"

definition custom_check_pre_trade_start_dry_run ::
  "decimal_repr \<Rightarrow> 's custom_callbacks \<Rightarrow> nat \<Rightarrow> pre_trade_context \<Rightarrow> ffi_order \<Rightarrow> 's pipeline \<Rightarrow>
   's pipeline \<times> (rejects + unit)" where
  "custom_check_pre_trade_start_dry_run W self =
     (case cb_check_pre_trade_start_dry_run_fn self of
        None \<Rightarrow> custom_check_pre_trade_start W self
      | Some check_fn \<Rightarrow> call_start_fn W (Some check_fn))"

definition custom_perform_pre_trade_check ::
  "decimal_repr \<Rightarrow> 's custom_callbacks \<Rightarrow> pre_trade_context \<Rightarrow> ffi_order \<Rightarrow> 's pipeline \<Rightarrow> 's engine mutations \<Rightarrow>
   's pipeline \<times> 's engine mutations \<times> (rejects + policy_pre_trade_result option)" where
  "custom_perform_pre_trade_check W self ctx ord p ms =
     (case cb_perform_pre_trade_check_fn self of
        None \<Rightarrow> (p, ms, Inr None)
      | Some check_fn \<Rightarrow>
          (case check_fn ctx (export_order W ord) p ms policy_pre_trade_result_empty of
             (p, ms, out_result, rejects) \<Rightarrow>
               (let result = drain_pre_trade_result out_result
                in (p, ms,
                    case import_reject_list_result rejects of
                      Inr _ \<Rightarrow> Inr result
                    | Inl rejects \<Rightarrow>
                        Inl (case result of Some result \<Rightarrow> with_policy_result rejects result | None \<Rightarrow> rejects)))))"

definition custom_perform_pre_trade_check_dry_run ::
  "decimal_repr \<Rightarrow> 's custom_callbacks \<Rightarrow> pre_trade_context \<Rightarrow> ffi_order \<Rightarrow> 's pipeline \<Rightarrow> 's engine mutations \<Rightarrow>
   's pipeline \<times> 's engine mutations \<times> (rejects + policy_pre_trade_result option)" where
  "custom_perform_pre_trade_check_dry_run W self ctx ord p ms =
     (case cb_perform_pre_trade_check_dry_run_fn self of
        None \<Rightarrow> custom_perform_pre_trade_check W self ctx ord p ms
      | Some check_fn \<Rightarrow>
          (case check_fn ctx (export_order W ord) p ms policy_pre_trade_result_empty of
             (p, ms, out_result, rejects) \<Rightarrow>
               (p, ms, map_res (\<lambda>_. drain_pre_trade_result out_result) (import_reject_list_result rejects))))"

definition custom_apply_execution_report ::
  "decimal_repr \<Rightarrow> 's custom_callbacks \<Rightarrow> account_id option \<Rightarrow> ffi_report \<Rightarrow> 's engine \<Rightarrow>
   's engine \<times> post_trade_result option" where
  "custom_apply_execution_report W self ctx report e =
     (case cb_apply_execution_report_fn self of
        None \<Rightarrow> (e, None)
      | Some apply_fn \<Rightarrow>
          (case apply_fn ctx (export_execution_report W report) e [] [] of
             (e, adjustments, pnls, raw) \<Rightarrow>
               (let blocks = (case raw of None \<Rightarrow> [] | Some items \<Rightarrow> items)
                in (e, if blocks = [] \<and> adjustments = [] \<and> pnls = [] then None
                       else Some \<lparr>post_account_blocks = blocks, post_account_pnls = pnls,
                                  post_account_adjustments = adjustments\<rparr>))))"

definition custom_apply_account_adjustment ::
  "decimal_repr \<Rightarrow> 's custom_callbacks \<Rightarrow> account_id \<Rightarrow> ffi_adjustment \<Rightarrow> 's engine \<Rightarrow> 's engine mutations \<Rightarrow>
   's engine \<times> 's engine mutations \<times> (rejects + policy_account_adjustment_result)" where
  "custom_apply_account_adjustment W self account adjustment e ms =
     (let empty = \<lparr>aar_account_adjustments = [], aar_account_blocks = []\<rparr>
      in case cb_apply_account_adjustment_fn self of
           None \<Rightarrow> (e, ms, Inr empty)
         | Some apply_fn \<Rightarrow>
             (case apply_fn account (export_account_adjustment W adjustment) e ms empty of
                (e, ms, out_result, rejects) \<Rightarrow> (e, ms, map_res (\<lambda>_. out_result) (import_reject_list_result rejects))))"

definition custom_retire_account ::
  "'s custom_callbacks \<Rightarrow> account_id \<Rightarrow> 's engine \<Rightarrow> 's engine mutations \<Rightarrow>
   's engine \<times> 's engine mutations \<times> (account_retirement_refusal + unit)" where
  "custom_retire_account self account e ms =
     (case cb_retire_account_fn self of
        None \<Rightarrow> (e, ms, Inr ())
      | Some retire_fn \<Rightarrow> (case retire_fn account e ms of (e, ms, decision) \<Rightarrow> (e, ms, retire_decision decision)))"

definition custom_hooks ::
  "decimal_repr \<Rightarrow> 's custom_pre_trade_policy \<Rightarrow> ('s, ffi_order, ffi_report, ffi_adjustment) policy" where
  "custom_hooks W self =
     \<lparr>pol_name = cpp_name self, pol_group_id = cpp_policy_group_id self,
      check_pre_trade_start = custom_check_pre_trade_start W (cpp_callbacks self),
      check_pre_trade_start_dry_run = custom_check_pre_trade_start_dry_run W (cpp_callbacks self),
      perform_pre_trade_check = custom_perform_pre_trade_check W (cpp_callbacks self),
      perform_pre_trade_check_dry_run = custom_perform_pre_trade_check_dry_run W (cpp_callbacks self),
      apply_execution_report = custom_apply_execution_report W (cpp_callbacks self),
      apply_account_adjustment = custom_apply_account_adjustment W (cpp_callbacks self),
      retire_account_hook = custom_retire_account (cpp_callbacks self)\<rparr>"

section \<open>Creation\<close>

datatype policy_name_error = PolicyNameNull | PolicyNameNotUtf8 | PolicyNameEmpty

definition parse_policy_name :: "string_view \<Rightarrow> policy_name_error + string" where
  "parse_policy_name name =
     (case sv_ptr name of
        None \<Rightarrow> Inl PolicyNameNull
      | Some memory \<Rightarrow>
          (let bytes = take (sv_len name) memory
           in if \<not> is_utf8 bytes then Inl PolicyNameNotUtf8
              else if bytes = [] then Inl PolicyNameEmpty
              else Inr bytes))"

definition build_custom_pre_trade_policy ::
  "string_view \<Rightarrow> u16 \<Rightarrow> 's custom_callbacks \<Rightarrow> policy_name_error + 's custom_pre_trade_policy" where
  "build_custom_pre_trade_policy name policy_group callbacks =
     map_res (\<lambda>name. \<lparr>cpp_name = name, cpp_policy_group_id = policy_group, cpp_callbacks = callbacks\<rparr>)
       (parse_policy_name name)"

definition create_custom_pre_trade_policy ::
  "string_view \<Rightarrow> u16 \<Rightarrow> 's start_fn option \<Rightarrow> 's main_fn option \<Rightarrow> 's report_fn option \<Rightarrow>
   's adjustment_fn option \<Rightarrow> 's retire_fn option \<Rightarrow> policy_name_error + 's custom_pre_trade_policy" where
  "create_custom_pre_trade_policy name policy_group start main report adjust retire =
     build_custom_pre_trade_policy name policy_group
       \<lparr>cb_check_pre_trade_start_fn = start, cb_perform_pre_trade_check_fn = main,
        cb_check_pre_trade_start_dry_run_fn = None, cb_perform_pre_trade_check_dry_run_fn = None,
        cb_apply_execution_report_fn = report, cb_apply_account_adjustment_fn = adjust, cb_retire_account_fn = retire\<rparr>"

definition create_custom_pre_trade_policy_with_dry_run ::
  "string_view \<Rightarrow> u16 \<Rightarrow> 's start_fn option \<Rightarrow> 's start_fn option \<Rightarrow> 's main_fn option \<Rightarrow> 's main_fn option \<Rightarrow>
   's report_fn option \<Rightarrow> 's adjustment_fn option \<Rightarrow> 's retire_fn option \<Rightarrow>
   policy_name_error + 's custom_pre_trade_policy" where
  "create_custom_pre_trade_policy_with_dry_run name policy_group start start_dry main main_dry report adjust retire =
     build_custom_pre_trade_policy name policy_group
       \<lparr>cb_check_pre_trade_start_fn = start, cb_perform_pre_trade_check_fn = main,
        cb_check_pre_trade_start_dry_run_fn = start_dry, cb_perform_pre_trade_check_dry_run_fn = main_dry,
        cb_apply_execution_report_fn = report, cb_apply_account_adjustment_fn = adjust, cb_retire_account_fn = retire\<rparr>"

section \<open>Failing finalizers\<close>

lemma widen_global [simp]: "mf_scope self = Some FailureGlobal \<Longrightarrow> mf_scope (failure_widen self scope) = Some FailureGlobal"
  by (simp add: failure_widen_def)

lemma record_global:
  "mf_scope self = Some FailureGlobal \<Longrightarrow> mf_scope (failure_record self provenance details) = Some FailureGlobal"
  "mf_scope (failure_record self CustomPolicy details) = Some FailureGlobal"
  by (simp_all add: failure_record_def Let_def failure_widen_def)

lemma append_global:
  "mf_scope self = Some FailureGlobal \<or> mf_scope other = Some FailureGlobal \<Longrightarrow>
   mf_scope (failure_append self other) = Some FailureGlobal"
  by (auto simp: failure_append_def Let_def failure_widen_def split: option.split)

lemma commit_loop_global:
  "mf_scope failure = Some FailureGlobal \<Longrightarrow> mf_scope (snd (commit_loop ms w failure)) = Some FailureGlobal"
  by (induction ms arbitrary: w failure) (auto simp: record_global split: prod.split sum.split)

lemma rollback_loop_global:
  "mf_scope failure = Some FailureGlobal \<Longrightarrow> mf_scope (snd (rollback_loop ms w failure)) = Some FailureGlobal"
  by (induction ms arbitrary: w failure) (auto simp: append_global split: prod.split)

text \<open>A mutation whose commit, or whose rollback, reports a failure whatever the state is.\<close>

definition fails_commit :: "'w mutation \<Rightarrow> bool" where
  "fails_commit m \<longleftrightarrow> mut_provenance m = CustomPolicy \<and> (\<forall>w. \<exists>d. snd (mutation_commit m w) = Inl d)"

definition fails_rollback :: "'w mutation \<Rightarrow> bool" where
  "fails_rollback m \<longleftrightarrow> (\<forall>w. mf_scope (snd (mutation_rollback m w)) = Some FailureGlobal)"

lemma ffi_fails_commit: "(\<And>w. \<not> fst (snd (commit_fn w))) \<Longrightarrow> fails_commit (mutation_from_ffi_callbacks commit_fn r f)"
  by (simp add: fails_commit_def mutation_from_ffi_callbacks_def new_fallible_with_error_def new_reporting_with_error_def
      mutation_commit_def call_mutation_fn_def case_prod_beta)

lemma ffi_fails_rollback:
  "(\<And>w. \<not> fst (snd (rollback_fn w))) \<Longrightarrow> fails_rollback (mutation_from_ffi_callbacks c rollback_fn f)"
  by (simp add: fails_rollback_def mutation_from_ffi_callbacks_def new_fallible_with_error_def new_reporting_with_error_def
      mutation_rollback_def call_mutation_fn_def case_prod_beta callback_failure_def record_global)

lemma commit_loop_fails:
  "m \<in> set ms \<Longrightarrow> fails_commit m \<Longrightarrow> mf_scope (snd (commit_loop ms w failure)) = Some FailureGlobal"
proof (induction ms arbitrary: w failure)
  case (Cons x ms)
  show ?case
  proof (cases "x = m")
    case True
    obtain w' d where "mutation_commit x w = (w', Inl d)"
      using Cons.prems(2) True unfolding fails_commit_def by (metis prod.collapse)
    then show ?thesis
      using Cons.prems(2) True by (simp add: fails_commit_def commit_loop_global record_global)
  next
    case False
    then show ?thesis using Cons by (auto split: prod.split sum.split)
  qed
qed simp

lemma rollback_loop_fails:
  "m \<in> set ms \<Longrightarrow> fails_rollback m \<Longrightarrow> mf_scope (snd (rollback_loop ms w failure)) = Some FailureGlobal"
proof (induction ms arbitrary: w failure)
  case (Cons x ms)
  show ?case
  proof (cases "x = m")
    case True
    then have "mf_scope (snd (mutation_rollback x w)) = Some FailureGlobal"
      using Cons.prems(2) by (simp add: fails_rollback_def)
    then show ?thesis by (auto simp: append_global intro: rollback_loop_global split: prod.split)
  next
    case False
    then show ?thesis using Cons by (auto split: prod.split)
  qed
qed simp

lemma all_blocked_check: "all_flag b \<Longrightarrow> blocked_check b groups account scope \<noteq> None"
  by (auto simp: blocked_check_def with_blocking_cause_def Let_def split: option.split)

lemma all_blocked_start:
  "all_flag (eng_blocked e) \<Longrightarrow> \<exists>rs. start_pre_trade policies account_of now ord e = (e, Inl rs)"
  using all_blocked_check [of "eng_blocked e" "eng_groups e" "ok_account (account_of ord)" ScopeOrder]
  by (auto simp: start_pre_trade_def Let_def)

lemma global_failure_blocks_all:
  "mf_scope failure = Some FailureGlobal \<Longrightarrow>
   all_flag (eng_blocked (kill_switch_arm (mutation_failure_kill_switch account) failure e))"
  by (simp add: kill_switch_arm_def mutation_failure_kill_switch_def record_mutation_failure_def block_all_with_cause_def)

lemma failed_finalizer_blocks_all:
  "m \<in> set (mutation_list ms) \<Longrightarrow> fails_commit m \<Longrightarrow>
     all_flag (eng_blocked (handle_commit \<lparr>rh_mutations = ms, rh_kill_switch = mutation_failure_kill_switch account\<rparr> e))"
  "m \<in> set (mutation_list ms) \<Longrightarrow> fails_rollback m \<Longrightarrow>
     all_flag (eng_blocked (handle_rollback \<lparr>rh_mutations = ms, rh_kill_switch = mutation_failure_kill_switch account\<rparr> e))"
  by (auto simp: handle_commit_def handle_rollback_def commit_all_def rollback_all_def case_prod_beta
      intro!: global_failure_blocks_all commit_loop_fails rollback_loop_fails)

section \<open>Answers that are missing\<close>

text \<open>What a stage has collected is counted, and never shrinks.\<close>

definition collects :: "rejects list \<Rightarrow> nat \<Rightarrow> reject \<Rightarrow> bool" where
  "collects collection n r \<longleftrightarrow> n = length (concat (map rejects_vec collection)) \<and> r \<in> set (concat (map rejects_vec collection))"

lemma collects_merge:
  "collects collection n r \<Longrightarrow> \<exists>rs. merge_reject_lists collection n = Some rs \<and> r \<in> set (rejects_vec rs)"
  by (cases "n = 0") (auto simp: collects_def merge_reject_lists_def)

lemma collects_add:
  "collects c n r \<Longrightarrow> collects (c @ [rs]) (n + length (rejects_vec rs)) r"
  "n = length (concat (map rejects_vec c)) \<Longrightarrow> r \<in> set (rejects_vec rs) \<Longrightarrow>
     collects (c @ [rs]) (n + length (rejects_vec rs)) r"
  by (auto simp: collects_def)

lemma start_loop_collects:
  "collects c n r \<Longrightarrow> start_loop hook ps ctx ord p c n block = (p', c', n', block') \<Longrightarrow> collects c' n' r"
proof (induction ps arbitrary: p c n block)
  case (Cons x ps)
  show ?case
    using Cons.IH [OF Cons.prems(1)] Cons.IH [OF collects_add(1) [OF Cons.prems(1)]] Cons.prems(2)
    by (auto split: prod.splits sum.splits)
qed simp

lemma start_loop_rejects:
  assumes "policy \<in> set ps" and "\<And>p. \<exists>rs. snd (hook policy ctx ord p) = Inl rs \<and> r \<in> set (rejects_vec rs)"
    and "n = length (concat (map rejects_vec c))"
    and "start_loop hook ps ctx ord p c n block = (p', c', n', block')"
  shows "collects c' n' r"
  using assms(1,3,4)
proof (induction ps arbitrary: p c n block)
  case (Cons x ps)
  obtain p1 res where hook: "hook x ctx ord p = (p1, res)" by force
  show ?case
  proof (cases "x = policy")
    case True
    obtain rs where rs: "res = Inl rs" "r \<in> set (rejects_vec rs)"
      using assms(2) [of p] hook True by auto
    obtain p2 b where "note_account_block ctx (rejects_vec rs) p1 block = (p2, b)" by force
    then show ?thesis
      using start_loop_collects [OF collects_add(2) [OF Cons.prems(2) rs(2)]] Cons.prems(3) hook rs(1) by simp
  next
    case False
    then have "policy \<in> set ps" using Cons.prems(1) by simp
    note IH = Cons.IH [OF this]
    show ?thesis
      using IH [OF Cons.prems(2)] IH [of _ "c @ [projl res]"] Cons.prems(2,3) hook
      by (cases res) (auto split: prod.splits)
  qed
qed simp

lemma start_stage_rejects:
  assumes "policy \<in> set ps" and "\<And>p. \<exists>rs. snd (hook policy ctx ord p) = Inl rs \<and> r \<in> set (rejects_vec rs)"
  shows "\<exists>p' rs block. run_pre_trade_start_stage hook ps ctx ord p = (p', Some rs, block) \<and> r \<in> set (rejects_vec rs)"
proof -
  obtain p' c n b where loop: "start_loop hook ps ctx ord p [] 0 None = (p', c, n, b)" by (metis prod_cases4)
  have "collects c n r" by (rule start_loop_rejects [OF assms _ loop]) simp_all
  then show ?thesis using collects_merge loop by (fastforce simp: run_pre_trade_start_stage_def)
qed

lemma main_step_collects:
  "collects (ma_rejects acc) (ma_total acc) r \<Longrightarrow>
   collects (ma_rejects (main_step hook ctx ord policy acc)) (ma_total (main_step hook ctx ord policy acc)) r"
  using collects_add(1) [of "ma_rejects acc" "ma_total acc" r "rejects_new _"]
  by (auto simp: main_step_def Let_def into_parts_def split: prod.split sum.split option.split)

lemma main_step_counts:
  "ma_total acc = length (concat (map rejects_vec (ma_rejects acc))) \<Longrightarrow>
   ma_total (main_step hook ctx ord policy acc) =
     length (concat (map rejects_vec (ma_rejects (main_step hook ctx ord policy acc))))"
  by (auto simp: main_step_def Let_def into_parts_def split: prod.split sum.split option.split)

lemma main_step_rejects:
  assumes "snd (snd (hook policy ctx ord (ma_pipeline acc) (ma_mutations acc))) = Inl rs" "r \<in> set (rejects_vec rs)"
    and "ma_total acc = length (concat (map rejects_vec (ma_rejects acc)))"
  shows "collects (ma_rejects (main_step hook ctx ord policy acc)) (ma_total (main_step hook ctx ord policy acc)) r"
proof -
  obtain p ms where "hook policy ctx ord (ma_pipeline acc) (ma_mutations acc) = (p, ms, Inl rs)"
    using assms(1) by (metis prod.collapse)
  then show ?thesis
    using assms(2) collects_add(2) [OF assms(3), of r "rejects_new (rejects_vec rs)"]
    by (auto simp: main_step_def Let_def into_parts_def split: prod.split option.split)
qed

lemma main_fold_rejects:
  assumes "policy \<in> set ps"
    and "\<And>p ms. \<exists>rs. snd (snd (hook policy ctx ord p ms)) = Inl rs \<and> r \<in> set (rejects_vec rs)"
    and "ma_total acc = length (concat (map rejects_vec (ma_rejects acc)))"
  shows "collects (ma_rejects (fold (main_step hook ctx ord) ps acc)) (ma_total (fold (main_step hook ctx ord) ps acc)) r"
proof -
  obtain before after where ps: "ps = before @ policy # after" using assms(1) split_list by metis
  define acc1 where "acc1 = fold (main_step hook ctx ord) before acc"
  have "ma_total acc1 = length (concat (map rejects_vec (ma_rejects acc1)))"
    unfolding acc1_def using assms(3) by (induction before arbitrary: acc) (simp_all add: main_step_counts)
  then have "collects (ma_rejects (main_step hook ctx ord policy acc1)) (ma_total (main_step hook ctx ord policy acc1)) r"
    using assms(2) [of "ma_pipeline acc1" "ma_mutations acc1"] main_step_rejects [of hook policy ctx ord acc1 _ r] by auto
  then have "collects (ma_rejects (fold (main_step hook ctx ord) after (main_step hook ctx ord policy acc1)))
      (ma_total (fold (main_step hook ctx ord) after (main_step hook ctx ord policy acc1))) r"
    by (induction after rule: rev_induct) (simp_all add: main_step_collects)
  then show ?thesis by (simp add: ps acc1_def)
qed

lemma main_stage_rejects:
  assumes "policy \<in> set ps"
    and "\<And>p ms. \<exists>rs. snd (snd (hook policy ctx ord p ms)) = Inl rs \<and> r \<in> set (rejects_vec rs)"
  shows "\<exists>p' rs rest. run_pre_trade_main_stage hook owner ps ctx ord p = (p', Some rs, rest) \<and> r \<in> set (rejects_vec rs)"
proof -
  let ?acc = "fold (main_step hook ctx ord) ps (main_start owner p)"
  have "collects (ma_rejects ?acc) (ma_total ?acc) r"
    using main_fold_rejects [of policy ps hook ctx ord r "main_start owner p"] assms by (simp add: main_start_def)
  from collects_merge [OF this] show ?thesis by (simp add: run_pre_trade_main_stage_def Let_def)
qed

lemma adjust_rejects:
  assumes "policy \<in> set ps" and "\<And>e ms. \<exists>rs. snd (snd (apply_account_adjustment policy account adj e ms)) = Inl rs"
  shows "\<exists>rs. snd (adjust_policies ps account adj acc) = Some rs"
  using assms(1)
proof (induction ps arbitrary: acc)
  case (Cons x ps)
  show ?case
    using Cons assms(2) [of "aa_engine acc" "aa_mutations acc"] by (auto split: prod.split sum.split)
qed simp

lemma retire_loop_keeps:
  "x \<in> set refusals \<Longrightarrow> retire_loop ps account e ms refusals = (e', ms', refusals') \<Longrightarrow> x \<in> set refusals'"
proof (induction ps arbitrary: e ms refusals)
  case (Cons policy ps)
  show ?case
    using Cons.IH [OF Cons.prems(1)] Cons.IH [of "refusals @ [_]"] Cons.prems
    by (auto split: prod.splits sum.splits)
qed simp

lemma retire_loop_refused:
  assumes "policy \<in> set ps" and "\<And>e ms. snd (snd (retire_account_hook policy account e ms)) = Inl refusal"
  shows "retire_loop ps account e ms refusals = (e', ms', refusals') \<Longrightarrow>
    \<lparr>arp_policy = pol_name policy, arp_refusal = refusal\<rparr> \<in> set refusals'"
  using assms(1)
proof (induction ps arbitrary: e ms refusals)
  case (Cons x ps)
  show ?case
  proof (cases "x = policy")
    case True
    then obtain e1 ms1 where "retire_account_hook x account e ms = (e1, ms1, Inl refusal)"
      using assms(2) [of e ms] by (metis prod.collapse)
    then show ?thesis
      using Cons.prems(1) True
        retire_loop_keeps [of "\<lparr>arp_policy = pol_name policy, arp_refusal = refusal\<rparr>"
          "refusals @ [\<lparr>arp_policy = pol_name policy, arp_refusal = refusal\<rparr>]"] by simp
  next
    case False
    then show ?thesis using Cons by (auto split: prod.splits sum.splits)
  qed
qed simp

text \<open>The engine's operations when the callback of one of its policies answers nothing.\<close>

definition silent_start :: "'s custom_pre_trade_policy \<Rightarrow> bool" where
  "silent_start cp \<longleftrightarrow> (\<exists>f. cb_check_pre_trade_start_fn (cpp_callbacks cp) = Some f \<and>
     (\<forall>now ctx w p. snd (f now ctx w p) = NullRejects))"

definition silent_main :: "'s custom_pre_trade_policy \<Rightarrow> bool" where
  "silent_main cp \<longleftrightarrow> (\<exists>f. cb_perform_pre_trade_check_fn (cpp_callbacks cp) = Some f \<and>
     (\<forall>ctx w p ms out. snd (snd (snd (f ctx w p ms out))) = NullRejects))"

definition silent_adjustment :: "'s custom_pre_trade_policy \<Rightarrow> bool" where
  "silent_adjustment cp \<longleftrightarrow> (\<exists>f. cb_apply_account_adjustment_fn (cpp_callbacks cp) = Some f \<and>
     (\<forall>a w e ms out. snd (snd (snd (f a w e ms out))) = NullRejects))"

definition unknown_retirement :: "'s custom_pre_trade_policy \<Rightarrow> bool" where
  "unknown_retirement cp \<longleftrightarrow> (\<exists>f. cb_retire_account_fn (cpp_callbacks cp) = Some f \<and>
     (\<forall>a e ms. 4 \<le> snd (snd (f a e ms))))"

lemma silent_start_hook:
  "silent_start cp \<Longrightarrow> \<exists>rs. snd (check_pre_trade_start (custom_hooks W cp) now ctx ord p) = Inl rs \<and>
     callback_failed_reject \<in> set (rejects_vec rs)"
  by (auto simp: silent_start_def custom_hooks_def custom_check_pre_trade_start_def call_start_fn_def
      import_reject_list_result_def case_prod_beta)

lemma silent_main_hook:
  "silent_main cp \<Longrightarrow> \<exists>rs. snd (snd (perform_pre_trade_check (custom_hooks W cp) ctx ord p ms)) = Inl rs \<and>
     callback_failed_reject \<in> set (rejects_vec rs)"
  by (auto simp: silent_main_def custom_hooks_def custom_perform_pre_trade_check_def Let_def with_policy_result_def
      import_reject_list_result_def case_prod_beta split: option.split)

lemma silent_adjustment_hook:
  "silent_adjustment cp \<Longrightarrow> \<exists>rs. snd (snd (apply_account_adjustment (custom_hooks W cp) account adj e ms)) = Inl rs"
  by (auto simp: silent_adjustment_def custom_hooks_def custom_apply_account_adjustment_def Let_def
      import_reject_list_result_def case_prod_beta)

lemma unknown_retirement_hook:
  "unknown_retirement cp \<Longrightarrow> snd (snd (retire_account_hook (custom_hooks W cp) account e ms)) = Inl EvaluationFailed"
proof -
  have "4 \<le> (d::u8) \<Longrightarrow> retire_decision d = Inl EvaluationFailed" for d
    unfolding retire_decision_def by (auto simp: word_le_nat_alt)
  then show "unknown_retirement cp \<Longrightarrow> ?thesis"
    by (auto simp: unknown_retirement_def custom_hooks_def custom_retire_account_def case_prod_beta)
qed

lemma silent_request_rejected:
  assumes "custom_hooks W cp \<in> set policies" and "silent_start cp \<or> silent_main cp"
  shows "\<exists>rs. snd (execute_pre_trade policies account_of now owner ord e) = Inl rs"
proof -
  let ?r = "start_pre_trade policies account_of now ord e"
  have main: "\<exists>rs. snd (execute_pre_trade_request policies owner request (Some e1)) = Inl rs"
    if silent: "silent_main cp" for request :: "ffi_order pre_trade_request" and e1
  proof -
    obtain p rs b ms l os where "run_pre_trade_main_stage perform_pre_trade_check owner policies (rq_ctx request) (rq_order request)
        \<lparr>pl_engine = e1, pl_group_lookup = rq_group_lookup request, pl_drop_copy = None\<rparr> = (p, Some rs, b, ms, l, os)"
      using main_stage_rejects [OF assms(1), of perform_pre_trade_check, OF silent_main_hook [OF silent]] by (metis prod_cases4)
    then show ?thesis by (simp add: execute_pre_trade_request_def Let_def split: option.split prod.split)
  qed
  have start: "\<exists>rs. snd ?r = Inl rs" if "silent_start cp"
    using start_stage_rejects [OF assms(1), of "\<lambda>policy. check_pre_trade_start policy now"
        "\<lparr>ctx_account = account_of ord, ctx_drop_copy = False\<rparr>" ord callback_failed_reject
        "ordinary_pipeline (ok_account (account_of ord)) e", OF silent_start_hook [OF that]]
    by (auto simp: start_pre_trade_def Let_def split: option.split)
  show ?thesis
  proof (cases "snd ?r")
    case (Inl rs)
    then show ?thesis by (cases ?r) (simp add: execute_pre_trade_def)
  next
    case (Inr request)
    then obtain e1 where r: "?r = (e1, Inr request)" by (cases ?r) simp
    have "\<exists>rs. snd (execute_pre_trade_request policies owner request (Some e1)) = Inl rs"
      using start main [of request e1] assms(2) Inr by auto
    then show ?thesis using r by (auto simp: execute_pre_trade_def split: prod.split option.split)
  qed
qed

lemma failure_is_fatal:
  assumes "callback_failed_reject \<in> set (rejects_vec rs)"
  shows "\<exists>fatal. fatal_drop_copy_rejects (Some rs) = Some fatal"
proof -
  have "callback_failed_reject \<in> set (filter (\<lambda>r. is_evaluation_failure (rj_code r)) (rejects_vec rs))"
    using assms by (simp add: callback_failed_reject_def reject_new_def)
  then have "filter (\<lambda>r. is_evaluation_failure (rj_code r)) (rejects_vec rs) \<noteq> []" by (metis list.set_cases list.distinct(1))
  then show ?thesis by (simp only: fatal_drop_copy_rejects_def Option.bind.simps Let_def) simp
qed

lemma silent_drop_copy_rejected:
  assumes "custom_hooks W cp \<in> set policies" and "silent_start cp \<or> silent_main cp"
  shows "\<exists>rs. snd (apply_drop_copy policies account_of now owner1 owner2 ord e) = Inl rs"
proof (cases "account_of ord")
  case (Inr account)
  define ctx where "ctx = \<lparr>ctx_account = Inr account :: request_field_access_error + account_id, ctx_drop_copy = True\<rparr>"
  obtain p rs b where start: "run_pre_trade_start_stage (\<lambda>policy. check_pre_trade_start policy now) policies ctx ord
      (drop_copy_pipeline owner1 account e) = (p, rs, b)" by (metis prod_cases3)
  show ?thesis
  proof (cases "fatal_drop_copy_rejects rs")
    case (Some fatal)
    then show ?thesis
      using Inr start by (simp add: apply_drop_copy_def Let_def ctx_def case_prod_beta)
  next
    case None
    have "\<not> silent_start cp"
    proof
      assume "silent_start cp"
      then obtain rs' where "rs = Some rs'" "callback_failed_reject \<in> set (rejects_vec rs')"
        using start_stage_rejects [OF assms(1), of "\<lambda>policy. check_pre_trade_start policy now", OF silent_start_hook] start
        by (metis prod.inject)
      then show False using failure_is_fatal [of rs'] None by auto
    qed
    then have "silent_main cp" using assms(2) by simp
    then obtain p' rs' rest where main: "run_pre_trade_main_stage perform_pre_trade_check owner2 policies ctx ord p = (p', Some rs', rest)"
      "callback_failed_reject \<in> set (rejects_vec rs')"
      using main_stage_rejects [OF assms(1), of perform_pre_trade_check, OF silent_main_hook] by metis
    obtain b' ms l os where rest: "rest = (b', ms, l, os)" by (metis prod_cases4)
    obtain fatal where "fatal_drop_copy_rejects (Some rs') = Some fatal" using failure_is_fatal [OF main(2)] by blast
    then show ?thesis
      using Inr start main(1) rest None by (simp add: apply_drop_copy_def Let_def ctx_def case_prod_beta)
  qed
qed (simp add: apply_drop_copy_def)

lemma silent_batch_rejected:
  assumes "custom_hooks W cp \<in> set policies" and "silent_adjustment cp" and "adjs \<noteq> []"
  shows "\<exists>err. snd (engine_apply_account_adjustment policies owner account adjs e) = Inl err \<and> abe_failed_adjustment_index err = 0"
proof -
  obtain adj rest where adjs: "adjs = adj # rest" using assms(3) by (cases adjs) auto
  obtain acc rs where "adjust_policies policies account adj (adjust_start owner e) = (acc, Some rs)"
    using adjust_rejects [OF assms(1), of account adj, OF silent_adjustment_hook [OF assms(2)]] by (metis prod.collapse)
  then show ?thesis by (simp add: engine_apply_account_adjustment_def adjs case_prod_beta)
qed

lemma unknown_retirement_refused:
  assumes "custom_hooks W cp \<in> set policies" and "unknown_retirement cp"
  shows "\<exists>refusals. snd (engine_retire_account policies owner account e) = Inl (Refused refusals) \<and>
    \<lparr>arp_policy = cpp_name cp, arp_refusal = EvaluationFailed\<rparr> \<in> set refusals"
proof -
  obtain e1 ms refusals where loop: "retire_loop policies account e (empty_mutations owner) [] = (e1, ms, refusals)"
    by (metis prod_cases3)
  have "\<lparr>arp_policy = pol_name (custom_hooks W cp), arp_refusal = EvaluationFailed\<rparr> \<in> set refusals"
    by (rule retire_loop_refused [OF assms(1) unknown_retirement_hook [OF assms(2)] loop])
  then show ?thesis
    using loop by (auto simp: engine_retire_account_def case_prod_beta custom_hooks_def)
qed

section \<open>Properties\<close>

text \<open>
  (C32) A policy in C fails closed. When a callback of one policy answers no list, its order is rejected
  and its drop copy aborted, whatever the other policies and callbacks say and in whatever order they run;
  a batch of adjustments is refused at its first adjustment; and an account whose retirement is answered
  by a byte that is not a decision of the interface is not retired, with that policy among the refusals.
\<close>

theorem callback_without_answer_fails_closed:
  assumes "custom_hooks W cp \<in> set policies"
  shows "(silent_start cp \<or> silent_main cp \<longrightarrow>
      (\<exists>rs. snd (execute_pre_trade policies account_of now owner ord e) = Inl rs) \<and>
      (\<exists>rs. snd (apply_drop_copy policies account_of now owner owner' ord e) = Inl rs)) \<and>
    (silent_adjustment cp \<and> adjs \<noteq> [] \<longrightarrow>
      (\<exists>err. snd (engine_apply_account_adjustment policies owner account adjs e) = Inl err \<and>
         abe_failed_adjustment_index err = 0)) \<and>
    (unknown_retirement cp \<longrightarrow>
      (\<exists>refusals. snd (engine_retire_account policies owner account e) = Inl (Refused refusals) \<and>
         \<lparr>arp_policy = cpp_name cp, arp_refusal = EvaluationFailed\<rparr> \<in> set refusals))"
  using silent_request_rejected [OF assms] silent_drop_copy_rejected [OF assms] silent_batch_rejected [OF assms]
    unknown_retirement_refused [OF assms] by blast

text \<open>A policy whose main check answers nothing, and whose retirement callback answers the byte 9.\<close>

definition mute_policy :: "nat custom_pre_trade_policy" where
  "mute_policy =
     \<lparr>cpp_name = ''mute'', cpp_policy_group_id = 0,
      cpp_callbacks =
        \<lparr>cb_check_pre_trade_start_fn = None,
         cb_perform_pre_trade_check_fn = Some (\<lambda>_ _ p ms out. (p, ms, out, NullRejects)),
         cb_check_pre_trade_start_dry_run_fn = None, cb_perform_pre_trade_check_dry_run_fn = None,
         cb_apply_execution_report_fn = None, cb_apply_account_adjustment_fn = None,
         cb_retire_account_fn = Some (\<lambda>_ e ms. (e, ms, 9))\<rparr>\<rparr>"

theorem callback_without_answer_fails_closed_witness:
  "(\<exists>rs. snd (execute_pre_trade [policy_default ''other'', custom_hooks decimal96_repr mute_policy] (\<lambda>_. Inr 7) 0 1
      sample_sell counter_engine) = Inl rs) \<and>
   (\<exists>refusals. snd (engine_retire_account
      [policy_default ''other'', custom_hooks decimal96_repr mute_policy] 1 7 counter_engine) = Inl (Refused refusals) \<and>
      \<lparr>arp_policy = ''mute'', arp_refusal = EvaluationFailed\<rparr> \<in> set refusals)"
proof -
  have "silent_main mute_policy" "unknown_retirement mute_policy" "cpp_name mute_policy = ''mute''"
    by (simp_all add: silent_main_def unknown_retirement_def mute_policy_def)
  then show ?thesis
    using callback_without_answer_fails_closed
      [of decimal96_repr mute_policy "[policy_default ''other'', custom_hooks decimal96_repr mute_policy]"
        "\<lambda>_. Inr 7" 0 1 sample_sell counter_engine 2 "[]" 7] by simp
qed

text \<open>
  (C33) A finalizer in C that fails stops all trading. When the commit callback, or the rollback callback, of
  a mutation pushed over the interface reports a failure, with an error text or without, finalizing the
  reservation that holds it, wherever it stands among the mutations, leaves an engine that rejects the next
  order of every account before any policy sees it.
\<close>

theorem failing_finalizer_stops_trading:
  assumes "ffi_mutations_push (Some before) commit_fn rollback_fn free_fn = (Some ms, True)"
    and "mutation_list all = mutation_list ms @ rest"
  shows "((\<forall>w. \<not> fst (snd (commit_fn w))) \<longrightarrow>
      (\<exists>rs. let e' = handle_commit \<lparr>rh_mutations = all, rh_kill_switch = mutation_failure_kill_switch account\<rparr> e
            in start_pre_trade policies account_of now ord e' = (e', Inl rs))) \<and>
    ((\<forall>w. \<not> fst (snd (rollback_fn w))) \<longrightarrow>
      (\<exists>rs. let e' = handle_rollback \<lparr>rh_mutations = all, rh_kill_switch = mutation_failure_kill_switch account\<rparr> e
            in start_pre_trade policies account_of now ord e' = (e', Inl rs)))"
proof -
  let ?m = "mutation_from_ffi_callbacks commit_fn rollback_fn free_fn"
  have m: "?m \<in> set (mutation_list all)"
    using assms by (auto simp: ffi_mutations_push_def mutations_push_def)
  show ?thesis
    using failed_finalizer_blocks_all [OF m] ffi_fails_commit [of commit_fn rollback_fn free_fn]
      ffi_fails_rollback [of rollback_fn commit_fn free_fn]
    by (auto simp: Let_def intro: all_blocked_start)
qed

theorem failing_finalizer_stops_trading_witness:
  "\<exists>rs. start_pre_trade [policy_default ''other''] (\<lambda>_. Inr 8) 0 sample_sell
     (handle_commit \<lparr>rh_mutations = mutations_push (empty_mutations 1)
        (mutation_from_ffi_callbacks (\<lambda>e. (e, False, None)) (\<lambda>e. (e, True, None)) None),
        rh_kill_switch = mutation_failure_kill_switch (Some 7)\<rparr> counter_engine) =
     (handle_commit \<lparr>rh_mutations = mutations_push (empty_mutations 1)
        (mutation_from_ffi_callbacks (\<lambda>e. (e, False, None)) (\<lambda>e. (e, True, None)) None),
        rh_kill_switch = mutation_failure_kill_switch (Some 7)\<rparr> counter_engine, Inl rs)"
  using failing_finalizer_stops_trading
    [of "empty_mutations 1" "\<lambda>e. (e, False, None)" "\<lambda>e. (e, True, None)" None
      "mutations_push (empty_mutations 1) (mutation_from_ffi_callbacks (\<lambda>e. (e, False, None)) (\<lambda>e. (e, True, None)) None)"
      "mutations_push (empty_mutations 1) (mutation_from_ffi_callbacks (\<lambda>e. (e, False, None)) (\<lambda>e. (e, True, None)) None)"
      "[]" "Some 7" counter_engine "[policy_default ''other'']" "\<lambda>_. Inr 8" 0 sample_sell]
  by (simp add: ffi_mutations_push_def Let_def)

end
