(* ===== verification/Ffi_Engine.thy ===== *)
theory Ffi_Engine
  imports Ffi_Policy Reconfiguration Engine_Builder
begin

text \<open>
  The engine behind the C interface (\<open>crates/openpit-ffi/src/engine.rs\<close>): the builder, the entry
  points that decode a request and run the engine on it, the handles a caller holds and finalizes, and
  the administration of accounts. A pointer is \<open>None\<close> when it is null. An out-parameter is the flag
  that says whether the caller passed one, and what is written to it; a value with nowhere to go is
  dropped. The abort of a call on a null engine is the result \<open>None\<close> where the code asserts.
\<close>

section \<open>Outcomes of calls\<close>

datatype call_error = EngineNull | RequestNull | AlreadyConsumed | InvalidRequest ffi_error

datatype pre_trade_status = Passed | Rejected | StatusError

record 'h call_outcome =
  co_status :: pre_trade_status
  co_handle :: "'h option"
  co_rejects :: "reject_list option"
  co_error :: "call_error option"

definition call_failed :: "call_error \<Rightarrow> 'h call_outcome" where
  "call_failed err = \<lparr>co_status = StatusError, co_handle = None, co_rejects = None, co_error = Some err\<rparr>"

definition call_passed :: "'h option \<Rightarrow> 'h call_outcome" where
  "call_passed handle = \<lparr>co_status = Passed, co_handle = handle, co_rejects = None, co_error = None\<rparr>"

definition call_rejected :: "bool \<Rightarrow> rejects \<Rightarrow> 'h call_outcome" where
  "call_rejected wants_rejects rs =
     \<lparr>co_status = Rejected, co_handle = None,
      co_rejects = (if wants_rejects then Some (rejects_to_list_owned rs) else None), co_error = None\<rparr>"

section \<open>Handles\<close>

text \<open>The two handles that finalize share their code: a flag keeps the second call from reaching the handle.\<close>

record 'h c_handle =
  ch_inner :: 'h
  ch_finalized :: bool

definition c_handle_new :: "'h \<Rightarrow> 'h c_handle" where
  "c_handle_new h = \<lparr>ch_inner = h, ch_finalized = False\<rparr>"

text \<open>\<open>None\<close> is a panic of the handle, which ends the process.\<close>

definition c_commit ::
  "('h \<Rightarrow> 'w \<Rightarrow> ('h \<times> 'w) option) \<Rightarrow> 'h c_handle option \<Rightarrow> 'w \<Rightarrow> ('h c_handle option \<times> 'w) option" where
  "c_commit commit_call handle w =
     (case handle of
        None \<Rightarrow> Some (None, w)
      | Some h \<Rightarrow>
          if ch_finalized h then Some (Some h, w)
          else (let h = h\<lparr>ch_finalized := True\<rparr>
                in map_option (\<lambda>(inner', w). (Some (h\<lparr>ch_inner := inner'\<rparr>), w)) (commit_call (ch_inner h) w)))"

definition c_rollback ::
  "('h \<Rightarrow> 'w \<Rightarrow> 'h \<times> 'w) \<Rightarrow> 'h c_handle option \<Rightarrow> 'w \<Rightarrow> 'h c_handle option \<times> 'w" where
  "c_rollback rollback_call handle w =
     (case handle of
        None \<Rightarrow> (None, w)
      | Some h \<Rightarrow>
          if ch_finalized h then (Some h, w)
          else (let h = h\<lparr>ch_finalized := True\<rparr>
                in case rollback_call (ch_inner h) w of (inner', w) \<Rightarrow> (Some (h\<lparr>ch_inner := inner'\<rparr>), w)))"

definition c_destroy :: "('h \<Rightarrow> 'w \<Rightarrow> 'w) \<Rightarrow> 'h c_handle option \<Rightarrow> 'w \<Rightarrow> 'w" where
  "c_destroy drop_call handle w = (case handle of None \<Rightarrow> w | Some h \<Rightarrow> drop_call (ch_inner h) w)"

definition ffi_reservation_commit ::
  "'w pre_trade_reservation c_handle option \<Rightarrow> 'w \<Rightarrow> ('w pre_trade_reservation c_handle option \<times> 'w) option" where
  "ffi_reservation_commit = c_commit reservation_commit"

definition ffi_reservation_rollback ::
  "'w pre_trade_reservation c_handle option \<Rightarrow> 'w \<Rightarrow> 'w pre_trade_reservation c_handle option \<times> 'w" where
  "ffi_reservation_rollback = c_rollback reservation_rollback"

definition ffi_reservation_destroy :: "'w pre_trade_reservation c_handle option \<Rightarrow> 'w \<Rightarrow> 'w" where
  "ffi_reservation_destroy = c_destroy reservation_drop"

definition ffi_drop_copy_commit ::
  "'w drop_copy_operation c_handle option \<Rightarrow> 'w \<Rightarrow> ('w drop_copy_operation c_handle option \<times> 'w) option" where
  "ffi_drop_copy_commit = c_commit drop_copy_commit"

definition ffi_drop_copy_rollback ::
  "'w drop_copy_operation c_handle option \<Rightarrow> 'w \<Rightarrow> 'w drop_copy_operation c_handle option \<times> 'w" where
  "ffi_drop_copy_rollback = c_rollback drop_copy_rollback"

definition ffi_drop_copy_destroy :: "'w drop_copy_operation c_handle option \<Rightarrow> 'w \<Rightarrow> 'w" where
  "ffi_drop_copy_destroy = c_destroy drop_copy_drop"

text \<open>What a caller does with a handle: any calls of its entry points, and then its destruction.\<close>

fun c_handle_life ::
  "('c \<Rightarrow> 'w \<Rightarrow> ('c \<times> 'w) option) \<Rightarrow> ('c \<Rightarrow> 'w \<Rightarrow> 'c \<times> 'w) \<Rightarrow> ('c \<Rightarrow> 'w \<Rightarrow> 'w) \<Rightarrow> final_call list \<Rightarrow> 'c \<Rightarrow> 'w \<Rightarrow>
   'w option" where
  "c_handle_life commit_entry rollback_entry destroy_entry [] h w = Some (destroy_entry h w)"
| "c_handle_life commit_entry rollback_entry destroy_entry (CallCommit # cs) h w =
     Option.bind (commit_entry h w) (\<lambda>(h, w). c_handle_life commit_entry rollback_entry destroy_entry cs h w)"
| "c_handle_life commit_entry rollback_entry destroy_entry (CallRollback # cs) h w =
     (case rollback_entry h w of (h, w) \<Rightarrow> c_handle_life commit_entry rollback_entry destroy_entry cs h w)"

section \<open>Building\<close>

datatype sync_mode = SyncNone | SyncFull | SyncAccount

datatype builder_state = BuilderSynced | BuilderReady engine_builder

record ffi_builder =
  fb_inner :: "builder_state option"
  fb_sync_mode :: sync_mode

datatype ffi_build_error = BuilderNull | BuilderConsumed | NoPolicies | InvalidSyncPolicy u8
  | BuildFailed u8 string u16

definition create_engine_builder :: "u8 \<Rightarrow> ffi_build_error + ffi_builder" where
  "create_engine_builder sync_policy =
     map_res (\<lambda>mode. \<lparr>fb_inner = Some BuilderSynced, fb_sync_mode = mode\<rparr>)
       (if sync_policy = 0 then Inr SyncNone
        else if sync_policy = 1 then Inr SyncFull
        else if sync_policy = 2 then Inr SyncAccount
        else Inl (InvalidSyncPolicy sync_policy))"

definition add_pre_trade_policy_to_builder :: "ffi_builder \<Rightarrow> built_policy \<Rightarrow> ffi_builder \<times> (ffi_build_error + unit)" where
  "add_pre_trade_policy_to_builder builder policy =
     (case fb_inner builder of
        None \<Rightarrow> (builder, Inl BuilderConsumed)
      | Some BuilderSynced \<Rightarrow>
          (builder\<lparr>fb_inner := Some (BuilderReady (builder_pre_trade engine_builder_new policy))\<rparr>, Inr ())
      | Some (BuilderReady b) \<Rightarrow> (builder\<lparr>fb_inner := Some (BuilderReady (builder_pre_trade b policy))\<rparr>, Inr ()))"

fun ffi_build_error_new :: "engine_build_error \<Rightarrow> ffi_build_error" where
  "ffi_build_error_new (DuplicatePolicyName name) = BuildFailed 0 name 0"
| "ffi_build_error_new (DuplicatePolicyGroupId g) = BuildFailed 1 [] g"

definition ffi_builder_build ::
  "ffi_builder option \<Rightarrow> ffi_builder option \<times> (ffi_build_error + (built_policy list \<times> config_registry engine))" where
  "ffi_builder_build builder =
     (case builder of
        None \<Rightarrow> (None, Inl BuilderNull)
      | Some b \<Rightarrow>
          (let taken = Some (b\<lparr>fb_inner := None\<rparr>)
           in case fb_inner b of
                None \<Rightarrow> (taken, Inl BuilderConsumed)
              | Some BuilderSynced \<Rightarrow> (taken, Inl NoPolicies)
              | Some (BuilderReady r) \<Rightarrow> (taken, map_err ffi_build_error_new (builder_build r))))"

section \<open>Requests\<close>

definition ffi_order_account :: "ffi_order \<Rightarrow> request_field_access_error + account_id" where
  "ffi_order_account = payload_accessor (\<lambda>o'. ord_account_id (fst (interop_order_accessors o')))"

definition ffi_report_account :: "ffi_report \<Rightarrow> request_field_access_error + account_id" where
  "ffi_report_account = payload_accessor (\<lambda>r. rov_account_id (report_operation_access (ir_operation r)))"

type_synonym 's ffi_policies = "('s, ffi_order, ffi_report, ffi_adjustment) policy list"

text \<open>The checks that every entry point with an order starts with.\<close>

definition order_argument ::
  "decimal_repr \<Rightarrow> 's engine option \<Rightarrow> wire_order option \<Rightarrow> call_error + ('s engine \<times> ffi_order)" where
  "order_argument W engine ord =
     (case engine of
        None \<Rightarrow> Inl EngineNull
      | Some e \<Rightarrow>
          (case ord of
             None \<Rightarrow> Inl RequestNull
           | Some view \<Rightarrow> map_err InvalidRequest (map_res (Pair e) (import_order W view))))"

definition ffi_start_pre_trade ::
  "decimal_repr \<Rightarrow> 's ffi_policies \<Rightarrow> nat \<Rightarrow> bool \<Rightarrow> bool \<Rightarrow> wire_order option \<Rightarrow> 's engine option \<Rightarrow>
   's engine option \<times> ffi_order pre_trade_request call_outcome" where
  "ffi_start_pre_trade W policies now wants_request wants_rejects ord engine =
     (case order_argument W engine ord of
        Inl err \<Rightarrow> (engine, call_failed err)
      | Inr (e, o') \<Rightarrow>
          (case start_pre_trade policies ffi_order_account now o' e of
             (e, Inr request) \<Rightarrow> (Some e, call_passed (if wants_request then Some request else None))
           | (e, Inl rejects) \<Rightarrow> (Some e, call_rejected wants_rejects rejects)))"

text \<open>A reservation that is not handed to the caller is dropped, which rolls it back.\<close>

definition hand_out ::
  "('h \<Rightarrow> 's engine \<Rightarrow> 's engine) \<Rightarrow> bool \<Rightarrow> bool \<Rightarrow> 's engine \<times> (rejects + 'h) \<Rightarrow>
   's engine option \<times> 'h c_handle call_outcome" where
  "hand_out drop_call wants_handle wants_rejects answer =
     (case answer of
        (e, Inr handle) \<Rightarrow>
          if wants_handle then (Some e, call_passed (Some (c_handle_new handle)))
          else (Some (drop_call handle e), call_passed None)
      | (e, Inl rejects) \<Rightarrow> (Some e, call_rejected wants_rejects rejects))"

definition ffi_execute_pre_trade ::
  "decimal_repr \<Rightarrow> 's ffi_policies \<Rightarrow> nat \<Rightarrow> u64 \<Rightarrow> bool \<Rightarrow> bool \<Rightarrow> wire_order option \<Rightarrow> 's engine option \<Rightarrow>
   's engine option \<times> 's engine pre_trade_reservation c_handle call_outcome" where
  "ffi_execute_pre_trade W policies now owner wants_reservation wants_rejects ord engine =
     (case order_argument W engine ord of
        Inl err \<Rightarrow> (engine, call_failed err)
      | Inr (e, o') \<Rightarrow>
          hand_out reservation_drop wants_reservation wants_rejects
            (execute_pre_trade policies ffi_order_account now owner o' e))"

definition ffi_apply_drop_copy ::
  "decimal_repr \<Rightarrow> 's ffi_policies \<Rightarrow> nat \<Rightarrow> u64 \<Rightarrow> u64 \<Rightarrow> bool \<Rightarrow> bool \<Rightarrow> wire_order option \<Rightarrow> 's engine option \<Rightarrow>
   's engine option \<times> 's engine drop_copy_operation c_handle call_outcome" where
  "ffi_apply_drop_copy W policies now start_owner main_owner wants_operation wants_rejects ord engine =
     (case order_argument W engine ord of
        Inl err \<Rightarrow> (engine, call_failed err)
      | Inr (e, o') \<Rightarrow>
          hand_out drop_copy_drop wants_operation wants_rejects
            (apply_drop_copy policies ffi_order_account now start_owner main_owner o' e))"

text \<open>The request of a deferred order is consumed by its first execution. An engine that is gone only rejects.\<close>

definition ffi_request_execute ::
  "'s ffi_policies \<Rightarrow> u64 \<Rightarrow> bool \<Rightarrow> bool \<Rightarrow> ffi_order pre_trade_request option option \<Rightarrow> 's engine option \<Rightarrow>
   ffi_order pre_trade_request option option \<times> 's engine option \<times> 's engine pre_trade_reservation c_handle call_outcome" where
  "ffi_request_execute policies owner wants_reservation wants_rejects request engine_ref =
     (case request of
        None \<Rightarrow> (None, engine_ref, call_failed RequestNull)
      | Some None \<Rightarrow> (Some None, engine_ref, call_failed AlreadyConsumed)
      | Some (Some pending) \<Rightarrow>
          (Some None,
           case execute_pre_trade_request policies owner pending engine_ref of
             (Some e, result) \<Rightarrow> hand_out reservation_drop wants_reservation wants_rejects (e, result)
           | (None, Inl rejects) \<Rightarrow> (None, call_rejected wants_rejects rejects)
           | (None, Inr reservation) \<Rightarrow> (None, call_passed (Some (c_handle_new reservation)))))"

text \<open>Dry runs: the report, or the error of the arguments.\<close>

definition ffi_start_pre_trade_dry_run ::
  "decimal_repr \<Rightarrow> 's ffi_policies \<Rightarrow> nat \<Rightarrow> wire_order option \<Rightarrow> 's engine option \<Rightarrow>
   's engine option \<times> (call_error + dry_run_report)" where
  "ffi_start_pre_trade_dry_run W policies now ord engine =
     (case order_argument W engine ord of
        Inl err \<Rightarrow> (engine, Inl err)
      | Inr (e, o') \<Rightarrow> (case start_pre_trade_dry_run policies ffi_order_account now o' e of (e, r) \<Rightarrow> (Some e, Inr r)))"

definition ffi_execute_pre_trade_dry_run ::
  "decimal_repr \<Rightarrow> 's ffi_policies \<Rightarrow> nat \<Rightarrow> u64 \<Rightarrow> wire_order option \<Rightarrow> 's engine option \<Rightarrow>
   's engine option \<times> (call_error + dry_run_report)" where
  "ffi_execute_pre_trade_dry_run W policies now owner ord engine =
     (case order_argument W engine ord of
        Inl err \<Rightarrow> (engine, Inl err)
      | Inr (e, o') \<Rightarrow> (case execute_pre_trade_dry_run policies ffi_order_account now owner o' e of (e, r) \<Rightarrow> (Some e, Inr r)))"

definition dry_run_report_rejects :: "dry_run_report \<Rightarrow> reject_list" where
  "dry_run_report_rejects report =
     rejects_to_list_owned (case dr_rejects report of Some rs \<Rightarrow> rs | None \<Rightarrow> rejects_new [])"

definition dry_run_report_blocks :: "dry_run_report \<Rightarrow> account_block list" where
  "dry_run_report_blocks report = (case dr_account_block report of Some b \<Rightarrow> [b] | None \<Rightarrow> [])"

definition drop_copy_blocks :: "'w drop_copy_operation c_handle \<Rightarrow> account_block list" where
  "drop_copy_blocks handle = (case dco_account_block (ch_inner handle) of Some b \<Rightarrow> [b] | None \<Rightarrow> [])"

definition ffi_apply_execution_report ::
  "decimal_repr \<Rightarrow> 's ffi_policies \<Rightarrow> wire_report option \<Rightarrow> 's engine option \<Rightarrow>
   's engine option \<times> (call_error + post_trade_result)" where
  "ffi_apply_execution_report W policies report engine =
     (case engine of
        None \<Rightarrow> (None, Inl EngineNull)
      | Some e \<Rightarrow>
          (case report of
             None \<Rightarrow> (engine, Inl RequestNull)
           | Some view \<Rightarrow>
               (case import_execution_report W view of
                  Inl err \<Rightarrow> (engine, Inl (InvalidRequest err))
                | Inr r \<Rightarrow>
                    (case engine_apply_execution_report policies ffi_report_account r e of
                       (e, result) \<Rightarrow> (Some e, Inr result)))))"

section \<open>Adjustments and retirement\<close>

fun import_all :: "('v \<Rightarrow> ffi_error + 'a) \<Rightarrow> 'v list \<Rightarrow> ffi_error + 'a list" where
  "import_all f [] = Inr []"
| "import_all f (v # vs) = bind_res (f v) (\<lambda>x. map_res ((#) x) (import_all f vs))"

datatype adjustment_status = Applied "account_adjustment_outcome list option" "account_block list option"
  | AdjustmentRejected reject_list nat | AdjustmentError call_error

definition some_if_any :: "'a list \<Rightarrow> 'a list option" where
  "some_if_any xs = (if xs = [] then None else Some xs)"

definition ffi_apply_account_adjustment ::
  "decimal_repr \<Rightarrow> 's ffi_policies \<Rightarrow> u64 \<Rightarrow> u64 \<Rightarrow> wire_adjustment list option \<Rightarrow> nat \<Rightarrow> 's engine option \<Rightarrow>
   's engine option \<times> adjustment_status" where
  "ffi_apply_account_adjustment W policies owner account adjustments adjustments_len engine =
     (case engine of
        None \<Rightarrow> (None, AdjustmentError EngineNull)
      | Some e \<Rightarrow>
          if 0 < adjustments_len \<and> adjustments = None then (engine, AdjustmentError RequestNull)
          else (case import_all (import_account_adjustment W)
                       (if adjustments_len = 0 then [] else take adjustments_len (the adjustments)) of
                  Inl err \<Rightarrow> (engine, AdjustmentError (InvalidRequest err))
                | Inr values \<Rightarrow>
                    (case engine_apply_account_adjustment policies owner account values e of
                       (e, Inr batch) \<Rightarrow>
                         (Some e, Applied (some_if_any (abr_outcomes batch)) (some_if_any (abr_account_blocks batch)))
                     | (e, Inl err) \<Rightarrow>
                         (Some e, AdjustmentRejected (rejects_to_list_owned (abe_rejects err))
                            (abe_failed_adjustment_index err)))))"

fun export_account_retirement_refusal_kind :: "account_retirement_refusal \<Rightarrow> u32" where
  "export_account_retirement_refusal_kind ConfigurationReferencesAccount = 1"
| "export_account_retirement_refusal_kind NonZeroState = 2"
| "export_account_retirement_refusal_kind OperationInProgress = 3"
| "export_account_retirement_refusal_kind EvaluationFailed = 4"

record wire_retirement_error =
  wrt_kind :: u32
  wrt_refusals :: "(string \<times> u32) list"

fun wire_retirement_error_new :: "account_retirement_error \<Rightarrow> wire_retirement_error" where
  "wire_retirement_error_new (Refused refusals) =
     \<lparr>wrt_kind = 0,
      wrt_refusals = map (\<lambda>r. (arp_policy r, export_account_retirement_refusal_kind (arp_refusal r))) refusals\<rparr>"
| "wire_retirement_error_new FinalizerFailed = \<lparr>wrt_kind = 1, wrt_refusals = []\<rparr>"

definition ffi_retire_account ::
  "'s ffi_policies \<Rightarrow> u64 \<Rightarrow> u64 \<Rightarrow> 's engine option \<Rightarrow>
   's engine option \<times> (call_error + wire_retirement_error option)" where
  "ffi_retire_account policies owner account engine =
     (case engine of
        None \<Rightarrow> (None, Inl EngineNull)
      | Some e \<Rightarrow>
          (case engine_retire_account policies owner account e of
             (e, Inr _) \<Rightarrow> (Some e, Inr None)
           | (e, Inl err) \<Rightarrow> (Some e, Inr (Some (wire_retirement_error_new err)))))"

section \<open>Administration of accounts\<close>

datatype admin_error = AdminEngineNull | AdminAccountsNull | AdminGroupReserved | AdminAssetRequired
  | AdminAssetInvalid ffi_error

record wire_group_error =
  wge_account :: u64
  wge_current_group :: u32
  wge_current_group_is_set :: bool

fun wire_group_error_new :: "account_group_error \<Rightarrow> wire_group_error" where
  "wire_group_error_new (AlreadyRegistered account current) =
     \<lparr>wge_account = account, wge_current_group = current, wge_current_group_is_set = True\<rparr>"
| "wire_group_error_new (NotInGroup account _ current) =
     \<lparr>wge_account = account, wge_current_group = (case current of Some g \<Rightarrow> g | None \<Rightarrow> 0),
      wge_current_group_is_set = (current \<noteq> None)\<rparr>"
| "wire_group_error_new GroupErr_ReservedGroup =
     \<lparr>wge_account = 0, wge_current_group = 0, wge_current_group_is_set = False\<rparr>"

text \<open>The accounts and the group of a membership change, checked in the order of the code.\<close>

definition change_membership ::
  "(account_id list \<Rightarrow> account_group_id \<Rightarrow> 's engine \<Rightarrow> 's engine \<times> (account_group_error + unit)) \<Rightarrow>
   u64 list option \<Rightarrow> nat \<Rightarrow> u32 \<Rightarrow> 's engine option \<Rightarrow>
   's engine option \<times> ((admin_error + wire_group_error) + unit)" where
  "change_membership change accounts accounts_len g engine =
     (case engine of
        None \<Rightarrow> (None, Inl (Inl AdminEngineNull))
      | Some e \<Rightarrow>
          if 0 < accounts_len \<and> accounts = None then (engine, Inl (Inl AdminAccountsNull))
          else (let account_ids = (if accounts_len = 0 then [] else take accounts_len (the accounts))
                in case account_group_id_from_u32 g of
                     Inl _ \<Rightarrow> (engine, Inl (Inr (wire_group_error_new GroupErr_ReservedGroup)))
                   | Inr g \<Rightarrow>
                       (case change account_ids g e of
                          (e, Inr _) \<Rightarrow> (Some e, Inr ())
                        | (e, Inl err) \<Rightarrow> (Some e, Inl (Inr (wire_group_error_new err))))))"

definition ffi_register_account_group ::
  "u64 list option \<Rightarrow> nat \<Rightarrow> u32 \<Rightarrow> config_registry engine option \<Rightarrow>
   config_registry engine option \<times> ((admin_error + wire_group_error) + unit)" where
  "ffi_register_account_group = change_membership accounts_register_group"

definition ffi_unregister_account_group ::
  "u64 list option \<Rightarrow> nat \<Rightarrow> u32 \<Rightarrow> config_registry engine option \<Rightarrow>
   config_registry engine option \<times> ((admin_error + wire_group_error) + unit)" where
  "ffi_unregister_account_group = change_membership accounts_unregister_group"

definition ffi_account_group :: "u64 \<Rightarrow> 's engine option \<Rightarrow> u32 option option" where
  "ffi_account_group account engine = map_option (\<lambda>e. group_of (eng_groups e) account) engine"

definition import_account_group_id_allow_default :: "u32 \<Rightarrow> account_group_id option" where
  "import_account_group_id_allow_default g =
     (if g = DEFAULT_ACCOUNT_GROUP then Some DEFAULT_ACCOUNT_GROUP
      else case account_group_id_from_u32 g of Inr g \<Rightarrow> Some g | Inl _ \<Rightarrow> None)"

definition required_asset :: "string_view \<Rightarrow> admin_error + asset" where
  "required_asset view =
     (case parse_asset_view view ''asset'' of
        Inl err \<Rightarrow> Inl (AdminAssetInvalid err)
      | Inr None \<Rightarrow> Inl AdminAssetRequired
      | Inr (Some asset) \<Rightarrow> Inr asset)"

definition ffi_set_account_currency ::
  "u64 \<Rightarrow> string_view \<Rightarrow> 's engine option \<Rightarrow> 's engine option \<times> (admin_error + unit)" where
  "ffi_set_account_currency account view engine =
     (case engine of
        None \<Rightarrow> (None, Inl AdminEngineNull)
      | Some e \<Rightarrow>
          (case required_asset view of
             Inl err \<Rightarrow> (engine, Inl err)
           | Inr asset \<Rightarrow> (Some (accounts_set_currency account asset e), Inr ())))"

definition ffi_clear_account_currency :: "u64 \<Rightarrow> 's engine option \<Rightarrow> 's engine option" where
  "ffi_clear_account_currency account engine = map_option (accounts_clear_currency account) engine"

definition ffi_set_account_group_currency ::
  "u32 \<Rightarrow> string_view \<Rightarrow> 's engine option \<Rightarrow> 's engine option \<times> (admin_error + unit)" where
  "ffi_set_account_group_currency g view engine =
     (case engine of
        None \<Rightarrow> (None, Inl AdminEngineNull)
      | Some e \<Rightarrow>
          (case import_account_group_id_allow_default g of
             None \<Rightarrow> (engine, Inl AdminGroupReserved)
           | Some g \<Rightarrow>
               (case required_asset view of
                  Inl err \<Rightarrow> (engine, Inl err)
                | Inr asset \<Rightarrow> (Some (accounts_set_group_currency g asset e), Inr ()))))"

definition ffi_clear_account_group_currency :: "u32 \<Rightarrow> 's engine option \<Rightarrow> 's engine option" where
  "ffi_clear_account_group_currency g engine =
     map_option (\<lambda>e. case import_account_group_id_allow_default g of
       Some g \<Rightarrow> accounts_clear_group_currency g e | None \<Rightarrow> e) engine"

text \<open>Errors of blocking. A null engine is a message alone, and its kind is that of a reserved group.\<close>

record wire_block_error =
  wbe_account :: u64
  wbe_account_is_set :: bool
  wbe_group :: u32
  wbe_group_is_set :: bool

definition wire_block_error_message :: wire_block_error where
  "wire_block_error_message = \<lparr>wbe_account = 0, wbe_account_is_set = False, wbe_group = 0, wbe_group_is_set = False\<rparr>"

fun wire_block_error_new :: "account_block_error \<Rightarrow> wire_block_error" where
  "wire_block_error_new (AccountNotBlocked account) =
     \<lparr>wbe_account = account, wbe_account_is_set = True, wbe_group = 0, wbe_group_is_set = False\<rparr>"
| "wire_block_error_new (GroupNotBlocked g) =
     \<lparr>wbe_account = 0, wbe_account_is_set = False, wbe_group = g, wbe_group_is_set = True\<rparr>"
| "wire_block_error_new BlockErr_ReservedGroup = wire_block_error_message"

definition wire_block_error_kind :: "wire_block_error \<Rightarrow> u32" where
  "wire_block_error_kind err = (if wbe_account_is_set err then 1 else if wbe_group_is_set err then 2 else 0)"

definition reason_text :: "string_view \<Rightarrow> string" where
  "reason_text reason =
     (case sv_ptr reason of
        None \<Rightarrow> []
      | Some memory \<Rightarrow> if sv_len reason = 0 then [] else from_utf8_lossy (take (sv_len reason) memory))"

definition ffi_block_account :: "u64 \<Rightarrow> string_view \<Rightarrow> 's engine option \<Rightarrow> 's engine option" where
  "ffi_block_account account reason engine = map_option (accounts_block account (reason_text reason)) engine"

definition ffi_block_account_with_cause ::
  "u64 \<Rightarrow> wire_block \<Rightarrow> 's engine option \<Rightarrow> 's engine option \<times> (block_error option + unit)" where
  "ffi_block_account_with_cause account cause engine =
     (case engine of
        None \<Rightarrow> (None, Inl None)
      | Some e \<Rightarrow>
          (case wire_try_to_block cause of
             Inl err \<Rightarrow> (engine, Inl (Some err))
           | Inr block \<Rightarrow> (Some (accounts_block_with_cause account block e), Inr ())))"

definition ffi_unblock_account :: "u64 \<Rightarrow> 's engine option \<Rightarrow> 's engine option" where
  "ffi_unblock_account account engine = map_option (accounts_unblock account) engine"

definition ffi_unblock_all_accounts :: "'s engine option \<Rightarrow> 's engine option" where
  "ffi_unblock_all_accounts engine = map_option accounts_unblock_all engine"

definition block_call ::
  "('s engine \<Rightarrow> 's engine \<times> (account_block_error + unit)) \<Rightarrow> 's engine option \<Rightarrow>
   's engine option \<times> (wire_block_error + unit)" where
  "block_call call engine =
     (case engine of
        None \<Rightarrow> (None, Inl wire_block_error_message)
      | Some e \<Rightarrow> (case call e of (e, r) \<Rightarrow> (Some e, map_err wire_block_error_new r)))"

definition ffi_replace_account_block_reason ::
  "u64 \<Rightarrow> string_view \<Rightarrow> 's engine option \<Rightarrow> 's engine option \<times> (wire_block_error + unit)" where
  "ffi_replace_account_block_reason account reason =
     block_call (accounts_replace_block_reason account (reason_text reason))"

definition group_block_call ::
  "(account_group_id \<Rightarrow> 's engine \<Rightarrow> 's engine \<times> (account_block_error + unit)) \<Rightarrow> u32 \<Rightarrow> 's engine option \<Rightarrow>
   's engine option \<times> (wire_block_error + unit)" where
  "group_block_call call g =
     block_call (\<lambda>e. case account_group_id_from_u32 g of Inl _ \<Rightarrow> (e, Inl BlockErr_ReservedGroup) | Inr g \<Rightarrow> call g e)"

definition ffi_block_account_group ::
  "u32 \<Rightarrow> string_view \<Rightarrow> 's engine option \<Rightarrow> 's engine option \<times> (wire_block_error + unit)" where
  "ffi_block_account_group g reason = group_block_call (\<lambda>g. accounts_block_group g (reason_text reason)) g"

definition ffi_unblock_account_group :: "u32 \<Rightarrow> 's engine option \<Rightarrow> 's engine option \<times> (wire_block_error + unit)" where
  "ffi_unblock_account_group g = group_block_call accounts_unblock_group g"

definition ffi_replace_account_group_block_reason ::
  "u32 \<Rightarrow> string_view \<Rightarrow> 's engine option \<Rightarrow> 's engine option \<times> (wire_block_error + unit)" where
  "ffi_replace_account_group_block_reason g reason =
     group_block_call (\<lambda>g. accounts_replace_group_block_reason g (reason_text reason)) g"

section \<open>Handles are finalized once\<close>

context finalizer
begin

lemma c_finalized_idle:
  "inner_of (ch_inner h) = None \<Longrightarrow> ch_finalized h \<Longrightarrow> c_handle_life (c_commit commit_call) (c_rollback rollback_call) (c_destroy drop_call) cs (Some h) w = Some w"
proof (induction cs)
  case Nil
  then show ?case by (simp add: c_destroy_def drop_idle)
next
  case (Cons c cs)
  then show ?case by (cases c) (simp_all add: c_commit_def c_rollback_def Let_def)
qed

lemma c_null_idle: "c_handle_life (c_commit commit_call) (c_rollback rollback_call) (c_destroy drop_call) cs None w = Some w"
proof (induction cs)
  case Nil
  then show ?case by (simp add: c_destroy_def)
next
  case (Cons c cs)
  then show ?case by (cases c) (simp_all add: c_commit_def c_rollback_def Let_def)
qed

lemma c_finalized_once:
  assumes "inner_of r = Some h"
  shows "c_handle_life (c_commit commit_call) (c_rollback rollback_call) (c_destroy drop_call) cs (Some (c_handle_new r)) w =
    Some (case cs of CallCommit # _ \<Rightarrow> handle_commit h w | _ \<Rightarrow> handle_rollback h w)"
proof (cases cs)
  case Nil
  then show ?thesis using assms by (simp add: c_destroy_def c_handle_new_def drop_runs)
next
  case (Cons c rest)
  obtain r1 where c1: "commit_call r w = Some (r1, handle_commit h w)" "inner_of r1 = None"
    using commit_runs [OF assms] by blast
  obtain r2 where c2: "rollback_call r w = (r2, handle_rollback h w)" "inner_of r2 = None"
    using rollback_runs [OF assms] by blast
  show ?thesis
    using Cons c1 c2 by (cases c) (simp_all add: c_commit_def c_rollback_def c_handle_new_def c_finalized_idle Let_def)
qed

end

lemmas ffi_handle_defs = ffi_reservation_commit_def ffi_reservation_rollback_def ffi_reservation_destroy_def
  ffi_drop_copy_commit_def ffi_drop_copy_rollback_def ffi_drop_copy_destroy_def

section \<open>Calls with valid requests\<close>

lemma import_all_map: "(\<And>x. x \<in> set xs \<Longrightarrow> f (g x) = Inr x) \<Longrightarrow> import_all f (map g xs) = Inr xs"
  by (induction xs) simp_all

lemma import_all_stops: "v \<in> set vs \<Longrightarrow> f v = Inl err \<Longrightarrow> \<exists>err'. import_all f vs = Inl err'"
proof (induction vs)
  case (Cons x vs)
  then show ?case by (cases "f x") auto
qed simp

lemma order_argument_valid:
  "decimal_wire W \<Longrightarrow> order_ok (rwp_request o') \<Longrightarrow>
   order_argument W (Some e) (Some (export_order W o')) = Inr (e, o')"
  by (simp add: order_argument_def decimal_wire.order_round)

lemma adjustments_round:
  assumes "decimal_wire W" and "\<forall>a\<in>set adjs. adjustment_ok (rwp_request a)"
  shows "import_all (import_account_adjustment W) (map (export_account_adjustment W) adjs) = Inr adjs"
  using assms(2) by (intro import_all_map) (simp add: decimal_wire.adjustment_round [OF assms(1)])

lemma valid_adjustments_call:
  assumes "decimal_wire W" and "\<forall>a\<in>set adjs. adjustment_ok (rwp_request a)"
  shows "ffi_apply_account_adjustment W policies owner account (Some (map (export_account_adjustment W) adjs))
      (length adjs) (Some e) =
    (case engine_apply_account_adjustment policies owner account adjs e of
       (e', Inr batch) \<Rightarrow>
         (Some e', Applied (if abr_outcomes batch = [] then None else Some (abr_outcomes batch))
            (if abr_account_blocks batch = [] then None else Some (abr_account_blocks batch)))
     | (e', Inl err) \<Rightarrow>
         (Some e', AdjustmentRejected (OwnedRejects (rejects_vec (abe_rejects err)))
            (abe_failed_adjustment_index err)))"
proof -
  obtain e' answer where run: "engine_apply_account_adjustment policies owner account adjs e = (e', answer)" by fastforce
  show ?thesis
    unfolding run prod.case using adjustments_round [OF assms] run
    by (cases "adjs = []"; cases answer)
      (simp_all add: ffi_apply_account_adjustment_def rejects_to_list_owned_def some_if_any_def)
qed

section \<open>Reservations nobody takes\<close>

lemma unclaimed_rolls_back:
  assumes "transactional_policies policies" and "\<not> ctx_drop_copy (rq_ctx request)"
    and "execute_pre_trade_request policies owner request (Some e1) = (Some e2, Inr reservation)"
  shows "reservation_drop reservation e2 = e1"
proof -
  let ?ctx = "rq_ctx request"
  let ?p = "\<lparr>pl_engine = e1, pl_group_lookup = rq_group_lookup request, pl_drop_copy = None\<rparr>"
  let ?acc = "fold (main_step perform_pre_trade_check ?ctx (rq_order request)) policies (main_start owner ?p)"
  have "main_ok e1 owner (main_start owner ?p)" by (simp add: main_ok_def main_start_def)
  then have "main_ok e1 owner ?acc"
    using transactional_policies.main_fold_ok [OF assms(1) subset_refl assms(2)] by blast
  then have undo: "rollback_all (ma_mutations ?acc) (pl_engine (ma_pipeline ?acc)) = (e1, failure_default)"
    by (auto simp: main_ok_def intro: registered_rollback)
  have "e2 = pl_engine (ma_pipeline ?acc) \<and>
      rsv_inner reservation = Some \<lparr>rh_mutations = ma_mutations ?acc,
        rh_kill_switch = mutation_failure_kill_switch (ok_account (ctx_account ?ctx))\<rparr>"
    using assms(3)
    by (auto simp: execute_pre_trade_request_def run_pre_trade_main_stage_def Let_def reservation_from_handle_def
        split: option.splits prod.splits)
  then show ?thesis
    using undo by (simp add: reservation_drop_def handle_rollback_def kill_switch_arm_def failure_default_def)
qed

section \<open>Properties\<close>

text \<open>
  (C31) The C interface is the engine. A valid request that a caller encodes and passes in is answered as the
  engine answers the request itself, with the same engine after the call: an order is passed with a fresh handle
  of its reservation, or rejected with all rejects, each one in order; a report is applied with its result; a
  batch of adjustments is applied with its outcomes and blocks (no list when there are none), or refused with its
  rejects at the same index. An order that does not decode, a null order, and a batch of which one adjustment does
  not decode, leave the engine as it is and answer an error, with no handle and no rejects.
\<close>

theorem c_interface_is_the_engine:
  assumes "decimal_wire W"
  shows "(order_ok (rwp_request o') \<longrightarrow>
      ffi_execute_pre_trade W policies now owner True True (Some (export_order W o')) (Some e) =
      (case execute_pre_trade policies ffi_order_account now owner o' e of
         (e', Inr reservation) \<Rightarrow>
           (Some e', \<lparr>co_status = Passed, co_handle = Some \<lparr>ch_inner = reservation, ch_finalized = False\<rparr>,
              co_rejects = None, co_error = None\<rparr>)
       | (e', Inl rs) \<Rightarrow>
           (Some e', \<lparr>co_status = Rejected, co_handle = None, co_rejects = Some (OwnedRejects (rejects_vec rs)),
              co_error = None\<rparr>))) \<and>
    (report_ok (rwp_request r) \<longrightarrow>
      ffi_apply_execution_report W policies (Some (export_execution_report W r)) (Some e) =
      (case engine_apply_execution_report policies ffi_report_account r e of (e', result) \<Rightarrow> (Some e', Inr result))) \<and>
    ((\<forall>a\<in>set adjs. adjustment_ok (rwp_request a)) \<longrightarrow>
      ffi_apply_account_adjustment W policies owner account (Some (map (export_account_adjustment W) adjs))
        (length adjs) (Some e) =
      (case engine_apply_account_adjustment policies owner account adjs e of
         (e', Inr batch) \<Rightarrow>
           (Some e', Applied (if abr_outcomes batch = [] then None else Some (abr_outcomes batch))
              (if abr_account_blocks batch = [] then None else Some (abr_account_blocks batch)))
       | (e', Inl err) \<Rightarrow>
           (Some e', AdjustmentRejected (OwnedRejects (rejects_vec (abe_rejects err)))
              (abe_failed_adjustment_index err)))) \<and>
    (\<forall>view err. import_order W view = Inl err \<longrightarrow>
      ffi_execute_pre_trade W policies now owner True True (Some view) (Some e) =
        (Some e, \<lparr>co_status = StatusError, co_handle = None, co_rejects = None, co_error = Some (InvalidRequest err)\<rparr>)) \<and>
    ffi_execute_pre_trade W policies now owner True True None (Some e) =
      (Some e, \<lparr>co_status = StatusError, co_handle = None, co_rejects = None, co_error = Some RequestNull\<rparr>) \<and>
    (\<forall>views view err. view \<in> set views \<and> import_account_adjustment W view = Inl err \<longrightarrow>
      (\<exists>err'. ffi_apply_account_adjustment W policies owner account (Some views) (length views) (Some e) =
        (Some e, AdjustmentError (InvalidRequest err'))))"
proof -
  have valid: "ffi_execute_pre_trade W policies now owner True True (Some (export_order W o')) (Some e) =
      (case execute_pre_trade policies ffi_order_account now owner o' e of
         (e', Inr reservation) \<Rightarrow>
           (Some e', \<lparr>co_status = Passed, co_handle = Some \<lparr>ch_inner = reservation, ch_finalized = False\<rparr>,
              co_rejects = None, co_error = None\<rparr>)
       | (e', Inl rs) \<Rightarrow>
           (Some e', \<lparr>co_status = Rejected, co_handle = None, co_rejects = Some (OwnedRejects (rejects_vec rs)),
              co_error = None\<rparr>))" if "order_ok (rwp_request o')"
    using that by (simp add: ffi_execute_pre_trade_def order_argument_valid [OF assms] hand_out_def call_passed_def
        call_rejected_def c_handle_new_def rejects_to_list_owned_def split: prod.split sum.split)
  have invalid: "\<exists>err'. ffi_apply_account_adjustment W policies owner account (Some views) (length views) (Some e) =
      (Some e, AdjustmentError (InvalidRequest err'))"
    if "view \<in> set views \<and> import_account_adjustment W view = Inl err" for views view err
    using that import_all_stops [of view views "import_account_adjustment W" err]
    by (auto simp: ffi_apply_account_adjustment_def)
  show ?thesis
    using valid invalid valid_adjustments_call [OF assms, of adjs policies owner account e]
    by (simp add: ffi_apply_execution_report_def decimal_wire.report_round [OF assms] ffi_execute_pre_trade_def
        order_argument_def call_failed_def)
qed

theorem c_interface_is_the_engine_witness:
  "\<exists>e' rs. ffi_execute_pre_trade decimal96_repr [custom_hooks decimal96_repr mute_policy] 0 1 True True
     (Some (export_order decimal96_repr sample_sell)) (Some counter_engine) =
     (e', \<lparr>co_status = Rejected, co_handle = None, co_rejects = Some (OwnedRejects (rejects_vec (rs :: rejects))), co_error = None\<rparr>)"
proof -
  let ?ps = "[custom_hooks decimal96_repr mute_policy]"
  obtain rs where "snd (execute_pre_trade ?ps ffi_order_account 0 1 sample_sell counter_engine) = Inl rs"
    using silent_request_rejected [of decimal96_repr mute_policy ?ps] by (force simp: silent_main_def mute_policy_def)
  then obtain e' where "execute_pre_trade ?ps ffi_order_account 0 1 sample_sell counter_engine = (e', Inl rs)"
    by (metis prod.collapse)
  then show ?thesis
    using c_interface_is_the_engine [OF decimal96.decimal_wire_axioms, of sample_sell ?ps 0 1 counter_engine,
        THEN conjunct1, THEN mp, OF sample_sell_ok]
    by auto
qed

text \<open>
  (C34) A reservation nobody takes leaves no trace. When policies register the undoing of what they do and both
  stages of the engine accept an order for which the caller gave no place for the reservation, the call answers
  that it passed, without a handle, rejects or an error, and the engine is the one after the start checks:
  everything the main stage reserved is rolled back.
\<close>

theorem unclaimed_reservation_leaves_no_trace:
  assumes "transactional_policies policies"
    and "import_order W view = Inr o'"
    and "start_pre_trade policies ffi_order_account now o' e = (e1, Inr request)"
    and "execute_pre_trade_request policies owner request (Some e1) = (Some e2, Inr reservation)"
  shows "ffi_execute_pre_trade W policies now owner False wants_rejects (Some view) (Some e) =
    (Some e1, \<lparr>co_status = Passed, co_handle = None, co_rejects = None, co_error = None\<rparr>)"
proof -
  have "\<not> ctx_drop_copy (rq_ctx request)"
    using assms(3) by (auto simp: start_pre_trade_def Let_def split: option.splits prod.splits)
  then show ?thesis
    using unclaimed_rolls_back [OF assms(1) _ assms(4)] assms(2-4)
    by (simp add: ffi_execute_pre_trade_def order_argument_def execute_pre_trade_def hand_out_def call_passed_def)
qed

text \<open>A policy in C that reserves three units of a counter and registers their release.\<close>

definition c_reserve_policy :: "nat custom_pre_trade_policy" where
  "c_reserve_policy = mute_policy
     \<lparr>cpp_callbacks := (cpp_callbacks mute_policy)
       \<lparr>cb_perform_pre_trade_check_fn := Some (\<lambda>_ _ p ms out.
          (p\<lparr>pl_engine := put_counter (eng_policy_state (pl_engine p) + 3) (pl_engine p)\<rparr>,
           mutations_push ms (mutation_from_ffi_callbacks (\<lambda>e. (e, True, None))
             (\<lambda>e. (put_counter (eng_policy_state e - 3) e, True, None)) None), out, AcceptSentinel))\<rparr>\<rparr>"

lemma c_reserve_registers:
  "registers_undo e ms (put_counter (eng_policy_state e + 3) e)
     (mutations_push ms (mutation_from_ffi_callbacks (\<lambda>e. (e, True, None))
        (\<lambda>e. (put_counter (eng_policy_state e - 3) e, True, None)) None))"
proof -
  have "mutation_rollback (mutation_from_ffi_callbacks (\<lambda>e. (e, True, None))
      (\<lambda>e. (put_counter (eng_policy_state e - 3) e, True, None)) None) (put_counter (eng_policy_state e + 3) e) = (e, failure_default)"
    by (simp add: mutation_from_ffi_callbacks_def new_fallible_with_error_def new_reporting_with_error_def
        mutation_rollback_def call_mutation_fn_def drop_guard_def put_counter_def split: unit.split)
  from undo_chain_single [OF this] show ?thesis by (auto simp: registers_undo_def mutations_push_def)
qed

lemma c_reserve_hooks:
  "check_pre_trade_start (custom_hooks W c_reserve_policy) now ctx ord p = (p, Inr ())"
  "\<exists>p' ms'. perform_pre_trade_check (custom_hooks W c_reserve_policy) ctx ord p ms = (p', ms', Inr None) \<and>
     registers_undo (pl_engine p) ms (pl_engine p') ms'"
  "\<exists>r. apply_account_adjustment (custom_hooks W c_reserve_policy) account adj e ms = (e, ms, r)"
  "\<exists>r. retire_account_hook (custom_hooks W c_reserve_policy) account e ms = (e, ms, r)"
  by (simp_all add: custom_hooks_def c_reserve_policy_def mute_policy_def custom_perform_pre_trade_check_def
      custom_apply_account_adjustment_def custom_retire_account_def custom_check_pre_trade_start_def call_start_fn_def
      import_reject_list_result_def drain_pre_trade_result_def policy_pre_trade_result_empty_def c_reserve_registers)

interpretation c_reserve: transactional_policies "[custom_hooks decimal96_repr c_reserve_policy]"
proof unfold_locales
  fix policy :: "(nat, ffi_order, ffi_report, ffi_adjustment) policy" and ctx ord p ms p' ms' r
  assume "policy \<in> set [custom_hooks decimal96_repr c_reserve_policy]"
    "perform_pre_trade_check policy ctx ord p ms = (p', ms', r)"
  then show "registers_undo (pl_engine p) ms (pl_engine p') ms'"
    using c_reserve_hooks(2) [of decimal96_repr ctx ord p ms] by auto
next
  fix policy :: "(nat, ffi_order, ffi_report, ffi_adjustment) policy" and account adj e ms e' ms' r
  assume "policy \<in> set [custom_hooks decimal96_repr c_reserve_policy]"
    "apply_account_adjustment policy account adj e ms = (e', ms', r)"
  then show "registers_undo e ms e' ms'"
    using c_reserve_hooks(3) [of decimal96_repr account adj e ms] by auto
next
  fix policy :: "(nat, ffi_order, ffi_report, ffi_adjustment) policy" and account e ms e' ms' r
  assume "policy \<in> set [custom_hooks decimal96_repr c_reserve_policy]"
    "retire_account_hook policy account e ms = (e', ms', r)"
  then show "registers_undo e ms e' ms'"
    using c_reserve_hooks(4) [of decimal96_repr account e ms] by auto
qed (simp add: c_reserve_hooks(1))

lemma c_reserve_passes:
  assumes "blocked_check (eng_blocked e) (eng_groups e) (ok_account (ctx_account (rq_ctx request))) ScopeOrder = None"
  shows "\<exists>e' reservation. execute_pre_trade_request [custom_hooks W c_reserve_policy] owner request (Some e) = (Some e', Inr reservation)"
proof -
  obtain p' ms' where "perform_pre_trade_check (custom_hooks W c_reserve_policy) (rq_ctx request) (rq_order request)
      \<lparr>pl_engine = e, pl_group_lookup = rq_group_lookup request, pl_drop_copy = None\<rparr> (empty_mutations owner) = (p', ms', Inr None)"
    using c_reserve_hooks(2) by blast
  then show ?thesis
    using assms by (simp add: execute_pre_trade_request_def run_pre_trade_main_stage_def main_step_def main_start_def
        merge_reject_lists_def Let_def)
qed

theorem unclaimed_reservation_leaves_no_trace_witness:
  "ffi_execute_pre_trade decimal96_repr [custom_hooks decimal96_repr c_reserve_policy] 0 1 False True
     (Some (export_order decimal96_repr sample_sell)) (Some counter_engine) =
   (Some counter_engine, \<lparr>co_status = Passed, co_handle = None, co_rejects = None, co_error = None\<rparr>)"
proof -
  let ?ps = "[custom_hooks decimal96_repr c_reserve_policy]"
  have view: "import_order decimal96_repr (export_order decimal96_repr sample_sell) = Inr sample_sell"
    by (rule decimal96.order_round [OF sample_sell_ok])
  obtain request where start: "start_pre_trade ?ps ffi_order_account 0 sample_sell counter_engine = (counter_engine, Inr request)"
    using counter_unblocked
    by (simp add: start_pre_trade_def run_pre_trade_start_stage_def c_reserve_hooks(1) merge_reject_lists_def
        ordinary_pipeline_def Let_def)
  obtain e2 reservation where "execute_pre_trade_request ?ps 1 request (Some counter_engine) = (Some e2, Inr reservation)"
    using c_reserve_passes [OF counter_unblocked] by blast
  then show ?thesis
    by (rule unclaimed_reservation_leaves_no_trace [OF c_reserve.transactional_policies_axioms view start])
qed

text \<open>
  (C35) A handle finalizes once over the C interface. Whatever calls of the commit and rollback functions a caller
  issues on the handle of a reservation or of a drop copy before destroying it, none of them panics, the first one
  decides and no later one has an effect; a handle destroyed without a call is rolled back. On a null handle of
  either kind nothing happens.
\<close>

theorem c_handle_finalizes_once:
  "(rsv_inner r = Some h \<longrightarrow>
     c_handle_life ffi_reservation_commit ffi_reservation_rollback ffi_reservation_destroy cs
       (Some (c_handle_new r)) w =
       Some (case cs of CallCommit # _ \<Rightarrow> handle_commit h w | _ \<Rightarrow> handle_rollback h w)) \<and>
   (dco_inner d = Some h \<longrightarrow>
     c_handle_life ffi_drop_copy_commit ffi_drop_copy_rollback ffi_drop_copy_destroy cs (Some (c_handle_new d)) w =
       Some (case cs of CallCommit # _ \<Rightarrow> handle_commit h w | _ \<Rightarrow> handle_rollback h w)) \<and>
   c_handle_life ffi_reservation_commit ffi_reservation_rollback ffi_reservation_destroy cs None w = Some w \<and>
   c_handle_life ffi_drop_copy_commit ffi_drop_copy_rollback ffi_drop_copy_destroy cs None w = Some w"
  unfolding ffi_handle_defs
  by (simp add: rsv.c_finalized_once dco.c_finalized_once rsv.c_null_idle dco.c_null_idle)

theorem c_handle_finalizes_once_witness:
  "c_handle_life ffi_reservation_commit ffi_reservation_rollback ffi_reservation_destroy
     [CallCommit, CallRollback, CallCommit]
     (Some (c_handle_new (reservation_from_handle
        \<lparr>rh_mutations = \<lparr>mutation_list = [new_engine_owned (\<lambda>n. n + 1) (\<lambda>n. n - 1)], owner_id = 1\<rparr>,
         rh_kill_switch = (\<lambda>_ n. n)\<rparr> lock_new []))) (5::nat) = Some 6"
  using c_handle_finalizes_once [of "reservation_from_handle
        \<lparr>rh_mutations = \<lparr>mutation_list = [new_engine_owned (\<lambda>n. n + 1) (\<lambda>n. n - 1)], owner_id = 1\<rparr>,
         rh_kill_switch = (\<lambda>_ n. n)\<rparr> lock_new []" _ "[CallCommit, CallRollback, CallCommit]" "5::nat"]
  by (simp add: reservation_from_handle_def handle_commit_def commit_all_def mutation_commit_def new_engine_owned_def
      new_infallible_def new_reporting_with_error_def drop_guard_def kill_switch_arm_def failure_default_def)

end
