(* ===== verification/Spec2Isabelle.thy ===== *)
theory Spec2Isabelle
  imports Spot_Settlement Spot_Account_Pnl Engine_Builder Reference_Book Ffi_Engine
begin

text \<open>
  OpenPit is a pre-trade risk engine: orders, execution reports and account adjustments pass through
  a list of policies that accept, reject, reserve and block. This development models the Rust core
  (\<open>src/crates/openpit/src\<close>) and its C interface (\<open>src/crates/openpit-interop\<close>,
  \<open>src/crates/openpit-ffi\<close>), and proves the properties that make it correct.

  \<^bold>\<open>Parts and theories\<close>, in the order they build on each other:

  \<^item> \<open>Pit_Prelude\<close>: results (\<open>bind_res\<close> and its laws), hash maps as
    association lists without repeated keys, list lemmas, the named collections of simplification
    rules.
  \<^item> \<open>Decimal_Ops\<close>: the arithmetic of the \<open>rust_decimal\<close> package, which is not
    part of the repository, as the parameter record \<open>dec_ops\<close>; what the code relies on is the
    locale \<open>decimal_arith\<close>, with the instance \<open>exact96_ops\<close>.
  \<^item> \<open>Params\<close>, \<open>Param_Types\<close>, \<open>Identifiers\<close>
    (\<open>param/\<close>): the value types with their constructors and checked arithmetic, the
    conversions between them, and identifiers with their hashes on machine words. Shown: non-negative
    types stay non-negative, round trips, leverage bounds, the default group is unreachable.
  \<^item> \<open>Storage_Model\<close> (\<open>storage/storage.rs\<close>): every storage operation, the
    exclusive-lock stage of the double-checked ones on its own, and the re-entry detector. The
    interface is the locale \<open>keyed_storage\<close>.
  \<^item> \<open>Holdings\<close>, \<open>Holdings_Store\<close> (\<open>pretrade/holdings/\<close>): balances
    with holds, fills and realized P\&L, and the table of balances with its per-account index,
    sequentially and as interleaved steps of threads. Shown: the reservation gate, equity
    preservation of fills, rollback beside concurrent holds, exactness of the index at quiescence.
  \<^item> \<open>Rejects\<close>, \<open>Pre_Trade_Lock\<close> (\<open>pretrade/reject.rs\<close>,
    \<open>lock.rs\<close> and the result types): codes, blocks, results; the locked prices by group with
    their wire form.
  \<^item> \<open>Mutation\<close> (\<open>core/mutation.rs\<close>, \<open>pretrade/handle.rs\<close>,
    \<open>reservation.rs\<close>, \<open>drop_copy_operation.rs\<close>): two-phase effects on an arbitrary
    state, failures and their scope, handles finalized once (locale \<open>finalizer\<close>).
  \<^item> \<open>Account_Groups\<close>, \<open>Account_Control\<close> (\<open>core/account_groups.rs\<close>,
    \<open>account_control.rs\<close>): memberships, and the registry of blocks with its fast-path flags,
    a refinement of a flag-free specification; the engine uses it through the locale
    \<open>block_gate\<close>.
  \<^item> \<open>Policy_Interface\<close>: what a policy sees of requests and contexts; stateless checks are
    the locale \<open>stateless_check\<close>.
  \<^item> \<open>Order_Policies\<close>, \<open>Rate_Limit\<close>, \<open>Pnl_Kill_Switch\<close>
    (\<open>pretrade/policies/\<close>): order validation and size limits, the rate limit with exact
    sliding windows and lock-free fixed windows, and the P\&L kill switch.
  \<^item> \<open>Engine\<close> (\<open>core/engine.rs\<close>, \<open>pretrade/context.rs\<close>): the two stages,
    deferred requests, drop copy, dry runs, reports, adjustment batches and retirement over an
    arbitrary list of policies. What the engine relies on is the locale
    \<open>transactional_policies\<close>.
  \<^item> \<open>Built_In_Policies\<close>: the four start-stage policies as policies of the engine, for
    which the engine's contract is proved.
  \<^item> \<open>Market_Data\<close> (\<open>marketdata/\<close>): quotes with their lifetimes, the
    instrument registry and the service of publications and reads; registrations interleave as a step
    relation. Shown: reads follow the cascade of tiers, the registry stays consistent, automatic ids
    end, a pushed quote is read back.
  \<^item> \<open>Account_Currencies\<close> (\<open>core/accounts.rs\<close>): the currency of an account,
    its group and the default group.
  \<^item> \<open>Spot_Settings\<close>, \<open>Spot_Funds\<close> (\<open>policies/spot_funds/\<close>:
    \<open>market_data.rs\<close>, \<open>pnl.rs\<close>, \<open>limit_mode.rs\<close>, \<open>mod.rs\<close>,
    \<open>rejects.rs\<close>, \<open>unrealized.rs\<close>, \<open>position_limit.rs\<close>): the settings of the
    spot funds policy, its state, the lease on the account P\&L, the valuation of positions against
    the barriers, and the worst-case position limit.
  \<^item> \<open>Spot_Pre_Trade\<close> (\<open>pre_trade.rs\<close>, \<open>rollback.rs\<close>): what an order
    reserves, live, dry and in drop copy, with its rollback. Shown: accepted orders are covered
    by funds, reserve exactly their legs and are restored by rollback where no sum is rounded, the
    position limit holds for decimals that round by dropping places (\<open>rounds_off_places\<close>), the
    dry run predicts the check.
  \<^item> \<open>Spot_Execution\<close> (\<open>execution.rs\<close>, \<open>views.rs\<close>): fills, fees,
    releases and the account P\&L of execution reports.
  \<^item> \<open>Spot_Settlement\<close>, \<open>Spot_Account_Pnl\<close>: over the previous theories, that an
    order and its reports conserve money, and that every change of the account P\&L is reported and
    policed, a halt stays, and no report waits for a lease.
  \<^item> \<open>State_Transition\<close> (\<open>core/accounts.rs\<close>): the coordinator that lets
    ordinary calls run together and a transition alone, as steps of threads. Shown: a transition runs
    alone, and every call finishes.
  \<^item> \<open>Spot_Adjustment\<close>, \<open>Spot_Policy\<close> (\<open>adjustment.rs\<close>, \<open>mod.rs\<close>):
    account adjustments of spot funds with their rollback, assertions of the account P\&L under a
    lease, retirement of accounts, and spot funds as a policy of the engine. Shown: a refused batch
    restores the state, an accepted one has exactly the effect asked for, an account is retired only
    when idle.
  \<^item> \<open>Reconfiguration\<close> (\<open>core/configure.rs\<close>, \<open>core/accounts.rs\<close>,
    \<open>storage/config_cell.rs\<close>): the settings cells, every operation of the configurator and of the
    accounts service, and the sweep that a change of barriers runs over the accounts. Shown: the sweep
    blocks exactly the breached accounts, a change of membership re-checks barriers, a failed
    reconfiguration changes nothing.
  \<^item> \<open>Engine_Builder\<close> (\<open>core/engine_builder.rs\<close>): collecting policies and building
    an engine. Shown: a build succeeds exactly for unique names and groups, and the registry then holds
    exactly the cells of the built-in policies.
  \<^item> \<open>Reference_Book\<close> (\<open>core/reference_book.rs\<close>): instruments, identifiers and
    settlement schemes. Shown: identifiers are stable and unique through any history.
  \<^item> \<open>Request_Types\<close> (\<open>core/order.rs\<close>, \<open>core/execution_report.rs\<close>,
    \<open>core/account_adjustment.rs\<close>): payloads and wrappers as updates of what the accessors
    answer. Shown: stacks of wrappers are read back field by field, and the kill switch
    subtracts the reported fee.
  \<^item> \<open>Interop\<close> (\<open>crates/openpit-interop\<close>): requests made of groups that may be
    absent. Shown: complete aggregates answer as the native requests do, incomplete ones change nothing.
  \<^item> \<open>Ffi_Values\<close>, \<open>Ffi_Requests\<close> (\<open>crates/openpit-ffi\<close>: \<open>param.rs\<close>,
    \<open>instrument.rs\<close>, \<open>string.rs\<close>, \<open>order.rs\<close>, \<open>execution_report.rs\<close>,
    \<open>account_adjustment.rs\<close>): the C form of values and requests. The stored form of decimals is
    the parameter \<open>decimal_repr\<close> with the locale \<open>decimal_wire\<close> and the instance
    \<open>decimal96_repr\<close>. Shown: requests survive encoding and decoding, and nothing invalid is
    decoded.
  \<^item> \<open>Ffi_Results\<close> (\<open>reject.rs\<close>, \<open>account_outcome.rs\<close>): the C form of
    rejects, blocks and outcomes, their lists, and the collectors that callbacks fill. The rendering of
    the details of a reject is a parameter. Shown: what is pushed survives, texts always become UTF-8, and
    entries that are decoded are valid.
  \<^item> \<open>Ffi_Policy\<close> (\<open>policy/custom.rs\<close>, \<open>policy/mod.rs\<close>): policies and mutations
    whose hooks are callbacks of the caller, as policies of \<open>Engine\<close>. Shown: a callback without an
    answer fails closed for orders, drop copies, adjustments and retirement (without an answer of the report
    callback there are no blocks), and a finalizer that fails stops all trading.
  \<^item> \<open>Ffi_Engine\<close> (\<open>engine.rs\<close>): the builder, the entry points, the handles of the caller
    and the administration of accounts. Shown: a call with an encoded request is the call of the engine, what
    does not decode changes nothing, a reservation without a taker is rolled back, and a handle finalizes
    once. The locale \<open>finalizer\<close> of \<open>Mutation\<close> carries the handles.
  \<^item> This theory: the properties that span reports, the kill switch, the registry and the
    pipeline.

  \<^bold>\<open>Correspondence.\<close> A struct is a record, an enum a datatype, a \<open>Result\<close> a sum with
  the error on the left, machine integers are words, decimals rationals computed by \<open>dec_ops\<close>;
  a property that needs sums without rounding names them (\<open>exact_order\<close>, \<open>fill_values\<close>).
  Interior mutability is explicit state: an operation takes the state and returns it updated. An
  operation that runs under one exclusive lock is one function; where threads interleave between
  locks or atomic accesses (\<open>store_step\<close>, \<open>push_step\<close>, the exclusive stages of the
  storage) each section is a step. Texts of rejects are lists of pieces. The clock and the owner
  identifiers of mutation collectors are arguments. All recursion is structural or has a termination
  proof; no definition uses fuel.

  \<^bold>\<open>Not modelled:\<close> the lock types and the choice of a synchronization mode, which are types
  in the code; floating-point constructors of leverage; the payloads for derivative positions and
  margin in the wrappers of the core, which its policies do not read; the guards and reports that exist
  in debug or test builds only; of the C interface the handles of built-in policies, of market data, of
  locks and of reference books (raw pointers around modelled operations), the generated arithmetic of the
  typed decimals and the freeing of memory; the derive macros and the bindings of other languages.
\<close>

section \<open>From a losing report to a stopped account\<close>

lemma built_in_report:
  "engine_apply_execution_report (built_in_policies D :: 'a built_in_policy list) account_id_of report e =
     (case pnl_apply_execution_report D (pnl_of e) report of
        (x, r) \<Rightarrow>
          (let e = put_pnl x e;
               result = (case r of Some res \<Rightarrow> res | None \<Rightarrow> blocks_only [])
           in case post_account_blocks result of
                first # _ \<Rightarrow>
                  (e\<lparr>eng_blocked := record_execution_report (eng_blocked e)
                      (ok_account (account_id_of report)) first\<rparr>, result)
              | [] \<Rightarrow> (e, result)))"
  by (auto simp: engine_apply_execution_report_def built_in_policies_def hook_defs blocks_only_def Let_def
      split: prod.splits option.splits list.splits)

lemma outside_report_blocks:
  assumes "er_instrument report = Inr i" and "er_account_id report = Inr a"
    and "er_pnl report = Inr p" and "er_fee report = Inr f"
    and "dec_checked_add D p (- f) = Some d"
    and "dec_checked_add D (current_pnl_of x a (settlement_asset i)) d = Some t"
    and "is_outside_bounds (pp_settings x) t (settlement_asset i) a"
  shows "\<exists>x' b. pnl_apply_execution_report D x report = (x', Some (blocks_only [b]))"
  using report_applied(1) [OF assms(1-5), of x] assms(6,7)
  by (auto simp: Let_def accumulate_with_mut accumulate_def sg_checked_add_def)

text \<open>
  (C18) The kill switch reaches the next order. When a readable execution report takes the realized
  P\&L of its account and settlement asset outside an applicable barrier, the engine blocks the
  account, and from then on every order of the account is rejected before any policy runs, without
  the engine changing.
\<close>

theorem losing_report_stops_account:
  assumes "flags_ok (eng_blocked e)"
    and "er_instrument report = Inr i" and "er_account_id report = Inr a"
    and "er_pnl report = Inr p" and "er_fee report = Inr f"
    and "dec_checked_add D p (- f) = Some d"
    and "dec_checked_add D (current_pnl_of (pnl_of e) a (settlement_asset i)) d = Some t"
    and "is_outside_bounds (pp_settings (pnl_of e)) t (settlement_asset i) a"
    and "engine_apply_execution_report (built_in_policies D :: 'a built_in_policy list) er_account_id
      report e = (e', result)"
    and "ord_account_id ord = Inr a"
  shows "is_blocked (eng_blocked e') (eng_groups e') a \<and>
    (\<exists>rs. start_pre_trade (built_in_policies D :: 'a built_in_policy list) ord_account_id now ord e' =
      (e', Inl rs))"
proof -
  obtain x' b where "pnl_apply_execution_report D (pnl_of e) report = (x', Some (blocks_only [b]))"
    using outside_report_blocks [OF assms(2-8)] by blast
  then have e': "eng_blocked e' = fst (block_account (eng_blocked e) a b)"
    using assms(3,9)
    by (auto simp: built_in_report blocks_only_def ok_account_def record_execution_report_def put_pnl_def)
  then have "is_blocked (eng_blocked e') (eng_groups e') a" "flags_ok (eng_blocked e')"
    using registry.latch_blocks [OF assms(1)] registry.latch_okay [OF assms(1)] by simp_all
  then show ?thesis
    using blocked_check_blocked [of "eng_blocked e'" "eng_groups e'" a ScopeOrder] assms(10)
    by (auto simp: start_pre_trade_def ok_account_def Let_def)
qed

theorem losing_report_stops_account_witness:
  "is_blocked (eng_blocked (fst (engine_apply_execution_report (built_in_policies exact96_ops ::
       unit built_in_policy list) er_account_id losing_report sample_engine)))
     (eng_groups (fst (engine_apply_execution_report (built_in_policies exact96_ops ::
       unit built_in_policy list) er_account_id losing_report sample_engine))) 7"
proof -
  obtain e' result where run: "engine_apply_execution_report (built_in_policies exact96_ops ::
      unit built_in_policy list) er_account_id losing_report sample_engine = (e', result)"
    by force
  have pnl: "current_pnl_of (pnl_of sample_engine) 7 ''USD'' = - 120"
    "is_outside_bounds (pp_settings (pnl_of sample_engine)) (- 161) ''USD'' 7"
    by (simp_all add: sample_engine_def sample_state_def pnl_of_def current_pnl_of_def storage_with_def
        stop_loss_policy_def is_outside_bounds_def outside_bounds_def breached_sides_def)
  show ?thesis
    unfolding run fst_conv
    using losing_report_stops_account [OF _ _ _ _ _ _ _ _ run, of "\<lparr>underlying_asset = ''AAPL'',
        settlement_asset = ''USD''\<rparr>" 7 "- 39" 2 "- 41" "- 161" "order_of 7"] pnl
    by (simp add: losing_report_def in_range_def sample_engine_def order_of_def flags_ok_new)
qed

end
